(* ===== verification/Prelude.thy ===== *)
theory Prelude
  imports
    Main
    "HOL-Library.Word"
    "HOL-Library.Product_Lexorder"
    "HOL-Library.List_Lexorder"
    "HOL-Library.Char_ord"
    "HOL-Library.Sublist"
    "HOL-Library.Multiset"
begin

section \<open>Shared types, standard-library functions and list lemmas\<close>

text \<open>
  This theory holds what every component shares: the names of the machine types, the
  result type, the functions of Rust's standard library that the sources call (sorting by
  a key, removing consecutive duplicates, lower-casing, printing numbers), and the
  lemmas about them.

  \<^item> \<open>Uuid\<close> is a 128-bit word, its nil value is \<open>0\<close>; fresh identifiers (\<open>Uuid::new_v4\<close>)
    are arguments of the operations that draw them.
  \<^item> \<open>DateTime<Utc>\<close> is an \<open>int\<close> (milliseconds); the clock (\<open>Utc::now\<close>) is an argument.
  \<^item> \<open>Result<T, E>\<close> is the sum \<open>'e + 'a\<close>, with \<open>Inl\<close> for \<open>Err\<close> and \<open>Inr\<close> for \<open>Ok\<close>.
  \<^item> \<open>i32\<close> values are \<open>int\<close>, and the cast \<open>usize as i32\<close> writes the wrap-around out.
  \<^item> \<open>String\<close> is a list of ASCII characters.
\<close>

named_theorems result_simps "characteristic equations of result-returning operations"
named_theorems eq_defs "definitions of the overridden equality tests of the entities"
named_theorems frame_simps "fields an operation leaves as they are"

type_synonym u8 = "8 word"
type_synonym u16 = "16 word"
type_synonym uuid = "128 word"
type_synonym datetime = int
type_synonym ('a, 'e) result = "'e + 'a"

abbreviation Ok :: "'a \<Rightarrow> ('a, 'e) result" where
  "Ok \<equiv> Inr"

abbreviation Err :: "'e \<Rightarrow> ('a, 'e) result" where
  "Err \<equiv> Inl"

abbreviation uuid_nil :: uuid where
  "uuid_nil \<equiv> 0"

definition is_ok :: "('a, 'e) result \<Rightarrow> bool" where
  "is_ok r = (case r of Inl _ \<Rightarrow> False | Inr _ \<Rightarrow> True)"

lemma is_ok_simps [simp]: "is_ok (Inr x)" "\<not> is_ok (Inl e)"
  by (simp_all add: is_ok_def)

lemma is_ok_iff: "is_ok r \<longleftrightarrow> (\<exists>x. r = Inr x)"
  by (cases r) auto

lemma is_okE [elim?]:
  assumes "is_ok r"
  obtains x where "r = Inr x"
  using assms by (cases r) auto

subsection \<open>Casts\<close>

text \<open>\<open>n as i32\<close> for an unsigned \<open>n\<close>: the low 32 bits read in two's complement.\<close>

definition as_i32 :: "nat \<Rightarrow> int" where
  "as_i32 n = (int n + 2 ^ 31) mod 2 ^ 32 - 2 ^ 31"

lemma as_i32_small [simp]: "n < 2 ^ 31 \<Longrightarrow> as_i32 n = int n"
  by (simp add: as_i32_def)

lemma as_i32_range: "- (2 ^ 31) \<le> as_i32 n \<and> as_i32 n < 2 ^ 31"
proof -
  have "0 \<le> (int n + 2 ^ 31) mod 2 ^ 32" and "(int n + 2 ^ 31) mod 2 ^ 32 < 2 ^ 32"
    by simp_all
  then show ?thesis by (simp add: as_i32_def)
qed

text \<open>\<open>a + b\<close> on \<open>i32\<close>, wrapping as the release build does.\<close>

definition i32_add :: "int \<Rightarrow> int \<Rightarrow> int" where
  "i32_add a b = (a + b + 2 ^ 31) mod 2 ^ 32 - 2 ^ 31"

lemma i32_add_small [simp]:
  "- (2 ^ 31) \<le> a + b \<Longrightarrow> a + b < 2 ^ 31 \<Longrightarrow> i32_add a b = a + b"
  by (simp add: i32_add_def)

lemma unat_u16_less: "unat (w :: u16) < 65536"
proof -
  have "unat w < 2 ^ LENGTH(16)" by (rule unsigned_less)
  then show ?thesis by simp
qed

lemma as_i32_u16 [simp]: "as_i32 (unat (w :: u16)) = uint w"
  using unat_u16_less [of w] by simp

subsection \<open>Strings\<close>

definition ascii_lower :: "char \<Rightarrow> char" where
  "ascii_lower c = (let n = (of_char c :: nat) in
     if 65 \<le> n \<and> n \<le> 90 then char_of (n + 32) else c)"

definition ascii_upper :: "char \<Rightarrow> char" where
  "ascii_upper c = (let n = (of_char c :: nat) in
     if 97 \<le> n \<and> n \<le> 122 then char_of (n - 32) else c)"

definition is_alphanumeric :: "char \<Rightarrow> bool" where
  "is_alphanumeric c = (let n = (of_char c :: nat) in
     (48 \<le> n \<and> n \<le> 57) \<or> (65 \<le> n \<and> n \<le> 90) \<or> (97 \<le> n \<and> n \<le> 122))"

definition is_digit_char :: "char \<Rightarrow> bool" where
  "is_digit_char c = (let n = (of_char c :: nat) in 48 \<le> n \<and> n \<le> 57)"

definition to_lowercase :: "string \<Rightarrow> string" where
  "to_lowercase s = map ascii_lower s"

definition str_contains :: "string \<Rightarrow> string \<Rightarrow> bool" where
  "str_contains s pat = sublist pat s"

fun join :: "string \<Rightarrow> string list \<Rightarrow> string" where
  "join sep [] = []"
| "join sep [s] = s"
| "join sep (s # t # ss) = s @ sep @ join sep (t # ss)"

text \<open>Decimal printing of an unsigned number, as \<open>format!("{}", n)\<close> does.\<close>

definition digit_char :: "nat \<Rightarrow> char" where
  "digit_char d = char_of (48 + d)"

fun show_nat :: "nat \<Rightarrow> string" where
  "show_nat n = (if n < 10 then [digit_char n] else show_nat (n div 10) @ [digit_char (n mod 10)])"

declare show_nat.simps [simp del]

definition show_int :: "int \<Rightarrow> string" where
  "show_int i = (if i < 0 then ''-'' @ show_nat (nat (- i)) else show_nat (nat i))"

lemma digit_char_inj: "a < 10 \<Longrightarrow> b < 10 \<Longrightarrow> digit_char a = digit_char b \<Longrightarrow> a = b"
proof -
  assume "a < 10" "b < 10" "digit_char a = digit_char b"
  then have "of_char (char_of (48 + a) :: char) = (of_char (char_of (48 + b) :: char) :: nat)"
    by (simp add: digit_char_def)
  with \<open>a < 10\<close> \<open>b < 10\<close> show "a = b" by simp
qed

lemma show_nat_not_Nil [simp]: "show_nat n \<noteq> []"
  by (subst show_nat.simps) simp

lemma show_nat_inj: "show_nat m = show_nat n \<Longrightarrow> m = n"
proof (induction m arbitrary: n rule: show_nat.induct)
  case (1 m)
  have rec: "show_nat k = (if k < 10 then [digit_char k]
      else show_nat (k div 10) @ [digit_char (k mod 10)])" for k
    by (rule show_nat.simps)
  show ?case
  proof (cases "m < 10 \<or> n < 10")
    case True
    with "1.prems" show ?thesis
      by (auto simp: rec [of m] rec [of n] eq_commute [of "[]"] digit_char_inj split: if_splits)
  next
    case False
    with "1.prems" have "show_nat (m div 10) = show_nat (n div 10)"
      and "digit_char (m mod 10) = digit_char (n mod 10)"
      by (simp_all add: rec [of m] rec [of n])
    then have "m div 10 = n div 10" and "m mod 10 = n mod 10"
      using False by (auto intro: "1.IH" digit_char_inj)
    then show ?thesis by (metis div_mult_mod_eq)
  qed
qed

lemma digit_char_not_slash: "d < 10 \<Longrightarrow> digit_char d \<noteq> CHR ''/''"
proof
  assume "d < 10" "digit_char d = CHR ''/''"
  then have "of_char (digit_char d) = (of_char (CHR ''/'') :: nat)" by simp
  with \<open>d < 10\<close> show False by (simp add: digit_char_def)
qed

lemma show_nat_no_slash: "c \<in> set (show_nat n) \<Longrightarrow> c \<noteq> CHR ''/''"
proof (induction n rule: show_nat.induct)
  case (1 n)
  then show ?case
    using digit_char_not_slash [of "n mod 10"] digit_char_not_slash [of n]
    by (subst (asm) (2) show_nat.simps) (auto split: if_splits)
qed

lemma append_sep_inj:
  assumes "c \<notin> set xs" and "c \<notin> set ys" and "xs @ c # us = ys @ c # vs"
  shows "xs = ys \<and> us = vs"
  using assms
proof (induction xs arbitrary: ys)
  case Nil
  then show ?case by (cases ys) auto
next
  case (Cons x xs)
  then show ?case by (cases ys) auto
qed

subsection \<open>Vectors: \<open>dedup\<close>, \<open>sort_by_key\<close>, \<open>retain\<close>\<close>

lemma distinct_map_eqI:
  "(\<And>x y. f x = f y \<longleftrightarrow> g x = g y) \<Longrightarrow> distinct (map f xs) \<longleftrightarrow> distinct (map g xs)"
  by (simp add: distinct_map inj_on_def)

lemma map_sort_key: "map f (sort_key f xs) = sort (map f xs)"
  by (rule properties_for_sort [symmetric]) simp_all

lemma sort_key_unique:
  assumes "mset ys = mset xs" "sorted (map f ys)" "distinct (map f ys)"
  shows "sort_key f xs = ys"
proof (rule map_sorted_distinct_set_unique [where f = f])
  have set: "set ys = set xs" using assms(1) by (rule mset_eq_setD)
  then show "set (sort_key f xs) = set ys" by simp
  show "inj_on f (set (sort_key f xs) \<union> set ys)"
    using assms(3) set by (simp add: distinct_map)
  have "mset (map f xs) = mset (map f ys)" using assms(1) by simp
  then have "distinct (map f xs)" using assms(3) mset_eq_imp_distinct_iff by blast
  then show "distinct (map f (sort_key f xs))" by (simp add: map_sort_key)
qed (use assms in simp_all)

lemma set_map_filter: "set (List.map_filter f xs) = {y. \<exists>x \<in> set xs. f x = Some y}"
  by (induction xs) (auto simp: map_filter_simps split: option.splits)

text \<open>A loop over a list that keeps a property of its state.\<close>

lemma foldl_invariant:
  assumes "P s" and "\<And>s x. P s \<Longrightarrow> x \<in> set xs \<Longrightarrow> P (f s x)"
  shows "P (foldl f s xs)"
  using assms by (induction xs arbitrary: s) auto

text \<open>
  \<open>Vec::dedup\<close> removes an element that equals the last element it kept, by the element
  type's own equality test.
\<close>

fun dedup_from :: "('a \<Rightarrow> 'a \<Rightarrow> bool) \<Rightarrow> 'a \<Rightarrow> 'a list \<Rightarrow> 'a list" where
  "dedup_from eq x [] = [x]"
| "dedup_from eq x (y # ys) =
     (if eq y x then dedup_from eq x ys else x # dedup_from eq y ys)"

fun dedup_by :: "('a \<Rightarrow> 'a \<Rightarrow> bool) \<Rightarrow> 'a list \<Rightarrow> 'a list" where
  "dedup_by eq [] = []"
| "dedup_by eq (x # xs) = dedup_from eq x xs"

lemma dedup_from_subset: "set (dedup_from eq x xs) \<subseteq> insert x (set xs)"
  by (induction xs arbitrary: x) auto

lemma dedup_by_subset: "set (dedup_by eq xs) \<subseteq> set xs"
  using dedup_from_subset by (cases xs) fastforce+

lemma dedup_from_not_Nil [simp]: "dedup_from eq x xs \<noteq> []"
  by (induction xs arbitrary: x) auto

lemma dedup_by_Nil_iff [simp]: "dedup_by eq xs = [] \<longleftrightarrow> xs = []"
  by (cases xs) auto

text \<open>The idiom \<open>v.sort_by_key(key); v.dedup();\<close>. \<^const>\<open>sort_key\<close> is stable, as Rust's sort is.\<close>

definition sort_dedup :: "('a \<Rightarrow> 'k::linorder) \<Rightarrow> ('a \<Rightarrow> 'a \<Rightarrow> bool) \<Rightarrow> 'a list \<Rightarrow> 'a list" where
  "sort_dedup key eq xs = dedup_by eq (sort_key key xs)"

text \<open>
  The idiom is right when the element's equality test is equality of the sort keys. That
  is the contract of the following locale; every type that is sorted and deduplicated in
  the program interprets it.
\<close>

locale keyed_eq =
  fixes key :: "'a \<Rightarrow> 'k::linorder"
    and eq :: "'a \<Rightarrow> 'a \<Rightarrow> bool"
  assumes eq_iff_key: "eq x y \<longleftrightarrow> key x = key y"
begin

lemma key_image_dedup_from: "key ` set (dedup_from eq x xs) = insert (key x) (key ` set xs)"
  by (induction xs arbitrary: x) (auto simp: eq_iff_key)

lemma key_image_dedup: "key ` set (dedup_by eq xs) = key ` set xs"
  by (cases xs) (auto simp: key_image_dedup_from)

lemma sorted_distinct_dedup_from:
  "sorted (map key (x # xs)) \<Longrightarrow>
     sorted (map key (dedup_from eq x xs)) \<and> distinct (map key (dedup_from eq x xs))"
proof (induction xs arbitrary: x)
  case Nil
  then show ?case by simp
next
  case (Cons y ys)
  then have le: "key x \<le> key y" and srt: "sorted (map key (y # ys))"
    and srt': "sorted (map key (x # ys))"
    by auto
  show ?case
  proof (cases "eq y x")
    case True
    with Cons.IH [OF srt'] show ?thesis by simp
  next
    case False
    with le have "key x < key y" by (simp add: eq_iff_key)
    moreover have "\<forall>k \<in> set (map key (dedup_from eq y ys)). key y \<le> k"
      using srt by (auto simp: key_image_dedup_from)
    ultimately show ?thesis
      using False Cons.IH [OF srt] by fastforce
  qed
qed

lemma sorted_distinct_dedup:
  assumes "sorted (map key xs)"
  shows "sorted (map key (dedup_by eq xs)) \<and> distinct (map key (dedup_by eq xs))"
proof (cases xs)
  case Nil
  then show ?thesis by simp
next
  case (Cons y ys)
  then show ?thesis
    using sorted_distinct_dedup_from [of y ys] assms by simp
qed

lemma key_image_sort_dedup: "key ` set (sort_dedup key eq xs) = key ` set xs"
  by (simp add: sort_dedup_def key_image_dedup)

lemma sort_dedup_subset: "set (sort_dedup key eq xs) \<subseteq> set xs"
  using dedup_by_subset [of eq "sort_key key xs"] by (simp add: sort_dedup_def)

lemma sorted_sort_dedup: "sorted (map key (sort_dedup key eq xs))"
  and distinct_sort_dedup: "distinct (map key (sort_dedup key eq xs))"
  using sorted_distinct_dedup [of "sort_key key xs"] by (simp_all add: sort_dedup_def)

text \<open>Membership by the type's own equality test survives sorting and deduplication.\<close>

lemma ex_eq_sort_dedup:
  "(\<exists>y \<in> set (sort_dedup key eq xs). eq y x) \<longleftrightarrow> (\<exists>y \<in> set xs. eq y x)"
proof -
  have "(\<exists>y \<in> set ys. eq y x) \<longleftrightarrow> key x \<in> key ` set ys" for ys
    unfolding eq_iff_key image_iff by metis
  then show ?thesis by (simp add: key_image_sort_dedup)
qed

lemma eq_refl: "eq x x"
  and eq_sym: "eq x y \<Longrightarrow> eq y x"
  and eq_trans: "eq x y \<Longrightarrow> eq y z \<Longrightarrow> eq x z"
  by (simp_all add: eq_iff_key)

end

end
