(* ===== verification/Ports.thy ===== *)
theory Ports
  imports Prelude
begin

section \<open>Ports\<close>

text \<open>
  Port types, port entities and their stored form
  (\<^verbatim>\<open>backend/src/server/ports/impl/base.rs\<close>, \<^verbatim>\<open>backend/src/server/ports/impl/storage.rs\<close>).

  A port type is one of the predefined variants or \<open>Custom\<close> with a number and a protocol.
  The program compares port types by their configuration, so a custom port 80/tcp equals
  the predefined HTTP port. Deserialisation and \<open>from_row\<close> normalise a configuration to the
  predefined variant that has it. Variant names (\<open>IntoStaticStr\<close>, \<open>Display\<close>) and the
  iteration order (\<open>EnumIter\<close>) are those the derive macros document: the identifier of the
  variant, and declaration order with the payload at its default.
\<close>

subsection \<open>Transport protocols\<close>

datatype TransportProtocol = TransportProtocol_Udp | TransportProtocol_Tcp

text \<open>\<open>derive(PartialOrd, Ord)\<close>: declaration order, so \<open>Udp < Tcp\<close>.\<close>

fun TransportProtocol_rank :: "TransportProtocol \<Rightarrow> nat" where
  "TransportProtocol_rank TransportProtocol_Udp = 0"
| "TransportProtocol_rank TransportProtocol_Tcp = 1"

lemma TransportProtocol_rank_inj:
  "TransportProtocol_rank p = TransportProtocol_rank q \<longleftrightarrow> p = q"
  by (cases p; cases q) auto

instantiation TransportProtocol :: linorder
begin

definition less_eq_TransportProtocol :: "TransportProtocol \<Rightarrow> TransportProtocol \<Rightarrow> bool" where
  "less_eq_TransportProtocol p q \<longleftrightarrow> TransportProtocol_rank p \<le> TransportProtocol_rank q"

definition less_TransportProtocol :: "TransportProtocol \<Rightarrow> TransportProtocol \<Rightarrow> bool" where
  "less_TransportProtocol p q \<longleftrightarrow> TransportProtocol_rank p < TransportProtocol_rank q"

instance
  by standard
    (auto simp: less_eq_TransportProtocol_def less_TransportProtocol_def TransportProtocol_rank_inj)

end

fun TransportProtocol_display :: "TransportProtocol \<Rightarrow> string" where
  "TransportProtocol_display TransportProtocol_Udp = ''Udp''"
| "TransportProtocol_display TransportProtocol_Tcp = ''Tcp''"

subsection \<open>Port types\<close>

record PortConfig =
  pc_number :: u16
  pc_protocol :: TransportProtocol

definition PortConfig_eq :: "PortConfig \<Rightarrow> PortConfig \<Rightarrow> bool" where
  [eq_defs]: "PortConfig_eq a b \<longleftrightarrow> pc_number a = pc_number b \<and> pc_protocol a = pc_protocol b"

datatype PortType =
    PortType_Ssh
  | PortType_Telnet
  | PortType_DnsUdp
  | PortType_DnsTcp
  | PortType_Samba
  | PortType_Nfs
  | PortType_Ftp
  | PortType_Ipp
  | PortType_LdpTcp
  | PortType_LdpUdp
  | PortType_Ldap
  | PortType_Ldaps
  | PortType_Kerberos
  | PortType_Snmp
  | PortType_Rdp
  | PortType_Ntp
  | PortType_Sip
  | PortType_SipTls
  | PortType_Rtsp
  | PortType_Dhcp
  | PortType_Http
  | PortType_MySql
  | PortType_PostgreSQL
  | PortType_MongoDB
  | PortType_Redis
  | PortType_MsSql
  | PortType_Docker
  | PortType_DockerTls
  | PortType_Kubernetes
  | PortType_RabbitMqMgmt
  | PortType_Cassandra
  | PortType_Elasticsearch
  | PortType_InfluxDb
  | PortType_CouchDb
  | PortType_Kafka
  | PortType_Http3000
  | PortType_Http5000
  | PortType_Http8080
  | PortType_Http8081
  | PortType_Http8082
  | PortType_Http8888
  | PortType_Http9000
  | PortType_Https
  | PortType_Https8443
  | PortType_Https9443
  | PortType_Https10443
  | PortType_Mqtt
  | PortType_MqttTls
  | PortType_AMQP
  | PortType_AMQPTls
  | PortType_Wireguard
  | PortType_OpenVPN
  | PortType_Custom PortConfig

text \<open>\<open>PortType::iter()\<close>.\<close>

definition PortType_iter :: "PortType list" where
  "PortType_iter =
    [PortType_Ssh,
     PortType_Telnet,
     PortType_DnsUdp,
     PortType_DnsTcp,
     PortType_Samba,
     PortType_Nfs,
     PortType_Ftp,
     PortType_Ipp,
     PortType_LdpTcp,
     PortType_LdpUdp,
     PortType_Ldap,
     PortType_Ldaps,
     PortType_Kerberos,
     PortType_Snmp,
     PortType_Rdp,
     PortType_Ntp,
     PortType_Sip,
     PortType_SipTls,
     PortType_Rtsp,
     PortType_Dhcp,
     PortType_Http,
     PortType_MySql,
     PortType_PostgreSQL,
     PortType_MongoDB,
     PortType_Redis,
     PortType_MsSql,
     PortType_Docker,
     PortType_DockerTls,
     PortType_Kubernetes,
     PortType_RabbitMqMgmt,
     PortType_Cassandra,
     PortType_Elasticsearch,
     PortType_InfluxDb,
     PortType_CouchDb,
     PortType_Kafka,
     PortType_Http3000,
     PortType_Http5000,
     PortType_Http8080,
     PortType_Http8081,
     PortType_Http8082,
     PortType_Http8888,
     PortType_Http9000,
     PortType_Https,
     PortType_Https8443,
     PortType_Https9443,
     PortType_Https10443,
     PortType_Mqtt,
     PortType_MqttTls,
     PortType_AMQP,
     PortType_AMQPTls,
     PortType_Wireguard,
     PortType_OpenVPN,
     PortType_Custom \<lparr>pc_number = 0, pc_protocol = TransportProtocol_Udp\<rparr>]"

primrec PortType_config :: "PortType \<Rightarrow> PortConfig" where
  "PortType_config PortType_Ssh = \<lparr>pc_number = 22, pc_protocol = TransportProtocol_Tcp\<rparr>"
| "PortType_config PortType_Telnet = \<lparr>pc_number = 23, pc_protocol = TransportProtocol_Tcp\<rparr>"
| "PortType_config PortType_DnsUdp = \<lparr>pc_number = 53, pc_protocol = TransportProtocol_Udp\<rparr>"
| "PortType_config PortType_DnsTcp = \<lparr>pc_number = 53, pc_protocol = TransportProtocol_Tcp\<rparr>"
| "PortType_config PortType_Samba = \<lparr>pc_number = 445, pc_protocol = TransportProtocol_Tcp\<rparr>"
| "PortType_config PortType_Nfs = \<lparr>pc_number = 2049, pc_protocol = TransportProtocol_Tcp\<rparr>"
| "PortType_config PortType_Ftp = \<lparr>pc_number = 21, pc_protocol = TransportProtocol_Tcp\<rparr>"
| "PortType_config PortType_Ipp = \<lparr>pc_number = 631, pc_protocol = TransportProtocol_Tcp\<rparr>"
| "PortType_config PortType_LdpTcp = \<lparr>pc_number = 515, pc_protocol = TransportProtocol_Tcp\<rparr>"
| "PortType_config PortType_LdpUdp = \<lparr>pc_number = 515, pc_protocol = TransportProtocol_Udp\<rparr>"
| "PortType_config PortType_Ldap = \<lparr>pc_number = 389, pc_protocol = TransportProtocol_Tcp\<rparr>"
| "PortType_config PortType_Ldaps = \<lparr>pc_number = 636, pc_protocol = TransportProtocol_Tcp\<rparr>"
| "PortType_config PortType_Kerberos = \<lparr>pc_number = 88, pc_protocol = TransportProtocol_Tcp\<rparr>"
| "PortType_config PortType_Snmp = \<lparr>pc_number = 161, pc_protocol = TransportProtocol_Udp\<rparr>"
| "PortType_config PortType_Rdp = \<lparr>pc_number = 3389, pc_protocol = TransportProtocol_Tcp\<rparr>"
| "PortType_config PortType_Ntp = \<lparr>pc_number = 123, pc_protocol = TransportProtocol_Udp\<rparr>"
| "PortType_config PortType_Sip = \<lparr>pc_number = 5060, pc_protocol = TransportProtocol_Tcp\<rparr>"
| "PortType_config PortType_SipTls = \<lparr>pc_number = 5061, pc_protocol = TransportProtocol_Tcp\<rparr>"
| "PortType_config PortType_Rtsp = \<lparr>pc_number = 554, pc_protocol = TransportProtocol_Tcp\<rparr>"
| "PortType_config PortType_Dhcp = \<lparr>pc_number = 67, pc_protocol = TransportProtocol_Udp\<rparr>"
| "PortType_config PortType_Http = \<lparr>pc_number = 80, pc_protocol = TransportProtocol_Tcp\<rparr>"
| "PortType_config PortType_MySql = \<lparr>pc_number = 3306, pc_protocol = TransportProtocol_Tcp\<rparr>"
| "PortType_config PortType_PostgreSQL = \<lparr>pc_number = 5432, pc_protocol = TransportProtocol_Tcp\<rparr>"
| "PortType_config PortType_MongoDB = \<lparr>pc_number = 27017, pc_protocol = TransportProtocol_Tcp\<rparr>"
| "PortType_config PortType_Redis = \<lparr>pc_number = 6379, pc_protocol = TransportProtocol_Tcp\<rparr>"
| "PortType_config PortType_MsSql = \<lparr>pc_number = 1433, pc_protocol = TransportProtocol_Tcp\<rparr>"
| "PortType_config PortType_Docker = \<lparr>pc_number = 2375, pc_protocol = TransportProtocol_Tcp\<rparr>"
| "PortType_config PortType_DockerTls = \<lparr>pc_number = 2376, pc_protocol = TransportProtocol_Tcp\<rparr>"
| "PortType_config PortType_Kubernetes = \<lparr>pc_number = 6443, pc_protocol = TransportProtocol_Tcp\<rparr>"
| "PortType_config PortType_RabbitMqMgmt = \<lparr>pc_number = 15672, pc_protocol = TransportProtocol_Tcp\<rparr>"
| "PortType_config PortType_Cassandra = \<lparr>pc_number = 9042, pc_protocol = TransportProtocol_Tcp\<rparr>"
| "PortType_config PortType_Elasticsearch = \<lparr>pc_number = 9200, pc_protocol = TransportProtocol_Tcp\<rparr>"
| "PortType_config PortType_InfluxDb = \<lparr>pc_number = 8086, pc_protocol = TransportProtocol_Tcp\<rparr>"
| "PortType_config PortType_CouchDb = \<lparr>pc_number = 5984, pc_protocol = TransportProtocol_Tcp\<rparr>"
| "PortType_config PortType_Kafka = \<lparr>pc_number = 9092, pc_protocol = TransportProtocol_Tcp\<rparr>"
| "PortType_config PortType_Http3000 = \<lparr>pc_number = 3000, pc_protocol = TransportProtocol_Tcp\<rparr>"
| "PortType_config PortType_Http5000 = \<lparr>pc_number = 5000, pc_protocol = TransportProtocol_Tcp\<rparr>"
| "PortType_config PortType_Http8080 = \<lparr>pc_number = 8080, pc_protocol = TransportProtocol_Tcp\<rparr>"
| "PortType_config PortType_Http8081 = \<lparr>pc_number = 8081, pc_protocol = TransportProtocol_Tcp\<rparr>"
| "PortType_config PortType_Http8082 = \<lparr>pc_number = 8082, pc_protocol = TransportProtocol_Tcp\<rparr>"
| "PortType_config PortType_Http8888 = \<lparr>pc_number = 8888, pc_protocol = TransportProtocol_Tcp\<rparr>"
| "PortType_config PortType_Http9000 = \<lparr>pc_number = 9000, pc_protocol = TransportProtocol_Tcp\<rparr>"
| "PortType_config PortType_Https = \<lparr>pc_number = 443, pc_protocol = TransportProtocol_Tcp\<rparr>"
| "PortType_config PortType_Https8443 = \<lparr>pc_number = 8443, pc_protocol = TransportProtocol_Tcp\<rparr>"
| "PortType_config PortType_Https9443 = \<lparr>pc_number = 9443, pc_protocol = TransportProtocol_Tcp\<rparr>"
| "PortType_config PortType_Https10443 = \<lparr>pc_number = 10443, pc_protocol = TransportProtocol_Tcp\<rparr>"
| "PortType_config PortType_Mqtt = \<lparr>pc_number = 1883, pc_protocol = TransportProtocol_Tcp\<rparr>"
| "PortType_config PortType_MqttTls = \<lparr>pc_number = 8883, pc_protocol = TransportProtocol_Tcp\<rparr>"
| "PortType_config PortType_AMQP = \<lparr>pc_number = 5672, pc_protocol = TransportProtocol_Tcp\<rparr>"
| "PortType_config PortType_AMQPTls = \<lparr>pc_number = 5671, pc_protocol = TransportProtocol_Tcp\<rparr>"
| "PortType_config PortType_Wireguard = \<lparr>pc_number = 51820, pc_protocol = TransportProtocol_Udp\<rparr>"
| "PortType_config PortType_OpenVPN = \<lparr>pc_number = 1194, pc_protocol = TransportProtocol_Udp\<rparr>"
| "PortType_config (PortType_Custom c) = c"

definition PortType_new :: "u16 \<Rightarrow> TransportProtocol \<Rightarrow> PortType" where
  "PortType_new n p = PortType_Custom \<lparr>pc_number = n, pc_protocol = p\<rparr>"

definition PortType_new_tcp :: "u16 \<Rightarrow> PortType" where
  "PortType_new_tcp n = PortType_Custom \<lparr>pc_number = n, pc_protocol = TransportProtocol_Tcp\<rparr>"

definition PortType_new_udp :: "u16 \<Rightarrow> PortType" where
  "PortType_new_udp n = PortType_Custom \<lparr>pc_number = n, pc_protocol = TransportProtocol_Udp\<rparr>"

definition PortType_number :: "PortType \<Rightarrow> u16" where
  "PortType_number p = pc_number (PortType_config p)"

definition PortType_protocol :: "PortType \<Rightarrow> TransportProtocol" where
  "PortType_protocol p = pc_protocol (PortType_config p)"

definition PortType_is_tcp :: "PortType \<Rightarrow> bool" where
  "PortType_is_tcp p \<longleftrightarrow> PortType_protocol p = TransportProtocol_Tcp"

definition PortType_is_udp :: "PortType \<Rightarrow> bool" where
  "PortType_is_udp p \<longleftrightarrow> PortType_protocol p = TransportProtocol_Udp"

definition PortType_is_custom :: "PortType \<Rightarrow> bool" where
  "PortType_is_custom p \<longleftrightarrow> (case p of PortType_Custom _ \<Rightarrow> True | _ \<Rightarrow> False)"

definition PortType_is_https :: "PortType \<Rightarrow> bool" where
  "PortType_is_https p \<longleftrightarrow>
     p \<in> {PortType_Https, PortType_Https10443, PortType_Https8443, PortType_Https9443}"

definition PortType_eq :: "PortType \<Rightarrow> PortType \<Rightarrow> bool" where
  [eq_defs]: "PortType_eq p q \<longleftrightarrow> PortConfig_eq (PortType_config p) (PortType_config q)"

definition PortType_default :: PortType where
  "PortType_default = PortType_Http"

definition PortType_display :: "PortType \<Rightarrow> string" where
  "PortType_display p = show_nat (unat (PortType_number p)) @ ''/'' @
     to_lowercase (TransportProtocol_display (PortType_protocol p))"

primrec PortType_id :: "PortType \<Rightarrow> string" where
  "PortType_id PortType_Ssh = ''Ssh''"
| "PortType_id PortType_Telnet = ''Telnet''"
| "PortType_id PortType_DnsUdp = ''DnsUdp''"
| "PortType_id PortType_DnsTcp = ''DnsTcp''"
| "PortType_id PortType_Samba = ''Samba''"
| "PortType_id PortType_Nfs = ''Nfs''"
| "PortType_id PortType_Ftp = ''Ftp''"
| "PortType_id PortType_Ipp = ''Ipp''"
| "PortType_id PortType_LdpTcp = ''LdpTcp''"
| "PortType_id PortType_LdpUdp = ''LdpUdp''"
| "PortType_id PortType_Ldap = ''Ldap''"
| "PortType_id PortType_Ldaps = ''Ldaps''"
| "PortType_id PortType_Kerberos = ''Kerberos''"
| "PortType_id PortType_Snmp = ''Snmp''"
| "PortType_id PortType_Rdp = ''Rdp''"
| "PortType_id PortType_Ntp = ''Ntp''"
| "PortType_id PortType_Sip = ''Sip''"
| "PortType_id PortType_SipTls = ''SipTls''"
| "PortType_id PortType_Rtsp = ''Rtsp''"
| "PortType_id PortType_Dhcp = ''Dhcp''"
| "PortType_id PortType_Http = ''Http''"
| "PortType_id PortType_MySql = ''MySql''"
| "PortType_id PortType_PostgreSQL = ''PostgreSQL''"
| "PortType_id PortType_MongoDB = ''MongoDB''"
| "PortType_id PortType_Redis = ''Redis''"
| "PortType_id PortType_MsSql = ''MsSql''"
| "PortType_id PortType_Docker = ''Docker''"
| "PortType_id PortType_DockerTls = ''DockerTls''"
| "PortType_id PortType_Kubernetes = ''Kubernetes''"
| "PortType_id PortType_RabbitMqMgmt = ''RabbitMqMgmt''"
| "PortType_id PortType_Cassandra = ''Cassandra''"
| "PortType_id PortType_Elasticsearch = ''Elasticsearch''"
| "PortType_id PortType_InfluxDb = ''InfluxDb''"
| "PortType_id PortType_CouchDb = ''CouchDb''"
| "PortType_id PortType_Kafka = ''Kafka''"
| "PortType_id PortType_Http3000 = ''Http3000''"
| "PortType_id PortType_Http5000 = ''Http5000''"
| "PortType_id PortType_Http8080 = ''Http8080''"
| "PortType_id PortType_Http8081 = ''Http8081''"
| "PortType_id PortType_Http8082 = ''Http8082''"
| "PortType_id PortType_Http8888 = ''Http8888''"
| "PortType_id PortType_Http9000 = ''Http9000''"
| "PortType_id PortType_Https = ''Https''"
| "PortType_id PortType_Https8443 = ''Https8443''"
| "PortType_id PortType_Https9443 = ''Https9443''"
| "PortType_id PortType_Https10443 = ''Https10443''"
| "PortType_id PortType_Mqtt = ''Mqtt''"
| "PortType_id PortType_MqttTls = ''MqttTls''"
| "PortType_id PortType_AMQP = ''AMQP''"
| "PortType_id PortType_AMQPTls = ''AMQPTls''"
| "PortType_id PortType_Wireguard = ''Wireguard''"
| "PortType_id PortType_OpenVPN = ''OpenVPN''"
| "PortType_id (PortType_Custom c) = ''Custom''"

primrec PortType_name :: "PortType \<Rightarrow> string" where
  "PortType_name PortType_Ssh = ''SSH''"
| "PortType_name PortType_Telnet = ''Telnet''"
| "PortType_name PortType_DnsUdp = ''DNS (UDP)''"
| "PortType_name PortType_DnsTcp = ''DNS (TCP)''"
| "PortType_name PortType_Samba = ''Samba''"
| "PortType_name PortType_Nfs = ''NFS''"
| "PortType_name PortType_Ftp = ''FTP''"
| "PortType_name PortType_Ipp = ''IPP''"
| "PortType_name PortType_LdpTcp = ''LDP (TCP)''"
| "PortType_name PortType_LdpUdp = ''LDP (UDP)''"
| "PortType_name PortType_Ldap = ''LDAP''"
| "PortType_name PortType_Ldaps = ''LDAP TLS''"
| "PortType_name PortType_Kerberos = ''Kerberos''"
| "PortType_name PortType_Snmp = ''SNMP''"
| "PortType_name PortType_Rdp = ''RDP''"
| "PortType_name PortType_Ntp = ''NTP''"
| "PortType_name PortType_Sip = ''SIP''"
| "PortType_name PortType_SipTls = ''SIP TLS''"
| "PortType_name PortType_Rtsp = ''RTSP''"
| "PortType_name PortType_Dhcp = ''DHCP''"
| "PortType_name PortType_Http = ''HTTP''"
| "PortType_name PortType_MySql = ''MySql''"
| "PortType_name PortType_PostgreSQL = ''PostgreSql''"
| "PortType_name PortType_MongoDB = ''MongoDB''"
| "PortType_name PortType_Redis = ''Redis''"
| "PortType_name PortType_MsSql = ''MicrosoftSql''"
| "PortType_name PortType_Docker = ''Docker''"
| "PortType_name PortType_DockerTls = ''Docker TLS''"
| "PortType_name PortType_Kubernetes = ''Kubernetes''"
| "PortType_name PortType_RabbitMqMgmt = ''RabbitMq Management''"
| "PortType_name PortType_Cassandra = ''Cassandra''"
| "PortType_name PortType_Elasticsearch = ''Elastic Search''"
| "PortType_name PortType_InfluxDb = ''InfluxDB''"
| "PortType_name PortType_CouchDb = ''CouchDB''"
| "PortType_name PortType_Kafka = ''Kafka''"
| "PortType_name PortType_Http3000 = ''HTTP 3000''"
| "PortType_name PortType_Http5000 = ''HTTP 5000''"
| "PortType_name PortType_Http8080 = ''HTTP 8080''"
| "PortType_name PortType_Http8081 = ''HTTP 8081''"
| "PortType_name PortType_Http8082 = ''HTTP 8082''"
| "PortType_name PortType_Http8888 = ''HTTP 8888''"
| "PortType_name PortType_Http9000 = ''HTTP 9000''"
| "PortType_name PortType_Https = ''HTTPS''"
| "PortType_name PortType_Https8443 = ''HTTPS 8443''"
| "PortType_name PortType_Https9443 = ''HTTP 9443''"
| "PortType_name PortType_Https10443 = ''HTTP 10443''"
| "PortType_name PortType_Mqtt = ''MQTT''"
| "PortType_name PortType_MqttTls = ''MQTT TLS''"
| "PortType_name PortType_AMQP = ''AMQP''"
| "PortType_name PortType_AMQPTls = ''AMQP TLS''"
| "PortType_name PortType_Wireguard = ''Wireguard''"
| "PortType_name PortType_OpenVPN = ''OpenVPN''"
| "PortType_name (PortType_Custom c) = ''Custom''"

primrec PortType_description :: "PortType \<Rightarrow> string" where
  "PortType_description PortType_Ssh = ''Secure Shell''"
| "PortType_description PortType_Telnet = ''Telnet Protocol''"
| "PortType_description PortType_DnsUdp = ''Domain Name System (UDP)''"
| "PortType_description PortType_DnsTcp = ''Domain Name System (TCP)''"
| "PortType_description PortType_Samba = ''Samba File Sharing''"
| "PortType_description PortType_Nfs = ''Network File System''"
| "PortType_description PortType_Ftp = ''File Transfer Protocol''"
| "PortType_description PortType_Ipp = ''Internet Printing Protocol''"
| "PortType_description PortType_LdpTcp = ''Line Printer Daemon (TCP)''"
| "PortType_description PortType_LdpUdp = ''Line Printer Daemon (UDP)''"
| "PortType_description PortType_Ldap = ''Lightweight Directory Access Protocol''"
| "PortType_description PortType_Ldaps = ''Lightweight Directory Access Protocol using TLS''"
| "PortType_description PortType_Kerberos = ''Kerberos Authentication Protocol''"
| "PortType_description PortType_Snmp = ''Simple Network Management Protocol''"
| "PortType_description PortType_Rdp = ''Remote Desktop Protocol''"
| "PortType_description PortType_Ntp = ''Network Time Protocol''"
| "PortType_description PortType_Sip = ''Session Initiation Protocol''"
| "PortType_description PortType_SipTls = ''Session Initiation Protocol using TLS''"
| "PortType_description PortType_Rtsp = ''Real-Time Streaming Protocol''"
| "PortType_description PortType_Dhcp = ''Dynamic Host Configuration Protocol''"
| "PortType_description PortType_Http = ''Hypertext Transfer Protocol''"
| "PortType_description PortType_MySql = ''MySQL Database''"
| "PortType_description PortType_PostgreSQL = ''PostgreSQL Database''"
| "PortType_description PortType_MongoDB = ''MongoDB''"
| "PortType_description PortType_Redis = ''Redis Database''"
| "PortType_description PortType_MsSql = ''MicrosoftSQL Database''"
| "PortType_description PortType_Docker = ''Docker''"
| "PortType_description PortType_DockerTls = ''Docker using TLS''"
| "PortType_description PortType_Kubernetes = ''Kubernetes''"
| "PortType_description PortType_RabbitMqMgmt = ''RabbitMQ Management''"
| "PortType_description PortType_Cassandra = ''Cassandra''"
| "PortType_description PortType_Elasticsearch = ''Elastic Search''"
| "PortType_description PortType_InfluxDb = ''Influx Database''"
| "PortType_description PortType_CouchDb = ''Couch Database''"
| "PortType_description PortType_Kafka = ''Kafka''"
| "PortType_description PortType_Http3000 = ''HTTP 3000''"
| "PortType_description PortType_Http5000 = ''HTTP 5000''"
| "PortType_description PortType_Http8080 = ''HTTP 8080''"
| "PortType_description PortType_Http8081 = ''HTTP 8081''"
| "PortType_description PortType_Http8082 = ''HTTP 8082''"
| "PortType_description PortType_Http8888 = ''HTTP 8888''"
| "PortType_description PortType_Http9000 = ''HTTP 9000''"
| "PortType_description PortType_Https = ''Hypertext Transfer Protocol Secure''"
| "PortType_description PortType_Https8443 = ''Alternative HTTPS Port''"
| "PortType_description PortType_Https9443 = ''HTTPS 9443''"
| "PortType_description PortType_Https10443 = ''HTTPS 10443''"
| "PortType_description PortType_Mqtt = ''MQTT''"
| "PortType_description PortType_MqttTls = ''MQTT using TLS''"
| "PortType_description PortType_AMQP = ''Advanced Message Queuing Protocol''"
| "PortType_description PortType_AMQPTls = ''Advanced Message Queuing Protocol using TLS''"
| "PortType_description PortType_Wireguard = ''Wireguard VPN''"
| "PortType_description PortType_OpenVPN = ''OpenVPN''"
| "PortType_description (PortType_Custom c) = ''Custom Port Configuration''"

text \<open>The flags of \<open>metadata()\<close>; the JSON object is the record of its fields.\<close>

record PortType_metadata_json =
  ptm_is_management :: bool
  ptm_is_custom :: bool
  ptm_is_dns :: bool
  ptm_can_be_added :: bool
  ptm_number :: u16
  ptm_protocol :: TransportProtocol

definition PortType_metadata :: "PortType \<Rightarrow> PortType_metadata_json" where
  "PortType_metadata p =
     \<lparr>ptm_is_management =
        (p \<in> {PortType_Ssh, PortType_Telnet, PortType_Rdp, PortType_Snmp, PortType_Http,
              PortType_Https, PortType_Http8080, PortType_Https8443}),
      ptm_is_custom = PortType_is_custom p,
      ptm_is_dns = (p \<in> {PortType_DnsUdp, PortType_DnsTcp}),
      ptm_can_be_added = (\<not> PortType_is_custom p),
      ptm_number = PortType_number p,
      ptm_protocol = PortType_protocol p\<rparr>"

text \<open>The sort key \<open>|p| (p.number(), p.protocol())\<close> used wherever ports are sorted.\<close>

definition PortType_key :: "PortType \<Rightarrow> u16 \<times> TransportProtocol" where
  "PortType_key p = (PortType_number p, PortType_protocol p)"

text \<open>\<open>ports.sort_by_key(|p| (p.number(), p.protocol())); ports.dedup();\<close>\<close>

definition sort_dedup_ports :: "PortType list \<Rightarrow> PortType list" where
  "sort_dedup_ports ps = sort_dedup PortType_key PortType_eq ps"

subsection \<open>Serialisation\<close>

record PortType_json =
  ptj_number :: u16
  ptj_protocol :: TransportProtocol
  ptj_type :: string

definition PortType_serialize :: "PortType \<Rightarrow> PortType_json" where
  "PortType_serialize p =
     \<lparr>ptj_number = pc_number (PortType_config p),
      ptj_protocol = pc_protocol (PortType_config p),
      ptj_type = PortType_id p\<rparr>"

text \<open>
  The lookup \<open>PortType::iter().find(..).unwrap_or(Custom)\<close>, written once in
  \<open>deserialize\<close> and once more in \<open>from_row\<close>.
\<close>

definition PortType_of_config :: "u16 \<Rightarrow> TransportProtocol \<Rightarrow> PortType" where
  "PortType_of_config n pr =
     (case find (\<lambda>v. \<not> PortType_is_custom v \<and>
                      pc_number (PortType_config v) = n \<and> pc_protocol (PortType_config v) = pr)
             PortType_iter of
        Some v \<Rightarrow> v
      | None \<Rightarrow> PortType_Custom \<lparr>pc_number = n, pc_protocol = pr\<rparr>)"

definition PortType_deserialize :: "PortType_json \<Rightarrow> PortType" where
  "PortType_deserialize j = PortType_of_config (ptj_number j) (ptj_protocol j)"

subsection \<open>Port entities and rows\<close>

record PortBase =
  pb_host_id :: uuid
  pb_network_id :: uuid
  pb_port_type :: PortType

record Port =
  port_id :: uuid
  port_created_at :: datetime
  port_updated_at :: datetime
  port_base :: PortBase

definition PortBase_new_hostless :: "PortType \<Rightarrow> PortBase" where
  "PortBase_new_hostless t = \<lparr>pb_host_id = uuid_nil, pb_network_id = uuid_nil, pb_port_type = t\<rparr>"

definition PortBase_eq :: "PortBase \<Rightarrow> PortBase \<Rightarrow> bool" where
  [eq_defs]: "PortBase_eq a b \<longleftrightarrow> PortType_eq (pb_port_type a) (pb_port_type b)"

definition Port_eq :: "Port \<Rightarrow> Port \<Rightarrow> bool" where
  [eq_defs]: "Port_eq a b \<longleftrightarrow> PortBase_eq (port_base a) (port_base b)"

definition Port_new :: "uuid \<Rightarrow> datetime \<Rightarrow> PortBase \<Rightarrow> Port" where
  "Port_new new_id now b =
     \<lparr>port_id = new_id, port_created_at = now, port_updated_at = now, port_base = b\<rparr>"

definition Port_new_hostless :: "uuid \<Rightarrow> datetime \<Rightarrow> PortType \<Rightarrow> Port" where
  "Port_new_hostless new_id now t = Port_new new_id now (PortBase_new_hostless t)"

definition Port_with_host :: "Port \<Rightarrow> uuid \<Rightarrow> uuid \<Rightarrow> Port" where
  "Port_with_host p h n =
     p\<lparr>port_base := (port_base p)\<lparr>pb_host_id := h, pb_network_id := n\<rparr>\<rparr>"

definition Port_triggers_staleness :: "Port \<Rightarrow> Port option \<Rightarrow> bool" where
  "Port_triggers_staleness p other =
     (case other of
        None \<Rightarrow> True
      | Some q \<Rightarrow>
          \<not> PortType_eq (pb_port_type (port_base p)) (pb_port_type (port_base q)) \<or>
          pb_host_id (port_base p) \<noteq> pb_host_id (port_base q) \<or>
          \<not> PortConfig_eq (PortType_config (pb_port_type (port_base p)))
                          (PortType_config (pb_port_type (port_base q))))"

text \<open>The values the storage layer binds to columns, and a row as the columns by name.\<close>

datatype SqlValue =
    SqlValue_Uuid uuid
  | SqlValue_I32 int
  | SqlValue_String string
  | SqlValue_Timestamp datetime

type_synonym PgRow = "string \<rightharpoonup> SqlValue"

definition row_of :: "string list \<times> SqlValue list \<Rightarrow> PgRow" where
  "row_of cv = map_of (zip (fst cv) (snd cv))"

text \<open>\<open>row.get(col)\<close> at a column type; \<open>None\<close> is the panic on a missing or ill-typed column.\<close>

definition get_uuid :: "PgRow \<Rightarrow> string \<Rightarrow> uuid option" where
  "get_uuid r c = (case r c of Some (SqlValue_Uuid u) \<Rightarrow> Some u | _ \<Rightarrow> None)"

definition get_i32 :: "PgRow \<Rightarrow> string \<Rightarrow> int option" where
  "get_i32 r c = (case r c of Some (SqlValue_I32 i) \<Rightarrow> Some i | _ \<Rightarrow> None)"

definition get_string :: "PgRow \<Rightarrow> string \<Rightarrow> string option" where
  "get_string r c = (case r c of Some (SqlValue_String s) \<Rightarrow> Some s | _ \<Rightarrow> None)"

definition get_timestamp :: "PgRow \<Rightarrow> string \<Rightarrow> datetime option" where
  "get_timestamp r c = (case r c of Some (SqlValue_Timestamp t) \<Rightarrow> Some t | _ \<Rightarrow> None)"

fun protocol_string :: "TransportProtocol \<Rightarrow> string" where
  "protocol_string TransportProtocol_Tcp = ''Tcp''"
| "protocol_string TransportProtocol_Udp = ''Udp''"

definition port_type_string :: "PortType \<Rightarrow> string" where
  "port_type_string p = (if PortType_is_custom p then ''Custom'' else PortType_id p)"

definition Port_to_params :: "Port \<Rightarrow> string list \<times> SqlValue list" where
  "Port_to_params p =
     (let config = PortType_config (pb_port_type (port_base p));
          port_type = port_type_string (pb_port_type (port_base p));
          protocol = protocol_string (pc_protocol config)
      in ([''id'', ''host_id'', ''network_id'', ''port_number'', ''protocol'', ''port_type'',
           ''created_at'', ''updated_at''],
          [SqlValue_Uuid (port_id p),
           SqlValue_Uuid (pb_host_id (port_base p)),
           SqlValue_Uuid (pb_network_id (port_base p)),
           SqlValue_I32 (as_i32 (unat (pc_number config))),
           SqlValue_String protocol,
           SqlValue_String port_type,
           SqlValue_Timestamp (port_created_at p),
           SqlValue_Timestamp (port_updated_at p)]))"

definition protocol_of_string :: "string \<Rightarrow> TransportProtocol" where
  "protocol_of_string s =
     (if s = ''Tcp'' then TransportProtocol_Tcp
      else if s = ''Udp'' then TransportProtocol_Udp
      else TransportProtocol_Tcp)"

definition Port_from_row :: "PgRow \<Rightarrow> Port option" where
  "Port_from_row row =
     Option.bind (get_uuid row ''id'') (\<lambda>i.
     Option.bind (get_uuid row ''host_id'') (\<lambda>h.
     Option.bind (get_uuid row ''network_id'') (\<lambda>n.
     Option.bind (get_timestamp row ''created_at'') (\<lambda>c.
     Option.bind (get_timestamp row ''updated_at'') (\<lambda>u.
     Option.bind (get_i32 row ''port_number'') (\<lambda>num.
     Option.bind (get_string row ''protocol'') (\<lambda>pr.
       Some \<lparr>port_id = i, port_created_at = c, port_updated_at = u,
             port_base = \<lparr>pb_host_id = h, pb_network_id = n,
                          pb_port_type =
                            PortType_of_config (word_of_int num) (protocol_of_string pr)\<rparr>\<rparr>)))))))"

lemma protocol_of_protocol_string [simp]: "protocol_of_string (protocol_string p) = p"
  by (cases p) (simp_all add: protocol_of_string_def)

subsection \<open>The lookup by configuration\<close>

definition PortType_predefined :: "PortType list" where
  "PortType_predefined = filter (\<lambda>v. \<not> PortType_is_custom v) PortType_iter"

lemma PortType_predefined_complete [simp]:
  "p \<in> set PortType_predefined \<longleftrightarrow> \<not> PortType_is_custom p"
  by (cases p) (simp_all add: PortType_predefined_def PortType_iter_def PortType_is_custom_def)

lemma PortType_predefined_distinct: "distinct (map PortType_config PortType_predefined)"
  by (simp add: PortType_predefined_def PortType_iter_def PortType_is_custom_def)

lemma PortType_config_inj:
  "\<not> PortType_is_custom p \<Longrightarrow> \<not> PortType_is_custom q \<Longrightarrow>
     PortType_config p = PortType_config q \<longleftrightarrow> p = q"
  using PortType_predefined_distinct
  by (auto simp: distinct_map dest: inj_onD)

lemma PortConfig_eq_iff: "PortConfig_eq a b \<longleftrightarrow> a = b"
  by (auto simp: PortConfig_eq_def)

lemma PortType_eq_iff: "PortType_eq p q \<longleftrightarrow> PortType_config p = PortType_config q"
  by (simp add: PortType_eq_def PortConfig_eq_iff)

lemma PortType_config_of_config [simp]:
  "PortType_config (PortType_of_config n pr) = \<lparr>pc_number = n, pc_protocol = pr\<rparr>"
  by (auto simp: PortType_of_config_def find_Some_iff split: option.splits)

lemma PortType_of_config_predefined:
  assumes "\<not> PortType_is_custom p"
  shows "PortType_of_config (PortType_number p) (PortType_protocol p) = p"
proof -
  let ?P = "\<lambda>v. \<not> PortType_is_custom v \<and> pc_number (PortType_config v) = PortType_number p
                \<and> pc_protocol (PortType_config v) = PortType_protocol p"
  have "?P p" and "p \<in> set PortType_iter"
    using assms PortType_predefined_complete [of p]
    by (auto simp: PortType_number_def PortType_protocol_def PortType_predefined_def)
  then obtain v where v: "find ?P PortType_iter = Some v"
    by (metis (mono_tags, lifting) find_None_iff not_None_eq)
  then have "?P v" by (auto simp: find_Some_iff)
  with assms have "v = p"
    by (intro PortType_config_inj [THEN iffD1])
       (auto simp: PortType_number_def PortType_protocol_def)
  with v show ?thesis by (simp add: PortType_of_config_def)
qed

lemma PortType_of_config_custom:
  assumes "\<And>q. \<not> PortType_is_custom q \<Longrightarrow> PortType_config q \<noteq> c"
  shows "PortType_of_config (pc_number c) (pc_protocol c) = PortType_Custom c"
proof -
  have "find (\<lambda>v. \<not> PortType_is_custom v \<and> pc_number (PortType_config v) = pc_number c \<and>
          pc_protocol (PortType_config v) = pc_protocol c) PortType_iter = None"
    using assms by (auto simp: find_None_iff) (metis PortConfig_eq_def PortConfig_eq_iff)
  then show ?thesis by (simp add: PortType_of_config_def)
qed

lemma PortType_of_config_idem:
  "PortType_of_config (PortType_number (PortType_of_config n pr))
     (PortType_protocol (PortType_of_config n pr)) = PortType_of_config n pr"
  by (simp add: PortType_number_def PortType_protocol_def)

interpretation port_type: keyed_eq PortType_key PortType_eq
  by unfold_locales
    (auto simp: PortType_eq_iff PortType_key_def PortType_number_def PortType_protocol_def)


lemma PortType_of_config_fixpoint:
  "PortType_of_config (PortType_number p) (PortType_protocol p) = p \<longleftrightarrow>
     \<not> PortType_is_custom p \<or> (\<forall>q \<in> set PortType_predefined. \<not> PortType_eq q p)"
proof (cases "PortType_is_custom p")
  case False
  then show ?thesis by (simp add: PortType_of_config_predefined)
next
  case True
  then obtain c where p: "p = PortType_Custom c"
    by (auto simp: PortType_is_custom_def split: PortType.splits)
  show ?thesis
  proof (cases "\<exists>q. \<not> PortType_is_custom q \<and> PortType_config q = c")
    case True
    then obtain q where q: "\<not> PortType_is_custom q" "PortType_config q = c" by blast
    then have "PortType_of_config (pc_number c) (pc_protocol c) = q"
      using PortType_of_config_predefined [of q]
      by (simp add: PortType_number_def PortType_protocol_def)
    with q p \<open>PortType_is_custom p\<close> show ?thesis
      by (auto simp: PortType_number_def PortType_protocol_def PortType_eq_iff)
  next
    case False
    then have "PortType_of_config (pc_number c) (pc_protocol c) = PortType_Custom c"
      by (intro PortType_of_config_custom) auto
    with False p show ?thesis
      by (auto simp: PortType_number_def PortType_protocol_def PortType_eq_iff)
  qed
qed

lemma TransportProtocol_lower_inj:
  "to_lowercase (TransportProtocol_display p) = to_lowercase (TransportProtocol_display q)
     \<longleftrightarrow> p = q"
  by (cases p; cases q) (simp_all add: to_lowercase_def ascii_lower_def)

subsection \<open>Properties\<close>

text \<open>C34. A port type that is serialised and read back has the same number and protocol, so it
  equals the original by the program's comparison; it is the very same variant unless it
  is a custom port whose configuration a predefined variant has.\<close>

theorem PortType_serde_roundtrip:
  "PortType_eq (PortType_deserialize (PortType_serialize p)) p \<and>
   (PortType_deserialize (PortType_serialize p) = p \<longleftrightarrow>
      \<not> (PortType_is_custom p \<and> list_ex (\<lambda>q. PortType_eq q p) PortType_predefined))"
  using PortType_of_config_fixpoint [of p]
  by (auto simp: PortType_deserialize_def PortType_serialize_def PortType_number_def
      PortType_protocol_def PortType_eq_iff list_ex_iff)

text \<open>A port written to the database row by \<open>to_params\<close> and read by \<open>from_row\<close> is the same
  entity, with its port type normalised to the predefined variant of that configuration.\<close>

theorem Port_storage_roundtrip:
  "Port_from_row (row_of (Port_to_params p)) =
     Some (p\<lparr>port_base := (port_base p)\<lparr>pb_port_type :=
       PortType_of_config (PortType_number (pb_port_type (port_base p)))
                          (PortType_protocol (pb_port_type (port_base p)))\<rparr>\<rparr>)"
  by (cases p; cases "port_base p")
      (simp add: Port_from_row_def Port_to_params_def row_of_def get_uuid_def get_i32_def
        get_string_def get_timestamp_def Let_def PortType_number_def PortType_protocol_def)

text \<open>Two port types print alike exactly when the program treats them as equal.\<close>

theorem PortType_display_eq_iff:
  "PortType_display p = PortType_display q \<longleftrightarrow> PortType_eq p q"
proof
  assume "PortType_display p = PortType_display q"
  then have "show_nat (unat (PortType_number p)) = show_nat (unat (PortType_number q)) \<and>
      to_lowercase (TransportProtocol_display (PortType_protocol p)) =
      to_lowercase (TransportProtocol_display (PortType_protocol q))"
    unfolding PortType_display_def
    by (intro append_sep_inj [of "CHR ''/''"]) (auto dest: show_nat_no_slash)
  then have "unat (PortType_number p) = unat (PortType_number q)"
    and "PortType_protocol p = PortType_protocol q"
    by (auto dest: show_nat_inj simp: TransportProtocol_lower_inj)
  then show "PortType_eq p q"
    by (simp add: PortType_eq_def PortConfig_eq_def PortType_number_def PortType_protocol_def
        unsigned_word_eqI)
next
  assume "PortType_eq p q"
  then show "PortType_display p = PortType_display q"
    by (simp add: PortType_eq_iff PortType_display_def PortType_number_def PortType_protocol_def)
qed

text \<open>Sorting and deduplicating a vector of ports keeps exactly the configurations that
  occur, each once, in increasing order of number and protocol.\<close>

theorem sort_dedup_ports_correct:
  "sorted (map PortType_key (sort_dedup_ports ps)) \<and>
   distinct (map PortType_config (sort_dedup_ports ps)) \<and>
   PortType_config ` set (sort_dedup_ports ps) = PortType_config ` set ps \<and>
   set (sort_dedup_ports ps) \<subseteq> set ps"
proof -
  have cfg: "PortType_config = (\<lambda>(n, pr). \<lparr>pc_number = n, pc_protocol = pr\<rparr>) \<circ> PortType_key"
    by (auto simp: fun_eq_iff PortType_key_def PortType_number_def PortType_protocol_def)
  have "distinct (map PortType_config (sort_dedup_ports ps)) \<longleftrightarrow>
      distinct (map PortType_key (sort_dedup_ports ps))"
    by (rule distinct_map_eqI)
      (auto simp: PortType_key_def PortType_number_def PortType_protocol_def)
  then have "distinct (map PortType_config (sort_dedup_ports ps))"
    using port_type.distinct_sort_dedup [of ps] by (simp add: sort_dedup_ports_def)
  moreover have "PortType_config ` set (sort_dedup_ports ps) = PortType_config ` set ps"
    by (simp only: cfg image_comp [symmetric] sort_dedup_ports_def
        port_type.key_image_sort_dedup)
  ultimately show ?thesis
    using port_type.sorted_sort_dedup [of ps] port_type.sort_dedup_subset [of ps]
    by (simp add: sort_dedup_ports_def)
qed

end
