(* ===== verification/Api.thy ===== *)
theory Api
  imports Prelude
begin

section \<open>API errors and access validation\<close>

text \<open>
  The error type of the HTTP layer (\<^verbatim>\<open>backend/src/server/shared/types/api.rs\<close>) and the
  access checks that every entity handler runs before it reads or writes
  (\<^verbatim>\<open>backend/src/server/shared/validation.rs\<close>).

  The checks share one contract, stated as the locale \<open>access_check\<close>: a check lets a
  request through exactly when the entity's network is one of the user's networks and
  its organization is the user's own, and it refuses with status 401. Each check of the
  source interprets it.
\<close>

subsection \<open>The error type\<close>

record ApiError =
  ae_status :: nat
  ae_message :: string

definition ApiError_new :: "nat \<Rightarrow> string \<Rightarrow> ApiError" where
  "ApiError_new s m = \<lparr>ae_status = s, ae_message = m\<rparr>"

definition ApiError_conflict :: "string \<Rightarrow> ApiError" where
  "ApiError_conflict m = ApiError_new 409 m"

definition ApiError_forbidden :: "string \<Rightarrow> ApiError" where
  "ApiError_forbidden m = ApiError_new 403 m"

definition ApiError_internal_error :: "string \<Rightarrow> ApiError" where
  "ApiError_internal_error m = ApiError_new 500 m"

definition ApiError_bad_request :: "string \<Rightarrow> ApiError" where
  "ApiError_bad_request m = ApiError_new 400 m"

definition ApiError_not_found :: "string \<Rightarrow> ApiError" where
  "ApiError_not_found m = ApiError_new 404 m"

definition ApiError_unauthorized :: "string \<Rightarrow> ApiError" where
  "ApiError_unauthorized m = ApiError_new 401 m"

definition ApiError_bad_gateway :: "string \<Rightarrow> ApiError" where
  "ApiError_bad_gateway m = ApiError_new 502 m"

definition ApiError_too_many_requests :: "string \<Rightarrow> ApiError" where
  "ApiError_too_many_requests m = ApiError_new 429 m"

definition ApiError_payment_required :: "string \<Rightarrow> ApiError" where
  "ApiError_payment_required m = ApiError_new 402 m"

lemmas ApiError_defs =
  ApiError_new_def ApiError_conflict_def ApiError_forbidden_def ApiError_internal_error_def
  ApiError_bad_request_def ApiError_not_found_def ApiError_unauthorized_def
  ApiError_bad_gateway_def ApiError_too_many_requests_def ApiError_payment_required_def

text \<open>An internal error is a message, or a \<open>ValidationError\<close> wrapped in it.\<close>

datatype anyhow_error = ValidationError string | OtherError string

fun ApiError_from_anyhow :: "anyhow_error \<Rightarrow> ApiError" where
  "ApiError_from_anyhow (ValidationError m) = ApiError_bad_request m"
| "ApiError_from_anyhow (OtherError m) = ApiError_internal_error m"

record 'a ApiResponse =
  ar_success :: bool
  ar_data :: "'a option"
  ar_error :: "string option"

definition ApiResponse_success :: "'a \<Rightarrow> 'a ApiResponse" where
  "ApiResponse_success d = \<lparr>ar_success = True, ar_data = Some d, ar_error = None\<rparr>"

definition ApiResponse_error :: "string \<Rightarrow> 'a ApiResponse" where
  "ApiResponse_error m = \<lparr>ar_success = False, ar_data = None, ar_error = Some m\<rparr>"

definition ApiError_into_response :: "ApiError \<Rightarrow> nat \<times> unit ApiResponse" where
  "ApiError_into_response e = (ae_status e, ApiResponse_error (ae_message e))"

definition string_empty_to_option :: "string \<Rightarrow> string option" where
  "string_empty_to_option s = (if s = [] then None else Some s)"

definition option_empty_to_option :: "string option \<Rightarrow> string option" where
  "option_empty_to_option x = (case x of Some s \<Rightarrow> if s = [] then None else Some s | None \<Rightarrow> None)"

definition vec_empty_to_option :: "'a list \<Rightarrow> 'a list option" where
  "vec_empty_to_option v = (if v = [] then None else Some v)"

subsection \<open>Access checks\<close>

definition validate_network_access ::
    "uuid option \<Rightarrow> uuid list \<Rightarrow> string \<Rightarrow> (unit, ApiError) result" where
  "validate_network_access network_id user_network_ids action =
     (case network_id of
        Some n \<Rightarrow>
          if n \<notin> set user_network_ids
          then Err (ApiError_unauthorized
                 (''You aren't allowed to '' @ action @ '' entities on this network''))
          else Ok ()
      | None \<Rightarrow> Ok ())"

definition validate_organization_access ::
    "uuid option \<Rightarrow> uuid \<Rightarrow> string \<Rightarrow> (unit, ApiError) result" where
  "validate_organization_access entity_organization_id user_organization_id action =
     (case entity_organization_id of
        Some organization_id \<Rightarrow>
          if organization_id \<noteq> user_organization_id
          then Err (ApiError_unauthorized
                 (''You aren't allowed to '' @ action @ '' entities for this organization''))
          else Ok ()
      | None \<Rightarrow> Ok ())"

definition validate_entity ::
    "(unit, string) result \<Rightarrow> string \<Rightarrow> (unit, ApiError) result" where
  "validate_entity r entity_name =
     (case r of
        Inl err \<Rightarrow> Err (ApiError_bad_request (entity_name @ '' validation failed: '' @ err))
      | Inr u \<Rightarrow> Ok u)"

definition validate_create_access ::
    "uuid option \<Rightarrow> uuid option \<Rightarrow> uuid list \<Rightarrow> uuid \<Rightarrow> (unit, ApiError) result" where
  "validate_create_access network_id organization_id user_network_ids user_organization_id =
     (case validate_network_access network_id user_network_ids ''create'' of
        Inl e \<Rightarrow> Err e
      | Inr _ \<Rightarrow>
          (case validate_organization_access organization_id user_organization_id ''create'' of
             Inl e \<Rightarrow> Err e
           | Inr _ \<Rightarrow> Ok ()))"

definition validate_read_access ::
    "uuid option \<Rightarrow> uuid option \<Rightarrow> uuid list \<Rightarrow> uuid \<Rightarrow> (unit, ApiError) result" where
  "validate_read_access network_id organization_id user_network_ids user_organization_id =
     (case validate_network_access network_id user_network_ids ''access'' of
        Inl e \<Rightarrow> Err e
      | Inr _ \<Rightarrow>
          (case validate_organization_access organization_id user_organization_id ''access'' of
             Inl e \<Rightarrow> Err e
           | Inr _ \<Rightarrow> Ok ()))"

text \<open>The guard \<open>if let Some(n) = network_id && !ids.contains(n)\<close> and its organization twin.\<close>

abbreviation network_denied :: "uuid option \<Rightarrow> uuid list \<Rightarrow> bool" where
  "network_denied n ids \<equiv> (case n of Some x \<Rightarrow> x \<notin> set ids | None \<Rightarrow> False)"

abbreviation organization_denied :: "uuid option \<Rightarrow> uuid \<Rightarrow> bool" where
  "organization_denied n u \<equiv> (case n of Some x \<Rightarrow> x \<noteq> u | None \<Rightarrow> False)"

definition validate_update_access ::
    "uuid option \<Rightarrow> uuid option \<Rightarrow> uuid option \<Rightarrow> uuid option \<Rightarrow> uuid list \<Rightarrow> uuid
       \<Rightarrow> (unit, ApiError) result" where
  "validate_update_access existing_network_id existing_organization_id
       new_network_id new_organization_id user_network_ids user_organization_id =
     (if network_denied existing_network_id user_network_ids
      then Err (ApiError_unauthorized ''You don't have access to this entity'')
      else if organization_denied existing_organization_id user_organization_id
      then Err (ApiError_unauthorized ''You don't have access to this entity'')
      else if network_denied new_network_id user_network_ids
      then Err (ApiError_unauthorized
             ''You can't move this entity to a network you don't have access to'')
      else if organization_denied new_organization_id user_organization_id
      then Err (ApiError_unauthorized ''You can't move this entity to a different organization'')
      else Ok ())"

definition validate_delete_access ::
    "uuid option \<Rightarrow> uuid option \<Rightarrow> uuid list \<Rightarrow> uuid \<Rightarrow> (unit, ApiError) result" where
  "validate_delete_access network_id organization_id user_network_ids user_organization_id =
     (if network_denied network_id user_network_ids
      then Err (ApiError_unauthorized ''You don't have access to delete this entity'')
      else if organization_denied organization_id user_organization_id
      then Err (ApiError_unauthorized ''You don't have access to delete this entity'')
      else Ok ())"

definition validate_bulk_delete_access ::
    "uuid option \<Rightarrow> uuid option \<Rightarrow> uuid list \<Rightarrow> uuid \<Rightarrow> (unit, ApiError) result" where
  "validate_bulk_delete_access network_id organization_id user_network_ids user_organization_id =
     (if network_denied network_id user_network_ids
      then Err (ApiError_unauthorized
             ''You don't have access to delete one or more of these entities'')
      else if organization_denied organization_id user_organization_id
      then Err (ApiError_unauthorized
             ''You don't have access to delete one or more of these entities'')
      else Ok ())"

text \<open>
  \<open>validate_and_dedupe_tags\<close>. The order in which the hash set is iterated
  (\<open>hash_order\<close>), the tag service's lookup and the printing of identifiers are arguments;
  a tag is represented by its organization.
\<close>

fun validate_tags ::
    "(uuid \<Rightarrow> string) \<Rightarrow> (uuid \<Rightarrow> (uuid option, string) result) \<Rightarrow> uuid \<Rightarrow> uuid list
       \<Rightarrow> (unit, ApiError) result" where
  "validate_tags show_uuid get_by_id organization_id [] = Ok ()"
| "validate_tags show_uuid get_by_id organization_id (t # ts) =
     (case get_by_id t of
        Inr (Some tag_org) \<Rightarrow>
          if tag_org \<noteq> organization_id
          then Err (ApiError_bad_request
                 (''Tag '' @ show_uuid t @ '' does not belong to this organization''))
          else validate_tags show_uuid get_by_id organization_id ts
      | Inr None \<Rightarrow> Err (ApiError_bad_request (''Tag '' @ show_uuid t @ '' not found''))
      | Inl e \<Rightarrow>
          Err (ApiError_internal_error
            (''Failed to validate tag '' @ show_uuid t @ '': '' @ e)))"

definition validate_and_dedupe_tags ::
    "(uuid list \<Rightarrow> uuid list) \<Rightarrow> (uuid \<Rightarrow> string) \<Rightarrow> (uuid \<Rightarrow> (uuid option, string) result)
       \<Rightarrow> uuid list \<Rightarrow> uuid \<Rightarrow> (uuid list, ApiError) result" where
  "validate_and_dedupe_tags hash_order show_uuid get_by_id tags organization_id =
     (let unique_tags = hash_order tags
      in if unique_tags = [] then Ok unique_tags
         else case validate_tags show_uuid get_by_id organization_id unique_tags of
                Inl e \<Rightarrow> Err e
              | Inr _ \<Rightarrow> Ok unique_tags)"

subsection \<open>The contract of a check\<close>

text \<open>What a check decides: the entity is in the user's reach.\<close>

definition may_access :: "uuid list \<Rightarrow> uuid \<Rightarrow> uuid option \<Rightarrow> uuid option \<Rightarrow> bool" where
  "may_access user_network_ids user_organization_id network_id organization_id \<longleftrightarrow>
     (\<forall>n. network_id = Some n \<longrightarrow> n \<in> set user_network_ids) \<and>
     (\<forall>g. organization_id = Some g \<longrightarrow> g = user_organization_id)"

locale access_check =
  fixes check :: "uuid option \<Rightarrow> uuid option \<Rightarrow> uuid list \<Rightarrow> uuid \<Rightarrow> (unit, ApiError) result"
  assumes check_ok: "check n g ids u = Ok () \<longleftrightarrow> may_access ids u n g"
    and check_err: "check n g ids u = Err e \<Longrightarrow> ae_status e = 401"
begin

lemma check_cases:
  "if may_access ids u n g then check n g ids u = Ok ()
   else \<exists>e. check n g ids u = Err e \<and> ae_status e = 401"
proof (cases "check n g ids u")
  case (Inl e)
  with check_ok [of n g ids u] check_err [of n g ids u e] show ?thesis by simp
next
  case (Inr x)
  with check_ok [of n g ids u] show ?thesis by simp
qed

lemma check_mono: "check n g ids u = Ok () \<Longrightarrow> set ids \<subseteq> set ids' \<Longrightarrow> check n g ids' u = Ok ()"
  by (auto simp: check_ok may_access_def)

lemma check_no_networks: "check (Some n) g [] u \<noteq> Ok ()"
  by (simp add: check_ok may_access_def)

end

lemmas access_defs =
  validate_network_access_def validate_organization_access_def validate_create_access_def
  validate_read_access_def validate_delete_access_def validate_bulk_delete_access_def
  validate_update_access_def may_access_def ApiError_defs

interpretation create_access: access_check validate_create_access
  by unfold_locales (auto simp: access_defs split: option.splits if_splits)

interpretation read_access: access_check validate_read_access
  by unfold_locales (auto simp: access_defs split: option.splits if_splits)

interpretation delete_access: access_check validate_delete_access
  by unfold_locales (auto simp: access_defs split: option.splits if_splits)

interpretation bulk_delete_access: access_check validate_bulk_delete_access
  by unfold_locales (auto simp: access_defs split: option.splits if_splits)

lemma validate_tags_ok_iff:
  "validate_tags show_uuid get_by_id g ts = Ok () \<longleftrightarrow> (\<forall>t \<in> set ts. get_by_id t = Ok (Some g))"
  by (induction ts) (auto split: sum.splits option.splits)

subsection \<open>Properties\<close>

text \<open>The create, read, delete and bulk-delete checks all decide the same thing: the
  request passes exactly when the entity lies in the user's networks and organization, and
  is refused with status 401 otherwise.\<close>

theorem access_checks_agree:
  "\<forall>check \<in> {validate_create_access, validate_read_access, validate_delete_access,
              validate_bulk_delete_access}.
     if may_access ids u n g then check n g ids u = Ok ()
     else \<exists>e. check n g ids u = Err e \<and> ae_status e = 401"
  using create_access.check_cases read_access.check_cases delete_access.check_cases
    bulk_delete_access.check_cases by simp

theorem access_checks_agree_witness:
  "validate_delete_access (Some 7) (Some 1) [7, 8] 1 = Ok () \<and>
   (\<exists>e. validate_delete_access (Some 9) (Some 1) [7, 8] 1 = Err e \<and> ae_status e = 401)"
  using access_checks_agree [of "[7, 8]" 1 "Some 7" "Some 1"]
    access_checks_agree [of "[7, 8]" 1 "Some 9" "Some 1"]
  by (simp add: may_access_def)

text \<open>An update passes exactly when the user may access the entity both as it is and as it
  would become; a refusal has status 401.\<close>

theorem validate_update_access_iff:
  "if may_access ids u n g \<and> may_access ids u n' g'
   then validate_update_access n g n' g' ids u = Ok ()
   else \<exists>e. validate_update_access n g n' g' ids u = Err e \<and> ae_status e = 401"
  by (auto simp: access_defs split: option.splits)

text \<open>When the iteration order lists each tag once, tag validation succeeds exactly when
  every tag exists in the organization, and then returns the given tags without duplicates.\<close>

theorem validate_and_dedupe_tags_correct:
  assumes "distinct (hash_order tags) \<and> set (hash_order tags) = set tags"
  shows "case validate_and_dedupe_tags hash_order show_uuid get_by_id tags g of
           Inr r \<Rightarrow> distinct r \<and> set r = set tags \<and> (\<forall>t \<in> set tags. get_by_id t = Ok (Some g))
         | Inl e \<Rightarrow> \<exists>t \<in> set tags. get_by_id t \<noteq> Ok (Some g)"
  using assms validate_tags_ok_iff [of show_uuid get_by_id g "hash_order tags"]
  by (auto simp: validate_and_dedupe_tags_def Let_def split: sum.splits if_splits)

theorem validate_and_dedupe_tags_correct_witness:
  "validate_and_dedupe_tags remdups (\<lambda>_. ''t'') (\<lambda>t. Ok (Some 1)) [5, 6, 5] 1 = Ok [6, 5] \<and>
   set [6, 5 :: uuid] = set [5, 6, 5]"
  using validate_and_dedupe_tags_correct
    [where hash_order = remdups and tags = "[5, 6, 5]" and show_uuid = "\<lambda>_. ''t''"
      and get_by_id = "\<lambda>t. Ok (Some 1)" and g = 1]
  by (auto simp: validate_and_dedupe_tags_def)

end
