(* ===== verification/Positions.thy ===== *)
theory Positions
  imports Api
begin

section \<open>Positions of ordered entities\<close>

text \<open>
  Interfaces and services of a host and the bindings of a group carry a position in their
  parent's list (\<^verbatim>\<open>backend/src/server/shared/position.rs\<close>). The trait \<open>Positioned\<close> is the
  locale \<open>positioned\<close> below; the operations take the trait's methods as arguments, so that
  the entity types of the other theories interpret the locale and get the lemmas.

  Positions are \<open>i32\<close>: \<open>usize as i32\<close> is \<^const>\<open>as_i32\<close>. Collections of fewer than
  \<open>2^31\<close> entities are those for which the cast is exact.
\<close>

subsection \<open>Validation\<close>

definition capitalize :: "string \<Rightarrow> string" where
  "capitalize s = (case s of [] \<Rightarrow> [] | c # cs \<Rightarrow> ascii_upper c # cs)"

text \<open>The first pair of equal neighbours of the sorted positions, and the first element that is
  not its index: the two loops of \<open>validate_sequential_positions\<close>.\<close>

fun find_duplicate :: "int list \<Rightarrow> int option" where
  "find_duplicate (x # y # zs) = (if x = y then Some x else find_duplicate (y # zs))"
| "find_duplicate _ = None"

fun find_misplaced :: "nat \<Rightarrow> int list \<Rightarrow> (nat \<times> int) option" where
  "find_misplaced expected [] = None"
| "find_misplaced expected (actual # rest) =
     (if actual \<noteq> as_i32 expected then Some (expected, actual)
      else find_misplaced (Suc expected) rest)"

definition validate_sequential_positions ::
    "int list \<Rightarrow> string \<Rightarrow> (unit, ApiError) result" where
  "validate_sequential_positions positions entity_name =
     (if positions = [] then Ok ()
      else
        let sorted_positions = sort positions
        in case find_duplicate sorted_positions of
             Some p \<Rightarrow>
               Err (ApiError_bad_request
                 (''Duplicate '' @ entity_name @ '' position: '' @ show_int p @ ''. Each ''
                  @ entity_name @ '' must have a unique position.''))
           | None \<Rightarrow>
               (case find_misplaced 0 sorted_positions of
                  Some (expected, actual) \<Rightarrow>
                    Err (ApiError_bad_request
                      (capitalize entity_name @ '' positions must be sequential starting from 0. ''
                       @ ''Expected position '' @ show_nat expected @ '' but found ''
                       @ show_int actual @ ''. Positions should be: 0, 1, 2, ..., ''
                       @ show_nat (length positions - 1)))
                | None \<Rightarrow> Ok ()))"

definition validate_input_positions ::
    "('i \<Rightarrow> int option) \<Rightarrow> 'i list \<Rightarrow> string \<Rightarrow> (unit, ApiError) result" where
  "validate_input_positions i_pos inputs entity_name =
     validate_sequential_positions (List.map_filter i_pos inputs) entity_name"

text \<open>
  The loop of \<open>resolve_and_validate_input_positions\<close> over inputs that all omit their
  position. \<open>existing_by_id\<close> is the hash map built from the existing entities, in which
  a later entity with the same identifier replaces an earlier one.
\<close>

fun assign_positions ::
    "('i \<Rightarrow> int \<Rightarrow> 'i) \<Rightarrow> ('i \<Rightarrow> uuid) \<Rightarrow> (uuid \<rightharpoonup> int) \<Rightarrow> int \<Rightarrow> 'i list \<Rightarrow> 'i list" where
  "assign_positions i_set i_id existing_by_id next_pos [] = []"
| "assign_positions i_set i_id existing_by_id next_pos (i # is) =
     (case existing_by_id (i_id i) of
        Some pos \<Rightarrow> i_set i pos # assign_positions i_set i_id existing_by_id next_pos is
      | None \<Rightarrow>
          i_set i next_pos # assign_positions i_set i_id existing_by_id (i32_add next_pos 1) is)"

definition existing_positions :: "('e \<Rightarrow> uuid) \<Rightarrow> ('e \<Rightarrow> int) \<Rightarrow> 'e list \<Rightarrow> uuid \<rightharpoonup> int" where
  "existing_positions e_id e_pos existing = map_of (rev (map (\<lambda>e. (e_id e, e_pos e)) existing))"

definition resolve_and_validate_input_positions ::
    "('i \<Rightarrow> int option) \<Rightarrow> ('i \<Rightarrow> int \<Rightarrow> 'i) \<Rightarrow> ('i \<Rightarrow> uuid) \<Rightarrow> ('e \<Rightarrow> int) \<Rightarrow> ('e \<Rightarrow> uuid)
       \<Rightarrow> 'i list \<Rightarrow> 'e list \<Rightarrow> string \<Rightarrow> ('i list, ApiError) result" where
  "resolve_and_validate_input_positions i_pos i_set i_id e_pos e_id inputs existing entity_name =
     (if inputs = [] then Ok inputs
      else
        let specified_count = length (filter (\<lambda>i. i_pos i \<noteq> None) inputs)
        in if 0 < specified_count \<and> specified_count < length inputs
           then Err (ApiError_bad_request
                  (capitalize entity_name @ '' positions must be all specified or all omitted. ''
                   @ ''Found '' @ show_nat specified_count @ '' with positions and ''
                   @ show_nat (length inputs - specified_count) @ '' without.''))
           else if specified_count = length inputs
           then (case validate_sequential_positions (List.map_filter i_pos inputs) entity_name of
                   Inl e \<Rightarrow> Err e
                 | Inr _ \<Rightarrow> Ok inputs)
           else Ok (assign_positions i_set i_id (existing_positions e_id e_pos existing)
                      (as_i32 (length existing)) inputs))"

definition validate_entity_positions ::
    "('e \<Rightarrow> int) \<Rightarrow> string \<Rightarrow> 'e list \<Rightarrow> (unit, ApiError) result" where
  "validate_entity_positions e_pos entity_name entities =
     validate_sequential_positions (map e_pos entities) entity_name"

definition validate_position_range :: "int \<Rightarrow> nat \<Rightarrow> string \<Rightarrow> (unit, ApiError) result" where
  "validate_position_range new_position n_entities entity_name =
     (if n_entities = 0
      then Err (ApiError_bad_request
             (''Cannot set '' @ entity_name @ '' position: no '' @ entity_name @ ''s exist.''))
      else
        let max_position = as_i32 n_entities - 1
        in if new_position < 0 \<or> max_position < new_position
           then Err (ApiError_bad_request
                  (capitalize entity_name @ '' position '' @ show_int new_position
                   @ '' is out of range. Valid positions are 0 to '' @ show_int max_position
                   @ ''.''))
           else Ok ())"

definition validate_no_position_conflict ::
    "('e \<Rightarrow> int) \<Rightarrow> ('e \<Rightarrow> uuid) \<Rightarrow> string \<Rightarrow> int \<Rightarrow> uuid option \<Rightarrow> 'e list
       \<Rightarrow> (unit, ApiError) result" where
  "validate_no_position_conflict e_pos e_id entity_name new_position exclude_id existing =
     (if \<exists>e \<in> set existing. e_pos e = new_position \<and> Some (e_id e) \<noteq> exclude_id
      then Err (ApiError_bad_request
             (capitalize entity_name @ '' position '' @ show_int new_position
              @ '' is already used by another '' @ entity_name @ ''.''))
      else Ok ())"

subsection \<open>Operations\<close>

fun renumber_from ::
    "('e \<Rightarrow> int) \<Rightarrow> ('e \<Rightarrow> int \<Rightarrow> 'e) \<Rightarrow> nat \<Rightarrow> 'e list \<Rightarrow> 'e list \<times> bool" where
  "renumber_from e_pos e_set i [] = ([], False)"
| "renumber_from e_pos e_set i (e # es) =
     (let (es', changed) = renumber_from e_pos e_set (Suc i) es;
          expected = as_i32 i
      in if e_pos e \<noteq> expected then (e_set e expected # es', True) else (e # es', changed))"

definition renumber_positions ::
    "('e \<Rightarrow> int) \<Rightarrow> ('e \<Rightarrow> int \<Rightarrow> 'e) \<Rightarrow> 'e list \<Rightarrow> 'e list \<times> bool" where
  "renumber_positions e_pos e_set entities =
     (if entities = [] then (entities, False)
      else renumber_from e_pos e_set 0 (sort_key e_pos entities))"

definition next_position :: "'e list \<Rightarrow> int" where
  "next_position existing = as_i32 (length existing)"

definition move_down ::
    "('e \<Rightarrow> int) \<Rightarrow> ('e \<Rightarrow> int \<Rightarrow> 'e) \<Rightarrow> int \<Rightarrow> int \<Rightarrow> 'e \<Rightarrow> 'e" where
  "move_down e_pos e_set from_position to_position e =
     (let pos = e_pos e
      in if pos = from_position then e_set e to_position
         else if from_position < pos \<and> pos \<le> to_position then e_set e (pos - 1)
         else e)"

definition move_up ::
    "('e \<Rightarrow> int) \<Rightarrow> ('e \<Rightarrow> int \<Rightarrow> 'e) \<Rightarrow> int \<Rightarrow> int \<Rightarrow> 'e \<Rightarrow> 'e" where
  "move_up e_pos e_set from_position to_position e =
     (let pos = e_pos e
      in if pos = from_position then e_set e to_position
         else if to_position \<le> pos \<and> pos < from_position then e_set e (pos + 1)
         else e)"

definition reorder_positions ::
    "('e \<Rightarrow> int) \<Rightarrow> ('e \<Rightarrow> int \<Rightarrow> 'e) \<Rightarrow> 'e list \<Rightarrow> int \<Rightarrow> int \<Rightarrow> 'e list \<times> bool" where
  "reorder_positions e_pos e_set entities from_position to_position =
     (if from_position = to_position then (entities, False)
      else
        let n_entities = as_i32 (length entities)
        in if from_position < 0 \<or> n_entities \<le> from_position \<or> to_position < 0 \<or> n_entities \<le> to_position
           then (entities, False)
           else
             let sorted_entities = sort_key e_pos entities
             in if from_position < to_position
                then (map (move_down e_pos e_set from_position to_position) sorted_entities, True)
                else (map (move_up e_pos e_set from_position to_position) sorted_entities, True))"

subsection \<open>Sequential positions\<close>

text \<open>What validation decides: the positions are \<open>0, 1, \<dots>, n - 1\<close> in some order.\<close>

definition sequential :: "int list \<Rightarrow> bool" where
  "sequential ps \<longleftrightarrow> distinct ps \<and> set ps = {0..<int (length ps)}"

lemma sorted_map_int_upt: "sorted (map int [a..<b])"
  by (simp add: sorted_iff_nth_mono)

lemma sequential_iff_sort: "sequential ps \<longleftrightarrow> sort ps = map int [0..<length ps]"
proof
  assume "sequential ps"
  then have "distinct ps" and set: "set ps = {0..<int (length ps)}"
    by (simp_all add: sequential_def)
  then have "set (sort ps) = set (map int [0..<length ps])"
    by (simp add: image_int_atLeastLessThan)
  then show "sort ps = map int [0..<length ps]"
    using \<open>distinct ps\<close>
    by (intro sorted_distinct_set_unique) (simp_all add: distinct_map sorted_map_int_upt)
next
  assume eq: "sort ps = map int [0..<length ps]"
  have "distinct (sort ps)" by (simp add: eq distinct_map)
  moreover have "set (sort ps) = {0..<int (length ps)}"
    by (simp only: eq) (simp add: image_int_atLeastLessThan)
  ultimately show "sequential ps" by (simp add: sequential_def)
qed

lemma find_duplicate_None_iff: "sorted xs \<Longrightarrow> find_duplicate xs = None \<longleftrightarrow> distinct xs"
proof (induction xs rule: find_duplicate.induct)
  case (1 x y zs)
  then show ?case by (cases "x = y") (auto simp: order.antisym)
qed auto

lemma find_misplaced_None_iff:
  "find_misplaced k xs = None \<longleftrightarrow> xs = map as_i32 [k..<k + length xs]"
proof (induction xs arbitrary: k)
  case (Cons x xs)
  have "[k..<k + length (x # xs)] = k # [Suc k..<Suc k + length xs]"
    by (simp add: upt_rec)
  then show ?case using Cons.IH [of "Suc k"] by simp
qed simp

lemma map_as_i32_upt: "n \<le> 2 ^ 31 \<Longrightarrow> map as_i32 [0..<n] = map int [0..<n]"
  by (rule map_cong) auto

lemma validate_sequential_iff:
  assumes "length ps \<le> 2 ^ 31"
  shows "validate_sequential_positions ps name = Ok () \<longleftrightarrow> sequential ps"
proof -
  have "validate_sequential_positions ps name = Ok () \<longleftrightarrow>
      find_duplicate (sort ps) = None \<and> find_misplaced 0 (sort ps) = None"
    by (auto simp: validate_sequential_positions_def Let_def split: option.splits)
  also have "\<dots> \<longleftrightarrow> distinct ps \<and> sort ps = map int [0..<length ps]"
    using assms by (simp add: find_duplicate_None_iff find_misplaced_None_iff map_as_i32_upt)
  also have "\<dots> \<longleftrightarrow> sequential ps"
    by (auto simp: sequential_iff_sort [symmetric] sequential_def)
  finally show ?thesis .
qed

lemma validate_sequential_err:
  "validate_sequential_positions ps name = Err e \<Longrightarrow> ae_status e = 400"
  by (auto simp: validate_sequential_positions_def Let_def ApiError_defs split: if_splits option.splits)

subsection \<open>Moving an element of a list\<close>

text \<open>The abstract meaning of a reorder: take the element at index \<open>f\<close> out, put it back at \<open>t\<close>.\<close>

definition list_move :: "nat \<Rightarrow> nat \<Rightarrow> 'a list \<Rightarrow> 'a list" where
  "list_move f t xs =
     (let rest = take f xs @ drop (Suc f) xs in take t rest @ xs ! f # drop t rest)"

lemma length_list_move [simp]: "f < length xs \<Longrightarrow> t < length xs \<Longrightarrow> length (list_move f t xs) = length xs"
  by (simp add: list_move_def Let_def)

lemma nth_list_move:
  assumes "f < length xs" "t < length xs" "j < length xs"
  shows "list_move f t xs ! j =
     (if j = t then xs ! f
      else if f \<le> j \<and> j < t then xs ! Suc j
      else if t < j \<and> j \<le> f then xs ! (j - 1)
      else xs ! j)"
  using assms
  by (auto simp: list_move_def Let_def nth_append nth_Cons' min_def)

lemma mset_list_move: "f < length xs \<Longrightarrow> mset (list_move f t xs) = mset xs"
proof -
  assume f: "f < length xs"
  let ?rest = "take f xs @ drop (Suc f) xs"
  have "mset (take t ?rest) + mset (drop t ?rest) = mset ?rest"
    by (metis append_take_drop_id mset_append)
  then have "mset (list_move f t xs) = add_mset (xs ! f) (mset ?rest)"
    by (simp only: list_move_def Let_def mset_append mset.simps union_mset_add_mset_right)
  also have "\<dots> = mset (take f xs @ xs ! f # drop (Suc f) xs)" by simp
  also have "take f xs @ xs ! f # drop (Suc f) xs = xs"
    using f by (rule id_take_nth_drop [symmetric])
  finally show ?thesis .
qed

lemma map_list_move: "f < length xs \<Longrightarrow> map g (list_move f t xs) = list_move f t (map g xs)"
  by (simp add: list_move_def Let_def take_map drop_map)


subsection \<open>Entities with a position\<close>

text \<open>The trait \<open>Positioned\<close>: what the position operations rely on.\<close>

locale positioned =
  fixes e_pos :: "'e \<Rightarrow> int"
    and e_set :: "'e \<Rightarrow> int \<Rightarrow> 'e"
    and e_id :: "'e \<Rightarrow> uuid"
  assumes pos_set [simp]: "e_pos (e_set e p) = p"
    and id_set [simp]: "e_id (e_set e p) = e_id e"
begin

lemma renumber_from_spec:
  "map e_pos (fst (renumber_from e_pos e_set k es)) = map as_i32 [k..<k + length es]"
  "map e_id (fst (renumber_from e_pos e_set k es)) = map e_id es"
  "snd (renumber_from e_pos e_set k es) \<longleftrightarrow> map e_pos es \<noteq> map as_i32 [k..<k + length es]"
  "\<not> snd (renumber_from e_pos e_set k es) \<Longrightarrow> fst (renumber_from e_pos e_set k es) = es"
proof (induction es arbitrary: k)
  case (Cons e es)
  have upt: "[i..<i + length (e # es)] = i # [Suc i..<Suc i + length es]" for i
    by (simp add: upt_rec)
  { case (1 k) show ?case
      using Cons.IH(1) [of "Suc k"] by (simp only: upt) (auto simp: Let_def split: prod.splits)
  next
    case (2 k) show ?case
      using Cons.IH(2) [of "Suc k"] by (auto simp: Let_def split: prod.splits)
  next
    case (3 k) show ?case
      using Cons.IH(3) [of "Suc k"] by (simp only: upt) (auto simp: Let_def split: prod.splits)
  next
    case (4 k) then show ?case
      using Cons.IH(4) [of "Suc k"] by (auto simp: Let_def split: prod.splits if_splits)
  }
qed simp_all

lemma renumber_spec:
  fixes es
  defines "r \<equiv> renumber_positions e_pos e_set es"
  assumes "length es \<le> 2 ^ 31"
  shows "map e_pos (fst r) = map int [0..<length es]"
    and "map e_id (fst r) = map e_id (sort_key e_pos es)"
    and "snd r \<longleftrightarrow> \<not> sequential (map e_pos es)"
  using assms renumber_from_spec(1,2,3) [of 0 "sort_key e_pos es"]
  by (auto simp: r_def renumber_positions_def map_as_i32_upt sequential_iff_sort
      map_sort_key split: if_splits)

lemma move_pos:
  "e_pos (move_down e_pos e_set f t e) =
     (if e_pos e = f then t else if f < e_pos e \<and> e_pos e \<le> t then e_pos e - 1 else e_pos e)"
  "e_pos (move_up e_pos e_set f t e) =
     (if e_pos e = f then t else if t \<le> e_pos e \<and> e_pos e < f then e_pos e + 1 else e_pos e)"
  by (simp_all add: move_down_def move_up_def Let_def)

lemma move_id [simp]:
  "e_id (move_down e_pos e_set f t e) = e_id e"
  "e_id (move_up e_pos e_set f t e) = e_id e"
  by (simp_all add: move_down_def move_up_def Let_def)

lemma sorted_positions:
  assumes "sequential (map e_pos es)"
  shows "map e_pos (sort_key e_pos es) = map int [0..<length es]"
  using assms by (simp add: map_sort_key sequential_iff_sort)

lemma reorder_spec:
  fixes es f t
  defines "r \<equiv> fst (reorder_positions e_pos e_set es f t)"
  assumes seq: "sequential (map e_pos es)" and len: "length es < 2 ^ 31"
    and f: "0 \<le> f" "f < int (length es)" and t: "0 \<le> t" "t < int (length es)" and ft: "f \<noteq> t"
  shows "map e_id (sort_key e_pos r) = list_move (nat f) (nat t) (map e_id (sort_key e_pos es))"
    and "sequential (map e_pos r)"
proof -
  define xs where "xs = sort_key e_pos es"
  define mv where "mv = (if f < t then move_down e_pos e_set f t else move_up e_pos e_set f t)"
  define ys where "ys = list_move (nat f) (nat t) (map mv xs)"
  let ?n = "length es"
  have n: "length xs = ?n" "nat f < ?n" "nat t < ?n"
    using f t by (simp_all add: xs_def nat_less_iff)
  have r: "r = map mv xs"
    using f t ft len
    by (auto simp: r_def reorder_positions_def mv_def xs_def Let_def not_less)
  have pos: "e_pos (xs ! i) = int i" if "i < ?n" for i
    using arg_cong [OF sorted_positions [OF seq], of "\<lambda>l. l ! i"] that n
    by (simp add: xs_def)
  have "map e_pos ys = map int [0..<?n]"
  proof (rule nth_equalityI)
    fix j assume "j < length (map e_pos ys)"
    then have j: "j < ?n" using n by (simp add: ys_def)
    show "map e_pos ys ! j = map int [0..<?n] ! j"
      using j n f t ft
      by (auto simp: ys_def nth_list_move mv_def move_pos pos)
  qed (use n in \<open>simp add: ys_def\<close>)
  then have "sorted (map e_pos ys)" and "distinct (map e_pos ys)"
    by (simp_all add: sorted_map_int_upt distinct_map)
  moreover have "mset ys = mset r"
    using n by (simp add: ys_def r mset_list_move)
  ultimately have srt: "sort_key e_pos r = ys" by (intro sort_key_unique)
  have "e_id \<circ> mv = e_id"
    by (simp add: mv_def fun_eq_iff)
  then show "map e_id (sort_key e_pos r) = list_move (nat f) (nat t) (map e_id (sort_key e_pos es))"
    using n by (simp add: srt ys_def map_list_move xs_def)
  have "sort (map e_pos r) = map int [0..<length (map e_pos r)]"
    unfolding map_sort_key [symmetric] srt using \<open>map e_pos ys = map int [0..<?n]\<close> n
    by (simp add: r)
  then show "sequential (map e_pos r)" by (simp add: sequential_iff_sort)
qed

end

text \<open>The trait \<open>PositionedInput\<close>.\<close>

locale positioned_input =
  fixes i_pos :: "'i \<Rightarrow> int option"
    and i_set :: "'i \<Rightarrow> int \<Rightarrow> 'i"
    and i_id :: "'i \<Rightarrow> uuid"
  assumes i_pos_set [simp]: "i_pos (i_set i p) = Some p"
    and i_id_set [simp]: "i_id (i_set i p) = i_id i"
begin

lemma assign_ids [simp]: "map i_id (assign_positions i_set i_id m p is) = map i_id is"
  by (induction "is" arbitrary: p) (auto split: option.splits)

lemma assign_existing:
  "x \<in> set (assign_positions i_set i_id m p is) \<Longrightarrow> m (i_id x) = Some k \<Longrightarrow> i_pos x = Some k"
  by (induction "is" arbitrary: p) (auto split: option.splits)

lemma assign_new:
  assumes "- (2 ^ 31) \<le> p" "p + int (length is) < 2 ^ 31"
  shows "map i_pos (filter (\<lambda>i. m (i_id i) = None) (assign_positions i_set i_id m p is)) =
         map Some [p..p + int (length (filter (\<lambda>i. m (i_id i) = None) is)) - 1]"
  using assms
proof (induction "is" arbitrary: p)
  case (Cons i "is")
  show ?case
  proof (cases "m (i_id i)")
    case None
    let ?c = "int (length (filter (\<lambda>i. m (i_id i) = None) is))"
    have "[p..p + (1 + ?c) - 1] = p # [p + 1..p + 1 + ?c - 1]"
      by (simp add: upto_rec1)
    then show ?thesis
      using None Cons.IH [of "p + 1"] Cons.prems by (simp add: algebra_simps)
  next
    case (Some k)
    then show ?thesis using Cons by simp
  qed
qed simp

lemma assign_distinct:
  assumes "distinct (map i_id is)" "inj_on m (dom m)" "\<forall>k \<in> ran m. k < p"
    and "- (2 ^ 31) \<le> p" "p + int (length is) < 2 ^ 31"
  shows "distinct (map i_pos (assign_positions i_set i_id m p is))"
proof -
  let ?out = "assign_positions i_set i_id m p is"
  let ?new = "\<lambda>i. m (i_id i) = None"
  have "distinct (map i_id ?out)" using assms(1) by simp
  then have inj: "inj_on i_id (set ?out)" and dist: "distinct ?out"
    unfolding distinct_map by blast+
  have new: "map i_pos (filter ?new ?out) = map Some [p..p + int (length (filter ?new is)) - 1]"
    by (rule assign_new [OF assms(4,5)])
  have dnew: "distinct (map i_pos (filter ?new ?out))"
    by (simp add: new distinct_map)
  have newpos: "\<exists>k \<ge> p. i_pos x = Some k" if "x \<in> set ?out" "?new x" for x
  proof -
    have "i_pos x \<in> set (map i_pos (filter ?new ?out))" using that by auto
    then show ?thesis unfolding new by auto
  qed
  have sep: False if "x \<in> set ?out" "?new x" "y \<in> set ?out" "m (i_id y) = Some k" "i_pos x = i_pos y"
    for x y k
  proof -
    from newpos [OF that(1,2)] obtain j where "p \<le> j" "i_pos x = Some j" by blast
    moreover have "i_pos y = Some k" using that(3,4) by (rule assign_existing)
    moreover have "k < p" using assms(3) that(4) by (blast intro: ranI)
    ultimately show False using that(5) by simp
  qed
  have "x = y" if x: "x \<in> set ?out" and y: "y \<in> set ?out" and eq: "i_pos x = i_pos y" for x y
  proof (cases "m (i_id x)"; cases "m (i_id y)")
    assume "m (i_id x) = None" "m (i_id y) = None"
    with x y eq dnew show ?thesis by (auto simp: distinct_map dest: inj_onD)
  next
    fix k assume "m (i_id x) = None" "m (i_id y) = Some k"
    with sep [OF x _ y] eq show ?thesis by blast
  next
    fix k assume "m (i_id x) = Some k" "m (i_id y) = None"
    with sep [OF y _ x] eq show ?thesis by metis
  next
    fix k l assume k: "m (i_id x) = Some k" and l: "m (i_id y) = Some l"
    with assign_existing [OF x] assign_existing [OF y] eq have "m (i_id x) = m (i_id y)" by simp
    with k l assms(2) have "i_id x = i_id y" by (metis domI inj_onD)
    with inj x y show ?thesis by (auto dest: inj_onD)
  qed
  then show ?thesis
    using dist by (auto simp: distinct_map intro: inj_onI)
qed

end

lemma existing_positions_distinct:
  assumes "distinct (map e_id es)"
  shows "existing_positions e_id e_pos es = map_of (map (\<lambda>e. (e_id e, e_pos e)) es)"
  unfolding existing_positions_def
  using assms by (intro map_of_inject_set [THEN iffD2]) (simp_all add: o_def rev_map [symmetric])

lemma existing_positions_Some_iff:
  assumes "distinct (map e_id es)"
  shows "existing_positions e_id e_pos es i = Some k \<longleftrightarrow> (\<exists>e \<in> set es. e_id e = i \<and> e_pos e = k)"
proof -
  have "distinct (map fst (map (\<lambda>e. (e_id e, e_pos e)) es))" using assms by (simp add: o_def)
  from map_of_eq_Some_iff [OF this] show ?thesis
    by (auto simp: existing_positions_distinct [OF assms])
qed

lemma existing_positions_None_iff:
  "existing_positions e_id e_pos es i = None \<longleftrightarrow> i \<notin> e_id ` set es"
  by (auto simp: existing_positions_def map_of_eq_None_iff image_image)

lemma existing_positions_inj:
  assumes "distinct (map e_id es)" "sequential (map e_pos es)"
  shows "inj_on (existing_positions e_id e_pos es) (dom (existing_positions e_id e_pos es))"
proof (rule inj_onI)
  fix i j
  assume "i \<in> dom (existing_positions e_id e_pos es)"
    and eq: "existing_positions e_id e_pos es i = existing_positions e_id e_pos es j"
  then obtain k where "existing_positions e_id e_pos es i = Some k" by blast
  with eq have "existing_positions e_id e_pos es j = Some k" by simp
  with \<open>existing_positions e_id e_pos es i = Some k\<close> obtain e f
    where "e \<in> set es" "e_id e = i" "f \<in> set es" "e_id f = j" "e_pos e = e_pos f"
    by (auto simp: existing_positions_Some_iff [OF assms(1)])
  with assms(2) show "i = j"
    by (auto simp: sequential_def distinct_map dest: inj_onD)
qed

lemma existing_positions_ran:
  assumes "distinct (map e_id es)" "sequential (map e_pos es)" "k \<in> ran (existing_positions e_id e_pos es)"
  shows "0 \<le> k \<and> k < int (length es)"
proof -
  from assms(3) obtain e where "e \<in> set es" "e_pos e = k"
    by (auto simp: ran_def existing_positions_Some_iff [OF assms(1)])
  then have "k \<in> set (map e_pos es)" by auto
  with assms(2) show ?thesis by (simp add: sequential_def)
qed


subsection \<open>Properties\<close>

text \<open>Position validation accepts exactly the vectors that are a permutation of
  \<open>0, 1, \<dots>, n - 1\<close>, and refuses every other with status 400.\<close>

theorem validate_sequential_positions_correct:
  assumes "length ps \<le> 2 ^ 31"
  shows "if distinct ps \<and> set ps = {0..<int (length ps)}
         then validate_sequential_positions ps name = Ok ()
         else \<exists>e. validate_sequential_positions ps name = Err e \<and> ae_status e = 400"
proof (cases "validate_sequential_positions ps name")
  case (Inl e)
  then show ?thesis
    using validate_sequential_iff [OF assms, of name] validate_sequential_err [OF Inl]
    by (auto simp: sequential_def)
next
  case (Inr u)
  then show ?thesis
    using validate_sequential_iff [OF assms, of name] by (auto simp: sequential_def)
qed

theorem validate_sequential_positions_correct_witness:
  "validate_sequential_positions [2, 0, 1] ''interface'' = Ok () \<and>
   (\<exists>e. validate_sequential_positions [0, 2, 3] ''interface'' = Err e \<and> ae_status e = 400)"
proof
  have set: "{2, 0, 1} = {0..<3 :: int}" by auto
  show "validate_sequential_positions [2, 0, 1] ''interface'' = Ok ()"
    using validate_sequential_positions_correct [of "[2, 0, 1]" "''interface''"] set by simp
  have "1 \<notin> {0, 2, 3 :: int}" and "1 \<in> {0..<3 :: int}" by simp_all
  then have "{0, 2, 3} \<noteq> {0..<3 :: int}" by metis
  then show "\<exists>e. validate_sequential_positions [0, 2, 3] ''interface'' = Err e \<and> ae_status e = 400"
    using validate_sequential_positions_correct [of "[0, 2, 3]" "''interface''"] by simp
qed

end
