(* ===== verification/Permissions.thy ===== *)
theory Permissions
  imports Prelude
begin

section \<open>Organization permissions\<close>

text \<open>
  The role lattice of an organization and the rules by which a user grants a role to
  another user or to an API key (\<^verbatim>\<open>backend/src/server/users/impl/permissions.rs\<close>). The
  order on roles is the source's own \<open>Ord\<close> instance, by rank, not the declaration order.
\<close>

datatype UserOrgPermissions =
    UserOrgPermissions_Owner
  | UserOrgPermissions_Admin
  | UserOrgPermissions_Member
  | UserOrgPermissions_Viewer

abbreviation "Owner \<equiv> UserOrgPermissions_Owner"
abbreviation "Admin \<equiv> UserOrgPermissions_Admin"
abbreviation "Member \<equiv> UserOrgPermissions_Member"
abbreviation "Viewer \<equiv> UserOrgPermissions_Viewer"

text \<open>\<open>UserOrgPermissions::iter()\<close>: declaration order.\<close>

definition UserOrgPermissions_iter :: "UserOrgPermissions list" where
  "UserOrgPermissions_iter = [Owner, Admin, Member, Viewer]"

fun UserOrgPermissions_rank :: "UserOrgPermissions \<Rightarrow> nat" where
  "UserOrgPermissions_rank UserOrgPermissions_Owner = 4"
| "UserOrgPermissions_rank UserOrgPermissions_Admin = 3"
| "UserOrgPermissions_rank UserOrgPermissions_Member = 2"
| "UserOrgPermissions_rank UserOrgPermissions_Viewer = 1"

lemma UserOrgPermissions_rank_inj:
  "UserOrgPermissions_rank p = UserOrgPermissions_rank q \<longleftrightarrow> p = q"
  by (cases p; cases q) auto

instantiation UserOrgPermissions :: linorder
begin

definition less_eq_UserOrgPermissions :: "UserOrgPermissions \<Rightarrow> UserOrgPermissions \<Rightarrow> bool" where
  "less_eq_UserOrgPermissions p q \<longleftrightarrow> UserOrgPermissions_rank p \<le> UserOrgPermissions_rank q"

definition less_UserOrgPermissions :: "UserOrgPermissions \<Rightarrow> UserOrgPermissions \<Rightarrow> bool" where
  "less_UserOrgPermissions p q \<longleftrightarrow> UserOrgPermissions_rank p < UserOrgPermissions_rank q"

instance
  by standard
    (auto simp: less_eq_UserOrgPermissions_def less_UserOrgPermissions_def
      UserOrgPermissions_rank_inj)

end

lemmas role_order_defs = less_eq_UserOrgPermissions_def less_UserOrgPermissions_def

fun UserOrgPermissions_as_str :: "UserOrgPermissions \<Rightarrow> string" where
  "UserOrgPermissions_as_str UserOrgPermissions_Owner = ''Owner''"
| "UserOrgPermissions_as_str UserOrgPermissions_Admin = ''Admin''"
| "UserOrgPermissions_as_str UserOrgPermissions_Member = ''Member''"
| "UserOrgPermissions_as_str UserOrgPermissions_Viewer = ''Viewer''"

definition UserOrgPermissions_from_str :: "string \<Rightarrow> (UserOrgPermissions, unit) result" where
  "UserOrgPermissions_from_str input =
     (if input = ''Owner'' then Ok Owner
      else if input = ''Admin'' then Ok Admin
      else if input = ''Member'' then Ok Member
      else if input = ''Viewer'' \<or> input = ''Visualizer'' \<or> input = ''None'' then Ok Viewer
      else Err ())"

definition grantable_api_key_permissions :: "UserOrgPermissions \<Rightarrow> UserOrgPermissions list" where
  "grantable_api_key_permissions self = filter (\<lambda>p. p \<le> self) UserOrgPermissions_iter"

definition grantable_user_permissions :: "UserOrgPermissions \<Rightarrow> UserOrgPermissions list" where
  "grantable_user_permissions self =
     (case self of
        UserOrgPermissions_Owner \<Rightarrow> UserOrgPermissions_iter
      | UserOrgPermissions_Admin \<Rightarrow> filter (\<lambda>p. p < self) UserOrgPermissions_iter
      | _ \<Rightarrow> [])"

definition can_grant_api_key_permission :: "UserOrgPermissions \<Rightarrow> UserOrgPermissions \<Rightarrow> bool" where
  "can_grant_api_key_permission self target \<longleftrightarrow> target \<le> self"

definition can_grant_user_permission :: "UserOrgPermissions \<Rightarrow> UserOrgPermissions \<Rightarrow> bool" where
  "can_grant_user_permission self target \<longleftrightarrow> target \<in> set (grantable_user_permissions self)"

definition UserOrgPermissions_description :: "UserOrgPermissions \<Rightarrow> string" where
  "UserOrgPermissions_description p =
     (case p of
        UserOrgPermissions_Owner \<Rightarrow>
          ''Full organization control: manage billing, invite any role, and access all administrative features''
      | UserOrgPermissions_Admin \<Rightarrow>
          ''Manage users and invites, create and modify all entities, but cannot access billing''
      | UserOrgPermissions_Member \<Rightarrow> ''Create and modify entities for specific networks''
      | UserOrgPermissions_Viewer \<Rightarrow> ''View entities.'')"

record UserOrgPermissions_metadata_json =
  upm_grantable_api_key_permissions :: "UserOrgPermissions list"
  upm_grantable_user_permissions :: "UserOrgPermissions list"
  upm_manage_org_entities :: bool

definition UserOrgPermissions_metadata ::
    "UserOrgPermissions \<Rightarrow> UserOrgPermissions_metadata_json" where
  "UserOrgPermissions_metadata p =
     \<lparr>upm_grantable_api_key_permissions = grantable_api_key_permissions p,
      upm_grantable_user_permissions = grantable_user_permissions p,
      upm_manage_org_entities = (p \<in> {Owner, Admin})\<rparr>"

subsection \<open>Chains of grants\<close>

text \<open>
  A role can be passed on: a user with role \<open>g\<close> makes a user with role \<open>t\<close>, who makes
  further users and API keys. The roles reachable from a root role are the closure of the
  single grants.
\<close>

inductive grants :: "UserOrgPermissions \<Rightarrow> UserOrgPermissions \<Rightarrow> bool" where
  grants_refl: "grants r r"
| grants_user: "grants r g \<Longrightarrow> can_grant_user_permission g t \<Longrightarrow> grants r t"
| grants_key: "grants r g \<Longrightarrow> can_grant_api_key_permission g t \<Longrightarrow> grants r t"

lemma can_grant_user_iff:
  "can_grant_user_permission g t \<longleftrightarrow> g = Owner \<or> (g = Admin \<and> t < Admin)"
  by (cases g; cases t)
    (simp_all add: can_grant_user_permission_def grantable_user_permissions_def
      UserOrgPermissions_iter_def role_order_defs)

lemma role_le_Owner [simp]: "p \<le> Owner"
  by (cases p) (simp_all add: role_order_defs)

lemma can_grant_user_le: "can_grant_user_permission g t \<Longrightarrow> t \<le> g"
  by (auto simp: can_grant_user_iff)

lemma set_grantable_api_key: "set (grantable_api_key_permissions g) = {t. t \<le> g}"
proof -
  have "t \<in> set UserOrgPermissions_iter" for t
    by (cases t) (simp_all add: UserOrgPermissions_iter_def)
  then show ?thesis by (auto simp: grantable_api_key_permissions_def)
qed

subsection \<open>Properties\<close>



text \<open>Who may give which role to a user: owners any role, admins the roles below their own,
  members and viewers none; an API key may be given the grantor's role or any below.\<close>

theorem grant_rules:
  "can_grant_user_permission g t = (g = Owner \<or> (g = Admin \<and> t \<in> {Member, Viewer})) \<and>
   set (grantable_api_key_permissions g) = {k. k \<le> g} \<and>
   (can_grant_api_key_permission g t \<longleftrightarrow> t \<in> set (grantable_api_key_permissions g))"
  by (cases t)
    (auto simp: can_grant_user_iff set_grantable_api_key can_grant_api_key_permission_def
      role_order_defs)

text \<open>A role is recovered from its printed name.\<close>

theorem UserOrgPermissions_from_str_as_str:
  "UserOrgPermissions_from_str (UserOrgPermissions_as_str p) = Ok p"
  by (cases p) (simp_all add: UserOrgPermissions_from_str_def)

end
