(* ===== verification/Daemon_Version.thy ===== *)
theory Daemon_Version
  imports Prelude
begin

section \<open>Daemon version policy\<close>

text \<open>
  The policy by which the server classifies the version a daemon reports
  (\<^verbatim>\<open>backend/src/server/daemons/impl/version.rs\<close>). Versions come from the \<open>semver\<close>
  crate: the model takes any linearly ordered type and a printing function for them.
\<close>

datatype VersionHealthStatus =
    VersionHealthStatus_Current
  | VersionHealthStatus_Outdated
  | VersionHealthStatus_Deprecated

datatype DeprecationSeverity =
    DeprecationSeverity_Info
  | DeprecationSeverity_Warning
  | DeprecationSeverity_Critical

record DeprecationWarning =
  dw_message :: string
  dw_sunset_date :: "string option"
  dw_severity :: DeprecationSeverity

record DaemonVersionStatus =
  dvs_version :: "string option"
  dvs_status :: VersionHealthStatus
  dvs_warnings :: "DeprecationWarning list"

record 'v DaemonVersionPolicy =
  minimum_supported :: 'v
  recommended :: 'v
  latest :: 'v

definition evaluate_unknown ::
    "('v::linorder \<Rightarrow> string) \<Rightarrow> 'v DaemonVersionPolicy \<Rightarrow> DaemonVersionStatus" where
  "evaluate_unknown show_v self =
     \<lparr>dvs_version = None,
      dvs_status = VersionHealthStatus_Outdated,
      dvs_warnings =
        [\<lparr>dw_message = ''Daemon version unknown. Update to '' @ show_v (recommended self)
                        @ '' or later.'',
          dw_sunset_date = None,
          dw_severity = DeprecationSeverity_Warning\<rparr>]\<rparr>"

definition evaluate_known ::
    "('v::linorder \<Rightarrow> string) \<Rightarrow> 'v DaemonVersionPolicy \<Rightarrow> 'v \<Rightarrow> DaemonVersionStatus" where
  "evaluate_known show_v self v =
     (if v < minimum_supported self then
        \<lparr>dvs_version = Some (show_v v),
         dvs_status = VersionHealthStatus_Deprecated,
         dvs_warnings =
           [\<lparr>dw_message = ''Daemon '' @ show_v v @ '' is deprecated. Update to ''
                           @ show_v (recommended self) @ '' or later.'',
             dw_sunset_date = Some ''2025-02-01'',
             dw_severity = DeprecationSeverity_Critical\<rparr>]\<rparr>
      else if v < recommended self then
        \<lparr>dvs_version = Some (show_v v),
         dvs_status = VersionHealthStatus_Outdated,
         dvs_warnings =
           [\<lparr>dw_message = ''Daemon '' @ show_v v @ '' is outdated. Update to ''
                           @ show_v (recommended self) @ '' for latest features.'',
             dw_sunset_date = None,
             dw_severity = DeprecationSeverity_Warning\<rparr>]\<rparr>
      else
        \<lparr>dvs_version = Some (show_v v),
         dvs_status = VersionHealthStatus_Current,
         dvs_warnings = []\<rparr>)"

definition evaluate ::
    "('v::linorder \<Rightarrow> string) \<Rightarrow> 'v DaemonVersionPolicy \<Rightarrow> 'v option \<Rightarrow> DaemonVersionStatus" where
  "evaluate show_v self version =
     (case version of
        None \<Rightarrow> evaluate_unknown show_v self
      | Some v \<Rightarrow> evaluate_known show_v self v)"

text \<open>The health of a status, from worst to best.\<close>

fun health_rank :: "VersionHealthStatus \<Rightarrow> nat" where
  "health_rank VersionHealthStatus_Deprecated = 0"
| "health_rank VersionHealthStatus_Outdated = 1"
| "health_rank VersionHealthStatus_Current = 2"

fun severity_of :: "VersionHealthStatus \<Rightarrow> DeprecationSeverity list" where
  "severity_of VersionHealthStatus_Deprecated = [DeprecationSeverity_Critical]"
| "severity_of VersionHealthStatus_Outdated = [DeprecationSeverity_Warning]"
| "severity_of VersionHealthStatus_Current = []"

subsection \<open>Properties\<close>

text \<open>A newer daemon is never rated worse than an older one.\<close>

theorem evaluate_mono:
  assumes "v \<le> w"
  shows "health_rank (dvs_status (evaluate show_v policy (Some v))) \<le>
         health_rank (dvs_status (evaluate show_v policy (Some w)))"
  using assms by (auto simp: evaluate_def evaluate_known_def)

theorem evaluate_mono_witness:
  "health_rank (dvs_status (evaluate show_nat
      \<lparr>minimum_supported = 12, recommended = 20, latest = 20\<rparr> (Some (11 :: nat)))) \<le>
   health_rank (dvs_status (evaluate show_nat
      \<lparr>minimum_supported = 12, recommended = 20, latest = 20\<rparr> (Some 15)))"
  using evaluate_mono [of "11 :: nat" 15] by simp

text \<open>The thresholds: deprecated below the minimum, current from the recommended version on
  (and not below the minimum), outdated otherwise, an unknown version outdated; and the
  warnings are exactly one of the matching severity, or none for a current daemon.\<close>

theorem evaluate_classification:
  "dvs_status (evaluate show_v policy version) =
     (case version of
        None \<Rightarrow> VersionHealthStatus_Outdated
      | Some v \<Rightarrow>
          if v < minimum_supported policy then VersionHealthStatus_Deprecated
          else if recommended policy \<le> v then VersionHealthStatus_Current
          else VersionHealthStatus_Outdated) \<and>
   map dw_severity (dvs_warnings (evaluate show_v policy version)) =
     severity_of (dvs_status (evaluate show_v policy version)) \<and>
   dvs_version (evaluate show_v policy version) = map_option show_v version"
  by (auto simp: evaluate_def evaluate_known_def evaluate_unknown_def split: option.splits)

end
