(* ===== verification/Entities.thy ===== *)
theory Entities
  imports Ports Positions
begin

section \<open>Network entities\<close>

text \<open>
  The entities that discovery produces and the server stores: addresses, discovery
  types and sources, subnets (\<^verbatim>\<open>backend/src/server/subnets/impl\<close>), interfaces
  (\<^verbatim>\<open>backend/src/server/interfaces/impl\<close>), bindings (\<^verbatim>\<open>backend/src/server/bindings/impl\<close>)
  and the inputs of the host API (\<^verbatim>\<open>backend/src/server/hosts/impl/api.rs\<close>).

  Code of other crates is not modelled. What the sources use of it is a field of the record
  \<open>externals\<close>, passed to the operations: printing identifiers, CIDR blocks and MAC
  addresses, CIDR membership and construction, and the OUI vendor database.
\<close>

subsection \<open>Addresses\<close>

datatype IpAddr = IpAddr_V4 "32 word" | IpAddr_V6 "128 word"

definition Ipv4Addr_new :: "u8 \<Rightarrow> u8 \<Rightarrow> u8 \<Rightarrow> u8 \<Rightarrow> 32 word" where
  "Ipv4Addr_new a b c d =
     push_bit 24 (ucast a) + push_bit 16 (ucast b) + push_bit 8 (ucast c) + ucast d"

definition Ipv4Addr_octets :: "32 word \<Rightarrow> u8 list" where
  "Ipv4Addr_octets w = map (\<lambda>n. ucast (drop_bit n w)) [24, 16, 8, 0]"

definition Ipv6Addr_segments :: "128 word \<Rightarrow> u16 list" where
  "Ipv6Addr_segments w = map (\<lambda>n. ucast (drop_bit n w)) [112, 96, 80, 64, 48, 32, 16, 0]"

definition Ipv4Addr_display :: "32 word \<Rightarrow> string" where
  "Ipv4Addr_display w = join ''.'' (map (\<lambda>b. show_nat (unat b)) (Ipv4Addr_octets w))"

definition hex_char :: "nat \<Rightarrow> char" where
  "hex_char d = (if d < 10 then char_of (48 + d) else char_of (87 + d))"

fun show_hex :: "nat \<Rightarrow> string" where
  "show_hex n = (if n < 16 then [hex_char n] else show_hex (n div 16) @ [hex_char (n mod 16)])"

declare show_hex.simps [simp del]

text \<open>The longest run of zero segments (the first of them), as \<open>Ipv6Addr\<close>'s \<open>Display\<close> finds it:
  index, current run, longest run so far, each run a start and a length.\<close>

fun zero_span :: "nat \<Rightarrow> nat \<times> nat \<Rightarrow> nat \<times> nat \<Rightarrow> u16 list \<Rightarrow> nat \<times> nat" where
  "zero_span i cur best [] = best"
| "zero_span i cur best (s # ss) =
     (if s = 0 then
        let cur' = ((if snd cur = 0 then i else fst cur), Suc (snd cur))
        in zero_span (Suc i) cur' (if snd best < snd cur' then cur' else best) ss
      else zero_span (Suc i) (0, 0) best ss)"

definition Ipv6Addr_display :: "128 word \<Rightarrow> string" where
  "Ipv6Addr_display w =
     (let segs = Ipv6Addr_segments w;
          hex = (\<lambda>l. join '':'' (map (\<lambda>s. show_hex (unat s)) l));
          span = zero_span 0 (0, 0) (0, 0) segs
      in if take 5 segs = replicate 5 0 \<and> segs ! 5 = 65535
         then ''::ffff:'' @ Ipv4Addr_display (ucast w)
         else if 1 < snd span
         then hex (take (fst span) segs) @ ''::'' @ hex (drop (fst span + snd span) segs)
         else hex segs)"

definition IpAddr_display :: "IpAddr \<Rightarrow> string" where
  "IpAddr_display a =
     (case a of IpAddr_V4 w \<Rightarrow> Ipv4Addr_display w | IpAddr_V6 w \<Rightarrow> Ipv6Addr_display w)"

datatype IpCidr = IpCidr_V4 "32 word" nat | IpCidr_V6 "128 word" nat

type_synonym MacAddress = "48 word"

text \<open>The other crates: \<open>uuid\<close>, \<open>cidr\<close>, \<open>mac_address\<close>, \<open>mac_oui\<close>.\<close>

record externals =
  ext_show_uuid :: "uuid \<Rightarrow> string"
  ext_show_cidr :: "IpCidr \<Rightarrow> string"
  ext_cidr_contains :: "IpCidr \<Rightarrow> IpAddr \<Rightarrow> bool"
  ext_cidr_new_v4 :: "32 word \<Rightarrow> nat \<Rightarrow> IpCidr option"
  ext_show_mac :: "MacAddress \<Rightarrow> string"
  ext_oui_default :: bool \<comment> \<open>whether \<open>Oui::default()\<close> loads\<close>
  ext_oui_lookup :: "string \<Rightarrow> (string option, unit) result" \<comment> \<open>\<open>lookup_by_mac\<close>: company name\<close>

subsection \<open>Discovery types, match details, sources\<close>

datatype HostNamingFallback = HostNamingFallback_Ip | HostNamingFallback_BestService

datatype DiscoveryType =
    DiscoveryType_SelfReport uuid
  | DiscoveryType_Network "uuid list option" HostNamingFallback
  | DiscoveryType_Docker uuid HostNamingFallback

fun DiscoveryType_display :: "DiscoveryType \<Rightarrow> string" where
  "DiscoveryType_display (DiscoveryType_SelfReport h) = ''Self Report''"
| "DiscoveryType_display (DiscoveryType_Network s f) = ''Network Discovery''"
| "DiscoveryType_display (DiscoveryType_Docker h f) = ''Docker Discovery''"

datatype MatchConfidence =
    MatchConfidence_NotApplicable
  | MatchConfidence_Low
  | MatchConfidence_Medium
  | MatchConfidence_High
  | MatchConfidence_Certain

fun MatchConfidence_rank :: "MatchConfidence \<Rightarrow> nat" where
  "MatchConfidence_rank MatchConfidence_NotApplicable = 0"
| "MatchConfidence_rank MatchConfidence_Low = 1"
| "MatchConfidence_rank MatchConfidence_Medium = 2"
| "MatchConfidence_rank MatchConfidence_High = 3"
| "MatchConfidence_rank MatchConfidence_Certain = 4"

lemma MatchConfidence_rank_inj: "MatchConfidence_rank a = MatchConfidence_rank b \<longleftrightarrow> a = b"
  by (cases a; cases b) auto

instantiation MatchConfidence :: linorder
begin

definition less_eq_MatchConfidence :: "MatchConfidence \<Rightarrow> MatchConfidence \<Rightarrow> bool" where
  "less_eq_MatchConfidence a b \<longleftrightarrow> MatchConfidence_rank a \<le> MatchConfidence_rank b"

definition less_MatchConfidence :: "MatchConfidence \<Rightarrow> MatchConfidence \<Rightarrow> bool" where
  "less_MatchConfidence a b \<longleftrightarrow> MatchConfidence_rank a < MatchConfidence_rank b"

instance
  by standard
    (auto simp: less_eq_MatchConfidence_def less_MatchConfidence_def MatchConfidence_rank_inj)

end

lemmas confidence_order_defs = less_eq_MatchConfidence_def less_MatchConfidence_def

fun MatchConfidence_as_str :: "MatchConfidence \<Rightarrow> string" where
  "MatchConfidence_as_str MatchConfidence_NotApplicable = ''Not Applicable''"
| "MatchConfidence_as_str MatchConfidence_Low = ''Low''"
| "MatchConfidence_as_str MatchConfidence_Medium = ''Medium''"
| "MatchConfidence_as_str MatchConfidence_High = ''High''"
| "MatchConfidence_as_str MatchConfidence_Certain = ''Certain''"

datatype MatchReason =
    MatchReason_Reason string
  | MatchReason_Container string "MatchReason list"

text \<open>\<open>MatchReason\<close> derives its \<open>Display\<close>: the variant's name, without its content.\<close>

fun MatchReason_display :: "MatchReason \<Rightarrow> string" where
  "MatchReason_display (MatchReason_Reason s) = ''Reason''"
| "MatchReason_display (MatchReason_Container s rs) = ''Container''"

record MatchDetails =
  md_reason :: MatchReason
  md_confidence :: MatchConfidence

definition MatchDetails_new_certain :: "string \<Rightarrow> MatchDetails" where
  "MatchDetails_new_certain s =
     \<lparr>md_reason = MatchReason_Reason s, md_confidence = MatchConfidence_Certain\<rparr>"

definition MatchDetails_reason_string :: "MatchDetails \<Rightarrow> string" where
  "MatchDetails_reason_string d =
     (case md_reason d of MatchReason_Container s rs \<Rightarrow> s | MatchReason_Reason s \<Rightarrow> s)"

record DiscoveryMetadata =
  dm_discovery_type :: DiscoveryType
  dm_daemon_id :: uuid
  dm_date :: datetime

definition DiscoveryMetadata_new :: "datetime \<Rightarrow> DiscoveryType \<Rightarrow> uuid \<Rightarrow> DiscoveryMetadata" where
  "DiscoveryMetadata_new now t d =
     \<lparr>dm_discovery_type = t, dm_daemon_id = d, dm_date = now\<rparr>"

datatype EntitySource =
    EntitySource_Manual
  | EntitySource_System
  | EntitySource_Discovery "DiscoveryMetadata list"
  | EntitySource_DiscoveryWithMatch "DiscoveryMetadata list" MatchDetails
  | EntitySource_Unknown

fun EntitySource_is_from_discovery :: "EntitySource \<Rightarrow> bool" where
  "EntitySource_is_from_discovery (EntitySource_Discovery m) = True"
| "EntitySource_is_from_discovery (EntitySource_DiscoveryWithMatch m d) = True"
| "EntitySource_is_from_discovery _ = False"

text \<open>The operations that events of the event bus report.\<close>

datatype EntityOperation =
    EntityOperation_Get | EntityOperation_GetAll
  | EntityOperation_Created | EntityOperation_Updated | EntityOperation_Deleted
  | EntityOperation_DiscoveryStarted | EntityOperation_DiscoveryCancelled

subsection \<open>Bindings\<close>

datatype BindingType =
    BindingType_Interface uuid
  | BindingType_Port uuid "uuid option"

record BindingBase =
  bb_service_id :: uuid
  bb_network_id :: uuid
  bb_binding_type :: BindingType

record Binding =
  binding_id :: uuid
  binding_created_at :: datetime
  binding_updated_at :: datetime
  binding_base :: BindingBase

definition BindingBase_new_serviceless :: "BindingType \<Rightarrow> BindingBase" where
  "BindingBase_new_serviceless t =
     \<lparr>bb_service_id = uuid_nil, bb_network_id = uuid_nil, bb_binding_type = t\<rparr>"

definition BindingBase_eq :: "BindingBase \<Rightarrow> BindingBase \<Rightarrow> bool" where
  [eq_defs]: "BindingBase_eq a b \<longleftrightarrow> bb_binding_type a = bb_binding_type b"

definition Binding_eq :: "Binding \<Rightarrow> Binding \<Rightarrow> bool" where
  [eq_defs]: "Binding_eq a b \<longleftrightarrow> BindingBase_eq (binding_base a) (binding_base b)"

definition Binding_new :: "uuid \<Rightarrow> datetime \<Rightarrow> BindingBase \<Rightarrow> Binding" where
  "Binding_new new_id now b =
     \<lparr>binding_id = new_id, binding_created_at = now, binding_updated_at = now, binding_base = b\<rparr>"

definition Binding_new_serviceless :: "uuid \<Rightarrow> datetime \<Rightarrow> BindingType \<Rightarrow> Binding" where
  "Binding_new_serviceless new_id now t = Binding_new new_id now (BindingBase_new_serviceless t)"

definition Binding_new_interface_serviceless :: "uuid \<Rightarrow> datetime \<Rightarrow> uuid \<Rightarrow> Binding" where
  "Binding_new_interface_serviceless new_id now i =
     Binding_new_serviceless new_id now (BindingType_Interface i)"

definition Binding_new_port_serviceless ::
    "uuid \<Rightarrow> datetime \<Rightarrow> uuid \<Rightarrow> uuid option \<Rightarrow> Binding" where
  "Binding_new_port_serviceless new_id now p i =
     Binding_new_serviceless new_id now (BindingType_Port p i)"

definition Binding_interface_id :: "Binding \<Rightarrow> uuid option" where
  "Binding_interface_id b =
     (case bb_binding_type (binding_base b) of
        BindingType_Interface i \<Rightarrow> Some i
      | BindingType_Port p i \<Rightarrow> i)"

definition Binding_port_id :: "Binding \<Rightarrow> uuid option" where
  "Binding_port_id b =
     (case bb_binding_type (binding_base b) of
        BindingType_Interface i \<Rightarrow> None
      | BindingType_Port p i \<Rightarrow> Some p)"

definition Binding_with_service :: "Binding \<Rightarrow> uuid \<Rightarrow> uuid \<Rightarrow> Binding" where
  "Binding_with_service b s n =
     b\<lparr>binding_base := (binding_base b)\<lparr>bb_service_id := s, bb_network_id := n\<rparr>\<rparr>"

definition Binding_triggers_staleness :: "Binding \<Rightarrow> Binding option \<Rightarrow> bool" where
  "Binding_triggers_staleness b other =
     (case other of
        None \<Rightarrow> True
      | Some c \<Rightarrow>
          bb_binding_type (binding_base b) \<noteq> bb_binding_type (binding_base c) \<or>
          bb_service_id (binding_base b) \<noteq> bb_service_id (binding_base c))"

end
