(* ===== verification/Subnets.thy ===== *)
theory Subnets
  imports Entities
begin

section \<open>Subnets and interfaces\<close>

text \<open>
  Subnet classification and subnet entities (\<^verbatim>\<open>backend/src/server/subnets/impl/types.rs\<close>,
  \<^verbatim>\<open>backend/src/server/subnets/impl/base.rs\<close>), interfaces
  (\<^verbatim>\<open>backend/src/server/interfaces/impl/base.rs\<close>) and the interface inputs of the host API
  (\<^verbatim>\<open>backend/src/server/hosts/impl/api.rs\<close>). Interfaces and their inputs interpret the
  position interfaces of theory \<open>Positions\<close>.
\<close>

subsection \<open>Subnet types\<close>

datatype SubnetType =
    SubnetType_Internet
  | SubnetType_Remote
  | SubnetType_Gateway
  | SubnetType_VpnTunnel
  | SubnetType_Dmz
  | SubnetType_Lan
  | SubnetType_WiFi
  | SubnetType_IoT
  | SubnetType_Guest
  | SubnetType_DockerBridge
  | SubnetType_Management
  | SubnetType_Storage
  | SubnetType_Unknown
  | SubnetType_None

text \<open>\<open>IntoStaticStr\<close>: the variant's name.\<close>

primrec SubnetType_id :: "SubnetType \<Rightarrow> string" where
  "SubnetType_id SubnetType_Internet = ''Internet''"
| "SubnetType_id SubnetType_Remote = ''Remote''"
| "SubnetType_id SubnetType_Gateway = ''Gateway''"
| "SubnetType_id SubnetType_VpnTunnel = ''VpnTunnel''"
| "SubnetType_id SubnetType_Dmz = ''Dmz''"
| "SubnetType_id SubnetType_Lan = ''Lan''"
| "SubnetType_id SubnetType_WiFi = ''WiFi''"
| "SubnetType_id SubnetType_IoT = ''IoT''"
| "SubnetType_id SubnetType_Guest = ''Guest''"
| "SubnetType_id SubnetType_DockerBridge = ''DockerBridge''"
| "SubnetType_id SubnetType_Management = ''Management''"
| "SubnetType_id SubnetType_Storage = ''Storage''"
| "SubnetType_id SubnetType_Unknown = ''Unknown''"
| "SubnetType_id SubnetType_None = ''None''"

definition SubnetType_from_str :: "string \<Rightarrow> (SubnetType, string) result" where
  "SubnetType_from_str s =
     (if s = ''Internet'' then Ok SubnetType_Internet
      else if s = ''Remote'' then Ok SubnetType_Remote
      else if s = ''Gateway'' then Ok SubnetType_Gateway
      else if s = ''VpnTunnel'' then Ok SubnetType_VpnTunnel
      else if s = ''Dmz'' then Ok SubnetType_Dmz
      else if s = ''Lan'' then Ok SubnetType_Lan
      else if s = ''WiFi'' then Ok SubnetType_WiFi
      else if s = ''IoT'' then Ok SubnetType_IoT
      else if s = ''Guest'' then Ok SubnetType_Guest
      else if s = ''DockerBridge'' then Ok SubnetType_DockerBridge
      else if s = ''Management'' then Ok SubnetType_Management
      else if s = ''Storage'' then Ok SubnetType_Storage
      else if s = ''Unknown'' then Ok SubnetType_Unknown
      else if s = ''None'' then Ok SubnetType_None
      else Err (''Unknown SubnetType: '' @ s))"

text \<open>
  \<open>match_interface_names\<close>. On ASCII names \<open>name.get(pattern.len()..)\<close> is the rest after the
  prefix; the fallbacks for a slice off a character boundary do not arise.
\<close>

definition match_interface_name :: "string \<Rightarrow> string \<Rightarrow> bool" where
  "match_interface_name name_lower pattern =
     (if pattern = ''br-'' \<or> pattern = ''docker-'' then
        prefix pattern name_lower \<and>
        (let rest = drop (length pattern) name_lower
         in rest \<noteq> [] \<and> list_all is_alphanumeric rest)
      else
        prefix pattern name_lower \<and>
        (let rest = drop (length pattern) name_lower
         in rest = [] \<or> is_digit_char (hd rest)))"

definition match_interface_names :: "string list \<Rightarrow> string \<Rightarrow> bool" where
  "match_interface_names patterns interface_name =
     (let name_lower = to_lowercase interface_name
      in list_ex (match_interface_name name_lower) patterns)"

definition SubnetType_from_interface_name :: "string \<Rightarrow> SubnetType" where
  "SubnetType_from_interface_name n =
     (if match_interface_names [''docker'', ''br-'', ''docker''] n then SubnetType_DockerBridge
      else if match_interface_names [''tun'', ''utun'', ''wg'', ''tap'', ''ppp'', ''vpn''] n
      then SubnetType_VpnTunnel
      else if match_interface_names [''wlan'', ''wifi'', ''wl''] n then SubnetType_WiFi
      else if match_interface_names [''guest''] n then SubnetType_Guest
      else if match_interface_names [''iot''] n then SubnetType_IoT
      else if match_interface_names [''dmz''] n then SubnetType_Dmz
      else if match_interface_names [''mgmt'', ''ipmi'', ''bmc''] n then SubnetType_Management
      else if match_interface_names [''iscsi'', ''san'', ''storage''] n then SubnetType_Storage
      else if match_interface_names [''eth'', ''en'', ''eno'', ''enp'', ''ens'', ''br''] n
      then SubnetType_Lan
      else SubnetType_Unknown)"

definition SubnetType_is_docker_bridge :: "SubnetType \<Rightarrow> bool" where
  "SubnetType_is_docker_bridge t \<longleftrightarrow> t = SubnetType_DockerBridge"

primrec SubnetType_name :: "SubnetType \<Rightarrow> string" where
  "SubnetType_name SubnetType_Internet = ''Internet''"
| "SubnetType_name SubnetType_Remote = ''Remote''"
| "SubnetType_name SubnetType_Gateway = ''Gateway''"
| "SubnetType_name SubnetType_VpnTunnel = ''VPN''"
| "SubnetType_name SubnetType_Dmz = ''DMZ''"
| "SubnetType_name SubnetType_Lan = ''LAN''"
| "SubnetType_name SubnetType_IoT = ''IoT''"
| "SubnetType_name SubnetType_Guest = ''Guest''"
| "SubnetType_name SubnetType_WiFi = ''WiFi''"
| "SubnetType_name SubnetType_Management = ''Management''"
| "SubnetType_name SubnetType_DockerBridge = ''Docker Bridge''"
| "SubnetType_name SubnetType_Storage = ''Storage''"
| "SubnetType_name SubnetType_Unknown = ''Unknown''"
| "SubnetType_name SubnetType_None = ''No Subnet''"

primrec SubnetType_description :: "SubnetType \<Rightarrow> string" where
  "SubnetType_description SubnetType_Internet = ''Internet''"
| "SubnetType_description SubnetType_Remote = ''Remote network''"
| "SubnetType_description SubnetType_Gateway = ''Gateway subnet''"
| "SubnetType_description SubnetType_VpnTunnel = ''Virtual private network''"
| "SubnetType_description SubnetType_Dmz = ''Demilitarized zone''"
| "SubnetType_description SubnetType_Lan = ''Local area network''"
| "SubnetType_description SubnetType_IoT = ''Internet of things''"
| "SubnetType_description SubnetType_Guest = ''Guest network''"
| "SubnetType_description SubnetType_WiFi = ''WiFi network''"
| "SubnetType_description SubnetType_Management = ''Management network''"
| "SubnetType_description SubnetType_DockerBridge = ''Docker bridge network''"
| "SubnetType_description SubnetType_Storage = ''Storage network''"
| "SubnetType_description SubnetType_Unknown = ''Unknown network type''"
| "SubnetType_description SubnetType_None = ''No Subnet''"

record SubnetType_metadata_json =
  stm_network_scan_discovery_eligible :: bool
  stm_is_for_containers :: bool

definition SubnetType_metadata :: "SubnetType \<Rightarrow> SubnetType_metadata_json" where
  "SubnetType_metadata t =
     \<lparr>stm_network_scan_discovery_eligible =
        (t \<notin> {SubnetType_Remote, SubnetType_Internet, SubnetType_DockerBridge}),
      stm_is_for_containers = (t = SubnetType_DockerBridge)\<rparr>"

subsection \<open>Interfaces\<close>

record InterfaceBase =
  ib_network_id :: uuid
  ib_host_id :: uuid
  ib_subnet_id :: uuid
  ib_ip_address :: IpAddr
  ib_mac_address :: "MacAddress option"
  ib_name :: "string option"
  ib_position :: int

record Interface =
  interface_id :: uuid
  interface_created_at :: datetime
  interface_updated_at :: datetime
  interface_base :: InterfaceBase

definition Interface_new :: "uuid \<Rightarrow> datetime \<Rightarrow> InterfaceBase \<Rightarrow> Interface" where
  "Interface_new new_id now b =
     \<lparr>interface_id = new_id, interface_created_at = now, interface_updated_at = now,
      interface_base = b\<rparr>"

definition Interface_eq :: "Interface \<Rightarrow> Interface \<Rightarrow> bool" where
  [eq_defs]: "Interface_eq a b \<longleftrightarrow>
     (ib_ip_address (interface_base a) = ib_ip_address (interface_base b) \<and>
      ib_subnet_id (interface_base a) = ib_subnet_id (interface_base b)) \<or>
     (ib_mac_address (interface_base a) = ib_mac_address (interface_base b) \<and>
      ib_mac_address (interface_base a) \<noteq> None \<and> ib_mac_address (interface_base b) \<noteq> None) \<or>
     interface_id a = interface_id b"

definition Interface_triggers_staleness :: "Interface \<Rightarrow> Interface option \<Rightarrow> bool" where
  "Interface_triggers_staleness a other =
     (case other of
        None \<Rightarrow> True
      | Some b \<Rightarrow>
          ib_ip_address (interface_base a) \<noteq> ib_ip_address (interface_base b) \<or>
          ib_subnet_id (interface_base a) \<noteq> ib_subnet_id (interface_base b) \<or>
          ib_host_id (interface_base a) \<noteq> ib_host_id (interface_base b))"

definition Interface_position :: "Interface \<Rightarrow> int" where
  "Interface_position i = ib_position (interface_base i)"

definition Interface_set_position :: "Interface \<Rightarrow> int \<Rightarrow> Interface" where
  "Interface_set_position i p = i\<lparr>interface_base := (interface_base i)\<lparr>ib_position := p\<rparr>\<rparr>"

record InterfaceInput =
  ii_id :: uuid
  ii_subnet_id :: uuid
  ii_ip_address :: IpAddr
  ii_mac_address :: "MacAddress option"
  ii_name :: "string option"
  ii_position :: "int option"

definition InterfaceInput_set_position :: "InterfaceInput \<Rightarrow> int \<Rightarrow> InterfaceInput" where
  "InterfaceInput_set_position i p = i\<lparr>ii_position := Some p\<rparr>"

definition into_interface :: "datetime \<Rightarrow> InterfaceInput \<Rightarrow> uuid \<Rightarrow> uuid \<Rightarrow> Interface" where
  "into_interface now i host_id network_id =
     \<lparr>interface_id = ii_id i, interface_created_at = now, interface_updated_at = now,
      interface_base =
        \<lparr>ib_network_id = network_id, ib_host_id = host_id, ib_subnet_id = ii_subnet_id i,
         ib_ip_address = ii_ip_address i, ib_mac_address = ii_mac_address i,
         ib_name = ii_name i,
         ib_position = (case ii_position i of Some p \<Rightarrow> p | None \<Rightarrow> 0)\<rparr>\<rparr>"

interpretation interface_pos: positioned Interface_position Interface_set_position interface_id
  by unfold_locales (simp_all add: Interface_position_def Interface_set_position_def)

interpretation interface_input_pos:
    positioned_input ii_position InterfaceInput_set_position ii_id
  by unfold_locales (simp_all add: InterfaceInput_set_position_def)

subsection \<open>Subnets\<close>

record SubnetBase =
  sb_cidr :: IpCidr
  sb_network_id :: uuid
  sb_name :: string
  sb_description :: "string option"
  sb_subnet_type :: SubnetType
  sb_source :: EntitySource
  sb_tags :: "uuid list"

record Subnet =
  subnet_id :: uuid
  subnet_created_at :: datetime
  subnet_updated_at :: datetime
  subnet_base :: SubnetBase

definition Subnet_new :: "uuid \<Rightarrow> datetime \<Rightarrow> SubnetBase \<Rightarrow> Subnet" where
  "Subnet_new new_id now b =
     \<lparr>subnet_id = new_id, subnet_created_at = now, subnet_updated_at = now, subnet_base = b\<rparr>"

definition Subnet_is_docker_bridge_subnet :: "Subnet \<Rightarrow> bool" where
  "Subnet_is_docker_bridge_subnet s \<longleftrightarrow> sb_subnet_type (subnet_base s) = SubnetType_DockerBridge"

definition Subnet_is_vpn_subnet :: "Subnet \<Rightarrow> bool" where
  "Subnet_is_vpn_subnet s \<longleftrightarrow> sb_subnet_type (subnet_base s) = SubnetType_VpnTunnel"

definition Subnet_is_organizational_subnet :: "Subnet \<Rightarrow> bool" where
  "Subnet_is_organizational_subnet s \<longleftrightarrow> sb_cidr (subnet_base s) = IpCidr_V4 0 0"

definition Subnet_eq :: "Subnet \<Rightarrow> Subnet \<Rightarrow> bool" where
  [eq_defs]: "Subnet_eq a b \<longleftrightarrow>
     (sb_cidr (subnet_base a) = sb_cidr (subnet_base b) \<and>
      sb_network_id (subnet_base a) = sb_network_id (subnet_base b)) \<or>
     subnet_id a = subnet_id b"

text \<open>
  An \<open>IpNetwork\<close> of the \<open>pnet\<close> crate, given by what the source reads of it: for IPv4 the
  address, the network address and the prefix length.
\<close>

datatype IpNetwork =
    IpNetwork_V4 (inet_ip: "32 word") (inet_network: "32 word") (inet_prefix: nat)
  | IpNetwork_V6

definition Subnet_from_discovery ::
    "externals \<Rightarrow> uuid \<Rightarrow> datetime \<Rightarrow> string \<Rightarrow> IpNetwork \<Rightarrow> uuid \<Rightarrow> DiscoveryType \<Rightarrow> uuid
       \<Rightarrow> Subnet option" where
  "Subnet_from_discovery ext new_id now interface_name ip_network daemon_id discovery_type network_id =
     (let subnet_type = SubnetType_from_interface_name interface_name
      in case ip_network of
           IpNetwork_V6 \<Rightarrow> None
         | IpNetwork_V4 ip network prefix_length \<Rightarrow>
             Option.bind
               (if subnet_type = SubnetType_VpnTunnel \<and> prefix_length = 32 then
                  let octs = Ipv4Addr_octets ip
                  in Some (Ipv4Addr_new (octs ! 0) (octs ! 1) (octs ! 2) 0, 24)
                else if prefix_length = 32 then None
                else Some (network, prefix_length))
               (\<lambda>(network_addr, prefix_len).
                  Option.bind (ext_cidr_new_v4 ext network_addr prefix_len) (\<lambda>cidr.
                    Some (Subnet_new new_id now
                      \<lparr>sb_cidr = cidr,
                       sb_network_id = network_id,
                       sb_name = ext_show_cidr ext cidr,
                       sb_description = None,
                       sb_subnet_type = subnet_type,
                       sb_source =
                         EntitySource_Discovery
                           [DiscoveryMetadata_new now discovery_type daemon_id],
                       sb_tags = []\<rparr>))))"

subsection \<open>Lemmas\<close>

lemma ascii_lower_idem [simp]: "ascii_lower (ascii_lower c) = ascii_lower c"
proof (cases "65 \<le> (of_char c :: nat) \<and> (of_char c :: nat) \<le> 90")
  case True
  then have "(of_char (char_of ((of_char c :: nat) + 32) :: char) :: nat) = of_char c + 32" by simp
  with True show ?thesis by (simp add: ascii_lower_def Let_def)
next
  case False
  then show ?thesis by (auto simp: ascii_lower_def Let_def)
qed

lemma to_lowercase_idem [simp]: "to_lowercase (to_lowercase s) = to_lowercase s"
  by (simp add: to_lowercase_def)

lemma match_interface_names_lower:
  "match_interface_names ps (to_lowercase n) = match_interface_names ps n"
  by (simp add: match_interface_names_def)

lemma SubnetType_from_str_id: "SubnetType_from_str (SubnetType_id t) = Ok t"
  by (cases t) (simp_all add: SubnetType_from_str_def)

lemma is_digit_lower [simp]: "is_digit_char c \<Longrightarrow> ascii_lower c = c"
  by (auto simp: is_digit_char_def ascii_lower_def Let_def)

lemma is_alphanumeric_lower: "is_alphanumeric c \<Longrightarrow> is_alphanumeric (ascii_lower c)"
proof (cases "65 \<le> (of_char c :: nat) \<and> (of_char c :: nat) \<le> 90")
  case True
  then have "(of_char (char_of ((of_char c :: nat) + 32) :: char) :: nat) = of_char c + 32" by simp
  with True show ?thesis by (simp add: ascii_lower_def is_alphanumeric_def Let_def)
next
  case False
  assume "is_alphanumeric c"
  moreover from False have "ascii_lower c = c" by (auto simp: ascii_lower_def Let_def)
  ultimately show ?thesis by simp
qed

lemma to_lowercase_Cons [simp]: "to_lowercase (c # s) = ascii_lower c # to_lowercase s"
  and to_lowercase_Nil [simp]: "to_lowercase [] = []"
  by (simp_all add: to_lowercase_def)

lemma lower_literals [simp]:
  "ascii_lower CHR ''b'' = CHR ''b''" "ascii_lower CHR ''r'' = CHR ''r''"
  "ascii_lower CHR ''-'' = CHR ''-''"
  by (simp_all add: ascii_lower_def)

subsection \<open>Properties\<close>

text \<open>The parser of subnet types accepts exactly the variant names, each as its variant.\<close>

theorem SubnetType_from_str_iff: "SubnetType_from_str s = Ok t \<longleftrightarrow> s = SubnetType_id t"
proof
  show "SubnetType_from_str s = Ok t \<Longrightarrow> s = SubnetType_id t"
    unfolding SubnetType_from_str_def
    by (simp split: if_split_asm; hypsubst; simp)
qed (simp add: SubnetType_from_str_id)

text \<open>Classification by interface name ignores case, takes \<open>br-\<close> followed by letters and
  digits for a Docker bridge, and \<open>br\<close> followed by a digit for a LAN bridge.\<close>

theorem from_interface_name_bridges:
  "SubnetType_from_interface_name (to_lowercase n) = SubnetType_from_interface_name n \<and>
   (rest \<noteq> [] \<and> list_all is_alphanumeric rest \<longrightarrow>
      SubnetType_from_interface_name (''br-'' @ rest) = SubnetType_DockerBridge) \<and>
   (is_digit_char d \<longrightarrow>
      SubnetType_from_interface_name (''br'' @ d # rest) = SubnetType_Lan)"
proof (intro conjI impI)
  show "SubnetType_from_interface_name (to_lowercase n) = SubnetType_from_interface_name n"
    by (simp only: SubnetType_from_interface_name_def match_interface_names_lower)
next
  assume "rest \<noteq> [] \<and> list_all is_alphanumeric rest"
  then have "list_all is_alphanumeric (to_lowercase rest)" and "to_lowercase rest \<noteq> []"
    by (auto simp: to_lowercase_def list_all_iff is_alphanumeric_lower)
  then have "match_interface_names [''docker'', ''br-'', ''docker''] (''br-'' @ rest)"
    by (simp add: match_interface_names_def match_interface_name_def)
  then show "SubnetType_from_interface_name (''br-'' @ rest) = SubnetType_DockerBridge"
    by (simp add: SubnetType_from_interface_name_def)
next
  assume d: "is_digit_char d"
  then have "d \<noteq> CHR ''-''" by (auto simp: is_digit_char_def)
  with d show "SubnetType_from_interface_name (''br'' @ d # rest) = SubnetType_Lan"
    by (simp add: SubnetType_from_interface_name_def match_interface_names_def
        match_interface_name_def)
qed

theorem from_interface_name_bridges_witness:
  "SubnetType_from_interface_name ''br-a1b2'' = SubnetType_DockerBridge \<and>
   SubnetType_from_interface_name ''br0'' = SubnetType_Lan"
  using from_interface_name_bridges [of "[]" "''a1b2''" "CHR ''0''"]
    from_interface_name_bridges [of "[]" "[]" "CHR ''0''"]
  by (simp add: is_alphanumeric_def is_digit_char_def)

text \<open>Discovery never records a single-address IPv4 network: an IPv6 network gives no
  subnet, a \<open>/32\<close> gives one only on a VPN tunnel, widened to the \<open>/24\<close> around the address, and
  every other network keeps its address and prefix; the subnet is created in the scanned
  network with the discovery as its source.\<close>

theorem Subnet_from_discovery_spec:
  "Subnet_from_discovery ext new_id now n net daemon dt network = Some s \<longleftrightarrow>
   (\<exists>ip nw len c.
      net = IpNetwork_V4 ip nw len \<and>
      (if len = 32 then SubnetType_from_interface_name n = SubnetType_VpnTunnel else True) \<and>
      ext_cidr_new_v4 ext
        (if len = 32
         then Ipv4Addr_new (Ipv4Addr_octets ip ! 0) (Ipv4Addr_octets ip ! 1)
                (Ipv4Addr_octets ip ! 2) 0
         else nw)
        (if len = 32 then 24 else len) = Some c \<and>
      s = Subnet_new new_id now
            \<lparr>sb_cidr = c, sb_network_id = network, sb_name = ext_show_cidr ext c,
             sb_description = None, sb_subnet_type = SubnetType_from_interface_name n,
             sb_source = EntitySource_Discovery [DiscoveryMetadata_new now dt daemon],
             sb_tags = []\<rparr>)"
  by (cases net)
    (auto simp: Subnet_from_discovery_def Let_def bind_eq_Some_conv split: if_splits)

text \<open>C36. Moving an interface from one position to another moves it in the list of interfaces
  ordered by position, keeps all others in order, and keeps the positions sequential.\<close>

theorem reorder_interfaces_refines_list_move:
  assumes "sequential (map Interface_position is)" "length is < 2 ^ 31"
    and "0 \<le> f" "f < int (length is)" "0 \<le> t" "t < int (length is)" "f \<noteq> t"
  shows "map interface_id (sort_key Interface_position
           (fst (reorder_positions Interface_position Interface_set_position is f t))) =
         list_move (nat f) (nat t) (map interface_id (sort_key Interface_position is)) \<and>
         sequential (map Interface_position
           (fst (reorder_positions Interface_position Interface_set_position is f t)))"
  using interface_pos.reorder_spec [OF assms] by blast

text \<open>Renumbering gives the interfaces the positions \<open>0, \<dots>, n - 1\<close> in the order of their old
  positions, and reports a change exactly when the positions were not sequential.\<close>

theorem renumber_interfaces_correct:
  assumes "length is \<le> 2 ^ 31"
  shows "map Interface_position
           (fst (renumber_positions Interface_position Interface_set_position is)) =
           map int [0..<length is] \<and>
         map interface_id
           (fst (renumber_positions Interface_position Interface_set_position is)) =
           map interface_id (sort_key Interface_position is) \<and>
         snd (renumber_positions Interface_position Interface_set_position is) =
           (\<not> sequential (map Interface_position is))"
  using interface_pos.renumber_spec [OF assms] by blast

text \<open>When a host update omits all positions, every interface that exists keeps its
  position, the new ones are appended after the existing ones in the order given, and no two
  interfaces of the result share a position.\<close>

theorem resolve_interface_positions_omitted:
  assumes omitted: "\<forall>i \<in> set inputs. ii_position i = None"
    and ids: "distinct (map ii_id inputs)" "distinct (map interface_id existing)"
    and seq: "sequential (map Interface_position existing)"
    and len: "length existing + length inputs < 2 ^ 31"
  shows "\<exists>out.
    resolve_and_validate_input_positions ii_position InterfaceInput_set_position ii_id
      Interface_position interface_id inputs existing ''interface'' = Ok out \<and>
    map ii_id out = map ii_id inputs \<and>
    distinct (map ii_position out) \<and>
    (\<forall>i \<in> set out. \<forall>e \<in> set existing.
       ii_id i = interface_id e \<longrightarrow> ii_position i = Some (Interface_position e)) \<and>
    map ii_position (filter (\<lambda>i. ii_id i \<notin> interface_id ` set existing) out) =
      map Some [int (length existing)..int (length existing) +
        int (length (filter (\<lambda>i. ii_id i \<notin> interface_id ` set existing) inputs)) - 1]"
proof -
  let ?m = "existing_positions interface_id Interface_position existing"
  let ?out = "assign_positions InterfaceInput_set_position ii_id ?m
    (as_i32 (length existing)) inputs"
  have none: "filter (\<lambda>i. ii_position i \<noteq> None) inputs = []"
    using omitted by (simp add: filter_empty_conv)
  have n: "as_i32 (length existing) = int (length existing)" using len by simp
  have "resolve_and_validate_input_positions ii_position InterfaceInput_set_position ii_id
      Interface_position interface_id inputs existing ''interface'' = Ok ?out"
    unfolding resolve_and_validate_input_positions_def Let_def none by simp
  moreover have "map ii_id ?out = map ii_id inputs"
    by (rule interface_input_pos.assign_ids)
  moreover have "distinct (map ii_position ?out)"
    using len existing_positions_ran [OF ids(2) seq]
    by (intro interface_input_pos.assign_distinct ids existing_positions_inj seq) auto
  moreover have "ii_position i = Some (Interface_position e)"
    if "i \<in> set ?out" "e \<in> set existing" "ii_id i = interface_id e" for i e
    using that(2,3)
    by (intro interface_input_pos.assign_existing [OF that(1)])
      (auto simp: existing_positions_Some_iff [OF ids(2)])
  moreover have "map ii_position (filter (\<lambda>i. ii_id i \<notin> interface_id ` set existing) ?out) =
      map Some [int (length existing)..int (length existing) +
        int (length (filter (\<lambda>i. ii_id i \<notin> interface_id ` set existing) inputs)) - 1]"
    using interface_input_pos.assign_new [of "as_i32 (length existing)" inputs ?m] len
    by (simp add: n existing_positions_None_iff)
  ultimately show ?thesis by blast
qed

subsection \<open>Concrete instances\<close>

definition example_interface :: "uuid \<Rightarrow> int \<Rightarrow> Interface" where
  "example_interface i p =
     Interface_new i 0
       \<lparr>ib_network_id = 1, ib_host_id = 2, ib_subnet_id = 3, ib_ip_address = IpAddr_V4 (ucast i),
        ib_mac_address = None, ib_name = None, ib_position = p\<rparr>"

definition example_input :: "uuid \<Rightarrow> InterfaceInput" where
  "example_input i =
     \<lparr>ii_id = i, ii_subnet_id = 3, ii_ip_address = IpAddr_V4 (ucast i), ii_mac_address = None,
      ii_name = None, ii_position = None\<rparr>"

lemma example_interface_simps [simp]:
  "Interface_position (example_interface i p) = p"
  "interface_id (example_interface i p) = i"
  "ii_position (example_input i) = None"
  "ii_id (example_input i) = i"
  by (simp_all add: example_interface_def example_input_def Interface_new_def Interface_position_def)

lemma sequential_examples: "sequential [2, 0, 1]" "sequential [1, 0]" "\<not> sequential [0, 5, 3]"
  by (simp_all add: sequential_iff_sort)

theorem reorder_interfaces_refines_list_move_witness:
  "map interface_id (sort_key Interface_position
     (fst (reorder_positions Interface_position Interface_set_position
        [example_interface 10 2, example_interface 11 0, example_interface 12 1] 0 2))) =
   [12, 10, 11]"
  using reorder_interfaces_refines_list_move
    [of "[example_interface 10 2, example_interface 11 0, example_interface 12 1]" 0 2]
  by (simp add: sequential_examples list_move_def)

theorem renumber_interfaces_correct_witness:
  "map Interface_position
     (fst (renumber_positions Interface_position Interface_set_position
        [example_interface 10 0, example_interface 11 5, example_interface 12 3])) = [0, 1, 2] \<and>
   snd (renumber_positions Interface_position Interface_set_position
        [example_interface 10 0, example_interface 11 5, example_interface 12 3])"
  using renumber_interfaces_correct
    [of "[example_interface 10 0, example_interface 11 5, example_interface 12 3]"]
  by (simp add: sequential_examples upt_rec)

theorem resolve_interface_positions_omitted_witness:
  "\<exists>out.
    resolve_and_validate_input_positions ii_position InterfaceInput_set_position ii_id
      Interface_position interface_id [example_input 20, example_input 11]
      [example_interface 10 1, example_interface 11 0] ''interface'' = Ok out \<and>
    distinct (map ii_position out)"
  using resolve_interface_positions_omitted
    [of "[example_input 20, example_input 11]" "[example_interface 10 1, example_interface 11 0]"]
  by (auto simp: sequential_examples)

text \<open>The equality test of interfaces, which the type declares an equivalence, is not
  transitive: an interface can equal a second by address and the second a third by MAC address
  while the first and the third differ.\<close>

theorem Interface_eq_not_transitive:
  "\<exists>a b c. Interface_eq a b \<and> Interface_eq b c \<and> \<not> Interface_eq a c"
proof -
  let ?base = "\<lambda>ip mac. \<lparr>ib_network_id = 1, ib_host_id = 2, ib_subnet_id = 3,
    ib_ip_address = IpAddr_V4 ip, ib_mac_address = mac, ib_name = None, ib_position = 0\<rparr>"
  let ?a = "Interface_new 1 0 (?base 1 None)"
  let ?b = "Interface_new 2 0 (?base 1 (Some 9))"
  let ?c = "Interface_new 3 0 (?base 2 (Some 9))"
  have "Interface_eq ?a ?b \<and> Interface_eq ?b ?c \<and> \<not> Interface_eq ?a ?c"
    by (simp add: Interface_eq_def Interface_new_def)
  then show ?thesis by blast
qed

end
