(* ===== verification/Service_Types.thy ===== *)
theory Service_Types
  imports Subnets
begin

section \<open>Services, endpoints and match patterns: the data\<close>

text \<open>
  The data of service discovery: endpoints and their responses
  (\<^verbatim>\<open>backend/src/server/services/impl/endpoints.rs\<close>), categories (\<^verbatim>\<open>categories.rs\<close>), virtualization
  (\<^verbatim>\<open>virtualization.rs\<close>), match patterns (the type of \<^verbatim>\<open>patterns.rs\<close>), service definitions and
  their registry (\<^verbatim>\<open>definitions.rs\<close>, \<^verbatim>\<open>backend/src/server/services/definitions/mod.rs\<close>),
  services and the parameters of a match (\<^verbatim>\<open>base.rs\<close>).

  A \<open>Box<dyn ServiceDefinition>\<close> is the record of what the trait's methods return. The
  function pointers of \<open>Pattern::Custom\<close> are the names of the closures that the sources
  put there (three definitions do); theory \<open>Patterns\<close> gives each of them its body. The
  registry that the \<open>inventory\<close> crate collects at link time is an argument, a list of
  definitions.
\<close>

subsection \<open>Endpoints\<close>

datatype ApplicationProtocol = ApplicationProtocol_Http | ApplicationProtocol_Https

fun ApplicationProtocol_display :: "ApplicationProtocol \<Rightarrow> string" where
  "ApplicationProtocol_display ApplicationProtocol_Http = ''http''"
| "ApplicationProtocol_display ApplicationProtocol_Https = ''https''"

text \<open>The derived \<open>Display\<close> of the discriminant: the variant's name.\<close>

fun ApplicationProtocol_discriminant :: "ApplicationProtocol \<Rightarrow> string" where
  "ApplicationProtocol_discriminant ApplicationProtocol_Http = ''Http''"
| "ApplicationProtocol_discriminant ApplicationProtocol_Https = ''Https''"

record Endpoint =
  ep_protocol :: ApplicationProtocol
  ep_ip :: "IpAddr option"
  ep_port_type :: PortType
  ep_path :: string

record EndpointResponse =
  er_endpoint :: Endpoint
  er_body :: string
  er_headers :: "(string \<times> string) list"
  er_status :: u16

definition Endpoint_is_resolved :: "Endpoint \<Rightarrow> bool" where
  "Endpoint_is_resolved e \<longleftrightarrow> ep_ip e \<noteq> None"

definition Endpoint_use_ip :: "Endpoint \<Rightarrow> IpAddr \<Rightarrow> Endpoint" where
  "Endpoint_use_ip e ip =
     \<lparr>ep_protocol = ep_protocol e, ep_ip = Some ip, ep_port_type = ep_port_type e,
      ep_path = ep_path e\<rparr>"

definition Endpoint_http :: "IpAddr option \<Rightarrow> string \<Rightarrow> Endpoint" where
  "Endpoint_http ip path =
     \<lparr>ep_protocol = ApplicationProtocol_Http, ep_ip = ip, ep_port_type = PortType_Http,
      ep_path = path\<rparr>"

definition Endpoint_for_pattern :: "PortType \<Rightarrow> string \<Rightarrow> Endpoint" where
  "Endpoint_for_pattern port_type path =
     \<lparr>ep_protocol = ApplicationProtocol_Http, ep_ip = None, ep_port_type = port_type,
      ep_path = path\<rparr>"

definition Endpoint_display :: "Endpoint \<Rightarrow> string" where
  "Endpoint_display e =
     (case ep_ip e of
        Some ip \<Rightarrow>
          to_lowercase (ApplicationProtocol_discriminant (ep_protocol e)) @ ''://'' @
          IpAddr_display ip @ '':'' @ show_nat (unat (PortType_number (ep_port_type e))) @ ep_path e
      | None \<Rightarrow>
          to_lowercase (ApplicationProtocol_discriminant (ep_protocol e)) @ ''://<unresolved>:'' @
          show_nat (unat (PortType_number (ep_port_type e))) @ ep_path e)"

definition Endpoint_eq :: "Endpoint \<Rightarrow> Endpoint \<Rightarrow> bool" where
  [eq_defs]: "Endpoint_eq a b \<longleftrightarrow>
     ep_protocol a = ep_protocol b \<and>
     PortType_number (ep_port_type a) = PortType_number (ep_port_type b) \<and>
     ep_path a = ep_path b"

subsection \<open>Categories and virtualization\<close>

datatype ServiceCategory =
    ServiceCategory_NetworkCore | ServiceCategory_NetworkAccess | ServiceCategory_NetworkSecurity
  | ServiceCategory_Storage | ServiceCategory_Backup | ServiceCategory_Media
  | ServiceCategory_HomeAutomation | ServiceCategory_Virtualization | ServiceCategory_DNS
  | ServiceCategory_VPN | ServiceCategory_Monitoring | ServiceCategory_AdBlock
  | ServiceCategory_ReverseProxy | ServiceCategory_Workstation | ServiceCategory_Mobile
  | ServiceCategory_IoT | ServiceCategory_Printer | ServiceCategory_Database
  | ServiceCategory_Development | ServiceCategory_Dashboard | ServiceCategory_MessageQueue
  | ServiceCategory_IdentityAndAccess | ServiceCategory_Office | ServiceCategory_ProjectManagement
  | ServiceCategory_Messaging | ServiceCategory_Conferencing | ServiceCategory_Telephony
  | ServiceCategory_Email | ServiceCategory_Publishing | ServiceCategory_Unknown
  | ServiceCategory_Custom | ServiceCategory_VantageNet | ServiceCategory_OpenPorts

record DockerVirtualization =
  dv_container_name :: "string option"
  dv_container_id :: "string option"
  dv_service_id :: uuid

datatype ServiceVirtualization = ServiceVirtualization_Docker DockerVirtualization

subsection \<open>Patterns\<close>

text \<open>\<open>Range<u16>\<close>, half-open.\<close>

type_synonym u16_range = "u16 \<times> u16"

definition range_contains :: "u16_range \<Rightarrow> u16 \<Rightarrow> bool" where
  "range_contains r x \<longleftrightarrow> fst r \<le> x \<and> x < snd r"

text \<open>The closures that the sources pass to \<open>Pattern::Custom\<close>, by the definition they occur in.\<close>

datatype ConstraintFn =
    ConstraintFn_Gateway | ConstraintFn_DockerContainer | ConstraintFn_OpenPorts

datatype PortFn = PortFn_Gateway | PortFn_DockerContainer | PortFn_OpenPorts

datatype Pattern =
    Pattern_AnyOf "Pattern list"
  | Pattern_AllOf "Pattern list"
  | Pattern_Not Pattern
  | Pattern_Port PortType
  | Pattern_Endpoint PortType string string "u16_range option"
  | Pattern_Header "PortType option" string string "u16_range option"
  | Pattern_SubnetIsType SubnetType
  | Pattern_IsGateway
  | Pattern_MacVendor string
  | Pattern_Custom ConstraintFn PortFn string string MatchConfidence
  | Pattern_DockerContainer
  | Pattern_None

fun Pattern_contains_gateway_ip_pattern :: "Pattern \<Rightarrow> bool" where
  "Pattern_contains_gateway_ip_pattern Pattern_IsGateway = True"
| "Pattern_contains_gateway_ip_pattern (Pattern_AllOf ps) =
     list_ex Pattern_contains_gateway_ip_pattern ps"
| "Pattern_contains_gateway_ip_pattern (Pattern_AnyOf ps) =
     list_ex Pattern_contains_gateway_ip_pattern ps"
| "Pattern_contains_gateway_ip_pattern _ = False"

text \<open>Ports to scan for a pattern; ports of endpoints and headers are left out.\<close>

fun Pattern_ports :: "Pattern \<Rightarrow> PortType list" where
  "Pattern_ports (Pattern_Port p) = [p]"
| "Pattern_ports (Pattern_AnyOf ps) = concat (map Pattern_ports ps)"
| "Pattern_ports (Pattern_AllOf ps) = concat (map Pattern_ports ps)"
| "Pattern_ports _ = []"

text \<open>
  Endpoints to probe for a pattern. The source's first arm matches only an \<open>Endpoint\<close>
  whose status range is \<open>None\<close>.
\<close>

fun Pattern_endpoints :: "Pattern \<Rightarrow> Endpoint list" where
  "Pattern_endpoints (Pattern_Endpoint p path body None) = [Endpoint_for_pattern p path]"
| "Pattern_endpoints (Pattern_Header po h v r) =
     (case po of
        Some p \<Rightarrow> [Endpoint_for_pattern p ''/'']
      | None \<Rightarrow> [Endpoint_for_pattern PortType_Http ''/''])"
| "Pattern_endpoints (Pattern_AnyOf ps) = concat (map Pattern_endpoints ps)"
| "Pattern_endpoints (Pattern_AllOf ps) = concat (map Pattern_endpoints ps)"
| "Pattern_endpoints _ = []"

subsection \<open>Service definitions and the registry\<close>

record ServiceDefinition =
  sd_name :: string
  sd_description :: string
  sd_category :: ServiceCategory
  sd_discovery_pattern :: Pattern
  sd_is_generic :: bool
  sd_logo_url :: string
  sd_logo_needs_white_background :: bool

definition ServiceDefinition_id :: "ServiceDefinition \<Rightarrow> string" where
  "ServiceDefinition_id d = sd_name d"

definition ServiceDefinition_can_be_manually_added :: "ServiceDefinition \<Rightarrow> bool" where
  "ServiceDefinition_can_be_manually_added d \<longleftrightarrow>
     \<not> (sd_category d = ServiceCategory_VantageNet \<or> sd_category d = ServiceCategory_OpenPorts)"

definition ServiceDefinition_is_vantagenet :: "ServiceDefinition \<Rightarrow> bool" where
  "ServiceDefinition_is_vantagenet d \<longleftrightarrow> sd_category d = ServiceCategory_VantageNet"

definition ServiceDefinition_is_gateway :: "ServiceDefinition \<Rightarrow> bool" where
  "ServiceDefinition_is_gateway d \<longleftrightarrow>
     Pattern_contains_gateway_ip_pattern (sd_discovery_pattern d)"

definition ServiceDefinition_is_open_ports :: "ServiceDefinition \<Rightarrow> bool" where
  "ServiceDefinition_is_open_ports d \<longleftrightarrow> sd_category d = ServiceCategory_OpenPorts"

definition ServiceDefinition_has_logo :: "ServiceDefinition \<Rightarrow> bool" where
  "ServiceDefinition_has_logo d \<longleftrightarrow> sd_logo_url d \<noteq> []"

definition DefaultServiceDefinition :: ServiceDefinition where
  "DefaultServiceDefinition =
     \<lparr>sd_name = ''Missing Service'',
      sd_description =
        ''If you are seeing this, a service definition was removed. Please create an issue.'',
      sd_category = ServiceCategory_Unknown,
      sd_discovery_pattern = Pattern_None,
      sd_is_generic = False,
      sd_logo_url = [],
      sd_logo_needs_white_background = False\<rparr>"

definition Proxmox :: ServiceDefinition where
  "Proxmox =
     \<lparr>sd_name = ''Proxmox VE'',
      sd_description = ''Open-source virtualization management platform'',
      sd_category = ServiceCategory_Virtualization,
      sd_discovery_pattern =
        Pattern_AnyOf
          [Pattern_Endpoint (PortType_new_tcp 8006) ''/'' ''proxmox'' None,
           Pattern_Port (PortType_new_tcp 8006)],
      sd_is_generic = False,
      sd_logo_url = ''https://cdn.jsdelivr.net/gh/homarr-labs/dashboard-icons/svg/proxmox.svg'',
      sd_logo_needs_white_background = False\<rparr>"

definition Docker :: ServiceDefinition where
  "Docker =
     \<lparr>sd_name = ''Docker'',
      sd_description = ''Docker'',
      sd_category = ServiceCategory_Virtualization,
      sd_discovery_pattern = Pattern_None,
      sd_is_generic = False,
      sd_logo_url = ''https://cdn.jsdelivr.net/gh/homarr-labs/dashboard-icons/svg/docker.svg'',
      sd_logo_needs_white_background = False\<rparr>"

definition ServiceDefinition_manages_virtualization :: "ServiceDefinition \<Rightarrow> string option" where
  "ServiceDefinition_manages_virtualization d =
     (let i = ServiceDefinition_id d
      in if i = ServiceDefinition_id Proxmox then Some ''vms''
         else if i = ServiceDefinition_id Docker then Some ''containers''
         else None)"

record ServiceDefinition_metadata_json =
  sdm_can_be_added :: bool
  sdm_manages_virtualization :: "string option"
  sdm_is_gateway :: bool
  sdm_has_logo :: bool
  sdm_logo_url :: string
  sdm_logo_needs_white_background :: bool

definition ServiceDefinition_metadata :: "ServiceDefinition \<Rightarrow> ServiceDefinition_metadata_json" where
  "ServiceDefinition_metadata d =
     \<lparr>sdm_can_be_added = ServiceDefinition_can_be_manually_added d,
      sdm_manages_virtualization = ServiceDefinition_manages_virtualization d,
      sdm_is_gateway = ServiceDefinition_is_gateway d,
      sdm_has_logo = ServiceDefinition_has_logo d,
      sdm_logo_url = sd_logo_url d,
      sdm_logo_needs_white_background = sd_logo_needs_white_background d\<rparr>"

type_synonym registry = "ServiceDefinition list"

definition service_exists :: "registry \<Rightarrow> string \<Rightarrow> bool" where
  "service_exists reg i \<longleftrightarrow> list_ex (\<lambda>d. ServiceDefinition_id d = i) reg"

fun find_by_id :: "registry \<Rightarrow> string \<Rightarrow> ServiceDefinition option" where
  "find_by_id [] i = None"
| "find_by_id (d # reg) i = (if ServiceDefinition_id d = i then Some d else find_by_id reg i)"

definition ServiceDefinition_serialize :: "ServiceDefinition \<Rightarrow> string" where
  "ServiceDefinition_serialize d = ServiceDefinition_id d"

definition ServiceDefinition_deserialize :: "registry \<Rightarrow> string \<Rightarrow> ServiceDefinition" where
  "ServiceDefinition_deserialize reg i =
     (case find_by_id reg i of Some d \<Rightarrow> d | None \<Rightarrow> DefaultServiceDefinition)"

subsection \<open>Services and match parameters\<close>

record ServiceBase =
  svb_host_id :: uuid
  svb_network_id :: uuid
  svb_service_definition :: ServiceDefinition
  svb_name :: string
  svb_bindings :: "Binding list"
  svb_virtualization :: "ServiceVirtualization option"
  svb_source :: EntitySource
  svb_tags :: "uuid list"
  svb_position :: int

record Service =
  service_id :: uuid
  service_created_at :: datetime
  service_updated_at :: datetime
  service_base :: ServiceBase

definition ServiceBase_default :: ServiceBase where
  "ServiceBase_default =
     \<lparr>svb_host_id = uuid_nil, svb_network_id = uuid_nil,
      svb_service_definition = DefaultServiceDefinition, svb_name = [], svb_bindings = [],
      svb_virtualization = None, svb_source = EntitySource_Unknown, svb_tags = [],
      svb_position = 0\<rparr>"

definition Service_new :: "uuid \<Rightarrow> datetime \<Rightarrow> ServiceBase \<Rightarrow> Service" where
  "Service_new new_id now b =
     \<lparr>service_id = new_id, service_created_at = now, service_updated_at = now, service_base = b\<rparr>"

record ServiceMatchBaselineParams =
  bp_subnet :: Subnet
  bp_interface :: Interface
  bp_all_ports :: "PortType list"
  bp_endpoint_responses :: "EndpointResponse list"
  bp_virtualization :: "ServiceVirtualization option"

record ServiceMatchServiceParams =
  sp_service_definition :: ServiceDefinition
  sp_matched_services :: "Service list"
  sp_unbound_ports :: "PortType list"

record DiscoverySessionServiceMatchParams =
  mp_host_id :: uuid
  mp_gateway_ips :: "IpAddr list"
  mp_daemon_id :: uuid
  mp_network_id :: uuid
  mp_discovery_type :: DiscoveryType
  mp_baseline_params :: ServiceMatchBaselineParams
  mp_service_params :: ServiceMatchServiceParams

type_synonym match_params = DiscoverySessionServiceMatchParams

subsection \<open>Lemmas\<close>

lemma find_by_id_Some_iff:
  "find_by_id reg i = Some d \<Longrightarrow> d \<in> set reg \<and> ServiceDefinition_id d = i"
  by (induction reg) (auto split: if_splits)

lemma service_exists_iff: "service_exists reg i \<longleftrightarrow> find_by_id reg i \<noteq> None"
  by (induction reg) (auto simp: service_exists_def)

lemma find_by_id_distinct:
  "distinct (map ServiceDefinition_id reg) \<Longrightarrow> d \<in> set reg \<Longrightarrow>
     find_by_id reg (ServiceDefinition_id d) = Some d"
  by (induction reg) (auto simp: image_iff)

text \<open>The key of the endpoint sort agrees with the endpoint's equality test.\<close>

definition Endpoint_key :: "Endpoint \<Rightarrow> string \<times> u16 \<times> string" where
  "Endpoint_key e =
     (ApplicationProtocol_display (ep_protocol e), PortType_number (ep_port_type e), ep_path e)"

lemma ApplicationProtocol_display_inj:
  "ApplicationProtocol_display a = ApplicationProtocol_display b \<longleftrightarrow> a = b"
  by (cases a; cases b) simp_all

interpretation endpoint: keyed_eq Endpoint_key Endpoint_eq
  by unfold_locales (auto simp: Endpoint_eq_def Endpoint_key_def ApplicationProtocol_display_inj)

lemma Endpoint_use_ip_eq: "Endpoint_eq (Endpoint_use_ip e ip) e"
  by (simp add: Endpoint_use_ip_def Endpoint_eq_def)

end
