(* ===== verification/Patterns.thy ===== *)
theory Patterns
  imports Service_Types
begin

section \<open>Pattern matching\<close>

text \<open>
  The matcher of \<^verbatim>\<open>backend/src/server/services/impl/patterns.rs\<close>, one definition per arm of
  \<open>Pattern::matches\<close>, and its display and equality. The arms that recurse take the results
  of the sub-patterns, and fold over them with the local variables of the source's loops.

  \<open>sat\<close> is the specification: what a pattern means as a condition on the host.
\<close>

subsection \<open>Results\<close>

record MatchResult =
  mr_ports :: "PortType list"
  mr_endpoint :: "Endpoint option"
  mr_mac_vendor :: "string option"
  mr_details :: MatchDetails

type_synonym match_outcome = "(MatchResult, string) result"

text \<open>A result with a plain reason and nothing else, as most arms build it.\<close>

definition plain_match :: "PortType list \<Rightarrow> string \<Rightarrow> MatchConfidence \<Rightarrow> MatchResult" where
  "plain_match ports reason confidence =
     \<lparr>mr_ports = ports, mr_endpoint = None, mr_mac_vendor = None,
      mr_details = \<lparr>md_reason = MatchReason_Reason reason, md_confidence = confidence\<rparr>\<rparr>"

lemma plain_match_simps [simp]:
  "mr_ports (plain_match ps r c) = ps"
  "mr_endpoint (plain_match ps r c) = None"
  "mr_mac_vendor (plain_match ps r c) = None"
  "mr_details (plain_match ps r c) = \<lparr>md_reason = MatchReason_Reason r, md_confidence = c\<rparr>"
  by (simp_all add: plain_match_def)

abbreviation mr_confidence :: "MatchResult \<Rightarrow> MatchConfidence" where
  "mr_confidence r \<equiv> md_confidence (mr_details r)"

abbreviation unbound_ports :: "match_params \<Rightarrow> PortType list" where
  "unbound_ports params \<equiv> sp_unbound_ports (mp_service_params params)"

abbreviation endpoint_responses :: "match_params \<Rightarrow> EndpointResponse list" where
  "endpoint_responses params \<equiv> bp_endpoint_responses (mp_baseline_params params)"

abbreviation match_interface :: "match_params \<Rightarrow> InterfaceBase" where
  "match_interface params \<equiv> interface_base (bp_interface (mp_baseline_params params))"

abbreviation match_subnet :: "match_params \<Rightarrow> SubnetBase" where
  "match_subnet params \<equiv> subnet_base (bp_subnet (mp_baseline_params params))"

definition show_u16 :: "u16 \<Rightarrow> string" where
  "show_u16 n = show_nat (unat n)"

text \<open>The derived \<open>Debug\<close> of a range.\<close>

definition show_range :: "u16_range \<Rightarrow> string" where
  "show_range r = show_u16 (fst r) @ ''..'' @ show_u16 (snd r)"

subsection \<open>The arms\<close>

definition all_other_services_ports :: "registry \<Rightarrow> ServiceDefinition \<Rightarrow> PortType list" where
  "all_other_services_ports reg d =
     sort_dedup_ports (concat (map (\<lambda>s. Pattern_ports (sd_discovery_pattern s))
       (filter (\<lambda>s. ServiceDefinition_id s \<noteq> ServiceDefinition_id d) reg)))"

definition match_port :: "registry \<Rightarrow> match_params \<Rightarrow> PortType \<Rightarrow> match_outcome" where
  "match_port reg params pattern_port =
     (case find (\<lambda>p. PortType_eq p pattern_port) (unbound_ports params) of
        Some matched_port \<Rightarrow>
          let others = all_other_services_ports reg (sp_service_definition (mp_service_params params));
              is_unique_to_service =
                PortType_is_custom pattern_port \<and> \<not> list_ex (\<lambda>p. PortType_eq p pattern_port) others
          in if PortType_is_custom pattern_port \<and> is_unique_to_service
             then Ok (plain_match [matched_port]
                    (''Port '' @ PortType_display pattern_port @
                     '' is open and is not used in other service match patterns'')
                    MatchConfidence_Medium)
             else Ok (plain_match [matched_port]
                    (''Port '' @ PortType_display pattern_port @ '' is open'') MatchConfidence_Low)
      | None \<Rightarrow> Err (''Port '' @ PortType_display pattern_port @ '' is not open''))"

definition status_in_range :: "u16_range option \<Rightarrow> u16 \<Rightarrow> bool" where
  "status_in_range expected status =
     range_contains (case expected of Some r \<Rightarrow> r | None \<Rightarrow> (200, 400)) status"

definition header_response_ok ::
    "PortType option \<Rightarrow> string \<Rightarrow> string \<Rightarrow> u16_range option \<Rightarrow> EndpointResponse \<Rightarrow> bool" where
  "header_response_ok pattern_port expected_header expected_value expected_range actual \<longleftrightarrow>
     (let is_same_endpoint =
            (case pattern_port of
               Some p \<Rightarrow> PortType_eq (ep_port_type (er_endpoint actual)) p
             | None \<Rightarrow> True);
          headers_contain_value =
            list_ex (\<lambda>(header, val).
                to_lowercase header = to_lowercase expected_header \<and>
                str_contains (to_lowercase val) (to_lowercase expected_value))
              (er_headers actual)
      in is_same_endpoint \<and> status_in_range expected_range (er_status actual) \<and>
         headers_contain_value)"

text \<open>The result of a matched response, for the header and the endpoint arm.\<close>

definition response_match :: "EndpointResponse \<Rightarrow> string \<Rightarrow> MatchResult" where
  "response_match response reason =
     \<lparr>mr_ports = [ep_port_type (er_endpoint response)],
      mr_endpoint = Some (er_endpoint response),
      mr_mac_vendor = None,
      mr_details =
        \<lparr>md_reason = MatchReason_Reason reason, md_confidence = MatchConfidence_High\<rparr>\<rparr>"

definition match_header ::
    "match_params \<Rightarrow> PortType option \<Rightarrow> string \<Rightarrow> string \<Rightarrow> u16_range option \<Rightarrow> match_outcome" where
  "match_header params pattern_port expected_header expected_value expected_range =
     (case find (header_response_ok pattern_port expected_header expected_value expected_range)
             (endpoint_responses params) of
        Some actual \<Rightarrow>
          let match_reason =
                [''header '' @ expected_header @ '' contained \"'' @ expected_value @ ''\"''] @
                (case expected_range of
                   Some r \<Rightarrow> [''status code '' @ show_u16 (er_status actual) @ '' was in range '' @
                              show_range r]
                 | None \<Rightarrow> []);
              reason =
                (case pattern_port of
                   Some p \<Rightarrow> ''Response from '' @ show_u16 (PortType_number p) @ '' '' @
                              join '' and '' match_reason
                 | None \<Rightarrow> ''Response '' @ join '' and '' match_reason)
          in Ok (response_match actual reason)
      | None \<Rightarrow>
          Err (''Could not find an header response on port '' @
               show_u16 (PortType_number
                 (case pattern_port of Some p \<Rightarrow> p | None \<Rightarrow> PortType_default))))"

definition endpoint_response_ok ::
    "PortType \<Rightarrow> string \<Rightarrow> string \<Rightarrow> u16_range option \<Rightarrow> EndpointResponse \<Rightarrow> bool" where
  "endpoint_response_ok pattern_port path expected_body expected_range actual \<longleftrightarrow>
     (let endpoint = Endpoint_for_pattern pattern_port path;
          is_same_endpoint =
            (ep_protocol (er_endpoint actual) = ep_protocol endpoint \<and>
             PortType_number (ep_port_type (er_endpoint actual)) =
               PortType_number (ep_port_type endpoint) \<and>
             PortType_protocol (ep_port_type (er_endpoint actual)) =
               PortType_protocol (ep_port_type endpoint) \<and>
             ep_path (er_endpoint actual) = ep_path endpoint);
          body_contains_match_string =
            str_contains (to_lowercase (er_body actual)) (to_lowercase expected_body)
      in is_same_endpoint \<and> status_in_range expected_range (er_status actual) \<and>
         body_contains_match_string)"

definition match_endpoint ::
    "match_params \<Rightarrow> PortType \<Rightarrow> string \<Rightarrow> string \<Rightarrow> u16_range option \<Rightarrow> match_outcome" where
  "match_endpoint params pattern_port path expected_body expected_range =
     (case find (endpoint_response_ok pattern_port path expected_body expected_range)
             (endpoint_responses params) of
        Some actual \<Rightarrow>
          let match_reason =
                [''contained \"'' @ expected_body @ ''\" in body''] @
                (case expected_range of
                   Some r \<Rightarrow> [''status code was '' @ show_u16 (er_status actual) @
                              '' was in range '' @ show_range r]
                 | None \<Rightarrow> [])
          in Ok (response_match actual
               (''Response for '' @ IpAddr_display (ib_ip_address (match_interface params)) @ '':'' @
                show_u16 (PortType_number pattern_port) @ path @ '' '' @ join '' and '' match_reason))
      | None \<Rightarrow> Err (''Could not find an endpoint response containing '' @ expected_body))"

text \<open>\<open>str::trim\<close> on ASCII: space and the control characters 9 to 13.\<close>

definition is_whitespace :: "char \<Rightarrow> bool" where
  "is_whitespace c = (let n = (of_char c :: nat) in n = 32 \<or> (9 \<le> n \<and> n \<le> 13))"

definition str_trim :: "string \<Rightarrow> string" where
  "str_trim s = rev (dropWhile is_whitespace (rev (dropWhile is_whitespace s)))"

definition normalize_vendor :: "string \<Rightarrow> string" where
  "normalize_vendor s = filter is_alphanumeric (to_lowercase (str_trim s))"

definition match_mac_vendor :: "externals \<Rightarrow> match_params \<Rightarrow> string \<Rightarrow> match_outcome" where
  "match_mac_vendor ext params vendor_string =
     (case ib_mac_address (match_interface params) of
        Some mac \<Rightarrow>
          if \<not> ext_oui_default ext then Err ''Could not load Oui database''
          else (case ext_oui_lookup ext (ext_show_mac ext mac) of
                  Inr (Some company_name) \<Rightarrow>
                    if normalize_vendor vendor_string = normalize_vendor company_name
                    then Ok \<lparr>mr_ports = [], mr_endpoint = None, mr_mac_vendor = Some company_name,
                            mr_details =
                              \<lparr>md_reason = MatchReason_Reason
                                 (''Mac address is from vendor '' @ company_name),
                               md_confidence = MatchConfidence_Medium\<rparr>\<rparr>
                    else Err (''Mac address is not from vendor '' @ normalize_vendor vendor_string)
                | _ \<Rightarrow> Err (''Could find vendor for mac address '' @ ext_show_mac ext mac @
                            '' in Oui database''))
      | None \<Rightarrow> Err (''Interface '' @ IpAddr_display (ib_ip_address (match_interface params)) @
                     '' does not have a mac address''))"

definition match_not :: "match_outcome \<Rightarrow> match_outcome" where
  "match_not outcome =
     (case outcome of
        Inr result \<Rightarrow> Err (MatchReason_display (md_reason (mr_details result)))
      | Inl e \<Rightarrow> Ok (plain_match [] e MatchConfidence_Low))"

text \<open>The local variables of the two loops, and the loop bodies.\<close>

record any_of_state =
  any_matched :: bool
  any_ports :: "PortType list"
  any_endpoint :: "Endpoint option"
  any_mac_vendor :: "string option"
  any_confidence :: MatchConfidence
  any_reasons :: "MatchReason list"
  any_no_match_errors :: string

definition any_of_init :: any_of_state where
  "any_of_init =
     \<lparr>any_matched = False, any_ports = [], any_endpoint = None, any_mac_vendor = None,
      any_confidence = MatchConfidence_Low, any_reasons = [], any_no_match_errors = []\<rparr>"

definition any_of_step :: "any_of_state \<Rightarrow> match_outcome \<Rightarrow> any_of_state" where
  "any_of_step st outcome =
     (case outcome of
        Inr result \<Rightarrow>
          st\<lparr>any_matched := True,
             any_ports := any_ports st @ mr_ports result,
             any_reasons := any_reasons st @ [md_reason (mr_details result)],
             any_endpoint :=
               (if mr_endpoint result \<noteq> None \<and> any_endpoint st = None
                then mr_endpoint result else any_endpoint st),
             any_mac_vendor :=
               (if mr_mac_vendor result \<noteq> None \<and> any_mac_vendor st = None
                then mr_mac_vendor result else any_mac_vendor st),
             any_confidence :=
               (if any_confidence st < mr_confidence result
                then mr_confidence result else any_confidence st)\<rparr>
      | Inl e \<Rightarrow> st\<lparr>any_no_match_errors := any_no_match_errors st @ '', '' @ e\<rparr>)"

definition match_any_of :: "match_outcome list \<Rightarrow> match_outcome" where
  "match_any_of outcomes =
     (let st = foldl any_of_step any_of_init outcomes
      in if any_matched st
         then Ok \<lparr>mr_ports = sort_dedup_ports (any_ports st), mr_endpoint = None,
                 mr_mac_vendor = None,
                 mr_details =
                   \<lparr>md_reason = MatchReason_Container ''Any of'' (any_reasons st),
                    md_confidence = any_confidence st\<rparr>\<rparr>
         else Err (any_no_match_errors st))"

record all_of_state =
  all_matched :: bool
  all_ports :: "PortType list"
  all_endpoint :: "Endpoint option"
  all_mac_vendor :: "string option"
  all_confidences :: "MatchConfidence list"
  all_reasons :: "MatchReason list"
  all_no_match_errors :: string

definition all_of_init :: all_of_state where
  "all_of_init =
     \<lparr>all_matched = True, all_ports = [], all_endpoint = None, all_mac_vendor = None,
      all_confidences = [], all_reasons = [], all_no_match_errors = []\<rparr>"

definition all_of_step :: "all_of_state \<Rightarrow> match_outcome \<Rightarrow> all_of_state" where
  "all_of_step st outcome =
     (case outcome of
        Inr result \<Rightarrow>
          st\<lparr>all_ports := all_ports st @ mr_ports result,
             all_reasons := all_reasons st @ [md_reason (mr_details result)],
             all_confidences := all_confidences st @ [mr_confidence result],
             all_endpoint :=
               (if mr_endpoint result \<noteq> None \<and> all_endpoint st = None
                then mr_endpoint result else all_endpoint st),
             all_mac_vendor :=
               (if mr_mac_vendor result \<noteq> None \<and> all_mac_vendor st = None
                then mr_mac_vendor result else all_mac_vendor st)\<rparr>
      | Inl e \<Rightarrow>
          st\<lparr>all_matched := False,
             all_no_match_errors := all_no_match_errors st @ '', '' @ e\<rparr>)"

text \<open>The confidence of \<open>AllOf\<close>: the greatest of the parts, one step up when more than three
  parts matched and none is above \<open>Medium\<close>.\<close>

definition all_of_confidence :: "MatchConfidence list \<Rightarrow> MatchConfidence" where
  "all_of_confidence matched_confidences =
     (let sorted_confidences = sort matched_confidences;
          max_confidence =
            (if sorted_confidences = [] then MatchConfidence_Low else last sorted_confidences)
      in if (max_confidence = MatchConfidence_Low \<or> max_confidence = MatchConfidence_Medium) \<and>
            3 < length sorted_confidences
         then (case max_confidence of
                 MatchConfidence_Low \<Rightarrow> MatchConfidence_Medium
               | MatchConfidence_Medium \<Rightarrow> MatchConfidence_High
               | _ \<Rightarrow> max_confidence)
         else max_confidence)"

definition match_all_of :: "match_outcome list \<Rightarrow> match_outcome" where
  "match_all_of outcomes =
     (let st = foldl all_of_step all_of_init outcomes
      in if all_matched st
         then Ok \<lparr>mr_ports = sort_dedup_ports (all_ports st), mr_endpoint = None,
                 mr_mac_vendor = None,
                 mr_details =
                   \<lparr>md_reason = MatchReason_Container ''All of'' (all_reasons st),
                    md_confidence = all_of_confidence (all_confidences st)\<rparr>\<rparr>
         else Err (all_no_match_errors st))"

definition last_octet_1_or_254 :: "IpAddr \<Rightarrow> bool" where
  "last_octet_1_or_254 ip =
     (case ip of
        IpAddr_V4 ipv4 \<Rightarrow>
          let octets = Ipv4Addr_octets ipv4 in octets ! 3 = 1 \<or> octets ! 3 = 254
      | IpAddr_V6 ipv6 \<Rightarrow>
          let segments = Ipv6Addr_segments ipv6 in segments ! 7 = 1 \<or> segments ! 7 = 254)"

definition match_is_gateway :: "externals \<Rightarrow> match_params \<Rightarrow> match_outcome" where
  "match_is_gateway ext params =
     (let subnet_cidr = sb_cidr (match_subnet params);
          ip_address = ib_ip_address (match_interface params);
          gateway_ips_in_subnet =
            filter (\<lambda>g. ext_cidr_contains ext subnet_cidr g) (mp_gateway_ips params);
          count_gateways_in_subnet = length gateway_ips_in_subnet;
          host_ip_in_routing_table = list_ex (\<lambda>g. g = ip_address) gateway_ips_in_subnet
      in if host_ip_in_routing_table
         then Ok (plain_match []
                (''Host IP address is in routing table of daemon '' @
                 ext_show_uuid ext (mp_daemon_id params)) MatchConfidence_High)
         else if last_octet_1_or_254 ip_address \<and> count_gateways_in_subnet = 0
         then Ok (plain_match []
                (''No other gateways in subnet '' @ ext_show_cidr ext subnet_cidr @
                 '' and IP address ends in 1 or 254'') MatchConfidence_High)
         else Err (''IP address is not in routing table, and does not end in 1 or 254 '' @
                   ''with no other gateways identified in subnet''))"

definition match_subnet_is_type :: "externals \<Rightarrow> match_params \<Rightarrow> SubnetType \<Rightarrow> match_outcome" where
  "match_subnet_is_type ext params subnet_type =
     (if sb_subnet_type (match_subnet params) = subnet_type
      then Ok (plain_match []
             (''Subnet '' @ ext_show_cidr ext (sb_cidr (match_subnet params)) @ '' is type '' @
              SubnetType_name subnet_type) MatchConfidence_Low)
      else Err (''Subnet '' @ ext_show_cidr ext (sb_cidr (match_subnet params)) @
                '' is not type '' @ SubnetType_name subnet_type))"

text \<open>The closures of the three definitions that use \<open>Pattern::Custom\<close>.\<close>

definition Gateway_constraint :: "match_params \<Rightarrow> bool" where
  "Gateway_constraint params \<longleftrightarrow>
     \<not> list_ex (\<lambda>s. \<not> ServiceDefinition_is_gateway (svb_service_definition (service_base s)))
         (sp_matched_services (mp_service_params params))"

definition DockerContainer_constraint :: "match_params \<Rightarrow> bool" where
  "DockerContainer_constraint params =
     (case bp_virtualization (mp_baseline_params params) of
        Some (ServiceVirtualization_Docker dv) \<Rightarrow>
          (case dv_container_id dv of
             Some c_id \<Rightarrow>
               list_all (\<lambda>s.
                   (case svb_virtualization (service_base s) of
                      Some (ServiceVirtualization_Docker sdv) \<Rightarrow>
                        if dv_container_id sdv \<noteq> None then dv_container_id sdv \<noteq> Some c_id
                        else True
                    | None \<Rightarrow> True))
                 (sp_matched_services (mp_service_params params))
           | None \<Rightarrow> False)
      | None \<Rightarrow> False)"

definition OpenPorts_constraint :: "match_params \<Rightarrow> bool" where
  "OpenPorts_constraint params \<longleftrightarrow> unbound_ports params \<noteq> []"

primrec call_constraint :: "ConstraintFn \<Rightarrow> match_params \<Rightarrow> bool" where
  "call_constraint ConstraintFn_Gateway = Gateway_constraint"
| "call_constraint ConstraintFn_DockerContainer = DockerContainer_constraint"
| "call_constraint ConstraintFn_OpenPorts = OpenPorts_constraint"

primrec call_ports :: "PortFn \<Rightarrow> match_params \<Rightarrow> PortType list" where
  "call_ports PortFn_Gateway = (\<lambda>_. [])"
| "call_ports PortFn_DockerContainer = (\<lambda>_. [])"
| "call_ports PortFn_OpenPorts = (\<lambda>params. unbound_ports params)"

definition match_custom ::
    "match_params \<Rightarrow> ConstraintFn \<Rightarrow> PortFn \<Rightarrow> string \<Rightarrow> string \<Rightarrow> MatchConfidence
       \<Rightarrow> match_outcome" where
  "match_custom params constraint_function port_function reason no_match_reason confidence =
     (if call_constraint constraint_function params
      then Ok (plain_match (call_ports port_function params) reason confidence)
      else Err no_match_reason)"

definition match_docker_container :: "match_params \<Rightarrow> match_outcome" where
  "match_docker_container params =
     (case bp_virtualization (mp_baseline_params params) of
        Some (ServiceVirtualization_Docker _) \<Rightarrow>
          Ok (plain_match [] ''Service is running in docker container'' MatchConfidence_Low)
      | None \<Rightarrow> Err ''Service is not running in a docker container'')"

fun matches :: "externals \<Rightarrow> registry \<Rightarrow> match_params \<Rightarrow> Pattern \<Rightarrow> match_outcome" where
  "matches ext reg params (Pattern_Port p) = match_port reg params p"
| "matches ext reg params (Pattern_Header po h v r) = match_header params po h v r"
| "matches ext reg params (Pattern_Endpoint p path body r) = match_endpoint params p path body r"
| "matches ext reg params (Pattern_MacVendor v) = match_mac_vendor ext params v"
| "matches ext reg params (Pattern_Not p) = match_not (matches ext reg params p)"
| "matches ext reg params (Pattern_AnyOf ps) = match_any_of (map (matches ext reg params) ps)"
| "matches ext reg params (Pattern_AllOf ps) = match_all_of (map (matches ext reg params) ps)"
| "matches ext reg params Pattern_IsGateway = match_is_gateway ext params"
| "matches ext reg params (Pattern_SubnetIsType t) = match_subnet_is_type ext params t"
| "matches ext reg params (Pattern_Custom c p m n conf) = match_custom params c p m n conf"
| "matches ext reg params Pattern_DockerContainer = match_docker_container params"
| "matches ext reg params Pattern_None = Err ''No match pattern provided''"

subsection \<open>Display and equality\<close>

fun Pattern_display :: "Pattern \<Rightarrow> string" where
  "Pattern_display (Pattern_AnyOf ps) = ''Any of: ('' @ join '', '' (map Pattern_display ps) @ '')''"
| "Pattern_display (Pattern_AllOf ps) = ''All of: ('' @ join '', '' (map Pattern_display ps) @ '')''"
| "Pattern_display (Pattern_Not p) = ''Not ('' @ Pattern_display p @ '')''"
| "Pattern_display (Pattern_Port p) = PortType_display p @ '' is open''"
| "Pattern_display (Pattern_Endpoint p path match_string r) =
     (case r of
        Some rg \<Rightarrow>
          ''Endpoint response status is between '' @ show_u16 (fst rg) @ '' and '' @
          show_u16 (snd rg) @ '', and response body from <ip>:'' @ show_u16 (PortType_number p) @
          path @ '' contains \"'' @ match_string @ ''\"''
      | None \<Rightarrow>
          ''Endpoint response body from <ip>:'' @ show_u16 (PortType_number p) @ path @
          '' contains \"'' @ match_string @ ''\"'')"
| "Pattern_display (Pattern_Header po header val r) =
     (let ip_str = (case po of Some p \<Rightarrow> ''<ip>:'' @ show_u16 (PortType_number p) | None \<Rightarrow> ''<ip>'')
      in case r of
           Some rg \<Rightarrow>
             ''Endpoint response status is between '' @ show_u16 (fst rg) @ '' and '' @
             show_u16 (snd rg) @ '', and response from '' @ ip_str @ '' has header \"'' @ header @
             ''\" with value \"'' @ val @ ''\"''
         | None \<Rightarrow>
             ''Endpoint response from '' @ ip_str @ '' has header \"'' @ header @
             ''\" with value \"'' @ val @ ''\"'')"
| "Pattern_display (Pattern_SubnetIsType t) = ''Subnet is type '' @ SubnetType_id t"
| "Pattern_display Pattern_IsGateway =
     ''Host IP is a gateway in daemon'' @ [CHR 0x27] @
     ''s routing tables, or ends in .1 or .254.''"
| "Pattern_display (Pattern_MacVendor vendor) = ''MAC Address belongs to '' @ vendor"
| "Pattern_display (Pattern_Custom c f m n conf) = ''A custom match pattern evaluated at runtime''"
| "Pattern_display Pattern_DockerContainer = ''Service is running in a docker container''"
| "Pattern_display Pattern_None = ''No match pattern provided''"

text \<open>
  \<open>PartialEq\<close>, which compares the closures by their addresses: \<open>con_addr\<close> and \<open>port_addr\<close>, which
  the compiler chooses.
\<close>

fun Pattern_eq :: "(ConstraintFn \<Rightarrow> nat) \<Rightarrow> (PortFn \<Rightarrow> nat) \<Rightarrow> Pattern \<Rightarrow> Pattern \<Rightarrow> bool"
  and Patterns_eq :: "(ConstraintFn \<Rightarrow> nat) \<Rightarrow> (PortFn \<Rightarrow> nat) \<Rightarrow> Pattern list \<Rightarrow> Pattern list \<Rightarrow> bool"
where
  "Pattern_eq con_addr port_addr (Pattern_AnyOf a) other =
     (case other of Pattern_AnyOf b \<Rightarrow> Patterns_eq con_addr port_addr a b | _ \<Rightarrow> False)"
| "Pattern_eq con_addr port_addr (Pattern_AllOf a) other =
     (case other of Pattern_AllOf b \<Rightarrow> Patterns_eq con_addr port_addr a b | _ \<Rightarrow> False)"
| "Pattern_eq con_addr port_addr (Pattern_Not a) other =
     (case other of Pattern_Not b \<Rightarrow> Pattern_eq con_addr port_addr a b | _ \<Rightarrow> False)"
| "Pattern_eq con_addr port_addr (Pattern_Port a) other =
     (case other of Pattern_Port b \<Rightarrow> PortType_eq a b | _ \<Rightarrow> False)"
| "Pattern_eq con_addr port_addr (Pattern_Endpoint port_a path_a match_a range_a) other =
     (case other of
        Pattern_Endpoint port_b path_b match_b range_b \<Rightarrow>
          PortType_eq port_a port_b \<and> path_a = path_b \<and> match_a = match_b \<and> range_a = range_b
      | _ \<Rightarrow> False)"
| "Pattern_eq con_addr port_addr (Pattern_Header port_a header_a value_a range_a) other =
     (case other of
        Pattern_Header port_b header_b value_b range_b \<Rightarrow>
          rel_option PortType_eq port_a port_b \<and> header_a = header_b \<and> value_a = value_b \<and>
          range_a = range_b
      | _ \<Rightarrow> False)"
| "Pattern_eq con_addr port_addr (Pattern_SubnetIsType a) other =
     (case other of Pattern_SubnetIsType b \<Rightarrow> a = b | _ \<Rightarrow> False)"
| "Pattern_eq con_addr port_addr Pattern_IsGateway other = (other = Pattern_IsGateway)"
| "Pattern_eq con_addr port_addr (Pattern_MacVendor a) other =
     (case other of Pattern_MacVendor b \<Rightarrow> a = b | _ \<Rightarrow> False)"
| "Pattern_eq con_addr port_addr (Pattern_Custom con_a port_fn_a match_a no_match_a conf_a) other =
     (case other of
        Pattern_Custom con_b port_fn_b match_b no_match_b conf_b \<Rightarrow>
          con_addr con_a = con_addr con_b \<and> port_addr port_fn_a = port_addr port_fn_b \<and>
          match_a = match_b \<and> no_match_a = no_match_b \<and> conf_a = conf_b
      | _ \<Rightarrow> False)"
| "Pattern_eq con_addr port_addr Pattern_DockerContainer other = (other = Pattern_DockerContainer)"
| "Pattern_eq con_addr port_addr Pattern_None other = (other = Pattern_None)"
| "Patterns_eq con_addr port_addr [] bs = (bs = [])"
| "Patterns_eq con_addr port_addr (a # as) bs =
     (case bs of
        [] \<Rightarrow> False
      | b # bs' \<Rightarrow> Pattern_eq con_addr port_addr a b \<and> Patterns_eq con_addr port_addr as bs')"

subsection \<open>The two loops, summarised\<close>

fun oks :: "('a, 'e) result list \<Rightarrow> 'a list" where
  "oks [] = []"
| "oks (Inr x # rs) = x # oks rs"
| "oks (Inl e # rs) = oks rs"

fun errs :: "('a, 'e) result list \<Rightarrow> 'e list" where
  "errs [] = []"
| "errs (Inr x # rs) = errs rs"
| "errs (Inl e # rs) = e # errs rs"

lemma set_oks: "set (oks rs) = {x. Inr x \<in> set rs}"
  by (induction rs rule: oks.induct) auto

lemma set_errs: "set (errs rs) = {e. Inl e \<in> set rs}"
  by (induction rs rule: errs.induct) auto

lemma oks_eq_Nil_iff: "oks rs = [] \<longleftrightarrow> (\<forall>r \<in> set rs. \<not> is_ok r)"
  by (induction rs rule: oks.induct) auto

lemma errs_eq_Nil_iff: "errs rs = [] \<longleftrightarrow> (\<forall>r \<in> set rs. is_ok r)"
  by (induction rs rule: errs.induct) auto

lemma length_oks_le: "length (oks rs) \<le> length rs"
  by (induction rs rule: oks.induct) auto

definition error_text :: "string list \<Rightarrow> string" where
  "error_text es = concat (map (\<lambda>e. '', '' @ e) es)"

lemma any_of_fold:
  "any_matched (foldl any_of_step st rs) \<longleftrightarrow> any_matched st \<or> oks rs \<noteq> []"
  "any_ports (foldl any_of_step st rs) = any_ports st @ concat (map mr_ports (oks rs))"
  "any_reasons (foldl any_of_step st rs) =
     any_reasons st @ map (\<lambda>r. md_reason (mr_details r)) (oks rs)"
  "any_confidence (foldl any_of_step st rs) = fold max (map mr_confidence (oks rs)) (any_confidence st)"
  "any_no_match_errors (foldl any_of_step st rs) = any_no_match_errors st @ error_text (errs rs)"
  by (induction rs arbitrary: st rule: oks.induct)
    (auto simp: any_of_step_def max_def error_text_def)

lemma all_of_fold:
  "all_matched (foldl all_of_step st rs) \<longleftrightarrow> all_matched st \<and> errs rs = []"
  "all_ports (foldl all_of_step st rs) = all_ports st @ concat (map mr_ports (oks rs))"
  "all_reasons (foldl all_of_step st rs) =
     all_reasons st @ map (\<lambda>r. md_reason (mr_details r)) (oks rs)"
  "all_confidences (foldl all_of_step st rs) = all_confidences st @ map mr_confidence (oks rs)"
  "all_no_match_errors (foldl all_of_step st rs) = all_no_match_errors st @ error_text (errs rs)"
  by (induction rs arbitrary: st rule: oks.induct)
    (auto simp: all_of_step_def error_text_def)

lemma match_any_of_eq:
  "match_any_of rs =
     (if oks rs = [] then Err (error_text (errs rs))
      else Ok \<lparr>mr_ports = sort_dedup_ports (concat (map mr_ports (oks rs))),
              mr_endpoint = None, mr_mac_vendor = None,
              mr_details =
                \<lparr>md_reason = MatchReason_Container ''Any of''
                   (map (\<lambda>r. md_reason (mr_details r)) (oks rs)),
                 md_confidence = fold max (map mr_confidence (oks rs)) MatchConfidence_Low\<rparr>\<rparr>)"
  by (simp add: match_any_of_def any_of_fold any_of_init_def)

lemma match_all_of_eq:
  "match_all_of rs =
     (if errs rs \<noteq> [] then Err (error_text (errs rs))
      else Ok \<lparr>mr_ports = sort_dedup_ports (concat (map mr_ports (oks rs))),
              mr_endpoint = None, mr_mac_vendor = None,
              mr_details =
                \<lparr>md_reason = MatchReason_Container ''All of''
                   (map (\<lambda>r. md_reason (mr_details r)) (oks rs)),
                 md_confidence = all_of_confidence (map mr_confidence (oks rs))\<rparr>\<rparr>)"
  by (simp add: match_all_of_def all_of_fold all_of_init_def)

lemma is_ok_match_any_of [result_simps]: "is_ok (match_any_of rs) \<longleftrightarrow> (\<exists>r \<in> set rs. is_ok r)"
  using oks_eq_Nil_iff [of rs] by (simp add: match_any_of_eq)

lemma is_ok_match_all_of [result_simps]: "is_ok (match_all_of rs) \<longleftrightarrow> (\<forall>r \<in> set rs. is_ok r)"
  using errs_eq_Nil_iff [of rs] by (simp add: match_all_of_eq)

lemma is_ok_match_not [result_simps]: "is_ok (match_not r) \<longleftrightarrow> \<not> is_ok r"
  by (cases r) (simp_all add: match_not_def)

lemma find_eq_Some_ex: "(\<exists>y. find P xs = Some y) \<longleftrightarrow> (\<exists>x \<in> set xs. P x)"
  by (induction xs) auto

lemma is_ok_case_find:
  assumes "\<And>x. is_ok (f x)" and "\<not> is_ok e"
  shows "is_ok (case find P xs of Some x \<Rightarrow> f x | None \<Rightarrow> e) \<longleftrightarrow> list_ex P xs"
  using assms by (induction xs) auto

lemma is_ok_match_port [result_simps]:
  "is_ok (match_port reg params p) \<longleftrightarrow> list_ex (\<lambda>q. PortType_eq q p) (unbound_ports params)"
  unfolding match_port_def by (rule is_ok_case_find) (simp_all add: Let_def)

lemma is_ok_match_header [result_simps]:
  "is_ok (match_header params po h v r) \<longleftrightarrow>
     list_ex (header_response_ok po h v r) (endpoint_responses params)"
  unfolding match_header_def by (rule is_ok_case_find) (simp_all add: Let_def)

lemma is_ok_match_endpoint [result_simps]:
  "is_ok (match_endpoint params p path body r) \<longleftrightarrow>
     list_ex (endpoint_response_ok p path body r) (endpoint_responses params)"
  unfolding match_endpoint_def by (rule is_ok_case_find) (simp_all add: Let_def)

subsection \<open>What a pattern means\<close>

text \<open>The vendor of the interface's MAC address, when the OUI database has it.\<close>

definition mac_vendor_of :: "externals \<Rightarrow> match_params \<Rightarrow> string option" where
  "mac_vendor_of ext params =
     (case ib_mac_address (match_interface params) of
        None \<Rightarrow> None
      | Some mac \<Rightarrow>
          if ext_oui_default ext
          then (case ext_oui_lookup ext (ext_show_mac ext mac) of Inr v \<Rightarrow> v | Inl _ \<Rightarrow> None)
          else None)"

definition gateway_like :: "externals \<Rightarrow> match_params \<Rightarrow> bool" where
  "gateway_like ext params \<longleftrightarrow>
     (let known = {g \<in> set (mp_gateway_ips params).
                     ext_cidr_contains ext (sb_cidr (match_subnet params)) g};
          ip = ib_ip_address (match_interface params)
      in ip \<in> known \<or> (known = {} \<and> last_octet_1_or_254 ip))"

fun sat :: "externals \<Rightarrow> match_params \<Rightarrow> Pattern \<Rightarrow> bool" where
  "sat ext params (Pattern_AnyOf ps) \<longleftrightarrow> (\<exists>p \<in> set ps. sat ext params p)"
| "sat ext params (Pattern_AllOf ps) \<longleftrightarrow> (\<forall>p \<in> set ps. sat ext params p)"
| "sat ext params (Pattern_Not p) \<longleftrightarrow> \<not> sat ext params p"
| "sat ext params (Pattern_Port p) \<longleftrightarrow> (\<exists>q \<in> set (unbound_ports params). PortType_eq q p)"
| "sat ext params (Pattern_Endpoint p path body r) \<longleftrightarrow>
     (\<exists>a \<in> set (endpoint_responses params). endpoint_response_ok p path body r a)"
| "sat ext params (Pattern_Header po h v r) \<longleftrightarrow>
     (\<exists>a \<in> set (endpoint_responses params). header_response_ok po h v r a)"
| "sat ext params (Pattern_SubnetIsType t) \<longleftrightarrow> sb_subnet_type (match_subnet params) = t"
| "sat ext params Pattern_IsGateway \<longleftrightarrow> gateway_like ext params"
| "sat ext params (Pattern_MacVendor v) \<longleftrightarrow>
     (case mac_vendor_of ext params of
        Some c \<Rightarrow> normalize_vendor v = normalize_vendor c
      | None \<Rightarrow> False)"
| "sat ext params (Pattern_Custom c p m n conf) \<longleftrightarrow> call_constraint c params"
| "sat ext params Pattern_DockerContainer \<longleftrightarrow> bp_virtualization (mp_baseline_params params) \<noteq> None"
| "sat ext params Pattern_None \<longleftrightarrow> False"

lemma is_ok_match_mac_vendor [result_simps]:
  "is_ok (match_mac_vendor ext params v) \<longleftrightarrow> sat ext params (Pattern_MacVendor v)"
  by (auto simp: match_mac_vendor_def mac_vendor_of_def split: option.splits sum.splits)

lemma is_ok_match_is_gateway [result_simps]:
  "is_ok (match_is_gateway ext params) \<longleftrightarrow> gateway_like ext params"
  by (auto simp: match_is_gateway_def gateway_like_def Let_def list_ex_iff filter_empty_conv)

lemma is_ok_match_subnet_is_type [result_simps]:
  "is_ok (match_subnet_is_type ext params t) \<longleftrightarrow> sb_subnet_type (match_subnet params) = t"
  by (simp add: match_subnet_is_type_def)

lemma is_ok_match_custom [result_simps]:
  "is_ok (match_custom params c p m n conf) \<longleftrightarrow> call_constraint c params"
  by (simp add: match_custom_def)

lemma is_ok_match_docker_container [result_simps]:
  "is_ok (match_docker_container params) \<longleftrightarrow> bp_virtualization (mp_baseline_params params) \<noteq> None"
  by (auto simp: match_docker_container_def split: option.splits ServiceVirtualization.splits)

lemma is_ok_matches: "is_ok (matches ext reg params p) \<longleftrightarrow> sat ext params p"
proof (induction p)
  case (Pattern_AnyOf ps)
  then show ?case by (simp add: result_simps)
next
  case (Pattern_AllOf ps)
  then show ?case by (simp add: result_simps)
qed (simp_all add: result_simps list_ex_iff)


subsection \<open>Ports of a match\<close>

lemma sort_dedup_ports_subset: "set (sort_dedup_ports ps) \<subseteq> set ps"
  unfolding sort_dedup_ports_def by (rule port_type.sort_dedup_subset)

lemma match_port_ports:
  "match_port reg params p = Ok r \<Longrightarrow> set (mr_ports r) \<subseteq> set (unbound_ports params)"
  by (auto simp: match_port_def Let_def find_Some_iff split: option.splits if_splits)

lemma response_match_ports [simp]: "mr_ports (response_match a s) = [ep_port_type (er_endpoint a)]"
  by (simp add: response_match_def)

definition known_ports :: "match_params \<Rightarrow> PortType set" where
  "known_ports params =
     set (unbound_ports params) \<union>
     (\<lambda>a. ep_port_type (er_endpoint a)) ` set (endpoint_responses params)"

lemma match_response_ports:
  "match_header params po h v r = Ok res \<Longrightarrow> set (mr_ports res) \<subseteq> known_ports params"
  "match_endpoint params p path body r = Ok res \<Longrightarrow> set (mr_ports res) \<subseteq> known_ports params"
  by (auto simp: match_header_def match_endpoint_def known_ports_def Let_def find_Some_iff
      split: option.splits)

lemma match_custom_ports:
  "match_custom params c f m n conf = Ok r \<Longrightarrow> set (mr_ports r) \<subseteq> known_ports params"
  by (cases f) (auto simp: match_custom_def known_ports_def split: if_splits)

lemma match_no_ports:
  "match_is_gateway ext params = Ok r \<Longrightarrow> mr_ports r = []"
  "match_subnet_is_type ext params t = Ok r \<Longrightarrow> mr_ports r = []"
  "match_docker_container params = Ok r \<Longrightarrow> mr_ports r = []"
  "match_mac_vendor ext params v = Ok r \<Longrightarrow> mr_ports r = []"
  "match_not out = Ok r \<Longrightarrow> mr_ports r = []"
  by (auto simp: match_is_gateway_def match_subnet_is_type_def match_docker_container_def
      match_mac_vendor_def match_not_def Let_def
      split: if_splits option.splits sum.splits ServiceVirtualization.splits)

lemma match_composite_ports:
  assumes "match_any_of rs = Ok r \<or> match_all_of rs = Ok r"
  shows "set (mr_ports r) \<subseteq> (\<Union>x \<in> {x. Inr x \<in> set rs}. set (mr_ports x))"
    and "sorted (map PortType_key (mr_ports r))" and "distinct (map PortType_key (mr_ports r))"
proof -
  have r: "mr_ports r = sort_dedup_ports (concat (map mr_ports (oks rs)))"
    using assms by (auto simp: match_any_of_eq match_all_of_eq split: if_splits)
  show "set (mr_ports r) \<subseteq> (\<Union>x \<in> {x. Inr x \<in> set rs}. set (mr_ports x))"
    using sort_dedup_ports_subset [of "concat (map mr_ports (oks rs))"]
    by (auto simp: r set_oks)
  show "sorted (map PortType_key (mr_ports r))" and "distinct (map PortType_key (mr_ports r))"
    unfolding r sort_dedup_ports_def
    by (rule port_type.sorted_sort_dedup port_type.distinct_sort_dedup)+
qed

lemma composite_ports_known:
  assumes "match_any_of rs = Ok r \<or> match_all_of rs = Ok r"
    and "\<And>x. Inr x \<in> set rs \<Longrightarrow> set (mr_ports x) \<subseteq> K"
  shows "set (mr_ports r) \<subseteq> K"
  using match_composite_ports(1) [OF assms(1)] assms(2) by blast

lemma matches_ports_subset:
  "matches ext reg params p = Ok r \<Longrightarrow> set (mr_ports r) \<subseteq> known_ports params"
proof (induction p arbitrary: r)
  case (Pattern_AnyOf ps)
  have "match_any_of (map (matches ext reg params) ps) = Ok r \<or>
      match_all_of (map (matches ext reg params) ps) = Ok r"
    using Pattern_AnyOf.prems by simp
  then show ?case by (rule composite_ports_known) (use Pattern_AnyOf.IH in \<open>auto dest: sym\<close>)
next
  case (Pattern_AllOf ps)
  have "match_any_of (map (matches ext reg params) ps) = Ok r \<or>
      match_all_of (map (matches ext reg params) ps) = Ok r"
    using Pattern_AllOf.prems by simp
  then show ?case by (rule composite_ports_known) (use Pattern_AllOf.IH in \<open>auto dest: sym\<close>)
next
  case (Pattern_Port x)
  then show ?case using match_port_ports by (fastforce simp: known_ports_def)
qed (auto dest: match_response_ports match_custom_ports match_no_ports)

text \<open>A match never invents a port: every port of a successful match is one of the host's
  open, unbound ports or the port of an endpoint that answered.\<close>

theorem matches_ports_known:
  "matches ext reg params p = Ok r \<Longrightarrow> set (mr_ports r) \<subseteq> known_ports params"
  by (rule matches_ports_subset)

text \<open>The matched ports of an \<open>AnyOf\<close> or an \<open>AllOf\<close> come out in order of number and protocol
  and without two ports that the port equality identifies.\<close>

theorem matches_composite_ports_sorted:
  assumes "matches ext reg params p = Ok r" and "p = Pattern_AnyOf ps \<or> p = Pattern_AllOf ps"
  shows "sorted (map PortType_key (mr_ports r)) \<and> distinct (map PortType_key (mr_ports r))"
  using assms match_composite_ports(2,3) [of "map (matches ext reg params) ps" r] by auto

subsection \<open>Confidence\<close>

lemma last_sort: "xs \<noteq> [] \<Longrightarrow> last (sort xs) = Max (set xs)"
proof -
  assume "xs \<noteq> []"
  then have ne: "sort xs \<noteq> []" by (metis length_sort length_0_conv)
  have "Max (set (sort xs)) = last (sort xs)"
  proof (rule Max_eqI)
    fix y assume "y \<in> set (sort xs)"
    then obtain i where i: "i < length (sort xs)" "y = sort xs ! i" by (metis in_set_conv_nth)
    have "sort xs ! i \<le> sort xs ! (length (sort xs) - 1)"
      by (rule sorted_nth_mono) (use i in auto)
    then show "y \<le> last (sort xs)" by (simp add: i last_conv_nth [OF ne])
  qed (use ne last_in_set [OF ne] in auto)
  then show ?thesis by simp
qed

lemma sort_eq_Nil_iff [simp]: "sort xs = [] \<longleftrightarrow> xs = []"
  by (metis length_sort length_0_conv)

lemma all_of_confidence_eq:
  "all_of_confidence cs =
     (let m = (if cs = [] then MatchConfidence_Low else Max (set cs))
      in if 3 < length cs \<and> m = MatchConfidence_Low then MatchConfidence_Medium
         else if 3 < length cs \<and> m = MatchConfidence_Medium then MatchConfidence_High
         else m)"
  by (auto simp: all_of_confidence_def last_sort Let_def)

lemma all_of_confidence_ge: "c \<in> set cs \<Longrightarrow> c \<le> all_of_confidence cs"
proof -
  assume c: "c \<in> set cs"
  then have "c \<le> Max (set cs)" and "cs \<noteq> []" by auto
  then show ?thesis
    by (auto simp: all_of_confidence_eq Let_def confidence_order_defs)
qed

lemma all_of_confidence_attained:
  assumes "cs \<noteq> []"
  shows "\<exists>c \<in> set cs. all_of_confidence cs = c \<or>
           3 < length cs \<and> c \<le> MatchConfidence_Medium \<and>
           MatchConfidence_rank (all_of_confidence cs) = Suc (MatchConfidence_rank c)"
proof
  show "Max (set cs) \<in> set cs" using assms by simp
  show "all_of_confidence cs = Max (set cs) \<or>
      3 < length cs \<and> Max (set cs) \<le> MatchConfidence_Medium \<and>
      MatchConfidence_rank (all_of_confidence cs) = Suc (MatchConfidence_rank (Max (set cs)))"
    using assms by (auto simp: all_of_confidence_eq Let_def confidence_order_defs)
qed

lemma oks_all_ok: "errs rs = [] \<Longrightarrow> map Inr (oks rs) = rs"
  by (induction rs rule: oks.induct) auto

text \<open>The confidence of a conjunction is at least that of each part, and it is the confidence of
  one of the parts unless more than three parts matched and that part was at most \<open>Medium\<close>, when
  it is one step above it.\<close>

theorem all_of_confidence_correct:
  assumes "matches ext reg params (Pattern_AllOf ps) = Ok r" and "p \<in> set ps"
  shows "(\<exists>x. matches ext reg params p = Ok x \<and> mr_confidence x \<le> mr_confidence r) \<and>
         (\<exists>q \<in> set ps. \<exists>x. matches ext reg params q = Ok x \<and>
           (mr_confidence r = mr_confidence x \<or>
            3 < length ps \<and> mr_confidence x \<le> MatchConfidence_Medium \<and>
            MatchConfidence_rank (mr_confidence r) = Suc (MatchConfidence_rank (mr_confidence x))))"
proof -
  let ?rs = "map (matches ext reg params) ps"
  have ne: "errs ?rs = []" and conf: "mr_confidence r = all_of_confidence (map mr_confidence (oks ?rs))"
    using assms(1) by (auto simp: match_all_of_eq split: if_splits)
  from oks_all_ok [OF ne] have rs: "?rs = map Inr (oks ?rs)" by simp
  then have len: "length (oks ?rs) = length ps" by (metis length_map)
  have part: "\<exists>q \<in> set ps. matches ext reg params q = Ok x" if "x \<in> set (oks ?rs)" for x
    using that by (auto simp: set_oks)
  from assms(2) rs obtain x where x: "matches ext reg params p = Ok x" "x \<in> set (oks ?rs)"
    by (metis (no_types, lifting) imageE image_eqI list.set_map)
  then have "mr_confidence x \<le> mr_confidence r" by (simp add: conf all_of_confidence_ge)
  moreover have "map mr_confidence (oks ?rs) \<noteq> []" using x(2) by auto
  from all_of_confidence_attained [OF this] obtain y where "y \<in> set (oks ?rs)"
    "mr_confidence r = mr_confidence y \<or>
     3 < length ps \<and> mr_confidence y \<le> MatchConfidence_Medium \<and>
     MatchConfidence_rank (mr_confidence r) = Suc (MatchConfidence_rank (mr_confidence y))"
    by (auto simp: conf len)
  ultimately show ?thesis using x part by blast
qed

subsection \<open>More evidence never loses a match\<close>

text \<open>Patterns without negation and without a runtime closure.\<close>

fun monotone_pattern :: "Pattern \<Rightarrow> bool" where
  "monotone_pattern (Pattern_AnyOf ps) \<longleftrightarrow> list_all monotone_pattern ps"
| "monotone_pattern (Pattern_AllOf ps) \<longleftrightarrow> list_all monotone_pattern ps"
| "monotone_pattern (Pattern_Not p) \<longleftrightarrow> False"
| "monotone_pattern (Pattern_Custom c f m n conf) \<longleftrightarrow> False"
| "monotone_pattern _ \<longleftrightarrow> True"

text \<open>The same host with further open ports and further endpoint responses.\<close>

definition with_evidence ::
    "match_params \<Rightarrow> PortType list \<Rightarrow> EndpointResponse list \<Rightarrow> match_params" where
  "with_evidence params ports responses =
     params\<lparr>mp_service_params :=
              (mp_service_params params)\<lparr>sp_unbound_ports := unbound_ports params @ ports\<rparr>,
            mp_baseline_params :=
              (mp_baseline_params params)\<lparr>bp_endpoint_responses :=
                 endpoint_responses params @ responses\<rparr>\<rparr>"

lemma with_evidence_simps [simp]:
  "unbound_ports (with_evidence params ports responses) = unbound_ports params @ ports"
  "endpoint_responses (with_evidence params ports responses) = endpoint_responses params @ responses"
  "match_interface (with_evidence params ports responses) = match_interface params"
  "match_subnet (with_evidence params ports responses) = match_subnet params"
  "mp_gateway_ips (with_evidence params ports responses) = mp_gateway_ips params"
  "bp_virtualization (mp_baseline_params (with_evidence params ports responses)) =
     bp_virtualization (mp_baseline_params params)"
  by (simp_all add: with_evidence_def)

lemma sat_mono:
  "monotone_pattern p \<Longrightarrow> sat ext params p \<Longrightarrow> sat ext (with_evidence params ports responses) p"
  by (induction p) (auto simp: list_all_iff gateway_like_def mac_vendor_of_def)

text \<open>Matching is monotone in what the scan found: a pattern without \<open>Not\<close> and without a
  runtime closure that matches a host still matches it when more ports are open and more
  endpoints answered.\<close>

theorem matches_monotone:
  assumes "monotone_pattern p" and "is_ok (matches ext reg params p)"
  shows "is_ok (matches ext reg (with_evidence params ports responses) p)"
  using assms is_ok_matches sat_mono by blast

subsection \<open>What a match loses\<close>

text \<open>A composite pattern never reports the endpoint or the MAC vendor that its parts matched:
  the result of an \<open>AnyOf\<close> or an \<open>AllOf\<close> has neither, though a part that is an endpoint or a header
  pattern always reports the endpoint that answered.\<close>

theorem composite_match_drops_endpoint:
  assumes "matches ext reg params p = Ok r" and "p = Pattern_AnyOf ps \<or> p = Pattern_AllOf ps"
  shows "mr_endpoint r = None \<and> mr_mac_vendor r = None"
  using assms by (auto simp: match_any_of_eq match_all_of_eq split: if_splits)

lemma empty_range: "\<not> status_in_range (Some (n, n)) status"
  by (auto simp: status_in_range_def range_contains_def)

text \<open>Status ranges are half-open, so a pattern with an empty range such as \<open>401..401\<close> matches no
  response at all, whatever the host answers.\<close>

theorem empty_status_range_never_matches:
  "\<not> is_ok (matches ext reg params (Pattern_Endpoint p path body (Some (n, n)))) \<and>
   \<not> is_ok (matches ext reg params (Pattern_Header po h v (Some (n, n))))"
  by (simp add: result_simps list_ex_iff endpoint_response_ok_def header_response_ok_def
      empty_range Let_def)

text \<open>When a negated pattern fails, its error is \<open>Reason\<close> or \<open>Container\<close>, the name of a variant,
  and not the reason why the inner pattern matched.\<close>

theorem not_error_text:
  "matches ext reg params (Pattern_Not p) = Err e \<longleftrightarrow>
     (\<exists>r. matches ext reg params p = Ok r \<and>
          e = (case md_reason (mr_details r) of
                 MatchReason_Reason s \<Rightarrow> ''Reason'' | MatchReason_Container s rs \<Rightarrow> ''Container''))"
  by (cases "matches ext reg params p")
    (auto simp: match_not_def split: MatchReason.splits)

subsection \<open>Equal patterns match the same hosts\<close>

lemma PortType_eq_trans_iff: "PortType_eq a b \<Longrightarrow> PortType_eq q a \<longleftrightarrow> PortType_eq q b"
  by (auto simp: PortType_eq_iff)

lemma header_response_ok_cong:
  "rel_option PortType_eq po po' \<Longrightarrow> header_response_ok po h v r a = header_response_ok po' h v r a"
  by (cases po; cases po') (auto simp: header_response_ok_def Let_def PortType_eq_iff)

lemma endpoint_response_ok_cong:
  "PortType_eq p p' \<Longrightarrow> endpoint_response_ok p path body r a = endpoint_response_ok p' path body r a"
  by (auto simp: endpoint_response_ok_def Let_def PortType_eq_iff Endpoint_for_pattern_def
      PortType_number_def PortType_protocol_def)

text \<open>Closures at the same address behave the same.\<close>

definition addresses_faithful :: "(ConstraintFn \<Rightarrow> nat) \<Rightarrow> bool" where
  "addresses_faithful con_addr \<longleftrightarrow>
     (\<forall>c c'. con_addr c = con_addr c' \<longrightarrow> call_constraint c = call_constraint c')"

lemma addresses_faithfulD:
  "addresses_faithful con_addr \<Longrightarrow> con_addr c = con_addr c' \<Longrightarrow>
     call_constraint c params = call_constraint c' params"
  unfolding addresses_faithful_def by metis

lemma Pattern_eq_sat:
  shows "addresses_faithful con_addr \<Longrightarrow> Pattern_eq con_addr port_addr p q \<Longrightarrow>
           sat ext params p = sat ext params q"
    and "addresses_faithful con_addr \<Longrightarrow> Patterns_eq con_addr port_addr ps qs \<Longrightarrow>
           ((\<exists>p \<in> set ps. sat ext params p) \<longleftrightarrow> (\<exists>q \<in> set qs. sat ext params q)) \<and>
           ((\<forall>p \<in> set ps. sat ext params p) \<longleftrightarrow> (\<forall>q \<in> set qs. sat ext params q))"
  by (induction con_addr port_addr p q and con_addr port_addr ps qs
      rule: Pattern_eq_Patterns_eq.induct)
    (auto split: Pattern.splits list.splits simp: PortType_eq_trans_iff header_response_ok_cong
      endpoint_response_ok_cong dest: addresses_faithfulD)

text \<open>The pattern equality, which compares ports by number and protocol and closures by address,
  is sound for matching: equal patterns match the same hosts, as long as closures with the same
  address behave the same.\<close>

theorem Pattern_eq_matches:
  assumes "addresses_faithful con_addr" and "Pattern_eq con_addr port_addr p q"
  shows "is_ok (matches ext reg params p) = is_ok (matches ext reg params q)"
  using Pattern_eq_sat(1) [OF assms(1), where p = p and q = q] assms(2)
  by (simp add: is_ok_matches)

subsection \<open>A sample host\<close>

text \<open>A host with two open ports and one answering endpoint, for evaluating the matcher.\<close>

definition sample_externals :: externals where
  "sample_externals =
     \<lparr>ext_show_uuid = (\<lambda>_. ''id''), ext_show_cidr = (\<lambda>_. ''cidr''),
      ext_cidr_contains = (\<lambda>_ _. True), ext_cidr_new_v4 = (\<lambda>a n. Some (IpCidr_V4 a n)),
      ext_show_mac = (\<lambda>_. ''mac''), ext_oui_default = True,
      ext_oui_lookup = (\<lambda>_. Ok (Some ''HP Inc.''))\<rparr>"

definition sample_subnet :: Subnet where
  "sample_subnet =
     Subnet_new 1 0
       \<lparr>sb_cidr = IpCidr_V4 (Ipv4Addr_new 192 168 1 0) 24, sb_network_id = 2, sb_name = ''lan'',
        sb_description = None, sb_subnet_type = SubnetType_Lan, sb_source = EntitySource_System,
        sb_tags = []\<rparr>"

definition sample_interface :: Interface where
  "sample_interface =
     Interface_new 3 0
       \<lparr>ib_network_id = 2, ib_host_id = 4, ib_subnet_id = 1,
        ib_ip_address = IpAddr_V4 (Ipv4Addr_new 192 168 1 1), ib_mac_address = Some 5,
        ib_name = None, ib_position = 0\<rparr>"

definition sample_response :: EndpointResponse where
  "sample_response =
     \<lparr>er_endpoint = Endpoint_http None ''/admin'', er_body = ''Pi-hole'',
      er_headers = [(''Server'', ''nginx'')], er_status = 200\<rparr>"

definition sample_params :: match_params where
  "sample_params =
     \<lparr>mp_host_id = 4, mp_gateway_ips = [], mp_daemon_id = 6, mp_network_id = 2,
      mp_discovery_type = DiscoveryType_SelfReport 4,
      mp_baseline_params =
        \<lparr>bp_subnet = sample_subnet, bp_interface = sample_interface,
         bp_all_ports = [PortType_new_tcp 80, PortType_DnsUdp],
         bp_endpoint_responses = [sample_response], bp_virtualization = None\<rparr>,
      mp_service_params =
        \<lparr>sp_service_definition = Proxmox, sp_matched_services = [],
         sp_unbound_ports = [PortType_new_tcp 80, PortType_DnsUdp]\<rparr>\<rparr>"

definition sample_pattern :: Pattern where
  "sample_pattern =
     Pattern_AllOf
       [Pattern_Endpoint PortType_Http ''/admin'' ''pi-hole'' None,
        Pattern_AnyOf [Pattern_Port PortType_DnsUdp, Pattern_Port PortType_DnsTcp]]"

lemma sample_match:
  "matches sample_externals [] sample_params sample_pattern =
     Ok \<lparr>mr_ports = [PortType_DnsUdp, PortType_Http], mr_endpoint = None, mr_mac_vendor = None,
         mr_details =
           \<lparr>md_reason = MatchReason_Container ''All of''
              [MatchReason_Reason ''Response for 192.168.1.1:80/admin contained \"pi-hole\" in body'',
               MatchReason_Container ''Any of'' [MatchReason_Reason ''Port 53/udp is open'']],
            md_confidence = MatchConfidence_High\<rparr>\<rparr>"
  by code_simp


theorem matches_ports_known_witness:
  "set [PortType_DnsUdp, PortType_Http] \<subseteq> known_ports sample_params"
  using matches_ports_known [OF sample_match] by simp

theorem matches_composite_ports_sorted_witness:
  "sorted (map PortType_key [PortType_DnsUdp, PortType_Http]) \<and>
   distinct (map PortType_key [PortType_DnsUdp, PortType_Http])"
  using matches_composite_ports_sorted
    [OF sample_match [unfolded sample_pattern_def] disjI2 [OF refl]] by simp

theorem all_of_confidence_correct_witness:
  "\<exists>x. matches sample_externals [] sample_params
         (Pattern_AnyOf [Pattern_Port PortType_DnsUdp, Pattern_Port PortType_DnsTcp]) = Ok x \<and>
       mr_confidence x \<le> MatchConfidence_High"
  using all_of_confidence_correct
    [OF sample_match [unfolded sample_pattern_def],
     of "Pattern_AnyOf [Pattern_Port PortType_DnsUdp, Pattern_Port PortType_DnsTcp]"]
  by simp

theorem matches_monotone_witness:
  "is_ok (matches sample_externals []
     (with_evidence sample_params [PortType_Ssh] [sample_response]) sample_pattern)"
proof (rule matches_monotone)
  show "monotone_pattern sample_pattern" by (simp add: sample_pattern_def)
  show "is_ok (matches sample_externals [] sample_params sample_pattern)"
    by (simp add: sample_match)
qed

theorem composite_match_drops_endpoint_witness:
  "\<exists>r. matches sample_externals [] sample_params sample_pattern = Ok r \<and>
       mr_endpoint r = None \<and> mr_mac_vendor r = None"
  using composite_match_drops_endpoint
    [OF sample_match [unfolded sample_pattern_def] disjI2 [OF refl]] sample_match
  by (metis sample_pattern_def)

theorem Pattern_eq_matches_witness:
  "is_ok (matches sample_externals [] sample_params (Pattern_Port (PortType_new_tcp 80))) =
   is_ok (matches sample_externals [] sample_params (Pattern_Port PortType_Http))"
proof (rule Pattern_eq_matches)
  show "addresses_faithful (rec_ConstraintFn 0 1 2)"
    unfolding addresses_faithful_def
  proof (intro allI impI)
    fix c c' assume "rec_ConstraintFn 0 1 2 c = (rec_ConstraintFn 0 1 2 c' :: nat)"
    then have "c = c'" by (cases c; cases c') simp_all
    then show "call_constraint c = call_constraint c'" by simp
  qed
  show "Pattern_eq (rec_ConstraintFn 0 1 2) (rec_PortFn 0 1 2)
      (Pattern_Port (PortType_new_tcp 80)) (Pattern_Port PortType_Http)"
    by code_simp
qed

end
