(* ===== verification/Services.thy ===== *)
theory Services
  imports Patterns
begin

section \<open>Services\<close>

text \<open>
  Services (\<^verbatim>\<open>backend/src/server/services/impl/base.rs\<close>): identity, staleness, the ports and
  endpoints that discovery scans, and building a service from a match; the service, binding and
  port inputs of the host API (\<^verbatim>\<open>backend/src/server/hosts/impl/api.rs\<close>); the definitions
  that use runtime closures (\<^verbatim>\<open>gateway.rs\<close>, \<^verbatim>\<open>open_ports.rs\<close>, \<^verbatim>\<open>docker_container.rs\<close>); and the daemon's service identification
  (\<open>discover_services\<close> of \<^verbatim>\<open>backend/src/daemon/discovery/service/base.rs\<close>).

  Identifiers are drawn from a supply \<open>fresh :: nat \<Rightarrow> uuid\<close>, with the number of identifiers
  drawn so far threaded through the operations that draw.
\<close>

subsection \<open>Definitions with closures\<close>

definition Gateway :: ServiceDefinition where
  "Gateway =
     \<lparr>sd_name = ''Gateway'',
      sd_description = ''A generic gateway'',
      sd_category = ServiceCategory_NetworkCore,
      sd_discovery_pattern =
        Pattern_AllOf
          [Pattern_IsGateway,
           Pattern_Custom ConstraintFn_Gateway PortFn_Gateway
             ''No other gateway services matched''
             ''A gateway service has already been matched''
             MatchConfidence_Low],
      sd_is_generic = True,
      sd_logo_url = [],
      sd_logo_needs_white_background = False\<rparr>"

definition OpenPorts :: ServiceDefinition where
  "OpenPorts =
     \<lparr>sd_name = ''Unclaimed Open Ports'',
      sd_description = ''Unclaimed open ports. Reassign to the correct service if known.'',
      sd_category = ServiceCategory_OpenPorts,
      sd_discovery_pattern =
        Pattern_Custom ConstraintFn_OpenPorts PortFn_OpenPorts
          ''Has unbound open ports''
          ''No unbound ports remaining''
          MatchConfidence_NotApplicable,
      sd_is_generic = True,
      sd_logo_url = [],
      sd_logo_needs_white_background = False\<rparr>"

definition DockerContainer :: ServiceDefinition where
  "DockerContainer =
     \<lparr>sd_name = ''Docker Container'',
      sd_description = ''A generic docker container'',
      sd_category = ServiceCategory_Virtualization,
      sd_discovery_pattern =
        Pattern_AllOf
          [Pattern_DockerContainer,
           Pattern_Custom ConstraintFn_DockerContainer PortFn_DockerContainer
             (''No other services with this container'' @ [CHR 0x27] @ ''s ID have been matched'')
             (''A service with this container'' @ [CHR 0x27] @ ''s ID has already been matched'')
             MatchConfidence_Low],
      sd_is_generic = True,
      sd_logo_url = ''https://cdn.jsdelivr.net/gh/homarr-labs/dashboard-icons/svg/docker.svg'',
      sd_logo_needs_white_background = False\<rparr>"

subsection \<open>Service identity and staleness\<close>

definition docker_of :: "Service \<Rightarrow> DockerVirtualization option" where
  "docker_of s =
     map_option (\<lambda>v. case v of ServiceVirtualization_Docker dv \<Rightarrow> dv)
       (svb_virtualization (service_base s))"

definition Service_to_bound_port_ids :: "Service \<Rightarrow> uuid list" where
  "Service_to_bound_port_ids s = List.map_filter Binding_port_id (svb_bindings (service_base s))"

definition Service_to_bound_interface_ids :: "Service \<Rightarrow> uuid option list" where
  "Service_to_bound_interface_ids s = map Binding_interface_id (svb_bindings (service_base s))"

definition Service_get_binding :: "Service \<Rightarrow> uuid \<Rightarrow> Binding option" where
  "Service_get_binding s i = find (\<lambda>b. binding_id b = i) (svb_bindings (service_base s))"

text \<open>The last part of \<open>PartialEq\<close>, on generic services of the same host.\<close>

definition generic_service_eq :: "Service \<Rightarrow> Service \<Rightarrow> bool" where
  "generic_service_eq a b =
     (let self_port_ids = set (Service_to_bound_port_ids a);
          other_port_ids = set (Service_to_bound_port_ids b);
          has_shared_ports =
            (self_port_ids \<noteq> {} \<and> other_port_ids \<noteq> {} \<and> self_port_ids \<inter> other_port_ids \<noteq> {})
      in case (docker_of a, docker_of b) of
           (Some self_dv, Some other_dv) \<Rightarrow>
             (case (dv_container_id self_dv, dv_container_id other_dv) of
                (Some self_cid, Some other_cid) \<Rightarrow> self_cid = other_cid
              | (Some _, None) \<Rightarrow> False
              | (None, Some _) \<Rightarrow> False
              | (None, None) \<Rightarrow>
                  (case (dv_container_name self_dv, dv_container_name other_dv) of
                     (Some self_cname, Some other_cname) \<Rightarrow> self_cname = other_cname
                   | _ \<Rightarrow> has_shared_ports))
         | (Some _, None) \<Rightarrow> has_shared_ports
         | (None, Some _) \<Rightarrow> has_shared_ports
         | (None, None) \<Rightarrow> has_shared_ports)"

definition Service_eq :: "Service \<Rightarrow> Service \<Rightarrow> bool" where
  "Service_eq a b =
     (let da = svb_service_definition (service_base a);
          db = svb_service_definition (service_base b)
      in if service_id a = service_id b then True
         else if svb_host_id (service_base a) \<noteq> svb_host_id (service_base b) \<or>
                 svb_network_id (service_base a) \<noteq> svb_network_id (service_base b) then False
         else if ServiceDefinition_id da \<noteq> ServiceDefinition_id db then False
         else if \<not> sd_is_generic da then True
         else if ServiceDefinition_is_gateway da \<or> ServiceDefinition_is_open_ports da then True
         else generic_service_eq a b)"

text \<open>The fields that \<open>Hash\<close> feeds to the hasher; two services with the same fields hash alike.\<close>

definition Service_hash_fields :: "Service \<Rightarrow> uuid \<times> ServiceDefinition \<times> string \<times> uuid" where
  "Service_hash_fields s =
     (service_id s, svb_service_definition (service_base s), svb_name (service_base s),
      svb_host_id (service_base s))"

definition Service_triggers_staleness :: "Service \<Rightarrow> Service option \<Rightarrow> bool" where
  "Service_triggers_staleness s other =
     (case other of
        Some t \<Rightarrow>
          \<not> list_all2 Binding_eq (svb_bindings (service_base s)) (svb_bindings (service_base t)) \<or>
          svb_host_id (service_base s) \<noteq> svb_host_id (service_base t) \<or>
          svb_virtualization (service_base s) \<noteq> svb_virtualization (service_base t)
      | None \<Rightarrow> True)"

definition Service_position :: "Service \<Rightarrow> int" where
  "Service_position s = svb_position (service_base s)"

definition Service_set_position :: "Service \<Rightarrow> int \<Rightarrow> Service" where
  "Service_set_position s p = s\<lparr>service_base := (service_base s)\<lparr>svb_position := p\<rparr>\<rparr>"

interpretation service_pos: positioned Service_position Service_set_position service_id
  by unfold_locales (simp_all add: Service_position_def Service_set_position_def)

subsection \<open>What discovery scans\<close>

definition Service_all_discovery_ports :: "registry \<Rightarrow> PortType list" where
  "Service_all_discovery_ports reg =
     sort_dedup_ports (concat (map (\<lambda>s. Pattern_ports (sd_discovery_pattern s)) reg))"

definition Service_all_discovery_endpoints :: "registry \<Rightarrow> Endpoint list" where
  "Service_all_discovery_endpoints reg =
     sort_dedup Endpoint_key Endpoint_eq
       (concat (map (\<lambda>s. Pattern_endpoints (sd_discovery_pattern s)) reg))"

definition Service_endpoint_only_ports :: "registry \<Rightarrow> PortType list" where
  "Service_endpoint_only_ports reg =
     (let port_scan_ports = Service_all_discovery_ports reg;
          endpoint_ports = map ep_port_type (Service_all_discovery_endpoints reg)
      in sort_dedup_ports
           (filter (\<lambda>ep. \<not> list_ex (\<lambda>p. PortType_eq p ep) port_scan_ports) endpoint_ports))"

subsection \<open>From a match to a service\<close>

text \<open>The ports that \<open>from_discovery\<close> creates, and the bindings to them; \<open>n\<close> identifiers are drawn
  already.\<close>

definition new_ports :: "(nat \<Rightarrow> uuid) \<Rightarrow> nat \<Rightarrow> datetime \<Rightarrow> PortType list \<Rightarrow> Port list" where
  "new_ports fresh n now pts =
     map (\<lambda>(i, p). Port_new_hostless (fresh (n + i)) now p) (enumerate 0 pts)"

definition new_bindings ::
    "(nat \<Rightarrow> uuid) \<Rightarrow> nat \<Rightarrow> datetime \<Rightarrow> Interface \<Rightarrow> Port list \<Rightarrow> Binding list" where
  "new_bindings fresh n now interface ports =
     (if ports \<noteq> []
      then map (\<lambda>(i, p). Binding_new_port_serviceless (fresh (n + i)) now (port_id p)
                           (Some (interface_id interface))) (enumerate 0 ports)
      else [Binding_new_interface_serviceless (fresh n) now (interface_id interface)])"

definition discovered_name :: "ServiceDefinition \<Rightarrow> ServiceVirtualization option \<Rightarrow> string" where
  "discovered_name d virtualization =
     (if sd_is_generic d
      then (case virtualization of
              Some (ServiceVirtualization_Docker dv) \<Rightarrow>
                (case dv_container_name dv of Some c_name \<Rightarrow> c_name | None \<Rightarrow> sd_name d)
            | None \<Rightarrow> sd_name d)
      else sd_name d)"

definition discovered_details :: "ServiceDefinition \<Rightarrow> MatchDetails \<Rightarrow> MatchDetails" where
  "discovered_details d details =
     (if sd_is_generic d
      then \<lparr>md_reason = MatchReason_Container ''Generic service'' [md_reason details],
            md_confidence = MatchConfidence_NotApplicable\<rparr>
      else details)"

definition Service_from_discovery ::
    "externals \<Rightarrow> registry \<Rightarrow> (nat \<Rightarrow> uuid) \<Rightarrow> nat \<Rightarrow> datetime \<Rightarrow> match_params
       \<Rightarrow> (Service \<times> Port list \<times> Endpoint option) option \<times> nat" where
  "Service_from_discovery ext reg fresh n now params =
     (let service_definition = sp_service_definition (mp_service_params params);
          interface = bp_interface (mp_baseline_params params);
          virtualization = bp_virtualization (mp_baseline_params params)
      in case matches ext reg params (sd_discovery_pattern service_definition) of
           Inr result \<Rightarrow>
             let discovery_metadata =
                   DiscoveryMetadata_new now (mp_discovery_type params) (mp_daemon_id params);
                 ports = new_ports fresh n now (mr_ports result);
                 bindings = new_bindings fresh (n + length ports) now interface ports;
                 m = n + length ports + length bindings;
                 service =
                   Service_new (fresh m) now
                     \<lparr>svb_host_id = mp_host_id params,
                      svb_network_id = mp_network_id params,
                      svb_service_definition = service_definition,
                      svb_name = discovered_name service_definition virtualization,
                      svb_bindings = bindings,
                      svb_virtualization = virtualization,
                      svb_source =
                        EntitySource_DiscoveryWithMatch [discovery_metadata]
                          (discovered_details service_definition (mr_details result)),
                      svb_tags = [],
                      svb_position = 0\<rparr>
             in (Some (service, ports, mr_endpoint result), Suc m)
         | Inl _ \<Rightarrow> (None, n))"

subsection \<open>Inputs of the host API\<close>

record PortInput =
  pi_id :: uuid
  pi_number :: u16
  pi_protocol :: TransportProtocol

definition into_port :: "datetime \<Rightarrow> PortInput \<Rightarrow> uuid \<Rightarrow> uuid \<Rightarrow> Port" where
  "into_port now i host_id network_id =
     \<lparr>port_id = pi_id i, port_created_at = now, port_updated_at = now,
      port_base =
        \<lparr>pb_host_id = host_id, pb_network_id = network_id,
         pb_port_type = PortType_Custom \<lparr>pc_number = pi_number i, pc_protocol = pi_protocol i\<rparr>\<rparr>\<rparr>"

datatype BindingInput =
    BindingInput_Interface uuid uuid
  | BindingInput_Port uuid uuid "uuid option"

fun BindingInput_id :: "BindingInput \<Rightarrow> uuid" where
  "BindingInput_id (BindingInput_Interface i interface) = i"
| "BindingInput_id (BindingInput_Port i port interface) = i"

definition into_binding :: "datetime \<Rightarrow> BindingInput \<Rightarrow> uuid \<Rightarrow> uuid \<Rightarrow> Binding" where
  "into_binding now b service network =
     (let (i, binding_type) =
            (case b of
               BindingInput_Interface i interface \<Rightarrow> (i, BindingType_Interface interface)
             | BindingInput_Port i port interface \<Rightarrow> (i, BindingType_Port port interface))
      in \<lparr>binding_id = i, binding_created_at = now, binding_updated_at = now,
          binding_base =
            \<lparr>bb_service_id = service, bb_network_id = network, bb_binding_type = binding_type\<rparr>\<rparr>)"

record ServiceInput =
  si_id :: uuid
  si_service_definition :: ServiceDefinition
  si_name :: string
  si_bindings :: "BindingInput list"
  si_virtualization :: "ServiceVirtualization option"
  si_tags :: "uuid list"
  si_position :: "int option"

definition into_service :: "datetime \<Rightarrow> ServiceInput \<Rightarrow> uuid \<Rightarrow> uuid \<Rightarrow> EntitySource \<Rightarrow> Service" where
  "into_service now i host network source =
     \<lparr>service_id = si_id i, service_created_at = now, service_updated_at = now,
      service_base =
        \<lparr>svb_host_id = host, svb_network_id = network,
         svb_service_definition = si_service_definition i,
         svb_name = si_name i,
         svb_bindings = map (\<lambda>b. into_binding now b (si_id i) network) (si_bindings i),
         svb_virtualization = si_virtualization i,
         svb_source = source,
         svb_tags = si_tags i,
         svb_position = (case si_position i of Some p \<Rightarrow> p | None \<Rightarrow> 0)\<rparr>\<rparr>"

definition ServiceInput_set_position :: "ServiceInput \<Rightarrow> int \<Rightarrow> ServiceInput" where
  "ServiceInput_set_position i p = i\<lparr>si_position := Some p\<rparr>"

interpretation service_input_pos:
    positioned_input si_position ServiceInput_set_position si_id
  by unfold_locales (simp_all add: ServiceInput_set_position_def)

subsection \<open>Service identification on a host\<close>

definition definition_priority :: "ServiceDefinition \<Rightarrow> nat" where
  "definition_priority s =
     (if \<not> sd_is_generic s then 0
      else if ServiceDefinition_id s = ServiceDefinition_id OpenPorts then 3
      else if ServiceDefinition_id s = ServiceDefinition_id DockerContainer \<or>
              ServiceDefinition_id s = ServiceDefinition_id Gateway then 2
      else 1)"

record discover_state =
  ds_services :: "Service list"
  ds_host_ports :: "Port list"
  ds_unbound_ports :: "PortType list"
  ds_container_matched :: bool
  ds_drawn :: nat

definition is_container_service :: "Service \<Rightarrow> bool" where
  "is_container_service s =
     (case svb_virtualization (service_base s) of
        Some (ServiceVirtualization_Docker dv) \<Rightarrow> dv_container_id dv \<noteq> None
      | None \<Rightarrow> False)"

text \<open>What \<open>discover_services\<close> receives besides the baseline parameters.\<close>

record discover_context =
  dc_host_id :: uuid
  dc_gateway_ips :: "IpAddr list"
  dc_daemon_id :: uuid
  dc_network_id :: uuid
  dc_discovery_type :: DiscoveryType

definition discover_params ::
    "discover_context \<Rightarrow> ServiceMatchBaselineParams \<Rightarrow> discover_state \<Rightarrow> ServiceDefinition
       \<Rightarrow> match_params" where
  "discover_params ctx baseline_params st service_definition =
     \<lparr>mp_host_id = dc_host_id ctx, mp_gateway_ips = dc_gateway_ips ctx,
      mp_daemon_id = dc_daemon_id ctx, mp_network_id = dc_network_id ctx,
      mp_discovery_type = dc_discovery_type ctx,
      mp_baseline_params = baseline_params,
      mp_service_params =
        \<lparr>sp_service_definition = service_definition,
         sp_matched_services = ds_services st,
         sp_unbound_ports = ds_unbound_ports st\<rparr>\<rparr>"

text \<open>The body of the loop over the sorted definitions.\<close>

definition discover_step ::
    "externals \<Rightarrow> registry \<Rightarrow> (nat \<Rightarrow> uuid) \<Rightarrow> datetime \<Rightarrow> discover_context
       \<Rightarrow> ServiceMatchBaselineParams \<Rightarrow> discover_state \<Rightarrow> ServiceDefinition \<Rightarrow> discover_state" where
  "discover_step ext reg fresh now ctx baseline_params st service_definition =
     (case Service_from_discovery ext reg fresh (ds_drawn st) now
             (discover_params ctx baseline_params st service_definition) of
        (Some (service, ports, _), drawn) \<Rightarrow>
          if \<not> ds_container_matched st then
            let bound_port_types = map (\<lambda>p. pb_port_type (port_base p)) ports
            in st\<lparr>ds_container_matched := is_container_service service,
                  ds_host_ports := ds_host_ports st @ ports,
                  ds_unbound_ports :=
                    filter (\<lambda>p. \<not> list_ex (\<lambda>q. PortType_eq q p) bound_port_types)
                      (ds_unbound_ports st),
                  ds_services := ds_services st @ [service],
                  ds_drawn := drawn\<rparr>
          else st\<lparr>ds_drawn := drawn\<rparr>
      | (None, drawn) \<Rightarrow> st\<lparr>ds_drawn := drawn\<rparr>)"

definition service_rank :: "Service \<Rightarrow> int" where
  "service_rank s =
     - (case svb_source (service_base s) of
          EntitySource_DiscoveryWithMatch metadata details \<Rightarrow>
            int (MatchConfidence_rank (md_confidence details)) +
            (if ServiceDefinition_has_logo (svb_service_definition (service_base s)) then 1 else 0)
        | _ \<Rightarrow> int (MatchConfidence_rank MatchConfidence_NotApplicable))"

definition discover_loop ::
    "externals \<Rightarrow> registry \<Rightarrow> (nat \<Rightarrow> uuid) \<Rightarrow> nat \<Rightarrow> datetime \<Rightarrow> discover_context
       \<Rightarrow> ServiceMatchBaselineParams \<Rightarrow> discover_state" where
  "discover_loop ext reg fresh n now ctx baseline_params =
     foldl (discover_step ext reg fresh now ctx baseline_params)
       \<lparr>ds_services = [], ds_host_ports = [], ds_unbound_ports = bp_all_ports baseline_params,
        ds_container_matched = False, ds_drawn = n\<rparr>
       (sort_key definition_priority reg)"

definition discover_services ::
    "externals \<Rightarrow> registry \<Rightarrow> (nat \<Rightarrow> uuid) \<Rightarrow> nat \<Rightarrow> datetime \<Rightarrow> discover_context
       \<Rightarrow> ServiceMatchBaselineParams \<Rightarrow> Service list \<times> Port list" where
  "discover_services ext reg fresh n now ctx baseline_params =
     (let st = discover_loop ext reg fresh n now ctx baseline_params
      in (sort_key service_rank (ds_services st),
          ds_host_ports st @ new_ports fresh (ds_drawn st) now (ds_unbound_ports st)))"

text \<open>The name \<open>process_host\<close> gives the host.\<close>

definition host_name ::
    "string option \<Rightarrow> HostNamingFallback \<Rightarrow> Interface \<Rightarrow> Service list \<Rightarrow> string" where
  "host_name hostname host_naming_fallback interface services =
     (let best_service_name =
            map_option (\<lambda>s. sd_name (svb_service_definition (service_base s)))
              (find (\<lambda>s. \<not> sd_is_generic (svb_service_definition (service_base s))) services);
          ip = IpAddr_display (ib_ip_address (interface_base interface))
      in case hostname of
           Some h \<Rightarrow> h
         | None \<Rightarrow>
             if host_naming_fallback = HostNamingFallback_BestService \<and> best_service_name \<noteq> None
             then the best_service_name
             else if host_naming_fallback = HostNamingFallback_Ip then ip
             else (case best_service_name of Some b \<Rightarrow> b | None \<Rightarrow> ip))"

subsection \<open>Service equality\<close>

lemma generic_service_eq_sym: "generic_service_eq a b \<longleftrightarrow> generic_service_eq b a"
  by (auto simp: generic_service_eq_def Let_def split: option.splits)

lemma distinct_ids_eq:
  "distinct (map ServiceDefinition_id reg) \<Longrightarrow> d \<in> set reg \<Longrightarrow> e \<in> set reg \<Longrightarrow>
     ServiceDefinition_id d = ServiceDefinition_id e \<Longrightarrow> d = e"
  by (auto simp: distinct_map dest: inj_onD)

text \<open>Service identity is reflexive, and symmetric between services whose definitions come from a
  registry without duplicate identifiers.\<close>

theorem Service_eq_refl_sym:
  assumes "distinct (map ServiceDefinition_id reg)"
    and "svb_service_definition (service_base a) \<in> set reg"
    and "svb_service_definition (service_base b) \<in> set reg"
  shows "Service_eq a a \<and> (Service_eq a b \<longleftrightarrow> Service_eq b a)"
proof
  show "Service_eq a a" by (simp add: Service_eq_def)
  show "Service_eq a b \<longleftrightarrow> Service_eq b a"
    using distinct_ids_eq [OF assms] generic_service_eq_sym [of a b]
    by (auto simp: Service_eq_def Let_def)
qed

subsection \<open>Discovery lists\<close>

lemma in_all_discovery_ports_iff:
  "(\<exists>q \<in> set (Service_all_discovery_ports reg). PortType_eq q p) \<longleftrightarrow>
     (\<exists>d \<in> set reg. \<exists>q \<in> set (Pattern_ports (sd_discovery_pattern d)). PortType_eq q p)"
  by (simp add: Service_all_discovery_ports_def sort_dedup_ports_def port_type.ex_eq_sort_dedup)

lemma in_all_discovery_endpoints_iff:
  "(\<exists>q \<in> set (Service_all_discovery_endpoints reg). Endpoint_eq q e) \<longleftrightarrow>
     (\<exists>d \<in> set reg. \<exists>q \<in> set (Pattern_endpoints (sd_discovery_pattern d)). Endpoint_eq q e)"
  by (simp add: Service_all_discovery_endpoints_def endpoint.ex_eq_sort_dedup)

lemma in_endpoint_only_ports_iff:
  "(\<exists>q \<in> set (Service_endpoint_only_ports reg). PortType_eq q p) \<longleftrightarrow>
     (\<exists>e \<in> set (Service_all_discovery_endpoints reg). PortType_eq (ep_port_type e) p) \<and>
     \<not> (\<exists>q \<in> set (Service_all_discovery_ports reg). PortType_eq q p)"
  unfolding Service_endpoint_only_ports_def Let_def sort_dedup_ports_def port_type.ex_eq_sort_dedup
  by (auto simp: list_ex_iff PortType_eq_iff intro!: bexI)

text \<open>The scan covers the registry: every port that a registered pattern asks for is in the port
  list, every endpoint it asks for has an equal one in the endpoint list, and the ports needed
  only for endpoints are exactly the endpoint ports that the port list does not have.\<close>

theorem discovery_lists_cover_registry:
  assumes "d \<in> set reg"
  shows "(\<forall>p \<in> set (Pattern_ports (sd_discovery_pattern d)).
            list_ex (\<lambda>q. PortType_eq q p) (Service_all_discovery_ports reg)) \<and>
         (\<forall>e \<in> set (Pattern_endpoints (sd_discovery_pattern d)).
            list_ex (\<lambda>q. Endpoint_eq q e) (Service_all_discovery_endpoints reg)) \<and>
         (\<forall>p. list_ex (\<lambda>q. PortType_eq q p) (Service_endpoint_only_ports reg) \<longleftrightarrow>
              list_ex (\<lambda>e. PortType_eq (ep_port_type e) p) (Service_all_discovery_endpoints reg) \<and>
              \<not> list_ex (\<lambda>q. PortType_eq q p) (Service_all_discovery_ports reg))"
  using assms port_type.eq_refl endpoint.eq_refl
  unfolding list_ex_iff in_all_discovery_ports_iff in_endpoint_only_ports_iff
  by (metis in_all_discovery_endpoints_iff)

subsection \<open>The service built from a match\<close>

lemma length_new_ports [simp]: "length (new_ports fresh n now pts) = length pts"
  by (simp add: new_ports_def)

lemma new_ports_types [simp]: "map (\<lambda>p. pb_port_type (port_base p)) (new_ports fresh n now pts) = pts"
  by (rule nth_equalityI)
    (auto simp: new_ports_def Port_new_hostless_def Port_new_def PortBase_new_hostless_def
      nth_enumerate_eq)

lemma new_ports_types_set:
  "(\<lambda>p. pb_port_type (port_base p)) ` set (new_ports fresh n now pts) = set pts"
  by (metis new_ports_types list.set_map)

lemma new_ports_ids: "map port_id (new_ports fresh n now pts) = map fresh [n..<n + length pts]"
  by (rule nth_equalityI)
    (auto simp: new_ports_def Port_new_hostless_def Port_new_def nth_enumerate_eq)

lemma new_bindings_nonempty [simp]: "new_bindings fresh n now i ps \<noteq> []"
  by (cases ps) (simp_all add: new_bindings_def)

lemma new_bindings_port_ids:
  "List.map_filter Binding_port_id (new_bindings fresh n now i ps) = map port_id ps"
proof (cases "ps = []")
  case True
  then show ?thesis
    by (simp add: new_bindings_def Binding_new_interface_serviceless_def Binding_new_serviceless_def
        Binding_new_def BindingBase_new_serviceless_def Binding_port_id_def map_filter_simps)
next
  case False
  have "List.map_filter Binding_port_id
      (map (\<lambda>(i, p). Binding_new_port_serviceless (fresh (n + i)) now (port_id p) x) zs) =
      map (\<lambda>(i, p). port_id p) zs" for x and zs :: "(nat \<times> Port) list"
    by (induction zs)
      (auto simp: Binding_new_port_serviceless_def Binding_new_serviceless_def Binding_new_def
        BindingBase_new_serviceless_def Binding_port_id_def map_filter_simps)
  moreover have "map (\<lambda>(i, p). port_id p) (enumerate 0 ps) = map port_id ps"
    by (rule nth_equalityI) (auto simp: nth_enumerate_eq)
  ultimately show ?thesis using False by (simp add: new_bindings_def)
qed

lemma new_bindings_interface_ids:
  "map Binding_interface_id (new_bindings fresh n now i ps) =
     replicate (max 1 (length ps)) (Some (interface_id i))"
  by (rule nth_equalityI)
    (auto simp: new_bindings_def nth_enumerate_eq Binding_new_port_serviceless_def
      Binding_new_interface_serviceless_def Binding_new_serviceless_def Binding_new_def
      BindingBase_new_serviceless_def Binding_interface_id_def Suc_le_eq max_def)

lemma from_discovery_Some:
  assumes "Service_from_discovery ext reg fresh n now params = (Some (s, ports, e), m)"
  shows "\<exists>r. matches ext reg params
               (sd_discovery_pattern (sp_service_definition (mp_service_params params))) = Ok r \<and>
             ports = new_ports fresh n now (mr_ports r) \<and> e = mr_endpoint r"
    and "Service_to_bound_port_ids s = map port_id ports"
    and "svb_bindings (service_base s) \<noteq> []"
    and "svb_virtualization (service_base s) = bp_virtualization (mp_baseline_params params)"
    and "svb_service_definition (service_base s) = sp_service_definition (mp_service_params params)"
    and "n + length ports < m"
  using assms
  by (auto simp: Service_from_discovery_def Let_def Service_new_def Service_to_bound_port_ids_def
      new_bindings_port_ids split: sum.splits)

lemma from_discovery_None:
  assumes "Service_from_discovery ext reg fresh n now params = (None, m)"
  shows "m = n"
    and "\<not> is_ok (matches ext reg params
               (sd_discovery_pattern (sp_service_definition (mp_service_params params))))"
  using assms by (auto simp: Service_from_discovery_def Let_def split: sum.splits)

subsection \<open>Identification keeps track of every port\<close>

abbreviation port_types :: "Port list \<Rightarrow> PortType set" where
  "port_types ps \<equiv> (\<lambda>p. pb_port_type (port_base p)) ` set ps"

text \<open>The three outcomes of one round of the loop.\<close>

lemma discover_step_cases:
  obtains (skip) m where "discover_step ext reg fresh now ctx bp st d = st\<lparr>ds_drawn := m\<rparr>"
      "ds_drawn st \<le> m"
  | (found) s r m where
      "\<not> ds_container_matched st"
      "matches ext reg (discover_params ctx bp st d) (sd_discovery_pattern d) = Ok r"
      "discover_step ext reg fresh now ctx bp st d =
         st\<lparr>ds_container_matched := is_container_service s,
            ds_host_ports := ds_host_ports st @ new_ports fresh (ds_drawn st) now (mr_ports r),
            ds_unbound_ports :=
              filter (\<lambda>p. \<not> list_ex (\<lambda>q. PortType_eq q p) (mr_ports r)) (ds_unbound_ports st),
            ds_services := ds_services st @ [s], ds_drawn := m\<rparr>"
      "Service_to_bound_port_ids s =
         map port_id (new_ports fresh (ds_drawn st) now (mr_ports r))"
      "svb_bindings (service_base s) \<noteq> []"
      "svb_virtualization (service_base s) = bp_virtualization bp"
      "svb_service_definition (service_base s) = d"
      "ds_drawn st + length (mr_ports r) < m"
proof -
  let ?params = "discover_params ctx bp st d"
  obtain res m where res: "Service_from_discovery ext reg fresh (ds_drawn st) now ?params = (res, m)"
    by fastforce
  have sd: "sp_service_definition (mp_service_params ?params) = d"
    and bp: "mp_baseline_params ?params = bp"
    by (simp_all add: discover_params_def)
  show thesis
  proof (cases res)
    case None
    with res skip [of m] from_discovery_None(1) [of ext reg fresh "ds_drawn st" now ?params m]
    show thesis by (simp add: discover_step_def)
  next
    case (Some t)
    then obtain s ports e where t: "res = Some (s, ports, e)" by (cases t) auto
    note fd = from_discovery_Some [OF res [unfolded t], unfolded sd bp]
    then obtain r where r: "matches ext reg ?params (sd_discovery_pattern d) = Ok r"
      "ports = new_ports fresh (ds_drawn st) now (mr_ports r)" by blast
    show thesis
    proof (cases "ds_container_matched st")
      case True
      with res t skip [of m] fd(6) show thesis by (simp add: discover_step_def)
    next
      case False
      with res t r fd found [of r m s] show thesis by (simp add: discover_step_def)
    qed
  qed
qed

text \<open>The invariants of the loop: ports, services, identifiers.\<close>

abbreviation evidence_ports :: "ServiceMatchBaselineParams \<Rightarrow> PortType set" where
  "evidence_ports bp \<equiv>
     set (bp_all_ports bp) \<union> (\<lambda>a. ep_port_type (er_endpoint a)) ` set (bp_endpoint_responses bp)"

definition ports_inv :: "ServiceMatchBaselineParams \<Rightarrow> discover_state \<Rightarrow> bool" where
  "ports_inv bp st \<longleftrightarrow>
     set (ds_unbound_ports st) \<subseteq> set (bp_all_ports bp) \<and>
     (\<forall>p \<in> set (bp_all_ports bp).
        p \<in> set (ds_unbound_ports st) \<or> (\<exists>q \<in> port_types (ds_host_ports st). PortType_eq q p)) \<and>
     port_types (ds_host_ports st) \<subseteq> evidence_ports bp"

definition services_inv :: "ServiceMatchBaselineParams \<Rightarrow> discover_state \<Rightarrow> bool" where
  "services_inv bp st \<longleftrightarrow>
     concat (map Service_to_bound_port_ids (ds_services st)) = map port_id (ds_host_ports st) \<and>
     (\<forall>s \<in> set (ds_services st). svb_bindings (service_base s) \<noteq> [] \<and>
        svb_virtualization (service_base s) = bp_virtualization bp) \<and>
     (ds_container_matched st \<longleftrightarrow> list_ex is_container_service (ds_services st)) \<and>
     (list_ex is_container_service (ds_services st) \<longrightarrow> length (ds_services st) = 1)"

definition ids_inv :: "(nat \<Rightarrow> uuid) \<Rightarrow> nat \<Rightarrow> nat \<Rightarrow> discover_state \<Rightarrow> bool" where
  "ids_inv fresh n N st \<longleftrightarrow>
     n \<le> ds_drawn st \<and>
     (ds_drawn st \<le> N \<longrightarrow>
        port_id ` set (ds_host_ports st) \<subseteq> fresh ` {n..<ds_drawn st} \<and>
        distinct (map port_id (ds_host_ports st)))"

lemma known_ports_discover:
  "known_ports (discover_params ctx bp st d) =
     set (ds_unbound_ports st) \<union>
     (\<lambda>a. ep_port_type (er_endpoint a)) ` set (bp_endpoint_responses bp)"
  by (simp add: known_ports_def discover_params_def)

lemma new_ports_ids_set: "port_id ` set (new_ports fresh n now pts) = fresh ` {n..<n + length pts}"
  by (metis list.set_map new_ports_ids set_upt)

lemma is_container_service_cong:
  "svb_virtualization (service_base s) = svb_virtualization (service_base t) \<Longrightarrow>
     is_container_service s = is_container_service t"
  by (simp add: is_container_service_def)

lemma ports_inv_step:
  assumes "ports_inv bp st"
  shows "ports_inv bp (discover_step ext reg fresh now ctx bp st d)"
proof (cases rule: discover_step_cases [where ext = ext and reg = reg and fresh = fresh and now = now
      and ctx = ctx and bp = bp and st = st and d = d])
  case (skip m)
  with assms show ?thesis by (simp add: ports_inv_def)
next
  case (found s r m)
  have "set (mr_ports r) \<subseteq> evidence_ports bp"
    using matches_ports_subset [OF found(2)] assms by (auto simp: known_ports_discover ports_inv_def)
  with assms show ?thesis
    unfolding found(3) ports_inv_def
    by (auto simp: image_Un new_ports_types_set list_ex_iff)
qed

lemma services_inv_step:
  assumes "services_inv bp st"
  shows "services_inv bp (discover_step ext reg fresh now ctx bp st d)"
proof (cases rule: discover_step_cases [where ext = ext and reg = reg and fresh = fresh and now = now
      and ctx = ctx and bp = bp and st = st and d = d])
  case (skip m)
  with assms show ?thesis by (simp add: services_inv_def)
next
  case (found s r m)
  have "ds_services st = []" if c: "is_container_service s"
  proof (rule ccontr)
    assume "ds_services st \<noteq> []"
    then obtain t where t: "t \<in> set (ds_services st)" by fastforce
    with assms found(6) have "svb_virtualization (service_base t) = svb_virtualization (service_base s)"
      by (simp add: services_inv_def)
    with c t have "list_ex is_container_service (ds_services st)"
      using is_container_service_cong [of t s] by (auto simp: list_ex_iff)
    with assms found(1) show False by (simp add: services_inv_def)
  qed
  with assms found(1,4-6) show ?thesis
    unfolding found(3) services_inv_def by auto
qed

lemma distinct_append_disjoint:
  assumes "distinct xs" and "distinct ys" and "set xs \<subseteq> A" and "set ys \<subseteq> B" and "A \<inter> B = {}"
  shows "distinct (xs @ ys)"
  using assms by auto

lemma distinct_ids_new_ports:
  assumes "inj_on fresh {n..<N}" and "ids_inv fresh n N st" and "ds_drawn st + length pts \<le> N"
  shows "distinct (map port_id (ds_host_ports st @ new_ports fresh (ds_drawn st) now pts))"
  unfolding map_append
proof (rule distinct_append_disjoint)
  have n: "n \<le> ds_drawn st" using assms(2) by (simp add: ids_inv_def)
  show "set (map port_id (new_ports fresh (ds_drawn st) now pts)) \<subseteq>
      fresh ` {ds_drawn st..<ds_drawn st + length pts}"
    by (simp add: new_ports_ids)
  have "inj_on fresh {ds_drawn st..<ds_drawn st + length pts}"
    using inj_on_subset [OF assms(1)] n assms(3) by auto
  then show "distinct (map port_id (new_ports fresh (ds_drawn st) now pts))"
    unfolding new_ports_ids by (simp add: distinct_map)
  show "fresh ` {n..<ds_drawn st} \<inter> fresh ` {ds_drawn st..<ds_drawn st + length pts} = {}"
    by (subst inj_on_image_Int [OF assms(1), symmetric]) (use n assms(3) in auto)
  show "set (map port_id (ds_host_ports st)) \<subseteq> fresh ` {n..<ds_drawn st}"
    and "distinct (map port_id (ds_host_ports st))"
    using assms(2,3) by (simp_all add: ids_inv_def)
qed

lemma ids_inv_step:
  assumes "inj_on fresh {n..<N}" and "ids_inv fresh n N st"
  shows "ids_inv fresh n N (discover_step ext reg fresh now ctx bp st d)"
proof (cases rule: discover_step_cases [where ext = ext and reg = reg and fresh = fresh and now = now
      and ctx = ctx and bp = bp and st = st and d = d])
  case (skip m)
  from assms(2) skip(2) have "fresh ` {n..<ds_drawn st} \<subseteq> fresh ` {n..<m}" by (intro image_mono) auto
  with assms(2) skip show ?thesis by (auto simp: ids_inv_def)
next
  case (found s r m)
  let ?new = "{ds_drawn st..<ds_drawn st + length (mr_ports r)}"
  have ids: "port_id ` set (new_ports fresh (ds_drawn st) now (mr_ports r)) = fresh ` ?new"
    by (rule new_ports_ids_set)
  have n: "n \<le> ds_drawn st" using assms(2) by (simp add: ids_inv_def)
  then have sub: "fresh ` {n..<ds_drawn st} \<subseteq> fresh ` {n..<m}" "fresh ` ?new \<subseteq> fresh ` {n..<m}"
    using found(8) by (auto intro!: image_mono)
  have "distinct (map port_id (ds_host_ports st @ new_ports fresh (ds_drawn st) now (mr_ports r)))"
    if "m \<le> N"
    by (rule distinct_ids_new_ports [OF assms]) (use that found(8) in simp)
  with assms(2) n ids sub found(8) show ?thesis
    unfolding found(3) ids_inv_def by (auto simp: image_Un)
qed

lemma discover_loop_ports: "ports_inv bp (discover_loop ext reg fresh n now ctx bp)"
  unfolding discover_loop_def
  by (rule foldl_invariant) (simp_all add: ports_inv_step, simp add: ports_inv_def)

lemma discover_loop_services: "services_inv bp (discover_loop ext reg fresh n now ctx bp)"
  unfolding discover_loop_def
  by (rule foldl_invariant) (simp_all add: services_inv_step, simp add: services_inv_def)

lemma discover_loop_ids:
  "inj_on fresh {n..<N} \<Longrightarrow> ids_inv fresh n N (discover_loop ext reg fresh n now ctx bp)"
  unfolding discover_loop_def
  by (rule foldl_invariant) (simp_all add: ids_inv_step, simp add: ids_inv_def)

lemma discover_services_port_types:
  assumes "discover_services ext reg fresh n now ctx bp = (services, host_ports)"
  shows "(\<forall>p \<in> set (bp_all_ports bp). \<exists>q \<in> set host_ports. PortType_eq (pb_port_type (port_base q)) p) \<and>
         (\<forall>q \<in> set host_ports. pb_port_type (port_base q) \<in>
            set (bp_all_ports bp) \<union>
            (\<lambda>a. ep_port_type (er_endpoint a)) ` set (bp_endpoint_responses bp))"
proof -
  let ?st = "discover_loop ext reg fresh n now ctx bp"
  have hp: "host_ports = ds_host_ports ?st @ new_ports fresh (ds_drawn ?st) now (ds_unbound_ports ?st)"
    using assms by (simp add: discover_services_def Let_def)
  have types: "port_types host_ports = port_types (ds_host_ports ?st) \<union> set (ds_unbound_ports ?st)"
    by (simp add: hp image_Un new_ports_types_set)
  note inv = discover_loop_ports [of bp ext reg fresh n now ctx, unfolded ports_inv_def]
  have "\<exists>q \<in> port_types host_ports. PortType_eq q p" if "p \<in> set (bp_all_ports bp)" for p
    using inv that port_type.eq_refl unfolding types by blast
  moreover have "port_types host_ports \<subseteq> evidence_ports bp"
    using inv unfolding types by blast
  ultimately show ?thesis by blast
qed

text \<open>Every service that identification returns has a definition whose pattern matched the host.\<close>

definition matched_inv ::
    "externals \<Rightarrow> registry \<Rightarrow> ServiceMatchBaselineParams \<Rightarrow> discover_state \<Rightarrow> bool" where
  "matched_inv ext reg bp st \<longleftrightarrow>
     (\<forall>s \<in> set (ds_services st). \<exists>params. mp_baseline_params params = bp \<and>
        is_ok (matches ext reg params (sd_discovery_pattern (svb_service_definition (service_base s)))))"

lemma matched_inv_step:
  assumes "matched_inv ext reg bp st"
  shows "matched_inv ext reg bp (discover_step ext reg fresh now ctx bp st d)"
proof (cases rule: discover_step_cases [where ext = ext and reg = reg and fresh = fresh and now = now
      and ctx = ctx and bp = bp and st = st and d = d])
  case (skip m)
  with assms show ?thesis by (simp add: matched_inv_def)
next
  case (found s r m)
  have "mp_baseline_params (discover_params ctx bp st d) = bp" by (simp add: discover_params_def)
  with assms found(2,7) show ?thesis
    unfolding found(3) matched_inv_def by (auto intro!: exI [of _ "discover_params ctx bp st d"])
qed

lemma discover_services_matched:
  assumes "discover_services ext reg fresh n now ctx bp = (services, host_ports)" and "s \<in> set services"
  obtains params where "mp_baseline_params params = bp"
    "is_ok (matches ext reg params (sd_discovery_pattern (svb_service_definition (service_base s))))"
proof -
  have "matched_inv ext reg bp (discover_loop ext reg fresh n now ctx bp)"
    unfolding discover_loop_def
    by (rule foldl_invariant) (simp_all add: matched_inv_step, simp add: matched_inv_def)
  moreover have "s \<in> set (ds_services (discover_loop ext reg fresh n now ctx bp))"
    using assms by (auto simp: discover_services_def Let_def)
  ultimately show thesis using that unfolding matched_inv_def by blast
qed

text \<open>C12. Service identification loses no open port and invents none: every open port of the host
  is among the returned ports, up to port equality, and every returned port is an open port or
  the port of an endpoint that answered.\<close>

theorem discover_services_ports:
  assumes "discover_services ext reg fresh n now ctx bp = (services, host_ports)"
  shows "(\<forall>p \<in> set (bp_all_ports bp). \<exists>q \<in> set host_ports. PortType_eq (pb_port_type (port_base q)) p) \<and>
         (\<forall>q \<in> set host_ports. pb_port_type (port_base q) \<in>
            set (bp_all_ports bp) \<union>
            (\<lambda>a. ep_port_type (er_endpoint a)) ` set (bp_endpoint_responses bp))"
  using assms by (rule discover_services_port_types)

lemma mset_concat_sort: "mset (concat (map f (sort_key k xs))) = mset (concat (map f xs))"
  by (simp add: mset_concat flip: sum_mset_sum_list)

text \<open>The number of identifiers drawn when \<open>discover_services\<close> returns.\<close>

definition discover_drawn ::
    "externals \<Rightarrow> registry \<Rightarrow> (nat \<Rightarrow> uuid) \<Rightarrow> nat \<Rightarrow> datetime \<Rightarrow> discover_context
       \<Rightarrow> ServiceMatchBaselineParams \<Rightarrow> nat" where
  "discover_drawn ext reg fresh n now ctx bp =
     (let st = discover_loop ext reg fresh n now ctx bp
      in ds_drawn st + length (ds_unbound_ports st))"

text \<open>C13. The services that identification returns are well formed: each has a binding, each port
  that a service binds is one of the returned ports, and when the identifiers drawn differ no two
  returned ports share one, so no port is bound by two services or twice by one.\<close>

theorem discover_services_bindings:
  assumes "discover_services ext reg fresh n now ctx bp = (services, host_ports)"
    and "inj_on fresh {n..<discover_drawn ext reg fresh n now ctx bp}"
  shows "(\<forall>s \<in> set services. svb_bindings (service_base s) \<noteq> []) \<and>
         (\<Union>s \<in> set services. set (Service_to_bound_port_ids s)) \<subseteq> port_id ` set host_ports \<and>
         distinct (map port_id host_ports) \<and>
         mset (concat (map Service_to_bound_port_ids services)) \<subseteq># mset (map port_id host_ports)"
proof -
  let ?st = "discover_loop ext reg fresh n now ctx bp"
  have sv: "services = sort_key service_rank (ds_services ?st)"
    and hp: "host_ports = ds_host_ports ?st @ new_ports fresh (ds_drawn ?st) now (ds_unbound_ports ?st)"
    using assms(1) by (simp_all add: discover_services_def Let_def)
  note si = discover_loop_services [of bp ext reg fresh n now ctx, unfolded services_inv_def]
  note ids = discover_loop_ids [OF assms(2), of ext reg now ctx bp]
  have "mset (concat (map Service_to_bound_port_ids services)) =
      mset (concat (map Service_to_bound_port_ids (ds_services ?st)))"
    by (simp add: sv mset_concat_sort)
  also have "\<dots> = mset (map port_id (ds_host_ports ?st))" using si by simp
  finally have ms: "mset (concat (map Service_to_bound_port_ids services)) =
      mset (map port_id (ds_host_ports ?st))" .
  then have sub: "mset (concat (map Service_to_bound_port_ids services)) \<subseteq># mset (map port_id host_ports)"
    by (simp add: hp)
  have "distinct (map port_id host_ports)"
    unfolding hp by (rule distinct_ids_new_ports [OF assms(2) ids]) (simp add: discover_drawn_def Let_def)
  moreover from ms have "(\<Union>s \<in> set services. set (Service_to_bound_port_ids s)) \<subseteq> port_id ` set host_ports"
    using mset_eq_setD [OF ms] by (auto simp: hp)
  ultimately show ?thesis using si sub sv by simp
qed

text \<open>A container is identified once: when the host's virtualization names a container
  identifier, at most one service is reported.\<close>

theorem discover_services_container_once:
  assumes "discover_services ext reg fresh n now ctx bp = (services, host_ports)"
    and "bp_virtualization bp = Some (ServiceVirtualization_Docker dv)"
    and "dv_container_id dv = Some c"
  shows "length services \<le> 1"
proof -
  let ?st = "discover_loop ext reg fresh n now ctx bp"
  have len: "length services = length (ds_services ?st)"
    using assms(1) by (auto simp: discover_services_def Let_def)
  note si = discover_loop_services [of bp ext reg fresh n now ctx, unfolded services_inv_def]
  show ?thesis
  proof (cases "ds_services ?st")
    case Nil
    then show ?thesis by (simp add: len)
  next
    case (Cons s ss)
    then have "is_container_service s" using si assms(2,3) by (simp add: is_container_service_def)
    with Cons si show ?thesis by (simp add: len)
  qed
qed

subsection \<open>The catch-all and the gateway definition\<close>

lemma foldl_establishes:
  assumes "x \<in> set xs" and "Q s" and "\<And>s y. Q s \<Longrightarrow> Q (f s y)"
    and "\<And>s. Q s \<Longrightarrow> P (f s x)" and "\<And>s y. Q s \<Longrightarrow> P s \<Longrightarrow> P (f s y)"
  shows "P (foldl f s xs)"
  using assms(1,2)
proof (induction xs arbitrary: s)
  case Nil
  then show ?case by simp
next
  case (Cons y ys)
  show ?case
  proof (cases "x = y")
    case True
    have "Q (foldl f (f s x) ys) \<and> P (foldl f (f s x) ys)"
      by (rule foldl_invariant) (use assms Cons.prems in auto)
    with True show ?thesis by simp
  next
    case False
    with Cons assms(3) show ?thesis by simp
  qed
qed

lemma new_ports_cover:
  "x \<in> set pts \<Longrightarrow>
     \<exists>q \<in> set (new_ports fresh n now pts). PortType_eq (pb_port_type (port_base q)) x"
  using new_ports_types_set [of fresh n now pts] port_type.eq_refl by (metis imageE)

lemma discover_step_OpenPorts:
  "\<not> ds_container_matched st \<Longrightarrow>
     ds_unbound_ports (discover_step ext reg fresh now ctx bp st OpenPorts) = []"
  by (auto simp: discover_step_def Service_from_discovery_def OpenPorts_def match_custom_def
      OpenPorts_constraint_def discover_params_def Let_def list_ex_iff filter_empty_conv
      intro: new_ports_cover)

lemma discover_step_unbound_Nil:
  "ds_unbound_ports st = [] \<Longrightarrow>
     ds_unbound_ports (discover_step ext reg fresh now ctx bp st d) = []"
  by (cases rule: discover_step_cases [where ext = ext and reg = reg and fresh = fresh and now = now
      and ctx = ctx and bp = bp and st = st and d = d]) simp_all

definition names_container :: "ServiceMatchBaselineParams \<Rightarrow> bool" where
  "names_container bp \<longleftrightarrow>
     (\<exists>dv. bp_virtualization bp = Some (ServiceVirtualization_Docker dv) \<and> dv_container_id dv \<noteq> None)"

lemma services_inv_no_container:
  assumes "services_inv bp st" and "\<not> names_container bp"
  shows "\<not> ds_container_matched st"
proof
  assume "ds_container_matched st"
  with assms(1) obtain s where "s \<in> set (ds_services st)" "is_container_service s"
    by (auto simp: services_inv_def list_ex_iff)
  with assms show False
    by (auto simp: services_inv_def is_container_service_def names_container_def
        split: option.splits ServiceVirtualization.splits)
qed

lemma discover_loop_claims_all:
  assumes "OpenPorts \<in> set reg" and "\<not> names_container bp"
  shows "ds_unbound_ports (discover_loop ext reg fresh n now ctx bp) = []"
  unfolding discover_loop_def
proof (rule foldl_establishes [where Q = "services_inv bp" and x = OpenPorts
      and P = "\<lambda>st. ds_unbound_ports st = []"])
  show "OpenPorts \<in> set (sort_key definition_priority reg)" using assms(1) by simp
qed (use assms(2) in \<open>auto simp: services_inv_step discover_step_OpenPorts services_inv_no_container
       discover_step_unbound_Nil, simp add: services_inv_def\<close>)

lemma discover_services_bind_all:
  assumes "OpenPorts \<in> set reg" and "\<not> names_container bp"
    and "discover_services ext reg fresh n now ctx bp = (services, host_ports)"
  shows "mset (concat (map Service_to_bound_port_ids services)) = mset (map port_id host_ports)"
proof -
  let ?st = "discover_loop ext reg fresh n now ctx bp"
  have "services = sort_key service_rank (ds_services ?st)" and "host_ports = ds_host_ports ?st"
    using assms discover_loop_claims_all [OF assms(1,2), of ext fresh n now ctx]
    by (auto simp: discover_services_def Let_def new_ports_def)
  moreover have "concat (map Service_to_bound_port_ids (ds_services ?st)) = map port_id (ds_host_ports ?st)"
    using discover_loop_services [of bp ext reg fresh n now ctx] by (simp add: services_inv_def)
  ultimately show ?thesis by (simp add: mset_concat_sort)
qed

text \<open>C14. With the catch-all definition in the registry and no container identifier, every port
  returned by service identification is bound, exactly once, by one of the returned services.\<close>

theorem discover_services_binds_every_port:
  assumes "OpenPorts \<in> set reg" and "\<not> names_container bp"
    and "discover_services ext reg fresh n now ctx bp = (services, host_ports)"
  shows "mset (concat (map Service_to_bound_port_ids services)) = mset (map port_id host_ports)"
  using assms by (rule discover_services_bind_all)

text \<open>The generic gateway definition matches a host exactly when its address looks like a
  gateway's and every service matched so far is a gateway: a service that is no gateway, not
  one that is, keeps it from matching, against the reason texts of the definition.\<close>

theorem Gateway_matches_iff:
  "is_ok (matches ext reg params (sd_discovery_pattern Gateway)) \<longleftrightarrow>
     gateway_like ext params \<and>
     list_all (\<lambda>s. ServiceDefinition_is_gateway (svb_service_definition (service_base s)))
       (sp_matched_services (mp_service_params params))"
  unfolding is_ok_matches
  by (simp add: Gateway_def Gateway_constraint_def list_ex_iff list_all_iff)

definition container_id_of :: "Service \<Rightarrow> string option" where
  "container_id_of s = Option.bind (docker_of s) dv_container_id"

lemma container_id_of_neq:
  "(case svb_virtualization (service_base s) of
      Some (ServiceVirtualization_Docker sdv) \<Rightarrow>
        if dv_container_id sdv \<noteq> None then dv_container_id sdv \<noteq> Some c else True
    | None \<Rightarrow> True) \<longleftrightarrow> container_id_of s \<noteq> Some c"
  by (auto simp: container_id_of_def docker_of_def split: option.splits ServiceVirtualization.splits)

lemma DockerContainer_constraint_iff:
  "DockerContainer_constraint params \<longleftrightarrow>
     (\<exists>dv c. bp_virtualization (mp_baseline_params params) = Some (ServiceVirtualization_Docker dv) \<and>
        dv_container_id dv = Some c \<and>
        list_all (\<lambda>s. container_id_of s \<noteq> Some c) (sp_matched_services (mp_service_params params)))"
  unfolding DockerContainer_constraint_def container_id_of_neq
  by (cases "bp_virtualization (mp_baseline_params params)")
    (auto split: option.splits ServiceVirtualization.splits)

text \<open>The generic container definition matches exactly the containers with an identifier that no
  service matched so far carries.\<close>

theorem DockerContainer_matches_iff:
  "is_ok (matches ext reg params (sd_discovery_pattern DockerContainer)) \<longleftrightarrow>
     (\<exists>dv c. bp_virtualization (mp_baseline_params params) = Some (ServiceVirtualization_Docker dv) \<and>
        dv_container_id dv = Some c \<and>
        list_all (\<lambda>s. container_id_of s \<noteq> Some c) (sp_matched_services (mp_service_params params)))"
  unfolding is_ok_matches
  by (auto simp: DockerContainer_def DockerContainer_constraint_iff)

subsection \<open>Where the equality contract fails\<close>

definition sample_service :: "uuid \<Rightarrow> ServiceVirtualization option \<Rightarrow> uuid list \<Rightarrow> Service" where
  "sample_service i virt ports =
     Service_new i 0
       (ServiceBase_default
         \<lparr>svb_service_definition := DockerContainer,
          svb_bindings := map (\<lambda>p. Binding_new_port_serviceless p 0 p None) ports,
          svb_virtualization := virt\<rparr>)"

definition sample_container :: "string \<Rightarrow> ServiceVirtualization option" where
  "sample_container c =
     Some (ServiceVirtualization_Docker
       \<lparr>dv_container_name = None, dv_container_id = Some c, dv_service_id = 0\<rparr>)"

text \<open>Service identity is no equivalence and disagrees with \<open>Hash\<close>: a service without container
  data can equal two services in different containers that share its ports, and services that
  are equal feed different values to the hasher.\<close>

theorem Service_eq_not_transitive:
  "\<exists>a b c. Service_eq a b \<and> Service_eq b c \<and> \<not> Service_eq a c \<and>
           Service_hash_fields a \<noteq> Service_hash_fields b"
proof (intro exI conjI)
  let ?a = "sample_service 1 (sample_container ''x'') [7]"
  let ?b = "sample_service 2 None [7, 8]"
  let ?c = "sample_service 3 (sample_container ''y'') [8]"
  show "Service_eq ?a ?b" by code_simp
  show "Service_eq ?b ?c" by code_simp
  show "\<not> Service_eq ?a ?c" by code_simp
  show "Service_hash_fields ?a \<noteq> Service_hash_fields ?b"
    by (simp add: Service_hash_fields_def sample_service_def Service_new_def)
qed



text \<open>A sample registry and host.\<close>

definition sample_registry :: registry where
  "sample_registry = [OpenPorts, Gateway, DockerContainer, Proxmox]"

definition sample_context :: discover_context where
  "sample_context =
     \<lparr>dc_host_id = 4, dc_gateway_ips = [], dc_daemon_id = 6, dc_network_id = 2,
      dc_discovery_type = DiscoveryType_SelfReport 4\<rparr>"

definition sample_baseline :: ServiceMatchBaselineParams where
  "sample_baseline =
     \<lparr>bp_subnet = sample_subnet, bp_interface = sample_interface,
      bp_all_ports = [PortType_new_tcp 8006, PortType_Ssh],
      bp_endpoint_responses = [sample_response], bp_virtualization = None\<rparr>"

abbreviation sample_discovery :: "Service list \<times> Port list" where
  "sample_discovery \<equiv>
     discover_services sample_externals sample_registry of_nat 0 0 sample_context sample_baseline"

lemma inj_on_of_nat_uuid: "k \<le> 2 ^ 128 \<Longrightarrow> inj_on (of_nat :: nat \<Rightarrow> uuid) {0..<k}"
proof (rule inj_onI)
  fix x y assume "k \<le> 2 ^ 128" "x \<in> {0..<k}" "y \<in> {0..<k}" "(of_nat x :: uuid) = of_nat y"
  then have "unat (of_nat x :: uuid) = unat (of_nat y :: uuid)" "x < 2 ^ 128" "y < 2 ^ 128" by auto
  then show "x = y" by (simp add: unat_of_nat take_bit_nat_eq_self_iff)
qed

theorem Service_eq_refl_sym_witness:
  "Service_eq (sample_service 1 None [7]) (sample_service 1 None [7]) \<and>
   (Service_eq (sample_service 1 None [7]) (sample_service 2 None [7]) \<longleftrightarrow>
    Service_eq (sample_service 2 None [7]) (sample_service 1 None [7]))"
  by (rule Service_eq_refl_sym [where reg = "[DockerContainer]"])
    (simp_all add: sample_service_def Service_new_def)

theorem discovery_lists_cover_registry_witness:
  "list_ex (\<lambda>q. PortType_eq q (PortType_new_tcp 8006)) (Service_all_discovery_ports sample_registry)"
  using discovery_lists_cover_registry [of Proxmox sample_registry]
  by (simp add: sample_registry_def Proxmox_def)

theorem discover_services_ports_witness:
  "\<exists>q \<in> set (snd sample_discovery). PortType_eq (pb_port_type (port_base q)) PortType_Ssh"
  using discover_services_ports [of sample_externals sample_registry of_nat 0 0 sample_context
      sample_baseline "fst sample_discovery" "snd sample_discovery"]
  by (simp add: sample_baseline_def)

theorem discover_services_bindings_witness:
  "distinct (map port_id (snd (discover_services sample_externals [OpenPorts] of_nat 0 0
     sample_context sample_baseline)))"
proof -
  have "discover_drawn sample_externals [OpenPorts] of_nat 0 0 sample_context sample_baseline = 5"
    by code_simp
  then have "inj_on (of_nat :: nat \<Rightarrow> uuid)
      {0..<discover_drawn sample_externals [OpenPorts] of_nat 0 0 sample_context sample_baseline}"
    by (simp add: inj_on_of_nat_uuid)
  from discover_services_bindings [OF prod.collapse [symmetric] this] show ?thesis by blast
qed

theorem discover_services_container_once_witness:
  "length (fst (discover_services sample_externals sample_registry of_nat 0 0 sample_context
     (sample_baseline\<lparr>bp_virtualization := sample_container ''x''\<rparr>))) \<le> 1"
  using discover_services_container_once [OF prod.collapse [symmetric], of
      "sample_baseline\<lparr>bp_virtualization := sample_container ''x''\<rparr>"]
  by (simp add: sample_container_def)

theorem discover_services_binds_every_port_witness:
  "mset (concat (map Service_to_bound_port_ids (fst sample_discovery))) =
   mset (map port_id (snd sample_discovery))"
  by (rule discover_services_binds_every_port [OF _ _ prod.collapse [symmetric]])
    (simp_all add: sample_registry_def names_container_def sample_baseline_def)

end
