(* ===== verification/Definitions_Network.thy ===== *)
theory Definitions_Network
  imports Services
begin

section \<open>Service definitions: network infrastructure and network services\<close>

text \<open>
  The definitions of \<^verbatim>\<open>backend/src/server/services/definitions\<close> in the sections
  "network infrastructure" and "network services" of its \<^verbatim>\<open>mod.rs\<close>, one constant per file, named after
  the struct. Where files share a struct name the constant carries the module name too.
\<close>

text \<open>A definition with the default methods of the trait: not generic, no logo.\<close>

definition service_definition ::
    "string \<Rightarrow> string \<Rightarrow> ServiceCategory \<Rightarrow> Pattern \<Rightarrow> ServiceDefinition" where
  "service_definition name description category pattern =
     \<lparr>sd_name = name, sd_description = description, sd_category = category,
      sd_discovery_pattern = pattern, sd_is_generic = False, sd_logo_url = [],
      sd_logo_needs_white_background = False\<rparr>"

lemma service_definition_simps [simp]:
  "sd_name (service_definition n d c p) = n"
  "sd_description (service_definition n d c p) = d"
  "sd_category (service_definition n d c p) = c"
  "sd_discovery_pattern (service_definition n d c p) = p"
  "sd_is_generic (service_definition n d c p) = False"
  by (simp_all add: service_definition_def)

subsection \<open>MAC vendors\<close>

definition Vendor_PHILIPS :: string where
  "Vendor_PHILIPS = ''Philips Lighting BV''"

definition Vendor_HP :: string where
  "Vendor_HP = ''HP Inc.''"

definition Vendor_EERO :: string where
  "Vendor_EERO = ''eero Inc''"

definition Vendor_TPLINK :: string where
  "Vendor_TPLINK = ''TP-LINK TECHNOLOGIES CO.,LTD''"

definition Vendor_UBIQUITI :: string where
  "Vendor_UBIQUITI = ''Ubiquiti Networks Inc''"

definition Vendor_GOOGLE :: string where
  "Vendor_GOOGLE = ''Google, Inc.''"

definition Vendor_NEST :: string where
  "Vendor_NEST = ''Nest Labs Inc.''"

definition Vendor_AMAZON :: string where
  "Vendor_AMAZON = ''Amazon Technologies Inc.''"

definition Vendor_SONOS :: string where
  "Vendor_SONOS = ''Sonos, Inc.''"

definition Vendor_ECOBEE :: string where
  "Vendor_ECOBEE = ''ecobee inc''"

definition Vendor_ROKU :: string where
  "Vendor_ROKU = ''Roku, Inc''"

subsection \<open>Definitions\<close>

definition DhcpServer :: ServiceDefinition where
  "DhcpServer =
     (service_definition ''Dhcp Server''
       ''A generic Dhcp server''
       ServiceCategory_NetworkCore
       (Pattern_Port PortType_Dhcp))
     \<lparr>sd_is_generic := True\<rparr>"

definition NtpServer :: ServiceDefinition where
  "NtpServer =
     (service_definition ''NTP Server''
       ''Network Time Protocol server''
       ServiceCategory_NetworkCore
       (Pattern_Port PortType_Ntp))
     \<lparr>sd_is_generic := True\<rparr>"

definition RemoteDesktop :: ServiceDefinition where
  "RemoteDesktop =
     (service_definition ''Remote Desktop''
       ''Remote Desktop Protocol (RDP)''
       ServiceCategory_NetworkCore
       (Pattern_Port PortType_Rdp))
     \<lparr>sd_is_generic := True\<rparr>"

definition Snmp :: ServiceDefinition where
  "Snmp =
     (service_definition ''SNMP''
       ''Simple Network Management Protocol''
       ServiceCategory_NetworkCore
       (Pattern_Port PortType_Snmp))
     \<lparr>sd_is_generic := True\<rparr>"

definition Ssh :: ServiceDefinition where
  "Ssh =
     (service_definition ''SSH''
       ''Secure Shell remote access''
       ServiceCategory_NetworkCore
       (Pattern_Port PortType_Ssh))
     \<lparr>sd_is_generic := True\<rparr>"

definition Switch :: ServiceDefinition where
  "Switch =
     (service_definition ''Switch''
       ''Generic network switch for local area networking''
       ServiceCategory_NetworkCore
       (Pattern_AllOf [Pattern_Not Pattern_IsGateway, Pattern_AllOf [Pattern_Port PortType_Http,
         Pattern_Port PortType_Telnet]]))
     \<lparr>sd_is_generic := True\<rparr>"

definition Telnet :: ServiceDefinition where
  "Telnet =
     (service_definition ''Telnet''
       ''Telnet remote access''
       ServiceCategory_NetworkCore
       (Pattern_Port PortType_Telnet))
     \<lparr>sd_is_generic := True\<rparr>"

definition AccessPoint :: ServiceDefinition where
  "AccessPoint =
     (service_definition ''Access Point''
       ''A generic wireless access point for WiFi connectivity''
       ServiceCategory_NetworkAccess
       Pattern_None)
     \<lparr>sd_is_generic := True\<rparr>"

definition EeroGateway :: ServiceDefinition where
  "EeroGateway =
     (service_definition ''Eero Gateway''
       ''Eero device providing routing and gateway services''
       ServiceCategory_NetworkAccess
       (Pattern_AllOf [Pattern_MacVendor Vendor_EERO, Pattern_IsGateway]))
     \<lparr>sd_logo_url := ''https://www.vectorlogo.zone/logos/eero/eero-icon.svg'',
      sd_logo_needs_white_background := True\<rparr>"

definition EeroRepeater :: ServiceDefinition where
  "EeroRepeater =
     (service_definition ''Eero Repeater''
       ''Eero device providing mesh network services''
       ServiceCategory_NetworkAccess
       (Pattern_AllOf [Pattern_MacVendor Vendor_EERO, Pattern_Not Pattern_IsGateway]))
     \<lparr>sd_logo_url := ''https://www.vectorlogo.zone/logos/eero/eero-icon.svg'',
      sd_logo_needs_white_background := True\<rparr>"

definition FiosExtender :: ServiceDefinition where
  "FiosExtender =
     (service_definition ''Fios Extender''
       ''Fios device providing mesh networking services''
       ServiceCategory_NetworkAccess
       (Pattern_AllOf [Pattern_Endpoint PortType_Http ''/#/login/'' ''fios'' None, Pattern_Not
         Pattern_IsGateway]))
     \<lparr>sd_logo_url := ''https://cdn.jsdelivr.net/gh/homarr-labs/dashboard-icons/svg/fios.svg'',
      sd_logo_needs_white_background := True\<rparr>"

definition FiosGateway :: ServiceDefinition where
  "FiosGateway =
     (service_definition ''Fios Gateway''
       ''Fios device providing routing and gateway services''
       ServiceCategory_NetworkAccess
       (Pattern_AllOf [Pattern_Endpoint PortType_Http ''/#/login/'' ''fios'' None,
         Pattern_IsGateway]))
     \<lparr>sd_logo_url := ''https://cdn.jsdelivr.net/gh/homarr-labs/dashboard-icons/svg/fios.svg'',
      sd_logo_needs_white_background := True\<rparr>"

definition GoogleHome_google_nest_repeater :: ServiceDefinition where
  "GoogleHome_google_nest_repeater =
     (service_definition ''Google Nest repeater''
       ''Google Nest Wifi repeater''
       ServiceCategory_NetworkAccess
       (Pattern_AllOf [Pattern_AnyOf [Pattern_MacVendor Vendor_NEST, Pattern_MacVendor
         Vendor_GOOGLE], Pattern_Not Pattern_IsGateway, Pattern_Endpoint PortType_Http ''/''
         ''Nest Wifi'' None]))
     \<lparr>sd_logo_url := ''https://cdn.jsdelivr.net/gh/homarr-labs/dashboard-icons/svg/google-home.svg''\<rparr>"

definition GoogleHome_google_nest_router :: ServiceDefinition where
  "GoogleHome_google_nest_router =
     (service_definition ''Google Nest router''
       ''Google Nest Wifi router''
       ServiceCategory_NetworkAccess
       (Pattern_AllOf [Pattern_AnyOf [Pattern_MacVendor Vendor_NEST, Pattern_MacVendor
         Vendor_GOOGLE], Pattern_IsGateway, Pattern_Endpoint PortType_Http ''/'' ''Nest Wifi''
         None]))
     \<lparr>sd_logo_url := ''https://cdn.jsdelivr.net/gh/homarr-labs/dashboard-icons/svg/google-home.svg''\<rparr>"

definition TpLinkEap :: ServiceDefinition where
  "TpLinkEap =
     (service_definition ''TP-Link EAP''
       ''TP-Link EAP wireless access point''
       ServiceCategory_NetworkAccess
       (Pattern_AllOf [Pattern_MacVendor Vendor_TPLINK, Pattern_Endpoint PortType_Http ''/''
         ''tp-link'' None]))
     \<lparr>sd_logo_url := ''https://cdn.jsdelivr.net/gh/homarr-labs/dashboard-icons/svg/tp-link.svg''\<rparr>"

definition UnifiAccessPoint :: ServiceDefinition where
  "UnifiAccessPoint =
     (service_definition ''Unifi Access Point''
       ''Ubiquiti UniFi wireless access point''
       ServiceCategory_NetworkAccess
       (Pattern_AllOf [Pattern_MacVendor Vendor_UBIQUITI, Pattern_Endpoint PortType_Http ''/''
         ''Unifi'' None]))
     \<lparr>sd_logo_url := ''https://cdn.jsdelivr.net/gh/homarr-labs/dashboard-icons/svg/unifi.svg''\<rparr>"

definition UnifiController :: ServiceDefinition where
  "UnifiController =
     (service_definition ''UniFi Controller''
       ''Ubiquiti UniFi network controller''
       ServiceCategory_NetworkAccess
       (Pattern_Endpoint PortType_Https8443 ''/manage'' ''UniFi'' None))
     \<lparr>sd_logo_url := ''https://cdn.jsdelivr.net/gh/homarr-labs/dashboard-icons/svg/unifi.svg''\<rparr>"

definition CrowdSec :: ServiceDefinition where
  "CrowdSec =
     (service_definition ''CrowdSec''
       ''Crowdsourced protection against malicious IPs''
       ServiceCategory_NetworkSecurity
       (Pattern_Endpoint PortType_Http8080 ''/v1/allowlists'' ''cookie token is empty'' (Some
         (401, 401))))
     \<lparr>sd_logo_url := ''https://cdn.jsdelivr.net/gh/homarr-labs/dashboard-icons/svg/crowdsec.svg''\<rparr>"

definition Firewall :: ServiceDefinition where
  "Firewall =
     (service_definition ''Firewall''
       ''Generic network security appliance''
       ServiceCategory_NetworkSecurity
       Pattern_None)
     \<lparr>sd_is_generic := True\<rparr>"

definition Fortinet :: ServiceDefinition where
  "Fortinet =
     (service_definition ''Fortinet''
       ''Fortinet security appliance''
       ServiceCategory_NetworkSecurity
       (Pattern_Endpoint PortType_Http ''/login'' ''fortinet'' None))
     \<lparr>sd_logo_url := ''https://cdn.jsdelivr.net/gh/homarr-labs/dashboard-icons/svg/fortinet.svg''\<rparr>"

definition OpnSense :: ServiceDefinition where
  "OpnSense =
     (service_definition ''OPNsense''
       ''Open-source firewall and routing platform''
       ServiceCategory_NetworkSecurity
       (Pattern_AllOf [Pattern_AnyOf [Pattern_Endpoint PortType_Http ''/'' ''opnsense'' None,
         Pattern_Endpoint PortType_Https ''/'' ''opnsense'' None], Pattern_AnyOf [Pattern_Port
         PortType_DnsTcp, Pattern_Port PortType_DnsUdp, Pattern_Port PortType_Ssh, Pattern_Port
         PortType_Ntp, Pattern_Port PortType_Dhcp]]))
     \<lparr>sd_logo_url := ''https://cdn.jsdelivr.net/gh/homarr-labs/dashboard-icons/svg/opnsense.svg''\<rparr>"

definition PfBlockerNg :: ServiceDefinition where
  "PfBlockerNg =
     (service_definition ''pfBlockerNG''
       ''PfSense package for DNS/IP blocking''
       ServiceCategory_AdBlock
       (Pattern_AllOf [Pattern_AllOf [Pattern_Port PortType_DnsTcp, Pattern_Port
         PortType_DnsUdp], Pattern_Endpoint PortType_Http ''/pfblockerng'' ''pfblockerng''
         None]))
     \<lparr>sd_logo_url := ''https://cdn.jsdelivr.net/gh/homarr-labs/dashboard-icons/svg/pfsense.svg''\<rparr>"

definition PfSense :: ServiceDefinition where
  "PfSense =
     (service_definition ''pfSense''
       ''Open-source firewall and router platform''
       ServiceCategory_NetworkSecurity
       (Pattern_AllOf [Pattern_Port PortType_Ssh, Pattern_Endpoint PortType_Http ''/''
         ''pfsense'' None]))
     \<lparr>sd_logo_url := ''https://cdn.jsdelivr.net/gh/homarr-labs/dashboard-icons/svg/pfsense.svg''\<rparr>"

definition Bind9 :: ServiceDefinition where
  "Bind9 =
     service_definition ''Bind9''
       ''Berkeley Internet Name Domain DNS server''
       ServiceCategory_DNS
       (Pattern_AllOf [Pattern_Port PortType_DnsUdp, Pattern_Port (PortType_new_tcp 8053)])"

definition DnsServer :: ServiceDefinition where
  "DnsServer =
     (service_definition ''Dns Server''
       ''A generic Dns server''
       ServiceCategory_DNS
       (Pattern_AnyOf [Pattern_Port PortType_DnsTcp, Pattern_Port PortType_DnsUdp]))
     \<lparr>sd_is_generic := True\<rparr>"

definition PowerDNS :: ServiceDefinition where
  "PowerDNS =
     (service_definition ''PowerDNS''
       ''Authoritative DNS server with API''
       ServiceCategory_DNS
       (Pattern_AllOf [Pattern_Port PortType_DnsUdp, Pattern_Port PortType_DnsTcp, Pattern_Port
         PortType_Http8081]))
     \<lparr>sd_logo_url := ''https://cdn.jsdelivr.net/gh/homarr-labs/dashboard-icons/svg/powerdns.svg''\<rparr>"

definition Unbound :: ServiceDefinition where
  "Unbound =
     (service_definition ''Unbound DNS''
       ''Recursive DNS resolver with control interface''
       ServiceCategory_DNS
       (Pattern_AllOf [Pattern_Port PortType_DnsUdp, Pattern_Port (PortType_new_tcp 8953)]))
     \<lparr>sd_logo_url := ''https://cdn.jsdelivr.net/gh/homarr-labs/dashboard-icons/svg/unbound.svg''\<rparr>"

definition Cloudflared :: ServiceDefinition where
  "Cloudflared =
     (service_definition ''Cloudflared''
       ''Cloudflare tunnel daemon''
       ServiceCategory_ReverseProxy
       (Pattern_Endpoint PortType_Http ''/metrics'' ''cloudflared'' None))
     \<lparr>sd_logo_url := ''https://cdn.jsdelivr.net/gh/homarr-labs/dashboard-icons/svg/cloudflare.svg''\<rparr>"

definition OpenVpn :: ServiceDefinition where
  "OpenVpn =
     (service_definition ''OpenVPN''
       ''OpenVPN server''
       ServiceCategory_VPN
       (Pattern_Port PortType_OpenVPN))
     \<lparr>sd_is_generic := True,
      sd_logo_url := ''https://cdn.jsdelivr.net/gh/homarr-labs/dashboard-icons/svg/openvpn.svg''\<rparr>"

definition WgDashboard :: ServiceDefinition where
  "WgDashboard =
     (service_definition ''WGDashboard''
       ''Wireguard dashboard for visualizing and managing wireguard clients and server''
       ServiceCategory_Dashboard
       (Pattern_AllOf [Pattern_Port (PortType_new_tcp 10086), Pattern_Not (Pattern_SubnetIsType
         SubnetType_VpnTunnel)]))
     \<lparr>sd_logo_url := ''https://cdn.jsdelivr.net/gh/homarr-labs/dashboard-icons/svg/wireguard.svg''\<rparr>"

definition Wireguard :: ServiceDefinition where
  "Wireguard =
     (service_definition ''WireGuard''
       ''WireGuard VPN''
       ServiceCategory_VPN
       (Pattern_Port PortType_Wireguard))
     \<lparr>sd_is_generic := True,
      sd_logo_url := ''https://cdn.jsdelivr.net/gh/homarr-labs/dashboard-icons/svg/wireguard.svg''\<rparr>"

definition Caddy :: ServiceDefinition where
  "Caddy =
     (service_definition ''Caddy''
       ''Lightweight & versatile reverse proxy, web & file server''
       ServiceCategory_ReverseProxy
       (Pattern_Endpoint (PortType_new_tcp 2019) ''/reverse_proxy/upstreams'' ''num_requests''
         None))
     \<lparr>sd_logo_url := ''https://cdn.jsdelivr.net/gh/homarr-labs/dashboard-icons/svg/caddy.svg''\<rparr>"

definition HAProxy :: ServiceDefinition where
  "HAProxy =
     (service_definition ''HAProxy''
       ''Load balancer and proxy''
       ServiceCategory_ReverseProxy
       (Pattern_Endpoint (PortType_new_tcp 8404) ''/stats'' ''haproxy'' None))
     \<lparr>sd_logo_url := ''https://cdn.jsdelivr.net/gh/homarr-labs/dashboard-icons/svg/haproxy.svg''\<rparr>"

definition Kong :: ServiceDefinition where
  "Kong =
     (service_definition ''Kong''
       ''API gateway''
       ServiceCategory_ReverseProxy
       (Pattern_Endpoint (PortType_new_tcp 8001) ''/'' ''kong'' None))
     \<lparr>sd_logo_url := ''https://simpleicons.org/icons/kong.svg'',
      sd_logo_needs_white_background := True\<rparr>"

definition NginxProxyManager :: ServiceDefinition where
  "NginxProxyManager =
     (service_definition ''Nginx Proxy Manager''
       ''Web-based Nginx proxy management interface''
       ServiceCategory_ReverseProxy
       (Pattern_Endpoint PortType_Http [] ''nginx proxy manager'' None))
     \<lparr>sd_logo_url := ''https://cdn.jsdelivr.net/gh/homarr-labs/dashboard-icons/svg/nginx-proxy-manager.svg''\<rparr>"

definition Traefik :: ServiceDefinition where
  "Traefik =
     (service_definition ''Traefik''
       ''Modern reverse proxy and load balancer''
       ServiceCategory_ReverseProxy
       (Pattern_Endpoint PortType_Http ''/dashboard'' ''traefik'' None))
     \<lparr>sd_logo_url := ''https://cdn.jsdelivr.net/gh/homarr-labs/dashboard-icons/svg/traefik.svg''\<rparr>"

definition Tyk :: ServiceDefinition where
  "Tyk =
     (service_definition ''Tyk''
       ''API gateway''
       ServiceCategory_ReverseProxy
       (Pattern_Endpoint PortType_Http8080 ''/hello'' ''tyk'' (Some (200, 300))))
     \<lparr>sd_logo_url := ''https://www.vectorlogo.zone/logos/tyk/tyk-icon.svg''\<rparr>"

definition AdguardHome :: ServiceDefinition where
  "AdguardHome =
     (service_definition ''Adguard Home''
       ''Network-wide ad and tracker blocking''
       ServiceCategory_AdBlock
       (Pattern_AllOf [Pattern_AllOf [Pattern_Port PortType_DnsUdp, Pattern_Port
         PortType_DnsTcp], Pattern_Endpoint PortType_Http ''/'' ''AdGuard Home'' None]))
     \<lparr>sd_logo_url := ''https://cdn.jsdelivr.net/gh/homarr-labs/dashboard-icons/svg/adguard-home.svg''\<rparr>"

definition PiHole :: ServiceDefinition where
  "PiHole =
     (service_definition ''Pi-Hole''
       ''Network-wide ad blocking DNS service''
       ServiceCategory_AdBlock
       (Pattern_AllOf [Pattern_AnyOf [Pattern_Port PortType_DnsUdp, Pattern_Port
         PortType_DnsTcp], Pattern_Endpoint PortType_Http ''/admin'' ''pi-hole'' None]))
     \<lparr>sd_logo_url := ''https://cdn.jsdelivr.net/gh/homarr-labs/dashboard-icons/svg/pi-hole.svg''\<rparr>"

end
