(* ===== verification/Definitions_Server.thy ===== *)
theory Definitions_Server
  imports Definitions_Network
begin

section \<open>Service definitions: server services\<close>

text \<open>
  The definitions of \<^verbatim>\<open>backend/src/server/services/definitions\<close> in the section
  "server services" of its \<^verbatim>\<open>mod.rs\<close>, one constant per file, named after
  the struct. Where files share a struct name the constant carries the module name too.
\<close>

definition Ceph :: ServiceDefinition where
  "Ceph =
     (service_definition ''Ceph''
       ''Distributed storage''
       ServiceCategory_Storage
       (Pattern_Endpoint PortType_Http8080 ''/'' ''ceph dashboard'' None))
     \<lparr>sd_logo_url := ''https://cdn.jsdelivr.net/gh/homarr-labs/dashboard-icons/svg/ceph.svg''\<rparr>"

definition FileServer :: ServiceDefinition where
  "FileServer =
     (service_definition ''FTP Server''
       ''Generic FTP file sharing service''
       ServiceCategory_Storage
       (Pattern_Port PortType_Ftp))
     \<lparr>sd_is_generic := True\<rparr>"

definition FileZillaServer :: ServiceDefinition where
  "FileZillaServer =
     (service_definition ''FileZilla Server''
       ''FTP server''
       ServiceCategory_Storage
       (Pattern_AllOf [Pattern_Port PortType_Ftp, Pattern_Port (PortType_new_tcp 14147)]))
     \<lparr>sd_logo_url := ''https://cdn.jsdelivr.net/gh/homarr-labs/dashboard-icons/svg/filezilla.svg''\<rparr>"

definition MinIO :: ServiceDefinition where
  "MinIO =
     (service_definition ''MinIO''
       ''Object storage''
       ServiceCategory_Storage
       (Pattern_Endpoint PortType_Http9000 ''/minio/health/live'' [] (Some (200, 300))))
     \<lparr>sd_logo_url := ''https://cdn.jsdelivr.net/gh/homarr-labs/dashboard-icons/svg/minio.svg'',
      sd_logo_needs_white_background := True\<rparr>"

definition NextCloud :: ServiceDefinition where
  "NextCloud =
     (service_definition ''NextCloud''
       ''Self-hosted cloud storage and collaboration platform''
       ServiceCategory_Office
       (Pattern_Endpoint PortType_Http ''/core/css/server.css'' ''Nextcloud GmbH'' None))
     \<lparr>sd_logo_url := ''https://cdn.jsdelivr.net/gh/homarr-labs/dashboard-icons/svg/nextcloud.svg''\<rparr>"

definition NFSServer :: ServiceDefinition where
  "NFSServer =
     (service_definition ''NFS''
       ''Generic network file system''
       ServiceCategory_Storage
       (Pattern_Port PortType_Nfs))
     \<lparr>sd_is_generic := True\<rparr>"

definition OpenMediaVault :: ServiceDefinition where
  "OpenMediaVault =
     (service_definition ''OpenMediaVault''
       ''Debian-based NAS solution''
       ServiceCategory_Storage
       (Pattern_AllOf [Pattern_Port PortType_Samba, Pattern_Endpoint PortType_Http ''/''
         ''openmediavault'' None]))
     \<lparr>sd_logo_url := ''https://cdn.jsdelivr.net/gh/homarr-labs/dashboard-icons/svg/openmediavault.svg''\<rparr>"

definition OwnCloud :: ServiceDefinition where
  "OwnCloud =
     (service_definition ''ownCloud''
       ''File sync and share''
       ServiceCategory_Office
       (Pattern_Endpoint PortType_Http ''/status.php'' ''owncloud'' None))
     \<lparr>sd_logo_url := ''https://cdn.jsdelivr.net/gh/homarr-labs/dashboard-icons/svg/owncloud.svg'',
      sd_logo_needs_white_background := True\<rparr>"

definition QNAP :: ServiceDefinition where
  "QNAP =
     (service_definition ''QNAP NAS''
       ''QNAP network attached storage system''
       ServiceCategory_Storage
       (Pattern_AllOf [Pattern_Port PortType_Ftp, Pattern_AnyOf [Pattern_Endpoint PortType_Http
         ''/'' ''QNAP'' None, Pattern_Endpoint PortType_Http8080 ''/'' ''QNAP'' None]]))
     \<lparr>sd_logo_url := ''https://cdn.jsdelivr.net/gh/homarr-labs/dashboard-icons/svg/qnap.svg''\<rparr>"

definition Samba :: ServiceDefinition where
  "Samba =
     (service_definition ''Samba''
       ''Generic SMB file server''
       ServiceCategory_Storage
       (Pattern_Port PortType_Samba))
     \<lparr>sd_is_generic := True\<rparr>"

definition Seafile :: ServiceDefinition where
  "Seafile =
     (service_definition ''Seafile''
       ''File hosting platform''
       ServiceCategory_Office
       (Pattern_Endpoint (PortType_new_tcp 8000) ''/api2/ping'' ''seafile'' None))
     \<lparr>sd_logo_url := ''https://cdn.jsdelivr.net/gh/homarr-labs/dashboard-icons/svg/seafile.svg''\<rparr>"

definition Syncthing :: ServiceDefinition where
  "Syncthing =
     (service_definition ''Syncthing''
       ''Continuous file synchronization service''
       ServiceCategory_Backup
       (Pattern_AllOf [Pattern_Endpoint PortType_Http ''/'' ''Syncthing'' None, Pattern_Port
         (PortType_new_tcp 22000)]))
     \<lparr>sd_logo_url := ''https://cdn.jsdelivr.net/gh/homarr-labs/dashboard-icons/svg/syncthing.svg''\<rparr>"

definition Synology :: ServiceDefinition where
  "Synology =
     (service_definition ''Synology DSM''
       ''Synology DiskStation Manager NAS system''
       ServiceCategory_Storage
       (Pattern_AllOf [Pattern_Endpoint PortType_Http ''/'' ''synology'' None, Pattern_Port
         PortType_Ftp]))
     \<lparr>sd_logo_url := ''https://cdn.jsdelivr.net/gh/homarr-labs/dashboard-icons/svg/synology.svg''\<rparr>"

definition TrueNAS :: ServiceDefinition where
  "TrueNAS =
     (service_definition ''TrueNAS''
       ''Open-source network attached storage system''
       ServiceCategory_Storage
       (Pattern_AllOf [Pattern_Port PortType_Samba, Pattern_Endpoint PortType_Http ''/''
         ''TrueNAS'' None]))
     \<lparr>sd_logo_url := ''https://cdn.jsdelivr.net/gh/homarr-labs/dashboard-icons/svg/truenas.svg''\<rparr>"

definition Bacula :: ServiceDefinition where
  "Bacula =
     (service_definition ''Bacula''
       ''Network backup solution''
       ServiceCategory_Backup
       (Pattern_Port (PortType_new_tcp 9101)))
     \<lparr>sd_logo_url := ''https://cdn.jsdelivr.net/gh/homarr-labs/dashboard-icons/png/bacula.png''\<rparr>"

definition Duplicati :: ServiceDefinition where
  "Duplicati =
     (service_definition ''Duplicati''
       ''Cross-platform backup client with encryption''
       ServiceCategory_Backup
       (Pattern_Endpoint (PortType_new_tcp 8200) ''/ngax/index.html'' ''Duplicati'' None))
     \<lparr>sd_logo_url := ''https://cdn.jsdelivr.net/gh/homarr-labs/dashboard-icons/svg/duplicati.svg''\<rparr>"

definition ProxmoxBackupServer :: ServiceDefinition where
  "ProxmoxBackupServer =
     (service_definition ''Proxmox Backup Server''
       ''Encrypted, incremental and deduplicated backups for Proxmox VMs, LXCs, and hosts''
       ServiceCategory_Backup
       (Pattern_AnyOf [Pattern_Endpoint (PortType_new_tcp 8007) ''/'' ''proxmox-backup-gui''
         None, Pattern_Port (PortType_new_tcp 8007)]))
     \<lparr>sd_logo_url := ''https://cdn.jsdelivr.net/gh/homarr-labs/dashboard-icons/svg/proxmox.svg''\<rparr>"

definition Restic :: ServiceDefinition where
  "Restic =
     (service_definition ''Restic''
       ''Fast and secure backup program''
       ServiceCategory_Backup
       (Pattern_AllOf [Pattern_Port (PortType_new_tcp 8000), Pattern_Endpoint PortType_Http
         ''/'' ''restic'' None]))
     \<lparr>sd_logo_url := ''https://cdn.jsdelivr.net/gh/homarr-labs/dashboard-icons/png/restic.png''\<rparr>"

definition Veeam :: ServiceDefinition where
  "Veeam =
     (service_definition ''Veeam''
       ''Backup and replication''
       ServiceCategory_Backup
       (Pattern_Port (PortType_new_tcp 9392)))
     \<lparr>sd_logo_url := ''https://cdn.jsdelivr.net/gh/homarr-labs/dashboard-icons/svg/veeam.svg''\<rparr>"

definition AudioBookShelf :: ServiceDefinition where
  "AudioBookShelf =
     (service_definition ''AudioBookShelf''
       ''Self-hosted audiobook and podcast server.''
       ServiceCategory_Media
       (Pattern_Port (PortType_new_tcp 13378)))
     \<lparr>sd_logo_url := ''https://cdn.jsdelivr.net/gh/homarr-labs/dashboard-icons/svg/audiobookshelf.svg''\<rparr>"

definition Bazarr :: ServiceDefinition where
  "Bazarr =
     (service_definition ''Bazarr''
       ''A companion application to Sonarr and Radarr that manages and downloads subtitles''
       ServiceCategory_Media
       (Pattern_Port (PortType_new_tcp 6767)))
     \<lparr>sd_logo_url := ''https://cdn.jsdelivr.net/gh/homarr-labs/dashboard-icons/svg/bazarr.svg''\<rparr>"

definition BookLore :: ServiceDefinition where
  "BookLore =
     (service_definition ''BookLore''
       ''A self-hosted, multi-user digital library.''
       ServiceCategory_Media
       (Pattern_Endpoint (PortType_new_tcp 6060) ''/'' ''booklore-app'' None))
     \<lparr>sd_logo_url := ''https://cdn.jsdelivr.net/gh/homarr-labs/dashboard-icons/svg/book-lore.svg''\<rparr>"

definition Emby :: ServiceDefinition where
  "Emby =
     (service_definition ''Emby''
       ''Personal media server with streaming capabilities''
       ServiceCategory_Media
       (Pattern_Endpoint (PortType_new_tcp 8096) ''/emby/System/Info/Public'' ''Emby'' None))
     \<lparr>sd_logo_url := ''https://cdn.jsdelivr.net/gh/homarr-labs/dashboard-icons/svg/emby.svg''\<rparr>"

definition Immich :: ServiceDefinition where
  "Immich =
     (service_definition ''Immich''
       ''Self-hosted photo and video management solution''
       ServiceCategory_Media
       (Pattern_Endpoint (PortType_new_tcp 2283) ''/photos'' ''Immich'' None))
     \<lparr>sd_logo_url := ''https://cdn.jsdelivr.net/gh/homarr-labs/dashboard-icons/svg/immich.svg''\<rparr>"

definition Jellyfin :: ServiceDefinition where
  "Jellyfin =
     (service_definition ''Jellyfin''
       ''Free media server for personal streaming''
       ServiceCategory_Media
       (Pattern_Endpoint PortType_Http ''/System/Info/Public'' ''Jellyfin'' None))
     \<lparr>sd_logo_url := ''https://cdn.jsdelivr.net/gh/homarr-labs/dashboard-icons/svg/jellyfin.svg''\<rparr>"

definition Jellyseerr :: ServiceDefinition where
  "Jellyseerr =
     (service_definition ''Jellyseerr''
       ''Open source software application for managing requests for your media library.''
       ServiceCategory_Media
       (Pattern_Endpoint (PortType_new_tcp 5055) ''/'' ''Jellyseerr'' None))
     \<lparr>sd_logo_url := ''https://cdn.jsdelivr.net/gh/homarr-labs/dashboard-icons/svg/jellyseerr.svg''\<rparr>"

definition Jellystat :: ServiceDefinition where
  "Jellystat =
     (service_definition ''Jellystat''
       ''Open source software application for managing requests for your media library.''
       ServiceCategory_Media
       (Pattern_AllOf [Pattern_Endpoint PortType_Http3000 ''/'' ''Jellystat'' None,
         Pattern_Endpoint PortType_Http3000 ''/'' ''Jellyfin stats for the masses'' None]))
     \<lparr>sd_logo_url := ''https://cdn.jsdelivr.net/gh/homarr-labs/dashboard-icons/svg/jellystat.svg''\<rparr>"

definition Komga :: ServiceDefinition where
  "Komga =
     (service_definition ''Komga''
       ''A media server for your comics, mangas, BDs, magazines and eBooks.''
       ServiceCategory_Media
       (Pattern_Endpoint (PortType_new_tcp 25600) ''/'' ''Komga'' None))
     \<lparr>sd_logo_url := ''https://cdn.jsdelivr.net/gh/homarr-labs/dashboard-icons/svg/komga.svg''\<rparr>"

definition Overseerr :: ServiceDefinition where
  "Overseerr =
     (service_definition ''Overseerr''
       ''Open source software application for managing requests for your media library.''
       ServiceCategory_Media
       (Pattern_AllOf [Pattern_Endpoint (PortType_new_tcp 5055) ''/site.webmanifest''
         ''Overseerr'' None, Pattern_Not (Pattern_Endpoint (PortType_new_tcp 5055) ''/''
         ''Jellyseerr'' None)]))
     \<lparr>sd_logo_url := ''https://cdn.jsdelivr.net/gh/homarr-labs/dashboard-icons/svg/overseerr.svg''\<rparr>"

definition Plex :: ServiceDefinition where
  "Plex =
     (service_definition ''Plex Media Server''
       ''Media server for streaming personal content''
       ServiceCategory_Media
       (Pattern_AnyOf [Pattern_Endpoint (PortType_new_tcp 32400) ''/web/index.html'' ''Plex''
         None, Pattern_Header (Some (PortType_new_tcp 32400)) ''X-Plex-Protocol'' ''1.0'' (Some
         (401, 401))]))
     \<lparr>sd_logo_url := ''https://cdn.jsdelivr.net/gh/homarr-labs/dashboard-icons/svg/plex.svg''\<rparr>"

definition SABnzbd :: ServiceDefinition where
  "SABnzbd =
     (service_definition ''SABnzbd''
       ''A NZB Files Downloader.''
       ServiceCategory_Media
       (Pattern_Endpoint PortType_Http8080 ''/Content/manifest.json'' ''SABnzbd'' None))
     \<lparr>sd_logo_url := ''https://cdn.jsdelivr.net/gh/homarr-labs/dashboard-icons/svg/sabnzbd.svg''\<rparr>"

definition Slskd :: ServiceDefinition where
  "Slskd =
     (service_definition ''Slskd''
       ''A modern client-server application for the Soulseek file-sharing network''
       ServiceCategory_Media
       (Pattern_AllOf [Pattern_Endpoint (PortType_new_tcp 5030) ''/'' ''slskd'' None,
         Pattern_Endpoint (PortType_new_tcp 5030) ''/api/v0/session/enabled'' ''true'' None]))
     \<lparr>sd_logo_url := ''https://cdn.jsdelivr.net/gh/homarr-labs/dashboard-icons/svg/slskd.svg''\<rparr>"

definition Tautulli :: ServiceDefinition where
  "Tautulli =
     (service_definition ''Tautulli''
       ''Monitor, view analytics, and receive notifications about your Plex Media Server.''
       ServiceCategory_Media
       (Pattern_Endpoint (PortType_new_tcp 8181) ''/'' ''Tautulli'' None))
     \<lparr>sd_logo_url := ''https://cdn.jsdelivr.net/gh/homarr-labs/dashboard-icons/svg/tautulli.svg''\<rparr>"

definition Domoticz :: ServiceDefinition where
  "Domoticz =
     (service_definition ''Domoticz''
       ''Home automation system''
       ServiceCategory_HomeAutomation
       (Pattern_Endpoint PortType_Http8080 ''/json.htm'' ''domoticz'' None))
     \<lparr>sd_logo_url := ''https://cdn.jsdelivr.net/gh/homarr-labs/dashboard-icons/png/domoticz.png''\<rparr>"

definition ESPHome :: ServiceDefinition where
  "ESPHome =
     (service_definition ''ESPHome''
       ''ESP device management''
       ServiceCategory_HomeAutomation
       (Pattern_Port (PortType_new_tcp 6052)))
     \<lparr>sd_logo_url := ''https://cdn.jsdelivr.net/gh/homarr-labs/dashboard-icons/svg/esphome.svg''\<rparr>"

definition HomeAssistant :: ServiceDefinition where
  "HomeAssistant =
     (service_definition ''Home Assistant''
       ''Open-source home automation platform''
       ServiceCategory_HomeAutomation
       (Pattern_Endpoint (PortType_new_tcp 8123) ''/'' ''home assistant'' None))
     \<lparr>sd_logo_url := ''https://cdn.jsdelivr.net/gh/homarr-labs/dashboard-icons/svg/home-assistant.svg''\<rparr>"

definition OpenHAB :: ServiceDefinition where
  "OpenHAB =
     (service_definition ''openHAB''
       ''Home automation platform''
       ServiceCategory_HomeAutomation
       (Pattern_Endpoint PortType_Http8080 ''/rest/'' ''openhab'' None))
     \<lparr>sd_logo_url := ''https://cdn.jsdelivr.net/gh/homarr-labs/dashboard-icons/svg/openhab.svg''\<rparr>"

definition PhilipsHueBridge :: ServiceDefinition where
  "PhilipsHueBridge =
     (service_definition ''Philips Hue Bridge''
       ''Philips Hue Bridge for lighting control''
       ServiceCategory_IoT
       (Pattern_AllOf [Pattern_MacVendor Vendor_PHILIPS, Pattern_Endpoint PortType_Http ''/''
         ''hue'' None]))
     \<lparr>sd_logo_url := ''https://simpleicons.org/icons/philipshue.svg'',
      sd_logo_needs_white_background := True\<rparr>"

definition Zigbee2MQTT :: ServiceDefinition where
  "Zigbee2MQTT =
     (service_definition ''Zigbee2MQTT''
       ''Zigbee to MQTT bridge''
       ServiceCategory_HomeAutomation
       (Pattern_Endpoint PortType_Http8080 ''/'' ''Zigbee2MQTT WindFront'' None))
     \<lparr>sd_logo_url := ''https://cdn.jsdelivr.net/gh/homarr-labs/dashboard-icons/svg/zigbee2mqtt.svg''\<rparr>"

definition ZWaveJS :: ServiceDefinition where
  "ZWaveJS =
     (service_definition ''Z-Wave JS''
       ''Z-Wave controller server''
       ServiceCategory_HomeAutomation
       (Pattern_Endpoint (PortType_new_tcp 8091) ''/health'' [] None))
     \<lparr>sd_is_generic := True,
      sd_logo_url := ''https://cdn.jsdelivr.net/gh/homarr-labs/dashboard-icons/svg/z-wave-js-ui.svg''\<rparr>"

definition DockerSwarm :: ServiceDefinition where
  "DockerSwarm =
     (service_definition ''Docker Swarm''
       ''Docker native clustering and orchestration''
       ServiceCategory_Virtualization
       (Pattern_AllOf [Pattern_Port (PortType_new_tcp 2377), Pattern_Port (PortType_new_tcp
         7946)]))
     \<lparr>sd_logo_url := ''https://cdn.jsdelivr.net/gh/homarr-labs/dashboard-icons/svg/docker.svg''\<rparr>"

definition Kubernetes :: ServiceDefinition where
  "Kubernetes =
     (service_definition ''Kubernetes''
       ''Container orchestration platform''
       ServiceCategory_Virtualization
       (Pattern_AllOf [Pattern_Port PortType_Kubernetes, Pattern_AnyOf [Pattern_Port
         (PortType_new_tcp 10250), Pattern_Port (PortType_new_tcp 10259), Pattern_Port
         (PortType_new_tcp 10257), Pattern_Port (PortType_new_tcp 10256)]]))
     \<lparr>sd_logo_url := ''https://cdn.jsdelivr.net/gh/homarr-labs/dashboard-icons/svg/kubernetes.svg''\<rparr>"

definition Nomad :: ServiceDefinition where
  "Nomad =
     (service_definition ''Nomad''
       ''Workload orchestration''
       ServiceCategory_Virtualization
       (Pattern_Endpoint (PortType_new_tcp 4646) ''/v1/status/leader'' [] None))
     \<lparr>sd_logo_url := ''https://cdn.jsdelivr.net/gh/homarr-labs/dashboard-icons/svg/nomad.svg''\<rparr>"

definition OpenShift :: ServiceDefinition where
  "OpenShift =
     (service_definition ''OpenShift''
       ''Enterprise Kubernetes''
       ServiceCategory_Virtualization
       (Pattern_Endpoint PortType_Kubernetes ''/healthz'' ''openshift'' None))
     \<lparr>sd_logo_url := ''https://cdn.jsdelivr.net/gh/homarr-labs/dashboard-icons/svg/openshift.svg''\<rparr>"

definition Portainer :: ServiceDefinition where
  "Portainer =
     (service_definition ''Portainer''
       ''Container management web interface''
       ServiceCategory_Virtualization
       (Pattern_AnyOf [Pattern_Endpoint PortType_Https9443 ''/#!/auth'' ''portainer.io'' None,
         Pattern_Endpoint PortType_Http9000 ''/'' ''portainer.io'' None]))
     \<lparr>sd_logo_url := ''https://cdn.jsdelivr.net/gh/homarr-labs/dashboard-icons/svg/portainer.svg''\<rparr>"

definition Rancher :: ServiceDefinition where
  "Rancher =
     (service_definition ''Rancher''
       ''Kubernetes management''
       ServiceCategory_Virtualization
       (Pattern_Endpoint PortType_Http ''/v3'' ''rancher'' None))
     \<lparr>sd_logo_url := ''https://cdn.jsdelivr.net/gh/homarr-labs/dashboard-icons/svg/rancher.svg''\<rparr>"

end
