(* ===== verification/Definitions_Applications.thy ===== *)
theory Definitions_Applications
  imports Definitions_Network
begin

section \<open>Service definitions: applications\<close>

text \<open>
  The definitions of \<^verbatim>\<open>backend/src/server/services/definitions\<close> in the section
  "application services" of its \<^verbatim>\<open>mod.rs\<close>, one constant per file, named after
  the struct. Where files share a struct name the constant carries the module name too.
\<close>

definition Cassandra :: ServiceDefinition where
  "Cassandra =
     (service_definition ''Cassandra''
       ''Distributed NoSQL database''
       ServiceCategory_Database
       (Pattern_Port PortType_Cassandra))
     \<lparr>sd_is_generic := True,
      sd_logo_url := ''https://cdn.jsdelivr.net/gh/homarr-labs/dashboard-icons/svg/apache-cassandra.svg''\<rparr>"

definition CouchDB :: ServiceDefinition where
  "CouchDB =
     (service_definition ''CouchDB''
       ''NoSQL document database''
       ServiceCategory_Database
       (Pattern_Endpoint PortType_CouchDb ''/'' ''couchdb'' None))
     \<lparr>sd_is_generic := True,
      sd_logo_url := ''https://cdn.jsdelivr.net/gh/homarr-labs/dashboard-icons/svg/couchdb.svg''\<rparr>"

definition Denodo :: ServiceDefinition where
  "Denodo =
     (service_definition ''Denodo''
       ''Data virtualization''
       ServiceCategory_Database
       (Pattern_AllOf [Pattern_Port (PortType_new_tcp 9990), Pattern_Port (PortType_new_tcp
         9996), Pattern_Port (PortType_new_tcp 9090), Pattern_Port (PortType_new_tcp 9099)]))
     \<lparr>sd_logo_url := ''https://cdn.jsdelivr.net/gh/homarr-labs/dashboard-icons/svg/denodo.svg''\<rparr>"

definition Elasticsearch :: ServiceDefinition where
  "Elasticsearch =
     (service_definition ''Elasticsearch''
       ''Distributed search and analytics engine''
       ServiceCategory_Database
       (Pattern_Endpoint PortType_Elasticsearch ''/'' ''lucene'' None))
     \<lparr>sd_is_generic := True,
      sd_logo_url := ''https://cdn.jsdelivr.net/gh/homarr-labs/dashboard-icons/svg/elasticsearch.svg''\<rparr>"

definition InfluxDB :: ServiceDefinition where
  "InfluxDB =
     (service_definition ''InfluxDB''
       ''Time series database''
       ServiceCategory_Database
       (Pattern_Port PortType_InfluxDb))
     \<lparr>sd_is_generic := True,
      sd_logo_url := ''https://cdn.jsdelivr.net/gh/homarr-labs/dashboard-icons/svg/influxdb.svg'',
      sd_logo_needs_white_background := True\<rparr>"

definition MariaDB :: ServiceDefinition where
  "MariaDB =
     (service_definition ''MariaDB''
       ''MySQL-compatible relational database''
       ServiceCategory_Database
       Pattern_None)
     \<lparr>sd_is_generic := True,
      sd_logo_url := ''https://cdn.jsdelivr.net/gh/homarr-labs/dashboard-icons/svg/mariadb.svg'',
      sd_logo_needs_white_background := True\<rparr>"

definition MongoDB :: ServiceDefinition where
  "MongoDB =
     (service_definition ''MongoDB''
       ''NoSQL document database''
       ServiceCategory_Database
       (Pattern_Port PortType_MongoDB))
     \<lparr>sd_is_generic := True,
      sd_logo_url := ''https://cdn.jsdelivr.net/gh/homarr-labs/dashboard-icons/svg/mongodb.svg'',
      sd_logo_needs_white_background := True\<rparr>"

definition MSSQLServer :: ServiceDefinition where
  "MSSQLServer =
     (service_definition ''Microsoft SQL Server''
       ''Microsoft relational database''
       ServiceCategory_Database
       (Pattern_Port PortType_MsSql))
     \<lparr>sd_is_generic := True,
      sd_logo_url := ''https://cdn.jsdelivr.net/gh/homarr-labs/dashboard-icons/svg/microsoft-sql-server-light.svg'',
      sd_logo_needs_white_background := True\<rparr>"

definition MySQL :: ServiceDefinition where
  "MySQL =
     (service_definition ''MySQL''
       ''Open-source relational database''
       ServiceCategory_Database
       (Pattern_Port PortType_MySql))
     \<lparr>sd_is_generic := True,
      sd_logo_url := ''https://cdn.jsdelivr.net/gh/homarr-labs/dashboard-icons/svg/mysql.svg'',
      sd_logo_needs_white_background := True\<rparr>"

definition Neo4j :: ServiceDefinition where
  "Neo4j =
     (service_definition ''Neo4j''
       ''Graph database''
       ServiceCategory_Database
       (Pattern_AnyOf [Pattern_Port (PortType_new_tcp 7473), Pattern_Port (PortType_new_tcp
         7687)]))
     \<lparr>sd_logo_url := ''https://cdn.jsdelivr.net/gh/homarr-labs/dashboard-icons/png/neo4j.png''\<rparr>"

definition OracleDB :: ServiceDefinition where
  "OracleDB =
     (service_definition ''Oracle Database''
       ''Enterprise relational database''
       ServiceCategory_Database
       (Pattern_Port (PortType_new_tcp 1521)))
     \<lparr>sd_logo_url := ''https://cdn.jsdelivr.net/gh/homarr-labs/dashboard-icons/svg/oracle.svg'',
      sd_logo_needs_white_background := True\<rparr>"

definition PostgreSQL :: ServiceDefinition where
  "PostgreSQL =
     (service_definition ''PostgreSQL''
       ''Open-source relational database''
       ServiceCategory_Database
       (Pattern_Port PortType_PostgreSQL))
     \<lparr>sd_is_generic := True,
      sd_logo_url := ''https://cdn.jsdelivr.net/gh/homarr-labs/dashboard-icons/svg/postgresql.svg'',
      sd_logo_needs_white_background := True\<rparr>"

definition RedisDB :: ServiceDefinition where
  "RedisDB =
     (service_definition ''Redis''
       ''In-memory data store and cache''
       ServiceCategory_Database
       (Pattern_Port PortType_Redis))
     \<lparr>sd_is_generic := True,
      sd_logo_url := ''https://cdn.jsdelivr.net/gh/homarr-labs/dashboard-icons/svg/redis.svg''\<rparr>"

definition ActiveMQ :: ServiceDefinition where
  "ActiveMQ =
     (service_definition ''ActiveMQ''
       ''Message broker''
       ServiceCategory_MessageQueue
       (Pattern_Endpoint (PortType_new_tcp 8161) ''/admin'' ''activemq'' None))
     \<lparr>sd_logo_url := ''https://www.vectorlogo.zone/logos/apache_activemq/apache_activemq-icon.svg''\<rparr>"

definition Amqp :: ServiceDefinition where
  "Amqp =
     (service_definition ''AMQP''
       ''Advanced Message Queuing Protocol''
       ServiceCategory_MessageQueue
       (Pattern_AnyOf [Pattern_Port PortType_AMQP, Pattern_Port PortType_AMQPTls]))
     \<lparr>sd_is_generic := True\<rparr>"

definition Kafka :: ServiceDefinition where
  "Kafka =
     (service_definition ''Kafka''
       ''Event streaming platform''
       ServiceCategory_MessageQueue
       (Pattern_Port PortType_Kafka))
     \<lparr>sd_is_generic := True,
      sd_logo_url := ''https://simpleicons.org/icons/apachekafka.svg'',
      sd_logo_needs_white_background := True\<rparr>"

definition MQTT :: ServiceDefinition where
  "MQTT =
     (service_definition ''MQTT''
       ''Generic MQTT broker''
       ServiceCategory_MessageQueue
       (Pattern_AnyOf [Pattern_Port PortType_Mqtt, Pattern_Port PortType_MqttTls]))
     \<lparr>sd_is_generic := True,
      sd_logo_url := ''https://cdn.jsdelivr.net/gh/homarr-labs/dashboard-icons/svg/mqtt.svg''\<rparr>"

definition Ntfy :: ServiceDefinition where
  "Ntfy =
     (service_definition ''Ntfy''
       ''Simple HTTP-based pub-sub notification service''
       ServiceCategory_MessageQueue
       (Pattern_AnyOf [Pattern_Endpoint PortType_Http ''/'' ''ntfy web'' None, Pattern_Endpoint
         (PortType_new_tcp 2856) ''/'' ''ntfy web'' None]))
     \<lparr>sd_logo_url := ''https://cdn.jsdelivr.net/gh/homarr-labs/dashboard-icons/svg/ntfy.svg''\<rparr>"

definition RabbitMQ :: ServiceDefinition where
  "RabbitMQ =
     (service_definition ''RabbitMQ''
       ''Message broker''
       ServiceCategory_MessageQueue
       (Pattern_Endpoint PortType_RabbitMqMgmt ''/'' ''rabbitmq'' None))
     \<lparr>sd_is_generic := True,
      sd_logo_url := ''https://cdn.jsdelivr.net/gh/homarr-labs/dashboard-icons/svg/rabbitmq.svg''\<rparr>"

definition ConfluenceServer :: ServiceDefinition where
  "ConfluenceServer =
     (service_definition ''Confluence''
       ''Team collaboration wiki''
       ServiceCategory_ProjectManagement
       (Pattern_Endpoint (PortType_new_tcp 8090) ''/'' ''confluence'' None))
     \<lparr>sd_logo_url := ''https://cdn.jsdelivr.net/gh/homarr-labs/dashboard-icons/svg/confluence.svg''\<rparr>"

definition Discourse :: ServiceDefinition where
  "Discourse =
     (service_definition ''Discourse''
       ''Discussion platform''
       ServiceCategory_Publishing
       (Pattern_Endpoint PortType_Http ''/srv/status'' ''discourse'' None))
     \<lparr>sd_logo_url := ''https://cdn.jsdelivr.net/gh/homarr-labs/dashboard-icons/svg/discourse.svg''\<rparr>"

definition JiraServer :: ServiceDefinition where
  "JiraServer =
     (service_definition ''Jira''
       ''Project management platform''
       ServiceCategory_ProjectManagement
       (Pattern_Endpoint PortType_Http8080 ''/rest/api/2/serverInfo'' ''jira'' (Some (200,
         300))))
     \<lparr>sd_logo_url := ''https://cdn.jsdelivr.net/gh/homarr-labs/dashboard-icons/svg/jira.svg''\<rparr>"

definition Mattermost :: ServiceDefinition where
  "Mattermost =
     (service_definition ''Mattermost''
       ''Team messaging platform''
       ServiceCategory_Messaging
       (Pattern_Endpoint (PortType_new_tcp 8065) ''/api/v4/system/ping'' [] None))
     \<lparr>sd_logo_url := ''https://cdn.jsdelivr.net/gh/homarr-labs/dashboard-icons/svg/mattermost.svg'',
      sd_logo_needs_white_background := True\<rparr>"

definition Radicale :: ServiceDefinition where
  "Radicale =
     (service_definition ''Radicale''
       ''Free and Open-Source CalDAV and CardDAV Server''
       ServiceCategory_Office
       (Pattern_Endpoint (PortType_new_tcp 5232) ''/.web/'' ''Radicale Web Interface'' None))
     \<lparr>sd_logo_url := ''https://cdn.jsdelivr.net/gh/homarr-labs/dashboard-icons/svg/radicale.svg''\<rparr>"

definition RocketChat :: ServiceDefinition where
  "RocketChat =
     (service_definition ''Rocket.Chat''
       ''Team communication platform''
       ServiceCategory_Messaging
       (Pattern_Endpoint PortType_Http3000 ''/api/info'' ''rocket'' None))
     \<lparr>sd_logo_url := ''https://cdn.jsdelivr.net/gh/homarr-labs/dashboard-icons/svg/rocket-chat.svg''\<rparr>"

definition AnsibleAWX :: ServiceDefinition where
  "AnsibleAWX =
     (service_definition ''AWX''
       ''Ansible automation platform''
       ServiceCategory_Development
       (Pattern_Endpoint PortType_Http ''/api/v2/'' ''awx'' (Some (200, 300))))
     \<lparr>sd_logo_url := ''https://cdn.jsdelivr.net/gh/homarr-labs/dashboard-icons/svg/ansible.svg''\<rparr>"

definition ArgoCD :: ServiceDefinition where
  "ArgoCD =
     (service_definition ''ArgoCD''
       ''GitOps continuous delivery''
       ServiceCategory_Development
       (Pattern_Endpoint PortType_Http8080 ''/api/version'' ''argocd'' None))
     \<lparr>sd_logo_url := ''https://cdn.jsdelivr.net/gh/homarr-labs/dashboard-icons/svg/argo-cd.svg''\<rparr>"

definition Bamboo :: ServiceDefinition where
  "Bamboo =
     (service_definition ''Bamboo''
       ''CI/CD server''
       ServiceCategory_Development
       (Pattern_Endpoint (PortType_new_tcp 8085) ''/'' ''bamboo'' None))
     \<lparr>sd_logo_url := ''https://cdn.jsdelivr.net/gh/homarr-labs/dashboard-icons/svg/atlassian-bamboo.svg''\<rparr>"

definition BitbucketServer :: ServiceDefinition where
  "BitbucketServer =
     (service_definition ''Bitbucket Server''
       ''Git repository management''
       ServiceCategory_Development
       (Pattern_Endpoint (PortType_new_tcp 7990) ''/'' ''bitbucket'' None))
     \<lparr>sd_logo_url := ''https://cdn.jsdelivr.net/gh/homarr-labs/dashboard-icons/svg/bitbucket.svg''\<rparr>"

definition DroneCI :: ServiceDefinition where
  "DroneCI =
     (service_definition ''Drone''
       ''Container-native CI platform''
       ServiceCategory_Development
       (Pattern_AllOf [Pattern_Endpoint PortType_Http ''/'' ''drone'' None, Pattern_Endpoint
         PortType_Http ''/api/user'' [] None]))
     \<lparr>sd_logo_url := ''https://cdn.jsdelivr.net/gh/homarr-labs/dashboard-icons/png/drone.png'',
      sd_logo_needs_white_background := True\<rparr>"

definition Forgejo :: ServiceDefinition where
  "Forgejo =
     (service_definition ''Forgejo''
       ''DevOps platform''
       ServiceCategory_Development
       (Pattern_Endpoint PortType_Http3000 ''/explore/repos'' ''Powered by Forgejo'' None))
     \<lparr>sd_logo_url := ''https://cdn.jsdelivr.net/gh/homarr-labs/dashboard-icons/svg/forgejo.svg''\<rparr>"

definition Gitea :: ServiceDefinition where
  "Gitea =
     (service_definition ''Gitea''
       ''DevOps platform''
       ServiceCategory_Development
       (Pattern_Endpoint PortType_Http3000 ''/explore/repos'' ''Powered by Gitea'' None))
     \<lparr>sd_logo_url := ''https://cdn.jsdelivr.net/gh/homarr-labs/dashboard-icons/svg/gitea.svg''\<rparr>"

definition GitHubEnterprise :: ServiceDefinition where
  "GitHubEnterprise =
     (service_definition ''GitHub''
       ''Self-hosted GitHub''
       ServiceCategory_Development
       Pattern_None)
     \<lparr>sd_logo_url := ''https://cdn.jsdelivr.net/gh/homarr-labs/dashboard-icons/svg/github.svg'',
      sd_logo_needs_white_background := True\<rparr>"

definition GitLab :: ServiceDefinition where
  "GitLab =
     (service_definition ''GitLab''
       ''DevOps platform''
       ServiceCategory_Development
       (Pattern_AllOf [Pattern_Header None ''content-security-policy'' ''gitlab'' None,
         Pattern_Endpoint PortType_Http ''/'' ''gitlab'' None]))
     \<lparr>sd_logo_url := ''https://cdn.jsdelivr.net/gh/homarr-labs/dashboard-icons/svg/gitlab.svg''\<rparr>"

definition Jenkins :: ServiceDefinition where
  "Jenkins =
     (service_definition ''Jenkins''
       ''Automation server for CI/CD''
       ServiceCategory_Development
       (Pattern_Endpoint PortType_Http8080 ''/'' ''jenkins.io'' None))
     \<lparr>sd_logo_url := ''https://cdn.jsdelivr.net/gh/homarr-labs/dashboard-icons/svg/jenkins.svg''\<rparr>"

definition NATS :: ServiceDefinition where
  "NATS =
     (service_definition ''NATS''
       ''Cloud-native messaging system''
       ServiceCategory_MessageQueue
       (Pattern_Endpoint (PortType_new_tcp 8222) ''/varz'' [] None))
     \<lparr>sd_logo_url := ''https://simpleicons.org/icons/natsdotio.svg'',
      sd_logo_needs_white_background := True\<rparr>"

definition Spinnaker :: ServiceDefinition where
  "Spinnaker =
     (service_definition ''Spinnaker''
       ''Multi-cloud CD platform''
       ServiceCategory_Development
       Pattern_None)
     \<lparr>sd_logo_url := ''https://simpleicons.org/icons/spinnaker.svg'',
      sd_logo_needs_white_background := True\<rparr>"

definition TeamCity :: ServiceDefinition where
  "TeamCity =
     (service_definition ''TeamCity''
       ''CI/CD server''
       ServiceCategory_Development
       (Pattern_Endpoint (PortType_new_tcp 8111) ''/'' ''teamcity'' None))
     \<lparr>sd_logo_url := ''https://cdn.jsdelivr.net/gh/homarr-labs/dashboard-icons/svg/teamcity-light.svg''\<rparr>"

definition Ghost :: ServiceDefinition where
  "Ghost =
     (service_definition ''Ghost''
       ''Publishing platform''
       ServiceCategory_Publishing
       (Pattern_Endpoint (PortType_new_tcp 2368) ''/'' ''ghost'' None))
     \<lparr>sd_logo_url := ''https://cdn.jsdelivr.net/gh/homarr-labs/dashboard-icons/png/ghost.png'',
      sd_logo_needs_white_background := True\<rparr>"

definition Tomcat :: ServiceDefinition where
  "Tomcat =
     (service_definition ''Tomcat''
       ''Java servlet container''
       ServiceCategory_Development
       (Pattern_Endpoint PortType_Http8080 ''/'' ''apache tomcat'' None))
     \<lparr>sd_logo_url := ''https://cdn.jsdelivr.net/gh/homarr-labs/dashboard-icons/svg/apache-tomcat.svg''\<rparr>"

definition WebService_web_service :: ServiceDefinition where
  "WebService_web_service =
     service_definition ''Web Service''
       ''A generic web service''
       ServiceCategory_Unknown
       Pattern_None"

definition WordPress :: ServiceDefinition where
  "WordPress =
     (service_definition ''WordPress''
       ''Content management system''
       ServiceCategory_Publishing
       (Pattern_Endpoint PortType_Http ''/'' ''wp-content'' None))
     \<lparr>sd_logo_url := ''https://cdn.jsdelivr.net/gh/homarr-labs/dashboard-icons/svg/wordpress.svg''\<rparr>"

definition ActiveDirectory :: ServiceDefinition where
  "ActiveDirectory =
     (service_definition ''Active Directory''
       ''Microsoft directory service''
       ServiceCategory_IdentityAndAccess
       (Pattern_AllOf [Pattern_Port PortType_Ldap, Pattern_Port PortType_Samba, Pattern_Port
         PortType_Kerberos]))
     \<lparr>sd_logo_url := ''https://cdn.jsdelivr.net/gh/homarr-labs/dashboard-icons/svg/microsoft.svg''\<rparr>"

definition Authentik :: ServiceDefinition where
  "Authentik =
     (service_definition ''Authentik''
       ''A self-hosted, open source identity provider''
       ServiceCategory_IdentityAndAccess
       (Pattern_AnyOf [Pattern_Endpoint PortType_Http9000 ''/'' ''window.authentik'' None,
         Pattern_Endpoint PortType_Https9443 ''/'' ''window.authentik'' None]))
     \<lparr>sd_logo_url := ''https://cdn.jsdelivr.net/gh/homarr-labs/dashboard-icons/svg/authentik.svg''\<rparr>"

definition Bitwarden :: ServiceDefinition where
  "Bitwarden =
     (service_definition ''Bitwarden''
       ''Password manager''
       ServiceCategory_IdentityAndAccess
       (Pattern_Endpoint PortType_Http ''/api/config'' ''bitwarden'' None))
     \<lparr>sd_logo_url := ''https://cdn.jsdelivr.net/gh/homarr-labs/dashboard-icons/svg/bitwarden.svg''\<rparr>"

definition FreeIPA :: ServiceDefinition where
  "FreeIPA =
     (service_definition ''FreeIPA''
       ''Identity management system''
       ServiceCategory_IdentityAndAccess
       (Pattern_Endpoint PortType_Http ''/ipa/ui'' [] (Some (200, 300))))
     \<lparr>sd_logo_url := ''https://cdn.jsdelivr.net/gh/homarr-labs/dashboard-icons/svg/freeipa.svg''\<rparr>"

definition Kerberos :: ServiceDefinition where
  "Kerberos =
     (service_definition ''Kerberos''
       ''Kerberos authentication service''
       ServiceCategory_IdentityAndAccess
       (Pattern_Port PortType_Kerberos))
     \<lparr>sd_is_generic := True\<rparr>"

definition Keycloak :: ServiceDefinition where
  "Keycloak =
     (service_definition ''Keycloak''
       ''Identity and access management''
       ServiceCategory_IdentityAndAccess
       (Pattern_Endpoint PortType_Http8080 ''/'' ''/keycloak/'' None))
     \<lparr>sd_logo_url := ''https://cdn.jsdelivr.net/gh/homarr-labs/dashboard-icons/svg/keycloak.svg''\<rparr>"

definition LDAP :: ServiceDefinition where
  "LDAP =
     (service_definition ''Open LDAP''
       ''Generic LDAP directory service''
       ServiceCategory_IdentityAndAccess
       (Pattern_AnyOf [Pattern_Port PortType_Ldap, Pattern_Port PortType_Ldaps]))
     \<lparr>sd_is_generic := True,
      sd_logo_url := ''https://cdn.jsdelivr.net/gh/homarr-labs/dashboard-icons/svg/openldap.svg''\<rparr>"

definition Vault :: ServiceDefinition where
  "Vault =
     (service_definition ''Vault''
       ''Secrets management''
       ServiceCategory_IdentityAndAccess
       (Pattern_Endpoint (PortType_new_tcp 8200) ''/v1/sys/health'' ''vault'' None))
     \<lparr>sd_logo_url := ''https://cdn.jsdelivr.net/gh/homarr-labs/dashboard-icons/svg/hashicorp-vault.svg''\<rparr>"

definition Vaultwarden :: ServiceDefinition where
  "Vaultwarden =
     (service_definition ''Vaultwarden''
       ''Self-hosted Bitwarden-compatible server, written in Rust''
       ServiceCategory_IdentityAndAccess
       (Pattern_Endpoint (PortType_new_tcp 8000) ''/manifest.json'' ''Vaultwarden Web'' None))
     \<lparr>sd_logo_url := ''https://cdn.jsdelivr.net/gh/homarr-labs/dashboard-icons/svg/vaultwarden.svg'',
      sd_logo_needs_white_background := True\<rparr>"

definition GlanceApp :: ServiceDefinition where
  "GlanceApp =
     (service_definition ''Glance''
       ''A self-hosted dashboard that puts all your feeds in one place''
       ServiceCategory_Dashboard
       (Pattern_Endpoint PortType_Http8080 ''/manifest.json'' ''Glance'' None))
     \<lparr>sd_logo_url := ''https://cdn.jsdelivr.net/gh/homarr-labs/dashboard-icons/svg/glance.svg''\<rparr>"

definition Homarr :: ServiceDefinition where
  "Homarr =
     (service_definition ''Homarr''
       ''A sleek, modern dashboard''
       ServiceCategory_Dashboard
       (Pattern_Port (PortType_new_tcp 7575)))
     \<lparr>sd_logo_url := ''https://cdn.jsdelivr.net/gh/homarr-labs/dashboard-icons/svg/homarr.svg''\<rparr>"

definition Homepage :: ServiceDefinition where
  "Homepage =
     (service_definition ''Homepage''
       ''A self-hosted dashboard for your homelab''
       ServiceCategory_Dashboard
       (Pattern_Endpoint PortType_Http3000 ''/site.webmanifest'' ''Homepage'' None))
     \<lparr>sd_logo_url := ''https://cdn.jsdelivr.net/gh/homarr-labs/dashboard-icons/webp/homepage.webp''\<rparr>"

definition Jump :: ServiceDefinition where
  "Jump =
     service_definition ''Jump''
       ''A self-hosted startpage and real-time status page''
       ServiceCategory_Dashboard
       (Pattern_Endpoint (PortType_new_tcp 8123) ''/'' ''Jump'' None)"

definition LinkStack :: ServiceDefinition where
  "LinkStack =
     (service_definition ''LinkStack''
       ''A highly customizable link sharing platform''
       ServiceCategory_Dashboard
       (Pattern_AllOf [Pattern_Header None ''set-cookie'' ''linkstack_session'' None,
         Pattern_Endpoint PortType_Http8080 ''/'' ''LinkStack'' None]))
     \<lparr>sd_logo_url := ''https://cdn.jsdelivr.net/gh/homarr-labs/dashboard-icons/svg/linkstack.svg''\<rparr>"

definition ProxmoxDatacenterManager :: ServiceDefinition where
  "ProxmoxDatacenterManager =
     (service_definition ''Proxmox Datacenter Manager''
       ''A single pane of glass for managing clustered & non-clustered Proxmox nodes''
       ServiceCategory_Dashboard
       (Pattern_Endpoint PortType_Https8443 ''/'' ''pdm-ui_bundle.js'' None))
     \<lparr>sd_logo_url := ''https://cdn.jsdelivr.net/gh/homarr-labs/dashboard-icons/svg/proxmox.svg''\<rparr>"

definition APC :: ServiceDefinition where
  "APC =
     (service_definition ''APC''
       ''APC Network-Connected UPS''
       ServiceCategory_Monitoring
       (Pattern_Endpoint PortType_Http ''/'' ''Schneider Electric'' None))
     \<lparr>sd_logo_url := ''https://cdn.jsdelivr.net/gh/homarr-labs/dashboard-icons/svg/apc.svg''\<rparr>"

definition Cadvisor :: ServiceDefinition where
  "Cadvisor =
     (service_definition ''cAdvisor''
       ''Monitoring for container''
       ServiceCategory_Monitoring
       (Pattern_Endpoint PortType_Http8080 ''/api/v1.0/containers/'' ''cAdvisor'' None))
     \<lparr>sd_logo_url := ''https://cdn.jsdelivr.net/gh/homarr-labs/dashboard-icons/png/cadvisor.png''\<rparr>"

definition CoolerControl :: ServiceDefinition where
  "CoolerControl =
     (service_definition ''CoolerControl''
       ''Monitor temperatures, fan speeds, and power in real time.''
       ServiceCategory_Monitoring
       (Pattern_Endpoint (PortType_new_tcp 11987) ''/'' ''CoolerControl'' None))
     \<lparr>sd_logo_url := ''https://cdn.jsdelivr.net/gh/homarr-labs/dashboard-icons/svg/cooler-control.svg''\<rparr>"

definition ElasticAPM :: ServiceDefinition where
  "ElasticAPM =
     (service_definition ''Elastic APM''
       ''Application performance monitoring''
       ServiceCategory_Monitoring
       (Pattern_Endpoint (PortType_new_tcp 8200) ''/'' ''apm'' None))
     \<lparr>sd_logo_url := ''https://cdn.jsdelivr.net/gh/homarr-labs/dashboard-icons/svg/elastic.svg''\<rparr>"

definition Gatus :: ServiceDefinition where
  "Gatus =
     (service_definition ''Gatus''
       ''Automated developer-oriented status page''
       ServiceCategory_Monitoring
       (Pattern_Endpoint PortType_Http8080 ''/manifest.json'' ''Gatus'' None))
     \<lparr>sd_logo_url := ''https://cdn.jsdelivr.net/gh/homarr-labs/dashboard-icons/svg/gatus.svg''\<rparr>"

definition Glances :: ServiceDefinition where
  "Glances =
     (service_definition ''Glances''
       ''An open-source system cross-platform monitoring tool.''
       ServiceCategory_Monitoring
       (Pattern_Endpoint (PortType_new_tcp 61208) ''/'' ''Glances'' None))
     \<lparr>sd_logo_url := ''https://cdn.jsdelivr.net/gh/homarr-labs/dashboard-icons/svg/glances.svg''\<rparr>"

definition Grafana :: ServiceDefinition where
  "Grafana =
     (service_definition ''Grafana''
       ''Analytics and monitoring visualization platform''
       ServiceCategory_Monitoring
       (Pattern_Endpoint PortType_Http ''/'' ''grafana.com'' None))
     \<lparr>sd_logo_url := ''https://cdn.jsdelivr.net/gh/homarr-labs/dashboard-icons/svg/grafana.svg''\<rparr>"

definition Graylog :: ServiceDefinition where
  "Graylog =
     (service_definition ''Graylog''
       ''Security Information and Event Management (SIEM) solution and log analytics platform''
       ServiceCategory_Monitoring
       (Pattern_AllOf [Pattern_Header None ''content-security-policy'' ''graylog'' None,
         Pattern_Endpoint PortType_Http9000 ''/'' ''Graylog'' None]))
     \<lparr>sd_logo_url := ''https://cdn.jsdelivr.net/gh/homarr-labs/dashboard-icons/svg/graylog.svg''\<rparr>"

definition Icinga :: ServiceDefinition where
  "Icinga =
     (service_definition ''Icinga''
       ''Infrastructure monitoring''
       ServiceCategory_Monitoring
       (Pattern_Endpoint (PortType_new_tcp 5665) ''/v1'' ''icinga'' None))
     \<lparr>sd_logo_url := ''https://cdn.jsdelivr.net/gh/homarr-labs/dashboard-icons/svg/icinga.svg'',
      sd_logo_needs_white_background := True\<rparr>"

definition Jaeger :: ServiceDefinition where
  "Jaeger =
     (service_definition ''Jaeger''
       ''Distributed tracing system''
       ServiceCategory_Monitoring
       (Pattern_Endpoint (PortType_new_tcp 16686) ''/'' ''jaeger'' None))
     \<lparr>sd_is_generic := True,
      sd_logo_url := ''https://cdn.jsdelivr.net/gh/homarr-labs/dashboard-icons/svg/jaeger.svg''\<rparr>"

definition Loki :: ServiceDefinition where
  "Loki =
     (service_definition ''Loki''
       ''Log aggregation system inspired by Prometheus''
       ServiceCategory_Monitoring
       (Pattern_AnyOf [Pattern_Endpoint (PortType_new_tcp 3100) ''/metrics'' ''loki_build_info''
         None]))
     \<lparr>sd_logo_url := ''https://cdn.jsdelivr.net/gh/homarr-labs/dashboard-icons/svg/loki.svg''\<rparr>"

definition Nagios :: ServiceDefinition where
  "Nagios =
     (service_definition ''Nagios''
       ''Infrastructure monitoring''
       ServiceCategory_Monitoring
       (Pattern_Endpoint PortType_Http ''/nagios'' ''nagios'' None))
     \<lparr>sd_is_generic := True,
      sd_logo_url := ''https://cdn.jsdelivr.net/gh/homarr-labs/dashboard-icons/svg/nagios.svg''\<rparr>"

definition Netdata :: ServiceDefinition where
  "Netdata =
     (service_definition ''Netdata''
       ''Real-time performance monitoring''
       ServiceCategory_Monitoring
       (Pattern_Endpoint (PortType_new_tcp 19999) ''/api/v1/info'' ''netdata'' None))
     \<lparr>sd_is_generic := True,
      sd_logo_url := ''https://cdn.jsdelivr.net/gh/homarr-labs/dashboard-icons/svg/netdata.svg''\<rparr>"

definition Prometheus :: ServiceDefinition where
  "Prometheus =
     (service_definition ''Prometheus''
       ''Time-series monitoring and alerting system''
       ServiceCategory_Monitoring
       (Pattern_AnyOf [Pattern_Endpoint PortType_Http ''/metrics'' ''Prometheus'' None,
         Pattern_Endpoint PortType_Http ''/graph'' ''Prometheus'' None]))
     \<lparr>sd_logo_url := ''https://cdn.jsdelivr.net/gh/homarr-labs/dashboard-icons/svg/prometheus.svg''\<rparr>"

definition Promtail :: ServiceDefinition where
  "Promtail =
     (service_definition ''Promtail''
       ''Agent which ships logs to Grafana Loki''
       ServiceCategory_Monitoring
       (Pattern_AnyOf [Pattern_Endpoint (PortType_new_tcp 9080) ''/metrics''
         ''promtail_build_info'' None, Pattern_Endpoint (PortType_new_tcp 9080) ''/targets''
         ''Promtail'' None]))
     \<lparr>sd_logo_url := ''https://cdn.jsdelivr.net/gh/homarr-labs/dashboard-icons/svg/loki.svg''\<rparr>"

definition Pulse :: ServiceDefinition where
  "Pulse =
     (service_definition ''Pulse''
       ''Proxmox node/cluster/VM/LXC monitor''
       ServiceCategory_Monitoring
       (Pattern_Endpoint (PortType_new_tcp 7655) ''/'' ''Pulse'' None))
     \<lparr>sd_logo_url := ''https://cdn.jsdelivr.net/gh/homarr-labs/dashboard-icons/svg/pulse.svg''\<rparr>"

definition Sensu :: ServiceDefinition where
  "Sensu =
     (service_definition ''Sensu''
       ''Monitoring framework''
       ServiceCategory_Monitoring
       (Pattern_Endpoint (PortType_new_tcp 4567) ''/health'' ''sensu'' None))
     \<lparr>sd_is_generic := True,
      sd_logo_url := ''https://cdn.jsdelivr.net/gh/homarr-labs/dashboard-icons/svg/sensu.svg''\<rparr>"

definition Sentry :: ServiceDefinition where
  "Sentry =
     (service_definition ''Sentry''
       ''Error tracking platform''
       ServiceCategory_Monitoring
       (Pattern_Endpoint PortType_Http9000 ''/api/0/'' ''sentry'' None))
     \<lparr>sd_logo_url := ''https://cdn.jsdelivr.net/gh/homarr-labs/dashboard-icons/svg/sentry.svg'',
      sd_logo_needs_white_background := True\<rparr>"

definition Splunk :: ServiceDefinition where
  "Splunk =
     (service_definition ''Splunk''
       ''Data analytics platform''
       ServiceCategory_Monitoring
       (Pattern_Endpoint (PortType_new_tcp 8000) ''/'' ''splunk'' None))
     \<lparr>sd_logo_url := ''https://cdn.jsdelivr.net/gh/homarr-labs/dashboard-icons/svg/splunk.svg''\<rparr>"

definition UptimeKuma :: ServiceDefinition where
  "UptimeKuma =
     (service_definition ''UptimeKuma''
       ''Self-hosted uptime monitoring tool''
       ServiceCategory_Monitoring
       (Pattern_Endpoint PortType_Http ''/'' ''Uptime Kuma'' None))
     \<lparr>sd_logo_url := ''https://cdn.jsdelivr.net/gh/homarr-labs/dashboard-icons/svg/uptime-kuma.svg''\<rparr>"

definition Wazuh :: ServiceDefinition where
  "Wazuh =
     (service_definition ''Wazuh''
       ''Security platform''
       ServiceCategory_Monitoring
       (Pattern_Endpoint (PortType_new_tcp 55000) ''/'' ''wazuh'' None))
     \<lparr>sd_logo_url := ''https://cdn.jsdelivr.net/gh/homarr-labs/dashboard-icons/svg/wazuh.svg''\<rparr>"

definition Zabbix :: ServiceDefinition where
  "Zabbix =
     (service_definition ''Zabbix''
       ''Enterprise monitoring solution''
       ServiceCategory_Monitoring
       (Pattern_Endpoint PortType_Http ''/zabbix'' ''zabbix'' None))
     \<lparr>sd_logo_url := ''https://cdn.jsdelivr.net/gh/homarr-labs/dashboard-icons/svg/zabbix.svg''\<rparr>"

definition Zipkin :: ServiceDefinition where
  "Zipkin =
     service_definition ''Zipkin''
       ''Distributed tracing system''
       ServiceCategory_Monitoring
       (Pattern_Endpoint (PortType_new_tcp 9411) ''/api/v2/services'' [] None)"

definition Asterisk :: ServiceDefinition where
  "Asterisk =
     (service_definition ''Asterisk''
       ''PBX and VoIP server''
       ServiceCategory_Telephony
       (Pattern_Endpoint (PortType_new_tcp 8088) ''/httpstatus'' ''asterisk'' None))
     \<lparr>sd_logo_url := ''https://cdn.jsdelivr.net/gh/homarr-labs/dashboard-icons/png/asterisk.png''\<rparr>"

definition BigBlueButton :: ServiceDefinition where
  "BigBlueButton =
     (service_definition ''BigBlueButton''
       ''Web conferencing system''
       ServiceCategory_Conferencing
       (Pattern_Endpoint PortType_Http ''/bigbluebutton/api'' [] (Some (200, 300))))
     \<lparr>sd_logo_url := ''https://simpleicons.org/icons/bigbluebutton.svg''\<rparr>"

definition FreePBX :: ServiceDefinition where
  "FreePBX =
     (service_definition ''FreePBX''
       ''PBX web interface''
       ServiceCategory_Telephony
       (Pattern_AllOf [Pattern_Endpoint PortType_Http ''/'' ''freepbx'' None, Pattern_Port
         PortType_Sip]))
     \<lparr>sd_logo_url := ''https://cdn.jsdelivr.net/gh/homarr-labs/dashboard-icons/svg/freepbx.svg''\<rparr>"

definition JitsiMeet :: ServiceDefinition where
  "JitsiMeet =
     (service_definition ''Jitsi Meet''
       ''Video conferencing''
       ServiceCategory_Conferencing
       (Pattern_Endpoint PortType_Https8443 ''/'' ''jitsilogo.png'' None))
     \<lparr>sd_logo_url := ''https://cdn.jsdelivr.net/gh/homarr-labs/dashboard-icons/svg/jitsi-meet.svg''\<rparr>"

definition Mailcow :: ServiceDefinition where
  "Mailcow =
     (service_definition ''mailcow''
       ''Open-source mail server suite (Dockerized)''
       ServiceCategory_Email
       (Pattern_Endpoint PortType_Https ''/api/v1/get/status'' ''mailcow'' None))
     \<lparr>sd_logo_url := ''https://cdn.jsdelivr.net/gh/homarr-labs/dashboard-icons/svg/mailcow.svg''\<rparr>"

definition SIPServer :: ServiceDefinition where
  "SIPServer =
     (service_definition ''SIP Server''
       ''Session initiation protocol''
       ServiceCategory_Telephony
       (Pattern_AnyOf [Pattern_Port PortType_Sip, Pattern_Port PortType_SipTls]))
     \<lparr>sd_is_generic := True\<rparr>"

end
