(* ===== verification/Definitions_Devices.thy ===== *)
theory Definitions_Devices
  imports Definitions_Network
begin

section \<open>Service definitions: end devices, utilities and the program itself\<close>

text \<open>
  The definitions of \<^verbatim>\<open>backend/src/server/services/definitions\<close> in the sections
  "end devices" and "utilities & misc" and "special" of its \<^verbatim>\<open>mod.rs\<close>, one constant per file, named after
  the struct. Where files share a struct name the constant carries the module name too.
\<close>

definition Workstation :: ServiceDefinition where
  "Workstation =
     (service_definition ''Workstation''
       ''Desktop computer for productivity work''
       ServiceCategory_Workstation
       (Pattern_AllOf [Pattern_Port PortType_Rdp, Pattern_Port PortType_Samba]))
     \<lparr>sd_is_generic := True\<rparr>"

definition Client :: ServiceDefinition where
  "Client =
     service_definition ''Client''
       ''A generic client device that initiates connections to services''
       ServiceCategory_Mobile
       Pattern_None"

definition AmazonEcho :: ServiceDefinition where
  "AmazonEcho =
     (service_definition ''Amazon Echo''
       ''Amazon Echo smart speaker''
       ServiceCategory_IoT
       (Pattern_AllOf [Pattern_MacVendor Vendor_AMAZON, Pattern_Port (PortType_new_tcp 40317)]))
     \<lparr>sd_logo_url := ''https://cdn.jsdelivr.net/gh/homarr-labs/dashboard-icons/svg/alexa.svg''\<rparr>"

definition WebService_camera :: ServiceDefinition where
  "WebService_camera =
     (service_definition ''RTSP Camera''
       ''Camera with RTSP Streaming''
       ServiceCategory_IoT
       (Pattern_Port PortType_Rtsp))
     \<lparr>sd_is_generic := True\<rparr>"

definition ChromecastDevice :: ServiceDefinition where
  "ChromecastDevice =
     (service_definition ''Chromecast''
       ''Google Chromecast streaming device''
       ServiceCategory_IoT
       (Pattern_AllOf [Pattern_MacVendor Vendor_GOOGLE, Pattern_Port (PortType_new_tcp 8008),
         Pattern_Port (PortType_new_tcp 8009)]))
     \<lparr>sd_logo_url := ''https://simpleicons.org/icons/googlecast.svg'',
      sd_logo_needs_white_background := True\<rparr>"

definition Frigate :: ServiceDefinition where
  "Frigate =
     (service_definition ''Frigate''
       ''NVR with realtime object detection for IP Cameras''
       ServiceCategory_IoT
       (Pattern_AnyOf [Pattern_Endpoint PortType_Https ''/'' ''<title>Frigate</title>'' None,
         Pattern_Endpoint PortType_Http5000 ''/'' ''<title>Frigate</title>'' None]))
     \<lparr>sd_logo_url := ''https://cdn.jsdelivr.net/gh/homarr-labs/dashboard-icons/svg/frigate.svg''\<rparr>"

definition GoogleHome_google_home :: ServiceDefinition where
  "GoogleHome_google_home =
     (service_definition ''Google Home''
       ''Google Home smart speaker or display''
       ServiceCategory_IoT
       (Pattern_AllOf [Pattern_AnyOf [Pattern_MacVendor Vendor_NEST, Pattern_MacVendor
         Vendor_GOOGLE], Pattern_AllOf [Pattern_Port (PortType_new_tcp 8008), Pattern_Port
         (PortType_new_tcp 8009)]]))
     \<lparr>sd_logo_url := ''https://cdn.jsdelivr.net/gh/homarr-labs/dashboard-icons/svg/google-home.svg''\<rparr>"

definition WebService_iot :: ServiceDefinition where
  "WebService_iot =
     (service_definition ''IoT''
       ''A generic IoT Service''
       ServiceCategory_IoT
       Pattern_None)
     \<lparr>sd_is_generic := True\<rparr>"

definition NestProtect :: ServiceDefinition where
  "NestProtect =
     (service_definition ''Nest Protect''
       ''Google Nest smoke and CO detector''
       ServiceCategory_IoT
       (Pattern_AllOf [Pattern_AnyOf [Pattern_MacVendor Vendor_NEST, Pattern_MacVendor
         Vendor_GOOGLE], Pattern_Port (PortType_new_tcp 11095)]))
     \<lparr>sd_logo_url := ''https://cdn.jsdelivr.net/gh/homarr-labs/dashboard-icons/svg/google-home.svg''\<rparr>"

definition NestThermostat :: ServiceDefinition where
  "NestThermostat =
     (service_definition ''Nest Thermostat''
       ''Google Nest smart thermostat''
       ServiceCategory_IoT
       (Pattern_AllOf [Pattern_AnyOf [Pattern_MacVendor Vendor_NEST, Pattern_MacVendor
         Vendor_GOOGLE], Pattern_Port (PortType_new_tcp 9543)]))
     \<lparr>sd_logo_url := ''https://cdn.jsdelivr.net/gh/homarr-labs/dashboard-icons/svg/google-home.svg''\<rparr>"

definition RingDoorbell :: ServiceDefinition where
  "RingDoorbell =
     (service_definition ''Ring Doorbell''
       ''Ring video doorbell or security camera''
       ServiceCategory_IoT
       (Pattern_AllOf [Pattern_MacVendor Vendor_AMAZON, Pattern_AnyOf [Pattern_Port
         (PortType_new_tcp 8557), Pattern_Port (PortType_new_tcp 9998), Pattern_Port
         (PortType_new_tcp 19302), Pattern_Port (PortType_new_tcp 9999)]]))
     \<lparr>sd_logo_url := ''https://simpleicons.org/icons/ring.svg'',
      sd_logo_needs_white_background := True\<rparr>"

definition RokuDevice :: ServiceDefinition where
  "RokuDevice =
     (service_definition ''Roku Media Player''
       ''Roku streaming device or TV''
       ServiceCategory_IoT
       (Pattern_AllOf [Pattern_MacVendor Vendor_ROKU, Pattern_Port (PortType_new_tcp 8060)]))
     \<lparr>sd_logo_url := ''https://simpleicons.org/icons/roku.svg'',
      sd_logo_needs_white_background := True\<rparr>"

definition SonosSpeaker :: ServiceDefinition where
  "SonosSpeaker =
     (service_definition ''Sonos Speaker''
       ''Sonos wireless speaker system''
       ServiceCategory_IoT
       (Pattern_AllOf [Pattern_MacVendor Vendor_SONOS, Pattern_AnyOf [Pattern_Port
         PortType_Samba, Pattern_Port (PortType_new_tcp 3445), Pattern_Port (PortType_new_tcp
         1400), Pattern_Port (PortType_new_tcp 1410), Pattern_Port (PortType_new_tcp 1843),
         Pattern_Port (PortType_new_tcp 3400), Pattern_Port (PortType_new_tcp 3401),
         Pattern_Port (PortType_new_tcp 3500)]]))
     \<lparr>sd_logo_url := ''https://simpleicons.org/icons/sonos.svg'',
      sd_logo_needs_white_background := True\<rparr>"

definition Tasmota :: ServiceDefinition where
  "Tasmota =
     (service_definition ''Tasmota''
       ''ESP device firmware''
       ServiceCategory_IoT
       Pattern_None)
     \<lparr>sd_logo_url := ''https://cdn.jsdelivr.net/gh/homarr-labs/dashboard-icons/svg/tasmota.svg'',
      sd_logo_needs_white_background := True\<rparr>"

definition CUPS :: ServiceDefinition where
  "CUPS =
     (service_definition ''CUPS''
       ''Common Unix Printing System''
       ServiceCategory_Printer
       (Pattern_AllOf [Pattern_Port PortType_Ipp, Pattern_Endpoint PortType_Http ''/'' ''CUPS''
         None]))
     \<lparr>sd_logo_url := ''https://cdn.jsdelivr.net/gh/homarr-labs/dashboard-icons/svg/cups.svg'',
      sd_logo_needs_white_background := True\<rparr>"

definition HpPrinter :: ServiceDefinition where
  "HpPrinter =
     (service_definition ''Hp Printer''
       ''An HP Printer''
       ServiceCategory_Printer
       (Pattern_AllOf [Pattern_AnyOf [Pattern_Endpoint PortType_Http [] ''LaserJet'' None,
         Pattern_Endpoint PortType_Http [] ''DeskJet'' None, Pattern_Endpoint PortType_Http []
         ''OfficeJet'' None, Pattern_Endpoint PortType_Http8080 [] ''LaserJet'' None,
         Pattern_Endpoint PortType_Http8080 [] ''DeskJet'' None, Pattern_Endpoint
         PortType_Http8080 [] ''OfficeJet'' None], Pattern_AnyOf [Pattern_Port PortType_Ipp,
         Pattern_Port PortType_LdpTcp, Pattern_Port PortType_LdpUdp]]))
     \<lparr>sd_logo_url := ''https://cdn.jsdelivr.net/gh/homarr-labs/dashboard-icons/svg/hp.svg'',
      sd_logo_needs_white_background := True\<rparr>"

definition PrintServer :: ServiceDefinition where
  "PrintServer =
     (service_definition ''Print Server''
       ''A generic printing service''
       ServiceCategory_Printer
       (Pattern_AnyOf [Pattern_Port PortType_Ipp, Pattern_Port PortType_LdpTcp, Pattern_Port
         PortType_LdpUdp]))
     \<lparr>sd_is_generic := True\<rparr>"

definition ActualBudget :: ServiceDefinition where
  "ActualBudget =
     (service_definition ''Actual Budget''
       ''A local-first personal finance app''
       ServiceCategory_Office
       (Pattern_Endpoint (PortType_new_tcp 5006) ''/manifest.webmanifest'' ''@actual-app/web''
         None))
     \<lparr>sd_logo_url := ''https://cdn.jsdelivr.net/gh/homarr-labs/dashboard-icons/svg/actual-budget.svg''\<rparr>"

definition Autobrr :: ServiceDefinition where
  "Autobrr =
     (service_definition ''Autobrr''
       ''The modern autodl-irssi replacement.''
       ServiceCategory_Media
       (Pattern_Port (PortType_new_tcp 7474)))
     \<lparr>sd_logo_url := ''https://cdn.jsdelivr.net/gh/homarr-labs/dashboard-icons/svg/autobrr.svg''\<rparr>"

definition BackRest :: ServiceDefinition where
  "BackRest =
     (service_definition ''BackRest''
       ''Web UI and orchestrator for Restic''
       ServiceCategory_Backup
       (Pattern_Endpoint (PortType_new_tcp 9898) ''/'' ''BackRest'' None))
     \<lparr>sd_logo_url := ''https://cdn.jsdelivr.net/gh/homarr-labs/dashboard-icons/svg/backrest-light.svg''\<rparr>"

definition Cleanuparr :: ServiceDefinition where
  "Cleanuparr =
     (service_definition ''Cleanuparr''
       ''Torrent cleanup tool for Sonarr and Radarr''
       ServiceCategory_Media
       (Pattern_Port (PortType_new_tcp 11011)))
     \<lparr>sd_logo_url := ''https://cdn.jsdelivr.net/gh/homarr-labs/dashboard-icons/svg/cleanuperr.svg''\<rparr>"

definition FreshRSS :: ServiceDefinition where
  "FreshRSS =
     (service_definition ''FreshRSS''
       ''A free, self-hostable news aggregator''
       ServiceCategory_Publishing
       (Pattern_Endpoint PortType_Http ''/themes/manifest.json'' ''FreshRSS feed aggregator''
         None))
     \<lparr>sd_logo_url := ''https://cdn.jsdelivr.net/gh/homarr-labs/dashboard-icons/svg/freshrss.svg''\<rparr>"

definition Grocy :: ServiceDefinition where
  "Grocy =
     (service_definition ''Grocy''
       ''Web-based self-hosted groceries & household management solution''
       ServiceCategory_HomeAutomation
       (Pattern_AnyOf [Pattern_Endpoint PortType_Http ''/'' ''grocy.css'' None, Pattern_Endpoint
         PortType_Https ''/'' ''grocy.css'' None]))
     \<lparr>sd_logo_url := ''https://cdn.jsdelivr.net/gh/homarr-labs/dashboard-icons/svg/grocy.svg''\<rparr>"

definition Huntarr :: ServiceDefinition where
  "Huntarr =
     (service_definition ''Huntarr''
       ''Finds missing media and upgrades your existing content.''
       ServiceCategory_Media
       (Pattern_Port (PortType_new_tcp 9705)))
     \<lparr>sd_logo_url := ''https://cdn.jsdelivr.net/gh/homarr-labs/dashboard-icons/png/huntarr.png''\<rparr>"

definition Jotty :: ServiceDefinition where
  "Jotty =
     (service_definition ''Jotty''
       ''A simple, self-hosted app for your checklists and notes''
       ServiceCategory_Office
       (Pattern_Endpoint PortType_Http3000 ''/site.webmanifest'' ''jotty'' None))
     \<lparr>sd_logo_url := ''https://cdn.jsdelivr.net/gh/homarr-labs/dashboard-icons/svg/jotty.svg''\<rparr>"

definition Karakeep :: ServiceDefinition where
  "Karakeep =
     (service_definition ''Karakeep''
       ''The Bookmark Everything App''
       ServiceCategory_Media
       (Pattern_Endpoint PortType_Http3000 ''/manifest.json'' ''Karakeep'' None))
     \<lparr>sd_logo_url := ''https://cdn.jsdelivr.net/gh/homarr-labs/dashboard-icons/svg/karakeep.svg''\<rparr>"

definition Lidarr :: ServiceDefinition where
  "Lidarr =
     (service_definition ''Lidarr''
       ''A music collection manager for Usenet and BitTorrent users.''
       ServiceCategory_Media
       (Pattern_Endpoint (PortType_new_tcp 8686) ''/Content/manifest.json'' ''Lidarr'' None))
     \<lparr>sd_logo_url := ''https://cdn.jsdelivr.net/gh/homarr-labs/dashboard-icons/svg/lidarr.svg''\<rparr>"

definition Lubelogger :: ServiceDefinition where
  "Lubelogger =
     (service_definition ''Lubelogger''
       ''Vehicle Maintenance Records and Fuel Mileage Tracker''
       ServiceCategory_HomeAutomation
       (Pattern_Endpoint PortType_Http8080 ''/'' ''Garage - LubeLogger'' None))
     \<lparr>sd_logo_url := ''https://cdn.jsdelivr.net/gh/homarr-labs/dashboard-icons/png/lubelogger.png''\<rparr>"

definition MeTube :: ServiceDefinition where
  "MeTube =
     (service_definition ''MeTube''
       ''Self-hosted YouTube downloader''
       ServiceCategory_Media
       (Pattern_Endpoint PortType_Http8081 ''/manifest.webmanifest'' ''MeTube'' None))
     \<lparr>sd_logo_url := ''https://cdn.jsdelivr.net/gh/homarr-labs/dashboard-icons/svg/metube.svg''\<rparr>"

definition Mealie :: ServiceDefinition where
  "Mealie =
     (service_definition ''Mealie''
       ''A self-hosted recipe manager and meal planner''
       ServiceCategory_HomeAutomation
       (Pattern_AllOf [Pattern_Endpoint PortType_Http9000 ''/'' ''Mealie'' None,
         Pattern_Endpoint PortType_Http9000 ''/'' ''recipe'' None]))
     \<lparr>sd_logo_url := ''https://cdn.jsdelivr.net/gh/homarr-labs/dashboard-icons/svg/mealie.svg''\<rparr>"

definition Memos :: ServiceDefinition where
  "Memos =
     (service_definition ''Memos''
       ''An open-source, self-hosted note-taking service.''
       ServiceCategory_Office
       (Pattern_Endpoint (PortType_new_tcp 5230) ''/explore'' ''Memos'' None))
     \<lparr>sd_logo_url := ''https://cdn.jsdelivr.net/gh/homarr-labs/dashboard-icons/png/memos.png''\<rparr>"

definition Netbootxyz :: ServiceDefinition where
  "Netbootxyz =
     (service_definition ''Netbootxyz''
       ''PXE Boot Server''
       ServiceCategory_Storage
       (Pattern_Endpoint (PortType_new_tcp 61208) ''/'' ''Netbootxyz'' None))
     \<lparr>sd_logo_url := ''https://cdn.jsdelivr.net/gh/homarr-labs/dashboard-icons/svg/netbootxyz.svg''\<rparr>"

definition NUT :: ServiceDefinition where
  "NUT =
     (service_definition ''NUT''
       ''Network UPS Tools''
       ServiceCategory_Monitoring
       (Pattern_Port (PortType_new_tcp 3493)))
     \<lparr>sd_logo_url := ''https://cdn.jsdelivr.net/gh/homarr-labs/dashboard-icons/svg/nut.svg''\<rparr>"

definition Ollama :: ServiceDefinition where
  "Ollama =
     (service_definition ''Ollama''
       ''An easy way to get up and running with LLMs.''
       ServiceCategory_Development
       (Pattern_Endpoint (PortType_new_tcp 11434) ''/'' ''Ollama is running'' None))
     \<lparr>sd_logo_url := ''https://cdn.jsdelivr.net/gh/homarr-labs/dashboard-icons/svg/ollama-dark.svg''\<rparr>"

definition OpenWebUI :: ServiceDefinition where
  "OpenWebUI =
     (service_definition ''Open WebUI''
       ''Open, extensible, user-friendly interface for AI''
       ServiceCategory_Development
       (Pattern_Endpoint PortType_Http8080 ''/manifest.json'' ''Open WebUI'' None))
     \<lparr>sd_logo_url := ''https://cdn.jsdelivr.net/gh/homarr-labs/dashboard-icons/svg/open-webui-light.svg''\<rparr>"

definition PaperlessNGX :: ServiceDefinition where
  "PaperlessNGX =
     (service_definition ''Paperless-NGX''
       ''Community-supported document management system''
       ServiceCategory_Office
       (Pattern_Endpoint (PortType_new_tcp 8000) ''/static/frontend/en-US/manifest.webmanifest''
         ''Paperless-ngx'' None))
     \<lparr>sd_logo_url := ''https://cdn.jsdelivr.net/gh/homarr-labs/dashboard-icons/svg/paperless-ngx.svg'',
      sd_logo_needs_white_background := True\<rparr>"

definition PeaNut :: ServiceDefinition where
  "PeaNut =
     (service_definition ''PeaNUT''
       ''A tiny dashboard for Network UPS Tools''
       ServiceCategory_Monitoring
       (Pattern_Endpoint PortType_Http3000 ''/api/v1/info'' ''peanut'' None))
     \<lparr>sd_logo_url := ''https://cdn.jsdelivr.net/gh/homarr-labs/dashboard-icons/svg/peanut.svg''\<rparr>"

definition PocketID :: ServiceDefinition where
  "PocketID =
     (service_definition ''Pocket ID''
       ''A Simple OIDC provider that uses passkeys for authentication''
       ServiceCategory_IdentityAndAccess
       (Pattern_Endpoint (PortType_new_tcp 1411) ''/app.webmanifest'' ''Pocket ID'' None))
     \<lparr>sd_logo_url := ''https://cdn.jsdelivr.net/gh/homarr-labs/dashboard-icons/svg/pocket-id-light.svg''\<rparr>"

definition Prowlarr :: ServiceDefinition where
  "Prowlarr =
     (service_definition ''Prowlarr''
       ''The Ultimate Indexer Manager.''
       ServiceCategory_Media
       (Pattern_Endpoint (PortType_new_tcp 3232) ''/Content/Images/Icons/manifest.json''
         ''Prowlarr'' None))
     \<lparr>sd_logo_url := ''https://cdn.jsdelivr.net/gh/homarr-labs/dashboard-icons/svg/prowlarr.svg''\<rparr>"

definition QBittorrent :: ServiceDefinition where
  "QBittorrent =
     (service_definition ''qBittorrent''
       ''Cross-platform open-source BitTorrent client''
       ServiceCategory_Media
       (Pattern_AnyOf [Pattern_Endpoint PortType_Http8080 ''/'' ''qBittorrent logo'' None,
         Pattern_Endpoint (PortType_new_tcp 8090) ''/'' ''qBittorrent logo'' None]))
     \<lparr>sd_logo_url := ''https://cdn.jsdelivr.net/gh/homarr-labs/dashboard-icons/svg/qbittorrent.svg''\<rparr>"

definition Radarr :: ServiceDefinition where
  "Radarr =
     (service_definition ''Radarr''
       ''A movie collection manager for Usenet and BitTorrent users.''
       ServiceCategory_Media
       (Pattern_Endpoint (PortType_new_tcp 7878) ''/Content/manifest.json'' ''Radarr'' None))
     \<lparr>sd_logo_url := ''https://cdn.jsdelivr.net/gh/homarr-labs/dashboard-icons/svg/radarr.svg''\<rparr>"

definition Sonarr :: ServiceDefinition where
  "Sonarr =
     (service_definition ''Sonarr''
       ''A TV collection manager for Usenet and BitTorrent users.''
       ServiceCategory_Media
       (Pattern_Endpoint (PortType_new_tcp 8989) ''/Content/manifest.json'' ''Sonarr'' None))
     \<lparr>sd_logo_url := ''https://cdn.jsdelivr.net/gh/homarr-labs/dashboard-icons/svg/sonarr.svg''\<rparr>"

definition Wizarr :: ServiceDefinition where
  "Wizarr =
     (service_definition ''Wizarr''
       ''User invitation and management system for Jellyfin, Plex, Emby etc''
       ServiceCategory_Media
       (Pattern_Endpoint (PortType_new_tcp 5690) ''/static/manifest.json'' ''Wizarr'' None))
     \<lparr>sd_logo_url := ''https://cdn.jsdelivr.net/gh/homarr-labs/dashboard-icons/svg/wizarr.svg''\<rparr>"

definition VantageNetDaemon :: ServiceDefinition where
  "VantageNetDaemon =
     (service_definition ''VantageNet Daemon''
       ''Automatically discover and visually document network infrastructure''
       ServiceCategory_VantageNet
       (Pattern_Endpoint (PortType_new_tcp 60073) ''/api/health'' ''vantagenet'' None))
     \<lparr>sd_logo_url := ''/logos/vantagenet-logo.png''\<rparr>"

definition VantageNetServer :: ServiceDefinition where
  "VantageNetServer =
     (service_definition ''VantageNet Server''
       ''Automatically discover and visually document network infrastructure''
       ServiceCategory_VantageNet
       (Pattern_Endpoint (PortType_new_tcp 60072) ''/api/health'' ''vantagenet'' None))
     \<lparr>sd_logo_url := ''/logos/vantagenet-logo.png''\<rparr>"

end
