(* ===== verification/Registry.thy ===== *)
theory Registry
  imports Definitions_Network Definitions_Server Definitions_Applications Definitions_Devices
begin

section \<open>The service registry and the endpoint scan\<close>

text \<open>
  The registry of all service definitions, as \<open>ServiceDefinitionRegistry::all_service_definitions\<close>
  (\<^verbatim>\<open>backend/src/server/services/definitions/mod.rs\<close>) returns it, and the endpoint scan that probes
  for them (\<open>scan_endpoints\<close> of \<^verbatim>\<open>backend/src/daemon/utils/scanner.rs\<close>).

  The \<open>inventory\<close> crate does not fix the order of the registry; the list below is in the order of
  the names, and the theorems hold for every order. The HTTP client is an argument of the scan: what
  it returns for a URL, if it returns anything.
\<close>

subsection \<open>The registry\<close>

definition all_service_definitions :: registry where
  "all_service_definitions =
     [Amqp, APC, AnsibleAWX, AccessPoint, ActiveDirectory, ActiveMQ, ActualBudget, AdguardHome,
      AmazonEcho, ArgoCD, Asterisk, AudioBookShelf, Authentik, Autobrr, BackRest, Bacula,
      Bamboo, Bazarr, BigBlueButton, Bind9, BitbucketServer, Bitwarden, BookLore, CUPS, Caddy,
      Cassandra, Ceph, ChromecastDevice, Cleanuparr, Client, Cloudflared, ConfluenceServer,
      CoolerControl, CouchDB, CrowdSec, Denodo, DhcpServer, Discourse, DnsServer, Docker,
      DockerContainer, DockerSwarm, Domoticz, DroneCI, Duplicati, ESPHome, EeroGateway,
      EeroRepeater, ElasticAPM, Elasticsearch, Emby, FileServer, FileZillaServer, FiosExtender,
      FiosGateway, Firewall, Forgejo, Fortinet, FreeIPA, FreePBX, FreshRSS, Frigate, Gateway,
      Gatus, Ghost, GitHubEnterprise, GitLab, Gitea, GlanceApp, Glances, GoogleHome_google_home,
      GoogleHome_google_nest_repeater, GoogleHome_google_nest_router, Grafana, Graylog, Grocy,
      HAProxy, Homarr, HomeAssistant, Homepage, HpPrinter, Huntarr, Icinga, Immich, InfluxDB,
      WebService_iot, Jaeger, Jellyfin, Jellyseerr, Jellystat, Jenkins, JiraServer, JitsiMeet,
      Jotty, Jump, Kafka, Karakeep, Kerberos, Keycloak, Komga, Kong, Kubernetes, Lidarr,
      LinkStack, Loki, Lubelogger, MQTT, MariaDB, Mattermost, MeTube, Mealie, Memos,
      MSSQLServer, MinIO, MongoDB, MySQL, NATS, NFSServer, NtpServer, NUT, Nagios, Neo4j,
      NestProtect, NestThermostat, Netbootxyz, Netdata, NextCloud, NginxProxyManager, Nomad,
      Ntfy, OpnSense, Ollama, LDAP, OpenWebUI, OpenMediaVault, OpenShift, OpenVpn, OracleDB,
      Overseerr, PaperlessNGX, PeaNut, PhilipsHueBridge, PiHole, Plex, PocketID, Portainer,
      PostgreSQL, PowerDNS, PrintServer, Prometheus, Promtail, Prowlarr, ProxmoxBackupServer,
      ProxmoxDatacenterManager, Proxmox, Pulse, QNAP, WebService_camera, RabbitMQ, Radarr,
      Radicale, Rancher, RedisDB, RemoteDesktop, Restic, RingDoorbell, RocketChat, RokuDevice,
      SABnzbd, SIPServer, Snmp, Ssh, Samba, Seafile, Sensu, Sentry, Slskd, Sonarr, SonosSpeaker,
      Spinnaker, Splunk, Switch, Syncthing, Synology, TpLinkEap, Tasmota, Tautulli, TeamCity,
      Telnet, Tomcat, Traefik, TrueNAS, Tyk, Unbound, OpenPorts, UnifiController,
      UnifiAccessPoint, UptimeKuma, VantageNetDaemon, VantageNetServer, Vault, Vaultwarden,
      Veeam, WgDashboard, Wazuh, WebService_web_service, Wireguard, Wizarr, WordPress,
      Workstation, ZWaveJS, Zabbix, Zigbee2MQTT, Zipkin, Cadvisor, Mailcow, OpenHAB, OwnCloud,
      PfBlockerNg, PfSense, QBittorrent]"

subsection \<open>The endpoint scan\<close>

record http_response =
  hr_status :: u16
  hr_headers :: "(string \<times> string option) list"
  hr_body :: string

type_synonym http_client = "string \<Rightarrow> http_response option"

text \<open>The first endpoint for every port number and path.\<close>

fun unique_endpoints :: "(u16 \<times> string) set \<Rightarrow> Endpoint list \<Rightarrow> Endpoint list" where
  "unique_endpoints seen [] = []"
| "unique_endpoints seen (e # es) =
     (let key = (PortType_number (ep_port_type e), ep_path e)
      in if key \<in> seen then unique_endpoints seen es
         else e # unique_endpoints (insert key seen) es)"

definition probe_urls :: "(u16 \<rightharpoonup> bool) option \<Rightarrow> IpAddr \<Rightarrow> Endpoint \<Rightarrow> string list" where
  "probe_urls use_https_ports ip e =
     (let https_ports = (case use_https_ports of Some m \<Rightarrow> m | None \<Rightarrow> Map.empty);
          use_https =
            (case https_ports (PortType_number (ep_port_type e)) of Some b \<Rightarrow> b | None \<Rightarrow> False);
          url = IpAddr_display ip @ '':'' @ show_u16 (PortType_number (ep_port_type e)) @ ep_path e;
          http_url = ''http://'' @ url;
          https_url = ''https://'' @ url
      in if use_https_ports = None then [http_url, https_url]
         else if use_https then [https_url, http_url]
         else [http_url, https_url])"

text \<open>The first URL that answers.\<close>

fun first_answer :: "http_client \<Rightarrow> string list \<Rightarrow> http_response option" where
  "first_answer client [] = None"
| "first_answer client (url # urls) =
     (case client url of Some r \<Rightarrow> Some r | None \<Rightarrow> first_answer client urls)"

text \<open>The headers whose value is text, by lower-case name; collecting them into a hash map keeps the
  last value of a name.\<close>

fun collect_headers :: "(string \<times> string option) list \<Rightarrow> (string \<times> string) list" where
  "collect_headers [] = []"
| "collect_headers ((name, value) # hs) =
     (case value of
        None \<Rightarrow> collect_headers hs
      | Some v \<Rightarrow>
          if to_lowercase name \<in> fst ` set (collect_headers hs) then collect_headers hs
          else (to_lowercase name, v) # collect_headers hs)"

definition probe_endpoint ::
    "http_client \<Rightarrow> (u16 \<rightharpoonup> bool) option \<Rightarrow> IpAddr \<Rightarrow> Endpoint \<Rightarrow> EndpointResponse option" where
  "probe_endpoint client use_https_ports ip e =
     map_option
       (\<lambda>r. \<lparr>er_endpoint = Endpoint_use_ip e ip, er_body = hr_body r,
             er_headers = collect_headers (hr_headers r),
             er_status = hr_status r\<rparr>)
       (first_answer client (probe_urls use_https_ports ip e))"

definition scan_endpoints ::
    "registry \<Rightarrow> http_client \<Rightarrow> IpAddr \<Rightarrow> PortType list option \<Rightarrow> (u16 \<rightharpoonup> bool) option
       \<Rightarrow> EndpointResponse list" where
  "scan_endpoints reg client ip filter_ports use_https_ports =
     (let all_endpoints =
            filter (\<lambda>e. case filter_ports of
                          Some ps \<Rightarrow> list_ex (\<lambda>p. PortType_eq p (ep_port_type e)) ps
                        | None \<Rightarrow> True)
              (Service_all_discovery_endpoints reg)
      in List.map_filter (probe_endpoint client use_https_ports ip) (unique_endpoints {} all_endpoints))"

subsection \<open>Identifiers\<close>

fun increasing :: "'a::linorder list \<Rightarrow> bool" where
  "increasing (x # y # zs) \<longleftrightarrow> x < y \<and> increasing (y # zs)"
| "increasing _ \<longleftrightarrow> True"

lemma increasing_Cons: "increasing (x # xs) \<Longrightarrow> y \<in> set xs \<Longrightarrow> x < y"
  by (induction xs arbitrary: x) (auto intro: less_trans)

lemma increasing_distinct: "increasing xs \<Longrightarrow> distinct xs"
proof (induction xs)
  case (Cons x xs)
  then have "increasing xs" by (cases xs) auto
  with Cons increasing_Cons [of x xs] show ?case by auto
qed simp

lemma registry_names_increasing: "increasing (map ServiceDefinition_id all_service_definitions)"
  by code_simp

lemma registry_ids_distinct:
  "mset reg = mset all_service_definitions \<Longrightarrow> distinct (map ServiceDefinition_id reg)"
  using increasing_distinct [OF registry_names_increasing]
  by (metis mset_map mset_eq_imp_distinct_iff)

text \<open>C29. Every registered definition survives being stored by its identifier and read back, whatever
  order the registry has; an identifier that no definition has reads as the placeholder.\<close>

theorem service_definition_roundtrip:
  assumes "mset reg = mset all_service_definitions"
  shows "(\<forall>d \<in> set reg. ServiceDefinition_deserialize reg (ServiceDefinition_serialize d) = d) \<and>
         (\<forall>i. \<not> service_exists reg i \<longrightarrow> ServiceDefinition_deserialize reg i = DefaultServiceDefinition)"
  using find_by_id_distinct [OF registry_ids_distinct [OF assms]] service_exists_iff [of reg]
  by (auto simp: ServiceDefinition_deserialize_def ServiceDefinition_serialize_def split: option.splits)

theorem service_definition_roundtrip_witness:
  "ServiceDefinition_deserialize all_service_definitions (ServiceDefinition_serialize Gateway) = Gateway"
proof -
  have "Gateway \<in> set all_service_definitions"
    unfolding all_service_definitions_def by (simp only: list.set insert_iff simp_thms)
  with service_definition_roundtrip [OF refl] show ?thesis by blast
qed

text \<open>Every registered definition keeps the limits that the trait documents: a non-empty name of
  fewer than 40 characters and a description of fewer than 100.\<close>

theorem registry_documented_limits:
  "list_all (\<lambda>d. 0 < length (sd_name d) \<and> length (sd_name d) < 40 \<and> length (sd_description d) < 100)
     all_service_definitions"
  by code_simp

subsection \<open>What is never probed\<close>

lemma unique_endpoints_subset: "set (unique_endpoints seen es) \<subseteq> set es"
  by (induction es arbitrary: seen) (auto simp: Let_def)

definition registry_paths :: "registry \<Rightarrow> string set" where
  "registry_paths reg =
     (\<Union>d \<in> set reg. ep_path ` set (Pattern_endpoints (sd_discovery_pattern d)))"

lemma discovery_endpoint_paths: "ep_path ` set (Service_all_discovery_endpoints reg) \<subseteq> registry_paths reg"
  using endpoint.sort_dedup_subset [of "concat (map (\<lambda>s. Pattern_endpoints (sd_discovery_pattern s)) reg)"]
  by (fastforce simp: Service_all_discovery_endpoints_def registry_paths_def)

lemma scan_endpoints_paths:
  assumes "a \<in> set (scan_endpoints reg client ip ports https)"
  shows "ep_path (er_endpoint a) \<in> registry_paths reg"
proof -
  from assms obtain e where e: "e \<in> set (Service_all_discovery_endpoints reg)"
    "probe_endpoint client https ip e = Some a"
    using unique_endpoints_subset
    by (fastforce simp: scan_endpoints_def Let_def map_filter_def)
  then have "ep_path (er_endpoint a) = ep_path e"
    by (auto simp: probe_endpoint_def Endpoint_use_ip_def)
  with e(1) discovery_endpoint_paths show ?thesis by fastforce
qed

text \<open>The definitions whose only pattern is an endpoint with an explicit status range.\<close>

definition unprobed_definitions :: "ServiceDefinition list" where
  "unprobed_definitions = [AnsibleAWX, BigBlueButton, CrowdSec, FreeIPA, JiraServer, MinIO, Tyk]"

fun endpoint_path :: "Pattern \<Rightarrow> string option" where
  "endpoint_path (Pattern_Endpoint p path body r) = Some path"
| "endpoint_path _ = None"

lemma endpoint_match_path:
  assumes "endpoint_path p = Some path" and "is_ok (matches ext reg params p)"
  shows "path \<in> (\<lambda>a. ep_path (er_endpoint a)) ` set (endpoint_responses params)"
  using assms
  by (cases p) (auto simp: result_simps list_ex_iff endpoint_response_ok_def Endpoint_for_pattern_def Let_def)

definition unprobed_paths :: "string list" where
  "unprobed_paths =
     [''/api/v2/'', ''/bigbluebutton/api'', ''/v1/allowlists'', ''/ipa/ui'',
      ''/rest/api/2/serverInfo'', ''/minio/health/live'', ''/hello'']"

lemma unprobed_definitions_paths:
  "map (\<lambda>d. endpoint_path (sd_discovery_pattern d)) unprobed_definitions = map Some unprobed_paths"
  by code_simp

text \<open>A test for inequality that stops at the first difference, for evaluation.\<close>

fun differs :: "'a list \<Rightarrow> 'a list \<Rightarrow> bool" where
  "differs (x # xs) (y # ys) = (if x = y then differs xs ys else True)"
| "differs [] [] = False"
| "differs _ _ = True"

lemma differs_iff: "differs xs ys \<longleftrightarrow> xs \<noteq> ys"
  by (induction xs ys rule: differs.induct) simp_all

lemma unprobed_paths_not_listed:
  "list_all (\<lambda>s. list_all (\<lambda>e. list_all (differs (ep_path e)) unprobed_paths)
       (Pattern_endpoints (sd_discovery_pattern s))) all_service_definitions"
  by code_simp

lemma unprobed_paths_new: "path \<in> set unprobed_paths \<Longrightarrow> path \<notin> registry_paths all_service_definitions"
  using unprobed_paths_not_listed by (auto simp: registry_paths_def list_all_iff differs_iff)

lemma unprobed_definition_path:
  assumes "d \<in> set unprobed_definitions"
  obtains path where "endpoint_path (sd_discovery_pattern d) = Some path" "path \<in> set unprobed_paths"
proof -
  from assms have "endpoint_path (sd_discovery_pattern d) \<in>
      set (map (\<lambda>d. endpoint_path (sd_discovery_pattern d)) unprobed_definitions)" by simp
  then show thesis unfolding unprobed_definitions_paths using that by auto
qed

lemma unprobed_no_match:
  assumes "mset reg = mset all_service_definitions" and "d \<in> set unprobed_definitions"
    and "endpoint_responses params = scan_endpoints reg client ip ports https"
  shows "\<not> is_ok (matches ext reg params (sd_discovery_pattern d))"
proof
  assume ok: "is_ok (matches ext reg params (sd_discovery_pattern d))"
  from assms(2) obtain path where path: "endpoint_path (sd_discovery_pattern d) = Some path"
    and "path \<in> set unprobed_paths"
    by (rule unprobed_definition_path)
  then have new: "path \<notin> registry_paths all_service_definitions" by (intro unprobed_paths_new)
  have "set reg = set all_service_definitions" using assms(1) by (rule mset_eq_setD)
  with new have "path \<notin> registry_paths reg" by (simp add: registry_paths_def)
  moreover from endpoint_match_path [OF path ok] have "path \<in> registry_paths reg"
    using scan_endpoints_paths assms(3) by auto
  ultimately show False by contradiction
qed

text \<open>C28. Seven registered services are never found by the endpoint scan, whatever the hosts answer:
  their pattern is an endpoint with an explicit status range, which \<open>Pattern::endpoints\<close> leaves
  out, so no request for it is ever made.\<close>

theorem unprobed_definitions_never_match:
  assumes "mset reg = mset all_service_definitions" and "d \<in> set unprobed_definitions"
    and "endpoint_responses params = scan_endpoints reg client ip ports https"
  shows "\<not> is_ok (matches ext reg params (sd_discovery_pattern d))"
  using assms by (rule unprobed_no_match)

theorem unprobed_definitions_never_match_witness:
  "\<not> is_ok (matches sample_externals all_service_definitions
       (sample_params\<lparr>mp_baseline_params := (mp_baseline_params sample_params)
          \<lparr>bp_endpoint_responses :=
             scan_endpoints all_service_definitions
               (\<lambda>_. Some \<lparr>hr_status = 200, hr_headers = [], hr_body = []\<rparr>) (IpAddr_V4 0) None None\<rparr>\<rparr>)
       (sd_discovery_pattern MinIO))"
  by (rule unprobed_definitions_never_match [OF refl]) (simp_all add: unprobed_definitions_def)

end
