(* ===== verification/Discovery.thy ===== *)
theory Discovery
  imports Entities
begin

section \<open>Discovery sessions\<close>

text \<open>
  The server's management of discovery sessions (\<^verbatim>\<open>backend/src/server/discovery/service.rs\<close>),
  with the data it exchanges with daemons (\<^verbatim>\<open>backend/src/server/daemons/impl/api.rs\<close>,
  \<^verbatim>\<open>backend/src/daemon/discovery/types/base.rs\<close>) and stores
  (\<^verbatim>\<open>backend/src/server/discovery/impl/base.rs\<close>, \<^verbatim>\<open>backend/src/server/discovery/impl/types.rs\<close>).

  \<^item> The service's four locked hash maps are the fields of \<open>disc_state\<close>; broadcasts, requests and
    cancellations sent to daemons, stored discoveries and published events are logs, latest last.
  \<^item> The outcomes of I/O are the environment \<open>disc_env\<close> of a call: the clock, fresh identifiers, and
    what the database, the event bus and the daemons answer.
  \<^item> An operation that fails returns the state it leaves behind with the error: what it changed
    before an early return stays changed.
  \<^item> Each operation is one step: the calls hold the locks of the maps they change. Where a call
    releases a lock between reading and writing (\<open>start_session\<close>), its atomic sections are
    definitions of their own, and their interleaving is studied at the end.
\<close>

subsection \<open>Phases and payloads\<close>

datatype DiscoveryPhase =
    DiscoveryPhase_Pending
  | DiscoveryPhase_Starting
  | DiscoveryPhase_Started
  | DiscoveryPhase_Scanning
  | DiscoveryPhase_Complete
  | DiscoveryPhase_Failed
  | DiscoveryPhase_Cancelled

definition DiscoveryPhase_is_terminal :: "DiscoveryPhase \<Rightarrow> bool" where
  "DiscoveryPhase_is_terminal p \<longleftrightarrow>
     p = DiscoveryPhase_Complete \<or> p = DiscoveryPhase_Cancelled \<or> p = DiscoveryPhase_Failed"

primrec DiscoveryPhase_display :: "DiscoveryPhase \<Rightarrow> string" where
  "DiscoveryPhase_display DiscoveryPhase_Pending =
     ''Session created, waiting for daemon availability''"
| "DiscoveryPhase_display DiscoveryPhase_Starting = ''Sending session to daemon''"
| "DiscoveryPhase_display DiscoveryPhase_Started = ''Session started in daemon''"
| "DiscoveryPhase_display DiscoveryPhase_Scanning = ''Scanning for active hosts''"
| "DiscoveryPhase_display DiscoveryPhase_Complete = ''Discovery complete''"
| "DiscoveryPhase_display DiscoveryPhase_Failed = ''Discovery failed''"
| "DiscoveryPhase_display DiscoveryPhase_Cancelled = ''Discovery cancelled''"

record DiscoverySessionInfo =
  dsi_session_id :: uuid
  dsi_network_id :: uuid
  dsi_daemon_id :: uuid
  dsi_started_at :: "datetime option"

record DiscoverySessionUpdate =
  dsu_phase :: DiscoveryPhase
  dsu_progress :: u8
  dsu_error :: "string option"
  dsu_finished_at :: "datetime option"

definition DiscoverySessionUpdate_scanning :: "u8 \<Rightarrow> DiscoverySessionUpdate" where
  "DiscoverySessionUpdate_scanning progress =
     \<lparr>dsu_phase = DiscoveryPhase_Scanning, dsu_progress = min progress 100, dsu_error = None,
      dsu_finished_at = None\<rparr>"

record DiscoveryUpdatePayload =
  dup_session_id :: uuid
  dup_daemon_id :: uuid
  dup_network_id :: uuid
  dup_phase :: DiscoveryPhase
  dup_discovery_type :: DiscoveryType
  dup_progress :: u8
  dup_error :: "string option"
  dup_started_at :: "datetime option"
  dup_finished_at :: "datetime option"

definition DiscoveryUpdatePayload_new ::
    "uuid \<Rightarrow> uuid \<Rightarrow> uuid \<Rightarrow> DiscoveryType \<Rightarrow> DiscoveryUpdatePayload" where
  "DiscoveryUpdatePayload_new session_id daemon_id network_id discovery_type =
     \<lparr>dup_session_id = session_id, dup_daemon_id = daemon_id, dup_network_id = network_id,
      dup_phase = DiscoveryPhase_Pending, dup_discovery_type = discovery_type, dup_progress = 0,
      dup_error = None, dup_started_at = None, dup_finished_at = None\<rparr>"

definition DiscoveryUpdatePayload_from_state_and_update ::
    "DiscoveryType \<Rightarrow> DiscoverySessionInfo \<Rightarrow> DiscoverySessionUpdate \<Rightarrow> DiscoveryUpdatePayload" where
  "DiscoveryUpdatePayload_from_state_and_update discovery_type info update =
     \<lparr>dup_session_id = dsi_session_id info, dup_daemon_id = dsi_daemon_id info,
      dup_network_id = dsi_network_id info, dup_phase = dsu_phase update,
      dup_discovery_type = discovery_type, dup_progress = dsu_progress update,
      dup_error = dsu_error update, dup_started_at = dsi_started_at info,
      dup_finished_at = dsu_finished_at update\<rparr>"

record DaemonDiscoveryRequest =
  ddr_session_id :: uuid
  ddr_discovery_type :: DiscoveryType

definition DaemonDiscoveryRequest_from :: "DiscoveryUpdatePayload \<Rightarrow> DaemonDiscoveryRequest" where
  "DaemonDiscoveryRequest_from payload =
     \<lparr>ddr_session_id = dup_session_id payload, ddr_discovery_type = dup_discovery_type payload\<rparr>"

datatype DiscoveryCriticalError = DiscoveryCriticalError_ResourceExhaustion

definition DiscoveryCriticalError_from_error_string ::
    "string \<Rightarrow> DiscoveryCriticalError option" where
  "DiscoveryCriticalError_from_error_string error_str =
     (let lower_error = to_lowercase error_str
      in if str_contains lower_error ''too many open files'' \<or>
            str_contains lower_error ''file descriptor limit'' \<or>
            str_contains lower_error ''cannot allocate memory'' \<or>
            str_contains lower_error ''out of memory'' \<or>
            str_contains lower_error ''os error 24'' \<or>
            str_contains lower_error ''emfile''
         then Some DiscoveryCriticalError_ResourceExhaustion else None)"

definition DiscoveryCriticalError_is_critical_error :: "string \<Rightarrow> bool" where
  "DiscoveryCriticalError_is_critical_error error_str \<longleftrightarrow>
     DiscoveryCriticalError_from_error_string error_str \<noteq> None"

subsection \<open>Discoveries\<close>

datatype RunType =
    RunType_Scheduled string "datetime option" bool
  | RunType_Historical DiscoveryUpdatePayload
  | RunType_AdHoc "datetime option"

record DiscoveryBase =
  db_discovery_type :: DiscoveryType
  db_run_type :: RunType
  db_name :: string
  db_daemon_id :: uuid
  db_network_id :: uuid
  db_tags :: "uuid list"

record Discovery =
  discovery_id :: uuid
  discovery_created_at :: datetime
  discovery_updated_at :: datetime
  discovery_base :: DiscoveryBase

text \<open>
  \<open>Discovery::disable\<close>. The pattern \<open>enabled: mut _enabled\<close> binds a copy of the flag, and the
  assignment changes the copy.
\<close>

definition Discovery_disable :: "Discovery \<Rightarrow> Discovery" where
  "Discovery_disable d =
     (case db_run_type (discovery_base d) of
        RunType_Scheduled cron last_run enabled \<Rightarrow> (let enabled_copy = False in d)
      | _ \<Rightarrow> d)"

definition Discovery_new :: "uuid \<Rightarrow> datetime \<Rightarrow> DiscoveryBase \<Rightarrow> Discovery" where
  "Discovery_new new_id now b =
     \<lparr>discovery_id = new_id, discovery_created_at = now, discovery_updated_at = now,
      discovery_base = b\<rparr>"

datatype DaemonMode = DaemonMode_Push | DaemonMode_Pull

subsection \<open>The service's state and its environment\<close>

record disc_state =
  st_sessions :: "uuid \<rightharpoonup> DiscoveryUpdatePayload"
  st_daemon_sessions :: "uuid \<rightharpoonup> uuid list"
  st_daemon_pull_cancellations :: "uuid \<rightharpoonup> bool \<times> uuid"
  st_session_last_updated :: "uuid \<rightharpoonup> datetime"
  st_updates :: "DiscoveryUpdatePayload list"
  st_requests :: "(uuid \<times> DaemonDiscoveryRequest) list"
  st_cancellations :: "(uuid \<times> uuid) list"
  st_discoveries :: "uuid \<rightharpoonup> Discovery"
  st_events :: "(EntityOperation \<times> Discovery) list"
  st_jobs :: "uuid \<rightharpoonup> Discovery"

record disc_env =
  env_now :: datetime
  env_fresh :: "nat \<Rightarrow> uuid"
  env_show_uuid :: "uuid \<Rightarrow> string"
  env_get_daemon :: "uuid \<Rightarrow> (DaemonMode option, string) result"
  env_send_request :: "uuid \<Rightarrow> DaemonDiscoveryRequest \<Rightarrow> (unit, string) result"
  env_send_cancellation :: "uuid \<Rightarrow> uuid \<Rightarrow> (unit, string) result"
  env_store :: "Discovery \<Rightarrow> (unit, string) result"
  env_read :: "(unit, string) result"
  env_publish :: "(unit, string) result"
  env_parse_cron :: "string \<Rightarrow> (unit, string) result"
  env_add_job :: "(uuid, string) result"

definition disc_init :: disc_state where
  "disc_init =
     \<lparr>st_sessions = Map.empty, st_daemon_sessions = Map.empty,
      st_daemon_pull_cancellations = Map.empty, st_session_last_updated = Map.empty,
      st_updates = [], st_requests = [], st_cancellations = [], st_discoveries = Map.empty,
      st_events = [], st_jobs = Map.empty\<rparr>"

text \<open>Calls that change the state and may fail; \<open>match\<close> on their result, and the operator \<open>?\<close>, which
  returns early with the state as it is.\<close>

type_synonym 'a disc_call = "disc_state \<times> ('a, string) result"

definition match_call ::
    "'a disc_call \<Rightarrow> (string \<Rightarrow> disc_state \<Rightarrow> 'b) \<Rightarrow> ('a \<Rightarrow> disc_state \<Rightarrow> 'b) \<Rightarrow> 'b" where
  "match_call m on_err on_ok = (case m of (st, Inl e) \<Rightarrow> on_err e st | (st, Inr x) \<Rightarrow> on_ok x st)"

definition and_then :: "'a disc_call \<Rightarrow> ('a \<Rightarrow> disc_state \<Rightarrow> 'b disc_call) \<Rightarrow> 'b disc_call" where
  "and_then m f = match_call m (\<lambda>e st. (st, Err e)) f"

text \<open>\<open>update_tx.send\<close>, whose result is ignored.\<close>

definition broadcast :: "DiscoveryUpdatePayload \<Rightarrow> disc_state \<Rightarrow> disc_state" where
  "broadcast u st = st\<lparr>st_updates := st_updates st @ [u]\<rparr>"

text \<open>\<open>entry(daemon_id).or_default().push(session_id)\<close>.\<close>

definition enqueue :: "uuid \<Rightarrow> uuid \<Rightarrow> disc_state \<Rightarrow> disc_state" where
  "enqueue daemon_id session_id st =
     (let q = (case st_daemon_sessions st daemon_id of Some q \<Rightarrow> q | None \<Rightarrow> [])
      in st\<lparr>st_daemon_sessions := (st_daemon_sessions st)(daemon_id \<mapsto> q @ [session_id])\<rparr>)"

text \<open>\<open>if let Some(queue) = daemon_sessions.get_mut(&daemon_id) { queue.retain(..) }\<close>.\<close>

definition dequeue :: "uuid \<Rightarrow> uuid \<Rightarrow> disc_state \<Rightarrow> disc_state" where
  "dequeue daemon_id session_id st =
     (case st_daemon_sessions st daemon_id of
        Some q \<Rightarrow>
          st\<lparr>st_daemon_sessions :=
               (st_daemon_sessions st)(daemon_id \<mapsto> filter (\<lambda>s. s \<noteq> session_id) q)\<rparr>
      | None \<Rightarrow> st)"

definition put_session :: "uuid \<Rightarrow> DiscoveryUpdatePayload \<Rightarrow> disc_state \<Rightarrow> disc_state" where
  "put_session i p st = st\<lparr>st_sessions := (st_sessions st)(i \<mapsto> p)\<rparr>"

definition remove_session :: "uuid \<Rightarrow> disc_state \<Rightarrow> disc_state" where
  "remove_session i st = st\<lparr>st_sessions := (st_sessions st)(i := None)\<rparr>"

definition send_request :: "disc_env \<Rightarrow> uuid \<Rightarrow> DaemonDiscoveryRequest \<Rightarrow> disc_state
    \<Rightarrow> unit disc_call" where
  "send_request env daemon_id request st =
     (st\<lparr>st_requests := st_requests st @ [(daemon_id, request)]\<rparr>,
      env_send_request env daemon_id request)"

text \<open>\<open>discovery_storage.create\<close> and \<open>update\<close>: a row by its identifier.\<close>

definition store_discovery :: "disc_env \<Rightarrow> Discovery \<Rightarrow> disc_state
    \<Rightarrow> unit disc_call" where
  "store_discovery env d st =
     (case env_store env d of
        Inr _ \<Rightarrow> (st\<lparr>st_discoveries := (st_discoveries st)(discovery_id d \<mapsto> d)\<rparr>, Ok ())
      | Inl e \<Rightarrow> (st, Err e))"

text \<open>An \<open>UPDATE ... WHERE id = $1\<close> touches the row only if it is there.\<close>

definition update_discovery_row :: "disc_env \<Rightarrow> Discovery \<Rightarrow> disc_state
    \<Rightarrow> Discovery disc_call" where
  "update_discovery_row env d st =
     (let d' = d\<lparr>discovery_updated_at := env_now env\<rparr>
      in case env_store env d' of
           Inr _ \<Rightarrow>
             (if discovery_id d \<in> dom (st_discoveries st)
              then st\<lparr>st_discoveries := (st_discoveries st)(discovery_id d \<mapsto> d')\<rparr> else st,
              Ok d')
         | Inl e \<Rightarrow> (st, Err e))"

definition publish_entity :: "disc_env \<Rightarrow> EntityOperation \<Rightarrow> Discovery \<Rightarrow> disc_state
    \<Rightarrow> unit disc_call" where
  "publish_entity env operation d st =
     (case env_publish env of
        Inr _ \<Rightarrow> (st\<lparr>st_events := st_events st @ [(operation, d)]\<rparr>, Ok ())
      | Inl e \<Rightarrow> (st, Err e))"

definition daemon_is_push :: "disc_env \<Rightarrow> uuid \<Rightarrow> (bool, string) result" where
  "daemon_is_push env daemon_id =
     (case env_get_daemon env daemon_id of
        Inr (Some m) \<Rightarrow> Ok (m = DaemonMode_Push)
      | Inr None \<Rightarrow> Ok False
      | Inl e \<Rightarrow> Err e)"

subsection \<open>Queries\<close>

definition get_session :: "disc_state \<Rightarrow> uuid \<Rightarrow> DiscoveryUpdatePayload option" where
  "get_session st session_id = st_sessions st session_id"

text \<open>\<open>order\<close> is the order in which the hash map's iterator yields the keys.\<close>

definition get_all_sessions :: "uuid list \<Rightarrow> disc_state \<Rightarrow> uuid list \<Rightarrow> DiscoveryUpdatePayload list" where
  "get_all_sessions order st network_ids =
     filter (\<lambda>v. dup_network_id v \<in> set network_ids) (List.map_filter (st_sessions st) order)"

definition get_sessions_for_daemon ::
    "uuid list \<Rightarrow> disc_state \<Rightarrow> uuid \<Rightarrow> DiscoveryUpdatePayload list" where
  "get_sessions_for_daemon order st daemon_id =
     (let session_ids = (case st_daemon_sessions st daemon_id of Some q \<Rightarrow> q | None \<Rightarrow> [])
      in List.map_filter (st_sessions st) (filter (\<lambda>i. i \<in> set session_ids) order))"

definition pull_cancellation_for_daemon ::
    "uuid \<Rightarrow> disc_state \<Rightarrow> disc_state \<times> (bool \<times> uuid)" where
  "pull_cancellation_for_daemon daemon_id st =
     (st\<lparr>st_daemon_pull_cancellations := (st_daemon_pull_cancellations st)(daemon_id := None)\<rparr>,
      case st_daemon_pull_cancellations st daemon_id of Some c \<Rightarrow> c | None \<Rightarrow> (False, uuid_nil))"

subsection \<open>Starting a session\<close>

text \<open>The atomic sections of \<open>start_session\<close>, in order.\<close>

definition start_payload :: "disc_env \<Rightarrow> Discovery \<Rightarrow> DiscoveryUpdatePayload" where
  "start_payload env d =
     DiscoveryUpdatePayload_new (env_fresh env 0) (db_daemon_id (discovery_base d))
       (db_network_id (discovery_base d)) (db_discovery_type (discovery_base d))"

definition start_insert :: "DiscoveryUpdatePayload \<Rightarrow> disc_state \<Rightarrow> disc_state" where
  "start_insert payload = put_session (dup_session_id payload) payload"

definition start_check :: "DiscoveryUpdatePayload \<Rightarrow> disc_state \<Rightarrow> bool" where
  "start_check payload st =
     (case st_daemon_sessions st (dup_daemon_id payload) of Some q \<Rightarrow> q \<noteq> [] | None \<Rightarrow> False)"

definition start_enqueue :: "DiscoveryUpdatePayload \<Rightarrow> disc_state \<Rightarrow> disc_state" where
  "start_enqueue payload = enqueue (dup_daemon_id payload) (dup_session_id payload)"

definition start_dispatch :: "disc_env \<Rightarrow> DiscoveryUpdatePayload \<Rightarrow> bool \<Rightarrow> disc_state
    \<Rightarrow> DiscoveryUpdatePayload disc_call" where
  "start_dispatch env payload daemon_is_running_discovery st =
     and_then (st, daemon_is_push env (dup_daemon_id payload)) (\<lambda>is_push st1.
     and_then
       (if \<not> daemon_is_running_discovery \<and> is_push
        then send_request env (dup_daemon_id payload) (DaemonDiscoveryRequest_from payload) st1
        else (st1, Ok ()))
       (\<lambda>_ st2. (broadcast payload st2, Ok payload)))"

definition start_session :: "disc_env \<Rightarrow> Discovery \<Rightarrow> disc_state
    \<Rightarrow> DiscoveryUpdatePayload disc_call" where
  "start_session env d st =
     (let payload = start_payload env d;
          st1 = start_insert payload st;
          daemon_is_running_discovery = start_check payload st1;
          st2 = start_enqueue payload st1
      in start_dispatch env payload daemon_is_running_discovery st2)"

subsection \<open>Updating a session\<close>

definition historical_discovery ::
    "uuid \<Rightarrow> datetime \<Rightarrow> DiscoveryUpdatePayload \<Rightarrow> string \<Rightarrow> DiscoveryUpdatePayload \<Rightarrow> Discovery" where
  "historical_discovery new_id now session name results =
     \<lparr>discovery_id = new_id,
      discovery_created_at = (case dup_started_at session of Some t \<Rightarrow> t | None \<Rightarrow> now),
      discovery_updated_at = now,
      discovery_base =
        \<lparr>db_discovery_type = dup_discovery_type session,
         db_run_type = RunType_Historical results,
         db_name = name,
         db_daemon_id = dup_daemon_id session,
         db_network_id = dup_network_id session,
         db_tags = []\<rparr>\<rparr>"

text \<open>The first half: record the time, create the session if it is unknown, broadcast, replace.
  The result is the daemon of the session before it is replaced.\<close>

definition update_apply :: "disc_env \<Rightarrow> DiscoveryUpdatePayload \<Rightarrow> disc_state \<Rightarrow> disc_state \<times> uuid" where
  "update_apply env update st =
     (let st1 = st\<lparr>st_session_last_updated :=
                     (st_session_last_updated st)(dup_session_id update \<mapsto> env_now env)\<rparr>;
          st2 = (if st_sessions st1 (dup_session_id update) = None
                 then put_session (dup_session_id update) update
                        (enqueue (dup_daemon_id update) (dup_session_id update) st1)
                 else st1);
          daemon_id = (case st_sessions st2 (dup_session_id update) of
                         Some s \<Rightarrow> dup_daemon_id s | None \<Rightarrow> uuid_nil)
      in (put_session (dup_session_id update) update (broadcast update st2), daemon_id))"

text \<open>Taking a finished session out: the queue of its daemon loses it, the next session of that
  queue is marked pending, and the session is removed.\<close>

definition advance_queue :: "DiscoveryUpdatePayload \<Rightarrow> disc_state
    \<Rightarrow> disc_state \<times> DiscoveryUpdatePayload option" where
  "advance_queue session st =
     (let st1 = dequeue (dup_daemon_id session) (dup_session_id session) st;
          next_session =
            (case st_daemon_sessions st1 (dup_daemon_id session) of
               Some (n # _) \<Rightarrow> map_option (\<lambda>p. (n, p)) (st_sessions st1 n)
             | _ \<Rightarrow> None);
          st2 = (case next_session of
                   Some (n, p) \<Rightarrow> put_session n (p\<lparr>dup_phase := DiscoveryPhase_Pending\<rparr>) st1
                 | None \<Rightarrow> st1)
      in (remove_session (dup_session_id session) st2, map_option snd next_session))"

text \<open>Saving the historical record: a storage error is only logged, an error of the event bus is
  returned.\<close>

definition save_historical :: "disc_env \<Rightarrow> Discovery \<Rightarrow> disc_state \<Rightarrow> unit disc_call" where
  "save_historical env h st =
     match_call (store_discovery env h st)
       (\<lambda>e st1. (st1, Ok ()))
       (\<lambda>_ st1. publish_entity env EntityOperation_Created h st1)"

definition dispatch_next :: "disc_env \<Rightarrow> uuid \<Rightarrow> DiscoveryUpdatePayload option \<Rightarrow> disc_state
    \<Rightarrow> unit disc_call" where
  "dispatch_next env daemon_id next_session st =
     and_then (st, daemon_is_push env daemon_id) (\<lambda>is_push st1.
       case next_session of
         Some p \<Rightarrow>
           if is_push then send_request env daemon_id (DaemonDiscoveryRequest_from p) st1
           else (st1, Ok ())
       | None \<Rightarrow> (st1, Ok ()))"

definition update_finish :: "disc_env \<Rightarrow> DiscoveryUpdatePayload \<Rightarrow> uuid \<Rightarrow> disc_state
    \<Rightarrow> unit disc_call" where
  "update_finish env session daemon_id st =
     (let h = historical_discovery (env_fresh env 0) (env_now env) session
                (DiscoveryType_display (dup_discovery_type session)) session;
          st1 = fst (pull_cancellation_for_daemon (dup_daemon_id session) st)
      in and_then (save_historical env h st1) (\<lambda>_ st2.
           let (st3, next_session) = advance_queue session st2
           in dispatch_next env daemon_id next_session st3))"

definition update_session :: "disc_env \<Rightarrow> DiscoveryUpdatePayload \<Rightarrow> disc_state
    \<Rightarrow> unit disc_call" where
  "update_session env update st =
     (case update_apply env update st of
        (st1, daemon_id) \<Rightarrow>
          if DiscoveryPhase_is_terminal (dup_phase update)
          then update_finish env update daemon_id st1
          else (st1, Ok ()))"

subsection \<open>Cancelling a session\<close>

definition cancel_pending :: "disc_env \<Rightarrow> uuid \<Rightarrow> DiscoveryUpdatePayload \<Rightarrow> disc_state \<Rightarrow> disc_state" where
  "cancel_pending env session_id session st =
     broadcast
       \<lparr>dup_session_id = session_id, dup_daemon_id = dup_daemon_id session,
        dup_network_id = dup_network_id session, dup_phase = DiscoveryPhase_Cancelled,
        dup_discovery_type = dup_discovery_type session, dup_progress = 0, dup_error = None,
        dup_started_at = dup_started_at session, dup_finished_at = Some (env_now env)\<rparr>
       (dequeue (dup_daemon_id session) session_id (remove_session session_id st))"

text \<open>The daemon of an active session cannot be reached: the session is failed on the server.\<close>

definition cancel_unreachable :: "disc_env \<Rightarrow> uuid \<Rightarrow> uuid \<Rightarrow> uuid \<Rightarrow> disc_state \<Rightarrow> disc_state" where
  "cancel_unreachable env session_id network_id daemon_id st =
     (case st_sessions st session_id of
        None \<Rightarrow> st
      | Some session \<Rightarrow>
          let st1 = dequeue daemon_id session_id (remove_session session_id st);
              cancelled_update =
                \<lparr>dup_session_id = session_id, dup_daemon_id = daemon_id,
                 dup_network_id = network_id, dup_phase = DiscoveryPhase_Failed,
                 dup_discovery_type = dup_discovery_type session,
                 dup_progress = dup_progress session,
                 dup_error =
                   Some ''Daemon unreachable during cancellation. Session was removed from server.'',
                 dup_started_at = dup_started_at session,
                 dup_finished_at = Some (env_now env)\<rparr>;
              st2 = broadcast cancelled_update st1;
              h = historical_discovery (env_fresh env 0) (env_now env) session
                    ''Discovery Run (Cancellation Failed)'' cancelled_update
          in fst (store_discovery env h st2))"

definition cancel_active :: "disc_env \<Rightarrow> uuid \<Rightarrow> DiscoveryUpdatePayload \<Rightarrow> disc_state
    \<Rightarrow> unit disc_call" where
  "cancel_active env session_id session st =
     (let daemon_id = dup_daemon_id session
      in case env_get_daemon env daemon_id of
           Inl e \<Rightarrow> (st, Err e)
         | Inr None \<Rightarrow>
             (st, Err (''Daemon '' @ env_show_uuid env daemon_id @
                       '' not found when trying to cancel discovery session '' @
                       env_show_uuid env session_id))
         | Inr (Some DaemonMode_Push) \<Rightarrow>
             (let st1 = st\<lparr>st_cancellations := st_cancellations st @ [(daemon_id, session_id)]\<rparr>
              in case env_send_cancellation env daemon_id session_id of
                   Inr _ \<Rightarrow> (st1, Ok ())
                 | Inl e \<Rightarrow>
                     (cancel_unreachable env session_id (dup_network_id session) daemon_id st1, Ok ()))
         | Inr (Some DaemonMode_Pull) \<Rightarrow>
             (st\<lparr>st_daemon_pull_cancellations :=
                   (st_daemon_pull_cancellations st)(daemon_id \<mapsto> (True, session_id))\<rparr>, Ok ()))"

definition cancel_session :: "disc_env \<Rightarrow> uuid \<Rightarrow> disc_state \<Rightarrow> unit disc_call" where
  "cancel_session env session_id st =
     (case get_session st session_id of
        None \<Rightarrow> (st, Err (''Session '' @ [CHR 0x27] @ env_show_uuid env session_id @ [CHR 0x27] @
                         '' not found''))
      | Some session \<Rightarrow>
          (case dup_phase session of
             DiscoveryPhase_Pending \<Rightarrow> (cancel_pending env session_id session st, Ok ())
           | DiscoveryPhase_Starting \<Rightarrow>
               (st, Err ''Session is starting on daemon. Please try again in a moment.'')
           | DiscoveryPhase_Started \<Rightarrow> cancel_active env session_id session st
           | DiscoveryPhase_Scanning \<Rightarrow> cancel_active env session_id session st
           | _ \<Rightarrow> (st, Ok ())))"

subsection \<open>Cleaning up\<close>

text \<open>Times are in milliseconds. \<open>order\<close> is the order of the hash map's iterator.\<close>

definition cleanup_old_one :: "disc_state \<Rightarrow> uuid \<Rightarrow> disc_state" where
  "cleanup_old_one st session_id =
     (case st_sessions st session_id of
        None \<Rightarrow> st
      | Some session \<Rightarrow>
          let st1 = remove_session session_id st;
              st2 = st1\<lparr>st_daemon_pull_cancellations :=
                          (st_daemon_pull_cancellations st1)(dup_daemon_id session := None)\<rparr>
          in dequeue (dup_daemon_id session) (dup_session_id session) st2)"

definition cleanup_old_sessions :: "disc_env \<Rightarrow> uuid list \<Rightarrow> int \<Rightarrow> disc_state \<Rightarrow> disc_state" where
  "cleanup_old_sessions env order max_age_hours st =
     (let cutoff = env_now env - max_age_hours * 3600000;
          to_remove =
            filter (\<lambda>i. case st_sessions st i of
                          Some session \<Rightarrow>
                            (case dup_finished_at session of Some f \<Rightarrow> f < cutoff | None \<Rightarrow> False)
                        | None \<Rightarrow> False) order
      in foldl cleanup_old_one st to_remove)"

definition is_stalled :: "datetime \<Rightarrow> disc_state \<Rightarrow> uuid \<Rightarrow> DiscoveryUpdatePayload \<Rightarrow> bool" where
  "is_stalled now st session_id session =
     (let stall_threshold = 5 * 60000
      in \<not> DiscoveryPhase_is_terminal (dup_phase session) \<and>
         (case st_session_last_updated st session_id of
            Some last_update_time \<Rightarrow> now - last_update_time > stall_threshold
          | None \<Rightarrow>
              (case dup_started_at session of
                 Some started_at \<Rightarrow> now - started_at > stall_threshold
               | None \<Rightarrow> False)))"

definition stalled_error :: string where
  "stalled_error = ''Session stalled - no updates received from daemon for more than 5 minutes''"

text \<open>One stalled session; \<open>n\<close> counts the identifiers drawn.\<close>

definition cleanup_stalled_one :: "disc_env \<Rightarrow> disc_state \<times> nat \<Rightarrow> uuid \<Rightarrow> disc_state \<times> nat" where
  "cleanup_stalled_one env stn session_id =
     (let (st, n) = stn
      in case st_sessions st session_id of
           None \<Rightarrow> (st, n)
         | Some session0 \<Rightarrow>
             let daemon_id = dup_daemon_id session0;
                 session = session0\<lparr>dup_phase := DiscoveryPhase_Failed,
                                    dup_error := Some stalled_error,
                                    dup_finished_at := Some (env_now env)\<rparr>;
                 st1 = dequeue daemon_id session_id (remove_session session_id st);
                 st2 = broadcast session
                         (st1\<lparr>st_session_last_updated :=
                                (st_session_last_updated st1)(session_id := None)\<rparr>);
                 st3 = (case st_daemon_pull_cancellations st2 daemon_id of
                          Some (_, cancel_session_id) \<Rightarrow>
                            if cancel_session_id = session_id
                            then st2\<lparr>st_daemon_pull_cancellations :=
                                       (st_daemon_pull_cancellations st2)(daemon_id := None)\<rparr>
                            else st2
                        | None \<Rightarrow> st2);
                 h = historical_discovery (env_fresh env n) (env_now env) session
                       ''Discovery Run (Stalled)'' session
             in (fst (store_discovery env h st3), Suc n))"

definition cleanup_stalled_sessions :: "disc_env \<Rightarrow> uuid list \<Rightarrow> disc_state \<Rightarrow> disc_state" where
  "cleanup_stalled_sessions env order st =
     (let stalled_sessions =
            filter (\<lambda>i. case st_sessions st i of
                          Some session \<Rightarrow> is_stalled (env_now env) st i session
                        | None \<Rightarrow> False) order
      in fst (foldl (cleanup_stalled_one env) (st, 0) stalled_sessions))"

subsection \<open>Scheduled discoveries\<close>

text \<open>
  The scheduler of the \<open>tokio_cron_scheduler\<close> crate keeps jobs by the identifier that it gives
  them when they are added (\<open>env_add_job\<close>); a job holds a copy of the discovery. \<open>remove\<close> takes a
  job identifier.
\<close>

definition schedule_discovery :: "disc_env \<Rightarrow> Discovery \<Rightarrow> disc_state
    \<Rightarrow> uuid disc_call" where
  "schedule_discovery env d st =
     (case db_run_type (discovery_base d) of
        RunType_Scheduled cron_schedule last_run enabled \<Rightarrow>
          if \<not> enabled then (st, Err ''Discovery is not enabled'')
          else (case env_parse_cron env cron_schedule of
                  Inl e \<Rightarrow> (st, Err e)
                | Inr _ \<Rightarrow>
                    (case env_add_job env of
                       Inl e \<Rightarrow> (st, Err e)
                     | Inr job_id \<Rightarrow> (st\<lparr>st_jobs := (st_jobs st)(job_id \<mapsto> d)\<rparr>, Ok job_id)))
      | _ \<Rightarrow> (st, Err ''Discovery is not scheduled''))"

definition scheduler_remove :: "uuid \<Rightarrow> disc_state \<Rightarrow> disc_state" where
  "scheduler_remove job_id st = st\<lparr>st_jobs := (st_jobs st)(job_id := None)\<rparr>"

text \<open>
  The body of a job: start a session, then write the job's copy of the discovery back. The
  pattern \<open>last_run: mut _last_run\<close> binds a copy, so the time of the run is not in it.
\<close>

definition run_job :: "disc_env \<Rightarrow> Discovery \<Rightarrow> disc_state \<Rightarrow> disc_state" where
  "run_job env d st =
     match_call (start_session env d st)
       (\<lambda>e st1. st1)
       (\<lambda>_ st1.
          case db_run_type (discovery_base d) of
            RunType_Scheduled cron last_run enabled \<Rightarrow>
              (let last_run_copy = Some (env_now env) in fst (update_discovery_row env d st1))
          | _ \<Rightarrow> st1)"

definition is_scheduled :: "Discovery \<Rightarrow> bool" where
  "is_scheduled d =
     (case db_run_type (discovery_base d) of RunType_Scheduled _ _ _ \<Rightarrow> True | _ \<Rightarrow> False)"

definition create_discovery :: "disc_env \<Rightarrow> Discovery \<Rightarrow> disc_state \<Rightarrow> Discovery disc_call" where
  "create_discovery env d st =
     (let created =
            (if discovery_id d = uuid_nil
             then Discovery_new (env_fresh env 0) (env_now env) (discovery_base d) else d);
          publish = (\<lambda>st'. and_then (publish_entity env EntityOperation_Created created st')
                             (\<lambda>_ st''. (st'', Ok created)))
      in and_then (store_discovery env created st) (\<lambda>_ st1.
           if is_scheduled created
           then match_call (schedule_discovery env created st1)
                  (\<lambda>e st2. update_discovery_row env (Discovery_disable created) st2)
                  (\<lambda>_ st2. publish st2)
           else publish st1))"

definition schedule_changed :: "Discovery \<Rightarrow> Discovery \<Rightarrow> bool" where
  "schedule_changed new current =
     (case (db_run_type (discovery_base new), db_run_type (discovery_base current)) of
        (RunType_Scheduled new_cron _ _, RunType_Scheduled current_cron _ _) \<Rightarrow>
          current_cron \<noteq> new_cron
      | _ \<Rightarrow> False)"

text \<open>\<open>get_by_id\<close> on the discovery storage: the read may fail.\<close>

definition get_discovery :: "disc_env \<Rightarrow> uuid \<Rightarrow> disc_state \<Rightarrow> (Discovery option, string) result" where
  "get_discovery env i st = (case env_read env of Inl e \<Rightarrow> Err e | Inr _ \<Rightarrow> Ok (st_discoveries st i))"

definition update_discovery :: "disc_env \<Rightarrow> Discovery \<Rightarrow> disc_state \<Rightarrow> Discovery disc_call" where
  "update_discovery env d st =
     and_then (st, get_discovery env (discovery_id d) st) (\<lambda>found st0.
       case found of
         None \<Rightarrow>
           (st0, Err (''Could not find discovery Discovery '' @ db_name (discovery_base d) @ '': '' @
                      env_show_uuid env (discovery_id d)))
       | Some current \<Rightarrow>
           and_then
             (if schedule_changed d current
              then and_then (update_discovery_row env d (scheduler_remove (discovery_id d) st0))
                     (\<lambda>updated st1.
                        match_call (schedule_discovery env updated st1)
                          (\<lambda>e st2. update_discovery_row env (Discovery_disable updated) st2)
                          (\<lambda>_ st2. (st2, Ok updated)))
              else update_discovery_row env d st0)
             (\<lambda>updated st4.
                and_then (publish_entity env EntityOperation_Updated updated st4)
                  (\<lambda>_ st5. (st5, Ok updated))))"

definition delete_discovery :: "disc_env \<Rightarrow> uuid \<Rightarrow> disc_state \<Rightarrow> unit disc_call" where
  "delete_discovery env i st =
     and_then (st, get_discovery env i st) (\<lambda>found st0.
       case found of
         None \<Rightarrow> (st0, Err ''Discovery not found'')
       | Some d \<Rightarrow>
           (let st1 = (if is_scheduled d then scheduler_remove i st0 else st0)
            in and_then (st1, env_store env d) (\<lambda>_ st2.
                 publish_entity env EntityOperation_Deleted d
                   (st2\<lparr>st_discoveries := (st_discoveries st2)(i := None)\<rparr>))))"

text \<open>The loop of \<open>start_scheduler\<close> over the scheduled discoveries, each with the environment of
  its round.\<close>

fun schedule_all :: "(disc_env \<times> Discovery) list \<Rightarrow> disc_state \<Rightarrow> disc_state \<times> nat" where
  "schedule_all [] st = (st, 0)"
| "schedule_all ((env, d) # ds) st =
     (case schedule_discovery env d st of
        (st1, Inr _) \<Rightarrow> schedule_all ds st1
      | (st1, Inl _) \<Rightarrow>
          (case schedule_all ds (fst (update_discovery_row env (Discovery_disable d) st1)) of
             (st2, failed_count) \<Rightarrow> (st2, Suc failed_count)))"

subsection \<open>Handlers\<close>

text \<open>
  \<open>receive_discovery_update\<close> of \<^verbatim>\<open>backend/src/server/discovery/handlers.rs\<close>: the daemon may report
  only for its own network and as itself.
\<close>

definition receive_discovery_update ::
    "disc_env \<Rightarrow> uuid \<Rightarrow> uuid \<Rightarrow> DiscoveryUpdatePayload \<Rightarrow> disc_state
       \<Rightarrow> unit disc_call" where
  "receive_discovery_update env daemon_network_id daemon_id update st =
     (if dup_network_id update \<noteq> daemon_network_id
      then (st, Err ''Cannot send updates for a different network'')
      else if dup_daemon_id update \<noteq> daemon_id
      then (st, Err ''Cannot send updates for a different daemon'')
      else update_session env update st)"

definition cancel_discovery ::
    "disc_env \<Rightarrow> uuid list \<Rightarrow> uuid \<Rightarrow> disc_state \<Rightarrow> unit disc_call" where
  "cancel_discovery env network_ids session_id st =
     (case get_session st session_id of
        None \<Rightarrow> (st, Err (''Session '' @ [CHR 0x27] @ env_show_uuid env session_id @ [CHR 0x27] @
                         '' not found''))
      | Some session \<Rightarrow>
          if dup_network_id session \<notin> set network_ids
          then (st, Err (''You don'' @ [CHR 0x27] @ ''t have access to this session''))
          else cancel_session env session_id st)"

text \<open>The part of \<open>receive_work_request\<close> (\<^verbatim>\<open>backend/src/server/daemons/handlers.rs\<close>) that answers a
  pulling daemon: its next session and whether to cancel the current one.\<close>

definition receive_work_request :: "uuid list \<Rightarrow> uuid \<Rightarrow> disc_state
    \<Rightarrow> disc_state \<times> (DiscoveryUpdatePayload option \<times> bool)" where
  "receive_work_request order daemon_id st =
     (let sessions = get_sessions_for_daemon order st daemon_id
      in case pull_cancellation_for_daemon daemon_id st of
           (st1, (cancel, session_id_to_cancel)) \<Rightarrow>
             (st1, ((case sessions of [] \<Rightarrow> None | s # _ \<Rightarrow> Some s), cancel)))"

subsection \<open>Sessions and queues\<close>

definition queue_of :: "disc_state \<Rightarrow> uuid \<Rightarrow> uuid list" where
  "queue_of st d = (case st_daemon_sessions st d of Some q \<Rightarrow> q | None \<Rightarrow> [])"

text \<open>The session map and the queues describe the same sessions: each session is in the queue of
  its daemon and nowhere else, once, and every queued identifier has its session.\<close>

definition queues_match ::
    "(uuid \<rightharpoonup> DiscoveryUpdatePayload) \<Rightarrow> (uuid \<Rightarrow> uuid list) \<Rightarrow> bool" where
  "queues_match s q \<longleftrightarrow>
     (\<forall>i p. s i = Some p \<longrightarrow> dup_session_id p = i) \<and>
     (\<forall>d i. i \<in> set (q d) \<longleftrightarrow> map_option dup_daemon_id (s i) = Some d) \<and>
     (\<forall>d. distinct (q d))"

lemma queues_matchD:
  assumes "queues_match s q"
  shows "s i = Some p \<Longrightarrow> dup_session_id p = i"
    and "i \<in> set (q d) \<longleftrightarrow> map_option dup_daemon_id (s i) = Some d"
    and "distinct (q d)"
  using assms by (simp_all add: queues_match_def)

lemma queues_matchI:
  assumes "\<And>i p. s i = Some p \<Longrightarrow> dup_session_id p = i"
    and "\<And>d i. i \<in> set (q d) \<longleftrightarrow> map_option dup_daemon_id (s i) = Some d"
    and "\<And>d. distinct (q d)"
  shows "queues_match s q"
  using assms by (simp add: queues_match_def)

lemma queues_match_add:
  assumes "queues_match s q" and "s i = None" and "dup_session_id p = i" and "dup_daemon_id p = d"
  shows "queues_match (s(i \<mapsto> p)) (q(d := q d @ [i]))"
  by (rule queues_matchI)
    (use assms(2-4) queues_matchD [OF assms(1)] in \<open>auto split: if_splits\<close>)

lemma queues_match_replace:
  assumes "queues_match s q" and "s i = Some p" and "dup_session_id p' = i"
    and "dup_daemon_id p' = dup_daemon_id p"
  shows "queues_match (s(i \<mapsto> p')) q"
  by (rule queues_matchI)
    (use assms(2-4) queues_matchD [OF assms(1)] in \<open>auto split: if_splits\<close>)

lemma queues_match_remove:
  assumes "queues_match s q" and "s i = Some p" and "dup_daemon_id p = d"
  shows "queues_match (s(i := None)) (q(d := filter (\<lambda>x. x \<noteq> i) (q d)))"
  by (rule queues_matchI)
    (use assms(2,3) queues_matchD [OF assms(1)] in \<open>auto split: if_splits\<close>)

lemma queue_of_enqueue [frame_simps]:
  "queue_of (enqueue d i st) = (queue_of st)(d := queue_of st d @ [i])"
  by (rule ext) (simp add: queue_of_def enqueue_def Let_def)

lemma queue_of_dequeue [frame_simps]:
  "queue_of (dequeue d i st) = (queue_of st)(d := filter (\<lambda>x. x \<noteq> i) (queue_of st d))"
  by (rule ext) (auto simp: queue_of_def dequeue_def split: option.splits)

lemma queue_of_simps [frame_simps]:
  "queue_of (put_session i p st) = queue_of st"
  "queue_of (remove_session i st) = queue_of st"
  "queue_of (broadcast u st) = queue_of st"
  "queue_of (fst (store_discovery env h st)) = queue_of st"
  "queue_of (fst (publish_entity env op h st)) = queue_of st"
  "queue_of (fst (send_request env d r st)) = queue_of st"
  "queue_of (fst (update_discovery_row env h st)) = queue_of st"
  "queue_of (fst (pull_cancellation_for_daemon d st)) = queue_of st"
  "queue_of (fst (schedule_discovery env h st)) = queue_of st"
  "queue_of (scheduler_remove i st) = queue_of st"
  "queue_of (st_sessions_update f st) = queue_of st"
  "queue_of (st_daemon_pull_cancellations_update g st) = queue_of st"
  "queue_of (st_session_last_updated_update k st) = queue_of st"
  "queue_of (st_cancellations_update c st) = queue_of st"
  by (rule ext; auto simp: queue_of_def put_session_def remove_session_def broadcast_def
      store_discovery_def publish_entity_def send_request_def update_discovery_row_def
      pull_cancellation_for_daemon_def schedule_discovery_def scheduler_remove_def Let_def
      split: sum.splits RunType.splits)+

lemma sessions_simps [frame_simps]:
  "st_sessions (put_session i p st) = (st_sessions st)(i \<mapsto> p)"
  "st_sessions (remove_session i st) = (st_sessions st)(i := None)"
  "st_sessions (enqueue d i st) = st_sessions st"
  "st_sessions (dequeue d i st) = st_sessions st"
  "st_sessions (broadcast u st) = st_sessions st"
  "st_sessions (fst (store_discovery env h st)) = st_sessions st"
  "st_sessions (fst (publish_entity env op h st)) = st_sessions st"
  "st_sessions (fst (send_request env d r st)) = st_sessions st"
  "st_sessions (fst (update_discovery_row env h st)) = st_sessions st"
  "st_sessions (fst (pull_cancellation_for_daemon d st)) = st_sessions st"
  "st_sessions (fst (schedule_discovery env h st)) = st_sessions st"
  "st_sessions (scheduler_remove i st) = st_sessions st"
  by (auto simp: put_session_def remove_session_def broadcast_def enqueue_def dequeue_def
      store_discovery_def publish_entity_def send_request_def update_discovery_row_def
      pull_cancellation_for_daemon_def schedule_discovery_def scheduler_remove_def Let_def
      split: sum.splits RunType.splits option.splits)

lemma flags_simps [frame_simps]:
  "st_daemon_pull_cancellations (put_session i p st) = st_daemon_pull_cancellations st"
  "st_daemon_pull_cancellations (remove_session i st) = st_daemon_pull_cancellations st"
  "st_daemon_pull_cancellations (enqueue d i st) = st_daemon_pull_cancellations st"
  "st_daemon_pull_cancellations (dequeue d i st) = st_daemon_pull_cancellations st"
  "st_daemon_pull_cancellations (broadcast u st) = st_daemon_pull_cancellations st"
  "st_daemon_pull_cancellations (fst (store_discovery env h st)) = st_daemon_pull_cancellations st"
  "st_daemon_pull_cancellations (fst (publish_entity env op h st)) = st_daemon_pull_cancellations st"
  "st_daemon_pull_cancellations (fst (send_request env d r st)) = st_daemon_pull_cancellations st"
  "st_daemon_pull_cancellations (fst (update_discovery_row env h st)) = st_daemon_pull_cancellations st"
  "st_daemon_pull_cancellations (fst (pull_cancellation_for_daemon d st)) =
     (st_daemon_pull_cancellations st)(d := None)"
  "st_daemon_pull_cancellations (fst (schedule_discovery env h st)) = st_daemon_pull_cancellations st"
  "st_daemon_pull_cancellations (scheduler_remove i st) = st_daemon_pull_cancellations st"
  by (auto simp: put_session_def remove_session_def broadcast_def enqueue_def dequeue_def
      store_discovery_def publish_entity_def send_request_def update_discovery_row_def
      pull_cancellation_for_daemon_def schedule_discovery_def scheduler_remove_def Let_def
      split: sum.splits RunType.splits option.splits)

text \<open>The view of the state that the invariant reads, and its effect lemmas per operation.\<close>

abbreviation view :: "disc_state \<Rightarrow>
    (uuid \<rightharpoonup> DiscoveryUpdatePayload) \<times> (uuid \<Rightarrow> uuid list) \<times> (uuid \<rightharpoonup> bool \<times> uuid)" where
  "view st \<equiv> (st_sessions st, queue_of st, st_daemon_pull_cancellations st)"

lemma view_start_session:
  "view (fst (start_session env d st)) =
     (let p = start_payload env d
      in ((st_sessions st)(dup_session_id p \<mapsto> p),
          (queue_of st)(dup_daemon_id p := queue_of st (dup_daemon_id p) @ [dup_session_id p]),
          st_daemon_pull_cancellations st))"
proof -
  have "view (fst (start_dispatch env p b st')) = view st'" for p b st'
    by (auto simp: start_dispatch_def and_then_def match_call_def send_request_def broadcast_def
        queue_of_def split: sum.splits)
  then show ?thesis
    by (simp add: start_session_def start_insert_def start_enqueue_def frame_simps Let_def)
qed

lemma view_update_apply:
  "view (fst (update_apply env u st)) =
     ((st_sessions st)(dup_session_id u \<mapsto> u),
      (if st_sessions st (dup_session_id u) = None
       then (queue_of st)(dup_daemon_id u := queue_of st (dup_daemon_id u) @ [dup_session_id u])
       else queue_of st),
      st_daemon_pull_cancellations st)"
  by (auto simp: update_apply_def Let_def frame_simps)

lemma view_cancel_pending:
  "view (cancel_pending env i p st) =
     ((st_sessions st)(i := None),
      (queue_of st)(dup_daemon_id p := filter (\<lambda>x. x \<noteq> i) (queue_of st (dup_daemon_id p))),
      st_daemon_pull_cancellations st)"
  by (simp add: cancel_pending_def frame_simps)

lemma view_cancel_unreachable:
  "st_sessions st i = Some p \<Longrightarrow>
   view (cancel_unreachable env i n d st) =
     ((st_sessions st)(i := None),
      (queue_of st)(d := filter (\<lambda>x. x \<noteq> i) (queue_of st d)),
      st_daemon_pull_cancellations st)"
  by (simp add: cancel_unreachable_def frame_simps Let_def)

text \<open>A pending cancellation names an active session of a pulling daemon. \<open>mode\<close> gives the daemons
  and their modes.\<close>

definition flags_ok ::
    "(uuid \<rightharpoonup> DaemonMode) \<Rightarrow> (uuid \<rightharpoonup> DiscoveryUpdatePayload) \<Rightarrow> (uuid \<rightharpoonup> bool \<times> uuid) \<Rightarrow> bool" where
  "flags_ok mode s f \<longleftrightarrow>
     (\<forall>d b i. f d = Some (b, i) \<longrightarrow>
        b \<and> mode d = Some DaemonMode_Pull \<and>
        (\<exists>p. s i = Some p \<and> dup_daemon_id p = d \<and> dup_phase p \<noteq> DiscoveryPhase_Pending))"

lemma flags_ok_put:
  assumes "flags_ok mode s f"
    and "s i = None \<or> (dup_phase p \<noteq> DiscoveryPhase_Pending \<and>
           map_option dup_daemon_id (s i) = Some (dup_daemon_id p))"
  shows "flags_ok mode (s(i \<mapsto> p)) f"
  using assms unfolding flags_ok_def by fastforce

lemma flags_ok_touch:
  assumes "flags_ok mode s f" and "s i = Some p" and "f (dup_daemon_id p) = None"
  shows "flags_ok mode (s(i := v)) f"
  using assms unfolding flags_ok_def by (auto split: if_splits) force+

lemma flags_ok_drop: "flags_ok mode s f \<Longrightarrow> flags_ok mode s (f(d := None))"
  unfolding flags_ok_def by auto

fun disc_inv :: "(uuid \<rightharpoonup> DaemonMode) \<Rightarrow>
    (uuid \<rightharpoonup> DiscoveryUpdatePayload) \<times> (uuid \<Rightarrow> uuid list) \<times> (uuid \<rightharpoonup> bool \<times> uuid) \<Rightarrow> bool" where
  "disc_inv mode (s, q, f) \<longleftrightarrow> queues_match s q \<and> flags_ok mode s f"

declare disc_inv.simps [simp del]

lemma disc_inv_init: "disc_inv mode (view disc_init)"
  by (simp add: disc_inv.simps queues_match_def flags_ok_def disc_init_def queue_of_def)

lemma disc_inv_start:
  assumes "disc_inv mode (view st)" and "st_sessions st (env_fresh env 0) = None"
  shows "disc_inv mode (view (fst (start_session env d st)))"
proof -
  let ?p = "start_payload env d"
  have id: "dup_session_id ?p = env_fresh env 0"
    by (simp add: start_payload_def DiscoveryUpdatePayload_new_def)
  from assms show ?thesis
    unfolding view_start_session Let_def id disc_inv.simps
    by (auto intro!: queues_match_add flags_ok_put simp: id)
qed

text \<open>An update reports on a session of the daemon that sends it, or on an unknown one, and never
  as pending: the daemon sets the later phases.\<close>

definition own_update :: "disc_state \<Rightarrow> DiscoveryUpdatePayload \<Rightarrow> bool" where
  "own_update st u \<longleftrightarrow>
     dup_phase u \<noteq> DiscoveryPhase_Pending \<and>
     (case st_sessions st (dup_session_id u) of
        Some p \<Rightarrow> dup_daemon_id p = dup_daemon_id u
      | None \<Rightarrow> True)"

lemma disc_inv_update_apply:
  assumes "disc_inv mode (view st)" and "own_update st u"
  shows "disc_inv mode (view (fst (update_apply env u st)))"
proof (cases "st_sessions st (dup_session_id u)")
  case None
  with assms show ?thesis
    unfolding view_update_apply disc_inv.simps by (auto intro!: queues_match_add flags_ok_put)
next
  case (Some p)
  with assms show ?thesis
    unfolding view_update_apply disc_inv.simps own_update_def
    by (auto intro!: flags_ok_put intro: queues_match_replace)
qed

lemma view_advance_queue:
  "view (fst (advance_queue p st)) =
     (let q = filter (\<lambda>x. x \<noteq> dup_session_id p) (queue_of st (dup_daemon_id p));
          s = (case q of
                 [] \<Rightarrow> st_sessions st
               | n # _ \<Rightarrow>
                   (case st_sessions st n of
                      None \<Rightarrow> st_sessions st
                    | Some p' \<Rightarrow> (st_sessions st)(n \<mapsto> p'\<lparr>dup_phase := DiscoveryPhase_Pending\<rparr>)))
      in (s(dup_session_id p := None), (queue_of st)(dup_daemon_id p := q),
          st_daemon_pull_cancellations st))"
  by (auto simp: advance_queue_def Let_def frame_simps queue_of_def dequeue_def
      split: option.splits list.splits)

lemma disc_inv_advance:
  assumes "disc_inv mode (view st)" and "st_sessions st (dup_session_id p) = Some p"
    and "st_daemon_pull_cancellations st (dup_daemon_id p) = None"
  shows "disc_inv mode (view (fst (advance_queue p st)))"
proof -
  let ?i = "dup_session_id p" and ?d = "dup_daemon_id p"
  let ?q = "filter (\<lambda>x. x \<noteq> ?i) (queue_of st ?d)"
  have qm: "queues_match (st_sessions st) (queue_of st)"
    and fl: "flags_ok mode (st_sessions st) (st_daemon_pull_cancellations st)"
    using assms(1) by (simp_all add: disc_inv.simps)
  have remove: "disc_inv mode (s(?i := None), (queue_of st)(?d := ?q), st_daemon_pull_cancellations st)"
    if "queues_match s (queue_of st)" "flags_ok mode s (st_daemon_pull_cancellations st)"
      "s ?i = Some p" for s
    using that assms(3) unfolding disc_inv.simps
    by (auto intro: queues_match_remove flags_ok_touch)
  show ?thesis
  proof (cases "\<exists>n ns p'. ?q = n # ns \<and> st_sessions st n = Some p'")
    case False
    then have "view (fst (advance_queue p st)) =
        ((st_sessions st)(?i := None), (queue_of st)(?d := ?q), st_daemon_pull_cancellations st)"
      unfolding view_advance_queue Let_def by (auto split: list.splits option.splits)
    with remove [OF qm fl assms(2)] show ?thesis by simp
  next
    case True
    then obtain n ns p' where n: "?q = n # ns" "st_sessions st n = Some p'" by blast
    then have "n \<in> set ?q" by simp
    then have ni: "n \<noteq> ?i" and "n \<in> set (queue_of st ?d)" by auto
    then have d: "dup_daemon_id p' = ?d" using queues_matchD(2) [OF qm, of n ?d] n(2) by simp
    let ?s = "(st_sessions st)(n \<mapsto> p'\<lparr>dup_phase := DiscoveryPhase_Pending\<rparr>)"
    have "queues_match ?s (queue_of st)"
      by (rule queues_match_replace [OF qm n(2)]) (simp_all add: queues_matchD(1) [OF qm n(2)])
    moreover have "flags_ok mode ?s (st_daemon_pull_cancellations st)"
      using flags_ok_touch [OF fl n(2)] d assms(3) by simp
    moreover have "?s ?i = Some p" using ni assms(2) by simp
    ultimately have "disc_inv mode (?s(?i := None), (queue_of st)(?d := ?q), st_daemon_pull_cancellations st)"
      by (rule remove)
    moreover have "view (fst (advance_queue p st)) =
        (?s(?i := None), (queue_of st)(?d := ?q), st_daemon_pull_cancellations st)"
      unfolding view_advance_queue Let_def by (simp add: n)
    ultimately show ?thesis by simp
  qed
qed

lemma view_save_historical: "view (fst (save_historical env h st)) = view st"
  by (auto simp: save_historical_def match_call_def store_discovery_def publish_entity_def
      queue_of_def split: sum.splits)

lemma view_dispatch_next: "view (fst (dispatch_next env d n st)) = view st"
  by (auto simp: dispatch_next_def and_then_def match_call_def frame_simps
      split: sum.splits option.splits)

lemma disc_inv_update_finish:
  assumes "disc_inv mode (view st)" and "st_sessions st (dup_session_id p) = Some p"
  shows "disc_inv mode (view (fst (update_finish env p d st)))"
proof -
  let ?h = "historical_discovery (env_fresh env 0) (env_now env) p
    (DiscoveryType_display (dup_discovery_type p)) p"
  let ?st1 = "fst (pull_cancellation_for_daemon (dup_daemon_id p) st)"
  obtain st2 r where st2: "save_historical env ?h ?st1 = (st2, r)" by fastforce
  obtain st3 n where st3: "advance_queue p st2 = (st3, n)" by fastforce
  have v2: "view st2 = (st_sessions st, queue_of st,
      (st_daemon_pull_cancellations st)(dup_daemon_id p := None))"
    using view_save_historical [of env ?h ?st1] by (simp add: st2 frame_simps)
  have inv: "disc_inv mode (view st2)"
    using assms(1) unfolding v2 disc_inv.simps by (simp add: flags_ok_drop)
  have adv: "disc_inv mode (view st3)"
    using disc_inv_advance [OF inv, of p] assms(2) v2 by (simp add: st3)
  show ?thesis
    using inv adv view_dispatch_next [of env d n st3]
    by (cases r) (simp_all add: update_finish_def and_then_def match_call_def Let_def st2 st3)
qed

lemma disc_inv_update:
  assumes "disc_inv mode (view st)" and "own_update st u"
  shows "disc_inv mode (view (fst (update_session env u st)))"
proof -
  obtain st1 d where ap: "update_apply env u st = (st1, d)" by fastforce
  have inv: "disc_inv mode (view st1)"
    using disc_inv_update_apply [OF assms, of env] by (simp add: ap)
  moreover have "st_sessions st1 (dup_session_id u) = Some u"
    using view_update_apply [of env u st] by (simp add: ap)
  ultimately show ?thesis
    using disc_inv_update_finish by (simp add: update_session_def ap)
qed

text \<open>The daemons' modes as the environment of a call reports them.\<close>

definition env_modes :: "(uuid \<rightharpoonup> DaemonMode) \<Rightarrow> disc_env \<Rightarrow> bool" where
  "env_modes mode env \<longleftrightarrow> (\<forall>d m. env_get_daemon env d = Ok m \<longrightarrow> m = mode d)"

lemma flags_ok_remove:
  assumes "flags_ok mode s f" and "s i = Some p"
    and "dup_phase p = DiscoveryPhase_Pending \<or> mode (dup_daemon_id p) \<noteq> Some DaemonMode_Pull \<or>
         (\<forall>b. f (dup_daemon_id p) \<noteq> Some (b, i))"
  shows "flags_ok mode (s(i := None)) f"
  using assms unfolding flags_ok_def by (auto split: if_splits) (metis option.inject)+

lemma disc_inv_remove:
  assumes "disc_inv mode (s, q, f)" and "s i = Some p"
    and "dup_phase p = DiscoveryPhase_Pending \<or> mode (dup_daemon_id p) \<noteq> Some DaemonMode_Pull \<or>
         (\<forall>b. f (dup_daemon_id p) \<noteq> Some (b, i))"
  shows "disc_inv mode (s(i := None),
    q(dup_daemon_id p := filter (\<lambda>x. x \<noteq> i) (q (dup_daemon_id p))), f)"
  using assms unfolding disc_inv.simps by (auto intro: queues_match_remove flags_ok_remove)

lemma disc_inv_cancel_active:
  assumes "disc_inv mode (view st)" and "st_sessions st i = Some p"
    and "dup_phase p \<noteq> DiscoveryPhase_Pending" and "env_modes mode env"
  shows "disc_inv mode (view (fst (cancel_active env i p st)))"
proof (cases "env_get_daemon env (dup_daemon_id p)")
  case (Inl e)
  with assms(1) show ?thesis by (simp add: cancel_active_def Let_def)
next
  case (Inr m)
  then have m: "m = mode (dup_daemon_id p)" using assms(4) by (simp add: env_modes_def)
  consider "m = None" | "m = Some DaemonMode_Push" | "m = Some DaemonMode_Pull"
    by (cases m) (auto intro: DaemonMode.exhaust)
  then show ?thesis
  proof cases
    case 1
    with Inr assms(1) show ?thesis by (simp add: cancel_active_def Let_def)
  next
    case 2
    define st1 where "st1 = st\<lparr>st_cancellations := st_cancellations st @ [(dup_daemon_id p, i)]\<rparr>"
    have v1: "view st1 = view st" by (simp add: st1_def frame_simps)
    then have "view (cancel_unreachable env i n (dup_daemon_id p) st1) =
        ((st_sessions st)(i := None), (queue_of st)(dup_daemon_id p :=
           filter (\<lambda>x. x \<noteq> i) (queue_of st (dup_daemon_id p))), st_daemon_pull_cancellations st)" for n
      using view_cancel_unreachable [of st1 i p env n "dup_daemon_id p"] assms(2) by simp
    then have "disc_inv mode (view (cancel_unreachable env i n (dup_daemon_id p) st1))" for n
      using disc_inv_remove [OF assms(1,2)] 2 m by simp
    with assms(1) v1 show ?thesis
      using Inr 2 by (auto simp: cancel_active_def Let_def st1_def split: sum.splits)
  next
    case 3
    then have get: "env_get_daemon env (dup_daemon_id p) = Inr (Some DaemonMode_Pull)"
      and pull: "mode (dup_daemon_id p) = Some DaemonMode_Pull"
      using Inr m by simp_all
    from assms(1-3) pull show ?thesis
      by (auto simp: get cancel_active_def Let_def frame_simps disc_inv.simps flags_ok_def)
  qed
qed

lemma disc_inv_cancel:
  assumes "disc_inv mode (view st)" and "env_modes mode env"
  shows "disc_inv mode (view (fst (cancel_session env i st)))"
proof (cases "st_sessions st i")
  case None
  with assms(1) show ?thesis by (simp add: cancel_session_def get_session_def)
next
  case (Some p)
  have "disc_inv mode (view (cancel_pending env i p st))" if "dup_phase p = DiscoveryPhase_Pending"
    unfolding view_cancel_pending using disc_inv_remove [OF assms(1) Some] that by simp
  with Some assms disc_inv_cancel_active [OF assms(1) Some _ assms(2)] show ?thesis
    by (auto simp: cancel_session_def get_session_def split: DiscoveryPhase.splits)
qed

lemma disc_inv_pull:
  "disc_inv mode (view st) \<Longrightarrow> disc_inv mode (view (fst (pull_cancellation_for_daemon d st)))"
  by (simp add: frame_simps disc_inv.simps flags_ok_drop)

lemma disc_inv_cleanup_old_one:
  assumes "disc_inv mode (view st)"
  shows "disc_inv mode (view (cleanup_old_one st i))"
proof (cases "st_sessions st i")
  case None
  with assms show ?thesis by (simp add: cleanup_old_one_def)
next
  case (Some p)
  have id: "dup_session_id p = i"
    using assms Some queues_matchD(1) by (auto simp: disc_inv.simps)
  have "disc_inv mode (st_sessions st, queue_of st,
      (st_daemon_pull_cancellations st)(dup_daemon_id p := None))"
    using assms by (simp add: disc_inv.simps flags_ok_drop)
  from disc_inv_remove [OF this Some] show ?thesis
    by (simp add: cleanup_old_one_def Some Let_def frame_simps id)
qed

lemma disc_inv_cleanup_stalled_one:
  assumes "disc_inv mode (view (fst stn))"
  shows "disc_inv mode (view (fst (cleanup_stalled_one env stn i)))"
proof (cases "st_sessions (fst stn) i")
  case None
  with assms show ?thesis by (cases stn) (simp add: cleanup_stalled_one_def)
next
  case (Some p)
  obtain st n where stn: "stn = (st, n)" by (cases stn)
  let ?f = "st_daemon_pull_cancellations st" and ?d = "dup_daemon_id p"
  let ?f' = "case ?f ?d of Some (_, c) \<Rightarrow> if c = i then ?f(?d := None) else ?f | None \<Rightarrow> ?f"
  have "disc_inv mode (st_sessions st, queue_of st, ?f')"
    using assms by (auto simp: stn disc_inv.simps flags_ok_drop split: option.splits)
  moreover have "\<forall>b. ?f' ?d \<noteq> Some (b, i)" by (auto split: option.splits)
  ultimately have "disc_inv mode ((st_sessions st)(i := None),
      (queue_of st)(?d := filter (\<lambda>x. x \<noteq> i) (queue_of st ?d)), ?f')"
    using disc_inv_remove Some stn by fastforce
  then show ?thesis
    using Some
    by (auto simp: stn cleanup_stalled_one_def Let_def frame_simps
        split: option.splits prod.splits if_splits)
qed

lemma disc_inv_cleanup_old:
  "disc_inv mode (view st) \<Longrightarrow> disc_inv mode (view (cleanup_old_sessions env order h st))"
  unfolding cleanup_old_sessions_def Let_def
  by (rule foldl_invariant [where P = "\<lambda>st. disc_inv mode (view st)"]) (auto intro: disc_inv_cleanup_old_one)

lemma disc_inv_cleanup_stalled:
  "disc_inv mode (view st) \<Longrightarrow> disc_inv mode (view (cleanup_stalled_sessions env order st))"
  unfolding cleanup_stalled_sessions_def Let_def
  by (rule foldl_invariant [where P = "\<lambda>stn. disc_inv mode (view (fst stn))"])
    (auto intro: disc_inv_cleanup_stalled_one)

subsection \<open>The service as a state machine\<close>

text \<open>
  One call of the service. New session identifiers are not in use, updates satisfy
  \<^const>\<open>own_update\<close>, and the environments agree with the daemons' modes.
\<close>

inductive disc_step :: "(uuid \<rightharpoonup> DaemonMode) \<Rightarrow> disc_state \<Rightarrow> disc_state \<Rightarrow> bool"
  for mode :: "uuid \<rightharpoonup> DaemonMode" where
  start: "st_sessions st (env_fresh env 0) = None \<Longrightarrow>
    disc_step mode st (fst (start_session env d st))"
| job: "st_sessions st (env_fresh env 0) = None \<Longrightarrow> disc_step mode st (run_job env d st)"
| update: "own_update st u \<Longrightarrow> disc_step mode st (fst (update_session env u st))"
| cancel: "env_modes mode env \<Longrightarrow> disc_step mode st (fst (cancel_session env i st))"
| pull: "disc_step mode st (fst (pull_cancellation_for_daemon d st))"
| cleanup_old: "disc_step mode st (cleanup_old_sessions env order hours st)"
| cleanup_stalled: "disc_step mode st (cleanup_stalled_sessions env order st)"
| create: "disc_step mode st (fst (create_discovery env d st))"
| edit: "disc_step mode st (fst (update_discovery env d st))"
| delete: "disc_step mode st (fst (delete_discovery env i st))"

inductive disc_reachable :: "(uuid \<rightharpoonup> DaemonMode) \<Rightarrow> disc_state \<Rightarrow> bool"
  for mode :: "uuid \<rightharpoonup> DaemonMode" where
  init: "disc_reachable mode disc_init"
| step: "disc_reachable mode st \<Longrightarrow> disc_step mode st st' \<Longrightarrow> disc_reachable mode st'"

lemma view_run_job: "view (run_job env d st) = view (fst (start_session env d st))"
  by (auto simp: run_job_def match_call_def frame_simps Let_def
      split: prod.splits sum.splits RunType.splits)

lemma view_update_row: "view (fst (update_discovery_row env d st)) = view st"
  and view_publish: "view (fst (publish_entity env op d st)) = view st"
  and view_schedule: "view (fst (schedule_discovery env d st)) = view st"
  and view_store: "view (fst (store_discovery env d st)) = view st"
  and view_unschedule: "view (scheduler_remove i st) = view st"
  by (simp_all add: frame_simps)

text \<open>Calls that leave the view as it is.\<close>

definition keeps :: "(uuid \<rightharpoonup> DiscoveryUpdatePayload) \<times> (uuid \<Rightarrow> uuid list) \<times> (uuid \<rightharpoonup> bool \<times> uuid)
    \<Rightarrow> 'a disc_call \<Rightarrow> bool" where
  "keeps v m \<longleftrightarrow> view (fst m) = v"

lemma keeps_match_call:
  assumes "keeps v m" and "\<And>e st. view st = v \<Longrightarrow> keeps v (g e st)"
    and "\<And>x st. view st = v \<Longrightarrow> keeps v (f x st)"
  shows "keeps v (match_call m g f)"
proof -
  obtain st r where m: "m = (st, r)" by fastforce
  with assms(1) have "view st = v" by (simp add: keeps_def)
  with assms(2,3) show ?thesis by (cases r) (simp_all add: m match_call_def)
qed

lemma keeps_pair: "view st = v \<Longrightarrow> keeps v (st, r)"
  by (simp add: keeps_def)

lemma keeps_and_then:
  assumes "keeps v m" and "\<And>x st. view st = v \<Longrightarrow> keeps v (f x st)"
  shows "keeps v (and_then m f)"
  unfolding and_then_def by (rule keeps_match_call [OF assms(1)]) (simp_all only: keeps_pair assms(2))

lemma keeps_if: "keeps v a \<Longrightarrow> keeps v b \<Longrightarrow> keeps v (if c then a else b)"
  by simp

lemma keeps_option: "keeps v a \<Longrightarrow> (\<And>x. keeps v (f x)) \<Longrightarrow> keeps v (case z of None \<Rightarrow> a | Some x \<Rightarrow> f x)"
  by (cases z) simp_all

lemma keeps_crud:
  "view st = v \<Longrightarrow> keeps v (update_discovery_row env d st)"
  "view st = v \<Longrightarrow> keeps v (publish_entity env op d st)"
  "view st = v \<Longrightarrow> keeps v (schedule_discovery env d st)"
  "view st = v \<Longrightarrow> keeps v (store_discovery env d st)"
  by (simp_all only: keeps_def view_update_row view_publish view_schedule view_store)

lemma view_crud_states:
  "view st = v \<Longrightarrow> view (scheduler_remove i st) = v"
  "view st = v \<Longrightarrow> view (if c then scheduler_remove i st else st) = v"
  "view st = v \<Longrightarrow> view (st\<lparr>st_discoveries := m\<rparr>) = v"
  by (auto simp: frame_simps queue_of_def)

lemmas keeps_intros =
  keeps_match_call keeps_and_then keeps_if keeps_option keeps_crud keeps_pair view_crud_states

lemma keeps_create: "keeps (view st) (create_discovery env d st)"
  unfolding create_discovery_def Let_def by (intro keeps_intros refl; assumption)

lemma keeps_edit: "keeps (view st) (update_discovery env d st)"
  unfolding update_discovery_def by (intro keeps_intros refl; assumption)

lemma keeps_delete: "keeps (view st) (delete_discovery env i st)"
  unfolding delete_discovery_def Let_def by (intro keeps_intros refl; assumption)

lemma disc_inv_step:
  assumes "disc_step mode st st'" and "disc_inv mode (view st)"
  shows "disc_inv mode (view st')"
  using assms
proof (cases rule: disc_step.cases)
  case (start env d)
  with assms(2) show ?thesis by (simp only: disc_inv_start)
next
  case (job env d)
  with assms(2) show ?thesis by (simp only: view_run_job disc_inv_start)
next
  case (update u env)
  with assms(2) show ?thesis by (simp only: disc_inv_update)
next
  case (cancel env i)
  with assms(2) show ?thesis by (simp only: disc_inv_cancel)
next
  case (pull d)
  with assms(2) show ?thesis by (simp only: disc_inv_pull)
next
  case (cleanup_old env order hours)
  with assms(2) show ?thesis by (simp only: disc_inv_cleanup_old)
next
  case (cleanup_stalled env order)
  with assms(2) show ?thesis by (simp only: disc_inv_cleanup_stalled)
next
  case (create env d)
  with assms(2) show ?thesis by (simp only: keeps_create [unfolded keeps_def])
next
  case (edit env d)
  with assms(2) show ?thesis by (simp only: keeps_edit [unfolded keeps_def])
next
  case (delete env i)
  with assms(2) show ?thesis by (simp only: keeps_delete [unfolded keeps_def])
qed

lemma disc_inv_reachable: "disc_reachable mode st \<Longrightarrow> disc_inv mode (view st)"
  by (induction rule: disc_reachable.induct) (simp_all only: disc_inv_init disc_inv_step)


subsection \<open>Who is told to run\<close>

lemma requests_simps [frame_simps]:
  "st_requests (put_session i p st) = st_requests st"
  "st_requests (remove_session i st) = st_requests st"
  "st_requests (enqueue d i st) = st_requests st"
  "st_requests (dequeue d i st) = st_requests st"
  "st_requests (broadcast u st) = st_requests st"
  "st_requests (fst (store_discovery env h st)) = st_requests st"
  "st_requests (fst (publish_entity env op h st)) = st_requests st"
  "st_requests (fst (pull_cancellation_for_daemon d st)) = st_requests st"
  by (auto simp: put_session_def remove_session_def broadcast_def enqueue_def dequeue_def
      store_discovery_def publish_entity_def pull_cancellation_for_daemon_def Let_def
      split: sum.splits option.splits)

lemma requests_save_historical: "st_requests (fst (save_historical env h st)) = st_requests st"
  by (auto simp: save_historical_def match_call_def store_discovery_def publish_entity_def
      split: sum.splits)

lemma requests_update_apply: "st_requests (fst (update_apply env u st)) = st_requests st"
  by (simp add: update_apply_def Let_def frame_simps)

lemma advance_queue_next:
  "snd (advance_queue p st) =
     (case filter (\<lambda>x. x \<noteq> dup_session_id p) (queue_of st (dup_daemon_id p)) of
        [] \<Rightarrow> None
      | n # _ \<Rightarrow> st_sessions st n)"
  by (auto simp: advance_queue_def Let_def queue_of_def dequeue_def option.map_comp comp_def option.map_ident
      split: option.splits list.splits)

lemma requests_advance_queue: "st_requests (fst (advance_queue p st)) = st_requests st"
  by (simp add: advance_queue_def Let_def frame_simps split: option.splits)

lemma requests_dispatch_next:
  "env_get_daemon env d = Ok (Some DaemonMode_Push) \<Longrightarrow>
   st_requests (fst (dispatch_next env d n st)) =
     st_requests st @ (case n of None \<Rightarrow> [] | Some p \<Rightarrow> [(d, DaemonDiscoveryRequest_from p)])"
  by (simp add: dispatch_next_def and_then_def match_call_def daemon_is_push_def send_request_def
      split: option.splits)

lemma save_historical_ok:
  "env_publish env = Ok () \<Longrightarrow> \<exists>st'. save_historical env h st = (st', Ok ())"
  by (auto simp: save_historical_def match_call_def publish_entity_def split: sum.splits prod.splits)

lemma terminal_update_parts:
  assumes "own_update st u" and "DiscoveryPhase_is_terminal (dup_phase u)" and "env_publish env = Ok ()"
    and "st_sessions st (dup_session_id u) = Some p"
    and "rest = filter (\<lambda>i. i \<noteq> dup_session_id u) (queue_of st (dup_daemon_id u))"
  obtains st3 where
    "fst (update_session env u st) =
       fst (dispatch_next env (dup_daemon_id u) (case rest of [] \<Rightarrow> None | n # _ \<Rightarrow> st_sessions st n) st3)"
    "st_sessions st3 (dup_session_id u) = None" "queue_of st3 (dup_daemon_id u) = rest"
    "st_requests st3 = st_requests st"
proof -
  let ?i = "dup_session_id u" and ?d = "dup_daemon_id u"
  obtain st1 d where ap: "update_apply env u st = (st1, d)" by fastforce
  have d: "d = ?d" using ap assms(1,4) by (auto simp: update_apply_def own_update_def Let_def frame_simps)
  have v1: "view st1 = ((st_sessions st)(?i \<mapsto> u), queue_of st, st_daemon_pull_cancellations st)"
    and r1: "st_requests st1 = st_requests st"
    using view_update_apply [of env u st] requests_update_apply [of env u st] assms(4) by (simp_all add: ap)
  let ?h = "historical_discovery (env_fresh env 0) (env_now env) u
    (DiscoveryType_display (dup_discovery_type u)) u"
  let ?st1' = "fst (pull_cancellation_for_daemon ?d st1)"
  from save_historical_ok [OF assms(3)] obtain st2 where s2: "save_historical env ?h ?st1' = (st2, Ok ())"
    by blast
  have v2: "st_sessions st2 = (st_sessions st)(?i \<mapsto> u)" "queue_of st2 = queue_of st"
    and r2: "st_requests st2 = st_requests st"
    using view_save_historical [of env ?h ?st1'] requests_save_historical [of env ?h ?st1'] v1 r1
    by (simp_all add: s2 frame_simps)
  obtain st3 n where s3: "advance_queue u st2 = (st3, n)" by fastforce
  have "m \<noteq> ?i" if "rest = m # ms" for m ms
  proof -
    from that have "m \<in> set rest" by simp
    then show ?thesis by (simp add: assms(5))
  qed
  then have n: "n = (case rest of [] \<Rightarrow> None | m # _ \<Rightarrow> st_sessions st m)"
    using advance_queue_next [of u st2] by (auto simp: s3 v2 simp flip: assms(5) split: list.splits)
  have v3: "st_sessions st3 ?i = None" "queue_of st3 ?d = rest" "st_requests st3 = st_requests st"
    using view_advance_queue [of u st2] requests_advance_queue [of u st2]
    by (simp_all add: s3 v2 r2 assms(5) Let_def)
  have "fst (update_session env u st) = fst (dispatch_next env ?d n st3)"
    using ap assms(2) s2 s3 d
    by (simp add: update_session_def update_finish_def Let_def and_then_def match_call_def)
  with that v3 n show thesis by simp
qed


text \<open>C20. A new session is sent to its daemon at once exactly when the daemon is pushed to and has
  nothing queued; otherwise it only waits in the queue, last.\<close>

theorem start_session_dispatch:
  "queue_of (fst (start_session env d st)) (db_daemon_id (discovery_base d)) =
     queue_of st (db_daemon_id (discovery_base d)) @ [env_fresh env 0] \<and>
   st_requests (fst (start_session env d st)) = st_requests st @
     (if queue_of st (db_daemon_id (discovery_base d)) = [] \<and>
         env_get_daemon env (db_daemon_id (discovery_base d)) = Ok (Some DaemonMode_Push)
      then [(db_daemon_id (discovery_base d),
             \<lparr>ddr_session_id = env_fresh env 0, ddr_discovery_type = db_discovery_type (discovery_base d)\<rparr>)]
      else [])"
proof
  let ?p = "start_payload env d"
  have p: "dup_session_id ?p = env_fresh env 0" "dup_daemon_id ?p = db_daemon_id (discovery_base d)"
    "dup_discovery_type ?p = db_discovery_type (discovery_base d)"
    by (simp_all add: start_payload_def DiscoveryUpdatePayload_new_def)
  show "queue_of (fst (start_session env d st)) (db_daemon_id (discovery_base d)) =
      queue_of st (db_daemon_id (discovery_base d)) @ [env_fresh env 0]"
    using view_start_session [of env d st] by (simp add: Let_def p)
  have "start_check ?p st' \<longleftrightarrow> queue_of st' (dup_daemon_id ?p) \<noteq> []" for st'
    by (simp add: start_check_def queue_of_def split: option.splits)
  then show "st_requests (fst (start_session env d st)) = st_requests st @
     (if queue_of st (db_daemon_id (discovery_base d)) = [] \<and>
         env_get_daemon env (db_daemon_id (discovery_base d)) = Ok (Some DaemonMode_Push)
      then [(db_daemon_id (discovery_base d),
             \<lparr>ddr_session_id = env_fresh env 0, ddr_discovery_type = db_discovery_type (discovery_base d)\<rparr>)]
      else [])"
    by (auto simp: start_session_def start_insert_def start_enqueue_def Let_def frame_simps p
        start_dispatch_def and_then_def match_call_def daemon_is_push_def send_request_def
        DaemonDiscoveryRequest_from_def split: sum.splits option.splits DaemonMode.splits)
qed

subsection \<open>Cleaning up\<close>

lemma sessions_cleanup_stalled_one:
  "st_sessions (fst (cleanup_stalled_one env stn i)) = (st_sessions (fst stn))(i := None)"
proof -
  obtain st n where stn: "stn = (st, n)" by fastforce
  show ?thesis
  proof (cases "st_sessions st i")
    case None
    then have "(st_sessions st)(i := None) = st_sessions st" by (rule fun_upd_idem)
    with None show ?thesis by (simp add: stn cleanup_stalled_one_def)
  next
    case (Some p)
    then show ?thesis
      by (auto simp: stn cleanup_stalled_one_def Let_def frame_simps split: option.splits)
  qed
qed

lemma sessions_cleanup_stalled_fold:
  "st_sessions (fst (foldl (cleanup_stalled_one env) stn is)) i =
     (if i \<in> set is then None else st_sessions (fst stn) i)"
  by (induction "is" arbitrary: stn) (auto simp: sessions_cleanup_stalled_one)

lemma requests_cleanup_stalled_one:
  "st_requests (fst (cleanup_stalled_one env stn i)) = st_requests (fst stn)"
  by (cases stn) (auto simp: cleanup_stalled_one_def Let_def frame_simps split: option.splits)

lemma requests_cleanup_old_one: "st_requests (cleanup_old_one st i) = st_requests st"
  by (auto simp: cleanup_old_one_def Let_def frame_simps split: option.splits)

text \<open>C30. The stall cleanup removes exactly the stalled sessions: those not in a final phase whose last
  report, or whose start if they never reported, is more than five minutes old. A session that
  has neither reported nor started is never taken for stalled.\<close>

theorem cleanup_stalled_removes_exactly_stalled:
  assumes "set order = dom (st_sessions st)"
  shows "st_sessions (cleanup_stalled_sessions env order st) i =
    (case st_sessions st i of
       None \<Rightarrow> None
     | Some p \<Rightarrow>
         if \<not> DiscoveryPhase_is_terminal (dup_phase p) \<and>
            (case st_session_last_updated st i of
               Some t \<Rightarrow> env_now env - t > 300000
             | None \<Rightarrow> (case dup_started_at p of Some t \<Rightarrow> env_now env - t > 300000 | None \<Rightarrow> False))
         then None else Some p)"
proof -
  have "i \<in> set order \<longleftrightarrow> st_sessions st i \<noteq> None" using assms by auto
  then show ?thesis
    unfolding cleanup_stalled_sessions_def Let_def sessions_cleanup_stalled_fold
    by (auto simp: is_stalled_def split: option.splits)
qed

text \<open>Cancelling a session and both cleanups send no discovery request: the session that becomes
  first in a pushed daemon's queue when one before it is cancelled, fails or stalls is not
  started by them.\<close>

theorem cancel_and_cleanup_start_nothing:
  "st_requests (fst (cancel_session env i st)) = st_requests st \<and>
   st_requests (cleanup_stalled_sessions env order st) = st_requests st \<and>
   st_requests (cleanup_old_sessions env order hours st) = st_requests st"
proof (intro conjI)
  have "st_requests (cancel_unreachable env i n d st') = st_requests st'" for n d st'
    by (auto simp: cancel_unreachable_def Let_def frame_simps split: option.splits)
  then show "st_requests (fst (cancel_session env i st)) = st_requests st"
    by (auto simp: cancel_session_def cancel_pending_def cancel_active_def Let_def frame_simps
        split: option.splits sum.splits DiscoveryPhase.splits DaemonMode.splits)
  show "st_requests (cleanup_stalled_sessions env order st) = st_requests st"
    unfolding cleanup_stalled_sessions_def Let_def
    by (rule foldl_invariant [where P = "\<lambda>stn. st_requests (fst stn) = st_requests st"])
      (simp_all add: requests_cleanup_stalled_one)
  show "st_requests (cleanup_old_sessions env order hours st) = st_requests st"
    unfolding cleanup_old_sessions_def Let_def
    by (rule foldl_invariant [where P = "\<lambda>st'. st_requests st' = st_requests st"])
      (simp_all add: requests_cleanup_old_one)
qed

subsection \<open>Failures of starting and reporting\<close>

text \<open>When the request for a new session cannot be delivered, \<open>start_session\<close> returns the error
  but leaves the session queued; from then on a new session for that daemon is not sent.\<close>

theorem failed_start_blocks_queue:
  assumes "queue_of st (db_daemon_id (discovery_base d)) = []"
    and "env_get_daemon env (db_daemon_id (discovery_base d)) = Ok (Some DaemonMode_Push)"
    and "\<And>r. env_send_request env (db_daemon_id (discovery_base d)) r = Err e"
    and "db_daemon_id (discovery_base d') = db_daemon_id (discovery_base d)"
  shows "snd (start_session env d st) = Err e \<and>
         queue_of (fst (start_session env d st)) (db_daemon_id (discovery_base d)) = [env_fresh env 0] \<and>
         st_requests (fst (start_session env' d' (fst (start_session env d st)))) =
           st_requests (fst (start_session env d st))"
proof -
  let ?st1 = "fst (start_session env d st)"
  have q: "queue_of ?st1 (db_daemon_id (discovery_base d)) = [env_fresh env 0]"
    using view_start_session [of env d st] assms(1)
    by (simp add: Let_def start_payload_def DiscoveryUpdatePayload_new_def)
  moreover have "snd (start_session env d st) = Err e"
    using assms(1-3)
    by (auto simp: start_session_def start_dispatch_def and_then_def match_call_def daemon_is_push_def
        send_request_def start_payload_def DiscoveryUpdatePayload_new_def Let_def start_check_def
        start_insert_def start_enqueue_def put_session_def queue_of_def split: option.splits)
  moreover have "st_requests (fst (start_session env' d' ?st1)) = st_requests ?st1"
    using q assms(4)
    by (auto simp: start_session_def start_dispatch_def and_then_def match_call_def daemon_is_push_def
        start_payload_def DiscoveryUpdatePayload_new_def Let_def start_check_def start_insert_def
        start_enqueue_def put_session_def queue_of_def frame_simps split: option.splits sum.splits)
  ultimately show ?thesis by blast
qed

text \<open>The report handler checks that a daemon reports as itself, not that the session is its own: a
  final report by another daemon of the network removes the session but leaves it in the queue of
  the daemon that owns it.\<close>

theorem foreign_report_strands_session:
  assumes "st_sessions st i = Some p" and "i \<in> set (queue_of st (dup_daemon_id p))"
    and "dup_session_id u = i" and "dup_daemon_id u \<noteq> dup_daemon_id p"
    and "DiscoveryPhase_is_terminal (dup_phase u)" and "env_publish env = Ok ()"
  shows "let st' = fst (receive_discovery_update env (dup_network_id u) (dup_daemon_id u) u st)
         in st_sessions st' i = None \<and> i \<in> set (queue_of st' (dup_daemon_id p))"
proof -
  obtain st1 d where ap: "update_apply env u st = (st1, d)" by fastforce
  have v1: "st_sessions st1 = (st_sessions st)(i \<mapsto> u)" "queue_of st1 = queue_of st"
    using view_update_apply [of env u st] assms(1,3) by (simp_all add: ap)
  let ?h = "historical_discovery (env_fresh env 0) (env_now env) u
    (DiscoveryType_display (dup_discovery_type u)) u"
  let ?st1' = "fst (pull_cancellation_for_daemon (dup_daemon_id u) st1)"
  from save_historical_ok [OF assms(6)] obtain st2 where s2: "save_historical env ?h ?st1' = (st2, Ok ())"
    by blast
  have v2: "queue_of st2 = queue_of st"
    using view_save_historical [of env ?h ?st1'] v1 by (simp add: s2 frame_simps)
  obtain st3 n where s3: "advance_queue u st2 = (st3, n)" by fastforce
  have "st_sessions st3 i = None" "queue_of st3 (dup_daemon_id p) = queue_of st (dup_daemon_id p)"
    using view_advance_queue [of u st2] assms(3,4) by (simp_all add: s3 v2 Let_def)
  moreover have "fst (receive_discovery_update env (dup_network_id u) (dup_daemon_id u) u st) =
      fst (dispatch_next env d n st3)"
    using ap assms(5) s2 s3
    by (simp add: receive_discovery_update_def update_session_def update_finish_def Let_def
        and_then_def match_call_def)
  ultimately show ?thesis
    using assms(2) view_dispatch_next [of env d n st3] by (simp add: Let_def)
qed

subsection \<open>Two starts at once\<close>

text \<open>
  \<open>start_session\<close> reads the queue under one lock and appends to it under another. Two calls
  whose sections interleave as below both see an empty queue.
\<close>

definition interleaved_starts ::
    "disc_env \<Rightarrow> Discovery \<Rightarrow> disc_env \<Rightarrow> Discovery \<Rightarrow> disc_state \<Rightarrow> disc_state" where
  "interleaved_starts env1 d1 env2 d2 st =
     (let p1 = start_payload env1 d1;
          p2 = start_payload env2 d2;
          st1 = start_insert p1 st;
          running1 = start_check p1 st1;
          st2 = start_insert p2 st1;
          running2 = start_check p2 st2;
          st3 = start_enqueue p1 st2;
          st4 = start_enqueue p2 st3;
          st5 = fst (start_dispatch env1 p1 running1 st4)
      in fst (start_dispatch env2 p2 running2 st5))"

text \<open>C33. Two concurrent \<open>start_session\<close> calls for an idle daemon can both send their request, though
  one after the other only the first would: the check for a running session and the entry into
  the queue are not one atomic step.\<close>

theorem concurrent_starts_both_sent:
  assumes "queue_of st a = []"
    and "db_daemon_id (discovery_base d1) = a" and "db_daemon_id (discovery_base d2) = a"
    and "env_get_daemon env1 a = Ok (Some DaemonMode_Push)"
    and "env_get_daemon env2 a = Ok (Some DaemonMode_Push)"
  shows "map (\<lambda>(to, r). (to, ddr_session_id r)) (st_requests (interleaved_starts env1 d1 env2 d2 st)) =
           map (\<lambda>(to, r). (to, ddr_session_id r)) (st_requests st) @
             [(a, env_fresh env1 0), (a, env_fresh env2 0)] \<and>
         map (\<lambda>(to, r). (to, ddr_session_id r))
             (st_requests (fst (start_session env2 d2 (fst (start_session env1 d1 st))))) =
           map (\<lambda>(to, r). (to, ddr_session_id r)) (st_requests st) @ [(a, env_fresh env1 0)]"
proof
  have sent: "st_requests (fst (start_dispatch env p False st')) =
      st_requests st' @ [(a, DaemonDiscoveryRequest_from p)]"
    if "env_get_daemon env a = Ok (Some DaemonMode_Push)" "dup_daemon_id p = a" for env p st'
    using that
    by (auto simp: start_dispatch_def and_then_def match_call_def daemon_is_push_def send_request_def
        broadcast_def split: sum.splits)
  have idle: "\<not> start_check p st'" if "queue_of st' a = []" "dup_daemon_id p = a" for p st'
    using that by (auto simp: start_check_def queue_of_def split: option.splits)
  have p: "dup_daemon_id (start_payload env1 d1) = a" "dup_daemon_id (start_payload env2 d2) = a"
    "dup_session_id (start_payload env d) = env_fresh env 0" for env d
    using assms(2,3) by (simp_all add: start_payload_def DiscoveryUpdatePayload_new_def)
  show "map (\<lambda>(to, r). (to, ddr_session_id r)) (st_requests (interleaved_starts env1 d1 env2 d2 st)) =
           map (\<lambda>(to, r). (to, ddr_session_id r)) (st_requests st) @
             [(a, env_fresh env1 0), (a, env_fresh env2 0)]"
    using assms(1,4,5)
    by (simp add: interleaved_starts_def Let_def idle sent p start_insert_def start_enqueue_def
        frame_simps DaemonDiscoveryRequest_from_def)
  let ?st1 = "fst (start_session env1 d1 st)"
  have "queue_of ?st1 a = [env_fresh env1 0]"
    using view_start_session [of env1 d1 st] assms(1) by (simp add: Let_def p)
  then have "st_requests (fst (start_session env2 d2 ?st1)) = st_requests ?st1"
    by (auto simp: start_session_def start_dispatch_def and_then_def match_call_def daemon_is_push_def
        Let_def start_check_def start_insert_def start_enqueue_def put_session_def queue_of_def
        frame_simps p split: option.splits sum.splits)
  moreover have "st_requests ?st1 =
      st_requests st @ [(a, DaemonDiscoveryRequest_from (start_payload env1 d1))]"
    using assms(1,4) by (simp add: start_session_def Let_def idle sent p start_insert_def
        start_enqueue_def frame_simps)
  ultimately show "map (\<lambda>(to, r). (to, ddr_session_id r))
             (st_requests (fst (start_session env2 d2 ?st1))) =
           map (\<lambda>(to, r). (to, ddr_session_id r)) (st_requests st) @ [(a, env_fresh env1 0)]"
    by (simp add: DaemonDiscoveryRequest_from_def p)
qed

subsection \<open>Scheduled discoveries\<close>

text \<open>Deleting a scheduled discovery does not stop its job: jobs are kept under the identifiers that
  the scheduler gives them, and the deletion asks to remove the discovery's own.\<close>

theorem delete_discovery_keeps_job:
  assumes "st_jobs st job = Some d" and "job \<noteq> discovery_id d"
  shows "st_jobs (fst (delete_discovery env (discovery_id d) st)) job = Some d"
  using assms
  by (auto simp: delete_discovery_def and_then_def match_call_def get_discovery_def scheduler_remove_def
      publish_entity_def Let_def split: sum.splits option.splits)

text \<open>A scheduled discovery whose schedule is refused is reported as disabled but stays enabled:
  \<open>disable\<close> changes a copy of the flag, so the stored row and the returned discovery keep the
  run type they had.\<close>

theorem refused_schedule_stays_enabled:
  assumes "db_run_type (discovery_base d) = RunType_Scheduled cron last_run True"
    and "discovery_id d \<noteq> uuid_nil" and "env_parse_cron env cron = Err e"
    and "\<And>x. env_store env x = Ok ()"
  shows "\<exists>d'. create_discovery env d st =
           (st\<lparr>st_discoveries := (st_discoveries st)(discovery_id d \<mapsto> d')\<rparr>, Ok d') \<and>
           db_run_type (discovery_base d') = RunType_Scheduled cron last_run True"
  using assms
  by (simp add: create_discovery_def and_then_def match_call_def store_discovery_def
      schedule_discovery_def is_scheduled_def update_discovery_row_def Discovery_disable_def Let_def)

text \<open>A scheduled run writes the job's copy of the discovery back over the stored row: whatever was
  edited after the job was created is lost, and the time of the run is not recorded.\<close>

theorem run_job_overwrites_row:
  assumes "db_run_type (discovery_base d) = RunType_Scheduled cron last_run enabled"
    and "st_discoveries st (discovery_id d) = Some edited"
    and "snd (start_session env d st) = Ok payload" and "\<And>x. env_store env x = Ok ()"
  shows "st_discoveries (run_job env d st) (discovery_id d) =
           Some (d\<lparr>discovery_updated_at := env_now env\<rparr>)"
proof -
  obtain st1 where s: "start_session env d st = (st1, Ok payload)"
    using assms(3) by (metis prod.collapse)
  have "st_discoveries (fst (start_session env d st)) = st_discoveries st"
    by (auto simp: start_session_def start_dispatch_def and_then_def match_call_def send_request_def
        broadcast_def start_insert_def start_enqueue_def put_session_def enqueue_def Let_def
        split: sum.splits)
  with assms s show ?thesis
    by (simp add: run_job_def match_call_def update_discovery_row_def Let_def domIff)
qed

text \<open>A pulling daemon is given the sessions of its queue and no others, but the first one in the
  order of the hash map's iterator, which need not be the first of the queue.\<close>

theorem pulled_session_ignores_queue_order:
  assumes "queue_of st d = [i, j]" and "st_sessions st i = Some p" and "st_sessions st j = Some r"
    and "i \<noteq> j" and "set order = dom (st_sessions st)"
  shows "set (get_sessions_for_daemon order st d) = {p, r} \<and>
         fst (snd (receive_work_request (j # i # order') d st)) = Some r"
proof -
  have q: "st_daemon_sessions st d = Some [i, j]" using assms(1) by (auto simp: queue_of_def split: option.splits)
  have "set (get_sessions_for_daemon order st d) = {x. \<exists>k \<in> {i, j}. st_sessions st k = Some x}"
    using assms(5) by (auto simp: get_sessions_for_daemon_def q set_map_filter)
  with assms(2,3) q show ?thesis
    by (auto simp: receive_work_request_def pull_cancellation_for_daemon_def get_sessions_for_daemon_def
        map_filter_simps Let_def split: prod.splits)
qed

subsection \<open>A sample run\<close>

text \<open>A scheduled discovery of daemon 9, an environment in which everything succeeds, and the state
  after two starts.\<close>

definition sample_scan :: Discovery where
  "sample_scan =
     \<lparr>discovery_id = 50, discovery_created_at = 0, discovery_updated_at = 0,
      discovery_base =
        \<lparr>db_discovery_type = DiscoveryType_SelfReport 4,
         db_run_type = RunType_Scheduled ''0 0 * * * *'' None True, db_name = ''nightly'',
         db_daemon_id = 9, db_network_id = 2, db_tags = []\<rparr>\<rparr>"

definition sample_env :: "uuid \<Rightarrow> datetime \<Rightarrow> disc_env" where
  "sample_env i now =
     \<lparr>env_now = now, env_fresh = (\<lambda>_. i), env_show_uuid = (\<lambda>_. ''id''),
      env_get_daemon = (\<lambda>_. Ok (Some DaemonMode_Push)), env_send_request = (\<lambda>_ _. Ok ()),
      env_send_cancellation = (\<lambda>_ _. Ok ()), env_store = (\<lambda>_. Ok ()), env_read = Ok (),
      env_publish = Ok (), env_parse_cron = (\<lambda>_. Err ''bad cron''), env_add_job = Ok 60\<rparr>"

definition sample_one :: disc_state where
  "sample_one = fst (start_session (sample_env 100 0) sample_scan disc_init)"

definition sample_two :: disc_state where
  "sample_two = fst (start_session (sample_env 101 0) sample_scan sample_one)"

definition sample_report :: "uuid \<Rightarrow> uuid \<Rightarrow> DiscoveryPhase \<Rightarrow> DiscoveryUpdatePayload" where
  "sample_report i d ph =
     (DiscoveryUpdatePayload_new i d 2 (DiscoveryType_SelfReport 4))\<lparr>dup_phase := ph\<rparr>"

lemma sample_two_queue: "queue_of sample_two 9 = [100, 101]"
  by code_simp

lemma sample_two_sessions:
  "st_sessions sample_two 100 = Some (sample_report 100 9 DiscoveryPhase_Pending)"
  "st_sessions sample_two 101 = Some (sample_report 101 9 DiscoveryPhase_Pending)"
  by code_simp+

lemma sample_two_reachable: "disc_reachable (\<lambda>_. Some DaemonMode_Push) sample_two"
proof -
  have "st_sessions disc_init 100 = None" by code_simp
  then have one: "disc_reachable (\<lambda>_. Some DaemonMode_Push) sample_one"
    unfolding sample_one_def
    by (intro disc_reachable.step [OF disc_reachable.init] disc_step.start) (simp add: sample_env_def)
  have "st_sessions sample_one 101 = None" by code_simp
  then show ?thesis
    unfolding sample_two_def
    by (intro disc_reachable.step [OF one] disc_step.start) (simp add: sample_env_def)
qed



definition sample_running :: disc_state where
  "sample_running = fst (update_session (sample_env 0 0) (sample_report 100 9 DiscoveryPhase_Scanning) sample_one)"

theorem cleanup_stalled_removes_exactly_stalled_witness:
  "st_sessions (cleanup_stalled_sessions (sample_env 300 1000000) [100] sample_running) 100 = None"
proof -
  have "st_sessions sample_running = [100 \<mapsto> sample_report 100 9 DiscoveryPhase_Scanning]"
    by (auto simp: sample_running_def sample_one_def update_session_def update_apply_def
        start_session_def start_dispatch_def and_then_def match_call_def daemon_is_push_def
        send_request_def sample_env_def start_insert_def start_enqueue_def frame_simps
        start_payload_def DiscoveryUpdatePayload_new_def disc_init_def sample_report_def
        sample_scan_def DiscoveryPhase_is_terminal_def Let_def)
  moreover have "st_session_last_updated sample_running 100 = Some 0" by code_simp
  ultimately show ?thesis
    using cleanup_stalled_removes_exactly_stalled [of "[100]" sample_running "sample_env 300 1000000" 100]
    by (simp add: sample_env_def sample_report_def DiscoveryUpdatePayload_new_def
        DiscoveryPhase_is_terminal_def)
qed

theorem failed_start_blocks_queue_witness:
  "snd (start_session ((sample_env 100 0)\<lparr>env_send_request := \<lambda>_ _. Err ''down''\<rparr>) sample_scan disc_init) =
   Err ''down''"
  using failed_start_blocks_queue [of disc_init sample_scan
      "(sample_env 100 0)\<lparr>env_send_request := \<lambda>_ _. Err ''down''\<rparr>" "''down''" sample_scan]
  by (simp add: sample_env_def disc_init_def queue_of_def)

theorem foreign_report_strands_session_witness:
  "100 \<in> set (queue_of (fst (receive_discovery_update (sample_env 200 1) 2 8
      (sample_report 100 8 DiscoveryPhase_Complete) sample_two)) 9)"
proof -
  let ?u = "sample_report 100 8 DiscoveryPhase_Complete"
  have u: "dup_session_id ?u = 100" "dup_daemon_id ?u = 8" "dup_phase ?u = DiscoveryPhase_Complete"
    "dup_network_id ?u = 2" "dup_daemon_id (sample_report 100 9 DiscoveryPhase_Pending) = 9"
    by (simp_all add: sample_report_def DiscoveryUpdatePayload_new_def)
  show ?thesis
    using foreign_report_strands_session [OF sample_two_sessions(1), of ?u "sample_env 200 1"]
    by (simp add: u DiscoveryPhase_is_terminal_def sample_env_def sample_two_queue Let_def)
qed

theorem concurrent_starts_both_sent_witness:
  "map (\<lambda>(to, r). (to, ddr_session_id r))
     (st_requests (interleaved_starts (sample_env 100 0) sample_scan (sample_env 101 0) sample_scan disc_init)) =
   [(9, 100), (9, 101)]"
  using concurrent_starts_both_sent [of disc_init 9 sample_scan sample_scan "sample_env 100 0" "sample_env 101 0"]
  by (simp add: sample_env_def sample_scan_def disc_init_def queue_of_def)

theorem delete_discovery_keeps_job_witness:
  "st_jobs (fst (delete_discovery (sample_env 100 0) 50
     (disc_init\<lparr>st_jobs := [60 \<mapsto> sample_scan], st_discoveries := [50 \<mapsto> sample_scan]\<rparr>))) 60 =
   Some sample_scan"
  using delete_discovery_keeps_job [of
      "disc_init\<lparr>st_jobs := [60 \<mapsto> sample_scan], st_discoveries := [50 \<mapsto> sample_scan]\<rparr>" 60 sample_scan
      "sample_env 100 0"]
  by (simp add: sample_scan_def)

theorem refused_schedule_stays_enabled_witness:
  "\<exists>d'. snd (create_discovery (sample_env 100 0) sample_scan disc_init) = Ok d' \<and>
        db_run_type (discovery_base d') = RunType_Scheduled ''0 0 * * * *'' None True"
proof -
  have "db_run_type (discovery_base sample_scan) = RunType_Scheduled ''0 0 * * * *'' None True"
    "discovery_id sample_scan \<noteq> uuid_nil"
    by (simp_all add: sample_scan_def)
  from refused_schedule_stays_enabled [OF this, of "sample_env 100 0" "''bad cron''" disc_init]
  show ?thesis by (auto simp: sample_env_def)
qed

theorem run_job_overwrites_row_witness:
  "st_discoveries (run_job (sample_env 100 7) sample_scan
     (disc_init\<lparr>st_discoveries := [50 \<mapsto> sample_scan\<lparr>discovery_created_at := 3\<rparr>]\<rparr>)) 50 =
   Some (sample_scan\<lparr>discovery_updated_at := 7\<rparr>)"
proof -
  let ?st = "disc_init\<lparr>st_discoveries := [50 \<mapsto> sample_scan\<lparr>discovery_created_at := 3\<rparr>]\<rparr>"
  have "snd (start_session (sample_env 100 7) sample_scan ?st) =
      Ok (start_payload (sample_env 100 7) sample_scan)"
    by code_simp
  from run_job_overwrites_row [of sample_scan "''0 0 * * * *''" None True ?st, OF _ _ this]
  show ?thesis by (simp add: sample_scan_def sample_env_def)
qed

theorem pulled_session_ignores_queue_order_witness:
  "fst (snd (receive_work_request [101, 100] 9 sample_two)) =
   Some (sample_report 101 9 DiscoveryPhase_Pending)"
proof -
  have "dom (st_sessions sample_two) = set [100, 101]"
    by (auto simp: sample_two_def sample_one_def start_session_def start_dispatch_def and_then_def
        match_call_def daemon_is_push_def send_request_def sample_env_def start_insert_def
        start_enqueue_def frame_simps start_payload_def DiscoveryUpdatePayload_new_def disc_init_def Let_def
        split: if_splits)
  from pulled_session_ignores_queue_order [OF sample_two_queue sample_two_sessions _ this [symmetric], of "[]"]
  show ?thesis by simp
qed

end
