(* ===== verification/Binding_Rules.thy ===== *)
theory Binding_Rules
  imports Services
begin

text \<open>
  The rules on the bindings of services, from \<^verbatim>\<open>backend/src/server/services/service.rs\<close>: when two
  bindings of one service conflict, when a binding is covered by another, deduplication, the
  merge of rediscovered bindings into a service, claims of ports across services, and the
  reassignment of bindings to the ports and interfaces of another host.

  The theorems relate each routine to what it is for: the checks decide pairwise conditions, and
  deduplication and merging lose no claimed port.
\<close>

subsection \<open>Within one service\<close>

abbreviation btype :: "Binding \<Rightarrow> BindingType" where
  "btype b \<equiv> bb_binding_type (binding_base b)"

definition is_binding_covered_by_existing :: "Binding \<Rightarrow> Binding list \<Rightarrow> bool" where
  "is_binding_covered_by_existing new_binding existing_bindings =
     (case btype new_binding of
        BindingType_Port pid (Some _) \<Rightarrow>
          list_ex (\<lambda>existing. btype existing = BindingType_Port pid None) existing_bindings
      | _ \<Rightarrow> False)"

definition interface_conflict_msg :: string where
  "interface_conflict_msg = ''Cannot add interface binding: service already has a port binding on this interface (or on all interfaces).''"

definition port_conflict_msg :: string where
  "port_conflict_msg = ''Cannot add port binding: service already has an interface binding on this interface.''"

definition all_interfaces_conflict_msg :: string where
  "all_interfaces_conflict_msg = ''Cannot add port binding on all interfaces: service already has interface bindings.''"

text \<open>The result is the message of the conflict, if there is one.\<close>

definition validate_binding_no_conflict :: "BindingType \<Rightarrow> Binding list \<Rightarrow> string option" where
  "validate_binding_no_conflict new_binding existing_bindings =
     (case new_binding of
        BindingType_Interface iid \<Rightarrow>
          if list_ex (\<lambda>existing. case btype existing of
                        BindingType_Port _ existing_iface \<Rightarrow>
                          existing_iface = Some iid \<or> existing_iface = None
                      | _ \<Rightarrow> False) existing_bindings
          then Some interface_conflict_msg else None
      | BindingType_Port _ (Some iid) \<Rightarrow>
          if list_ex (\<lambda>existing. case btype existing of
                        BindingType_Interface existing_iface \<Rightarrow> existing_iface = iid
                      | _ \<Rightarrow> False) existing_bindings
          then Some port_conflict_msg else None
      | BindingType_Port _ None \<Rightarrow>
          if list_ex (\<lambda>existing. case btype existing of
                        BindingType_Interface _ \<Rightarrow> True
                      | _ \<Rightarrow> False) existing_bindings
          then Some all_interfaces_conflict_msg else None)"

text \<open>The loop of \<open>validate_bindings_no_conflicts\<close>: each binding against the ones before it.\<close>

fun validate_bindings_from :: "Binding list \<Rightarrow> Binding list \<Rightarrow> (unit, anyhow_error) result" where
  "validate_bindings_from preceding [] = Ok ()"
| "validate_bindings_from preceding (b # bs) =
     (case validate_binding_no_conflict (btype b) preceding of
        Some error_msg \<Rightarrow> Err (ValidationError error_msg)
      | None \<Rightarrow> validate_bindings_from (preceding @ [b]) bs)"

definition validate_bindings_no_conflicts :: "Binding list \<Rightarrow> (unit, anyhow_error) result" where
  "validate_bindings_no_conflicts bindings = validate_bindings_from [] bindings"

text \<open>
  Deduplication. The key of a binding is the text that \<open>{:?}\<close> prints for its type, which is
  different for different types; the model uses the type itself.
\<close>

definition all_interface_port_ids :: "Binding list \<Rightarrow> uuid list" where
  "all_interface_port_ids bindings =
     List.map_filter (\<lambda>b. case btype b of BindingType_Port p None \<Rightarrow> Some p | _ \<Rightarrow> None) bindings"

fun deduplicate_from :: "uuid list \<Rightarrow> BindingType list \<Rightarrow> Binding list \<Rightarrow> Binding list" where
  "deduplicate_from wide seen [] = []"
| "deduplicate_from wide seen (b # bs) =
     (if (case btype b of BindingType_Port p (Some _) \<Rightarrow> p \<in> set wide | _ \<Rightarrow> False)
      then deduplicate_from wide seen bs
      else if btype b \<in> set seen then deduplicate_from wide seen bs
      else b # deduplicate_from wide (btype b # seen) bs)"

definition deduplicate_bindings :: "Binding list \<Rightarrow> Binding list" where
  "deduplicate_bindings bindings =
     deduplicate_from (all_interface_port_ids bindings) [] bindings"

text \<open>The loop of \<open>upsert_service\<close> over the new bindings, with the count of changes.\<close>

definition dominated_by :: "uuid \<Rightarrow> Binding \<Rightarrow> bool" where
  "dominated_by pid existing =
     (case btype existing of
        BindingType_Port existing_port_id existing_interface_id \<Rightarrow>
          existing_interface_id \<noteq> None \<and> existing_port_id = pid
      | _ \<Rightarrow> False)"

definition merge_binding :: "Binding list \<times> nat \<Rightarrow> Binding \<Rightarrow> Binding list \<times> nat" where
  "merge_binding st new_binding =
     (let (bindings, updates) = st
      in if is_binding_covered_by_existing new_binding bindings then st
         else if validate_binding_no_conflict (btype new_binding) bindings \<noteq> None then st
         else
           let kept = (case btype new_binding of
                         BindingType_Port pid None \<Rightarrow>
                           filter (\<lambda>existing. \<not> dominated_by pid existing) bindings
                       | _ \<Rightarrow> bindings);
               removed = length bindings - length kept
           in if list_ex (\<lambda>b. Binding_eq b new_binding) kept then (kept, updates + removed)
              else (kept @ [new_binding], updates + removed + 1))"

definition merge_bindings :: "Binding list \<Rightarrow> Binding list \<Rightarrow> Binding list \<times> nat" where
  "merge_bindings existing new = foldl merge_binding (existing, 0) new"

subsection \<open>Across services\<close>

text \<open>Two claims of one port overlap when one is for all interfaces or both are for the same.\<close>

definition claims_overlap :: "uuid \<times> uuid option \<Rightarrow> uuid \<times> uuid option \<Rightarrow> bool" where
  "claims_overlap a b \<longleftrightarrow>
     fst a = fst b \<and>
     (case (snd a, snd b) of
        (Some i, Some j) \<Rightarrow> i = j
      | _ \<Rightarrow> True)"

definition port_claim :: "Binding \<Rightarrow> (uuid \<times> uuid option) option" where
  "port_claim b =
     (case btype b of
        BindingType_Port pid iid \<Rightarrow> Some (pid, iid)
      | _ \<Rightarrow> None)"

text \<open>\<open>db_claimed\<close>: the port claims of the other services of the host.\<close>

definition claimed_by_others :: "Service list \<Rightarrow> uuid \<Rightarrow> (uuid \<times> uuid option) list" where
  "claimed_by_others services service_id0 =
     concat (map (\<lambda>s. List.map_filter port_claim (svb_bindings (service_base s)))
       (filter (\<lambda>s. service_id s \<noteq> service_id0) services))"

text \<open>\<open>partition_conflicting_bindings\<close> on the services of the host that the database returned.\<close>

definition has_claim_conflict :: "(uuid \<times> uuid option) list \<Rightarrow> Binding \<Rightarrow> bool" where
  "has_claim_conflict claimed b =
     (case port_claim b of
        Some c \<Rightarrow> list_ex (\<lambda>d. claims_overlap c d) claimed
      | None \<Rightarrow> False)"

definition partition_bindings ::
    "Service list \<Rightarrow> uuid \<Rightarrow> Binding list \<Rightarrow> (uuid \<times> uuid option) list \<Rightarrow> Binding list \<times> Binding list" where
  "partition_bindings services service_id0 bindings batch_claimed =
     (let all_claimed = claimed_by_others services service_id0 @ batch_claimed
      in if all_claimed = [] then (bindings, [])
         else (filter (\<lambda>b. \<not> has_claim_conflict all_claimed b) bindings,
               filter (has_claim_conflict all_claimed) bindings))"

text \<open>The first binding, in the order given, that another service of the host claims, and that
  service: what \<open>validate_bindings_available\<close> reports.\<close>

definition claiming_service :: "Service list \<Rightarrow> Binding \<Rightarrow> Service option" where
  "claiming_service other_services b =
     (case port_claim b of
        Some c \<Rightarrow>
          find (\<lambda>s. list_ex (\<lambda>d. case port_claim d of
                                  Some e \<Rightarrow> claims_overlap c e
                                | None \<Rightarrow> False) (svb_bindings (service_base s)))
            other_services
      | None \<Rightarrow> None)"

fun first_claimed :: "Service list \<Rightarrow> Binding list \<Rightarrow> (Binding \<times> Service) option" where
  "first_claimed other_services [] = None"
| "first_claimed other_services (b # bs) =
     (case claiming_service other_services b of
        Some owner \<Rightarrow> Some (b, owner)
      | None \<Rightarrow> first_claimed other_services bs)"

subsection \<open>Belonging to a host\<close>

text \<open>The loop of \<open>validate_bindings_belong_to_host\<close>; \<open>show\<close> prints an identifier.\<close>

fun validate_belong :: "(uuid \<Rightarrow> string) \<Rightarrow> uuid set \<Rightarrow> uuid set \<Rightarrow> Binding list \<Rightarrow> (unit, anyhow_error) result" where
  "validate_belong show_uuid valid_port_ids valid_interface_ids [] = Ok ()"
| "validate_belong show_uuid valid_port_ids valid_interface_ids (b # bs) =
     (case btype b of
        BindingType_Interface iid \<Rightarrow>
          if iid \<notin> valid_interface_ids
          then Err (ValidationError (''Interface binding references interface '' @ show_uuid iid @
                      '' which does not belong to this host''))
          else validate_belong show_uuid valid_port_ids valid_interface_ids bs
      | BindingType_Port pid iid \<Rightarrow>
          if pid \<notin> valid_port_ids
          then Err (ValidationError (''Port binding references port '' @ show_uuid pid @
                      '' which does not belong to this host''))
          else (case iid of
                  Some iface_id \<Rightarrow>
                    if iface_id \<notin> valid_interface_ids
                    then Err (ValidationError (''Port binding references interface '' @ show_uuid iface_id @
                                '' which does not belong to this host''))
                    else validate_belong show_uuid valid_port_ids valid_interface_ids bs
                | None \<Rightarrow> validate_belong show_uuid valid_port_ids valid_interface_ids bs))"

subsection \<open>Reassignment to another host\<close>

abbreviation with_btype :: "Binding \<Rightarrow> BindingType \<Rightarrow> Binding" where
  "with_btype b t \<equiv> b\<lparr>binding_base := (binding_base b)\<lparr>bb_binding_type := t\<rparr>\<rparr>"

definition reassign_binding ::
    "Interface list \<Rightarrow> Port list \<Rightarrow> Interface list \<Rightarrow> Port list \<Rightarrow> Binding \<Rightarrow> Binding option" where
  "reassign_binding original_interfaces original_ports updated_interfaces updated_ports b =
     (let original_interface =
            Option.bind (Binding_interface_id b)
              (\<lambda>i. find (\<lambda>x. interface_id x = i) original_interfaces)
      in case btype b of
           BindingType_Interface _ \<Rightarrow>
             (case original_interface of
                Some oi \<Rightarrow>
                  map_option (\<lambda>ni. with_btype b (BindingType_Interface (interface_id ni)))
                    (find (\<lambda>i. Interface_eq i oi) updated_interfaces)
              | None \<Rightarrow> None)
         | BindingType_Port port_id0 _ \<Rightarrow>
             (case find (\<lambda>p. port_id p = port_id0) original_ports of
                None \<Rightarrow> None
              | Some original_port \<Rightarrow>
                  (case find (\<lambda>p. Port_eq p original_port) updated_ports of
                     None \<Rightarrow> None
                   | Some new_port \<Rightarrow>
                       let new_interface =
                             (case original_interface of
                                None \<Rightarrow> None
                              | Some oi \<Rightarrow> find (\<lambda>i. Interface_eq i oi) updated_interfaces)
                       in Some (with_btype b
                            (BindingType_Port (port_id new_port) (map_option interface_id new_interface))))))"

definition reassign_service_interface_bindings ::
    "Service \<Rightarrow> Interface list \<Rightarrow> Port list \<Rightarrow> uuid \<Rightarrow> uuid \<Rightarrow> Interface list \<Rightarrow> Port list \<Rightarrow> Service" where
  "reassign_service_interface_bindings service original_interfaces original_ports
     updated_host_id updated_network_id updated_interfaces updated_ports =
     service\<lparr>service_base := (service_base service)
       \<lparr>svb_bindings :=
          List.map_filter
            (reassign_binding original_interfaces original_ports updated_interfaces updated_ports)
            (svb_bindings (service_base service)),
        svb_host_id := updated_host_id,
        svb_network_id := updated_network_id\<rparr>\<rparr>"

text \<open>The bindings a group keeps when a service changes or goes.\<close>

definition retain_group_bindings :: "uuid list \<Rightarrow> uuid list \<Rightarrow> uuid list \<Rightarrow> uuid list" where
  "retain_group_bindings current_ids updated_ids binding_ids =
     filter (\<lambda>sb. if sb \<in> set current_ids then sb \<in> set updated_ids else True) binding_ids"

subsection \<open>What the rules mean\<close>

fun binding_conflict :: "BindingType \<Rightarrow> BindingType \<Rightarrow> bool" where
  "binding_conflict (BindingType_Interface i) (BindingType_Port _ j) \<longleftrightarrow> j = Some i \<or> j = None"
| "binding_conflict (BindingType_Port _ j) (BindingType_Interface i) \<longleftrightarrow> j = Some i \<or> j = None"
| "binding_conflict _ _ \<longleftrightarrow> False"

fun binding_covers :: "BindingType \<Rightarrow> BindingType \<Rightarrow> bool" where
  "binding_covers (BindingType_Port p i) (BindingType_Port q j) \<longleftrightarrow> p = q \<and> (i = j \<or> i = None)"
| "binding_covers a b \<longleftrightarrow> a = b"

definition conflict_free :: "Binding list \<Rightarrow> bool" where
  "conflict_free bs \<longleftrightarrow> (\<forall>a \<in> set bs. \<forall>b \<in> set bs. \<not> binding_conflict (btype a) (btype b))"

definition irredundant :: "Binding list \<Rightarrow> bool" where
  "irredundant bs \<longleftrightarrow> distinct (map btype bs) \<and>
     (\<forall>a \<in> set bs. \<forall>b \<in> set bs. binding_covers (btype a) (btype b) \<longrightarrow> btype a = btype b)"

definition covered :: "Binding list \<Rightarrow> Binding \<Rightarrow> bool" where
  "covered bs b \<longleftrightarrow> (\<exists>a \<in> set bs. binding_covers (btype a) (btype b))"

lemma binding_conflict_sym: "binding_conflict a b \<longleftrightarrow> binding_conflict b a"
  by (cases "(a, b)" rule: binding_conflict.cases) auto

lemma binding_conflict_irrefl [simp]: "\<not> binding_conflict a a"
  by (cases a) auto

lemma binding_covers_refl [simp]: "binding_covers a a"
  by (cases a) auto

lemma binding_covers_trans: "binding_covers a b \<Longrightarrow> binding_covers b c \<Longrightarrow> binding_covers a c"
  by (cases a; cases b; cases c) auto

lemma binding_covers_cases:
  assumes "binding_covers a b"
  obtains "a = b" | p i where "a = BindingType_Port p None" "b = BindingType_Port p (Some i)"
  using assms by (cases a; cases b) (auto, metis option.exhaust)

lemma validate_binding_no_conflict_iff:
  "validate_binding_no_conflict t bs = None \<longleftrightarrow> (\<forall>b \<in> set bs. \<not> binding_conflict t (btype b))"
proof (cases t)
  case (BindingType_Interface i)
  have "(case u of BindingType_Port _ j \<Rightarrow> j = Some i \<or> j = None | _ \<Rightarrow> False) =
      binding_conflict t u" for u
    using BindingType_Interface by (cases u) auto
  then show ?thesis
    using BindingType_Interface by (simp add: validate_binding_no_conflict_def list_ex_iff)
next
  case (BindingType_Port p j)
  show ?thesis
  proof (cases j)
    case None
    have "(case u of BindingType_Interface _ \<Rightarrow> True | _ \<Rightarrow> False) = binding_conflict t u" for u
      using BindingType_Port None by (cases u) auto
    then show ?thesis
      using BindingType_Port None by (simp add: validate_binding_no_conflict_def list_ex_iff)
  next
    case (Some i)
    have "(case u of BindingType_Interface k \<Rightarrow> k = i | _ \<Rightarrow> False) = binding_conflict t u" for u
      using BindingType_Port Some by (cases u) auto
    then show ?thesis
      using BindingType_Port Some by (simp add: validate_binding_no_conflict_def list_ex_iff)
  qed
qed

lemma is_binding_covered_iff:
  "is_binding_covered_by_existing b bs \<longleftrightarrow>
     (\<exists>a \<in> set bs. btype a \<noteq> btype b \<and> binding_covers (btype a) (btype b))"
proof -
  have "(case t of BindingType_Port p (Some _) \<Rightarrow> u = BindingType_Port p None | _ \<Rightarrow> False) \<longleftrightarrow>
      u \<noteq> t \<and> binding_covers u t" for u t
    by (cases t; cases u) (auto split: option.splits)
  moreover have "is_binding_covered_by_existing b bs \<longleftrightarrow>
      list_ex (\<lambda>a. case btype b of BindingType_Port p (Some _) \<Rightarrow> btype a = BindingType_Port p None
                          | _ \<Rightarrow> False) bs"
    by (auto simp: is_binding_covered_by_existing_def list_ex_iff split: BindingType.splits option.splits)
  ultimately show ?thesis by (simp add: list_ex_iff)
qed

lemma conflict_free_Nil [simp]: "conflict_free []"
  by (simp add: conflict_free_def)

lemma conflict_free_snoc:
  "conflict_free (bs @ [b]) \<longleftrightarrow>
     conflict_free bs \<and> (\<forall>a \<in> set bs. \<not> binding_conflict (btype b) (btype a))"
  using binding_conflict_sym by (auto simp: conflict_free_def)

lemma conflict_free_subset: "conflict_free bs \<Longrightarrow> set cs \<subseteq> set bs \<Longrightarrow> conflict_free cs"
  by (auto simp: conflict_free_def)

lemma validate_bindings_from_iff:
  "conflict_free preceding \<Longrightarrow>
     is_ok (validate_bindings_from preceding bs) \<longleftrightarrow> conflict_free (preceding @ bs)"
proof (induction preceding bs rule: validate_bindings_from.induct)
  case (2 preceding b bs)
  show ?case
  proof (cases "validate_binding_no_conflict (btype b) preceding")
    case None
    then have "conflict_free (preceding @ [b])"
      using 2(2) by (auto simp: conflict_free_snoc validate_binding_no_conflict_iff)
    with 2(1) None show ?thesis by simp
  next
    case (Some e)
    then have "validate_binding_no_conflict (btype b) preceding \<noteq> None" by simp
    then have "\<not> conflict_free (preceding @ [b])"
      by (auto simp: conflict_free_snoc validate_binding_no_conflict_iff)
    then have "\<not> conflict_free (preceding @ b # bs)"
      by (rule contrapos_nn) (auto elim: conflict_free_subset)
    with Some show ?thesis by simp
  qed
qed simp

text \<open>C32. The check of a service's own bindings accepts a list exactly when no two of its bindings
  conflict, whatever their order: an interface binding and a port binding conflict when the port
  binding is on that interface or on all interfaces.\<close>

theorem validate_bindings_no_conflicts_iff:
  "is_ok (validate_bindings_no_conflicts bs) \<longleftrightarrow> conflict_free bs"
  using validate_bindings_from_iff [of "[]" bs] by (simp add: validate_bindings_no_conflicts_def)

subsection \<open>Deduplication\<close>

lemma set_all_interface_port_ids [simp]:
  "p \<in> set (all_interface_port_ids bs) \<longleftrightarrow> (\<exists>b \<in> set bs. btype b = BindingType_Port p None)"
  by (force simp: all_interface_port_ids_def map_filter_def split: BindingType.splits option.splits if_splits)

abbreviation dedup_dropped :: "uuid list \<Rightarrow> BindingType \<Rightarrow> bool" where
  "dedup_dropped wide t \<equiv> (case t of BindingType_Port p (Some _) \<Rightarrow> p \<in> set wide | _ \<Rightarrow> False)"

lemma deduplicate_from_subset: "set (deduplicate_from wide seen bs) \<subseteq> set bs"
  by (induction wide seen bs rule: deduplicate_from.induct) auto

lemma deduplicate_from_types:
  "btype ` set (deduplicate_from wide seen bs) =
     {t \<in> btype ` set bs. \<not> dedup_dropped wide t \<and> t \<notin> set seen}"
proof (induction wide seen bs rule: deduplicate_from.induct)
  case (2 wide seen b bs)
  then show ?case by (cases "dedup_dropped wide (btype b)") (auto simp: image_iff)
qed simp

lemma deduplicate_from_distinct: "distinct (map btype (deduplicate_from wide seen bs))"
proof (induction wide seen bs rule: deduplicate_from.induct)
  case (2 wide seen b bs)
  then show ?case
    using deduplicate_from_types [of wide "btype b # seen" bs] by (simp split: if_split)
qed simp

lemma deduplicate_from_id:
  "distinct (map btype bs) \<Longrightarrow> \<forall>b \<in> set bs. \<not> dedup_dropped wide (btype b) \<and> btype b \<notin> set seen \<Longrightarrow>
     deduplicate_from wide seen bs = bs"
proof (induction wide seen bs rule: deduplicate_from.induct)
  case (2 wide seen b bs)
  then have "\<forall>c \<in> set bs. btype c \<noteq> btype b" by (auto simp: image_iff)
  with 2 show ?case by simp
qed simp

lemmas deduplicate_types =
  deduplicate_from_types [of "all_interface_port_ids bs" "[]" bs for bs,
    folded deduplicate_bindings_def]

lemma deduplicate_irredundant: "irredundant (deduplicate_bindings bs)"
proof -
  have "btype a = btype b"
    if "a \<in> set (deduplicate_bindings bs)" "b \<in> set (deduplicate_bindings bs)"
      "binding_covers (btype a) (btype b)" for a b
    using that(3)
  proof (cases rule: binding_covers_cases)
    case (2 p i)
    have "btype b \<in> btype ` set (deduplicate_bindings bs)" and "a \<in> set bs"
      using that(1,2) deduplicate_from_subset by (auto simp: deduplicate_bindings_def)
    then show ?thesis using 2 unfolding deduplicate_types by auto
  qed
  then show ?thesis
    unfolding irredundant_def deduplicate_bindings_def using deduplicate_from_distinct by blast
qed

lemma deduplicate_covers:
  assumes "b \<in> set bs" shows "covered (deduplicate_bindings bs) b"
proof (cases "dedup_dropped (all_interface_port_ids bs) (btype b)")
  case True
  then obtain p i where t: "btype b = BindingType_Port p (Some i)"
    and "\<exists>a \<in> set bs. btype a = BindingType_Port p None"
    by (auto split: BindingType.splits option.splits)
  then have "BindingType_Port p None \<in> btype ` set (deduplicate_bindings bs)"
    unfolding deduplicate_types by (force simp: image_iff)
  then obtain a where "a \<in> set (deduplicate_bindings bs)" "btype a = BindingType_Port p None"
    by auto
  then show ?thesis using t unfolding covered_def by (intro bexI [of _ a]) simp_all
next
  case False
  then have "btype b \<in> btype ` set (deduplicate_bindings bs)"
    using assms unfolding deduplicate_types by auto
  then show ?thesis by (force simp: covered_def)
qed

lemma irredundant_deduplicate: "irredundant bs \<Longrightarrow> deduplicate_bindings bs = bs"
  unfolding deduplicate_bindings_def irredundant_def
  by (rule deduplicate_from_id) (force split: BindingType.splits option.splits)+

text \<open>Deduplication removes exactly the redundancy: it only removes bindings, every binding of the
  list is still covered by one that is kept (the same, or the port on all interfaces), no kept
  binding is a duplicate of or covered by another, and a list without redundancy is unchanged.\<close>

theorem deduplicate_bindings_correct:
  "set (deduplicate_bindings bs) \<subseteq> set bs \<and>
   list_all (covered (deduplicate_bindings bs)) bs \<and>
   irredundant (deduplicate_bindings bs) \<and>
   (deduplicate_bindings bs = bs \<longleftrightarrow> irredundant bs)"
  using deduplicate_from_subset deduplicate_covers deduplicate_irredundant irredundant_deduplicate
  unfolding list_all_iff by (metis deduplicate_bindings_def)

subsection \<open>Merging\<close>

lemma conflict_covers: "binding_conflict t a \<Longrightarrow> binding_covers u a \<Longrightarrow> binding_conflict t u"
  by (cases t; cases a; cases u) auto

lemma coveredI: "a \<in> set bs \<Longrightarrow> binding_covers (btype a) (btype b) \<Longrightarrow> covered bs b"
  by (auto simp: covered_def)

lemma covered_mono:
  "covered bs c \<Longrightarrow> (\<And>b. b \<in> set bs \<Longrightarrow> covered bs' b) \<Longrightarrow> covered bs' c"
  unfolding covered_def using binding_covers_trans by blast

lemma dominated_iff:
  "dominated_by p a \<longleftrightarrow> btype a \<noteq> BindingType_Port p None \<and>
     binding_covers (BindingType_Port p None) (btype a)"
  by (cases "btype a") (auto simp: dominated_by_def)

text \<open>What one new binding does to the list.\<close>

inductive merge_outcome :: "Binding list \<Rightarrow> Binding \<Rightarrow> Binding list \<Rightarrow> nat \<Rightarrow> bool" for bs b where
  skipped: "covered bs b \<or> (\<exists>a \<in> set bs. binding_conflict (btype b) (btype a)) \<Longrightarrow>
              merge_outcome bs b bs 0"
| added: "\<forall>a \<in> set bs. \<not> binding_conflict (btype b) (btype a) \<Longrightarrow> \<not> covered bs b \<Longrightarrow>
            kept = filter (\<lambda>a. \<not> binding_covers (btype b) (btype a)) bs \<Longrightarrow>
            merge_outcome bs b (kept @ [b]) (length bs - length kept + 1)"

lemma merge_binding_outcome:
  assumes "irredundant bs"
  shows "merge_outcome bs b (fst (merge_binding (bs, 0) b)) (snd (merge_binding (bs, 0) b))"
proof (cases "is_binding_covered_by_existing b bs \<or>
    validate_binding_no_conflict (btype b) bs \<noteq> None")
  case True
  then have "covered bs b \<or> (\<exists>a \<in> set bs. binding_conflict (btype b) (btype a))"
    by (auto simp: is_binding_covered_iff validate_binding_no_conflict_iff intro: coveredI)
  with True show ?thesis by (auto simp: merge_binding_def intro: merge_outcome.skipped)
next
  case False
  then have nc: "\<not> is_binding_covered_by_existing b bs"
    and free: "\<forall>a \<in> set bs. \<not> binding_conflict (btype b) (btype a)"
    by (auto simp: validate_binding_no_conflict_iff)
  let ?kept = "case btype b of BindingType_Port p None \<Rightarrow> filter (\<lambda>a. \<not> dominated_by p a) bs | _ \<Rightarrow> bs"
  have mb: "merge_binding (bs, 0) b =
      (if list_ex (\<lambda>a. Binding_eq a b) ?kept then (?kept, length bs - length ?kept)
       else (?kept @ [b], length bs - length ?kept + 1))"
    using False by (simp add: merge_binding_def Let_def)
  show ?thesis
  proof (cases "btype b \<in> btype ` set bs")
    case True
    then obtain a where a: "a \<in> set bs" "btype a = btype b" by auto
    have "\<not> dominated_by p c" if "btype b = BindingType_Port p None" "c \<in> set bs" for p c
      using assms a that unfolding irredundant_def dominated_iff by metis
    then have kept: "?kept = bs"
      by (auto split: BindingType.splits option.splits intro!: filter_True)
    have "list_ex (\<lambda>a. Binding_eq a b) bs"
      using a by (auto simp: list_ex_iff eq_defs)
    moreover have "covered bs b" using a by (intro coveredI [of a]) simp_all
    ultimately show ?thesis unfolding mb kept by (auto intro: merge_outcome.skipped)
  next
    case False
    have kept: "?kept = filter (\<lambda>a. \<not> binding_covers (btype b) (btype a)) bs"
    proof (cases "\<exists>p. btype b = BindingType_Port p None")
      case True
      then obtain p where p: "btype b = BindingType_Port p None" by blast
      have "dominated_by p a \<longleftrightarrow> binding_covers (btype b) (btype a)" if "a \<in> set bs" for a
        using that False p by (metis dominated_iff image_eqI)
      then show ?thesis using p by (auto intro: filter_cong)
    next
      case no_wide: False
      have "\<not> binding_covers (btype b) (btype a)" if "a \<in> set bs" for a
      proof
        assume "binding_covers (btype b) (btype a)"
        then show False using that False no_wide by (cases rule: binding_covers_cases) auto
      qed
      moreover have "?kept = bs" using no_wide by (auto split: BindingType.splits option.splits)
      ultimately show ?thesis by simp
    qed
    have "\<not> list_ex (\<lambda>a. Binding_eq a b) ?kept"
      unfolding kept by (auto simp: list_ex_iff eq_defs)
    moreover have "\<not> covered bs b"
      using nc False unfolding is_binding_covered_iff covered_def by (metis image_eqI)
    ultimately show ?thesis unfolding mb using merge_outcome.added [OF free _ kept] by simp
  qed
qed

lemma merge_outcome_covers:
  assumes "merge_outcome bs b bs' n" "a \<in> set bs" shows "covered bs' a"
  using assms
  by cases (auto intro: coveredI [of a], cases "binding_covers (btype b) (btype a)",
    auto intro: coveredI [of a] coveredI [of b])

lemma merge_outcome_result:
  assumes "merge_outcome bs b bs' n"
  shows "covered bs' b \<or> (\<exists>a \<in> set bs'. binding_conflict (btype b) (btype a))"
  using assms by cases (auto intro: coveredI [of b])

lemma merge_outcome_subset: "merge_outcome bs b bs' n \<Longrightarrow> set bs' \<subseteq> insert b (set bs)"
  by (auto elim!: merge_outcome.cases)

lemma merge_outcome_count: "merge_outcome bs b bs' n \<Longrightarrow> n = 0 \<longleftrightarrow> bs' = bs"
proof (induction rule: merge_outcome.induct)
  case (added kept)
  then have "b \<notin> set bs" by (auto simp: covered_def)
  then show ?case by (metis Suc_eq_plus1 Zero_not_Suc in_set_conv_decomp)
qed simp

lemma merge_outcome_irredundant:
  assumes "merge_outcome bs b bs' n" "irredundant bs" shows "irredundant bs'"
  using assms(1)
proof cases
  case (added kept)
  have "btype b \<notin> btype ` set kept" using added by auto
  moreover have "distinct (map btype kept)"
    using assms(2) added by (auto simp: irredundant_def distinct_map_filter)
  moreover have "btype a = btype c" if "a \<in> set (kept @ [b])" "c \<in> set (kept @ [b])"
    "binding_covers (btype a) (btype c)" for a c
    using that assms(2) added by (auto simp: irredundant_def covered_def)
  ultimately show ?thesis using added by (auto simp: irredundant_def)
qed (use assms in simp)

lemma merge_outcome_conflict_free:
  assumes "merge_outcome bs b bs' n" "conflict_free bs" shows "conflict_free bs'"
  using assms(1)
proof cases
  case (added kept)
  then show ?thesis
    using assms(2) by (auto simp: conflict_free_snoc elim: conflict_free_subset)
qed (use assms in simp)

lemma merge_bindings_Nil [simp]: "merge_bindings bs [] = (bs, 0)"
  by (simp add: merge_bindings_def)

lemma merge_binding_shift:
  "merge_binding (bs, n) b = (fst (merge_binding (bs, 0) b), n + snd (merge_binding (bs, 0) b))"
  by (simp add: merge_binding_def Let_def)

lemma merge_bindings_snoc:
  "merge_bindings bs (new @ [b]) =
     (fst (merge_binding (fst (merge_bindings bs new), 0) b),
      snd (merge_bindings bs new) + snd (merge_binding (fst (merge_bindings bs new), 0) b))"
  using merge_binding_shift [of "fst (merge_bindings bs new)" "snd (merge_bindings bs new)" b]
  by (simp add: merge_bindings_def)

lemma merge_bindings_keeps:
  assumes "irredundant existing" and "conflict_free existing"
    and "merge_bindings existing new = (merged, updates)"
  shows "irredundant merged \<and> conflict_free merged \<and>
         list_all (covered merged) existing \<and>
         list_all (\<lambda>b. covered merged b \<or> (\<exists>a \<in> set merged. binding_conflict (btype b) (btype a))) new \<and>
         set merged \<subseteq> set existing \<union> set new"
  using assms(3)
proof (induction new arbitrary: merged updates rule: rev_induct)
  case Nil
  then show ?case using assms by (auto simp: list_all_iff intro: coveredI)
next
  case (snoc b new)
  obtain mid n where mid: "merge_bindings existing new = (mid, n)" by force
  note IH = snoc.IH [OF mid]
  let ?st = "merge_binding (mid, 0) b"
  have out: "merge_outcome mid b merged (snd ?st)"
    using merge_binding_outcome [of mid b] IH snoc.prems by (simp add: merge_bindings_snoc mid)
  have mono: "covered merged c" if "covered mid c" for c
    using that merge_outcome_covers [OF out] by (rule covered_mono)
  have conf: "\<exists>a \<in> set merged. binding_conflict (btype c) (btype a)"
    if "a \<in> set mid" "binding_conflict (btype c) (btype a)" for a c
    using merge_outcome_covers [OF out that(1)] conflict_covers [OF that(2)]
    by (auto simp: covered_def)
  show ?case
    using IH mono conf merge_outcome_result [OF out] merge_outcome_subset [OF out]
      merge_outcome_irredundant [OF out] merge_outcome_conflict_free [OF out]
    by (auto simp: list_all_iff) (metis, metis)?
qed

lemma merge_bindings_count:
  assumes "irredundant existing" and "conflict_free existing"
    and "merge_bindings existing new = (merged, updates)"
  shows "updates = 0 \<longleftrightarrow> merged = existing"
proof -
  have "(updates = 0 \<longrightarrow> merged = existing) \<and>
        (updates \<noteq> 0 \<longrightarrow> (\<exists>c. covered merged c \<and> \<not> covered existing c))"
    using assms(3)
  proof (induction new arbitrary: merged updates rule: rev_induct)
    case (snoc b new)
    obtain mid n where mid: "merge_bindings existing new = (mid, n)" by force
    note IH = snoc.IH [OF mid] and keeps = merge_bindings_keeps [OF assms(1,2) mid]
    let ?st = "merge_binding (mid, 0) b"
    have st: "merged = fst ?st" "updates = n + snd ?st"
      using snoc.prems by (simp_all add: merge_bindings_snoc mid)
    have out: "merge_outcome mid b merged (snd ?st)"
      using merge_binding_outcome [of mid b] keeps st by simp
    have mono: "covered merged c" if "covered mid c" for c
      using that merge_outcome_covers [OF out] by (rule covered_mono)
    have fresh: "covered merged b \<and> \<not> covered existing b" if "snd ?st \<noteq> 0"
      using out
    proof cases
      case (added kept)
      have "\<not> covered existing b"
        using added(4) covered_mono [of existing b mid] keeps by (auto simp: list_all_iff)
      then show ?thesis using added(1) by (auto intro: coveredI [of b])
    qed (use that in simp)
    show ?case using IH mono fresh merge_outcome_count [OF out] st by auto
  qed (simp add: merge_bindings_def)
  then show ?thesis by blast
qed

text \<open>C31. Merging the bindings of a rediscovered service into the stored ones keeps the stored list
  free of conflicts and redundancy, keeps every stored claim covered, covers every new binding
  that conflicts with no kept one, adds only new bindings, and reports no change exactly when the
  list is unchanged.\<close>

theorem merge_bindings_correct:
  assumes "irredundant existing" and "conflict_free existing"
    and "merge_bindings existing new = (merged, updates)"
  shows "irredundant merged \<and> conflict_free merged \<and>
         list_all (covered merged) existing \<and>
         list_all (\<lambda>b. covered merged b \<or> (\<exists>a \<in> set merged. binding_conflict (btype b) (btype a))) new \<and>
         set merged \<subseteq> set existing \<union> set new \<and>
         (updates = 0 \<longleftrightarrow> merged = existing)"
  using merge_bindings_keeps [OF assms] merge_bindings_count [OF assms] by blast

theorem merge_bindings_correct_witness:
  "let wide = Binding_new 1 0 (BindingBase_new_serviceless (BindingType_Port 5 None));
       narrow = Binding_new 2 0 (BindingBase_new_serviceless (BindingType_Port 5 (Some 6)))
   in irredundant (fst (merge_bindings [narrow] [wide])) \<and> snd (merge_bindings [narrow] [wide]) \<noteq> 0"
proof -
  let ?wide = "Binding_new 1 0 (BindingBase_new_serviceless (BindingType_Port 5 None))"
  let ?narrow = "Binding_new 2 0 (BindingBase_new_serviceless (BindingType_Port 5 (Some 6)))"
  have pre: "irredundant [?narrow]" "conflict_free [?narrow]"
    by (simp_all add: irredundant_def conflict_free_def)
  have "fst (merge_bindings [?narrow] [?wide]) = [?wide]"
    by (simp add: merge_bindings_def merge_binding_def is_binding_covered_by_existing_def
        validate_binding_no_conflict_def dominated_by_def Binding_new_def BindingBase_new_serviceless_def)
  then show ?thesis
    using merge_bindings_correct [OF pre prod.collapse [symmetric], of "[?wide]"]
    by (auto simp: Let_def Binding_new_def BindingBase_new_serviceless_def)
qed

subsection \<open>Claims across services\<close>

lemma claims_overlap_sym: "claims_overlap a b \<longleftrightarrow> claims_overlap b a"
  by (auto simp: claims_overlap_def split: option.splits)

lemma claims_overlap_refl [simp]: "claims_overlap a a"
  by (simp add: claims_overlap_def split: option.split)

lemma partition_bindings_eq:
  "partition_bindings services i bs batch =
     (filter (\<lambda>b. \<not> has_claim_conflict (claimed_by_others services i @ batch) b) bs,
      filter (has_claim_conflict (claimed_by_others services i @ batch)) bs)"
  by (auto simp: partition_bindings_def Let_def has_claim_conflict_def filter_empty_conv
      split: option.splits)

lemma set_claimed_by_others:
  "c \<in> set (claimed_by_others services i) \<longleftrightarrow>
     (\<exists>s \<in> set services. service_id s \<noteq> i \<and>
        (\<exists>b \<in> set (svb_bindings (service_base s)). port_claim b = Some c))"
  by (force simp: claimed_by_others_def map_filter_def)

text \<open>Two bindings claim the same port on a common interface.\<close>

definition bindings_overlap :: "Binding \<Rightarrow> Binding \<Rightarrow> bool" where
  "bindings_overlap b d \<longleftrightarrow>
     (case (port_claim b, port_claim d) of
        (Some c, Some e) \<Rightarrow> claims_overlap c e
      | _ \<Rightarrow> False)"

lemma bindings_overlap_sym: "bindings_overlap b d \<longleftrightarrow> bindings_overlap d b"
  using claims_overlap_sym by (auto simp: bindings_overlap_def split: option.splits)

lemma bindings_overlap_btype:
  "btype b = btype b' \<Longrightarrow> bindings_overlap b d \<longleftrightarrow> bindings_overlap b' d"
  by (simp add: bindings_overlap_def port_claim_def)

lemma has_claim_conflict_iff:
  "has_claim_conflict (claimed_by_others services i) b \<longleftrightarrow>
     (\<exists>s \<in> set services. service_id s \<noteq> i \<and>
        (\<exists>d \<in> set (svb_bindings (service_base s)). bindings_overlap b d))"
proof (cases "port_claim b")
  case (Some c)
  have "bindings_overlap b d \<longleftrightarrow> (\<exists>e. port_claim d = Some e \<and> claims_overlap c e)" for d
    using Some by (cases "port_claim d") (auto simp: bindings_overlap_def)
  then show ?thesis
    unfolding has_claim_conflict_def list_ex_iff Some option.case Bex_def set_claimed_by_others
    by blast
qed (simp add: has_claim_conflict_def bindings_overlap_def)

lemma claiming_service_None_iff:
  "claiming_service others b = None \<longleftrightarrow>
     (\<forall>s \<in> set others. \<forall>d \<in> set (svb_bindings (service_base s)). \<not> bindings_overlap b d)"
  by (auto simp: claiming_service_def find_None_iff list_ex_iff bindings_overlap_def split: option.splits)

lemma first_claimed_None_iff:
  "first_claimed others bs = None \<longleftrightarrow> (\<forall>b \<in> set bs. claiming_service others b = None)"
  by (induction bs) (auto split: option.splits)

text \<open>The two checks of claimed ports agree: the check of a manual change finds no claiming
  service exactly when the partition of a discovered service's bindings finds no conflicting
  binding, and both mean that no binding of the service overlaps one of another service.\<close>

theorem claim_checks_agree:
  "(first_claimed (filter (\<lambda>s. service_id s \<noteq> i) services) bs = None \<longleftrightarrow>
      snd (partition_bindings services i bs []) = []) \<and>
   (snd (partition_bindings services i bs []) = [] \<longleftrightarrow>
      list_all (\<lambda>b. \<not> list_ex (\<lambda>s. service_id s \<noteq> i \<and>
         list_ex (bindings_overlap b) (svb_bindings (service_base s))) services) bs)"
  by (auto simp: partition_bindings_eq filter_empty_conv has_claim_conflict_iff
      first_claimed_None_iff claiming_service_None_iff list_all_iff list_ex_iff)

subsection \<open>Bindings of a host\<close>

definition binding_within :: "uuid set \<Rightarrow> uuid set \<Rightarrow> BindingType \<Rightarrow> bool" where
  "binding_within ports interfaces t \<longleftrightarrow>
     (case t of
        BindingType_Interface i \<Rightarrow> i \<in> interfaces
      | BindingType_Port p i \<Rightarrow> p \<in> ports \<and> (case i of Some j \<Rightarrow> j \<in> interfaces | None \<Rightarrow> True))"

lemma validate_belong_iff:
  "is_ok (validate_belong show_uuid ports interfaces bs) \<longleftrightarrow>
     (\<forall>b \<in> set bs. binding_within ports interfaces (btype b))"
  by (induction show_uuid ports interfaces bs rule: validate_belong.induct)
    (auto simp: binding_within_def split: BindingType.splits option.splits)

lemma btype_with_btype [simp]: "btype (with_btype b t) = t"
  by simp

lemma reassign_binding_within:
  assumes "reassign_binding ois ops uis ups b = Some b'"
  shows "binding_within (port_id ` set ups) (interface_id ` set uis) (btype b')"
  using assms
  by (auto simp: reassign_binding_def binding_within_def Let_def find_Some_iff bind_eq_Some_conv
      split: BindingType.splits option.splits)

text \<open>A service reassigned to another host passes that host's check of bindings: whatever the
  original lists, every binding it keeps refers to a port and an interface among those given for
  the new host.\<close>

theorem reassigned_service_belongs:
  "is_ok (validate_belong show_uuid (port_id ` set ups) (interface_id ` set uis)
     (svb_bindings (service_base (reassign_service_interface_bindings s ois ops h n uis ups))))"
  by (auto simp: validate_belong_iff reassign_service_interface_bindings_def set_map_filter
      intro: reassign_binding_within)

end
