(* ===== verification/Host_Types.thy ===== *)
theory Host_Types
  imports Binding_Rules
begin

text \<open>
  Hosts, groups and the requests and responses of the host API, from
  \<^verbatim>\<open>backend/src/server/hosts/impl/base.rs\<close>, \<^verbatim>\<open>virtualization.rs\<close>, \<^verbatim>\<open>api.rs\<close> and
  \<^verbatim>\<open>backend/src/server/groups/impl/base.rs\<close>.
\<close>

subsection \<open>Hosts\<close>

record ProxmoxVirtualization =
  pv_vm_name :: "string option"
  pv_vm_id :: "string option"
  pv_service_id :: uuid

datatype HostVirtualization = HostVirtualization_Proxmox ProxmoxVirtualization

record HostBase =
  hb_name :: string
  hb_network_id :: uuid
  hb_hostname :: "string option"
  hb_description :: "string option"
  hb_source :: EntitySource
  hb_virtualization :: "HostVirtualization option"
  hb_hidden :: bool
  hb_tags :: "uuid list"

record Host =
  host_id :: uuid
  host_created_at :: datetime
  host_updated_at :: datetime
  host_base :: HostBase

definition Host_new :: "uuid \<Rightarrow> datetime \<Rightarrow> HostBase \<Rightarrow> Host" where
  "Host_new new_id now b =
     \<lparr>host_id = new_id, host_created_at = now, host_updated_at = now, host_base = b\<rparr>"

definition Host_eq :: "Host \<Rightarrow> Host \<Rightarrow> bool" where
  [eq_defs]: "Host_eq a b \<longleftrightarrow> host_id a = host_id b"

definition Host_triggers_staleness :: "Host \<Rightarrow> Host option \<Rightarrow> bool" where
  "Host_triggers_staleness h other =
     (case other of
        Some o' \<Rightarrow>
          hb_hostname (host_base h) \<noteq> hb_hostname (host_base o') \<or>
          hb_virtualization (host_base h) \<noteq> hb_virtualization (host_base o') \<or>
          hb_hidden (host_base h) \<noteq> hb_hidden (host_base o')
      | None \<Rightarrow> True)"

text \<open>The merge of sources in \<open>upsert_host\<close>, with whether it counts as a change.\<close>

definition merge_host_source :: "EntitySource \<Rightarrow> EntitySource \<Rightarrow> EntitySource \<times> bool" where
  "merge_host_source existing new =
     (case (existing, new) of
        (EntitySource_Discovery existing_metadata, EntitySource_Discovery new_metadata) \<Rightarrow>
          (EntitySource_Discovery (new_metadata @ existing_metadata), True)
      | (_, EntitySource_Discovery new_metadata) \<Rightarrow> (EntitySource_Discovery new_metadata, True)
      | (existing_source, _) \<Rightarrow> (existing_source, False))"

definition merge_host :: "Host \<Rightarrow> Host \<Rightarrow> Host \<times> bool" where
  "merge_host existing_host new_host_data =
     (let b = host_base existing_host; nb = host_base new_host_data;
          set_hostname = (hb_hostname b = None \<and> hb_hostname nb \<noteq> None);
          hostname = (if set_hostname then hb_hostname nb else hb_hostname b);
          (source, set_source) = merge_host_source (hb_source b) (hb_source nb)
      in (existing_host\<lparr>host_base := b\<lparr>hb_hostname := hostname, hb_source := source\<rparr>\<rparr>,
          set_hostname \<or> set_source))"

subsection \<open>Groups\<close>

datatype GroupType = GroupType_RequestPath | GroupType_HubAndSpoke

datatype Color =
    Color_Pink | Color_Rose | Color_Red | Color_Orange | Color_Green | Color_Emerald | Color_Teal
  | Color_Cyan | Color_Blue | Color_Indigo | Color_Purple | Color_Gray | Color_Yellow

datatype EdgeStyle =
    EdgeStyle_Straight | EdgeStyle_SmoothStep | EdgeStyle_Step | EdgeStyle_Bezier
  | EdgeStyle_SimpleBezier

record GroupBase =
  gr_name :: string
  gr_network_id :: uuid
  gr_description :: "string option"
  gr_group_type :: GroupType
  gr_binding_ids :: "uuid list"
  gr_source :: EntitySource
  gr_color :: Color
  gr_edge_style :: EdgeStyle
  gr_tags :: "uuid list"

record Group =
  group_id :: uuid
  group_created_at :: datetime
  group_updated_at :: datetime
  group_base :: GroupBase

definition Group_new :: "uuid \<Rightarrow> datetime \<Rightarrow> GroupBase \<Rightarrow> Group" where
  "Group_new new_id now b =
     \<lparr>group_id = new_id, group_created_at = now, group_updated_at = now, group_base = b\<rparr>"

definition Group_triggers_staleness :: "Group \<Rightarrow> Group option \<Rightarrow> bool" where
  "Group_triggers_staleness g other =
     (case other of
        Some o' \<Rightarrow> gr_binding_ids (group_base g) \<noteq> gr_binding_ids (group_base o')
      | None \<Rightarrow> True)"

subsection \<open>Requests and responses\<close>

record CreateHostRequest =
  chr_name :: string
  chr_network_id :: uuid
  chr_hostname :: "string option"
  chr_description :: "string option"
  chr_virtualization :: "HostVirtualization option"
  chr_hidden :: bool
  chr_tags :: "uuid list"
  chr_interfaces :: "InterfaceInput list"
  chr_ports :: "PortInput list"
  chr_services :: "ServiceInput list"

record UpdateHostRequest =
  uhr_id :: uuid
  uhr_name :: string
  uhr_hostname :: "string option"
  uhr_description :: "string option"
  uhr_virtualization :: "HostVirtualization option"
  uhr_hidden :: bool
  uhr_tags :: "uuid list"
  uhr_expected_updated_at :: "datetime option"
  uhr_interfaces :: "InterfaceInput list"
  uhr_ports :: "PortInput list"
  uhr_services :: "ServiceInput list"

record HostResponse =
  hr_id :: uuid
  hr_created_at :: datetime
  hr_updated_at :: datetime
  hr_name :: string
  hr_network_id :: uuid
  hr_hostname :: "string option"
  hr_description :: "string option"
  hr_source :: EntitySource
  hr_virtualization :: "HostVirtualization option"
  hr_hidden :: bool
  hr_tags :: "uuid list"
  hr_interfaces :: "Interface list"
  hr_ports :: "Port list"
  hr_services :: "Service list"

definition HostResponse_to_host :: "HostResponse \<Rightarrow> Host" where
  "HostResponse_to_host r =
     \<lparr>host_id = hr_id r, host_created_at = hr_created_at r, host_updated_at = hr_updated_at r,
      host_base =
        \<lparr>hb_name = hr_name r, hb_network_id = hr_network_id r, hb_hostname = hr_hostname r,
         hb_description = hr_description r, hb_source = hr_source r,
         hb_virtualization = hr_virtualization r, hb_hidden = hr_hidden r, hb_tags = hr_tags r\<rparr>\<rparr>"

definition from_host_with_children ::
    "Host \<Rightarrow> Interface list \<Rightarrow> Port list \<Rightarrow> Service list \<Rightarrow> HostResponse" where
  "from_host_with_children h interfaces ports services =
     \<lparr>hr_id = host_id h, hr_created_at = host_created_at h, hr_updated_at = host_updated_at h,
      hr_name = hb_name (host_base h), hr_network_id = hb_network_id (host_base h),
      hr_hostname = hb_hostname (host_base h), hr_description = hb_description (host_base h),
      hr_source = hb_source (host_base h), hr_virtualization = hb_virtualization (host_base h),
      hr_hidden = hb_hidden (host_base h), hr_tags = hb_tags (host_base h),
      hr_interfaces = interfaces, hr_ports = ports, hr_services = services\<rparr>"

datatype ConflictBehavior = ConflictBehavior_Error | ConflictBehavior_Upsert

text \<open>The first host with an interface that equals, by MAC address, by subnet and address, or by
  identifier, one of the incoming interfaces: the loops of \<open>find_matching_host_by_interfaces\<close>.\<close>

definition find_matching_host :: "Host list \<Rightarrow> (uuid \<Rightarrow> Interface list) \<Rightarrow> Interface list
    \<Rightarrow> (Host \<times> Interface list) option" where
  "find_matching_host all_hosts interfaces_of incoming =
     map_option (\<lambda>h. (h, interfaces_of (host_id h)))
       (find (\<lambda>h. list_ex (\<lambda>i. list_ex (\<lambda>e. Interface_eq i e) (interfaces_of (host_id h))) incoming)
         all_hosts)"

subsection \<open>Properties\<close>

lemma response_round_trip:
  "HostResponse_to_host (from_host_with_children h is ps ss) = h"
  by (cases h; cases "host_base h") (simp add: HostResponse_to_host_def from_host_with_children_def)

lemma merge_host_keeps:
  "host_id (fst (merge_host e n)) = host_id e \<and>
   hb_network_id (host_base (fst (merge_host e n))) = hb_network_id (host_base e) \<and>
   hb_name (host_base (fst (merge_host e n))) = hb_name (host_base e)"
  by (simp add: merge_host_def Let_def split: prod.split)

text \<open>Merging a rediscovered host into the stored one never overwrites what is known: the stored
  identifier, network, name, description, tags and a known hostname stay, an unknown hostname is
  taken over, and the new discovery metadata is put before the stored metadata.\<close>

theorem merge_host_correct:
  "(let m = fst (merge_host e n) in
     m = e\<lparr>host_base := (host_base e)\<lparr>hb_hostname := hb_hostname (host_base m),
                                       hb_source := hb_source (host_base m)\<rparr>\<rparr> \<and>
     hb_hostname (host_base m) =
       (case hb_hostname (host_base e) of Some h \<Rightarrow> Some h | None \<Rightarrow> hb_hostname (host_base n)) \<and>
     hb_source (host_base m) =
       (case hb_source (host_base n) of
          EntitySource_Discovery md \<Rightarrow>
            EntitySource_Discovery
              (md @ (case hb_source (host_base e) of EntitySource_Discovery md' \<Rightarrow> md' | _ \<Rightarrow> []))
        | _ \<Rightarrow> hb_source (host_base e)))"
  by (auto simp: merge_host_def merge_host_source_def Let_def split: EntitySource.splits option.splits)

lemma find_matching_host_Some:
  assumes "find_matching_host hosts ifs incoming = Some (h, is)"
  shows "h \<in> set hosts \<and> is = ifs (host_id h) \<and> (\<exists>i \<in> set incoming. \<exists>e \<in> set is. Interface_eq i e)"
  using assms by (auto simp: find_matching_host_def find_Some_iff list_ex_iff)

lemma find_matching_host_None:
  "find_matching_host hosts ifs incoming = None \<longleftrightarrow>
     (\<forall>h \<in> set hosts. \<forall>i \<in> set incoming. \<forall>e \<in> set (ifs (host_id h)). \<not> Interface_eq i e)"
  by (auto simp: find_matching_host_def find_None_iff list_ex_iff)

end
