(* ===== verification/Store.thy ===== *)
theory Store
  imports Host_Types
begin

text \<open>
  The database as the services use it, and the generic operations on it:
  \<^verbatim>\<open>backend/src/server/shared/storage/generic.rs\<close> and
  \<^verbatim>\<open>backend/src/server/shared/services/traits.rs\<close>.

  \<^item> A table is the list of its rows. The constraints of the migrations that these operations meet
    are part of the model: primary keys, the unique keys of interfaces and ports, and the foreign
    keys between hosts, interfaces, ports, services, bindings and groups with their cascades.
    A violation of another foreign key (a network or subnet that does not exist) is a failed call.
  \<^item> Every statement sent to the database may fail: the \<open>n\<close>-th call fails with \<open>io_fault n\<close>, if that
    is a message. A call that fails changes no row. There are no transactions, so what an operation
    did before it failed stays.
  \<^item> An operation is a function of the environment \<open>io\<close> (faults, clock, fresh identifiers) and the
    \<open>world\<close>: the rows, the events published so far, and how many calls were made and identifiers
    drawn. A trait implementation is a record \<open>'a table\<close>.
\<close>

subsection \<open>Rows, world and environment\<close>

datatype Entity =
    Entity_Host Host | Entity_Interface Interface | Entity_Port Port | Entity_Service Service
  | Entity_Binding Binding | Entity_Group Group

record GroupBinding =
  gb_group_id :: uuid
  gb_binding_id :: uuid
  gb_position :: int

record db =
  db_hosts :: "Host list"
  db_interfaces :: "Interface list"
  db_ports :: "Port list"
  db_services :: "Service list"
  db_bindings :: "Binding list"
  db_groups :: "Group list"
  db_group_bindings :: "GroupBinding list"
  db_daemon_hosts :: "uuid list"

record world =
  w_db :: db
  w_events :: "(EntityOperation \<times> Entity \<times> bool) list"
  w_calls :: nat
  w_drawn :: nat

record io =
  io_fault :: "nat \<Rightarrow> string option"
  io_now :: "nat \<Rightarrow> datetime"
  io_fresh :: "nat \<Rightarrow> uuid"
  io_show_uuid :: "uuid \<Rightarrow> string"
  io_show_time :: "datetime \<Rightarrow> string"

type_synonym 'a action = "io \<Rightarrow> world \<Rightarrow> world \<times> ('a, anyhow_error) result"

subsection \<open>Sequencing\<close>

definition ret :: "'a \<Rightarrow> 'a action" where
  "ret x io w = (w, Ok x)"

definition raise :: "anyhow_error \<Rightarrow> 'a action" where
  "raise e io w = (w, Err e)"

text \<open>The operator \<open>?\<close>.\<close>

definition and_then_do :: "'a action \<Rightarrow> ('a \<Rightarrow> 'b action) \<Rightarrow> 'b action" where
  "and_then_do m f io w =
     (case m io w of
        (w1, Inl e) \<Rightarrow> (w1, Err e)
      | (w1, Inr x) \<Rightarrow> f x io w1)"

definition of_result :: "('a, anyhow_error) result \<Rightarrow> 'a action" where
  "of_result r = (case r of Inl e \<Rightarrow> raise e | Inr x \<Rightarrow> ret x)"

text \<open>A loop that collects its results and stops at the first error.\<close>

primrec for_each :: "('a \<Rightarrow> 'b action) \<Rightarrow> 'a list \<Rightarrow> 'b list action" where
  "for_each f [] = ret []"
| "for_each f (x # xs) =
     and_then_do (f x) (\<lambda>y. and_then_do (for_each f xs) (\<lambda>ys. ret (y # ys)))"

text \<open>A loop with local variables \<open>s\<close>.\<close>

primrec loop :: "('s \<Rightarrow> 'a \<Rightarrow> 's action) \<Rightarrow> 's \<Rightarrow> 'a list \<Rightarrow> 's action" where
  "loop f s [] = ret s"
| "loop f s (x # xs) = and_then_do (f s x) (\<lambda>s'. loop f s' xs)"

definition env :: "(io \<Rightarrow> 'a) \<Rightarrow> 'a action" where
  "env f io w = (w, Ok (f io))"

definition now :: "datetime action" where
  "now io w = (w, Ok (io_now io (w_calls w)))"

definition fresh_id :: "uuid action" where
  "fresh_id io w = (w\<lparr>w_drawn := Suc (w_drawn w)\<rparr>, Ok (io_fresh io (w_drawn w)))"

text \<open>One statement sent to the database.\<close>

definition call :: "(db \<Rightarrow> db \<times> ('a, anyhow_error) result) \<Rightarrow> 'a action" where
  "call f io w =
     (let w1 = w\<lparr>w_calls := Suc (w_calls w)\<rparr>
      in case io_fault io (w_calls w) of
           Some e \<Rightarrow> (w1, Err (OtherError e))
         | None \<Rightarrow> (case f (w_db w) of (d, r) \<Rightarrow> (w1\<lparr>w_db := d\<rparr>, r)))"

definition query :: "(db \<Rightarrow> 'a) \<Rightarrow> 'a action" where
  "query f = call (\<lambda>d. (d, Ok (f d)))"

definition publish :: "EntityOperation \<Rightarrow> Entity \<Rightarrow> bool \<Rightarrow> unit action" where
  "publish operation e trigger_stale io w =
     (w\<lparr>w_events := w_events w @ [(operation, e, trigger_stale)]\<rparr>, Ok ())"

subsection \<open>Tables\<close>

record 'a "table" =
  tb_name :: string
  tb_id :: "'a \<Rightarrow> uuid"
  tb_set_id :: "uuid \<Rightarrow> 'a \<Rightarrow> 'a"
  tb_created_at :: "'a \<Rightarrow> datetime"
  tb_set_created_at :: "datetime \<Rightarrow> 'a \<Rightarrow> 'a"
  tb_set_updated_at :: "datetime \<Rightarrow> 'a \<Rightarrow> 'a"
  tb_renew :: "uuid \<Rightarrow> datetime \<Rightarrow> 'a \<Rightarrow> 'a"
  tb_rows :: "db \<Rightarrow> 'a list"
  tb_put :: "'a list \<Rightarrow> db \<Rightarrow> db"
  tb_store :: "'a \<Rightarrow> 'a"
  tb_unique :: "'a \<Rightarrow> 'a \<Rightarrow> string option"
  tb_refs :: "db \<Rightarrow> 'a \<Rightarrow> bool"
  tb_entity :: "'a \<Rightarrow> Entity"
  tb_stale :: "'a \<Rightarrow> 'a option \<Rightarrow> bool"
  tb_display :: "(uuid \<Rightarrow> string) \<Rightarrow> 'a \<Rightarrow> string"

definition friendly_unique_violation_message :: "string option \<Rightarrow> string" where
  "friendly_unique_violation_message constraint =
     (case constraint of
        Some c \<Rightarrow>
          if str_contains c ''ports'' then
            ''A port with this number and protocol already exists on this host''
          else if str_contains c ''interfaces'' then
            ''An interface with this IP address already exists on this host''
          else if str_contains c ''tags'' then ''A tag with this name already exists''
          else if str_contains c ''group_bindings'' then ''This binding already exists in the group''
          else if str_contains c ''user_network_access'' then
            ''This user already has access to this network''
          else if str_contains c ''users'' \<and> str_contains c ''email'' then
            ''A user with this email already exists''
          else if str_contains c ''users'' \<and> str_contains c ''name'' then
            ''A user with this name already exists''
          else if str_contains c ''users'' \<and> str_contains c ''oidc'' then
            ''This identity provider account is already linked to another user''
          else if str_contains c ''api_keys'' then ''This API key already exists''
          else ''A record with these values already exists ('' @ c @ '')''
      | None \<Rightarrow> ''A record with these values already exists'')"

text \<open>The constraint that a row violates beside the rows of the table, and the cascades of the
  foreign keys.\<close>

definition unique_violation :: "'a table \<Rightarrow> 'a list \<Rightarrow> 'a \<Rightarrow> string option" where
  "unique_violation T rows x =
     (if tb_id T x \<in> tb_id T ` set rows then Some (tb_name T @ ''_pkey'')
      else case List.map_filter (\<lambda>r. tb_unique T r x) rows of c # _ \<Rightarrow> Some c | [] \<Rightarrow> None)"

definition cascade :: "db \<Rightarrow> db" where
  "cascade d =
     (let hosts = set (map host_id (db_hosts d));
          interfaces = filter (\<lambda>i. ib_host_id (interface_base i) \<in> hosts) (db_interfaces d);
          ports = filter (\<lambda>p. pb_host_id (port_base p) \<in> hosts) (db_ports d);
          services = filter (\<lambda>s. svb_host_id (service_base s) \<in> hosts) (db_services d);
          bindings =
            filter (\<lambda>b. bb_service_id (binding_base b) \<in> set (map service_id services) \<and>
                        binding_within (set (map port_id ports)) (set (map interface_id interfaces))
                          (btype b)) (db_bindings d);
          group_bindings =
            filter (\<lambda>g. gb_group_id g \<in> set (map group_id (db_groups d)) \<and>
                        gb_binding_id g \<in> set (map binding_id bindings)) (db_group_bindings d)
      in d\<lparr>db_interfaces := interfaces, db_ports := ports, db_services := services,
           db_bindings := bindings, db_group_bindings := group_bindings\<rparr>)"

subsection \<open>Generic storage\<close>

definition storage_create :: "'a table \<Rightarrow> 'a \<Rightarrow> 'a action" where
  "storage_create T x =
     call (\<lambda>d.
       case unique_violation T (tb_rows T d) x of
         Some c \<Rightarrow> (d, Err (ValidationError (friendly_unique_violation_message (Some c))))
       | None \<Rightarrow>
           if \<not> tb_refs T d x then (d, Err (OtherError ''violates foreign key constraint''))
           else (tb_put T (tb_rows T d @ [tb_store T x]) d, Ok x))"

definition storage_get_by_id :: "'a table \<Rightarrow> uuid \<Rightarrow> 'a option action" where
  "storage_get_by_id T i = query (\<lambda>d. find (\<lambda>r. tb_id T r = i) (tb_rows T d))"

definition storage_get_all_ordered ::
    "'a table \<Rightarrow> ('a \<Rightarrow> bool) \<Rightarrow> ('a \<Rightarrow> 'k::linorder) \<Rightarrow> 'a list action" where
  "storage_get_all_ordered T filter0 order_by =
     query (\<lambda>d. sort_key order_by (filter filter0 (tb_rows T d)))"

definition storage_get_all :: "'a table \<Rightarrow> ('a \<Rightarrow> bool) \<Rightarrow> 'a list action" where
  "storage_get_all T filter0 = storage_get_all_ordered T filter0 (tb_created_at T)"

text \<open>The result is the entity with its new time of update, as the caller's variable has it.\<close>

definition storage_update :: "'a table \<Rightarrow> 'a \<Rightarrow> 'a action" where
  "storage_update T x =
     and_then_do now (\<lambda>t.
       let x' = tb_set_updated_at T t x
       in call (\<lambda>d.
            let others = filter (\<lambda>r. tb_id T r \<noteq> tb_id T x') (tb_rows T d)
            in if tb_id T x' \<notin> tb_id T ` set (tb_rows T d) then (d, Ok x')
               else if unique_violation T others x' \<noteq> None
               then (d, Err (OtherError ''violates unique constraint''))
               else if \<not> tb_refs T d x'
               then (d, Err (OtherError ''violates foreign key constraint''))
               else (tb_put T (map (\<lambda>r. if tb_id T r = tb_id T x' then tb_store T x' else r)
                                 (tb_rows T d)) d, Ok x')))"

definition storage_delete :: "'a table \<Rightarrow> uuid \<Rightarrow> unit action" where
  "storage_delete T i =
     call (\<lambda>d. (cascade (tb_put T (filter (\<lambda>r. tb_id T r \<noteq> i) (tb_rows T d)) d), Ok ()))"

definition storage_delete_many :: "'a table \<Rightarrow> uuid list \<Rightarrow> nat action" where
  "storage_delete_many T ids =
     (if ids = [] then ret 0
      else call (\<lambda>d.
        (cascade (tb_put T (filter (\<lambda>r. tb_id T r \<notin> set ids) (tb_rows T d)) d),
         Ok (length (filter (\<lambda>r. tb_id T r \<in> set ids) (tb_rows T d))))))"

subsection \<open>Generic services\<close>

text \<open>The default methods of \<open>CrudService\<close>.\<close>

definition ensure_id :: "'a table \<Rightarrow> 'a \<Rightarrow> 'a action" where
  "ensure_id T x =
     (if tb_id T x = uuid_nil
      then and_then_do fresh_id (\<lambda>i. and_then_do now (\<lambda>t. ret (tb_renew T i t x)))
      else ret x)"

definition crud_create :: "'a table \<Rightarrow> 'a \<Rightarrow> 'a action" where
  "crud_create T x =
     and_then_do (ensure_id T x) (\<lambda>x1.
     and_then_do (storage_create T x1) (\<lambda>created.
     and_then_do (publish EntityOperation_Created (tb_entity T created) (tb_stale T created None))
       (\<lambda>_. ret created)))"

definition crud_update :: "'a table \<Rightarrow> 'a \<Rightarrow> 'a action" where
  "crud_update T x =
     and_then_do (storage_get_by_id T (tb_id T x)) (\<lambda>found.
       case found of
         None \<Rightarrow>
           and_then_do (env io_show_uuid) (\<lambda>sh.
             raise (OtherError (''Could not find '' @ tb_display T sh x)))
       | Some current \<Rightarrow>
           and_then_do (storage_update T x) (\<lambda>updated.
           and_then_do (publish EntityOperation_Updated (tb_entity T updated)
                          (tb_stale T updated (Some current)))
             (\<lambda>_. ret updated)))"

definition crud_delete :: "'a table \<Rightarrow> uuid \<Rightarrow> unit action" where
  "crud_delete T i =
     and_then_do (storage_get_by_id T i) (\<lambda>found.
       case found of
         Some e \<Rightarrow>
           and_then_do (storage_delete T i) (\<lambda>_.
             publish EntityOperation_Deleted (tb_entity T e) (tb_stale T e None))
       | None \<Rightarrow>
           and_then_do (env io_show_uuid) (\<lambda>sh.
             raise (OtherError (tb_name T @ '' with id '' @ sh i @ '' not found''))))"

definition publish_deleted :: "'a table \<Rightarrow> uuid \<Rightarrow> unit action" where
  "publish_deleted T i =
     and_then_do (storage_get_by_id T i) (\<lambda>found.
       case found of
         Some e \<Rightarrow> publish EntityOperation_Deleted (tb_entity T e) (tb_stale T e None)
       | None \<Rightarrow> ret ())"

definition crud_delete_many :: "'a table \<Rightarrow> uuid list \<Rightarrow> nat action" where
  "crud_delete_many T ids =
     (if ids = [] then ret 0
      else and_then_do (for_each (publish_deleted T) ids) (\<lambda>_. storage_delete_many T ids))"

text \<open>\<open>ChildCrudService\<close>; \<open>parent\<close> gives the parent of a child. The set of children to delete is
  iterated in the order of their rows.\<close>

definition get_for_parent :: "'a table \<Rightarrow> ('a \<Rightarrow> uuid) \<Rightarrow> uuid \<Rightarrow> 'a list action" where
  "get_for_parent T parent i = storage_get_all T (\<lambda>r. parent r = i)"

definition save_child :: "'a table \<Rightarrow> 'a list \<Rightarrow> 'a \<Rightarrow> 'a action" where
  "save_child T existing child =
     (if tb_id T child = uuid_nil
      then and_then_do fresh_id (\<lambda>i. crud_create T (tb_set_id T i child))
      else case find (\<lambda>e. tb_id T e = tb_id T child) existing of
             Some e \<Rightarrow> crud_update T (tb_set_created_at T (tb_created_at T e) child)
           | None \<Rightarrow> crud_create T child)"

definition save_for_parent ::
    "'a table \<Rightarrow> ('a \<Rightarrow> uuid) \<Rightarrow> uuid \<Rightarrow> 'a list \<Rightarrow> 'a list action" where
  "save_for_parent T parent parent_id children =
     and_then_do (get_for_parent T parent parent_id) (\<lambda>existing.
       let new_ids = map (tb_id T) (filter (\<lambda>c. tb_id T c \<noteq> uuid_nil) children);
           ids_to_delete = filter (\<lambda>i. i \<notin> set new_ids) (map (tb_id T) existing)
       in and_then_do
            (if ids_to_delete = [] then ret 0 else crud_delete_many T ids_to_delete)
            (\<lambda>_. for_each (save_child T existing) children))"

subsection \<open>The tables\<close>

definition host_table :: "Host table" where
  "host_table =
     \<lparr>tb_name = ''hosts'', tb_id = host_id, tb_set_id = (\<lambda>i h. h\<lparr>host_id := i\<rparr>),
      tb_created_at = host_created_at, tb_set_created_at = (\<lambda>t h. h\<lparr>host_created_at := t\<rparr>),
      tb_set_updated_at = (\<lambda>t h. h\<lparr>host_updated_at := t\<rparr>),
      tb_renew = (\<lambda>i t h. Host_new i t (host_base h)),
      tb_rows = db_hosts, tb_put = (\<lambda>xs d. d\<lparr>db_hosts := xs\<rparr>), tb_store = (\<lambda>h. h),
      tb_unique = (\<lambda>_ _. None), tb_refs = (\<lambda>_ _. True),
      tb_entity = Entity_Host, tb_stale = Host_triggers_staleness,
      tb_display = (\<lambda>sh h. [CHR 0x22] @ hb_name (host_base h) @ [CHR 0x22] @ '': '' @ sh (host_id h))\<rparr>"

definition interface_unique :: "Interface \<Rightarrow> Interface \<Rightarrow> string option" where
  "interface_unique a b =
     (if ib_host_id (interface_base a) = ib_host_id (interface_base b) \<and>
         ib_subnet_id (interface_base a) = ib_subnet_id (interface_base b) \<and>
         ib_ip_address (interface_base a) = ib_ip_address (interface_base b)
      then Some ''interfaces_host_id_subnet_id_ip_address_key'' else None)"

definition interface_table :: "Interface table" where
  "interface_table =
     \<lparr>tb_name = ''interfaces'', tb_id = interface_id,
      tb_set_id = (\<lambda>i x. x\<lparr>interface_id := i\<rparr>),
      tb_created_at = interface_created_at,
      tb_set_created_at = (\<lambda>t x. x\<lparr>interface_created_at := t\<rparr>),
      tb_set_updated_at = (\<lambda>t x. x\<lparr>interface_updated_at := t\<rparr>),
      tb_renew = (\<lambda>i t x. Interface_new i t (interface_base x)),
      tb_rows = db_interfaces, tb_put = (\<lambda>xs d. d\<lparr>db_interfaces := xs\<rparr>), tb_store = (\<lambda>x. x),
      tb_unique = interface_unique,
      tb_refs = (\<lambda>d x. ib_host_id (interface_base x) \<in> set (map host_id (db_hosts d))),
      tb_entity = Entity_Interface, tb_stale = Interface_triggers_staleness,
      tb_display = (\<lambda>sh x. ''Interface '' @ sh (interface_id x) @ '': '' @
        IpAddr_display (ib_ip_address (interface_base x)) @ '' on subnet '' @
        sh (ib_subnet_id (interface_base x)))\<rparr>"

definition port_unique :: "Port \<Rightarrow> Port \<Rightarrow> string option" where
  "port_unique a b =
     (if pb_host_id (port_base a) = pb_host_id (port_base b) \<and>
         PortType_eq (pb_port_type (port_base a)) (pb_port_type (port_base b))
      then Some ''ports_host_id_port_number_protocol_key'' else None)"

text \<open>A port is read back with its type normalised.\<close>

definition port_store :: "Port \<Rightarrow> Port" where
  "port_store p =
     p\<lparr>port_base := (port_base p)\<lparr>pb_port_type :=
       PortType_of_config (PortType_number (pb_port_type (port_base p)))
                          (PortType_protocol (pb_port_type (port_base p)))\<rparr>\<rparr>"

definition port_table :: "Port table" where
  "port_table =
     \<lparr>tb_name = ''ports'', tb_id = port_id, tb_set_id = (\<lambda>i x. x\<lparr>port_id := i\<rparr>),
      tb_created_at = port_created_at, tb_set_created_at = (\<lambda>t x. x\<lparr>port_created_at := t\<rparr>),
      tb_set_updated_at = (\<lambda>t x. x\<lparr>port_updated_at := t\<rparr>),
      tb_renew = (\<lambda>i t x. Port_new i t (port_base x)),
      tb_rows = db_ports, tb_put = (\<lambda>xs d. d\<lparr>db_ports := xs\<rparr>), tb_store = port_store,
      tb_unique = port_unique,
      tb_refs = (\<lambda>d x. pb_host_id (port_base x) \<in> set (map host_id (db_hosts d))),
      tb_entity = Entity_Port, tb_stale = Port_triggers_staleness,
      tb_display = (\<lambda>sh x. PortType_display (pb_port_type (port_base x)) @ '' (ID: '' @
        sh (port_id x) @ '')'')\<rparr>"

abbreviation with_bindings :: "Service \<Rightarrow> Binding list \<Rightarrow> Service" where
  "with_bindings s bs \<equiv> s\<lparr>service_base := (service_base s)\<lparr>svb_bindings := bs\<rparr>\<rparr>"

definition service_table :: "Service table" where
  "service_table =
     \<lparr>tb_name = ''services'', tb_id = service_id, tb_set_id = (\<lambda>i x. x\<lparr>service_id := i\<rparr>),
      tb_created_at = service_created_at,
      tb_set_created_at = (\<lambda>t x. x\<lparr>service_created_at := t\<rparr>),
      tb_set_updated_at = (\<lambda>t x. x\<lparr>service_updated_at := t\<rparr>),
      tb_renew = (\<lambda>i t x. Service_new i t (service_base x)),
      tb_rows = db_services, tb_put = (\<lambda>xs d. d\<lparr>db_services := xs\<rparr>),
      tb_store = (\<lambda>s. with_bindings s []),
      tb_unique = (\<lambda>_ _. None),
      tb_refs = (\<lambda>d x. svb_host_id (service_base x) \<in> set (map host_id (db_hosts d))),
      tb_entity = Entity_Service, tb_stale = Service_triggers_staleness,
      tb_display = (\<lambda>sh x. [CHR 0x22] @ svb_name (service_base x) @ [CHR 0x22] @ '': '' @
        sh (service_id x))\<rparr>"

definition binding_refs :: "db \<Rightarrow> Binding \<Rightarrow> bool" where
  "binding_refs d b \<longleftrightarrow>
     bb_service_id (binding_base b) \<in> set (map service_id (db_services d)) \<and>
     binding_within (set (map port_id (db_ports d))) (set (map interface_id (db_interfaces d)))
       (btype b)"

definition Binding_display :: "(uuid \<Rightarrow> string) \<Rightarrow> Binding \<Rightarrow> string" where
  "Binding_display sh b =
     (case btype b of
        BindingType_Interface i \<Rightarrow> ''Interface binding '' @ sh (binding_id b) @ '' -> '' @ sh i
      | BindingType_Port p (Some i) \<Rightarrow>
          ''Port binding '' @ sh (binding_id b) @ '' -> '' @ sh p @ '' (interface '' @ sh i @ '')''
      | BindingType_Port p None \<Rightarrow>
          ''Port binding '' @ sh (binding_id b) @ '' -> '' @ sh p @ '' (all interfaces)'')"

definition binding_table :: "Binding table" where
  "binding_table =
     \<lparr>tb_name = ''bindings'', tb_id = binding_id, tb_set_id = (\<lambda>i x. x\<lparr>binding_id := i\<rparr>),
      tb_created_at = binding_created_at,
      tb_set_created_at = (\<lambda>t x. x\<lparr>binding_created_at := t\<rparr>),
      tb_set_updated_at = (\<lambda>t x. x\<lparr>binding_updated_at := t\<rparr>),
      tb_renew = (\<lambda>i t x. Binding_new i t (binding_base x)),
      tb_rows = db_bindings, tb_put = (\<lambda>xs d. d\<lparr>db_bindings := xs\<rparr>), tb_store = (\<lambda>x. x),
      tb_unique = (\<lambda>_ _. None), tb_refs = binding_refs,
      tb_entity = Entity_Binding, tb_stale = Binding_triggers_staleness,
      tb_display = Binding_display\<rparr>"

definition group_table :: "Group table" where
  "group_table =
     \<lparr>tb_name = ''groups'', tb_id = group_id, tb_set_id = (\<lambda>i x. x\<lparr>group_id := i\<rparr>),
      tb_created_at = group_created_at, tb_set_created_at = (\<lambda>t x. x\<lparr>group_created_at := t\<rparr>),
      tb_set_updated_at = (\<lambda>t x. x\<lparr>group_updated_at := t\<rparr>),
      tb_renew = (\<lambda>i t x. Group_new i t (group_base x)),
      tb_rows = db_groups, tb_put = (\<lambda>xs d. d\<lparr>db_groups := xs\<rparr>),
      tb_store = (\<lambda>g. g\<lparr>group_base := (group_base g)\<lparr>gr_binding_ids := []\<rparr>\<rparr>),
      tb_unique = (\<lambda>_ _. None), tb_refs = (\<lambda>_ _. True),
      tb_entity = Entity_Group, tb_stale = Group_triggers_staleness,
      tb_display = (\<lambda>sh x. ''Group '' @ gr_name (group_base x) @ '': '' @ sh (group_id x))\<rparr>"

subsection \<open>Reasoning about actions\<close>

text \<open>
  \<open>triple I P m Q\<close>: from rows with the invariant \<open>I\<close> and \<open>P\<close>, the action \<open>m\<close> keeps \<open>I\<close> whether it
  succeeds or fails, whatever the environment, and establishes \<open>Q\<close> of its result if it succeeds.
  Predicates are on rows only, so that events, counters and the clock never matter.
\<close>

definition triple ::
    "(db \<Rightarrow> bool) \<Rightarrow> (db \<Rightarrow> bool) \<Rightarrow> 'a action \<Rightarrow> ('a \<Rightarrow> db \<Rightarrow> bool) \<Rightarrow> bool" where
  "triple I P m Q \<longleftrightarrow>
     (\<forall>io w. I (w_db w) \<longrightarrow> P (w_db w) \<longrightarrow>
        I (w_db (fst (m io w))) \<and>
        (\<forall>x. snd (m io w) = Inr x \<longrightarrow> Q x (w_db (fst (m io w)))))"

named_theorems triple_rules

lemma tripleD:
  assumes "triple I P m Q" "I (w_db w)" "P (w_db w)"
  shows "I (w_db (fst (m io w)))" and "snd (m io w) = Inr x \<Longrightarrow> Q x (w_db (fst (m io w)))"
  using assms by (auto simp: triple_def)

lemma triple_conseq:
  assumes "triple I P' m Q'" "\<And>d. I d \<Longrightarrow> P d \<Longrightarrow> P' d" "\<And>x d. I d \<Longrightarrow> Q' x d \<Longrightarrow> Q x d"
  shows "triple I P m Q"
  using assms unfolding triple_def by blast

lemmas triple_weaken = triple_conseq [OF _ _ asm_rl]
lemmas triple_strengthen = triple_conseq [OF _ asm_rl]

lemma triple_pre: "(\<And>d. P d \<Longrightarrow> triple I (\<lambda>e. e = d) m Q) \<Longrightarrow> triple I P m Q"
  unfolding triple_def by blast

lemma triple_ret: "(\<And>d. I d \<Longrightarrow> P d \<Longrightarrow> Q x d) \<Longrightarrow> triple I P (ret x) Q"
  by (simp add: triple_def ret_def)

lemma triple_raise [triple_rules]: "triple I P (raise e) Q"
  by (simp add: triple_def raise_def)

lemma triple_bind:
  assumes "triple I P m R" "\<And>x. triple I (R x) (f x) Q"
  shows "triple I P (and_then_do m f) Q"
  unfolding triple_def
proof (intro allI impI conjI)
  fix io :: io and w :: world assume w: "I (w_db w)" "P (w_db w)"
  note m = tripleD [OF assms(1) w, of io]
  show "I (w_db (fst (and_then_do m f io w)))"
    using m tripleD(1) [OF assms(2)]
    by (cases "m io w") (auto simp: and_then_do_def split: sum.split)
  show "Q x (w_db (fst (and_then_do m f io w)))" if "snd (and_then_do m f io w) = Inr x" for x
    using m that tripleD(2) [OF assms(2)]
    by (cases "m io w") (auto simp: and_then_do_def split: sum.splits)
qed

lemma triple_of_result:
  "(\<And>x d. r = Inr x \<Longrightarrow> I d \<Longrightarrow> P d \<Longrightarrow> Q x d) \<Longrightarrow> triple I P (of_result r) Q"
  by (cases r) (auto simp: of_result_def intro: triple_ret triple_raise)

lemma triple_env: "(\<And>x d. I d \<Longrightarrow> P d \<Longrightarrow> Q x d) \<Longrightarrow> triple I P (env f) Q"
  by (simp add: triple_def env_def)

lemma triple_now: "(\<And>x d. I d \<Longrightarrow> P d \<Longrightarrow> Q x d) \<Longrightarrow> triple I P now Q"
  by (simp add: triple_def now_def)

lemma triple_fresh_id: "(\<And>x d. I d \<Longrightarrow> P d \<Longrightarrow> Q x d) \<Longrightarrow> triple I P fresh_id Q"
  by (simp add: triple_def fresh_id_def)

lemma triple_publish: "(\<And>d. I d \<Longrightarrow> P d \<Longrightarrow> Q () d) \<Longrightarrow> triple I P (publish opn e st) Q"
  by (simp add: triple_def publish_def)

lemma triple_call:
  assumes "\<And>d d' r. f d = (d', r) \<Longrightarrow> I d \<Longrightarrow> P d \<Longrightarrow> I d' \<and> (\<forall>x. r = Inr x \<longrightarrow> Q x d')"
  shows "triple I P (call f) Q"
  unfolding triple_def
proof (intro allI impI)
  fix io :: io and w :: world assume "I (w_db w)" "P (w_db w)"
  then show "I (w_db (fst (call f io w))) \<and>
      (\<forall>x. snd (call f io w) = Inr x \<longrightarrow> Q x (w_db (fst (call f io w))))"
    using assms by (cases "f (w_db w)") (auto simp: call_def Let_def split: option.split)
qed

lemma triple_query: "(\<And>d. I d \<Longrightarrow> P d \<Longrightarrow> Q (f d) d) \<Longrightarrow> triple I P (query f) Q"
  unfolding query_def by (rule triple_call) auto

lemma triple_if:
  "(c \<Longrightarrow> triple I P m Q) \<Longrightarrow> (\<not> c \<Longrightarrow> triple I P n Q) \<Longrightarrow> triple I P (if c then m else n) Q"
  by simp

lemma triple_option:
  "(x = None \<Longrightarrow> triple I P m Q) \<Longrightarrow> (\<And>y. x = Some y \<Longrightarrow> triple I P (f y) Q) \<Longrightarrow>
     triple I P (case x of None \<Rightarrow> m | Some y \<Rightarrow> f y) Q"
  by (cases x) auto

lemma triple_for_each:
  assumes "\<And>x. x \<in> set xs \<Longrightarrow> triple I P (f x) (\<lambda>_. P)"
  shows "triple I P (for_each f xs) (\<lambda>_. P)"
  using assms
proof (induction xs)
  case (Cons x xs)
  show ?case unfolding for_each.simps
    by (rule triple_bind [where R = "\<lambda>_. P"], use Cons.prems in simp)
      (rule triple_bind [where R = "\<lambda>_. P"], use Cons in simp, rule triple_ret)
qed (simp add: triple_ret)

lemma triple_loop:
  assumes "\<And>s x. x \<in> set xs \<Longrightarrow> triple I (J s) (f s x) J"
  shows "triple I (J s) (loop f s xs) J"
  using assms
proof (induction xs arbitrary: s)
  case (Cons x xs)
  show ?case unfolding loop.simps
    by (rule triple_bind [where R = J]) (use Cons in simp_all)
qed (simp add: triple_ret)

subsection \<open>Rules for storage\<close>

lemma triple_storage_create:
  assumes "\<And>d. I d \<Longrightarrow> P d \<Longrightarrow> unique_violation T (tb_rows T d) x = None \<Longrightarrow> tb_refs T d x \<Longrightarrow>
      I (tb_put T (tb_rows T d @ [tb_store T x]) d) \<and>
      Q x (tb_put T (tb_rows T d @ [tb_store T x]) d)"
  shows "triple I P (storage_create T x) Q"
  unfolding storage_create_def
  by (rule triple_call) (auto simp: assms split: option.splits if_splits)

lemma triple_storage_get_by_id:
  "(\<And>d. I d \<Longrightarrow> P d \<Longrightarrow> Q (find (\<lambda>r. tb_id T r = i) (tb_rows T d)) d) \<Longrightarrow>
     triple I P (storage_get_by_id T i) Q"
  unfolding storage_get_by_id_def by (rule triple_query)

lemma triple_storage_get_all_ordered:
  "(\<And>d. I d \<Longrightarrow> P d \<Longrightarrow> Q (sort_key k (filter f (tb_rows T d))) d) \<Longrightarrow>
     triple I P (storage_get_all_ordered T f k) Q"
  unfolding storage_get_all_ordered_def by (rule triple_query)

lemma triple_storage_get_all:
  "(\<And>d. I d \<Longrightarrow> P d \<Longrightarrow> Q (sort_key (tb_created_at T) (filter f (tb_rows T d))) d) \<Longrightarrow>
     triple I P (storage_get_all T f) Q"
  unfolding storage_get_all_def by (rule triple_storage_get_all_ordered)

definition updated_rows :: "'a table \<Rightarrow> 'a \<Rightarrow> db \<Rightarrow> db" where
  "updated_rows T x d =
     tb_put T (map (\<lambda>r. if tb_id T r = tb_id T x then tb_store T x else r) (tb_rows T d)) d"

lemma triple_storage_update:
  assumes "\<And>d t. I d \<Longrightarrow> P d \<Longrightarrow> tb_id T (tb_set_updated_at T t x) \<notin> tb_id T ` set (tb_rows T d) \<Longrightarrow>
        Q (tb_set_updated_at T t x) d"
    and "\<And>d t x'. I d \<Longrightarrow> P d \<Longrightarrow> x' = tb_set_updated_at T t x \<Longrightarrow>
        tb_id T x' \<in> tb_id T ` set (tb_rows T d) \<Longrightarrow>
        unique_violation T (filter (\<lambda>r. tb_id T r \<noteq> tb_id T x') (tb_rows T d)) x' = None \<Longrightarrow>
        tb_refs T d x' \<Longrightarrow> I (updated_rows T x' d) \<and> Q x' (updated_rows T x' d)"
  shows "triple I P (storage_update T x) Q"
  unfolding storage_update_def
  by (rule triple_bind [where R = "\<lambda>_. P"], rule triple_now, assumption, unfold Let_def, rule triple_call)
    (use assms in \<open>auto simp: updated_rows_def split: if_splits\<close>)

lemma triple_storage_delete:
  assumes "\<And>d. I d \<Longrightarrow> P d \<Longrightarrow>
      I (cascade (tb_put T (filter (\<lambda>r. tb_id T r \<noteq> i) (tb_rows T d)) d)) \<and>
      Q () (cascade (tb_put T (filter (\<lambda>r. tb_id T r \<noteq> i) (tb_rows T d)) d))"
  shows "triple I P (storage_delete T i) Q"
  unfolding storage_delete_def by (rule triple_call) (use assms in auto)

lemma triple_storage_delete_many:
  assumes "\<And>d. I d \<Longrightarrow> P d \<Longrightarrow>
      I (cascade (tb_put T (filter (\<lambda>r. tb_id T r \<notin> set ids) (tb_rows T d)) d)) \<and>
      (\<forall>n. Q n (cascade (tb_put T (filter (\<lambda>r. tb_id T r \<notin> set ids) (tb_rows T d)) d)))"
    and "\<And>d. I d \<Longrightarrow> P d \<Longrightarrow> ids = [] \<Longrightarrow> Q 0 d"
  shows "triple I P (storage_delete_many T ids) Q"
  unfolding storage_delete_many_def
  by (rule triple_if, rule triple_ret, simp add: assms(2), rule triple_call) (use assms(1) in auto)

text \<open>Actions that write no row of the tables in \<open>core\<close> keep every predicate on them.\<close>

definition core :: "db \<Rightarrow> Host list \<times> Interface list \<times> Port list \<times> Service list \<times> Binding list" where
  "core d = (db_hosts d, db_interfaces d, db_ports d, db_services d, db_bindings d)"

definition on_core :: "(db \<Rightarrow> bool) \<Rightarrow> bool" where
  "on_core P \<longleftrightarrow> (\<forall>d d'. core d = core d' \<longrightarrow> P d \<longrightarrow> P d')"

abbreviation keeps_core :: "'a action \<Rightarrow> bool" where
  "keeps_core m \<equiv> (\<forall>c. triple (\<lambda>d. core d = c) (\<lambda>_. True) m (\<lambda>_ _. True))"

lemma triple_keeps_core:
  assumes "keeps_core m" "on_core I" "on_core P"
  shows "triple I P m (\<lambda>_. P)"
  unfolding triple_def
proof (intro allI impI conjI)
  fix io :: io and w :: world
  assume w: "I (w_db w)" "P (w_db w)"
  have "triple (\<lambda>d. core d = core (w_db w)) (\<lambda>_. True) m (\<lambda>_ _. True)"
    using assms(1) by blast
  from tripleD(1) [OF this refl TrueI]
  have c: "core (w_db w) = core (w_db (fst (m io w)))" by simp
  show "I (w_db (fst (m io w)))" using assms(2) w(1) c unfolding on_core_def by blast
  show "P (w_db (fst (m io w)))" if "snd (m io w) = Inr x" for x
    using assms(3) w(2) c unfolding on_core_def by blast
qed

lemma keeps_core_bind:
  "keeps_core m \<Longrightarrow> (\<And>x. keeps_core (f x)) \<Longrightarrow> keeps_core (and_then_do m f)"
  by (blast intro: triple_bind [where R = "\<lambda>_ _. True"])

lemma keeps_core_for_each: "(\<And>x. keeps_core (f x)) \<Longrightarrow> keeps_core (for_each f xs)"
proof (intro allI)
  fix c assume "\<And>x. keeps_core (f x)"
  then show "triple (\<lambda>d. core d = c) (\<lambda>_. True) (for_each f xs) (\<lambda>_ _. True)"
    by (intro triple_for_each) blast
qed

lemma keeps_core_simple:
  "keeps_core (ret x)" "keeps_core (raise e)" "keeps_core (query f)" "keeps_core now"
  "keeps_core fresh_id" "keeps_core (publish opn ent st)" "keeps_core (env g)"
  by (auto intro: triple_ret triple_raise triple_query triple_now triple_fresh_id triple_publish triple_env)

lemma keeps_core_call:
  "(\<And>d d' r. f d = (d', r) \<Longrightarrow> core d' = core d) \<Longrightarrow> keeps_core (call f)"
  by (intro allI triple_call) simp

lemmas keeps_core_rules = keeps_core_bind keeps_core_for_each keeps_core_simple

lemma keeps_core_reads:
  "keeps_core (storage_get_by_id T i)" "keeps_core (storage_get_all_ordered T f k)"
  "keeps_core (storage_get_all T f)" "keeps_core (get_for_parent T p i)"
  unfolding storage_get_by_id_def storage_get_all_def storage_get_all_ordered_def get_for_parent_def
  by (rule keeps_core_simple)+

subsection \<open>What a table implementation promises\<close>

lemma find_appended: "\<forall>r \<in> set rows. \<not> p r \<Longrightarrow> p y \<Longrightarrow> find p (rows @ [y]) = Some y"
  by (induction rows) auto

locale stored_table =
  fixes T :: "'a table"
  assumes rows_put: "tb_rows T (tb_put T xs d) = xs"
    and id_store: "tb_id T (tb_store T x) = tb_id T x"
    and id_set_id: "tb_id T (tb_set_id T i x) = i"
    and id_set_created_at: "tb_id T (tb_set_created_at T t x) = tb_id T x"
    and id_set_updated_at: "tb_id T (tb_set_updated_at T t x) = tb_id T x"
    and id_renew: "tb_id T (tb_renew T i t x) = i"
begin

lemma distinct_inserted:
  "distinct (map (tb_id T) rows) \<Longrightarrow> unique_violation T rows x = None \<Longrightarrow>
     distinct (map (tb_id T) (rows @ [tb_store T x]))"
  by (auto simp: unique_violation_def id_store split: if_splits)

lemma ids_updated:
  "map (tb_id T) (map (\<lambda>r. if tb_id T r = tb_id T x then tb_store T x else r) rows) =
     map (tb_id T) rows"
  by (simp add: id_store)

lemma rows_updated [simp]:
  "tb_rows T (updated_rows T x d) =
     map (\<lambda>r. if tb_id T r = tb_id T x then tb_store T x else r) (tb_rows T d)"
  by (simp add: updated_rows_def rows_put)

lemma create_then_get:
  assumes "storage_create T x io w = (w1, Inr y)" "io_fault io' (w_calls w1) = None"
  shows "snd (storage_get_by_id T (tb_id T x) io' w1) = Ok (Some (tb_store T x))"
proof -
  let ?rows = "tb_rows T (w_db w)"
  have "unique_violation T ?rows x = None" and w1: "w_db w1 = tb_put T (?rows @ [tb_store T x]) (w_db w)"
    using assms(1)
    by (auto simp: storage_create_def call_def Let_def split: option.splits if_splits)
  then have "tb_id T x \<notin> tb_id T ` set ?rows"
    by (auto simp: unique_violation_def)
  then have "find (\<lambda>r. tb_id T r = tb_id T x) (?rows @ [tb_store T x]) = Some (tb_store T x)"
    by (intro find_appended) (auto simp: id_store, metis image_eqI)
  then show ?thesis
    using assms(2) by (simp add: storage_get_by_id_def query_def call_def w1 rows_put Let_def)
qed

lemma created_id: "crud_create T x io w = (w1, Inr y) \<Longrightarrow> tb_id T x \<noteq> uuid_nil \<Longrightarrow> y = x"
  by (auto simp: crud_create_def ensure_id_def storage_create_def call_def and_then_do_def ret_def
      publish_def Let_def split: option.splits if_splits prod.splits sum.splits)

end

lemmas table_defs =
  host_table_def interface_table_def port_table_def service_table_def binding_table_def group_table_def

interpretation hosts: stored_table host_table
  by unfold_locales (simp_all add: table_defs Host_new_def)

interpretation interfaces: stored_table interface_table
  by unfold_locales (simp_all add: table_defs Interface_new_def)

interpretation ports: stored_table port_table
  by unfold_locales (simp_all add: table_defs Port_new_def port_store_def)

interpretation services: stored_table service_table
  by unfold_locales (simp_all add: table_defs Service_new_def)

interpretation bindings: stored_table binding_table
  by unfold_locales (simp_all add: table_defs Binding_new_def)

interpretation groups: stored_table group_table
  by unfold_locales (simp_all add: table_defs Group_new_def)

end
