(* ===== verification/Service_Service.thy ===== *)
theory Service_Service
  imports Store
begin

text \<open>
  The service of services, \<^verbatim>\<open>backend/src/server/services/service.rs\<close>, with the parts of the group
  service (\<^verbatim>\<open>backend/src/server/groups/service.rs\<close>,
  \<^verbatim>\<open>backend/src/server/group_bindings/impl/storage.rs\<close>) that it calls.

  The per-service locks are not modelled: each operation runs without another operation of the
  same service in between. The trace and log calls have no effect on the state.
\<close>

subsection \<open>Groups\<close>

definition get_for_group :: "uuid \<Rightarrow> uuid list action" where
  "get_for_group group_id0 =
     query (\<lambda>d. map gb_binding_id
       (sort_key gb_position (filter (\<lambda>g. gb_group_id g = group_id0) (db_group_bindings d))))"

definition delete_for_group :: "uuid \<Rightarrow> unit action" where
  "delete_for_group group_id0 =
     call (\<lambda>d. (d\<lparr>db_group_bindings := filter (\<lambda>g. gb_group_id g \<noteq> group_id0) (db_group_bindings d)\<rparr>,
                Ok ()))"

definition create_group_binding :: "uuid \<Rightarrow> int \<times> uuid \<Rightarrow> unit action" where
  "create_group_binding group_id0 pb =
     call (\<lambda>d.
       let gb = \<lparr>gb_group_id = group_id0, gb_binding_id = snd pb, gb_position = fst pb\<rparr>
       in if list_ex (\<lambda>g. gb_group_id g = group_id0 \<and> gb_binding_id g = snd pb) (db_group_bindings d)
          then (d, Err (ValidationError ''This binding already exists in the group''))
          else if snd pb \<notin> set (map binding_id (db_bindings d)) \<or>
                  group_id0 \<notin> set (map group_id (db_groups d))
          then (d, Err (OtherError ''violates foreign key constraint''))
          else (d\<lparr>db_group_bindings := db_group_bindings d @ [gb]\<rparr>, Ok ()))"

definition save_for_group :: "uuid \<Rightarrow> uuid list \<Rightarrow> unit action" where
  "save_for_group group_id0 binding_ids =
     and_then_do (delete_for_group group_id0) (\<lambda>_.
     and_then_do (for_each (create_group_binding group_id0)
                    (map (\<lambda>(i, b). (as_i32 i, b)) (enumerate 0 binding_ids)))
       (\<lambda>_. ret ()))"

abbreviation with_binding_ids :: "Group \<Rightarrow> uuid list \<Rightarrow> Group" where
  "with_binding_ids g ids \<equiv> g\<lparr>group_base := (group_base g)\<lparr>gr_binding_ids := ids\<rparr>\<rparr>"

definition group_get_by_id :: "uuid \<Rightarrow> Group option action" where
  "group_get_by_id i =
     and_then_do (storage_get_by_id group_table i) (\<lambda>found.
       case found of
         None \<Rightarrow> ret None
       | Some g \<Rightarrow> and_then_do (get_for_group (group_id g)) (\<lambda>ids. ret (Some (with_binding_ids g ids))))"

definition get_for_groups :: "uuid list \<Rightarrow> (uuid \<rightharpoonup> uuid list) action" where
  "get_for_groups ids =
     query (\<lambda>d i.
       let gbs = sort_key gb_position (filter (\<lambda>g. gb_group_id g = i) (db_group_bindings d))
       in if i \<in> set ids \<and> gbs \<noteq> [] then Some (map gb_binding_id gbs) else None)"

definition group_get_all :: "(Group \<Rightarrow> bool) \<Rightarrow> Group list action" where
  "group_get_all filter0 =
     and_then_do (storage_get_all group_table filter0) (\<lambda>groups.
       if groups = [] then ret []
       else and_then_do (get_for_groups (map group_id groups)) (\<lambda>bindings_map.
              ret (map (\<lambda>g. case bindings_map (group_id g) of
                              Some ids \<Rightarrow> with_binding_ids g ids
                            | None \<Rightarrow> g) groups)))"

definition group_update :: "Group \<Rightarrow> Group action" where
  "group_update g =
     and_then_do (group_get_by_id (group_id g)) (\<lambda>found.
       case found of
         None \<Rightarrow> raise (OtherError ''Could not find group'')
       | Some current_group \<Rightarrow>
           and_then_do (storage_update group_table g) (\<lambda>updated.
           and_then_do (save_for_group (group_id updated) (gr_binding_ids (group_base updated))) (\<lambda>_.
           and_then_do (publish EntityOperation_Updated (Entity_Group updated)
                          (Group_triggers_staleness updated (Some current_group)))
             (\<lambda>_. ret updated))))"

subsection \<open>Reading services\<close>

abbreviation binding_service_id :: "Binding \<Rightarrow> uuid" where
  "binding_service_id b \<equiv> bb_service_id (binding_base b)"

definition load_bindings :: "Service \<Rightarrow> Service action" where
  "load_bindings s =
     and_then_do (get_for_parent binding_table binding_service_id (service_id s)) (\<lambda>bs.
       ret (with_bindings s bs))"

definition service_get_by_id :: "uuid \<Rightarrow> Service option action" where
  "service_get_by_id i =
     and_then_do (storage_get_by_id service_table i) (\<lambda>found.
       case found of
         None \<Rightarrow> ret None
       | Some s \<Rightarrow> and_then_do (load_bindings s) (\<lambda>s'. ret (Some s')))"

text \<open>\<open>get_for_parents\<close> of the binding service, and the join with the services read before.\<close>

definition get_for_parents :: "'a table \<Rightarrow> ('a \<Rightarrow> uuid) \<Rightarrow> uuid list \<Rightarrow> (uuid \<rightharpoonup> 'a list) action" where
  "get_for_parents T parent ids =
     (if ids = [] then ret Map.empty
      else and_then_do (storage_get_all T (\<lambda>r. parent r \<in> set ids)) (\<lambda>rows.
             ret (\<lambda>i. let cs = filter (\<lambda>r. parent r = i) rows in if cs = [] then None else Some cs)))"

definition join_bindings :: "Service list \<Rightarrow> Service list action" where
  "join_bindings services =
     (if services = [] then ret []
      else and_then_do (get_for_parents binding_table binding_service_id (map service_id services))
        (\<lambda>bindings_map.
           ret (map (\<lambda>s. case bindings_map (service_id s) of
                           Some bs \<Rightarrow> with_bindings s bs
                         | None \<Rightarrow> s) services)))"

definition service_get_all :: "(Service \<Rightarrow> bool) \<Rightarrow> Service list action" where
  "service_get_all filter0 = and_then_do (storage_get_all service_table filter0) join_bindings"

text \<open>\<open>get_all_ordered\<close> with \<open>position ASC\<close>.\<close>

definition service_get_all_by_position :: "(Service \<Rightarrow> bool) \<Rightarrow> Service list action" where
  "service_get_all_by_position filter0 =
     and_then_do (storage_get_all_ordered service_table filter0 Service_position) join_bindings"

abbreviation on_host :: "uuid \<Rightarrow> Service \<Rightarrow> bool" where
  "on_host h s \<equiv> svb_host_id (service_base s) = h"

definition get_ports_for_host :: "uuid \<Rightarrow> Port list action" where
  "get_ports_for_host h = get_for_parent port_table (\<lambda>p. pb_host_id (port_base p)) h"

definition get_interfaces_for_host :: "uuid \<Rightarrow> Interface list action" where
  "get_interfaces_for_host h =
     storage_get_all_ordered interface_table (\<lambda>i. ib_host_id (interface_base i) = h) Interface_position"

subsection \<open>Checks against the database\<close>

definition validate_bindings_belong_to_host :: "uuid \<Rightarrow> Binding list \<Rightarrow> unit action" where
  "validate_bindings_belong_to_host h bindings =
     (if bindings = [] then ret ()
      else and_then_do (get_ports_for_host h) (\<lambda>host_ports.
           and_then_do (get_interfaces_for_host h) (\<lambda>host_interfaces.
           and_then_do (env io_show_uuid) (\<lambda>sh.
             of_result (validate_belong sh (set (map port_id host_ports))
                          (set (map interface_id host_interfaces)) bindings)))))"

definition partition_conflicting_bindings ::
    "uuid \<Rightarrow> uuid \<Rightarrow> Binding list \<Rightarrow> (uuid \<times> uuid option) list \<Rightarrow> (Binding list \<times> Binding list) action" where
  "partition_conflicting_bindings h service_id0 bindings batch_claimed =
     (if bindings = [] then ret ([], [])
      else and_then_do (service_get_all (on_host h)) (\<lambda>services.
             ret (partition_bindings services service_id0 bindings batch_claimed)))"

definition bound_port_msg :: "string \<Rightarrow> string \<Rightarrow> string" where
  "bound_port_msg port_display owner =
     ''Port '' @ port_display @ '' is already bound to '' @ [CHR 0x27] @ owner @ [CHR 0x27] @
     '' on this host. Use '' @ [CHR 0x27] @ ''Transfer Ports'' @ [CHR 0x27] @
     '' to reassign it, or remove the binding from '' @ [CHR 0x27] @ owner @ [CHR 0x27] @ '' first.''"

definition validate_bindings_available :: "uuid \<Rightarrow> uuid \<Rightarrow> Binding list \<Rightarrow> unit action" where
  "validate_bindings_available h service_id0 bindings =
     (if bindings = [] then ret ()
      else and_then_do (service_get_all (on_host h)) (\<lambda>services.
        case first_claimed (filter (\<lambda>s. service_id s \<noteq> service_id0) services) bindings of
          None \<Rightarrow> ret ()
        | Some (b, owner) \<Rightarrow>
            and_then_do (get_ports_for_host h) (\<lambda>ports.
            and_then_do (env io_show_uuid) (\<lambda>sh.
              let pid = (case Binding_port_id b of Some p \<Rightarrow> p | None \<Rightarrow> uuid_nil);
                  port_display =
                    (case find (\<lambda>p. port_id p = pid) ports of
                       Some p \<Rightarrow> tb_display port_table sh p
                     | None \<Rightarrow> sh pid)
              in raise (ValidationError (bound_port_msg port_display (svb_name (service_base owner))))))))"

subsection \<open>Writing services\<close>

definition save_bindings :: "Service \<Rightarrow> Binding list \<Rightarrow> Service action" where
  "save_bindings stored bindings =
     and_then_do
       (save_for_parent binding_table binding_service_id (service_id stored)
          (map (\<lambda>b. Binding_with_service b (service_id stored) (svb_network_id (service_base stored)))
             bindings))
       (\<lambda>saved. ret (with_bindings stored saved))"

definition merge_service_source :: "EntitySource \<Rightarrow> EntitySource \<Rightarrow> EntitySource" where
  "merge_service_source existing new =
     (case (existing, new) of
        (EntitySource_DiscoveryWithMatch existing_metadata existing_details,
         EntitySource_DiscoveryWithMatch new_metadata new_details) \<Rightarrow>
          EntitySource_DiscoveryWithMatch (new_metadata @ existing_metadata)
            \<lparr>md_reason =
               (if md_confidence new_details > md_confidence existing_details
                then md_reason new_details else md_reason existing_details),
             md_confidence = max (md_confidence existing_details) (md_confidence new_details)\<rparr>
      | (_, EntitySource_DiscoveryWithMatch new_metadata new_details) \<Rightarrow>
          EntitySource_DiscoveryWithMatch new_metadata new_details
      | (existing_source, _) \<Rightarrow> existing_source)"

text \<open>The service that \<open>upsert_service\<close> stores, with the number of changed bindings.\<close>

definition merge_service :: "Service \<Rightarrow> Service \<Rightarrow> Service \<times> nat" where
  "merge_service existing new =
     (let b = service_base existing; nb = service_base new;
          (bindings, binding_updates) = merge_bindings (svb_bindings b) (svb_bindings nb)
      in (existing\<lparr>service_base := b
            \<lparr>svb_bindings := bindings,
             svb_virtualization :=
               (case svb_virtualization nb of Some v \<Rightarrow> Some v | None \<Rightarrow> svb_virtualization b),
             svb_source := merge_service_source (svb_source b) (svb_source nb)\<rparr>\<rparr>,
          binding_updates))"

definition upsert_service :: "Service \<Rightarrow> Service \<Rightarrow> Service action" where
  "upsert_service existing_service new_service_data =
     (let (merged, binding_updates) = merge_service existing_service new_service_data
      in and_then_do (storage_update service_table merged) (\<lambda>stored.
         and_then_do (save_bindings stored (svb_bindings (service_base stored))) (\<lambda>saved.
         if binding_updates > 0
         then and_then_do (publish EntityOperation_Updated (Entity_Service saved)
                             (Service_triggers_staleness saved (Some existing_service)))
                (\<lambda>_. ret saved)
         else ret saved)))"

text \<open>The branch of \<open>create\<close> for a service that no stored service matches.\<close>

definition create_new_service :: "int \<Rightarrow> Service \<Rightarrow> Service action" where
  "create_new_service next_pos service0 =
     (let service = Service_set_position service0 next_pos;
          bindings = svb_bindings (service_base service);
          h = svb_host_id (service_base service)
      in and_then_do (of_result (validate_bindings_no_conflicts bindings)) (\<lambda>_.
         and_then_do (validate_bindings_belong_to_host h bindings) (\<lambda>_.
         and_then_do
           (if \<not> EntitySource_is_from_discovery (svb_source (service_base service))
            then validate_bindings_available h (service_id service) bindings else ret ()) (\<lambda>_.
         and_then_do (storage_create service_table service) (\<lambda>created.
         and_then_do (save_bindings created bindings) (\<lambda>saved.
         and_then_do (publish EntityOperation_Created (Entity_Service saved)
                        (Service_triggers_staleness saved None))
           (\<lambda>_. ret saved)))))))"

definition upserts_into :: "Service \<Rightarrow> Service \<Rightarrow> bool" where
  "upserts_into service existing \<longleftrightarrow>
     (EntitySource_is_from_discovery (svb_source (service_base service)) \<and>
      EntitySource_is_from_discovery (svb_source (service_base existing))) \<or>
     service_id service = service_id existing"

text \<open>\<open>create\<close>, once the service has an identifier.\<close>

definition create_identified :: "Service \<Rightarrow> Service action" where
  "create_identified service1 =
     (let service = with_bindings service1 (deduplicate_bindings (svb_bindings (service_base service1)))
      in and_then_do (service_get_all (on_host (svb_host_id (service_base service)))) (\<lambda>existing_services.
           case find (\<lambda>existing. Service_eq existing service) existing_services of
             Some existing_service \<Rightarrow>
               if upserts_into service existing_service
               then upsert_service existing_service service
               else create_new_service (next_position existing_services) service
           | None \<Rightarrow> create_new_service (next_position existing_services) service))"

definition service_create :: "Service \<Rightarrow> Service action" where
  "service_create service = and_then_do (ensure_id service_table service) create_identified"

definition update_group_service_bindings :: "Service \<Rightarrow> Service option \<Rightarrow> unit action" where
  "update_group_service_bindings current_service updates =
     and_then_do (group_get_all (\<lambda>g. gr_network_id (group_base g) = svb_network_id (service_base current_service)))
       (\<lambda>groups.
          let current_ids = map binding_id (svb_bindings (service_base current_service));
              updated_ids = (case updates of
                               Some s \<Rightarrow> map binding_id (svb_bindings (service_base s))
                             | None \<Rightarrow> []);
              retained = (\<lambda>g. with_binding_ids g
                            (retain_group_bindings current_ids updated_ids (gr_binding_ids (group_base g))));
              groups_to_update =
                map retained
                  (filter (\<lambda>g. length (gr_binding_ids (group_base (retained g))) \<noteq>
                               length (gr_binding_ids (group_base g))) groups)
          in and_then_do (for_each group_update groups_to_update) (\<lambda>_. ret ()))"

definition service_update :: "Service \<Rightarrow> Service action" where
  "service_update service0 =
     and_then_do (service_get_by_id (service_id service0)) (\<lambda>found.
       case found of
         None \<Rightarrow> raise (OtherError ''Could not find service'')
       | Some current_service \<Rightarrow>
           let service = with_bindings service0 (deduplicate_bindings (svb_bindings (service_base service0)));
               bindings = svb_bindings (service_base service);
               h = svb_host_id (service_base service)
           in and_then_do (of_result (validate_bindings_no_conflicts bindings)) (\<lambda>_.
              and_then_do (validate_bindings_belong_to_host h bindings) (\<lambda>_.
              and_then_do (validate_bindings_available h (service_id service) bindings) (\<lambda>_.
              and_then_do (update_group_service_bindings current_service (Some service)) (\<lambda>_.
              and_then_do (storage_update service_table service) (\<lambda>updated.
              and_then_do (save_bindings updated bindings) (\<lambda>saved.
              and_then_do (publish EntityOperation_Updated (Entity_Service saved)
                             (Service_triggers_staleness saved (Some current_service)))
                (\<lambda>_. ret saved))))))))"

definition service_delete :: "uuid \<Rightarrow> unit action" where
  "service_delete i =
     and_then_do (service_get_by_id i) (\<lambda>found.
       case found of
         None \<Rightarrow>
           and_then_do (env io_show_uuid) (\<lambda>sh.
             raise (OtherError (''Service '' @ sh i @ '' not found'')))
       | Some service \<Rightarrow>
           and_then_do (update_group_service_bindings service None) (\<lambda>_.
           and_then_do (storage_delete service_table i) (\<lambda>_.
             publish EntityOperation_Deleted (Entity_Service service)
               (Service_triggers_staleness service None))))"

text \<open>\<open>delete_many\<close>, the default method with the service's own \<open>get_by_id\<close>.\<close>

definition service_publish_deleted :: "uuid \<Rightarrow> unit action" where
  "service_publish_deleted i =
     and_then_do (service_get_by_id i) (\<lambda>found.
       case found of
         Some e \<Rightarrow> publish EntityOperation_Deleted (Entity_Service e) (Service_triggers_staleness e None)
       | None \<Rightarrow> ret ())"

definition service_delete_many :: "uuid list \<Rightarrow> nat action" where
  "service_delete_many ids =
     (if ids = [] then ret 0
      else and_then_do (for_each service_publish_deleted ids) (\<lambda>_. storage_delete_many service_table ids))"

subsection \<open>The invariant on bindings\<close>

text \<open>
  Rows have different identifiers and refer to rows that exist; no two services claim the same port
  on a common interface; and a binding refers to a port and an interface of its service's host.
\<close>

definition ids_ok :: "db \<Rightarrow> bool" where
  "ids_ok d \<longleftrightarrow>
     distinct (map host_id (db_hosts d)) \<and> distinct (map interface_id (db_interfaces d)) \<and>
     distinct (map port_id (db_ports d)) \<and> distinct (map service_id (db_services d)) \<and>
     distinct (map binding_id (db_bindings d))"

definition refs_ok :: "db \<Rightarrow> bool" where
  "refs_ok d \<longleftrightarrow>
     (\<forall>i \<in> set (db_interfaces d). ib_host_id (interface_base i) \<in> host_id ` set (db_hosts d)) \<and>
     (\<forall>p \<in> set (db_ports d). pb_host_id (port_base p) \<in> host_id ` set (db_hosts d)) \<and>
     (\<forall>s \<in> set (db_services d). svb_host_id (service_base s) \<in> host_id ` set (db_hosts d)) \<and>
     (\<forall>b \<in> set (db_bindings d). binding_refs d b)"

definition exclusive :: "db \<Rightarrow> bool" where
  "exclusive d \<longleftrightarrow>
     (\<forall>a \<in> set (db_bindings d). \<forall>b \<in> set (db_bindings d).
        binding_service_id a \<noteq> binding_service_id b \<longrightarrow> \<not> bindings_overlap a b)"

definition local_binding :: "db \<Rightarrow> uuid \<Rightarrow> Binding \<Rightarrow> bool" where
  "local_binding d h b \<longleftrightarrow>
     (\<forall>p \<in> set (db_ports d). Binding_port_id b = Some (port_id p) \<longrightarrow> pb_host_id (port_base p) = h) \<and>
     (\<forall>i \<in> set (db_interfaces d). Binding_interface_id b = Some (interface_id i) \<longrightarrow>
        ib_host_id (interface_base i) = h)"

definition local_ok :: "db \<Rightarrow> bool" where
  "local_ok d \<longleftrightarrow>
     (\<forall>b \<in> set (db_bindings d). \<forall>s \<in> set (db_services d).
        service_id s = binding_service_id b \<longrightarrow> local_binding d (svb_host_id (service_base s)) b)"

text \<open>A row of the services table has no bindings of its own.\<close>

definition bare_services :: "db \<Rightarrow> bool" where
  "bare_services d \<longleftrightarrow> (\<forall>s \<in> set (db_services d). svb_bindings (service_base s) = [])"

definition binding_inv :: "db \<Rightarrow> bool" where
  "binding_inv d \<longleftrightarrow> ids_ok d \<and> refs_ok d \<and> exclusive d \<and> local_ok d \<and> bare_services d"

lemma binding_invD:
  assumes "binding_inv d" shows "ids_ok d" "refs_ok d" "exclusive d" "local_ok d" "bare_services d"
  using assms by (simp_all add: binding_inv_def)

lemma on_core_binding_inv [simp, intro]: "on_core binding_inv"
  by (auto simp: on_core_def binding_inv_def ids_ok_def refs_ok_def exclusive_def local_ok_def
      local_binding_def binding_refs_def bare_services_def core_def)

lemma cascade_inv:
  assumes "ids_ok d" "exclusive d" "local_ok d" "bare_services d" shows "binding_inv (cascade d)"
  unfolding binding_inv_def
proof (intro conjI)
  show "ids_ok (cascade d)"
    using assms(1) by (auto simp: ids_ok_def cascade_def Let_def distinct_map_filter)
  show "refs_ok (cascade d)"
    by (auto simp: refs_ok_def cascade_def Let_def binding_refs_def)
  show "exclusive (cascade d)"
    using assms(2) by (auto simp: exclusive_def cascade_def Let_def)
  show "local_ok (cascade d)"
    using assms(3) by (auto simp: local_ok_def local_binding_def cascade_def Let_def)
  show "bare_services (cascade d)"
    using assms(4) by (auto simp: bare_services_def cascade_def Let_def)
qed

lemma cascade_filter_inv:
  assumes "binding_inv d"
  shows "binding_inv (cascade (d\<lparr>db_services := filter f (db_services d)\<rparr>))"
    and "binding_inv (cascade (d\<lparr>db_bindings := filter g (db_bindings d)\<rparr>))"
    and "binding_inv (cascade (d\<lparr>db_hosts := filter h (db_hosts d)\<rparr>))"
    and "binding_inv (cascade (d\<lparr>db_ports := filter p (db_ports d)\<rparr>))"
    and "binding_inv (cascade (d\<lparr>db_interfaces := filter i (db_interfaces d)\<rparr>))"
  using binding_invD(1,3,4,5) [OF assms]
  by (rule_tac cascade_inv; auto simp: ids_ok_def exclusive_def local_ok_def local_binding_def
      bare_services_def distinct_map_filter)+

lemma cascade_bindings:
  assumes "refs_ok d" "set bs \<subseteq> set (db_bindings d)"
  shows "core (cascade (d\<lparr>db_bindings := bs\<rparr>)) = core (d\<lparr>db_bindings := bs\<rparr>)"
proof -
  have "filter (\<lambda>i. ib_host_id (interface_base i) \<in> host_id ` set (db_hosts d)) (db_interfaces d) = db_interfaces d"
    "filter (\<lambda>p. pb_host_id (port_base p) \<in> host_id ` set (db_hosts d)) (db_ports d) = db_ports d"
    "filter (\<lambda>s. svb_host_id (service_base s) \<in> host_id ` set (db_hosts d)) (db_services d) = db_services d"
    using assms(1) by (auto simp: refs_ok_def intro!: filter_True)
  moreover have "filter (binding_refs d) bs = bs"
    using assms by (auto simp: refs_ok_def subset_iff intro!: filter_True)
  ultimately show ?thesis
    by (simp add: core_def cascade_def Let_def binding_refs_def [abs_def] del: set_filter)
qed

text \<open>
  The invariant, with a property \<open>K\<close> of the hosts, interfaces and ports that are there, with the
  identifiers and hosts of services taken from \<open>S\<close> and what is bound taken from \<open>T\<close>: what writing
  services and bindings keeps.
\<close>

abbreviation service_key :: "Service \<Rightarrow> uuid \<times> uuid" where
  "service_key s \<equiv> (service_id s, svb_host_id (service_base s))"

definition kept ::
    "(Host list \<times> Interface list \<times> Port list \<Rightarrow> bool) \<Rightarrow> (uuid \<times> uuid) set \<Rightarrow>
       BindingType set \<Rightarrow> db \<Rightarrow> bool" where
  "kept K S T d \<longleftrightarrow>
     binding_inv d \<and> K (db_hosts d, db_interfaces d, db_ports d) \<and>
     service_key ` set (db_services d) \<subseteq> S \<and> btype ` set (db_bindings d) \<subseteq> T"

lemma on_coreD: "on_core P \<Longrightarrow> core d = core d' \<Longrightarrow> P d \<Longrightarrow> P d'"
  unfolding on_core_def by blast

lemma keptD: "kept K S T d \<Longrightarrow> binding_inv d"
  by (simp add: kept_def)

lemma kept_UNIV: "kept (\<lambda>_. True) UNIV UNIV = binding_inv"
  by (simp add: fun_eq_iff kept_def)

lemma on_core_kept [simp, intro]: "on_core (kept K S T)"
  using on_core_binding_inv by (auto simp: on_core_def kept_def core_def)

lemma kept_bindings:
  "kept K S T d \<Longrightarrow> binding_inv (d\<lparr>db_bindings := bs\<rparr>) \<Longrightarrow> btype ` set bs \<subseteq> T \<Longrightarrow>
     kept K S T (d\<lparr>db_bindings := bs\<rparr>)"
  by (simp add: kept_def)

lemma kept_types: "kept K S T d \<Longrightarrow> b \<in> set (db_bindings d) \<Longrightarrow> btype b \<in> T"
  by (auto simp: kept_def)

text \<open>Writing a binding row for service \<open>i\<close>.\<close>

definition may_bind :: "uuid \<Rightarrow> uuid \<Rightarrow> Binding list \<Rightarrow> db \<Rightarrow> bool" where
  "may_bind i h bs d \<longleftrightarrow>
     (\<forall>s \<in> set (db_services d). service_id s = i \<longrightarrow> svb_host_id (service_base s) = h) \<and>
     (\<forall>b \<in> set bs. local_binding d h b \<and>
        (\<forall>c \<in> set (db_bindings d). binding_service_id c \<noteq> i \<longrightarrow> \<not> bindings_overlap b c))"

lemma on_core_may_bind [simp, intro]: "on_core (may_bind i h bs)"
  by (auto simp: on_core_def may_bind_def local_binding_def core_def)

lemma local_binding_btype: "btype b = btype b' \<Longrightarrow> local_binding d h b = local_binding d h b'"
  by (simp add: local_binding_def Binding_port_id_def Binding_interface_id_def)

lemma may_bind_row:
  assumes "may_bind i h bs d" "b \<in> set bs" "btype b' = btype b"
    "set bs' \<subseteq> insert b' (set (db_bindings d))" "binding_service_id b' = i"
  shows "may_bind i h bs (d\<lparr>db_bindings := bs'\<rparr>)"
  using assms by (auto simp: may_bind_def local_binding_def)

lemma binding_row_inv:
  assumes inv: "binding_inv d" and may: "may_bind i h bs d" "b \<in> set bs" "btype b' = btype b"
    and sub: "set bs' \<subseteq> insert b' (set (db_bindings d))" and i: "binding_service_id b' = i"
    and ids: "distinct (map binding_id bs')" and refs: "binding_refs d b'"
  shows "binding_inv (d\<lparr>db_bindings := bs'\<rparr>)"
  unfolding binding_inv_def
proof (intro conjI)
  have "\<not> bindings_overlap b' c \<and> \<not> bindings_overlap c b'"
    if "c \<in> set (db_bindings d)" "binding_service_id c \<noteq> i" for c
    using may that bindings_overlap_btype [of b b'] bindings_overlap_sym
    unfolding may_bind_def by metis
  then show "exclusive (d\<lparr>db_bindings := bs'\<rparr>)"
    using binding_invD(3) [OF inv] sub i unfolding exclusive_def by (simp add: subset_iff) metis
  have "local_binding d (svb_host_id (service_base s)) b'"
    if "s \<in> set (db_services d)" "service_id s = i" for s
    using may that local_binding_btype [of b b'] by (auto simp: may_bind_def)
  then show "local_ok (d\<lparr>db_bindings := bs'\<rparr>)"
    using binding_invD(4) [OF inv] sub i by (auto simp: local_ok_def subset_iff local_binding_def)
qed (use binding_invD(1,2,5) [OF inv] ids refs sub in
    \<open>auto simp: ids_ok_def refs_ok_def binding_refs_def bare_services_def subset_iff\<close>)

lemma triple_core_read:
  "keeps_core m \<Longrightarrow> on_core P \<Longrightarrow> triple (kept K S T) P m (\<lambda>_. P)"
  by (rule triple_keeps_core) auto

lemma binding_table_simps [simp]:
  "tb_id binding_table = binding_id" "tb_rows binding_table = db_bindings"
  "tb_put binding_table bs d = d\<lparr>db_bindings := bs\<rparr>" "tb_store binding_table b = b"
  "tb_refs binding_table = binding_refs" "tb_set_id binding_table i b = b\<lparr>binding_id := i\<rparr>"
  "tb_set_created_at binding_table t b = b\<lparr>binding_created_at := t\<rparr>"
  "tb_set_updated_at binding_table t b = b\<lparr>binding_updated_at := t\<rparr>"
  "tb_renew binding_table i t b = Binding_new i t (binding_base b)"
  by (simp_all add: binding_table_def)

lemma updated_bindings:
  "updated_rows binding_table x d =
     d\<lparr>db_bindings := map (\<lambda>r. if binding_id r = binding_id x then x else r) (db_bindings d)\<rparr>"
  by (simp add: updated_rows_def cong: if_cong)

lemma inserted_distinct:
  "distinct (map binding_id bs) \<Longrightarrow> unique_violation binding_table bs b = None \<Longrightarrow>
     distinct (map binding_id (bs @ [b]))"
  using bindings.distinct_inserted by simp

abbreviation binds_like :: "uuid \<Rightarrow> Binding list \<Rightarrow> Binding \<Rightarrow> bool" where
  "binds_like i bs c \<equiv> binding_service_id c = i \<and> (\<exists>b \<in> set bs. btype c = btype b)"

abbreviation types_in :: "Binding list \<Rightarrow> BindingType set \<Rightarrow> bool" where
  "types_in bs T \<equiv> btype ` set bs \<subseteq> T"

lemma create_binding_inv:
  assumes "binds_like i bs c" "types_in bs T"
  shows "triple (kept K S T) (may_bind i h bs) (crud_create binding_table c) (\<lambda>_. may_bind i h bs)"
proof -
  have create: "triple (kept K S T) (may_bind i h bs) (storage_create binding_table x) (\<lambda>_. may_bind i h bs)"
    if "binds_like i bs x" for x
  proof (rule triple_storage_create)
    fix d assume d': "kept K S T d" and d: "may_bind i h bs d"
      "unique_violation binding_table (tb_rows binding_table d) x = None" "tb_refs binding_table d x"
    note inv = keptD [OF d']
    have "distinct (map binding_id (db_bindings d @ [x]))"
      using d binding_invD(1) [OF inv] by (intro inserted_distinct) (simp_all add: ids_ok_def)
    moreover have "types_in (db_bindings d @ [x]) T" using that assms(2) kept_types [OF d'] by auto
    ultimately show "kept K S T (tb_put binding_table (tb_rows binding_table d @ [tb_store binding_table x]) d) \<and>
        may_bind i h bs (tb_put binding_table (tb_rows binding_table d @ [tb_store binding_table x]) d)"
      using d inv that
      by (auto intro!: kept_bindings [OF d'] binding_row_inv [where b' = x] may_bind_row [where b' = x]
          dest: kept_types [OF d'])
  qed
  have renewed: "triple (kept K S T) (may_bind i h bs) (ensure_id binding_table c)
      (\<lambda>x d. may_bind i h bs d \<and> binds_like i bs x)"
    unfolding ensure_id_def
    by (rule triple_if, rule triple_bind [where R = "\<lambda>_. may_bind i h bs"], rule triple_fresh_id,
        assumption, rule triple_bind [where R = "\<lambda>_. may_bind i h bs"], rule triple_now, assumption)
      (use assms(1) in \<open>auto intro!: triple_ret simp: Binding_new_def\<close>)
  show ?thesis
    unfolding crud_create_def
  proof (rule triple_bind [OF renewed])
    fix x
    show "triple (kept K S T) (\<lambda>d. may_bind i h bs d \<and> binds_like i bs x)
        (and_then_do (storage_create binding_table x) (\<lambda>created. and_then_do
           (publish EntityOperation_Created (tb_entity binding_table created)
              (tb_stale binding_table created None)) (\<lambda>_. ret created))) (\<lambda>_. may_bind i h bs)"
      by (rule triple_pre, rule triple_bind [where R = "\<lambda>_. may_bind i h bs"])
        (auto intro!: triple_conseq [OF create] triple_bind [where R = "\<lambda>_. may_bind i h bs"]
          triple_publish triple_ret)
  qed
qed

lemma update_binding_inv:
  assumes "binds_like i bs c" "types_in bs T"
  shows "triple (kept K S T) (may_bind i h bs) (crud_update binding_table c) (\<lambda>_. may_bind i h bs)"
proof -
  have update: "triple (kept K S T) (may_bind i h bs) (storage_update binding_table c) (\<lambda>_. may_bind i h bs)"
  proof (rule triple_storage_update)
    fix d t x' assume d': "kept K S T d" and d: "may_bind i h bs d"
      "x' = tb_set_updated_at binding_table t c" "tb_refs binding_table d x'"
    let ?bs = "map (\<lambda>r. if binding_id r = binding_id x' then x' else r) (db_bindings d)"
    note inv = keptD [OF d']
    have "map binding_id ?bs = map binding_id (db_bindings d)" by simp
    then have "distinct (map binding_id ?bs)" using binding_invD(1) [OF inv] by (simp only: ids_ok_def)
    moreover have "types_in ?bs T" using d assms kept_types [OF d'] by auto
    ultimately show "kept K S T (updated_rows binding_table x' d) \<and>
        may_bind i h bs (updated_rows binding_table x' d)"
      using d inv assms(1) unfolding updated_bindings
      by (auto intro!: kept_bindings [OF d'] binding_row_inv [where b' = x'] may_bind_row [where b' = x'] simp del: map_map)
  qed
  show ?thesis
    unfolding crud_update_def
    by (rule triple_bind [where R = "\<lambda>_. may_bind i h bs"])
      (auto intro!: triple_core_read keeps_core_reads triple_option triple_bind [OF update]
        triple_raise triple_publish triple_ret
        triple_bind [where R = "\<lambda>_. may_bind i h bs" and m = "publish _ _ _"]
        triple_bind [where R = "\<lambda>_. may_bind i h bs" and m = "env _"] triple_env)
qed

lemma keeps_core_option:
  "keeps_core m \<Longrightarrow> (\<And>y. keeps_core (f y)) \<Longrightarrow> keeps_core (case x of None \<Rightarrow> m | Some y \<Rightarrow> f y)"
  by (cases x) simp_all

lemma keeps_core_if: "keeps_core m \<Longrightarrow> keeps_core n \<Longrightarrow> keeps_core (if c then m else n)"
  by simp

lemma keeps_core_publish_deleted: "keeps_core (publish_deleted T i)"
  unfolding publish_deleted_def
  by (rule keeps_core_bind, rule keeps_core_reads) (rule keeps_core_option; rule keeps_core_simple)

lemma delete_bindings_inv:
  "triple (kept K S T) (may_bind i h bs) (crud_delete_many binding_table ids) (\<lambda>_. may_bind i h bs)"
proof -
  have "kept K S T (cascade (d\<lparr>db_bindings := filter f (db_bindings d)\<rparr>)) \<and>
      may_bind i h bs (cascade (d\<lparr>db_bindings := filter f (db_bindings d)\<rparr>))"
    if d: "kept K S T d" "may_bind i h bs d" for d f
  proof -
    note inv = keptD [OF d(1)]
    let ?d = "d\<lparr>db_bindings := filter f (db_bindings d)\<rparr>"
    have core: "core ?d = core (cascade ?d)"
      using binding_invD(2) [OF inv] by (intro cascade_bindings [symmetric]) auto
    have "binding_inv ?d"
      using on_coreD [OF on_core_binding_inv core [symmetric]] cascade_filter_inv(2) [OF inv] .
    then have "kept K S T ?d" using kept_types [OF d(1)] by (intro kept_bindings [OF d(1)]) auto
    moreover have "may_bind i h bs ?d"
      using d by (auto simp: may_bind_def local_binding_def)
    ultimately show ?thesis
      using on_coreD [OF on_core_kept core] on_coreD [OF on_core_may_bind core] by blast
  qed
  then have "triple (kept K S T) (may_bind i h bs) (storage_delete_many binding_table ids) (\<lambda>_. may_bind i h bs)"
    by (intro triple_storage_delete_many) auto
  then show ?thesis
    unfolding crud_delete_many_def
    by (intro triple_if triple_ret triple_bind [where R = "\<lambda>_. may_bind i h bs",
          OF triple_core_read [OF keeps_core_for_each [OF keeps_core_publish_deleted]]]) auto
qed

lemma save_child_inv:
  assumes "binds_like i bs c" "types_in bs T"
  shows "triple (kept K S T) (may_bind i h bs) (save_child binding_table existing c) (\<lambda>_. may_bind i h bs)"
  unfolding save_child_def using assms
  by (intro triple_if triple_option triple_bind [where R = "\<lambda>_. may_bind i h bs"] triple_fresh_id
      create_binding_inv update_binding_inv) simp_all

lemma save_bindings_inv:
  assumes "service_id stored = i" "set cs \<subseteq> set bs" "types_in bs T"
  shows "triple (kept K S T) (may_bind i h bs) (save_bindings stored cs) (\<lambda>_. may_bind i h bs)"
proof -
  have children: "binds_like i bs (Binding_with_service b (service_id stored) n)" if "b \<in> set cs" for b n
    using that assms by (auto simp: Binding_with_service_def)
  show ?thesis
    unfolding save_bindings_def save_for_parent_def Let_def
    by (rule triple_bind [where R = "\<lambda>_. may_bind i h bs"],
        rule triple_bind [where R = "\<lambda>_. may_bind i h bs"],
        rule triple_core_read, rule keeps_core_reads, simp,
        rule triple_bind [where R = "\<lambda>_. may_bind i h bs"],
        rule triple_if, rule triple_ret, assumption, rule delete_bindings_inv,
        rule triple_for_each, rule save_child_inv)
      (use assms(3) in \<open>auto intro!: triple_ret dest: children\<close>)
qed

end
