(* ===== verification/Binding_Safety.thy ===== *)
theory Binding_Safety
  imports Service_Service
begin

text \<open>
  What the checks of the service of services establish about the rows, and that its operations keep
  the invariant on bindings: each port of a host is claimed by one service only, and services bind
  ports and interfaces of their own host.
\<close>

subsection \<open>What the checks establish\<close>

text \<open>The services read with their bindings: none that passes the filter is left out, each has every
  binding of its rows and, as rows of services have no bindings of their own, no other.\<close>

definition lists_bindings :: "(Service \<Rightarrow> bool) \<Rightarrow> Service list \<Rightarrow> db \<Rightarrow> bool" where
  "lists_bindings f ss d \<longleftrightarrow>
     (\<forall>s \<in> set (db_services d). f s \<longrightarrow>
        (\<exists>s' \<in> set ss. service_id s' = service_id s \<and>
           (\<forall>b \<in> set (db_bindings d). binding_service_id b = service_id s \<longrightarrow>
              b \<in> set (svb_bindings (service_base s'))))) \<and>
     (bare_services d \<longrightarrow>
        (\<forall>s' \<in> set ss. with_bindings s' [] \<in> set (db_services d) \<and> f (with_bindings s' []) \<and>
           (\<forall>b \<in> set (svb_bindings (service_base s')).
              b \<in> set (db_bindings d) \<and> binding_service_id b = service_id s')))"

definition bindings_map :: "uuid list \<Rightarrow> db \<Rightarrow> uuid \<rightharpoonup> Binding list" where
  "bindings_map ids d i =
     (let cs = filter (\<lambda>r. binding_service_id r = i)
          (sort_key binding_created_at (filter (\<lambda>r. binding_service_id r \<in> set ids) (db_bindings d)))
      in if cs = [] then None else Some cs)"

definition joined_with :: "(uuid \<rightharpoonup> Binding list) \<Rightarrow> Service \<Rightarrow> Service" where
  "joined_with m s = (case m (service_id s) of Some bs \<Rightarrow> with_bindings s bs | None \<Rightarrow> s)"

lemma joined_with_simps [simp]:
  "service_id (joined_with m s) = service_id s"
  "with_bindings (joined_with m s) bs = with_bindings s bs"
  by (simp_all add: joined_with_def split: option.split)

lemma joined_with_bindings:
  assumes "service_id s \<in> set ids"
  shows "set (svb_bindings (service_base (joined_with (bindings_map ids d) s))) =
     (if \<exists>b \<in> set (db_bindings d). binding_service_id b = service_id s
      then {b \<in> set (db_bindings d). binding_service_id b = service_id s}
      else set (svb_bindings (service_base s)))"
  using assms by (auto simp: joined_with_def bindings_map_def Let_def filter_empty_conv)

lemma lists_bindings_joined:
  assumes ss: "set ss = {s \<in> set (db_services d). f s}"
  shows "lists_bindings f (map (joined_with (bindings_map (map service_id ss) d)) ss) d"
    (is "lists_bindings f (map ?j ss) d")
proof -
  have "\<exists>s' \<in> set (map ?j ss). service_id s' = service_id s \<and>
      (\<forall>b \<in> set (db_bindings d). binding_service_id b = service_id s \<longrightarrow>
         b \<in> set (svb_bindings (service_base s')))"
    if "s \<in> set (db_services d)" "f s" for s
    using that ss by (intro bexI [of _ "?j s"]) (auto simp: joined_with_bindings)
  moreover have "with_bindings (?j s) [] = s \<and>
      (\<forall>b \<in> set (svb_bindings (service_base (?j s))).
         b \<in> set (db_bindings d) \<and> binding_service_id b = service_id s)"
    if "s \<in> set ss" "bare_services d" for s
  proof -
    have bare: "svb_bindings (service_base s) = []" using that ss by (auto simp: bare_services_def)
    then have "with_bindings s [] = s" by simp
    then show ?thesis using that bare by (auto simp: joined_with_bindings split: if_splits)
  qed
  ultimately show ?thesis using ss by (auto simp: lists_bindings_def)
qed

lemma triple_join_bindings:
  "triple I (\<lambda>d. P d \<and> set ss = {s \<in> set (db_services d). f s}) (join_bindings ss)
     (\<lambda>ss' d. P d \<and> lists_bindings f ss' d)" (is "triple I ?pre _ _")
proof -
  have read: "triple I ?pre (get_for_parents binding_table binding_service_id (map service_id ss))
      (\<lambda>m d. ?pre d \<and> m = bindings_map (map service_id ss) d)" if "ss \<noteq> []"
    using that unfolding get_for_parents_def bindings_map_def [abs_def]
    by (auto intro!: triple_bind [OF triple_storage_get_all
          [where Q = "\<lambda>rows d. ?pre d \<and> rows = sort_key binding_created_at
             (filter (\<lambda>r. binding_service_id r \<in> set (map service_id ss)) (db_bindings d))"]] triple_ret
        simp: binding_table_def)
  show ?thesis
    unfolding join_bindings_def joined_with_def [symmetric]
    by (rule triple_if, rule triple_ret, force simp: lists_bindings_def, rule triple_bind [OF read], assumption,
        rule triple_ret) (auto simp: lists_bindings_joined simp del: set_map)
qed

lemma triple_service_get_all:
  "triple I P (service_get_all f) (\<lambda>ss d. P d \<and> lists_bindings f ss d)"
  unfolding service_get_all_def
  by (rule triple_bind [OF triple_storage_get_all triple_join_bindings]) (auto simp: service_table_def)

text \<open>No binding of the list overlaps one of another service of the host.\<close>

definition unclaimed :: "uuid \<Rightarrow> uuid \<Rightarrow> Binding list \<Rightarrow> db \<Rightarrow> bool" where
  "unclaimed h i bs d \<longleftrightarrow>
     (\<forall>b \<in> set bs. \<forall>c \<in> set (db_bindings d). \<forall>s \<in> set (db_services d).
        binding_service_id c = service_id s \<longrightarrow> on_host h s \<longrightarrow> service_id s \<noteq> i \<longrightarrow>
        \<not> bindings_overlap b c)"

lemma on_core_unclaimed [simp, intro]: "on_core (unclaimed h i bs)"
  by (auto simp: on_core_def unclaimed_def core_def)

lemma unclaimedI:
  assumes "lists_bindings (on_host h) ss d"
    and "\<And>b s c. b \<in> set bs \<Longrightarrow> s \<in> set ss \<Longrightarrow> service_id s \<noteq> i \<Longrightarrow>
      c \<in> set (svb_bindings (service_base s)) \<Longrightarrow> \<not> bindings_overlap b c"
  shows "unclaimed h i bs d"
  using assms unfolding unclaimed_def lists_bindings_def by metis

lemma triple_available:
  "triple I P (validate_bindings_available h i bs) (\<lambda>_ d. P d \<and> unclaimed h i bs d)"
  unfolding validate_bindings_available_def
proof (rule triple_if; (rule triple_bind [OF triple_service_get_all])?)
  show "triple I P (ret ()) (\<lambda>_ d. P d \<and> unclaimed h i bs d)" if "bs = []"
    using that by (auto intro: triple_ret simp: unclaimed_def)
  fix ss
  show "triple I (\<lambda>d. P d \<and> lists_bindings (on_host h) ss d)
    (case first_claimed (filter (\<lambda>s. service_id s \<noteq> i) ss) bs of
       None \<Rightarrow> ret ()
     | Some (b, owner) \<Rightarrow>
         and_then_do (get_ports_for_host h) (\<lambda>ports.
         and_then_do (env io_show_uuid) (\<lambda>sh.
           let pid = (case Binding_port_id b of Some p \<Rightarrow> p | None \<Rightarrow> uuid_nil);
               port_display =
                 (case find (\<lambda>p. port_id p = pid) ports of
                    Some p \<Rightarrow> tb_display port_table sh p
                  | None \<Rightarrow> sh pid)
           in raise (ValidationError (bound_port_msg port_display (svb_name (service_base owner)))))))
    (\<lambda>_ d. P d \<and> unclaimed h i bs d)" (is "triple I ?P (case ?first of None \<Rightarrow> _ | Some _ \<Rightarrow> _) _")
  proof (cases ?first)
    case None
    then have "unclaimed h i bs d" if "lists_bindings (on_host h) ss d" for d
      using unclaimedI [OF that] by (auto simp: first_claimed_None_iff claiming_service_None_iff)
    with None show ?thesis by (auto intro: triple_ret)
  next
    case (Some bo)
    obtain b owner where "bo = (b, owner)" by force
    then show ?thesis
      using Some unfolding get_ports_for_host_def get_for_parent_def Let_def
      by (auto intro!: triple_bind [where R = "\<lambda>_. ?P"] triple_storage_get_all triple_env triple_raise)
  qed
qed

text \<open>Every binding of the list refers to a port and an interface of host \<open>h\<close>.\<close>

definition belonging :: "uuid \<Rightarrow> Binding list \<Rightarrow> db \<Rightarrow> bool" where
  "belonging h bs d \<longleftrightarrow> (\<forall>b \<in> set bs. local_binding d h b)"

lemma on_core_belonging [simp, intro]: "on_core (belonging h bs)"
  by (auto simp: on_core_def belonging_def local_binding_def core_def)

lemma on_core_conj [simp, intro]: "on_core P \<Longrightarrow> on_core Q \<Longrightarrow> on_core (\<lambda>d. P d \<and> Q d)"
  unfolding on_core_def by blast

lemma eq_of_same_id: "distinct (map f xs) \<Longrightarrow> x \<in> set xs \<Longrightarrow> y \<in> set xs \<Longrightarrow> f x = f y \<Longrightarrow> x = y"
  by (auto simp: distinct_map inj_on_def)

lemma within_local:
  assumes "ids_ok d"
    and "binding_within (port_id ` {p \<in> set (db_ports d). pb_host_id (port_base p) = h})
           (interface_id ` {i \<in> set (db_interfaces d). ib_host_id (interface_base i) = h}) (btype b)"
  shows "local_binding d h b"
proof -
  have ports: "p = q" if "p \<in> set (db_ports d)" "q \<in> set (db_ports d)" "port_id p = port_id q" for p q
    using that eq_of_same_id [of port_id "db_ports d"] assms(1) by (auto simp: ids_ok_def)
  have interfaces: "i = j"
    if "i \<in> set (db_interfaces d)" "j \<in> set (db_interfaces d)" "interface_id i = interface_id j" for i j
    using that eq_of_same_id [of interface_id "db_interfaces d"] assms(1) by (auto simp: ids_ok_def)
  show ?thesis
  proof (cases "btype b")
    case (BindingType_Interface iid)
    with assms(2) show ?thesis
      by (auto simp: local_binding_def binding_within_def Binding_port_id_def Binding_interface_id_def
          dest: interfaces)
  next
    case (BindingType_Port pid oiid)
    with assms(2) show ?thesis
      by (cases oiid) (auto simp: local_binding_def binding_within_def Binding_port_id_def
          Binding_interface_id_def dest: ports interfaces)
  qed
qed

lemma triple_belong:
  "triple (kept K S T) P (validate_bindings_belong_to_host h bs) (\<lambda>_ d. P d \<and> belonging h bs d)"
  unfolding validate_bindings_belong_to_host_def get_ports_for_host_def get_interfaces_for_host_def
    get_for_parent_def
proof (rule triple_if)
  show "triple (kept K S T) P (ret ()) (\<lambda>_ d. P d \<and> belonging h bs d)" if "bs = []"
    using that by (auto intro: triple_ret simp: belonging_def)
  let ?ps = "\<lambda>ps d. set ps = {p \<in> set (db_ports d). pb_host_id (port_base p) = h}"
  let ?is = "\<lambda>is d. set is = {i \<in> set (db_interfaces d). ib_host_id (interface_base i) = h}"
  show "triple (kept K S T) P
      (and_then_do (storage_get_all port_table (\<lambda>p. pb_host_id (port_base p) = h)) (\<lambda>ps.
       and_then_do (storage_get_all_ordered interface_table (\<lambda>i. ib_host_id (interface_base i) = h)
         Interface_position) (\<lambda>is.
       and_then_do (env io_show_uuid) (\<lambda>sh.
         of_result (validate_belong sh (set (map port_id ps)) (set (map interface_id is)) bs)))))
      (\<lambda>_ d. P d \<and> belonging h bs d)"
  proof (rule triple_bind [where R = "\<lambda>ps d. P d \<and> ?ps ps d"], rule triple_storage_get_all,
      simp add: port_table_def)
    fix ps
    show "triple (kept K S T) (\<lambda>d. P d \<and> ?ps ps d)
      (and_then_do (storage_get_all_ordered interface_table (\<lambda>i. ib_host_id (interface_base i) = h)
         Interface_position) (\<lambda>is.
       and_then_do (env io_show_uuid) (\<lambda>sh.
         of_result (validate_belong sh (set (map port_id ps)) (set (map interface_id is)) bs))))
      (\<lambda>_ d. P d \<and> belonging h bs d)"
    proof (rule triple_bind [where R = "\<lambda>is d. P d \<and> ?ps ps d \<and> ?is is d"],
        rule triple_storage_get_all_ordered, simp add: interface_table_def)
      fix "is"
      show "triple (kept K S T) (\<lambda>d. P d \<and> ?ps ps d \<and> ?is is d)
        (and_then_do (env io_show_uuid) (\<lambda>sh.
           of_result (validate_belong sh (set (map port_id ps)) (set (map interface_id is)) bs)))
        (\<lambda>_ d. P d \<and> belonging h bs d)"
      proof (rule triple_bind [where R = "\<lambda>_ d. P d \<and> ?ps ps d \<and> ?is is d"], rule triple_env, assumption,
          rule triple_of_result)
        fix sh x d
        assume ok: "validate_belong sh (set (map port_id ps)) (set (map interface_id is)) bs = Inr x"
          and d: "kept K S T d" "P d \<and> ?ps ps d \<and> ?is is d"
        from ok have "is_ok (validate_belong sh (set (map port_id ps)) (set (map interface_id is)) bs)"
          by simp
        then show "P d \<and> belonging h bs d"
          using d binding_invD(1) [OF keptD [OF d(1)]] unfolding validate_belong_iff belonging_def
          by (auto intro!: within_local)
      qed
    qed
  qed
qed

text \<open>Bindings that belong to the host and that no other service of the host claims may be written
  for service \<open>i\<close>: a binding of another host's service has another port.\<close>

lemma binding_service_row:
  assumes "binding_inv d" "c \<in> set (db_bindings d)"
  obtains s where "s \<in> set (db_services d)" "service_id s = binding_service_id c"
    "local_binding d (svb_host_id (service_base s)) c"
  using assms unfolding binding_inv_def refs_ok_def local_ok_def binding_refs_def by (metis imageE set_map)

lemma overlap_same_host:
  assumes inv: "binding_inv d" and c: "c \<in> set (db_bindings d)" and "bindings_overlap b c"
    and "local_binding d h b" "local_binding d h' c"
  shows "h = h'"
proof -
  obtain pid where pid: "Binding_port_id b = Some pid" "Binding_port_id c = Some pid" "pid \<in> port_id ` set (db_ports d)"
    using assms(3) binding_invD(2) [OF inv] c
    by (fastforce simp: bindings_overlap_def port_claim_def claims_overlap_def Binding_port_id_def refs_ok_def
        binding_refs_def binding_within_def split: option.splits BindingType.splits)
  then obtain p where "p \<in> set (db_ports d)" "port_id p = pid" by blast
  with pid assms(4,5) show ?thesis by (auto simp: local_binding_def)
qed

lemma may_bindI:
  assumes inv: "binding_inv d" and "belonging h bs d" "unclaimed h i bs d"
    and "\<forall>s \<in> set (db_services d). service_id s = i \<longrightarrow> on_host h s"
  shows "may_bind i h bs d"
  unfolding may_bind_def
proof (intro conjI ballI impI notI)
  fix b c assume b: "b \<in> set bs" and c: "c \<in> set (db_bindings d)" "binding_service_id c \<noteq> i" "bindings_overlap b c"
  obtain s where s: "s \<in> set (db_services d)" "service_id s = binding_service_id c"
    "local_binding d (svb_host_id (service_base s)) c"
    using binding_service_row [OF inv c(1)] .
  with overlap_same_host [OF inv c(1,3)] b assms(2) have "on_host h s" by (auto simp: belonging_def)
  with assms(3) b c s show False by (auto simp: unclaimed_def)
qed (use assms in \<open>auto simp: belonging_def\<close>)

subsection \<open>Groups and reads leave the rows of bindings alone\<close>

lemma keeps_core_update_group: "keeps_core (storage_update group_table g)"
  unfolding storage_update_def Let_def
  by (rule keeps_core_bind, rule keeps_core_simple, rule keeps_core_call)
    (auto simp: group_table_def core_def split: if_splits)

lemma keeps_core_groups:
  "keeps_core (get_for_group i)" "keeps_core (delete_for_group i)" "keeps_core (create_group_binding i pb)"
  "keeps_core (save_for_group i ids)" "keeps_core (group_get_by_id i)" "keeps_core (get_for_groups ids)"
  "keeps_core (group_get_all f)"
proof -
  show get: "keeps_core (get_for_group i)" for i
    unfolding get_for_group_def by (rule keeps_core_simple)
  show del: "keeps_core (delete_for_group i)"
    unfolding delete_for_group_def by (rule keeps_core_call) (auto simp: core_def)
  show cre: "keeps_core (create_group_binding i pb)" for pb
    unfolding create_group_binding_def by (rule keeps_core_call) (auto simp: core_def Let_def split: if_splits)
  show "keeps_core (save_for_group i ids)"
    unfolding save_for_group_def
    by (rule keeps_core_bind, rule del, rule keeps_core_bind, rule keeps_core_for_each, rule cre)
      (rule keeps_core_simple)
  show "keeps_core (group_get_by_id i)"
    unfolding group_get_by_id_def
    by (rule keeps_core_bind, rule keeps_core_reads, rule keeps_core_option, rule keeps_core_simple,
        rule keeps_core_bind, rule get) (rule keeps_core_simple)
  show gs: "keeps_core (get_for_groups ids)" for ids
    unfolding get_for_groups_def by (rule keeps_core_simple)
  show "keeps_core (group_get_all f)"
    unfolding group_get_all_def
    by (rule keeps_core_bind, rule keeps_core_reads, rule keeps_core_if, rule keeps_core_simple,
        rule keeps_core_bind, rule gs) (rule keeps_core_simple)
qed

lemma keeps_core_group_update: "keeps_core (group_update g)"
  unfolding group_update_def
  by (rule keeps_core_bind, rule keeps_core_groups, rule keeps_core_option, rule keeps_core_simple,
      rule keeps_core_bind, rule keeps_core_update_group, rule keeps_core_bind, rule keeps_core_groups,
      rule keeps_core_bind) (rule keeps_core_simple)+

lemma keeps_core_update_group_service_bindings: "keeps_core (update_group_service_bindings s u)"
  unfolding update_group_service_bindings_def Let_def
  by (rule keeps_core_bind, rule keeps_core_groups, rule keeps_core_bind, rule keeps_core_for_each,
      rule keeps_core_group_update) (rule keeps_core_simple)

lemma keeps_core_service_get_by_id: "keeps_core (service_get_by_id i)"
  unfolding service_get_by_id_def load_bindings_def
  by (rule keeps_core_bind, rule keeps_core_reads, rule keeps_core_option, rule keeps_core_simple,
      rule keeps_core_bind, rule keeps_core_bind, rule keeps_core_reads) (rule keeps_core_simple)+

subsection \<open>Service rows\<close>

abbreviation row_host :: "uuid \<Rightarrow> uuid \<Rightarrow> db \<Rightarrow> bool" where
  "row_host i h d \<equiv> (\<forall>s \<in> set (db_services d). service_id s = i \<longrightarrow> on_host h s)"

lemma on_core_row_host [simp, intro]: "on_core (row_host i h)"
  by (auto simp: on_core_def core_def)

lemma service_table_simps [simp]:
  "tb_id service_table = service_id" "tb_rows service_table = db_services"
  "tb_put service_table ss d = d\<lparr>db_services := ss\<rparr>" "tb_store service_table s = with_bindings s []"
  "tb_set_updated_at service_table t s = s\<lparr>service_updated_at := t\<rparr>"
  "tb_refs service_table d s = (svb_host_id (service_base s) \<in> host_id ` set (db_hosts d))"
  by (simp_all add: service_table_def)

lemma updated_services:
  "updated_rows service_table x d =
     d\<lparr>db_services := map (\<lambda>r. if service_id r = service_id x then with_bindings x [] else r) (db_services d)\<rparr>"
  by (simp add: updated_rows_def cong: if_cong)

lemma services_rows_inv:
  assumes inv: "binding_inv d" and ids: "distinct (map service_id ss)"
    "service_id ` set (db_services d) \<subseteq> service_id ` set ss"
    and hosts: "\<And>s. s \<in> set ss \<Longrightarrow> svb_host_id (service_base s) \<in> host_id ` set (db_hosts d)"
    and same: "\<And>s r. s \<in> set ss \<Longrightarrow> r \<in> set (db_services d) \<Longrightarrow> service_id r = service_id s \<Longrightarrow>
      svb_host_id (service_base s) = svb_host_id (service_base r)"
    and bare: "\<And>s. s \<in> set ss \<Longrightarrow> svb_bindings (service_base s) = []"
  shows "binding_inv (d\<lparr>db_services := ss\<rparr>)"
  unfolding binding_inv_def
proof (intro conjI)
  show "refs_ok (d\<lparr>db_services := ss\<rparr>)"
    using binding_invD(2) [OF inv] ids(2) hosts by (auto simp: refs_ok_def binding_refs_def subset_iff)
  show "local_ok (d\<lparr>db_services := ss\<rparr>)"
    unfolding local_ok_def
  proof (intro ballI impI)
    fix b s assume b: "b \<in> set (db_bindings (d\<lparr>db_services := ss\<rparr>))"
      and s: "s \<in> set (db_services (d\<lparr>db_services := ss\<rparr>))" "service_id s = binding_service_id b"
    obtain r where r: "r \<in> set (db_services d)" "service_id r = binding_service_id b"
      "local_binding d (svb_host_id (service_base r)) b"
      using binding_service_row [OF inv] b by auto
    with s same [of s r] show "local_binding (d\<lparr>db_services := ss\<rparr>) (svb_host_id (service_base s)) b"
      by (auto simp: local_binding_def)
  qed
qed (use binding_invD [OF inv] ids(1) bare in \<open>auto simp: ids_ok_def exclusive_def bare_services_def\<close>)

lemma may_bind_services:
  assumes "may_bind i h bs d" "\<forall>s \<in> set ss. service_id s = i \<longrightarrow> on_host h s"
  shows "may_bind i h bs (d\<lparr>db_services := ss\<rparr>)"
  using assms by (auto simp: may_bind_def local_binding_def)

lemma triple_update_service_row:
  assumes "service_id x = i" "on_host h x"
  shows "triple (kept K S T) (\<lambda>d. may_bind i h bs d \<and> row_host i h d) (storage_update service_table x)
    (\<lambda>x' d. may_bind i h bs d \<and> service_id x' = i \<and> on_host h x' \<and>
       svb_bindings (service_base x') = svb_bindings (service_base x))"
proof (rule triple_storage_update)
  fix d t x'
  assume kept: "kept K S T d" and d: "may_bind i h bs d \<and> row_host i h d"
    and x': "x' = tb_set_updated_at service_table t x" "tb_refs service_table d x'"
  let ?ss = "map (\<lambda>r. if service_id r = service_id x' then with_bindings x' [] else r) (db_services d)"
  note inv = keptD [OF kept]
  have eq: "map service_id ?ss = map service_id (db_services d)" by simp
  then have ids: "distinct (map service_id ?ss)" using binding_invD(1) [OF inv] by (simp only: ids_ok_def)
  have img: "service_id ` set (db_services d) \<subseteq> service_id ` set ?ss"
    using arg_cong [OF eq, of set] unfolding set_map by blast
  have "binding_inv (d\<lparr>db_services := ?ss\<rparr>)"
    using d x' assms binding_invD [OF inv] eq_of_same_id [of service_id "db_services d"]
    by (intro services_rows_inv [OF inv ids img]) (auto simp: refs_ok_def ids_ok_def bare_services_def split: if_splits)
  then have "kept K S T (d\<lparr>db_services := ?ss\<rparr>)"
    using kept d x' assms by (auto simp: kept_def image_subset_iff split: if_splits)
  moreover have "may_bind i h bs (d\<lparr>db_services := ?ss\<rparr>)"
    using d x' assms by (intro may_bind_services) (auto split: if_splits)
  moreover have "service_id x' = i" "on_host h x'"
    "svb_bindings (service_base x') = svb_bindings (service_base x)"
    using assms x' by simp_all
  ultimately show "kept K S T (updated_rows service_table x' d) \<and>
      may_bind i h bs (updated_rows service_table x' d) \<and> service_id x' = i \<and> on_host h x' \<and>
      svb_bindings (service_base x') = svb_bindings (service_base x)"
    unfolding updated_services by blast
qed (use assms in auto)

lemma deduplicate_bindings_subset: "set (deduplicate_bindings bs) \<subseteq> set bs"
  unfolding deduplicate_bindings_def by (rule deduplicate_from_subset)

lemma keeps_core_publish_ret: "keeps_core (and_then_do (publish opn e st) (\<lambda>_. ret x))"
  by (rule keeps_core_bind) (rule keeps_core_simple)+

lemma triple_save_and_publish:
  assumes "\<And>x'. keeps_core (g x')" "types_in bs T"
  shows "triple (kept K S T) (\<lambda>d. may_bind i h bs d \<and> service_id x = i \<and> set cs \<subseteq> set bs)
    (and_then_do (save_bindings x cs) g) (\<lambda>_ _. True)"
proof (rule triple_pre)
  fix d assume d: "may_bind i h bs d \<and> service_id x = i \<and> set cs \<subseteq> set bs"
  then have "triple (kept K S T) (may_bind i h bs) (save_bindings x cs) (\<lambda>_. may_bind i h bs)"
    using assms(2) by (intro save_bindings_inv) auto
  then show "triple (kept K S T) (\<lambda>e. e = d) (and_then_do (save_bindings x cs) g) (\<lambda>_ _. True)"
    by (rule triple_bind [OF triple_conseq])
      (use d in \<open>auto intro!: triple_conseq [OF triple_core_read [OF assms(1), of "\<lambda>_. True"]] simp: on_core_def\<close>)
qed

lemma triple_service_update:
  assumes i: "service_id service = i" and h: "on_host h service"
    and T: "types_in (svb_bindings (service_base service)) T"
  shows "triple (kept K S T) (row_host i h) (service_update service) (\<lambda>_ _. True)"
proof -
  let ?bs = "deduplicate_bindings (svb_bindings (service_base service))"
  let ?s = "with_bindings service ?bs"
  let ?ok = "\<lambda>d. may_bind i h ?bs d \<and> row_host i h d"
  have T': "types_in ?bs T"
    using T deduplicate_bindings_subset by blast
  have checked: "triple (kept K S T) (\<lambda>d. (row_host i h d \<and> belonging h ?bs d) \<and> unclaimed h i ?bs d)
      (update_group_service_bindings current (Some ?s)) (\<lambda>_. ?ok)" for current
    by (rule triple_conseq [OF triple_core_read [OF keeps_core_update_group_service_bindings, where P = ?ok]])
      (auto intro: may_bindI keptD)
  have stored: "triple (kept K S T) ?ok
      (and_then_do (storage_update service_table ?s) (\<lambda>updated.
       and_then_do (save_bindings updated ?bs) (\<lambda>saved.
       and_then_do (publish EntityOperation_Updated (Entity_Service saved)
          (Service_triggers_staleness saved (Some current))) (\<lambda>_. ret saved)))) (\<lambda>_ _. True)" for current
    by (rule triple_bind [OF triple_update_service_row], simp add: i, simp add: h,
        rule triple_conseq [OF triple_save_and_publish [where i = i and h = h and bs = ?bs]],
        rule keeps_core_publish_ret, rule T') auto
  have "triple (kept K S T) (row_host i h)
      (and_then_do (of_result (validate_bindings_no_conflicts ?bs)) (\<lambda>_.
       and_then_do (validate_bindings_belong_to_host h ?bs) (\<lambda>_.
       and_then_do (validate_bindings_available h i ?bs) (\<lambda>_.
       and_then_do (update_group_service_bindings current (Some ?s)) (\<lambda>_.
       and_then_do (storage_update service_table ?s) (\<lambda>updated.
       and_then_do (save_bindings updated ?bs) (\<lambda>saved.
       and_then_do (publish EntityOperation_Updated (Entity_Service saved)
          (Service_triggers_staleness saved (Some current))) (\<lambda>_. ret saved)))))))) (\<lambda>_ _. True)" for current
    by (rule triple_bind [where R = "\<lambda>_. row_host i h"], rule triple_of_result, assumption,
        rule triple_bind [OF triple_belong], rule triple_bind [OF triple_available],
        rule triple_bind [OF checked], rule stored)
  then show ?thesis
    unfolding service_update_def Let_def
    by (intro triple_bind [OF triple_core_read [OF keeps_core_service_get_by_id]] triple_option triple_raise)
      (simp_all add: i h)
qed

subsection \<open>Creating a service\<close>

lemma merge_bindings_subset: "set (fst (merge_bindings existing new)) \<subseteq> set existing \<union> set new"
  unfolding merge_bindings_def
  by (rule foldl_invariant [where P = "\<lambda>st. set (fst st) \<subseteq> set existing \<union> set new"])
    (auto simp: merge_binding_def Let_def split: BindingType.splits option.splits if_splits)

definition new_service_id :: "uuid \<Rightarrow> db \<Rightarrow> bool" where
  "new_service_id i d \<longleftrightarrow> i \<notin> service_id ` set (db_services d)"

definition free_bindings :: "Binding list \<Rightarrow> db \<Rightarrow> bool" where
  "free_bindings bs d \<longleftrightarrow> (\<forall>b \<in> set bs. \<forall>c \<in> set (db_bindings d). \<not> bindings_overlap b c)"

text \<open>What a caller of \<open>create\<close> has to know: a service from discovery binds ports of its host that
  nothing else is bound to, another service has an identifier that no service of the host has.\<close>

definition creatable :: "Service \<Rightarrow> db \<Rightarrow> bool" where
  "creatable s d \<longleftrightarrow>
     (if EntitySource_is_from_discovery (svb_source (service_base s))
      then belonging (svb_host_id (service_base s)) (svb_bindings (service_base s)) d \<and>
           free_bindings (svb_bindings (service_base s)) d
      else service_key s \<notin> service_key ` set (db_services d))"

definition claims_checked :: "Service \<Rightarrow> db \<Rightarrow> bool" where
  "claims_checked s d \<longleftrightarrow>
     (EntitySource_is_from_discovery (svb_source (service_base s)) \<longrightarrow>
        belonging (svb_host_id (service_base s)) (svb_bindings (service_base s)) d \<and>
        unclaimed (svb_host_id (service_base s)) (service_id s) (svb_bindings (service_base s)) d)"

lemma on_core_creation [simp, intro]:
  "on_core (new_service_id i)" "on_core (claims_checked s)"
  by (auto simp: on_core_def new_service_id_def claims_checked_def belonging_def unclaimed_def
      local_binding_def core_def)

lemma triple_create_service_row:
  assumes i: "service_id s = i" "(i, h) \<in> S" and h: "on_host h s"
  shows "triple (kept K S T) (\<lambda>d. belonging h bs d \<and> unclaimed h i bs d) (storage_create service_table s)
    (\<lambda>s' d. may_bind i h bs d \<and> s' = s)"
proof (rule triple_storage_create, goal_cases)
  case (1 d)
  note I = keptD [OF 1(1)]
  have new: "i \<notin> service_id ` set (db_services d)"
    using 1(3) i(1) by (auto simp: unique_violation_def split: if_splits)
  then have new': "service_id r \<noteq> i" if "r \<in> set (db_services d)" for r using that by auto
  have "distinct (map service_id (db_services d @ [with_bindings s []]))"
    using services.distinct_inserted [of "db_services d" s] 1 binding_invD(1) [OF I]
    by (simp add: ids_ok_def)
  then have inv: "binding_inv (d\<lparr>db_services := db_services d @ [with_bindings s []]\<rparr>)"
    using I 1(2-) new' i binding_invD(2,5) [OF I] eq_of_same_id [of service_id "db_services d"]
      binding_invD(1) [OF I]
    by (intro services_rows_inv [OF I]) (auto simp: refs_ok_def ids_ok_def bare_services_def)
  have "may_bind i h bs (d\<lparr>db_services := db_services d @ [with_bindings s []]\<rparr>)"
  proof (rule may_bindI [OF inv])
    show "belonging h bs (d\<lparr>db_services := db_services d @ [with_bindings s []]\<rparr>)"
      using 1(2) by (auto simp: belonging_def local_binding_def)
    show "unclaimed h i bs (d\<lparr>db_services := db_services d @ [with_bindings s []]\<rparr>)"
      using 1(2) i by (auto simp: unclaimed_def)
    show "row_host i h (d\<lparr>db_services := db_services d @ [with_bindings s []]\<rparr>)"
      using new' h i by auto
  qed
  with inv 1(1) i h show ?case by (simp add: kept_def)
qed

lemma triple_create_new_service:
  assumes "service_key s \<in> S" and T: "types_in (svb_bindings (service_base s)) T"
  shows "triple (kept K S T) (claims_checked s) (create_new_service pos s) (\<lambda>_ _. True)"
proof -
  let ?s = "Service_set_position s pos"
  let ?bs = "svb_bindings (service_base s)" and ?h = "svb_host_id (service_base s)"
  have simps: "service_id ?s = service_id s" "svb_bindings (service_base ?s) = ?bs"
    "svb_host_id (service_base ?s) = ?h" "svb_source (service_base ?s) = svb_source (service_base s)"
    by (simp_all add: Service_set_position_def)
  have avail: "triple (kept K S T) (\<lambda>d. claims_checked s d \<and> belonging ?h ?bs d)
      (if \<not> EntitySource_is_from_discovery (svb_source (service_base s))
       then validate_bindings_available ?h (service_id s) ?bs else ret ())
      (\<lambda>_ d. belonging ?h ?bs d \<and> unclaimed ?h (service_id s) ?bs d)"
    by (rule triple_if, rule triple_conseq [OF triple_available], assumption)
      (auto intro!: triple_ret simp: claims_checked_def)
  have stored: "triple (kept K S T) (\<lambda>d. belonging ?h ?bs d \<and> unclaimed ?h (service_id s) ?bs d)
      (and_then_do (storage_create service_table ?s) (\<lambda>created.
       and_then_do (save_bindings created ?bs) (\<lambda>saved.
       and_then_do (publish EntityOperation_Created (Entity_Service saved)
          (Service_triggers_staleness saved None)) (\<lambda>_. ret saved)))) (\<lambda>_ _. True)"
    by (rule triple_bind [OF triple_create_service_row], simp add: simps, rule assms(1), simp add: simps,
        rule triple_conseq [OF triple_save_and_publish [where i = "service_id s" and h = ?h and bs = ?bs]],
        rule keeps_core_publish_ret, rule T) (auto simp: simps)
  show ?thesis
    unfolding create_new_service_def Let_def simps
    by (rule triple_bind [where R = "\<lambda>_. claims_checked s"], rule triple_of_result, assumption,
        rule triple_bind [OF triple_belong], rule triple_bind [OF avail], rule stored)
qed

lemma belonging_append: "belonging h (as @ bs) d \<longleftrightarrow> belonging h as d \<and> belonging h bs d"
  by (auto simp: belonging_def)

lemma unclaimed_append: "unclaimed h i (as @ bs) d \<longleftrightarrow> unclaimed h i as d \<and> unclaimed h i bs d"
  unfolding unclaimed_def set_append ball_Un by blast

lemma may_bind_merged:
  assumes inv: "binding_inv d" and ss: "lists_bindings (on_host h) ss d"
    and e: "existing \<in> set ss" and bs: "belonging h bs d" "free_bindings bs d"
  shows "on_host h existing \<and> row_host (service_id existing) h d \<and>
    may_bind (service_id existing) h (svb_bindings (service_base existing) @ bs) d"
proof -
  let ?row = "with_bindings existing []"
  have row: "?row \<in> set (db_services d)" "on_host h ?row"
    and rows: "b \<in> set (db_bindings d) \<and> binding_service_id b = service_id existing"
      if "b \<in> set (svb_bindings (service_base existing))" for b
    using ss binding_invD(5) [OF inv] e that by (auto simp: lists_bindings_def)
  have row': "?row \<in> set (db_services d)" "on_host h existing"
    using ss binding_invD(5) [OF inv] e by (auto simp: lists_bindings_def)
  have "s = ?row" if "s \<in> set (db_services d)" "service_id s = service_id existing" for s
    using that row' eq_of_same_id [of service_id "db_services d" s ?row] binding_invD(1) [OF inv]
    by (simp add: ids_ok_def)
  then have same: "row_host (service_id existing) h d"
    using row'(2) by fastforce
  have "belonging h (svb_bindings (service_base existing)) d"
    unfolding belonging_def
    using rows row' binding_invD(4) [OF inv, unfolded local_ok_def, rule_format, of _ ?row] by simp
  moreover have "unclaimed h (service_id existing) (svb_bindings (service_base existing)) d"
    unfolding unclaimed_def
    using rows binding_invD(3) [OF inv, unfolded exclusive_def, rule_format] by metis
  moreover have "unclaimed h (service_id existing) bs d"
    using bs(2) by (auto simp: unclaimed_def free_bindings_def)
  ultimately have "may_bind (service_id existing) h (svb_bindings (service_base existing) @ bs) d"
    using bs(1) same by (intro may_bindI inv) (simp_all only: belonging_append unclaimed_append simp_thms)
  with same row'(2) show ?thesis by simp
qed

lemma triple_pre_inv: "(\<And>d. I d \<Longrightarrow> P d \<Longrightarrow> triple I (\<lambda>e. e = d) m Q) \<Longrightarrow> triple I P m Q"
  unfolding triple_def by blast

lemma triple_upsert_service:
  assumes "\<And>d. kept K S T d \<Longrightarrow> P d \<Longrightarrow> on_host h existing \<and> row_host (service_id existing) h d \<and>
    may_bind (service_id existing) h (svb_bindings (service_base existing) @ svb_bindings (service_base new)) d"
    and rows: "\<And>d b. kept K S T d \<Longrightarrow> P d \<Longrightarrow> b \<in> set (svb_bindings (service_base existing)) \<Longrightarrow>
      b \<in> set (db_bindings d)"
    and T: "types_in (svb_bindings (service_base new)) T"
  shows "triple (kept K S T) P (upsert_service existing new) (\<lambda>_ _. True)"
proof -
  let ?i = "service_id existing"
  let ?bs = "svb_bindings (service_base existing) @ svb_bindings (service_base new)"
  obtain merged n where m: "merge_service existing new = (merged, n)" by force
  have merged: "service_id merged = ?i" "svb_host_id (service_base merged) = svb_host_id (service_base existing)"
    "set (svb_bindings (service_base merged)) \<subseteq> set ?bs"
    using m merge_bindings_subset [of "svb_bindings (service_base existing)" "svb_bindings (service_base new)"]
    by (auto simp: merge_service_def Let_def split: prod.splits)
  have pub: "keeps_core (if n > 0 then and_then_do (publish opn e st) (\<lambda>_. ret x) else ret x)"
    for opn e st and x :: Service
    by (rule keeps_core_if, rule keeps_core_publish_ret, rule keeps_core_simple)
  have "triple (kept K S T) (\<lambda>d. P d \<and> on_host h existing)
      (and_then_do (storage_update service_table merged) (\<lambda>stored.
       and_then_do (save_bindings stored (svb_bindings (service_base stored))) (\<lambda>saved.
         if n > 0 then and_then_do (publish EntityOperation_Updated (Entity_Service saved)
            (Service_triggers_staleness saved (Some existing))) (\<lambda>_. ret saved)
         else ret saved))) (\<lambda>_ _. True)"
  proof (rule triple_pre_inv)
    fix d assume kept: "kept K S T d" and d: "P d \<and> on_host h existing"
    have T': "types_in ?bs T" using T rows [OF kept] kept_types [OF kept] d by auto
    show "triple (kept K S T) (\<lambda>e. e = d)
      (and_then_do (storage_update service_table merged) (\<lambda>stored.
       and_then_do (save_bindings stored (svb_bindings (service_base stored))) (\<lambda>saved.
         if n > 0 then and_then_do (publish EntityOperation_Updated (Entity_Service saved)
            (Service_triggers_staleness saved (Some existing))) (\<lambda>_. ret saved)
         else ret saved))) (\<lambda>_ _. True)"
      by (rule triple_bind [OF triple_conseq [OF triple_update_service_row
              [where h = h and i = ?i and bs = ?bs]]], simp add: merged, simp add: merged d,
          use assms(1) d in blast, assumption,
          rule triple_conseq [OF triple_save_and_publish [where i = ?i and h = h and bs = ?bs]], rule pub, rule T')
        (use merged in auto)
  qed
  then show ?thesis
    unfolding upsert_service_def m Let_def case_prod_conv
    by (rule triple_conseq) (use assms(1) in auto)
qed

lemma and_then_ret [simp]: "and_then_do (ret x) f = f x"
  by (simp add: fun_eq_iff and_then_do_def ret_def)

lemma find_in_set: "find p xs = Some x \<Longrightarrow> x \<in> set xs"
  by (auto simp: find_Some_iff)

lemma triple_create_identified:
  assumes "service_key s \<in> S" "types_in (svb_bindings (service_base s)) T"
  shows "triple (kept K S T) (creatable s) (create_identified s) (\<lambda>_ _. True)"
proof -
  let ?bs = "deduplicate_bindings (svb_bindings (service_base s))"
  let ?s = "with_bindings s ?bs"
  let ?h = "svb_host_id (service_base s)"
  have T': "types_in ?bs T"
    using assms(2) deduplicate_bindings_subset by blast
  have sub: "belonging ?h ?bs d" "free_bindings ?bs d"
    if "creatable s d" "EntitySource_is_from_discovery (svb_source (service_base s))" for d
    using that deduplicate_bindings_subset by (auto simp: creatable_def belonging_def free_bindings_def subset_iff)
  have checked: "claims_checked ?s d" if "creatable s d" for d
    using sub [OF that] by (auto simp: claims_checked_def free_bindings_def unclaimed_def)
  have create: "triple (kept K S T) (\<lambda>d. creatable s d \<and>
      lists_bindings (on_host ?h) ss d) (create_new_service n ?s) (\<lambda>_ _. True)" for n ss
    by (rule triple_conseq [OF triple_create_new_service]) (use T' in \<open>auto intro: checked simp: assms\<close>)
  have upsert: "triple (kept K S T) (\<lambda>d. creatable s d \<and>
      lists_bindings (on_host ?h) ss d) (upsert_service e ?s) (\<lambda>_ _. True)"
    if e: "e \<in> set ss" and up: "upserts_into ?s e" for e ss
  proof (rule triple_upsert_service [where h = ?h])
    fix d assume kept: "kept K S T d" and d: "creatable s d \<and>
      lists_bindings (on_host ?h) ss d"
    note inv = keptD [OF kept]
    have "with_bindings e [] \<in> set (db_services d)"
      using d e binding_invD(5) [OF inv] by (auto simp: lists_bindings_def)
    moreover have "on_host ?h (with_bindings e [])"
      using d e binding_invD(5) [OF inv] by (auto simp: lists_bindings_def)
    ultimately have stored: "(service_id e, ?h) \<in> service_key ` set (db_services d)"
      by (intro image_eqI [of _ service_key "with_bindings e []"]) simp_all
    have "EntitySource_is_from_discovery (svb_source (service_base s))"
      using up d stored by (auto simp: upserts_into_def creatable_def split: if_splits)
    with sub d have bs: "belonging ?h ?bs d" "free_bindings ?bs d" by auto
    show "on_host ?h e \<and> row_host (service_id e) ?h d \<and>
        may_bind (service_id e) ?h (svb_bindings (service_base e) @ svb_bindings (service_base ?s)) d"
      using may_bind_merged [OF inv _ e bs] d by auto
  next
    fix d b assume "kept K S T d" "creatable s d \<and>
      lists_bindings (on_host ?h) ss d" "b \<in> set (svb_bindings (service_base e))"
    then show "b \<in> set (db_bindings d)"
      using e binding_invD(5) [OF keptD] by (auto simp: lists_bindings_def)
  qed (use T' in simp)
  have step: "triple (kept K S T) (\<lambda>d. creatable s d \<and>
      lists_bindings (on_host ?h) ss d)
      (case find (\<lambda>e. Service_eq e ?s) ss of
         Some e \<Rightarrow> if upserts_into ?s e then upsert_service e ?s else create_new_service (next_position ss) ?s
       | None \<Rightarrow> create_new_service (next_position ss) ?s) (\<lambda>_ _. True)" for ss
    by (rule triple_option, rule create, rule triple_if, rule upsert, erule find_in_set, assumption, rule create)
  have "create_identified s = and_then_do (service_get_all (on_host ?h)) (\<lambda>ss.
      case find (\<lambda>e. Service_eq e ?s) ss of
        Some e \<Rightarrow> if upserts_into ?s e then upsert_service e ?s else create_new_service (next_position ss) ?s
      | None \<Rightarrow> create_new_service (next_position ss) ?s)"
    by (simp add: create_identified_def Let_def cong: option.case_cong if_cong)
  then show ?thesis
    using triple_bind [OF triple_service_get_all step] by simp
qed

lemma triple_service_create:
  assumes "service_id s \<noteq> uuid_nil" "service_key s \<in> S" "types_in (svb_bindings (service_base s)) T"
  shows "triple (kept K S T) (creatable s) (service_create s) (\<lambda>_ _. True)"
  using triple_create_identified [OF assms(2,3)] assms(1) by (simp add: service_create_def ensure_id_def)

lemma triple_discovered_service_create:
  assumes "EntitySource_is_from_discovery (svb_source (service_base s))"
  shows "triple (kept K UNIV UNIV) (creatable s) (service_create s) (\<lambda>_ _. True)"
proof -
  have renewed: "creatable (tb_renew service_table i t s) d = creatable s d" for i t d
    using assms by (simp add: creatable_def service_table_def Service_new_def)
  have ensured: "triple (kept K UNIV UNIV) (creatable s) (ensure_id service_table s) (\<lambda>s'. creatable s')"
    unfolding ensure_id_def
    by (rule triple_if, rule triple_bind [where R = "\<lambda>_. creatable s"], rule triple_fresh_id, assumption,
        rule triple_bind [where R = "\<lambda>_. creatable s"], rule triple_now, assumption)
      (auto intro!: triple_ret simp: renewed)
  show ?thesis
    unfolding service_create_def
    by (rule triple_bind [OF ensured]) (rule triple_create_identified; simp)
qed

subsection \<open>Deleting services\<close>

lemmas inv_core_read = triple_core_read [where K = "\<lambda>_. True" and S = UNIV and T = UNIV, unfolded kept_UNIV]

lemma triple_service_delete:
  "triple binding_inv (\<lambda>_. True) (service_delete i)
     (\<lambda>_ d. i \<notin> service_id ` set (db_services d) \<and> (\<forall>b \<in> set (db_bindings d). binding_service_id b \<noteq> i))"
proof -
  have del: "triple binding_inv (\<lambda>_. True) (storage_delete service_table i)
     (\<lambda>_ d. i \<notin> service_id ` set (db_services d) \<and> (\<forall>b \<in> set (db_bindings d). binding_service_id b \<noteq> i))"
    (is "triple _ _ _ ?Q")
    by (rule triple_storage_delete)
      (auto simp: cascade_def Let_def dest: cascade_filter_inv(1) [where f = "\<lambda>s. service_id s \<noteq> i"])
  have "triple binding_inv (\<lambda>_. True)
      (and_then_do (update_group_service_bindings s None) (\<lambda>_.
       and_then_do (storage_delete service_table i) (\<lambda>_.
         publish EntityOperation_Deleted (Entity_Service s) (Service_triggers_staleness s None)))) ?Q" for s
    by (rule triple_bind [OF inv_core_read [OF keeps_core_update_group_service_bindings]],
        simp add: on_core_def, rule triple_bind [OF del], rule triple_publish)
  then show ?thesis
    unfolding service_delete_def
    by (intro triple_bind [OF inv_core_read [OF keeps_core_service_get_by_id]] triple_option
        triple_bind [where R = "\<lambda>_ _. True" and m = "env _"] triple_env triple_raise)
      (auto simp: on_core_def)
qed

lemma keeps_core_service_publish_deleted: "keeps_core (service_publish_deleted i)"
  unfolding service_publish_deleted_def
  by (rule keeps_core_bind, rule keeps_core_service_get_by_id) (rule keeps_core_option; rule keeps_core_simple)

lemma triple_service_delete_many: "triple binding_inv (\<lambda>_. True) (service_delete_many ids) (\<lambda>_ _. True)"
proof -
  have "triple binding_inv (\<lambda>_. True) (storage_delete_many service_table ids) (\<lambda>_ _. True)"
    by (rule triple_storage_delete_many) (auto intro: cascade_filter_inv)
  then show ?thesis
    unfolding service_delete_many_def
    by (intro triple_if triple_ret TrueI triple_bind
        [OF inv_core_read [OF keeps_core_for_each [OF keeps_core_service_publish_deleted]]])
      (simp_all add: on_core_def)
qed

subsection \<open>A refused update changes nothing\<close>

lemma triple_belong_reads: "triple I P (validate_bindings_belong_to_host h bs) (\<lambda>_. P)"
  unfolding validate_bindings_belong_to_host_def get_ports_for_host_def get_interfaces_for_host_def
    get_for_parent_def
  by (rule triple_if, rule triple_ret, assumption, rule triple_bind [where R = "\<lambda>_. P"],
      rule triple_storage_get_all, assumption, rule triple_bind [where R = "\<lambda>_. P"],
      rule triple_storage_get_all_ordered, assumption, rule triple_bind [where R = "\<lambda>_. P"],
      rule triple_env, assumption, rule triple_of_result, assumption)

lemma triple_service_get_by_id_reads: "triple I P (service_get_by_id i) (\<lambda>_. P)"
  unfolding service_get_by_id_def load_bindings_def get_for_parent_def
  by (rule triple_bind [where R = "\<lambda>_. P"], rule triple_storage_get_by_id, assumption, rule triple_option,
      rule triple_ret, assumption, rule triple_bind [where R = "\<lambda>_. P"], rule triple_bind [where R = "\<lambda>_. P"],
      rule triple_storage_get_all, assumption) (rule triple_ret, assumption)+

lemma triple_false: "(\<And>d. I d \<Longrightarrow> \<not> P d) \<Longrightarrow> triple I P m Q"
  by (simp add: triple_def)

lemma triple_update_refused:
  assumes "\<not> unclaimed (svb_host_id (service_base s)) (service_id s)
      (deduplicate_bindings (svb_bindings (service_base s))) d"
  shows "triple (\<lambda>e. e = d) (\<lambda>_. True) (service_update s) (\<lambda>_ _. False)"
proof -
  let ?bs = "deduplicate_bindings (svb_bindings (service_base s))"
  let ?h = "svb_host_id (service_base s)"
  have "triple (\<lambda>e. e = d) (\<lambda>_. True)
      (and_then_do (of_result (validate_bindings_no_conflicts ?bs)) (\<lambda>_.
       and_then_do (validate_bindings_belong_to_host ?h ?bs) (\<lambda>_.
       and_then_do (validate_bindings_available ?h (service_id s) ?bs) g))) (\<lambda>_ _. False)"
    for g :: "unit \<Rightarrow> Service action"
    by (rule triple_bind [where R = "\<lambda>_ _. True"], rule triple_of_result, simp,
        rule triple_bind [OF triple_belong_reads], rule triple_bind [OF triple_available], rule triple_false)
      (use assms in simp)
  then show ?thesis
    unfolding service_update_def Let_def
    by (intro triple_bind [OF triple_service_get_by_id_reads] triple_option triple_raise) simp_all
qed

subsection \<open>The operations keep the invariant\<close>

definition sample_host :: "uuid \<Rightarrow> Host" where
  "sample_host i =
     Host_new i 0 \<lparr>hb_name = ''host'', hb_network_id = 1, hb_hostname = None, hb_description = None,
       hb_source = EntitySource_Manual, hb_virtualization = None, hb_hidden = False, hb_tags = []\<rparr>"

definition sample_port :: "uuid \<Rightarrow> uuid \<Rightarrow> PortType \<Rightarrow> Port" where
  "sample_port i h t =
     \<lparr>port_id = i, port_created_at = 0, port_updated_at = 0,
      port_base = \<lparr>pb_host_id = h, pb_network_id = 1, pb_port_type = t\<rparr>\<rparr>"

definition sample_binding :: "uuid \<Rightarrow> uuid \<Rightarrow> uuid \<Rightarrow> Binding" where
  "sample_binding i s p =
     Binding_new i 0 \<lparr>bb_service_id = s, bb_network_id = 1, bb_binding_type = BindingType_Port p None\<rparr>"

definition sample_server :: "uuid \<Rightarrow> uuid \<Rightarrow> EntitySource \<Rightarrow> Binding list \<Rightarrow> Service" where
  "sample_server i h src bs =
     Service_new i 0 (ServiceBase_default\<lparr>svb_host_id := h, svb_name := ''server'', svb_network_id := 1,
       svb_source := src, svb_bindings := bs\<rparr>)"

text \<open>Host 2 with ports 80 (row 20) and 443 (row 21); service 30 is bound to the first.\<close>

definition sample_db :: db where
  "sample_db =
     \<lparr>db_hosts = [sample_host 2], db_interfaces = [],
      db_ports = [sample_port 20 2 PortType_Http, sample_port 21 2 PortType_Https],
      db_services = [sample_server 30 2 EntitySource_Manual [], sample_server 31 2 EntitySource_Manual []],
      db_bindings = [sample_binding 40 30 20], db_groups = [], db_group_bindings = [], db_daemon_hosts = []\<rparr>"

definition sample_world :: "db \<Rightarrow> world" where
  "sample_world d = \<lparr>w_db = d, w_events = [], w_calls = 0, w_drawn = 0\<rparr>"

definition sample_io :: io where
  "sample_io =
     \<lparr>io_fault = (\<lambda>_. None), io_now = (\<lambda>n. int n), io_fresh = (\<lambda>n. of_nat (100 + n)), io_show_uuid = (\<lambda>_. ''id''),
      io_show_time = (\<lambda>_. ''time'')\<rparr>"

lemmas sample_defs =
  sample_host_def sample_port_def sample_binding_def sample_server_def sample_db_def sample_world_def
  Host_new_def Binding_new_def Service_new_def ServiceBase_default_def

lemma sample_db_inv: "binding_inv sample_db"
  unfolding binding_inv_def
proof (intro conjI)
  show "ids_ok sample_db" by (simp add: ids_ok_def sample_defs)
  show "refs_ok sample_db" by (simp add: refs_ok_def binding_refs_def binding_within_def sample_defs)
  show "exclusive sample_db" by (simp add: exclusive_def sample_defs)
  show "local_ok sample_db" by (simp add: local_ok_def local_binding_def Binding_interface_id_def sample_defs)
  show "bare_services sample_db" by (simp add: bare_services_def sample_defs)
qed

text \<open>C8. Updating a service keeps the invariant on bindings, wherever the operation stops: rows have
  different identifiers and refer to existing rows, no two services claim one port on a common
  interface, and services bind ports and interfaces of their own host. The update leaves the service
  on its host; any statement sent to the database may fail.\<close>

theorem service_update_keeps_claims:
  assumes "binding_inv (w_db w)"
    and "list_all (\<lambda>s. service_id s = service_id service \<longrightarrow>
           svb_host_id (service_base s) = svb_host_id (service_base service)) (db_services (w_db w))"
  shows "binding_inv (w_db (fst (service_update service io w)))"
  using tripleD(1) [OF triple_service_update [OF refl refl subset_UNIV, where K = "\<lambda>_. True" and S = UNIV], where w = w and io = io] assms
  by (simp add: list_all_iff kept_UNIV)

theorem service_update_keeps_claims_witness:
  "binding_inv (w_db (fst (service_update
     (sample_server 31 2 EntitySource_Manual [sample_binding 41 31 21]) sample_io (sample_world sample_db))))"
  by (rule service_update_keeps_claims) (simp_all add: sample_db_inv sample_world_def, simp add: sample_defs)

text \<open>C9. Creating a service keeps the invariant on bindings, wherever the operation stops. A manual
  service is checked, and must have an identifier that no service of the host has; a service from
  discovery is not checked for claimed ports: its bindings must belong to the host and overlap no
  stored binding, then it may also be merged into a stored service.\<close>

theorem service_create_keeps_claims:
  assumes "binding_inv (w_db w)" and "service_id service \<noteq> uuid_nil" and "creatable service (w_db w)"
  shows "binding_inv (w_db (fst (service_create service io w)))"
  using tripleD(1) [OF triple_service_create [OF assms(2) UNIV_I subset_UNIV, where K = "\<lambda>_. True"],
      where w = w and io = io] assms
  by (simp add: kept_UNIV)

theorem service_create_keeps_claims_witness:
  "binding_inv (w_db (fst (service_create
     (sample_server 32 2 (EntitySource_Discovery []) [sample_binding 41 32 21])
     sample_io (sample_world sample_db))))"
proof (rule service_create_keeps_claims)
  show "creatable (sample_server 32 2 (EntitySource_Discovery []) [sample_binding 41 32 21])
      (w_db (sample_world sample_db))"
    by (simp add: creatable_def belonging_def local_binding_def free_bindings_def bindings_overlap_def
        port_claim_def claims_overlap_def Binding_interface_id_def sample_defs)
qed (simp_all add: sample_db_inv sample_world_def, simp_all add: sample_defs)

text \<open>C27. Deleting a service keeps the invariant on bindings, wherever the operation stops, and when
  it succeeds neither the service nor one of its bindings is left.\<close>

theorem service_delete_keeps_claims:
  assumes "binding_inv (w_db w)"
  shows "binding_inv (w_db (fst (service_delete i io w))) \<and>
    (is_ok (snd (service_delete i io w)) \<longrightarrow>
       i \<notin> service_id ` set (db_services (w_db (fst (service_delete i io w)))) \<and>
       list_all (\<lambda>b. bb_service_id (binding_base b) \<noteq> i) (db_bindings (w_db (fst (service_delete i io w)))))"
  using tripleD [OF triple_service_delete assms, of i io]
  by (cases "snd (service_delete i io w)") (auto simp: list_all_iff)

theorem service_delete_keeps_claims_witness:
  "binding_inv (w_db (fst (service_delete 30 sample_io (sample_world sample_db))))"
  using service_delete_keeps_claims [of "sample_world sample_db" 30 sample_io]
  by (simp add: sample_db_inv sample_world_def)

text \<open>C10. An update that binds a port which another service of the host has claimed, on a common
  interface, is refused and changes no row, whatever else the update asks for.\<close>

theorem claimed_port_refused:
  assumes "b \<in> set (deduplicate_bindings (svb_bindings (service_base service)))"
    and "c \<in> set (db_bindings (w_db w))" and "other \<in> set (db_services (w_db w))"
    and "bb_service_id (binding_base c) = service_id other"
    and "svb_host_id (service_base other) = svb_host_id (service_base service)"
    and "service_id other \<noteq> service_id service" and "bindings_overlap b c"
  shows "w_db (fst (service_update service io w)) = w_db w \<and> \<not> is_ok (snd (service_update service io w))"
proof -
  have "\<not> unclaimed (svb_host_id (service_base service)) (service_id service)
      (deduplicate_bindings (svb_bindings (service_base service))) (w_db w)"
    using assms unfolding unclaimed_def by blast
  from tripleD [OF triple_update_refused [OF this], of w io] show ?thesis
    by (cases "snd (service_update service io w)") auto
qed

theorem claimed_port_refused_witness:
  "w_db (fst (service_update (sample_server 31 2 EntitySource_Manual [sample_binding 41 31 20])
     sample_io (sample_world sample_db))) = sample_db"
  using claimed_port_refused [of "sample_binding 41 31 20"
      "sample_server 31 2 EntitySource_Manual [sample_binding 41 31 20]" "sample_binding 40 30 20"
      "sample_world sample_db" "sample_server 30 2 EntitySource_Manual []" sample_io]
  by (simp add: sample_defs deduplicate_bindings_def bindings_overlap_def port_claim_def claims_overlap_def
      all_interface_port_ids_def)

end
