(* ===== verification/Host_Service.thy ===== *)
theory Host_Service
  imports Binding_Safety
begin

text \<open>
  The host service, \<^verbatim>\<open>backend/src/server/hosts/service.rs\<close>: hosts with their interfaces, ports and
  services, created from a request or from a discovery, updated, merged and deleted, with the reads
  of \<^verbatim>\<open>backend/src/server/interfaces/service.rs\<close> and \<^verbatim>\<open>backend/src/server/ports/service.rs\<close>.

  The per-host locks are not modelled: an operation runs without another one on the same host in
  between. Hash sets and maps of identifiers are iterated in the order of the rows they come from.
\<close>

subsection \<open>Reading hosts and their children\<close>

abbreviation host_network :: "Host \<Rightarrow> uuid" where
  "host_network h \<equiv> hb_network_id (host_base h)"

definition get_interfaces_for_hosts :: "uuid list \<Rightarrow> (uuid \<Rightarrow> Interface list) action" where
  "get_interfaces_for_hosts host_ids =
     (if host_ids = [] then ret (\<lambda>_. [])
      else and_then_do
        (storage_get_all_ordered interface_table (\<lambda>i. ib_host_id (interface_base i) \<in> set host_ids)
           Interface_position)
        (\<lambda>is. ret (\<lambda>h. filter (\<lambda>i. ib_host_id (interface_base i) = h) is)))"

definition get_ports_for_hosts :: "uuid list \<Rightarrow> (uuid \<rightharpoonup> Port list) action" where
  "get_ports_for_hosts host_ids = get_for_parents port_table (\<lambda>p. pb_host_id (port_base p)) host_ids"

definition load_children_for_host :: "uuid \<Rightarrow> (Interface list \<times> Port list \<times> Service list) action" where
  "load_children_for_host h =
     and_then_do (get_interfaces_for_host h) (\<lambda>interfaces.
     and_then_do (get_ports_for_host h) (\<lambda>ports.
     and_then_do (service_get_all_by_position (on_host h)) (\<lambda>services.
       ret (interfaces, ports, services))))"

definition get_host_response :: "uuid \<Rightarrow> HostResponse option action" where
  "get_host_response i =
     and_then_do (storage_get_by_id host_table i) (\<lambda>found.
       case found of
         None \<Rightarrow> ret None
       | Some host \<Rightarrow>
           and_then_do (load_children_for_host (host_id host)) (\<lambda>(interfaces, ports, services).
             ret (Some (from_host_with_children host interfaces ports services))))"

definition load_children_for_hosts ::
    "uuid list \<Rightarrow> ((uuid \<Rightarrow> Interface list) \<times> (uuid \<rightharpoonup> Port list) \<times> (uuid \<Rightarrow> Service list)) action" where
  "load_children_for_hosts host_ids =
     and_then_do (get_interfaces_for_hosts host_ids) (\<lambda>interfaces_map.
     and_then_do (get_ports_for_hosts host_ids) (\<lambda>ports_map.
     and_then_do (service_get_all_by_position (\<lambda>s. svb_host_id (service_base s) \<in> set host_ids)) (\<lambda>services.
       ret (interfaces_map, ports_map, \<lambda>h. filter (on_host h) services))))"

definition get_all_host_responses :: "(Host \<Rightarrow> bool) \<Rightarrow> HostResponse list action" where
  "get_all_host_responses filter0 =
     and_then_do (storage_get_all host_table filter0) (\<lambda>hosts.
       if hosts = [] then ret []
       else and_then_do (load_children_for_hosts (map host_id hosts)) (\<lambda>(interfaces_map, ports_map, services_map).
              ret (map (\<lambda>host. from_host_with_children host (interfaces_map (host_id host))
                          (case ports_map (host_id host) of Some ps \<Rightarrow> ps | None \<Rightarrow> [])
                          (services_map (host_id host))) hosts)))"

definition find_matching_host_by_interfaces ::
    "uuid \<Rightarrow> Interface list \<Rightarrow> (Host \<times> Interface list) option action" where
  "find_matching_host_by_interfaces network incoming_interfaces =
     (if incoming_interfaces = [] then ret None
      else and_then_do (storage_get_all host_table (\<lambda>h. host_network h = network)) (\<lambda>all_hosts.
        if all_hosts = [] then ret None
        else and_then_do (get_interfaces_for_hosts (map host_id all_hosts)) (\<lambda>interfaces_by_host.
               ret (find_matching_host all_hosts interfaces_by_host incoming_interfaces))))"

subsection \<open>Host rows\<close>

definition upsert_host :: "Host \<Rightarrow> Host \<Rightarrow> Host action" where
  "upsert_host existing_host new_host_data =
     (let (merged, has_updates) = merge_host existing_host new_host_data
      in if has_updates
         then and_then_do (storage_update host_table merged) (\<lambda>updated.
              and_then_do (publish EntityOperation_Updated (Entity_Host updated)
                             (Host_triggers_staleness updated (Some existing_host)))
                (\<lambda>_. ret updated))
         else ret merged)"

definition is_discovery :: "EntitySource \<Rightarrow> bool" where
  "is_discovery s = (case s of EntitySource_Discovery _ \<Rightarrow> True | _ \<Rightarrow> False)"

definition upserts_host :: "Host \<Rightarrow> Host \<Rightarrow> bool" where
  "upserts_host host existing_host \<longleftrightarrow>
     (is_discovery (hb_source (host_base host)) \<and> is_discovery (hb_source (host_base existing_host))) \<or>
     host_id host = host_id existing_host"

definition network_mismatch_msg :: "(uuid \<Rightarrow> string) \<Rightarrow> Host \<Rightarrow> Host \<Rightarrow> string" where
  "network_mismatch_msg sh existing_host host =
     ''Network mismatch: Daemon is trying to update host '' @ [CHR 0x27] @ hb_name (host_base existing_host) @
     [CHR 0x27] @ '' (id: '' @ sh (host_id host) @ '') but cannot proceed. The host belongs to network '' @
     sh (host_network existing_host) @ '' while the daemon is assigned to network '' @ sh (host_network host) @
     ''. To resolve this, either reassign the daemon to the correct network or delete the mismatched host.''"

definition create_new_host :: "Host \<Rightarrow> Host action" where
  "create_new_host host =
     and_then_do (storage_get_by_id host_table (host_id host)) (\<lambda>found.
       case found of
         Some existing_host \<Rightarrow>
           and_then_do (env io_show_uuid) (\<lambda>sh.
             raise (ValidationError (network_mismatch_msg sh existing_host host)))
       | None \<Rightarrow>
           and_then_do (storage_create host_table host) (\<lambda>created.
           and_then_do (publish EntityOperation_Created (Entity_Host created)
                          (Host_triggers_staleness created None))
             (\<lambda>_. ret host)))"

definition host_create :: "Host \<Rightarrow> Host action" where
  "host_create host0 =
     and_then_do (ensure_id host_table host0) (\<lambda>host.
     and_then_do (storage_get_all host_table (\<lambda>h. host_network h = host_network host)) (\<lambda>all_hosts.
       case find (\<lambda>h. Host_eq host h) all_hosts of
         Some existing_host \<Rightarrow>
           if upserts_host host existing_host then upsert_host existing_host host
           else create_new_host host
       | None \<Rightarrow> create_new_host host))"

definition host_update :: "Host \<Rightarrow> Host action" where
  "host_update updates =
     and_then_do (storage_get_by_id host_table (host_id updates)) (\<lambda>found.
       case found of
         None \<Rightarrow>
           and_then_do (env io_show_uuid) (\<lambda>sh.
             raise (OtherError (''Host '' @ [CHR 0x27] @ sh (host_id updates) @ [CHR 0x27] @ '' not found'')))
       | Some current_host \<Rightarrow>
           and_then_do (storage_update host_table updates) (\<lambda>updated.
           and_then_do (publish EntityOperation_Updated (Entity_Host updated)
                          (Host_triggers_staleness updated (Some current_host)))
             (\<lambda>_. ret updated)))"

definition has_daemon :: "uuid \<Rightarrow> bool action" where
  "has_daemon h = query (\<lambda>d. h \<in> set (db_daemon_hosts d))"

definition delete_host :: "uuid \<Rightarrow> unit action" where
  "delete_host i =
     and_then_do (has_daemon i) (\<lambda>daemon.
       if daemon
       then raise (ValidationError
              ''Can't delete a host with an associated daemon. Delete the daemon first.'')
       else and_then_do (storage_get_by_id host_table i) (\<lambda>found.
         case found of
           None \<Rightarrow>
             and_then_do (env io_show_uuid) (\<lambda>sh.
               raise (OtherError (''Host '' @ sh i @ '' not found'')))
         | Some host \<Rightarrow>
             and_then_do (storage_delete host_table i) (\<lambda>_.
               publish EntityOperation_Deleted (Entity_Host host) (Host_triggers_staleness host None))))"

subsection \<open>Creating a host with its children\<close>

definition create_interface_child :: "ConflictBehavior \<Rightarrow> uuid \<Rightarrow> Interface \<Rightarrow> Interface action" where
  "create_interface_child conflict_behavior h interface0 =
     (let interface = interface0\<lparr>interface_base := (interface_base interface0)\<lparr>ib_host_id := h\<rparr>\<rparr>;
          b = interface_base interface
      in if conflict_behavior = ConflictBehavior_Upsert
         then and_then_do (storage_get_by_id interface_table (interface_id interface)) (\<lambda>found.
           case found of
             Some existing_iface \<Rightarrow> ret existing_iface
           | None \<Rightarrow>
               and_then_do (storage_get_all interface_table
                   (\<lambda>i. ib_host_id (interface_base i) = ib_host_id b \<and>
                        ib_subnet_id (interface_base i) = ib_subnet_id b)) (\<lambda>existing_by_key.
               case find (\<lambda>i. ib_ip_address (interface_base i) = ib_ip_address b) existing_by_key of
                 Some existing_iface \<Rightarrow> ret existing_iface
               | None \<Rightarrow> crud_create interface_table interface))
         else crud_create interface_table interface)"

definition same_port :: "Port \<Rightarrow> Port \<Rightarrow> bool" where
  "same_port p q \<longleftrightarrow>
     PortType_number (pb_port_type (port_base p)) = PortType_number (pb_port_type (port_base q)) \<and>
     PortType_protocol (pb_port_type (port_base p)) = PortType_protocol (pb_port_type (port_base q))"

definition create_port_child :: "ConflictBehavior \<Rightarrow> Host \<Rightarrow> Port \<Rightarrow> Port action" where
  "create_port_child conflict_behavior created_host port =
     (let port_with_host = Port_with_host port (host_id created_host) (host_network created_host)
      in if conflict_behavior = ConflictBehavior_Upsert
         then and_then_do (storage_get_by_id port_table (port_id port_with_host)) (\<lambda>found.
           case found of
             Some existing_port \<Rightarrow> ret existing_port
           | None \<Rightarrow>
               and_then_do (get_ports_for_host (host_id created_host)) (\<lambda>existing_ports.
               case find (\<lambda>p. same_port p port_with_host) existing_ports of
                 Some existing_port \<Rightarrow> ret existing_port
               | None \<Rightarrow> crud_create port_table port_with_host))
         else crud_create port_table port_with_host)"

text \<open>The variables of the loop over services: the claims of this batch, the bindings of dropped
  services, and the services created.\<close>

record batch =
  bt_claimed :: "(uuid \<times> uuid option) list"
  bt_orphaned :: "Binding list"
  bt_created :: "Service list"

definition create_service_child ::
    "Host \<Rightarrow> Interface list \<Rightarrow> Port list \<Rightarrow> Interface list \<Rightarrow> Port list \<Rightarrow> batch \<Rightarrow> Service \<Rightarrow> batch action" where
  "create_service_child created_host original_interfaces original_ports created_interfaces created_ports
     st service =
     (let reassigned = reassign_service_interface_bindings service original_interfaces original_ports
            (host_id created_host) (host_network created_host) created_interfaces created_ports;
          bindings = svb_bindings (service_base reassigned)
      in and_then_do
           (partition_conflicting_bindings (host_id created_host) (service_id reassigned) bindings (bt_claimed st))
           (\<lambda>(valid_bindings, conflicting_bindings).
             if conflicting_bindings \<noteq> []
             then ret (st\<lparr>bt_orphaned := bt_orphaned st @ valid_bindings\<rparr>)
             else and_then_do (service_create reassigned) (\<lambda>created.
               ret (st\<lparr>bt_claimed := bt_claimed st @ List.map_filter port_claim bindings,
                       bt_created := bt_created st @ [created]\<rparr>))))"

definition unclaimed_open_ports :: "Host \<Rightarrow> Binding list \<Rightarrow> ServiceBase" where
  "unclaimed_open_ports created_host orphaned_bindings =
     \<lparr>svb_host_id = host_id created_host, svb_network_id = host_network created_host,
      svb_service_definition = OpenPorts, svb_name = ''Unclaimed Open Ports'',
      svb_bindings = orphaned_bindings, svb_virtualization = None,
      svb_source = EntitySource_Discovery [], svb_tags = [], svb_position = 0\<rparr>"

definition assign_orphaned_bindings :: "Host \<Rightarrow> batch \<Rightarrow> Service list action" where
  "assign_orphaned_bindings created_host st =
     (if bt_orphaned st = [] then ret (bt_created st)
      else and_then_do fresh_id (\<lambda>i. and_then_do now (\<lambda>t.
           and_then_do (service_create (Service_new i t (unclaimed_open_ports created_host (bt_orphaned st))))
             (\<lambda>created. ret (bt_created st @ [created])))))"

definition create_children ::
    "ConflictBehavior \<Rightarrow> Host \<Rightarrow> Interface list \<Rightarrow> Port list \<Rightarrow> Service list \<Rightarrow> HostResponse action" where
  "create_children conflict_behavior created_host interfaces ports services =
     and_then_do (for_each (create_interface_child conflict_behavior (host_id created_host)) interfaces)
       (\<lambda>created_interfaces.
     and_then_do (for_each (create_port_child conflict_behavior created_host) ports) (\<lambda>created_ports.
     and_then_do (loop (create_service_child created_host interfaces ports created_interfaces created_ports)
                    \<lparr>bt_claimed = [], bt_orphaned = [], bt_created = []\<rparr> services) (\<lambda>st.
     and_then_do (assign_orphaned_bindings created_host st) (\<lambda>created_services.
       ret (from_host_with_children created_host created_interfaces created_ports created_services)))))"

definition matching_interfaces_msg :: "(uuid \<Rightarrow> string) \<Rightarrow> Host \<Rightarrow> string" where
  "matching_interfaces_msg sh existing_host =
     ''A host with matching interfaces already exists: '' @ [CHR 0x27] @ hb_name (host_base existing_host) @
     [CHR 0x27] @ '' (id: '' @ sh (host_id existing_host) @
     ''). Edit the existing host instead of creating a new one.''"

definition create_with_children ::
    "Host \<Rightarrow> Interface list \<Rightarrow> Port list \<Rightarrow> Service list \<Rightarrow> ConflictBehavior \<Rightarrow> HostResponse action" where
  "create_with_children host interfaces ports services conflict_behavior =
     and_then_do (find_matching_host_by_interfaces (host_network host) interfaces) (\<lambda>matching_result.
     and_then_do
       (case matching_result of
          Some (existing_host, _) \<Rightarrow>
            (case conflict_behavior of
               ConflictBehavior_Error \<Rightarrow>
                 and_then_do (env io_show_uuid) (\<lambda>sh.
                   raise (ValidationError (matching_interfaces_msg sh existing_host)))
             | ConflictBehavior_Upsert \<Rightarrow> ret (host\<lparr>host_id := host_id existing_host\<rparr>))
        | None \<Rightarrow> ret host) (\<lambda>host1.
     and_then_do (host_create host1) (\<lambda>created_host.
       create_children conflict_behavior created_host interfaces ports services)))"

definition discover_host ::
    "Host \<Rightarrow> Interface list \<Rightarrow> Port list \<Rightarrow> Service list \<Rightarrow> HostResponse action" where
  "discover_host host interfaces ports services =
     create_with_children host interfaces ports services ConflictBehavior_Upsert"

definition validated :: "('a, ApiError) result \<Rightarrow> 'a action" where
  "validated r = (case r of Inl e \<Rightarrow> raise (ValidationError (ae_message e)) | Inr x \<Rightarrow> ret x)"

definition resolve_interfaces :: "InterfaceInput list \<Rightarrow> Interface list \<Rightarrow> InterfaceInput list action" where
  "resolve_interfaces inputs existing =
     validated (resolve_and_validate_input_positions ii_position InterfaceInput_set_position ii_id
       Interface_position interface_id inputs existing ''interface'')"

definition resolve_services :: "ServiceInput list \<Rightarrow> Service list \<Rightarrow> ServiceInput list action" where
  "resolve_services inputs existing =
     validated (resolve_and_validate_input_positions si_position ServiceInput_set_position si_id
       Service_position service_id inputs existing ''service'')"

definition create_from_request :: "CreateHostRequest \<Rightarrow> HostResponse action" where
  "create_from_request request =
     and_then_do (resolve_interfaces (chr_interfaces request) []) (\<lambda>interface_inputs.
     and_then_do (resolve_services (chr_services request) []) (\<lambda>service_inputs.
     and_then_do fresh_id (\<lambda>i. and_then_do now (\<lambda>t.
       let host = Host_new i t
             \<lparr>hb_name = chr_name request, hb_network_id = chr_network_id request,
              hb_hostname = chr_hostname request, hb_description = chr_description request,
              hb_source = EntitySource_Manual, hb_virtualization = chr_virtualization request,
              hb_hidden = chr_hidden request, hb_tags = chr_tags request\<rparr>;
           n = chr_network_id request
       in create_with_children host
            (map (\<lambda>input. into_interface t input i n) interface_inputs)
            (map (\<lambda>input. into_port t input i n) (chr_ports request))
            (map (\<lambda>input. into_service t input i n EntitySource_Manual) service_inputs)
            ConflictBehavior_Error))))"

subsection \<open>Updating a host\<close>

definition sync_interface :: "uuid \<Rightarrow> uuid \<Rightarrow> Interface list \<Rightarrow> InterfaceInput \<Rightarrow> Interface action" where
  "sync_interface h n existing input =
     and_then_do now (\<lambda>t.
       let interface = into_interface t input h n
       in case find (\<lambda>i. interface_id i = ii_id input) existing of
            Some existing_iface \<Rightarrow>
              crud_update interface_table (interface\<lparr>interface_created_at := interface_created_at existing_iface\<rparr>)
          | None \<Rightarrow> crud_create interface_table interface)"

definition removed_ids :: "uuid list \<Rightarrow> uuid list \<Rightarrow> uuid list" where
  "removed_ids existing_ids input_ids = filter (\<lambda>i. i \<notin> set input_ids) existing_ids"

definition sync_interfaces :: "uuid \<Rightarrow> uuid \<Rightarrow> InterfaceInput list \<Rightarrow> unit action" where
  "sync_interfaces h n inputs0 =
     and_then_do (get_interfaces_for_host h) (\<lambda>existing.
     and_then_do (resolve_interfaces inputs0 existing) (\<lambda>inputs.
     and_then_do (crud_delete_many interface_table (removed_ids (map interface_id existing) (map ii_id inputs))) (\<lambda>_.
     and_then_do (for_each (sync_interface h n existing) inputs) (\<lambda>_. ret ()))))"

definition sync_port :: "uuid \<Rightarrow> uuid \<Rightarrow> Port list \<Rightarrow> PortInput \<Rightarrow> Port action" where
  "sync_port h n existing input =
     and_then_do now (\<lambda>t.
       let port = into_port t input h n
       in case find (\<lambda>p. port_id p = pi_id input) existing of
            Some existing_port \<Rightarrow>
              crud_update port_table (port\<lparr>port_created_at := port_created_at existing_port\<rparr>)
          | None \<Rightarrow> crud_create port_table port)"

definition sync_ports :: "uuid \<Rightarrow> uuid \<Rightarrow> PortInput list \<Rightarrow> unit action" where
  "sync_ports h n inputs =
     and_then_do (get_ports_for_host h) (\<lambda>existing.
     and_then_do (crud_delete_many port_table (removed_ids (map port_id existing) (map pi_id inputs))) (\<lambda>_.
     and_then_do (for_each (sync_port h n existing) inputs) (\<lambda>_. ret ())))"

definition BindingInput_claim :: "BindingInput \<Rightarrow> (uuid \<times> uuid option) option" where
  "BindingInput_claim b =
     (case b of
        BindingInput_Port _ pid iid \<Rightarrow> Some (pid, iid)
      | BindingInput_Interface _ _ \<Rightarrow> None)"

text \<open>A service that gives up a port is processed before the others.\<close>

definition is_losing :: "Service list \<Rightarrow> ServiceInput \<Rightarrow> bool" where
  "is_losing existing input =
     (case find (\<lambda>s. service_id s = si_id input) existing of
        Some existing_svc \<Rightarrow>
          list_ex (\<lambda>c. c \<notin> set (List.map_filter BindingInput_claim (si_bindings input)))
            (List.map_filter port_claim (svb_bindings (service_base existing_svc)))
      | None \<Rightarrow> False)"

definition ordered_inputs :: "Service list \<Rightarrow> ServiceInput list \<Rightarrow> ServiceInput list" where
  "ordered_inputs existing inputs =
     filter (is_losing existing) inputs @ filter (\<lambda>i. \<not> is_losing existing i) inputs"

text \<open>\<open>preserve_immutable_fields\<close> of a service keeps the source only.\<close>

definition Service_preserve_immutable_fields :: "Service \<Rightarrow> Service \<Rightarrow> Service" where
  "Service_preserve_immutable_fields s existing =
     s\<lparr>service_base := (service_base s)\<lparr>svb_source := svb_source (service_base existing)\<rparr>\<rparr>"

definition sync_service :: "uuid \<Rightarrow> uuid \<Rightarrow> Service list \<Rightarrow> ServiceInput \<Rightarrow> Service action" where
  "sync_service h n existing input =
     and_then_do now (\<lambda>t.
       let service = into_service t input h n EntitySource_Manual
       in case find (\<lambda>s. service_id s = si_id input) existing of
            Some existing_svc \<Rightarrow> service_update (Service_preserve_immutable_fields service existing_svc)
          | None \<Rightarrow> service_create service)"

definition sync_services :: "uuid \<Rightarrow> uuid \<Rightarrow> ServiceInput list \<Rightarrow> unit action" where
  "sync_services h n inputs0 =
     and_then_do (service_get_all (on_host h)) (\<lambda>existing.
     and_then_do (resolve_services inputs0 existing) (\<lambda>inputs.
     and_then_do (service_delete_many (removed_ids (map service_id existing) (map si_id inputs))) (\<lambda>_.
     and_then_do (for_each (sync_service h n existing) (ordered_inputs existing inputs)) (\<lambda>_. ret ()))))"

definition timestamp_micros :: "datetime \<Rightarrow> int" where
  "timestamp_micros t = t div 1000"

definition modified_msg :: "(datetime \<Rightarrow> string) \<Rightarrow> datetime \<Rightarrow> datetime \<Rightarrow> string" where
  "modified_msg sh expected actual =
     ''Host was modified by another process (possibly discovery). Please reload and try again. Expected: '' @
     sh expected @ '', Actual: '' @ sh actual"

definition update_from_request :: "UpdateHostRequest \<Rightarrow> HostResponse action" where
  "update_from_request request =
     and_then_do (storage_get_by_id host_table (uhr_id request)) (\<lambda>found.
       case found of
         None \<Rightarrow>
           and_then_do (env io_show_uuid) (\<lambda>sh.
             raise (OtherError (''Host '' @ [CHR 0x27] @ sh (uhr_id request) @ [CHR 0x27] @ '' not found'')))
       | Some existing \<Rightarrow>
           and_then_do
             (case uhr_expected_updated_at request of
                Some expected \<Rightarrow>
                  if timestamp_micros (host_updated_at existing) \<noteq> timestamp_micros expected
                  then and_then_do (env io_show_time) (\<lambda>sh.
                         raise (ValidationError (modified_msg sh expected (host_updated_at existing))))
                  else ret ()
              | None \<Rightarrow> ret ()) (\<lambda>_.
           let n = host_network existing;
               updated_host =
                 \<lparr>host_id = uhr_id request, host_created_at = host_created_at existing,
                  host_updated_at = host_updated_at existing,
                  host_base =
                    \<lparr>hb_name = uhr_name request, hb_network_id = n, hb_hostname = uhr_hostname request,
                     hb_description = uhr_description request, hb_source = hb_source (host_base existing),
                     hb_virtualization = uhr_virtualization request, hb_hidden = uhr_hidden request,
                     hb_tags = uhr_tags request\<rparr>\<rparr>
           in and_then_do (host_update updated_host) (\<lambda>updated.
              and_then_do (sync_interfaces (host_id updated) n (uhr_interfaces request)) (\<lambda>_.
              and_then_do (sync_ports (host_id updated) n (uhr_ports request)) (\<lambda>_.
              and_then_do (sync_services (host_id updated) n (uhr_services request)) (\<lambda>_.
              and_then_do (load_children_for_host (host_id updated)) (\<lambda>(interfaces, ports, services).
                ret (from_host_with_children updated interfaces ports services))))))))"

subsection \<open>Consolidating two hosts\<close>

definition same_interface :: "Interface \<Rightarrow> Interface \<Rightarrow> bool" where
  "same_interface dest other \<longleftrightarrow>
     (ib_subnet_id (interface_base dest) = ib_subnet_id (interface_base other) \<and>
      ib_ip_address (interface_base dest) = ib_ip_address (interface_base other)) \<or>
     (ib_mac_address (interface_base dest) \<noteq> None \<and>
      ib_mac_address (interface_base dest) = ib_mac_address (interface_base other))"

text \<open>Each transfer gives the entry of \<open>interface_id_map\<close> or \<open>port_id_map\<close>.\<close>

definition transfer_interface :: "Host \<Rightarrow> Interface list \<Rightarrow> Interface \<Rightarrow> (uuid \<times> uuid) action" where
  "transfer_interface destination_host dest_interfaces other_iface =
     (case find (\<lambda>dest. same_interface dest other_iface) dest_interfaces of
        Some dest_iface \<Rightarrow> ret (interface_id other_iface, interface_id dest_iface)
      | None \<Rightarrow>
          and_then_do (crud_update interface_table
              (other_iface\<lparr>interface_base := (interface_base other_iface)\<lparr>ib_host_id := host_id destination_host\<rparr>\<rparr>))
            (\<lambda>_. ret (interface_id other_iface, interface_id other_iface)))"

definition transfer_port :: "Host \<Rightarrow> Port list \<Rightarrow> Port \<Rightarrow> (uuid \<times> uuid) action" where
  "transfer_port destination_host dest_ports other_port =
     (case find (\<lambda>dest. same_port dest other_port) dest_ports of
        Some dest_port \<Rightarrow> ret (port_id other_port, port_id dest_port)
      | None \<Rightarrow>
          and_then_do (crud_update port_table
              (Port_with_host other_port (host_id destination_host) (host_network destination_host)))
            (\<lambda>_. ret (port_id other_port, port_id other_port)))"

definition remap_binding_type :: "(uuid \<rightharpoonup> uuid) \<Rightarrow> (uuid \<rightharpoonup> uuid) \<Rightarrow> BindingType \<Rightarrow> BindingType" where
  "remap_binding_type interface_id_map port_id_map t =
     (case t of
        BindingType_Interface iid \<Rightarrow>
          BindingType_Interface (case interface_id_map iid of Some new_id \<Rightarrow> new_id | None \<Rightarrow> iid)
      | BindingType_Port pid oiid \<Rightarrow>
          BindingType_Port (case port_id_map pid of Some new_id \<Rightarrow> new_id | None \<Rightarrow> pid)
            (case oiid of Some iid \<Rightarrow> interface_id_map iid | None \<Rightarrow> None))"

definition map_error :: "(anyhow_error \<Rightarrow> anyhow_error) \<Rightarrow> 'a action \<Rightarrow> 'a action" where
  "map_error f m io w = (case m io w of (w1, Inl e) \<Rightarrow> (w1, Err (f e)) | (w1, Inr x) \<Rightarrow> (w1, Ok x))"

fun anyhow_text :: "anyhow_error \<Rightarrow> string" where
  "anyhow_text (ValidationError m) = m"
| "anyhow_text (OtherError m) = m"

definition is_duplicate_service :: "Service list \<Rightarrow> Service \<Rightarrow> bool" where
  "is_duplicate_service destination_services service =
     list_ex (\<lambda>dest_svc. svb_name (service_base dest_svc) = svb_name (service_base service) \<and>
        ServiceDefinition_id (svb_service_definition (service_base dest_svc)) =
        ServiceDefinition_id (svb_service_definition (service_base service))) destination_services"

definition moved_service :: "Host \<Rightarrow> (uuid \<rightharpoonup> uuid) \<Rightarrow> (uuid \<rightharpoonup> uuid) \<Rightarrow> Service \<Rightarrow> Service" where
  "moved_service updated_host interface_id_map port_id_map service =
     service\<lparr>service_base := (service_base service)
       \<lparr>svb_host_id := host_id updated_host, svb_network_id := host_network updated_host,
        svb_bindings :=
          map (\<lambda>b. with_btype b (remap_binding_type interface_id_map port_id_map (btype b)))
            (svb_bindings (service_base service))\<rparr>\<rparr>"

definition transfer_service ::
    "Host \<Rightarrow> (uuid \<rightharpoonup> uuid) \<Rightarrow> (uuid \<rightharpoonup> uuid) \<Rightarrow> Service list \<Rightarrow> Service \<Rightarrow> unit action" where
  "transfer_service updated_host interface_id_map port_id_map destination_services service =
     (if is_duplicate_service destination_services service then ret ()
      else and_then_do
        (map_error (\<lambda>e. OtherError (''Failed to update service '' @ [CHR 0x27] @ svb_name (service_base service) @
             [CHR 0x27] @ '' during consolidation: '' @ anyhow_text e))
           (service_update (moved_service updated_host interface_id_map port_id_map service)))
        (\<lambda>_. ret ()))"

definition consolidate_hosts :: "Host \<Rightarrow> Host \<Rightarrow> HostResponse action" where
  "consolidate_hosts destination_host other_host =
     (if host_id destination_host = host_id other_host
      then raise (ValidationError ''Can't consolidate a host with itself'')
      else and_then_do (has_daemon (host_id other_host)) (\<lambda>daemon.
        if daemon
        then raise (ValidationError
               (''Can't consolidate a host that has a daemon associated with it. '' @
                ''Consolidate the other host into the host with the daemon instead.''))
        else
          and_then_do (get_interfaces_for_host (host_id destination_host)) (\<lambda>dest_interfaces.
          and_then_do (get_interfaces_for_host (host_id other_host)) (\<lambda>other_interfaces.
          and_then_do (get_ports_for_host (host_id destination_host)) (\<lambda>dest_ports.
          and_then_do (get_ports_for_host (host_id other_host)) (\<lambda>other_ports.
          and_then_do (for_each (transfer_interface destination_host dest_interfaces) other_interfaces)
            (\<lambda>interface_ids.
          and_then_do (for_each (transfer_port destination_host dest_ports) other_ports) (\<lambda>port_ids.
          and_then_do (upsert_host destination_host other_host) (\<lambda>updated_host.
          and_then_do (service_get_all (on_host (host_id destination_host))) (\<lambda>destination_services.
          and_then_do (service_get_all (on_host (host_id other_host))) (\<lambda>other_services.
          and_then_do (for_each (transfer_service updated_host (map_of (rev interface_ids)) (map_of (rev port_ids))
                         destination_services) other_services) (\<lambda>_.
          and_then_do (delete_host (host_id other_host)) (\<lambda>_.
          and_then_do (load_children_for_host (host_id updated_host)) (\<lambda>(interfaces, ports, services).
            ret (from_host_with_children updated_host interfaces ports services)))))))))))))))"

end
