(* ===== verification/Host_Safety.thy ===== *)
theory Host_Safety
  imports Host_Service
begin

text \<open>
  The host service keeps the invariant on bindings: deleting a host, and creating a host with its
  children from a discovery, whichever of the statements sent to the database fail.
\<close>

subsection \<open>Hosts, interfaces and ports\<close>

lemma triple_inv_conj:
  "triple (\<lambda>d. I d \<and> X d) P m Q \<Longrightarrow> triple I (\<lambda>d. P d \<and> X d) m (\<lambda>x d. Q x d \<and> X d)"
  unfolding triple_def by blast

lemma triple_conjunct:
  "triple I P m Q \<Longrightarrow> triple I P m R \<Longrightarrow> triple I P m (\<lambda>x d. Q x d \<and> R x d)"
  unfolding triple_def by blast

lemma host_table_simps [simp]:
  "tb_id host_table = host_id" "tb_rows host_table = db_hosts" "tb_store host_table h = h"
  "tb_put host_table hs d = d\<lparr>db_hosts := hs\<rparr>" "tb_set_updated_at host_table t h = h\<lparr>host_updated_at := t\<rparr>"
  by (simp_all add: host_table_def)

lemma interface_table_simps [simp]:
  "tb_id interface_table = interface_id" "tb_rows interface_table = db_interfaces"
  "tb_store interface_table i = i" "tb_put interface_table is d = d\<lparr>db_interfaces := is\<rparr>"
  "tb_refs interface_table d i = (ib_host_id (interface_base i) \<in> host_id ` set (db_hosts d))"
  "tb_renew interface_table n t i = Interface_new n t (interface_base i)"
  by (simp_all add: interface_table_def)

lemma port_table_simps [simp]:
  "tb_id port_table = port_id" "tb_rows port_table = db_ports" "tb_store port_table p = port_store p"
  "tb_put port_table ps d = d\<lparr>db_ports := ps\<rparr>"
  "tb_refs port_table d p = (pb_host_id (port_base p) \<in> host_id ` set (db_hosts d))"
  "tb_renew port_table n t p = Port_new n t (port_base p)"
  by (simp_all add: port_table_def)

lemma port_store_simps [simp]: "port_id (port_store p) = port_id p" "pb_host_id (port_base (port_store p)) = pb_host_id (port_base p)"
  by (simp_all add: port_store_def)

lemma Port_eq_store [simp]: "Port_eq (port_store p) p" "Port_eq p p"
  by (simp_all add: Port_eq_def PortBase_eq_def PortType_eq_iff port_store_def PortType_number_def PortType_protocol_def)

lemma host_rows_inv:
  assumes "binding_inv d" "distinct (map host_id hs)" "host_id ` set (db_hosts d) \<subseteq> host_id ` set hs"
  shows "binding_inv (d\<lparr>db_hosts := hs\<rparr>)"
proof -
  have "ids_ok (d\<lparr>db_hosts := hs\<rparr>)" "refs_ok (d\<lparr>db_hosts := hs\<rparr>)"
    using binding_invD(1,2) [OF assms(1)] assms(2,3)
    by (auto simp: ids_ok_def refs_ok_def binding_refs_def)
  then show ?thesis
    using binding_invD(3-) [OF assms(1)]
    by (auto simp: binding_inv_def exclusive_def local_ok_def local_binding_def bare_services_def)
qed

lemma bound_rows:
  assumes "binding_inv d" "b \<in> set (db_bindings d)"
  shows "Binding_port_id b = Some pid \<Longrightarrow> pid \<in> port_id ` set (db_ports d)"
    and "Binding_interface_id b = Some iid \<Longrightarrow> iid \<in> interface_id ` set (db_interfaces d)"
proof -
  have "binding_within (port_id ` set (db_ports d)) (interface_id ` set (db_interfaces d)) (btype b)"
    using binding_invD(2) [OF assms(1)] assms(2) by (auto simp: refs_ok_def binding_refs_def)
  then show "Binding_port_id b = Some pid \<Longrightarrow> pid \<in> port_id ` set (db_ports d)"
    "Binding_interface_id b = Some iid \<Longrightarrow> iid \<in> interface_id ` set (db_interfaces d)"
    by (auto simp: binding_within_def Binding_port_id_def Binding_interface_id_def split: BindingType.splits option.splits)
qed

lemma new_interface_inv:
  assumes inv: "binding_inv d" and new: "interface_id i \<notin> interface_id ` set (db_interfaces d)"
    and h: "ib_host_id (interface_base i) \<in> host_id ` set (db_hosts d)"
  shows "binding_inv (d\<lparr>db_interfaces := db_interfaces d @ [i]\<rparr>)" (is "binding_inv ?d")
proof -
  have used: "Binding_interface_id b \<noteq> Some (interface_id i)" if "b \<in> set (db_bindings d)" for b
    using bound_rows(2) [OF inv that] new by blast
  have "ids_ok ?d" using binding_invD(1) [OF inv] new by (auto simp: ids_ok_def)
  moreover have "refs_ok ?d"
    using binding_invD(2) [OF inv] h
    by (auto simp: refs_ok_def binding_refs_def binding_within_def split: BindingType.splits option.splits)
  moreover have "local_ok ?d"
    using binding_invD(4) [OF inv] used by (auto simp: local_ok_def local_binding_def)
  ultimately show ?thesis
    using binding_invD(3,5) [OF inv] by (auto simp: binding_inv_def exclusive_def bare_services_def)
qed

lemma new_port_inv:
  assumes inv: "binding_inv d" and new: "port_id p \<notin> port_id ` set (db_ports d)"
    and h: "pb_host_id (port_base p) \<in> host_id ` set (db_hosts d)"
  shows "binding_inv (d\<lparr>db_ports := db_ports d @ [p]\<rparr>)" (is "binding_inv ?d")
proof -
  have used: "Binding_port_id b \<noteq> Some (port_id p)" if "b \<in> set (db_bindings d)" for b
    using bound_rows(1) [OF inv that] new by blast
  have "ids_ok ?d" using binding_invD(1) [OF inv] new by (auto simp: ids_ok_def)
  moreover have "refs_ok ?d"
    using binding_invD(2) [OF inv] h
    by (auto simp: refs_ok_def binding_refs_def binding_within_def split: BindingType.splits option.splits)
  moreover have "local_ok ?d"
    using binding_invD(4) [OF inv] used by (auto simp: local_ok_def local_binding_def)
  ultimately show ?thesis
    using binding_invD(3,5) [OF inv] by (auto simp: binding_inv_def exclusive_def bare_services_def)
qed

lemma delete_host_triple:
  "triple binding_inv (\<lambda>_. True) (delete_host i)
     (\<lambda>_ d. i \<notin> host_id ` set (db_hosts d) \<and>
        (\<forall>x \<in> set (db_interfaces d). ib_host_id (interface_base x) \<noteq> i) \<and>
        (\<forall>p \<in> set (db_ports d). pb_host_id (port_base p) \<noteq> i) \<and>
        (\<forall>s \<in> set (db_services d). svb_host_id (service_base s) \<noteq> i))" (is "triple _ _ _ ?Q")
proof -
  have "triple binding_inv (\<lambda>_. True) (storage_delete host_table i) ?Q"
    by (rule triple_storage_delete)
      (auto simp: cascade_def Let_def dest: cascade_filter_inv(3) [where h = "\<lambda>s. host_id s \<noteq> i"])
  then have "triple binding_inv (\<lambda>_. True) (and_then_do (storage_delete host_table i) (\<lambda>_.
      publish EntityOperation_Deleted (Entity_Host x) (Host_triggers_staleness x None))) ?Q" for x
    by (rule triple_bind) (rule triple_publish)
  then show ?thesis
    unfolding delete_host_def has_daemon_def
    by (intro triple_bind [where R = "\<lambda>_ _. True" and m = "query _"] triple_query triple_if triple_raise
        triple_bind [where R = "\<lambda>_ _. True" and m = "storage_get_by_id _ _"] triple_storage_get_by_id
        triple_option triple_bind [where R = "\<lambda>_ _. True" and m = "env _"] triple_env) simp_all
qed

subsection \<open>Creating the children of a host\<close>

lemma triple_crud_create:
  assumes "\<And>y. y = x \<or> (\<exists>i t. y = tb_renew T i t x) \<Longrightarrow> triple I P (storage_create T y) Q"
  shows "triple I P (crud_create T x) Q"
proof -
  have ensured: "triple I P (ensure_id T x) (\<lambda>y d. P d \<and> (y = x \<or> (\<exists>i t. y = tb_renew T i t x)))"
    unfolding ensure_id_def
    by (rule triple_if, rule triple_bind [where R = "\<lambda>_. P"], rule triple_fresh_id, assumption,
        rule triple_bind [where R = "\<lambda>_. P"], rule triple_now, assumption)
      (auto intro!: triple_ret)
  have created: "triple I (\<lambda>d. P d \<and> (y = x \<or> (\<exists>i t. y = tb_renew T i t x))) (storage_create T y) Q" for y
    by (rule triple_pre, rule triple_conseq [OF assms]) auto
  show ?thesis
    unfolding crud_create_def
    by (rule triple_bind [OF ensured], rule triple_bind [OF created],
        rule triple_bind [where R = "\<lambda>_. Q _"], rule triple_publish, assumption, rule triple_ret)
qed

lemma triple_for_each_results:
  assumes "\<And>x. x \<in> set xs \<Longrightarrow> triple I P (f x) (\<lambda>y d. P d \<and> R y d)"
    and "\<And>x y. x \<in> set xs \<Longrightarrow> triple I (\<lambda>d. P d \<and> R y d) (f x) (\<lambda>_ d. P d \<and> R y d)"
  shows "triple I P (for_each f xs) (\<lambda>ys d. P d \<and> (\<forall>y \<in> set ys. R y d))"
  using assms
proof (induction xs)
  case (Cons x xs)
  have rest: "triple I (\<lambda>d. P d \<and> R y d) (for_each f xs) (\<lambda>ys d. (P d \<and> (\<forall>y \<in> set ys. R y d)) \<and> (P d \<and> R y d))" for y
  proof (rule triple_conjunct)
    show "triple I (\<lambda>d. P d \<and> R y d) (for_each f xs) (\<lambda>ys d. P d \<and> (\<forall>y \<in> set ys. R y d))"
      by (rule triple_conseq [OF Cons.IH]) (use Cons.prems in auto)
    show "triple I (\<lambda>d. P d \<and> R y d) (for_each f xs) (\<lambda>_ d. P d \<and> R y d)"
      by (rule triple_for_each) (use Cons.prems(2) in auto)
  qed
  show ?case unfolding for_each.simps
    by (rule triple_bind, rule Cons.prems(1), simp, rule triple_bind [OF rest], rule triple_ret) auto
qed (simp add: triple_ret)

text \<open>Stored rows with the identifier of an incoming interface or port are rows of host \<open>h\<close>.\<close>

definition local_ids ::
    "uuid \<Rightarrow> Interface list \<Rightarrow> Port list \<Rightarrow> Host list \<times> Interface list \<times> Port list \<Rightarrow> bool" where
  "local_ids h is ps rows \<longleftrightarrow>
     (\<forall>r \<in> set (fst (snd rows)). interface_id r \<in> interface_id ` set is \<longrightarrow> ib_host_id (interface_base r) = h) \<and>
     (\<forall>r \<in> set (snd (snd rows)). port_id r \<in> port_id ` set ps \<longrightarrow> pb_host_id (port_base r) = h)"

text \<open>Every interface and port of the lists has the identifier of a row of host \<open>h\<close>, a port with the same
  number and protocol.\<close>

definition owned_on ::
    "uuid \<Rightarrow> Interface list \<Rightarrow> Port list \<Rightarrow> Host list \<times> Interface list \<times> Port list \<Rightarrow> bool" where
  "owned_on h is ps rows \<longleftrightarrow>
     (\<forall>i \<in> set is. \<exists>r \<in> set (fst (snd rows)). interface_id r = interface_id i \<and> ib_host_id (interface_base r) = h) \<and>
     (\<forall>p \<in> set ps. \<exists>r \<in> set (snd (snd rows)).
        port_id r = port_id p \<and> pb_host_id (port_base r) = h \<and> Port_eq r p)"

abbreviation infra :: "db \<Rightarrow> Host list \<times> Interface list \<times> Port list" where
  "infra d \<equiv> (db_hosts d, db_interfaces d, db_ports d)"

lemma triple_store_interface:
  assumes x: "ib_host_id (interface_base x) = h"
  shows "triple (kept (local_ids h is ps) S T) (\<lambda>d. owned_on h is' ps' (infra d))
    (storage_create interface_table x) (\<lambda>y d. owned_on h is' ps' (infra d) \<and> owned_on h [y] [] (infra d))"
proof (rule triple_storage_create, goal_cases)
  case (1 d)
  then have "interface_id x \<notin> interface_id ` set (db_interfaces d)"
    by (auto simp: unique_violation_def split: if_splits)
  then have "binding_inv (d\<lparr>db_interfaces := db_interfaces d @ [x]\<rparr>)"
    using 1 keptD [OF 1(1)] by (intro new_interface_inv) auto
  with 1 x show ?case by (auto simp: kept_def local_ids_def owned_on_def)
qed

lemma triple_create_interface_child:
  assumes x: "x \<in> set is"
  shows "triple (kept (local_ids h is ps) S T) (\<lambda>d. owned_on h is' ps' (infra d))
    (create_interface_child ConflictBehavior_Upsert h x)
    (\<lambda>y d. owned_on h is' ps' (infra d) \<and> owned_on h [y] [] (infra d))" (is "triple ?I ?P _ ?Q")
proof -
  let ?x = "x\<lparr>interface_base := (interface_base x)\<lparr>ib_host_id := h\<rparr>\<rparr>"
  have create: "triple ?I ?P (crud_create interface_table ?x) ?Q"
    by (rule triple_crud_create, rule triple_store_interface) (auto simp: Interface_new_def)
  have key: "triple ?I ?P (storage_get_all interface_table f)
      (\<lambda>es d. ?P d \<and> (\<forall>e \<in> set es. e \<in> set (db_interfaces d) \<and> f e))" for f
    by (rule triple_storage_get_all) auto
  have second: "triple ?I (\<lambda>d. ?P d \<and> (\<forall>e \<in> set es. e \<in> set (db_interfaces d) \<and>
        ib_host_id (interface_base e) = h \<and> g e))
      (case find p es of Some e \<Rightarrow> ret e | None \<Rightarrow> crud_create interface_table ?x) ?Q" for es g p
    by (rule triple_option, rule triple_conseq [OF create])
      (auto intro!: triple_ret simp: owned_on_def dest!: find_in_set)
  have "triple ?I ?P (storage_get_by_id interface_table (interface_id x))
      (\<lambda>found d. ?P d \<and> (\<forall>e. found = Some e \<longrightarrow> owned_on h [e] [] (infra d)))"
    using x by (intro triple_storage_get_by_id) (auto simp: kept_def local_ids_def owned_on_def find_Some_iff)
  then show ?thesis
    unfolding create_interface_child_def Let_def
    by (simp, elim triple_bind)
      (rule triple_option, rule triple_conseq [OF triple_bind [OF key second [where g = "\<lambda>e.
          ib_subnet_id (interface_base e) = ib_subnet_id (interface_base x)"]]],
        auto intro!: triple_ret)
qed

lemma triple_store_port:
  assumes x: "pb_host_id (port_base x) = h"
  shows "triple (kept (local_ids h is ps) S T) (\<lambda>d. owned_on h is' ps' (infra d))
    (storage_create port_table x) (\<lambda>y d. owned_on h is' ps' (infra d) \<and> owned_on h [] [y] (infra d))"
proof (rule triple_storage_create, goal_cases)
  case (1 d)
  then have "port_id x \<notin> port_id ` set (db_ports d)"
    by (auto simp: unique_violation_def split: if_splits)
  then have "binding_inv (d\<lparr>db_ports := db_ports d @ [port_store x]\<rparr>)"
    using 1 keptD [OF 1(1)] by (intro new_port_inv) auto
  with 1 x show ?case by (auto simp: kept_def local_ids_def owned_on_def)
qed

lemma triple_create_port_child:
  assumes x: "x \<in> set ps"
  shows "triple (kept (local_ids (host_id host) is ps) S T) (\<lambda>d. owned_on (host_id host) is' ps' (infra d))
    (create_port_child ConflictBehavior_Upsert host x)
    (\<lambda>y d. owned_on (host_id host) is' ps' (infra d) \<and> owned_on (host_id host) [] [y] (infra d))"
    (is "triple ?I ?P _ ?Q")
proof -
  let ?x = "Port_with_host x (host_id host) (host_network host)"
  have create: "triple ?I ?P (crud_create port_table ?x) ?Q"
    by (rule triple_crud_create, rule triple_store_port) (auto simp: Port_new_def Port_with_host_def)
  have rows: "triple ?I ?P (get_ports_for_host (host_id host))
      (\<lambda>es d. ?P d \<and> (\<forall>e \<in> set es. e \<in> set (db_ports d) \<and> pb_host_id (port_base e) = host_id host))"
    unfolding get_ports_for_host_def get_for_parent_def by (rule triple_storage_get_all) auto
  have second: "triple ?I (\<lambda>d. ?P d \<and> (\<forall>e \<in> set es. e \<in> set (db_ports d) \<and> pb_host_id (port_base e) = host_id host))
      (case find p es of Some e \<Rightarrow> ret e | None \<Rightarrow> crud_create port_table ?x) ?Q" for es p
    by (rule triple_option, rule triple_conseq [OF create])
      (auto intro!: triple_ret simp: owned_on_def dest!: find_in_set)
  have "triple ?I ?P (storage_get_by_id port_table (port_id x))
      (\<lambda>found d. ?P d \<and> (\<forall>e. found = Some e \<longrightarrow> owned_on (host_id host) [] [e] (infra d)))"
    using x by (intro triple_storage_get_by_id) (auto simp: kept_def local_ids_def owned_on_def find_Some_iff)
  moreover have "port_id ?x = port_id x" by (simp add: Port_with_host_def)
  ultimately show ?thesis
    unfolding create_port_child_def Let_def
    by (simp, elim triple_bind)
      (rule triple_option, rule triple_conseq [OF triple_bind [OF rows second]], auto intro!: triple_ret)
qed

lemma triple_create_interfaces:
  assumes "set xs \<subseteq> set is"
  shows "triple (kept (local_ids h is ps) S T) (\<lambda>_. True)
    (for_each (create_interface_child ConflictBehavior_Upsert h) xs)
    (\<lambda>ys d. owned_on h ys [] (infra d))"
proof -
  have keep: "triple (kept (local_ids h is ps) S T) (\<lambda>d. True \<and> owned_on h [y] [] (infra d))
      (create_interface_child ConflictBehavior_Upsert h x) (\<lambda>_ d. True \<and> owned_on h [y] [] (infra d))"
    if "x \<in> set xs" for x y
    by (rule triple_conseq [OF triple_create_interface_child [where is' = "[y]" and ps' = "[]"]])
      (use that assms in auto)
  have one: "triple (kept (local_ids h is ps) S T) (\<lambda>_. True)
      (create_interface_child ConflictBehavior_Upsert h x) (\<lambda>y d. True \<and> owned_on h [y] [] (infra d))"
    if "x \<in> set xs" for x
    by (rule triple_conseq [OF triple_create_interface_child [where is' = "[]" and ps' = "[]"]])
      (use that assms in \<open>auto simp: owned_on_def\<close>)
  show ?thesis
    by (rule triple_conseq [OF triple_for_each_results [OF one keep]]) (auto simp: owned_on_def)
qed

lemma triple_create_ports:
  assumes "set xs \<subseteq> set ps"
  shows "triple (kept (local_ids (host_id host) is ps) S T) (\<lambda>d. owned_on (host_id host) is' [] (infra d))
    (for_each (create_port_child ConflictBehavior_Upsert host) xs)
    (\<lambda>ys d. owned_on (host_id host) is' ys (infra d))"
proof -
  let ?P = "\<lambda>d. owned_on (host_id host) is' [] (infra d)"
  have keep: "triple (kept (local_ids (host_id host) is ps) S T) (\<lambda>d. ?P d \<and> owned_on (host_id host) [] [y] (infra d))
      (create_port_child ConflictBehavior_Upsert host x) (\<lambda>_ d. ?P d \<and> owned_on (host_id host) [] [y] (infra d))"
    if "x \<in> set xs" for x y
    by (rule triple_conseq [OF triple_create_port_child [where is' = is' and ps' = "[y]"]])
      (use that assms in \<open>auto simp: owned_on_def\<close>)
  have one: "triple (kept (local_ids (host_id host) is ps) S T) ?P
      (create_port_child ConflictBehavior_Upsert host x) (\<lambda>y d. ?P d \<and> owned_on (host_id host) [] [y] (infra d))"
    if "x \<in> set xs" for x
    by (rule triple_create_port_child) (use that assms in auto)
  show ?thesis
    by (rule triple_conseq [OF triple_for_each_results [OF one keep]]) (auto simp: owned_on_def)
qed

subsection \<open>Creating the services of a batch\<close>

text \<open>The types of bindings that overlap none of \<open>bs\<close>.\<close>

definition apart :: "Binding list \<Rightarrow> BindingType set" where
  "apart bs = {t. \<forall>b \<in> set bs. \<forall>c. btype c = t \<longrightarrow> \<not> bindings_overlap b c}"

lemma overlap_btype_right: "btype c = btype c' \<Longrightarrow> bindings_overlap b c \<longleftrightarrow> bindings_overlap b c'"
  using bindings_overlap_btype bindings_overlap_sym by metis

lemma in_apart: "btype c \<in> apart bs \<longleftrightarrow> (\<forall>b \<in> set bs. \<not> bindings_overlap b c)"
  unfolding apart_def mem_Collect_eq using overlap_btype_right [of _ c] by blast

lemma types_in_apart: "types_in (db_bindings d) (apart bs) \<longleftrightarrow> free_bindings bs d"
  by (auto simp: in_apart free_bindings_def image_subset_iff)

lemma belonging_owned:
  assumes kept: "kept (owned_on h uis ups) S T d"
    and bs: "\<And>b. b \<in> set bs \<Longrightarrow> binding_within (port_id ` set ups) (interface_id ` set uis) (btype b)"
  shows "belonging h bs d"
  unfolding belonging_def
proof
  fix b assume "b \<in> set bs"
  note within = bs [OF this]
  have sub: "port_id ` set ups \<subseteq> port_id ` {p \<in> set (db_ports d). pb_host_id (port_base p) = h}"
    "interface_id ` set uis \<subseteq> interface_id ` {i \<in> set (db_interfaces d). ib_host_id (interface_base i) = h}"
    using kept by (auto simp: kept_def owned_on_def image_iff) (metis+)
  have "binding_within (port_id ` {p \<in> set (db_ports d). pb_host_id (port_base p) = h})
      (interface_id ` {i \<in> set (db_interfaces d). ib_host_id (interface_base i) = h}) (btype b)"
    using within sub by (auto simp: binding_within_def split: BindingType.splits option.splits)
  then show "local_binding d h b"
    using binding_invD(1) [OF keptD [OF kept]] by (rule within_local [rotated])
qed

lemma unclaimed_free:
  assumes "binding_inv d" "belonging h bs d" "unclaimed h i bs d" "new_service_id i d"
  shows "free_bindings bs d"
  unfolding free_bindings_def
proof (intro ballI notI)
  fix b c assume b: "b \<in> set bs" and c: "c \<in> set (db_bindings d)" "bindings_overlap b c"
  obtain s where s: "s \<in> set (db_services d)" "service_id s = binding_service_id c"
    "local_binding d (svb_host_id (service_base s)) c"
    using binding_service_row [OF assms(1) c(1)] .
  with overlap_same_host [OF assms(1) c] b assms(2) have "on_host h s" by (auto simp: belonging_def)
  moreover from s assms(4) have "service_id s \<noteq> i" by (force simp: new_service_id_def)
  ultimately show False using assms(3) b c s by (auto simp: unclaimed_def)
qed

lemma triple_partition:
  "triple I P (partition_conflicting_bindings h i bs claimed)
     (\<lambda>(valid, conflicting) d. P d \<and> set valid \<subseteq> set bs \<and> unclaimed h i valid d \<and>
        (conflicting = [] \<longrightarrow> valid = bs))"
proof -
  have part: "set (fst (partition_bindings ss i bs claimed)) \<subseteq> set bs \<and>
      unclaimed h i (fst (partition_bindings ss i bs claimed)) d \<and>
      (snd (partition_bindings ss i bs claimed) = [] \<longrightarrow> fst (partition_bindings ss i bs claimed) = bs)"
    if ss: "lists_bindings (on_host h) ss d" for ss d
  proof -
    have "unclaimed h i (filter (\<lambda>b. \<not> has_claim_conflict (claimed_by_others ss i @ claimed) b) bs) d"
    proof (rule unclaimedI [OF ss])
      fix b s c assume "b \<in> set (filter (\<lambda>b. \<not> has_claim_conflict (claimed_by_others ss i @ claimed) b) bs)"
        "s \<in> set ss" "service_id s \<noteq> i" "c \<in> set (svb_bindings (service_base s))"
      moreover have "has_claim_conflict (claimed_by_others ss i) b \<Longrightarrow>
          has_claim_conflict (claimed_by_others ss i @ claimed) b"
        by (auto simp: has_claim_conflict_def split: option.splits)
      ultimately show "\<not> bindings_overlap b c" using has_claim_conflict_iff by auto
    qed
    then show ?thesis by (auto simp: partition_bindings_eq filter_empty_conv)
  qed
  show ?thesis
    unfolding partition_conflicting_bindings_def
    by (rule triple_if, rule triple_ret, simp add: unclaimed_def, rule triple_bind [OF triple_service_get_all],
        rule triple_ret, unfold case_prod_beta) (use part in blast)
qed

text \<open>Services of the batch with different identifiers bind apart.\<close>

definition batch_apart :: "(Service \<Rightarrow> Binding list) \<Rightarrow> Service list \<Rightarrow> bool" where
  "batch_apart bsof xs \<longleftrightarrow>
     (\<forall>s \<in> set xs. \<forall>t \<in> set xs. service_id s \<noteq> service_id t \<longrightarrow>
        (\<forall>b \<in> set (bsof s). btype b \<in> apart (bsof t)))"

abbreviation new_keys :: "uuid set \<Rightarrow> (uuid \<times> uuid) set" where
  "new_keys ids \<equiv> {k. fst k \<notin> ids}"

lemma new_keys_iff: "service_key ` set ss \<subseteq> new_keys ids \<longleftrightarrow> service_id ` set ss \<inter> ids = {}"
  by auto

locale service_batch =
  fixes host :: Host and ois :: "Interface list" and ops :: "Port list"
    and uis :: "Interface list" and ups :: "Port list"
begin

abbreviation moved :: "Service \<Rightarrow> Service" where
  "moved s \<equiv> reassign_service_interface_bindings s ois ops (host_id host) (host_network host) uis ups"

abbreviation moved_bindings :: "Service \<Rightarrow> Binding list" where
  "moved_bindings s \<equiv> svb_bindings (service_base (moved s))"

abbreviation batch_inv :: "(uuid \<times> uuid) set \<Rightarrow> BindingType set \<Rightarrow> db \<Rightarrow> bool" where
  "batch_inv \<equiv> kept (owned_on (host_id host) uis ups)"

lemma moved_simps [simp]:
  "service_id (moved s) = service_id s" "svb_host_id (service_base (moved s)) = host_id host"
  by (simp_all add: reassign_service_interface_bindings_def)

lemma moved_within:
  "b \<in> set (moved_bindings s) \<Longrightarrow> binding_within (port_id ` set ups) (interface_id ` set uis) (btype b)"
  by (auto simp: reassign_service_interface_bindings_def set_map_filter intro: reassign_binding_within)

lemma belonging_moved:
  "batch_inv S T d \<Longrightarrow> set bs \<subseteq> set (moved_bindings s) \<Longrightarrow> belonging (host_id host) bs d"
  by (erule belonging_owned) (auto intro: moved_within)

lemma creatable_moved:
  assumes d: "batch_inv S T d" and new: "new_service_id (service_id s) d"
    and un: "unclaimed (host_id host) (service_id s) (moved_bindings s) d"
  shows "creatable (moved s) d"
  using unclaimed_free [OF keptD [OF d] belonging_moved [OF d subset_refl] un new] belonging_moved [OF d subset_refl]
    new by (auto simp: creatable_def new_service_id_def)

text \<open>The state between two services: the identifiers of those to come are new, and no stored binding
  overlaps an orphaned one.\<close>

definition between :: "uuid set \<Rightarrow> batch \<Rightarrow> db \<Rightarrow> bool" where
  "between ids st d \<longleftrightarrow>
     service_id ` set (db_services d) \<inter> ids = {} \<and> types_in (db_bindings d) (apart (bt_orphaned st))"

lemma between_created [simp]:
  "between ids (st\<lparr>bt_claimed := claims, bt_created := created\<rparr>) = between ids st"
  by (simp add: fun_eq_iff between_def)

lemma between_kept: "batch_inv S T d \<and> between ids st d \<longleftrightarrow> batch_inv (S \<inter> new_keys ids) (T \<inter> apart (bt_orphaned st)) d"
  unfolding kept_def between_def Int_subset_iff new_keys_iff le_inf_iff by blast

lemma triple_batch_create:
  assumes "service_id s \<noteq> uuid_nil" "service_id s \<notin> ids" "types_in (moved_bindings s) (apart (bt_orphaned st))"
  shows "triple (batch_inv UNIV UNIV)
    (\<lambda>d. between (insert (service_id s) ids) st d \<and> unclaimed (host_id host) (service_id s) (moved_bindings s) d)
    (service_create (moved s)) (\<lambda>_. between ids st)"
proof -
  have "triple (batch_inv (new_keys ids) (apart (bt_orphaned st))) (creatable (moved s)) (service_create (moved s)) (\<lambda>_ _. True)"
    using assms by (intro triple_service_create) auto
  then have "triple (\<lambda>d. batch_inv UNIV UNIV d \<and> between ids st d) (creatable (moved s))
      (service_create (moved s)) (\<lambda>_ _. True)"
    unfolding between_kept by simp
  from triple_inv_conj [OF this] show ?thesis
    by (rule triple_conseq) (auto intro!: creatable_moved simp: between_def new_service_id_def)
qed

lemma triple_batch_step:
  assumes "service_id s \<noteq> uuid_nil" "service_id s \<notin> ids"
    and apart: "types_in (moved_bindings s) (apart (bt_orphaned st))"
  shows "triple (batch_inv UNIV UNIV) (between (insert (service_id s) ids) st)
    (create_service_child host ois ops uis ups st s)
    (\<lambda>st' d. between ids st' d \<and> set (bt_orphaned st') \<subseteq> set (bt_orphaned st) \<union> set (moved_bindings s))"
proof -
  let ?parts = "\<lambda>valid conflicting d. between (insert (service_id s) ids) st d \<and> set valid \<subseteq> set (moved_bindings s) \<and>
    unclaimed (host_id host) (service_id s) valid d \<and> (conflicting = [] \<longrightarrow> valid = moved_bindings s)"
  have drop: "triple (batch_inv UNIV UNIV) (?parts valid conflicting)
      (ret (st\<lparr>bt_orphaned := bt_orphaned st @ valid\<rparr>))
      (\<lambda>st' d. between ids st' d \<and> set (bt_orphaned st') \<subseteq> set (bt_orphaned st) \<union> set (moved_bindings s))"
    for valid conflicting
  proof (rule triple_ret)
    fix d assume d: "batch_inv UNIV UNIV d" "?parts valid conflicting d"
    then have "new_service_id (service_id s) d" by (auto simp: between_def new_service_id_def)
    then have "free_bindings valid d"
      using d belonging_moved [OF d(1), of valid s] by (intro unclaimed_free [OF keptD]) auto
    then have "types_in (db_bindings d) (apart (bt_orphaned st @ valid))"
      using d(2) by (auto simp: between_def types_in_apart free_bindings_def)
    with d(2) show "between ids (st\<lparr>bt_orphaned := bt_orphaned st @ valid\<rparr>) d \<and>
        set (bt_orphaned (st\<lparr>bt_orphaned := bt_orphaned st @ valid\<rparr>)) \<subseteq> set (bt_orphaned st) \<union> set (moved_bindings s)"
      by (auto simp: between_def)
  qed
  have create: "triple (batch_inv UNIV UNIV) (?parts valid [])
      (and_then_do (service_create (moved s)) (\<lambda>created.
         ret (st\<lparr>bt_claimed := claims, bt_created := bt_created st @ [created]\<rparr>)))
      (\<lambda>st' d. between ids st' d \<and> set (bt_orphaned st') \<subseteq> set (bt_orphaned st) \<union> set (moved_bindings s))"
    for valid claims
    by (rule triple_bind [where R = "\<lambda>_. between ids st", OF triple_conseq [OF triple_batch_create [OF assms]]])
      (auto intro!: triple_ret)
  show ?thesis
    unfolding create_service_child_def Let_def moved_simps
  proof (rule triple_bind [OF triple_partition], unfold case_prod_beta, rule triple_if)
    fix x :: "Binding list \<times> Binding list"
    show "triple (batch_inv UNIV UNIV)
        (\<lambda>d. between (insert (service_id s) ids) st d \<and> set (fst x) \<subseteq> set (moved_bindings s) \<and>
           unclaimed (host_id host) (service_id s) (fst x) d \<and> (snd x = [] \<longrightarrow> fst x = moved_bindings s))
        (ret (st\<lparr>bt_orphaned := bt_orphaned st @ fst x\<rparr>))
        (\<lambda>st' d. between ids st' d \<and> set (bt_orphaned st') \<subseteq> set (bt_orphaned st) \<union> set (moved_bindings s))"
      by (rule drop)
    assume "\<not> snd x \<noteq> []"
    with create [of "fst x"] show "triple (batch_inv UNIV UNIV)
        (\<lambda>d. between (insert (service_id s) ids) st d \<and> set (fst x) \<subseteq> set (moved_bindings s) \<and>
           unclaimed (host_id host) (service_id s) (fst x) d \<and> (snd x = [] \<longrightarrow> fst x = moved_bindings s))
        (and_then_do (service_create (moved s)) (\<lambda>created.
           ret (st\<lparr>bt_claimed := bt_claimed st @ List.map_filter port_claim (moved_bindings s),
                   bt_created := bt_created st @ [created]\<rparr>)))
        (\<lambda>st' d. between ids st' d \<and> set (bt_orphaned st') \<subseteq> set (bt_orphaned st) \<union> set (moved_bindings s))"
      by simp
  qed
qed

lemma triple_batch_loop:
  assumes "distinct (map service_id xs)" "uuid_nil \<notin> service_id ` set xs"
    and "batch_apart moved_bindings xs"
    and "\<And>s. s \<in> set xs \<Longrightarrow> types_in (moved_bindings s) (apart (bt_orphaned st))"
    and "\<And>b. b \<in> set (bt_orphaned st) \<Longrightarrow> b \<in> B" "\<And>s. s \<in> set xs \<Longrightarrow> set (moved_bindings s) \<subseteq> B"
  shows "triple (batch_inv UNIV UNIV) (between (service_id ` set xs) st)
    (loop (create_service_child host ois ops uis ups) st xs)
    (\<lambda>st' d. between {} st' d \<and> set (bt_orphaned st') \<subseteq> B)"
  using assms
proof (induction xs arbitrary: st)
  case Nil
  then show ?case by (auto intro!: triple_ret)
next
  case (Cons s xs)
  have rest: "triple (batch_inv UNIV UNIV)
      (\<lambda>d. between (service_id ` set xs) st' d \<and>
         set (bt_orphaned st') \<subseteq> set (bt_orphaned st) \<union> set (moved_bindings s))
      (loop (create_service_child host ois ops uis ups) st' xs)
      (\<lambda>st'' d. between {} st'' d \<and> set (bt_orphaned st'') \<subseteq> B)" for st'
  proof (rule triple_pre)
    fix d assume d: "between (service_id ` set xs) st' d \<and>
      set (bt_orphaned st') \<subseteq> set (bt_orphaned st) \<union> set (moved_bindings s)"
    have far: "types_in (moved_bindings t) (apart (bt_orphaned st'))" if "t \<in> set xs" for t
    proof -
      have "service_id t \<noteq> service_id s" using that Cons.prems(1) by (simp, metis image_eqI)
      then have "btype b \<in> apart (moved_bindings s)" "btype b \<in> apart (bt_orphaned st)"
        if "b \<in> set (moved_bindings t)" for b
        using that \<open>t \<in> set xs\<close> Cons.prems(3,4) by (auto simp: batch_apart_def image_subset_iff)
      then show ?thesis using d unfolding in_apart image_subset_iff by blast
    qed
    have "triple (batch_inv UNIV UNIV) (between (service_id ` set xs) st')
        (loop (create_service_child host ois ops uis ups) st' xs)
        (\<lambda>st'' d. between {} st'' d \<and> set (bt_orphaned st'') \<subseteq> B)"
    proof (rule Cons.IH)
      show "batch_apart moved_bindings xs" using Cons.prems(3) by (simp add: batch_apart_def)
      show "b \<in> B" if "b \<in> set (bt_orphaned st')" for b using that d Cons.prems(5,6) by fastforce
    qed (use Cons.prems far in auto)
    then show "triple (batch_inv UNIV UNIV) (\<lambda>e. e = d)
        (loop (create_service_child host ois ops uis ups) st' xs)
        (\<lambda>st'' d. between {} st'' d \<and> set (bt_orphaned st'') \<subseteq> B)"
      by (rule triple_conseq) (use d in auto)
  qed
  show ?case
    unfolding loop.simps
    by (rule triple_bind [OF triple_conseq [OF triple_batch_step [where ids = "service_id ` set xs"]] rest])
      (use Cons.prems in auto)
qed

lemma triple_batch:
  assumes "distinct (map service_id xs)" "uuid_nil \<notin> service_id ` set xs"
    and "batch_apart moved_bindings xs"
  shows "triple (batch_inv UNIV UNIV) (between (service_id ` set xs) \<lparr>bt_claimed = [], bt_orphaned = [], bt_created = []\<rparr>)
    (and_then_do (loop (create_service_child host ois ops uis ups)
        \<lparr>bt_claimed = [], bt_orphaned = [], bt_created = []\<rparr> xs) (assign_orphaned_bindings host))
    (\<lambda>_ _. True)"
proof -
  let ?B = "\<Union>s \<in> set xs. set (moved_bindings s)"
  have "triple (batch_inv UNIV UNIV) (\<lambda>d. between {} st d \<and> set (bt_orphaned st) \<subseteq> ?B)
      (assign_orphaned_bindings host st) (\<lambda>_ _. True)" for st
  proof -
    let ?R = "\<lambda>d. between {} st d \<and> set (bt_orphaned st) \<subseteq> ?B"
    let ?s = "\<lambda>i t. Service_new i t (unclaimed_open_ports host (bt_orphaned st))"
    have "creatable (?s i t) d" if d: "batch_inv UNIV UNIV d" "?R d" for i t d
    proof -
      have "belonging (host_id host) (bt_orphaned st) d"
        using d(2) by (intro belonging_owned [OF d(1)]) (auto intro: moved_within)
      then show ?thesis
        using d(2) by (auto simp: creatable_def Service_new_def unclaimed_open_ports_def between_def types_in_apart)
    qed
    then have "triple (batch_inv UNIV UNIV) ?R (service_create (?s i t)) (\<lambda>_ _. True)" for i t
      by (intro triple_conseq [OF triple_discovered_service_create])
        (auto simp: Service_new_def unclaimed_open_ports_def)
    then show ?thesis
      unfolding assign_orphaned_bindings_def
      by (intro triple_if triple_ret TrueI triple_bind [where R = "\<lambda>_. ?R" and m = fresh_id] triple_fresh_id
          triple_bind [where R = "\<lambda>_. ?R" and m = now] triple_now triple_bind [where m = "service_create _"])
  qed
  then show ?thesis
    by (intro triple_bind [OF triple_batch_loop [OF assms, where B = ?B]]) (auto simp: apart_def)
qed

end

interpretation batch: service_batch host ois ops uis ups for host ois ops uis ups .

subsection \<open>Discovering a host\<close>

text \<open>Bindings of different services of the batch are to ports with different numbers or protocols.\<close>

definition ports_apart :: "Port list \<Rightarrow> Service list \<Rightarrow> bool" where
  "ports_apart ops xs \<longleftrightarrow>
     (\<forall>s \<in> set xs. \<forall>t \<in> set xs. service_id s \<noteq> service_id t \<longrightarrow>
        (\<forall>b \<in> set (svb_bindings (service_base s)). \<forall>c \<in> set (svb_bindings (service_base t)).
         \<forall>p \<in> set ops. \<forall>q \<in> set ops. Binding_port_id b = Some (port_id p) \<longrightarrow>
           Binding_port_id c = Some (port_id q) \<longrightarrow> \<not> Port_eq p q))"

lemma reassign_binding_port:
  assumes "reassign_binding ois ops uis ups b = Some b'" "port_claim b' = Some c"
  obtains p p' where "p \<in> set ops" "p' \<in> set ups" "Binding_port_id b = Some (port_id p)"
    "Port_eq p' p" "fst c = port_id p'"
  using assms
  by (auto simp: reassign_binding_def port_claim_def Binding_port_id_def find_Some_iff Let_def
      split: BindingType.splits option.splits dest!: nth_mem)

lemma Port_eq_trans: "Port_eq r p \<Longrightarrow> Port_eq r q \<Longrightarrow> Port_eq p p' \<Longrightarrow> Port_eq q q' \<Longrightarrow> Port_eq p' q'"
  by (simp add: Port_eq_def PortBase_eq_def PortType_eq_iff)

lemma owned_port:
  assumes "kept (owned_on h uis ups) S T d" "p \<in> set ups"
  obtains r where "r \<in> set (db_ports d)" "port_id r = port_id p" "Port_eq r p"
proof -
  have "\<exists>r \<in> set (db_ports d). port_id r = port_id p \<and> pb_host_id (port_base r) = h \<and> Port_eq r p"
    using assms by (simp add: kept_def owned_on_def)
  then show ?thesis using that by blast
qed

lemma ports_apart_batch:
  assumes apart: "ports_apart ops xs" and d: "kept (owned_on h uis ups) S T d"
  shows "batch_apart (\<lambda>s. svb_bindings (service_base
      (reassign_service_interface_bindings s ois ops h n uis ups))) xs"
  unfolding batch_apart_def in_apart
proof (intro ballI impI notI)
  fix s t b' c'
  assume st: "s \<in> set xs" "t \<in> set xs" "service_id s \<noteq> service_id t"
    and b': "b' \<in> set (svb_bindings (service_base (reassign_service_interface_bindings s ois ops h n uis ups)))"
    and c': "c' \<in> set (svb_bindings (service_base (reassign_service_interface_bindings t ois ops h n uis ups)))"
    and over: "bindings_overlap c' b'"
  obtain x y where xy: "port_claim b' = Some x" "port_claim c' = Some y" "fst x = fst y"
    using over by (auto simp: bindings_overlap_def claims_overlap_def split: option.splits)
  obtain b where b: "b \<in> set (svb_bindings (service_base s))" "reassign_binding ois ops uis ups b = Some b'"
    using b' by (auto simp: reassign_service_interface_bindings_def set_map_filter)
  obtain c where c: "c \<in> set (svb_bindings (service_base t))" "reassign_binding ois ops uis ups c = Some c'"
    using c' by (auto simp: reassign_service_interface_bindings_def set_map_filter)
  obtain p p' where p: "p \<in> set ops" "p' \<in> set ups" "Binding_port_id b = Some (port_id p)"
    "Port_eq p' p" "fst x = port_id p'"
    using reassign_binding_port [OF b(2) xy(1)] .
  obtain q q' where q: "q \<in> set ops" "q' \<in> set ups" "Binding_port_id c = Some (port_id q)"
    "Port_eq q' q" "fst y = port_id q'"
    using reassign_binding_port [OF c(2) xy(2)] .
  obtain r where r: "r \<in> set (db_ports d)" "port_id r = port_id p'" "Port_eq r p'"
    using owned_port [OF d p(2)] .
  obtain r' where r': "r' \<in> set (db_ports d)" "port_id r' = port_id q'" "Port_eq r' q'"
    using owned_port [OF d q(2)] .
  have "r = r'"
    using r r' binding_invD(1) [OF keptD [OF d]] p(5) q(5) xy(3) eq_of_same_id [of port_id "db_ports d" r r']
    by (simp add: ids_ok_def)
  with r r' p(4) q(4) have "Port_eq p q" using Port_eq_trans by blast
  with apart st b(1) c(1) p q show False by (auto simp: ports_apart_def)
qed

text \<open>A property of the tables that a phase keeps, carried across phases that keep others.\<close>

lemma triple_kept_inv:
  "triple (kept K S T) P m Q \<Longrightarrow>
     triple binding_inv (\<lambda>d. P d \<and> kept K S T d) m (\<lambda>x d. Q x d \<and> kept K S T d)"
  unfolding triple_def using keptD by blast

lemma triple_assoc:
  assumes "triple I P (and_then_do (and_then_do m f) g) Q"
  shows "triple I P (and_then_do m (\<lambda>x. and_then_do (f x) g)) Q"
proof -
  have "and_then_do m (\<lambda>x. and_then_do (f x) g) = and_then_do (and_then_do m f) g"
    by (auto simp: fun_eq_iff and_then_do_def split: prod.split sum.split)
  then show ?thesis using assms by simp
qed

lemma triple_create_children:
  assumes ids: "distinct (map service_id services)" "uuid_nil \<notin> service_id ` set services"
    and apart: "ports_apart ports services"
  shows "triple binding_inv
    (kept (local_ids (host_id host) interfaces ports) (new_keys (service_id ` set services)) UNIV)
    (create_children ConflictBehavior_Upsert host interfaces ports services) (\<lambda>_ _. True)"
proof -
  let ?h = "host_id host" and ?ids = "service_id ` set services"
  let ?K = "kept (local_ids ?h interfaces ports) (new_keys ?ids) UNIV"
  let ?st = "\<lparr>bt_claimed = [], bt_orphaned = [], bt_created = []\<rparr>"
  have ifs: "triple binding_inv ?K (for_each (create_interface_child ConflictBehavior_Upsert ?h) interfaces)
      (\<lambda>uis d. owned_on ?h uis [] (infra d) \<and> ?K d)"
    by (rule triple_conseq [OF triple_kept_inv [OF triple_create_interfaces [where ps = ports]]]) auto
  have ps: "triple binding_inv (\<lambda>d. owned_on ?h uis [] (infra d) \<and> ?K d)
      (for_each (create_port_child ConflictBehavior_Upsert host) ports)
      (\<lambda>ups d. owned_on ?h uis ups (infra d) \<and> ?K d)" for uis
    by (rule triple_kept_inv [OF triple_create_ports]) simp
  have batch: "triple binding_inv (\<lambda>d. owned_on ?h uis ups (infra d) \<and> ?K d)
      (and_then_do (loop (create_service_child host interfaces ports uis ups) ?st services)
         (assign_orphaned_bindings host)) (\<lambda>_ _. True)" for uis ups
  proof (rule triple_pre)
    fix d assume d: "owned_on ?h uis ups (infra d) \<and> ?K d"
    then have kept: "kept (owned_on ?h uis ups) UNIV UNIV d" and new: "?ids \<inter> service_id ` set (db_services d) = {}"
      unfolding kept_def new_keys_iff by (simp_all add: Int_commute)
    have "batch.between ?ids ?st d" using new by (auto simp: batch.between_def apart_def)
    then show "triple binding_inv (\<lambda>e. e = d)
        (and_then_do (loop (create_service_child host interfaces ports uis ups) ?st services)
           (assign_orphaned_bindings host)) (\<lambda>_ _. True)"
      using kept
      by (intro triple_conseq [OF triple_kept_inv [OF batch.triple_batch
              [OF ids ports_apart_batch [OF apart kept, of interfaces "host_network host"]]]]) auto
  qed
  show ?thesis
    unfolding create_children_def
    by (rule triple_bind [OF ifs], rule triple_bind [OF ps], rule triple_assoc, rule triple_bind [OF batch])
      (rule triple_ret, simp)
qed

lemma kept_hosts:
  assumes "kept (\<lambda>t. K (snd t)) S T d" "distinct (map host_id hs)" "host_id ` set (db_hosts d) \<subseteq> host_id ` set hs"
  shows "kept (\<lambda>t. K (snd t)) S T (d\<lparr>db_hosts := hs\<rparr>)"
  using assms host_rows_inv [OF keptD [OF assms(1)]] by (simp add: kept_def)

lemma triple_host_row:
  "triple (kept (\<lambda>t. K (snd t)) S T) (\<lambda>_. True) (storage_update host_table h) (\<lambda>_ _. True)"
  "triple (kept (\<lambda>t. K (snd t)) S T) (\<lambda>_. True) (storage_create host_table h) (\<lambda>_ _. True)"
proof -
  show "triple (kept (\<lambda>t. K (snd t)) S T) (\<lambda>_. True) (storage_update host_table h) (\<lambda>_ _. True)"
  proof (rule triple_storage_update)
    fix d t x' assume d: "kept (\<lambda>t. K (snd t)) S T d"
    let ?hs = "map (\<lambda>r. if host_id r = host_id x' then x' else r) (db_hosts d)"
    have eq: "map host_id ?hs = map host_id (db_hosts d)" by simp
    have "distinct (map host_id ?hs)" using binding_invD(1) [OF keptD [OF d]] eq by (simp only: ids_ok_def)
    moreover have "host_id ` set ?hs = host_id ` set (db_hosts d)"
      using arg_cong [OF eq, of set] unfolding set_map .
    moreover have "updated_rows host_table x' d = d\<lparr>db_hosts := ?hs\<rparr>"
      by (simp add: updated_rows_def cong: if_cong)
    ultimately show "kept (\<lambda>t. K (snd t)) S T (updated_rows host_table x' d) \<and> True"
      using kept_hosts [OF d, of ?hs] by simp
  qed simp
  show "triple (kept (\<lambda>t. K (snd t)) S T) (\<lambda>_. True) (storage_create host_table h) (\<lambda>_ _. True)"
    by (rule triple_storage_create)
      (auto intro!: kept_hosts simp: unique_violation_def ids_ok_def dest: binding_invD(1) [OF keptD]
        split: if_splits)
qed

lemma triple_publish_ret: "triple I P (and_then_do (publish opn e st) (\<lambda>_. ret x)) (\<lambda>_ _. True)"
  by (rule triple_bind [where R = "\<lambda>_ _. True"], rule triple_publish, simp, rule triple_ret, simp)

lemma triple_host_create:
  "triple (kept (\<lambda>t. K (snd t)) S T) (\<lambda>_. True) (host_create host) (\<lambda>_ _. True)" (is "triple ?I _ _ _")
proof -
  have upsert: "triple ?I (\<lambda>_. True) (upsert_host e h) (\<lambda>_ _. True)" for e h
    unfolding upsert_host_def
    by (auto simp: Let_def split: prod.split intro!: triple_ret triple_bind [OF triple_host_row(1)] triple_publish_ret)
  have create: "triple ?I (\<lambda>_. True) (create_new_host h) (\<lambda>_ _. True)" for h
    unfolding create_new_host_def
    by (rule triple_bind [where R = "\<lambda>_ _. True"], rule triple_storage_get_by_id, simp, rule triple_option,
        rule triple_bind [OF triple_host_row(2)], rule triple_publish_ret,
        rule triple_bind [where R = "\<lambda>_ _. True"], rule triple_env, simp, rule triple_raise)
  have ensured: "triple ?I (\<lambda>_. True) (ensure_id host_table host) (\<lambda>_ _. True)"
    unfolding ensure_id_def
    by (rule triple_if, rule triple_bind [where R = "\<lambda>_ _. True"], rule triple_fresh_id, simp,
        rule triple_bind [where R = "\<lambda>_ _. True"], rule triple_now, simp) (rule triple_ret, simp)+
  show ?thesis
    unfolding host_create_def
    by (rule triple_bind [OF ensured], rule triple_bind [where R = "\<lambda>_ _. True"],
        rule triple_storage_get_all, simp, rule triple_option, rule create, rule triple_if, rule upsert, rule create)
qed

lemma triple_reads_matching:
  "triple I P (find_matching_host_by_interfaces n is) (\<lambda>_. P)"
  unfolding find_matching_host_by_interfaces_def get_interfaces_for_hosts_def
  by (rule triple_if, rule triple_ret, assumption, rule triple_bind [where R = "\<lambda>_. P"],
      rule triple_storage_get_all, assumption, rule triple_if, rule triple_ret, assumption,
      rule triple_bind [where R = "\<lambda>_. P"], rule triple_if, rule triple_ret, assumption,
      rule triple_bind [where R = "\<lambda>_. P"], rule triple_storage_get_all_ordered, assumption)
    (rule triple_ret, assumption)+

text \<open>No stored row has the identifier of an incoming interface or port.\<close>

definition new_rows :: "Interface list \<Rightarrow> Port list \<Rightarrow> Interface list \<times> Port list \<Rightarrow> bool" where
  "new_rows is ps rows \<longleftrightarrow>
     interface_id ` set is \<inter> interface_id ` set (fst rows) = {} \<and> port_id ` set ps \<inter> port_id ` set (snd rows) = {}"

lemma triple_discover_host:
  assumes ids: "distinct (map service_id services)" "uuid_nil \<notin> service_id ` set services"
    and apart: "ports_apart ports services"
  shows "triple binding_inv
    (kept (\<lambda>t. new_rows interfaces ports (snd t)) (new_keys (service_id ` set services)) UNIV)
    (discover_host host interfaces ports services) (\<lambda>_ _. True)"
proof -
  let ?K = "kept (\<lambda>t. new_rows interfaces ports (snd t)) (new_keys (service_id ` set services)) UNIV"
  have host: "triple binding_inv ?K (host_create h) (\<lambda>_. ?K)" for h
    by (rule triple_conseq [OF triple_kept_inv [OF triple_host_create]]) auto
  have children: "triple binding_inv ?K
      (create_children ConflictBehavior_Upsert h interfaces ports services) (\<lambda>_ _. True)" for h
    by (rule triple_conseq [OF triple_create_children [OF assms]])
      (auto simp: kept_def new_rows_def local_ids_def)
  have rest: "triple binding_inv ?K
      (and_then_do (case m of Some (existing_host, _) \<Rightarrow> ret (host\<lparr>host_id := host_id existing_host\<rparr>)
         | None \<Rightarrow> ret host) (\<lambda>host1. and_then_do (host_create host1) (\<lambda>created_host.
         create_children ConflictBehavior_Upsert created_host interfaces ports services))) (\<lambda>_ _. True)"
    for m :: "(Host \<times> Interface list) option"
    by (rule triple_bind [where R = "\<lambda>_. ?K"], rule triple_option, rule triple_ret, assumption,
        unfold case_prod_beta, rule triple_ret, assumption, rule triple_bind [OF host], rule children)
  show ?thesis
    unfolding discover_host_def create_with_children_def ConflictBehavior.case
    by (rule triple_bind [OF triple_reads_matching], rule rest)
qed

text \<open>C1. Storing the result of a scan keeps the invariant on bindings, wherever the operation stops and
  whether the host is new or merged into the stored host with a matching interface: after
  \<open>discover_host\<close> no two services claim one port on a common interface, services bind ports and
  interfaces of their own host, and bindings of dropped services are taken over only where nothing
  else is bound. The identifiers of the batch are new, and different services of the batch bind
  different ports.\<close>

theorem discover_host_keeps_claims:
  assumes "binding_inv (w_db w)"
    and "distinct (map service_id services)" and "uuid_nil \<notin> service_id ` set services"
    and "ports_apart ports services"
    and "service_id ` set (db_services (w_db w)) \<inter> service_id ` set services = {}"
    and "new_rows interfaces ports (db_interfaces (w_db w), db_ports (w_db w))"
  shows "binding_inv (w_db (fst (discover_host host interfaces ports services io w)))"
  using tripleD(1) [OF triple_discover_host [OF assms(2-4), of interfaces host] assms(1), of io]
    assms(1,5,6) unfolding kept_def new_keys_iff by simp

definition sample_discovered :: "Service list" where
  "sample_discovered =
     [sample_server 50 2 (EntitySource_Discovery []) [sample_binding 60 50 70],
      sample_server 51 2 (EntitySource_Discovery []) [sample_binding 61 51 71]]"

definition sample_discovered_ports :: "Port list" where
  "sample_discovered_ports = [sample_port 70 2 PortType_Http, sample_port 71 2 PortType_Https]"

lemmas sample_discovery_defs = sample_discovered_def sample_discovered_ports_def

theorem discover_host_keeps_claims_witness:
  "binding_inv (w_db (fst (discover_host (sample_host 2) [] sample_discovered_ports sample_discovered
     sample_io (sample_world sample_db))))"
proof (rule discover_host_keeps_claims)
  show "ports_apart sample_discovered_ports sample_discovered"
    by (simp add: ports_apart_def sample_discovery_defs sample_defs Binding_port_id_def Port_eq_def PortBase_eq_def
        PortType_eq_def PortConfig_eq_def PortType_config_def)
  show "new_rows [] sample_discovered_ports
      (db_interfaces (w_db (sample_world sample_db)), db_ports (w_db (sample_world sample_db)))"
    by (simp add: new_rows_def sample_discovery_defs sample_defs)
qed (simp_all add: sample_db_inv sample_world_def, simp_all add: sample_discovery_defs sample_defs)



text \<open>C26. Deleting a host: with a daemon on it the request is refused and no row changes; otherwise the
  invariant on bindings holds wherever the operation stops, and after success nothing of the host is
  left: neither the host nor an interface, port or service of it.\<close>

theorem delete_host_correct:
  fixes i :: uuid and io :: io
  assumes "binding_inv (w_db w)"
  defines "r \<equiv> delete_host i io w"
  shows "binding_inv (w_db (fst r)) \<and>
    (i \<in> set (db_daemon_hosts (w_db w)) \<longrightarrow> w_db (fst r) = w_db w \<and> \<not> is_ok (snd r)) \<and>
    (is_ok (snd r) \<longrightarrow>
       i \<notin> host_id ` set (db_hosts (w_db (fst r))) \<and>
       list_all (\<lambda>x. ib_host_id (interface_base x) \<noteq> i) (db_interfaces (w_db (fst r))) \<and>
       list_all (\<lambda>p. pb_host_id (port_base p) \<noteq> i) (db_ports (w_db (fst r))) \<and>
       list_all (\<lambda>s. svb_host_id (service_base s) \<noteq> i) (db_services (w_db (fst r))))"
proof (intro conjI impI)
  show "binding_inv (w_db (fst r))"
    unfolding r_def using tripleD(1) [OF delete_host_triple assms(1)] by simp
  have "triple (\<lambda>e. e = w_db w) (\<lambda>_. True) (delete_host i) (\<lambda>_ _. False)" if "i \<in> set (db_daemon_hosts (w_db w))"
    unfolding delete_host_def has_daemon_def
    by (rule triple_bind [where R = "\<lambda>x _. x"], rule triple_query) (use that in \<open>auto intro: triple_raise triple_false\<close>)
  from tripleD [OF this, of w io]
  show "w_db (fst r) = w_db w" "\<not> is_ok (snd r)" if "i \<in> set (db_daemon_hosts (w_db w))"
    using that unfolding r_def by (cases "snd (delete_host i io w)"; auto)+
qed (use tripleD(2) [OF delete_host_triple assms(1), of i io] in
    \<open>cases "snd r"; auto simp: r_def list_all_iff\<close>)+

theorem delete_host_correct_witness:
  "binding_inv (w_db (fst (delete_host 2 sample_io (sample_world sample_db))))"
  using delete_host_correct [of "sample_world sample_db" 2 sample_io]
  by (simp add: sample_db_inv sample_world_def)

end
