(* ===== verification/Host_Update.thy ===== *)
theory Host_Update
  imports Host_Safety
begin

text \<open>
  Updating a host from a request keeps the invariant on bindings: \<open>update_from_request\<close> with the
  synchronisation of interfaces, ports and services, and its optimistic lock.
\<close>

subsection \<open>Rows of interfaces and ports\<close>

lemma same_rows:
  assumes "map f xs = map f ys" "map g xs = map g ys" "x \<in> set xs"
  shows "\<exists>y \<in> set ys. f y = f x \<and> g y = g x"
  using assms
proof (induction xs arbitrary: ys)
  case (Cons a xs)
  then obtain b zs where "ys = b # zs" by (cases ys) auto
  with Cons show ?case by auto
qed simp

lemma interfaces_rows_inv:
  assumes inv: "binding_inv d" and same: "map interface_id is = map interface_id (db_interfaces d)"
    and hosts: "map (\<lambda>i. ib_host_id (interface_base i)) is = map (\<lambda>i. ib_host_id (interface_base i)) (db_interfaces d)"
  shows "binding_inv (d\<lparr>db_interfaces := is\<rparr>)" (is "binding_inv ?d")
proof -
  have ids: "interface_id ` set is = interface_id ` set (db_interfaces d)"
    using arg_cong [OF same, of set] by simp
  have row: "\<exists>r \<in> set (db_interfaces d). interface_id r = interface_id i \<and>
      ib_host_id (interface_base r) = ib_host_id (interface_base i)" if "i \<in> set is" for i
    by (rule same_rows [OF same hosts that])
  have "local_binding ?d h b" if "local_binding d h b" for h b
    using that row unfolding local_binding_def by fastforce
  then have "local_ok ?d" using binding_invD(4) [OF inv] by (auto simp: local_ok_def)
  moreover have "ids_ok ?d" using binding_invD(1) [OF inv] same by (simp add: ids_ok_def)
  moreover have "\<forall>i \<in> set is. ib_host_id (interface_base i) \<in> host_id ` set (db_hosts d)"
    using binding_invD(2) [OF inv] row unfolding refs_ok_def by metis
  then have "refs_ok ?d"
    using binding_invD(2) [OF inv] ids by (simp add: refs_ok_def binding_refs_def)
  ultimately show ?thesis
    using binding_invD(3,5) [OF inv] by (simp add: binding_inv_def exclusive_def bare_services_def)
qed

lemma ports_rows_inv:
  assumes inv: "binding_inv d" and same: "map port_id ps = map port_id (db_ports d)"
    and hosts: "map (\<lambda>p. pb_host_id (port_base p)) ps = map (\<lambda>p. pb_host_id (port_base p)) (db_ports d)"
  shows "binding_inv (d\<lparr>db_ports := ps\<rparr>)" (is "binding_inv ?d")
proof -
  have ids: "port_id ` set ps = port_id ` set (db_ports d)"
    using arg_cong [OF same, of set] by simp
  have row: "\<exists>r \<in> set (db_ports d). port_id r = port_id p \<and>
      pb_host_id (port_base r) = pb_host_id (port_base p)" if "p \<in> set ps" for p
    by (rule same_rows [OF same hosts that])
  have "local_binding ?d h b" if "local_binding d h b" for h b
    using that row unfolding local_binding_def by fastforce
  then have "local_ok ?d" using binding_invD(4) [OF inv] by (auto simp: local_ok_def)
  moreover have "ids_ok ?d" using binding_invD(1) [OF inv] same by (simp add: ids_ok_def)
  moreover have "\<forall>p \<in> set ps. pb_host_id (port_base p) \<in> host_id ` set (db_hosts d)"
    using binding_invD(2) [OF inv] row unfolding refs_ok_def by metis
  then have "refs_ok ?d"
    using binding_invD(2) [OF inv] ids by (simp add: refs_ok_def binding_refs_def)
  ultimately show ?thesis
    using binding_invD(3,5) [OF inv] by (simp add: binding_inv_def exclusive_def bare_services_def)
qed

text \<open>The update of a row whose stored version is on the same host.\<close>

lemma triple_crud_update:
  assumes "triple I P (storage_update T x) Q" "\<And>y d. Q y d \<Longrightarrow> R d"
  shows "triple I P (crud_update T x) (\<lambda>_. R)"
  unfolding crud_update_def
  by (rule triple_bind [where R = "\<lambda>_. P"], rule triple_storage_get_by_id, assumption, rule triple_option,
      rule triple_bind [where R = "\<lambda>_. P"], rule triple_env, assumption, rule triple_raise,
      rule triple_bind [OF assms(1)], rule triple_bind [where R = "\<lambda>_. R"], rule triple_publish,
      erule assms(2), rule triple_ret)

lemma triple_update_interface:
  assumes x: "ib_host_id (interface_base x) = h" "interface_id x \<in> interface_id ` set is"
  shows "triple (kept (local_ids h is ps) S T) (\<lambda>_. True) (crud_update interface_table x) (\<lambda>_ _. True)"
proof (rule triple_crud_update [where Q = "\<lambda>_ _. True"], rule triple_storage_update)
  fix d t x' assume d: "kept (local_ids h is ps) S T d" and x': "x' = tb_set_updated_at interface_table t x"
  let ?is = "map (\<lambda>r. if interface_id r = interface_id x' then x' else r) (db_interfaces d)"
  have id: "interface_id x' = interface_id x" "ib_host_id (interface_base x') = h"
    using x' x(1) by (simp_all add: interface_table_def)
  have rows: "ib_host_id (interface_base r) = h" if "r \<in> set (db_interfaces d)" "interface_id r = interface_id x" for r
    using d x(2) that by (auto simp: kept_def local_ids_def)
  have "binding_inv (d\<lparr>db_interfaces := ?is\<rparr>)"
    by (rule interfaces_rows_inv [OF keptD [OF d]]) (use id rows in auto)
  then have "kept (local_ids h is ps) S T (d\<lparr>db_interfaces := ?is\<rparr>)"
    using d id by (auto simp: kept_def local_ids_def split: if_splits)
  moreover have "updated_rows interface_table x' d = d\<lparr>db_interfaces := ?is\<rparr>"
    by (simp add: updated_rows_def cong: if_cong)
  ultimately show "kept (local_ids h is ps) S T (updated_rows interface_table x' d) \<and> True" by simp
qed simp_all

lemma triple_update_port:
  assumes x: "pb_host_id (port_base x) = h" "port_id x \<in> port_id ` set ps"
  shows "triple (kept (local_ids h is ps) S T) (\<lambda>_. True) (crud_update port_table x) (\<lambda>_ _. True)"
proof (rule triple_crud_update [where Q = "\<lambda>_ _. True"], rule triple_storage_update)
  fix d t x' assume d: "kept (local_ids h is ps) S T d" and x': "x' = tb_set_updated_at port_table t x"
  let ?ps = "map (\<lambda>r. if port_id r = port_id x' then port_store x' else r) (db_ports d)"
  have id: "port_id x' = port_id x" "pb_host_id (port_base x') = h"
    using x' x(1) by (simp_all add: port_table_def)
  have rows: "pb_host_id (port_base r) = h" if "r \<in> set (db_ports d)" "port_id r = port_id x" for r
    using d x(2) that by (auto simp: kept_def local_ids_def)
  have "binding_inv (d\<lparr>db_ports := ?ps\<rparr>)"
    by (rule ports_rows_inv [OF keptD [OF d]]) (use id rows in auto)
  then have "kept (local_ids h is ps) S T (d\<lparr>db_ports := ?ps\<rparr>)"
    using d id by (auto simp: kept_def local_ids_def split: if_splits)
  moreover have "updated_rows port_table x' d = d\<lparr>db_ports := ?ps\<rparr>"
    by (simp add: updated_rows_def cong: if_cong)
  ultimately show "kept (local_ids h is ps) S T (updated_rows port_table x' d) \<and> True" by simp
qed simp_all

lemma triple_create_interface:
  assumes "ib_host_id (interface_base x) = h"
  shows "triple (kept (local_ids h is ps) S T) (\<lambda>_. True) (crud_create interface_table x) (\<lambda>_ _. True)"
  by (rule triple_crud_create, rule triple_conseq [OF triple_store_interface [where is' = "[]" and ps' = "[]"]])
    (use assms in \<open>auto simp: Interface_new_def owned_on_def\<close>)

lemma triple_create_port:
  assumes "pb_host_id (port_base y) = h"
  shows "triple (kept (local_ids h is ps) S T) (\<lambda>_. True) (crud_create port_table y) (\<lambda>_ _. True)"
  by (rule triple_crud_create, rule triple_conseq [OF triple_store_port [where is' = "[]" and ps' = "[]"]])
    (use assms in \<open>auto simp: Port_new_def owned_on_def\<close>)

subsection \<open>Synchronising the rows of a host\<close>

lemma kept_subset:
  assumes "kept (local_ids h is ps) S T d" "binding_inv e"
    "set (db_interfaces e) \<subseteq> set (db_interfaces d)" "set (db_ports e) \<subseteq> set (db_ports d)"
    "set (db_services e) \<subseteq> set (db_services d)" "set (db_bindings e) \<subseteq> set (db_bindings d)"
  shows "kept (local_ids h is ps) S T e"
proof -
  have "local_ids h is ps (infra e)" using assms(1,3,4) by (auto simp: kept_def local_ids_def)
  moreover have "service_key ` set (db_services e) \<subseteq> S" "btype ` set (db_bindings e) \<subseteq> T"
    using assms(1,5,6) unfolding kept_def by blast+
  ultimately show ?thesis using assms(2) by (simp add: kept_def)
qed

lemma kept_cascade:
  assumes "kept (local_ids h is ps) S T d"
  shows "kept (local_ids h is ps) S T (cascade (d\<lparr>db_interfaces := filter f (db_interfaces d)\<rparr>))"
    and "kept (local_ids h is ps) S T (cascade (d\<lparr>db_ports := filter g (db_ports d)\<rparr>))"
    and "kept (local_ids h is ps) S T (cascade (d\<lparr>db_services := filter k (db_services d)\<rparr>))"
  by (rule kept_subset [OF assms], rule cascade_filter_inv [OF keptD [OF assms]];
      auto simp: cascade_def Let_def)+

lemma triple_delete_events:
  assumes "\<And>i. keeps_core (f i)"
    and "triple (kept K S T) (\<lambda>_. True) m (\<lambda>_ _. True)"
  shows "triple (kept K S T) (\<lambda>_. True) (if ids = [] then ret 0 else and_then_do (for_each f ids) (\<lambda>_. m)) (\<lambda>_ _. True)"
  by (rule triple_if, rule triple_ret, simp, rule triple_bind [OF triple_core_read [OF keeps_core_for_each]])
    (auto simp: on_core_def assms)

lemma triple_delete_rows:
  "triple (kept (local_ids h is ps) S T) (\<lambda>_. True) (crud_delete_many interface_table ids) (\<lambda>_ _. True)"
  "triple (kept (local_ids h is ps) S T) (\<lambda>_. True) (crud_delete_many port_table ids) (\<lambda>_ _. True)"
  "triple (kept (local_ids h is ps) S T) (\<lambda>_. True) (service_delete_many ids) (\<lambda>_ _. True)"
  unfolding crud_delete_many_def service_delete_many_def
  by (rule triple_delete_events, rule keeps_core_publish_deleted, rule triple_storage_delete_many,
      simp add: kept_cascade, simp)
    (rule triple_delete_events, rule keeps_core_publish_deleted keeps_core_service_publish_deleted,
      rule triple_storage_delete_many, simp add: kept_cascade, simp)+

text \<open>Rows of one host keep their identifiers to themselves.\<close>

lemma own_rows_local:
  assumes "binding_inv d"
  shows "set is \<subseteq> {i \<in> set (db_interfaces d). ib_host_id (interface_base i) = h} \<Longrightarrow>
      local_ids h is [] (infra d)"
    and "set ps \<subseteq> {p \<in> set (db_ports d). pb_host_id (port_base p) = h} \<Longrightarrow> local_ids h [] ps (infra d)"
proof -
  have ids: "distinct (map interface_id (db_interfaces d))" "distinct (map port_id (db_ports d))"
    using binding_invD(1) [OF assms] by (simp_all add: ids_ok_def)
  show "local_ids h is [] (infra d)"
    if "set is \<subseteq> {i \<in> set (db_interfaces d). ib_host_id (interface_base i) = h}"
    using that eq_of_same_id [OF ids(1)] by (auto simp: local_ids_def subset_iff)
  show "local_ids h [] ps (infra d)"
    if "set ps \<subseteq> {p \<in> set (db_ports d). pb_host_id (port_base p) = h}"
    using that eq_of_same_id [OF ids(2)] by (auto simp: local_ids_def subset_iff)
qed

lemma triple_validated:
  assumes "\<And>x. r = Inr x \<Longrightarrow> triple I P (f x) Q"
  shows "triple I P (and_then_do (validated r) f) Q"
  by (rule triple_bind [where R = "\<lambda>x d. P d \<and> r = Inr x"])
    (auto simp: validated_def triple_false intro!: triple_raise triple_ret triple_pre [where P = "\<lambda>d. P d \<and> _"]
      triple_conseq [OF assms] split: sum.split)

lemma find_id: "find (\<lambda>x. f x = i) xs = Some y \<Longrightarrow> i \<in> f ` set xs"
  by (force simp: find_Some_iff)

lemma triple_sync_interface:
  "triple (kept (local_ids h existing []) S T) (\<lambda>_. True) (sync_interface h n existing input) (\<lambda>_ _. True)"
  unfolding sync_interface_def Let_def
  by (rule triple_bind [where R = "\<lambda>_ _. True"], rule triple_now, simp, rule triple_option,
      rule triple_create_interface, simp add: into_interface_def, rule triple_update_interface)
    (auto simp: into_interface_def dest!: find_id)

lemma triple_sync_port:
  "triple (kept (local_ids h [] existing) S T) (\<lambda>_. True) (sync_port h n existing input) (\<lambda>_ _. True)"
  unfolding sync_port_def Let_def
  by (rule triple_bind [where R = "\<lambda>_ _. True"], rule triple_now, simp, rule triple_option,
      rule triple_create_port, simp add: into_port_def, rule triple_update_port)
    (auto simp: into_port_def dest!: find_id)

lemma triple_under_kept:
  "triple (kept K S T) (\<lambda>_. True) m (\<lambda>_ _. True) \<Longrightarrow> triple binding_inv (kept K S T) m (\<lambda>_ _. True)"
  unfolding triple_def using keptD by blast

lemma triple_sync_interfaces: "triple binding_inv (\<lambda>_. True) (sync_interfaces h n inputs0) (\<lambda>_ _. True)"
proof -
  have "triple binding_inv (kept (local_ids h existing []) UNIV UNIV)
      (and_then_do (resolve_interfaces inputs0 existing) (\<lambda>inputs.
       and_then_do (crud_delete_many interface_table (removed_ids (map interface_id existing) (map ii_id inputs))) (\<lambda>_.
       and_then_do (for_each (sync_interface h n existing) inputs) (\<lambda>_. ret ())))) (\<lambda>_ _. True)" for existing
    unfolding resolve_interfaces_def
    by (rule triple_under_kept, rule triple_validated, rule triple_bind [OF triple_delete_rows(1)],
        rule triple_bind [OF triple_for_each [OF triple_sync_interface]], rule triple_ret) simp
  then show ?thesis
    unfolding sync_interfaces_def get_interfaces_for_host_def get_for_parent_def
    by (rule triple_bind [rotated], intro triple_storage_get_all triple_storage_get_all_ordered)
      (auto simp: kept_def intro!: own_rows_local)
qed

lemma triple_sync_ports: "triple binding_inv (\<lambda>_. True) (sync_ports h n inputs) (\<lambda>_ _. True)"
proof -
  have "triple binding_inv (kept (local_ids h [] existing) UNIV UNIV)
       (and_then_do (crud_delete_many port_table (removed_ids (map port_id existing) (map pi_id inputs))) (\<lambda>_.
       and_then_do (for_each (sync_port h n existing) inputs) (\<lambda>_. ret ()))) (\<lambda>_ _. True)" for existing
    by (rule triple_under_kept, rule triple_bind [OF triple_delete_rows(2)],
        rule triple_bind [OF triple_for_each [OF triple_sync_port]], rule triple_ret) simp
  then show ?thesis
    unfolding sync_ports_def get_ports_for_host_def get_for_parent_def
    by (rule triple_bind [rotated], intro triple_storage_get_all triple_storage_get_all_ordered)
      (auto simp: kept_def intro!: own_rows_local)
qed

text \<open>Stored services with an identifier of \<open>E\<close> are on host \<open>h\<close>; one with another identifier of \<open>ids\<close>
  is not.\<close>

definition sync_keys :: "uuid \<Rightarrow> uuid set \<Rightarrow> uuid set \<Rightarrow> (uuid \<times> uuid) set" where
  "sync_keys h E ids = {(i, h'). (i \<in> E \<longrightarrow> h' = h) \<and> (i \<in> ids - E \<longrightarrow> h' \<noteq> h)}"

abbreviation any_rows :: "Host list \<times> Interface list \<times> Port list \<Rightarrow> bool" where
  "any_rows \<equiv> local_ids undefined [] []"

lemma any_rows [simp]: "any_rows t" by (simp add: local_ids_def)

lemma triple_sync_service:
  assumes i: "si_id input \<notin> ids" "si_id input \<noteq> uuid_nil"
  shows "triple binding_inv (kept any_rows (sync_keys h (service_id ` set existing) (insert (si_id input) ids)) UNIV)
    (sync_service h n existing input) (\<lambda>_. kept any_rows (sync_keys h (service_id ` set existing) ids) UNIV)"
proof -
  let ?E = "service_id ` set existing"
  let ?K = "\<lambda>ids. kept any_rows (sync_keys h ?E ids) UNIV"
  have weaker: "?K ids d" if "?K (insert (si_id input) ids) d" for d
    using that unfolding kept_def sync_keys_def by blast
  have update: "triple binding_inv (?K (insert (si_id input) ids)) (service_update s) (\<lambda>_. ?K ids)"
    if "service_id s = si_id input" "on_host h s" "si_id input \<in> ?E" for s
  proof (rule triple_conseq [OF triple_kept_inv [OF triple_service_update [OF that(1,2)]]])
    show "row_host (si_id input) h d \<and> ?K ids d" if d: "?K (insert (si_id input) ids) d" for d
      using weaker [OF d] d \<open>si_id input \<in> ?E\<close> by (auto simp: kept_def sync_keys_def)
  qed simp_all
  have create: "triple binding_inv (?K (insert (si_id input) ids)) (service_create s) (\<lambda>_. ?K ids)"
    if "service_id s = si_id input" "on_host h s" "si_id input \<notin> ?E"
      "\<not> EntitySource_is_from_discovery (svb_source (service_base s))" for s
  proof (rule triple_conseq [OF triple_kept_inv [OF triple_service_create]])
    show "creatable s d \<and> ?K ids d" if "?K (insert (si_id input) ids) d" for d
    proof
      have "service_key ` set (db_services d) \<subseteq> sync_keys h ?E (insert (si_id input) ids)"
        using that by (simp add: kept_def)
      moreover have "service_key s \<notin> sync_keys h ?E (insert (si_id input) ids)"
        using \<open>service_id s = si_id input\<close> \<open>on_host h s\<close> \<open>si_id input \<notin> ?E\<close> by (simp add: sync_keys_def)
      ultimately show "creatable s d"
        using \<open>\<not> EntitySource_is_from_discovery _\<close> unfolding creatable_def by auto
    qed (rule weaker [OF that])
  qed (use that i in \<open>auto simp: sync_keys_def\<close>)
  show ?thesis
    unfolding sync_service_def Let_def
    by (rule triple_bind [where R = "\<lambda>_. ?K (insert (si_id input) ids)"], rule triple_now, assumption,
        rule triple_option, rule create)
      (auto simp: into_service_def find_None_iff
        Service_preserve_immutable_fields_def intro!: update dest!: find_id)
qed

lemma triple_sync_service_list:
  assumes "distinct (map si_id inputs)" "uuid_nil \<notin> si_id ` set inputs"
  shows "triple binding_inv (kept any_rows (sync_keys h (service_id ` set existing) (si_id ` set inputs)) UNIV)
    (for_each (sync_service h n existing) inputs) (\<lambda>_ _. True)"
  using assms
proof (induction inputs)
  case (Cons input inputs)
  have first: "triple binding_inv
      (kept any_rows (sync_keys h (service_id ` set existing) (si_id ` set (input # inputs))) UNIV)
      (sync_service h n existing input)
      (\<lambda>_. kept any_rows (sync_keys h (service_id ` set existing) (si_id ` set inputs)) UNIV)"
    unfolding list.simps image_insert by (rule triple_sync_service) (use Cons.prems in auto)
  show ?case
    unfolding for_each.simps
    by (rule triple_bind [OF first], rule triple_bind [OF Cons.IH]) (use Cons.prems in \<open>auto intro: triple_ret\<close>)
qed (simp add: triple_ret)

lemma listed_keys:
  assumes "binding_inv d" "lists_bindings (on_host h) existing d"
  shows "kept any_rows (sync_keys h (service_id ` set existing) ids) UNIV d"
proof -
  have bare: "bare_services d" and ids: "distinct (map service_id (db_services d))"
    using binding_invD(1,5) [OF assms(1)] by (simp_all add: ids_ok_def)
  have "svb_host_id (service_base s) = h" if "s \<in> set (db_services d)" "e \<in> set existing" "service_id s = service_id e"
    for s e
  proof -
    have row: "with_bindings e [] \<in> set (db_services d)" "on_host h (with_bindings e [])"
      using assms(2) bare that(2) by (auto simp: lists_bindings_def)
    with eq_of_same_id [OF ids row(1) that(1)] that(3) show ?thesis by auto
  qed
  moreover have "service_id s \<in> service_id ` set existing" if "s \<in> set (db_services d)" "on_host h s" for s
    using assms(2) that unfolding lists_bindings_def by (metis image_eqI)
  ultimately show ?thesis using assms(1) by (auto simp: kept_def sync_keys_def)
qed

lemma ordered_inputs_perm:
  "distinct (map si_id inputs) \<Longrightarrow> distinct (map si_id (ordered_inputs existing inputs))"
  "set (ordered_inputs existing inputs) = set inputs"
proof -
  have "mset (ordered_inputs existing inputs) = mset inputs"
    by (simp add: ordered_inputs_def)
  then have "mset (map si_id (ordered_inputs existing inputs)) = mset (map si_id inputs)" by simp
  then show "distinct (map si_id inputs) \<Longrightarrow> distinct (map si_id (ordered_inputs existing inputs))"
    using mset_eq_imp_distinct_iff by blast
  show "set (ordered_inputs existing inputs) = set inputs" by (auto simp: ordered_inputs_def)
qed

lemma resolve_ids:
  assumes "resolve_and_validate_input_positions i_pos i_set i_id e_pos e_id inputs existing name = Inr inputs'"
    and "\<And>i p. i_id (i_set i p) = i_id i"
  shows "map i_id inputs' = map i_id inputs"
proof -
  have "map i_id (assign_positions i_set i_id ex p inputs) = map i_id inputs" for ex p
    by (induction inputs arbitrary: p) (auto simp: assms(2) split: option.split)
  with assms(1) show ?thesis
    by (auto simp: resolve_and_validate_input_positions_def Let_def split: if_splits sum.splits)
qed

lemma triple_sync_services:
  assumes "distinct (map si_id inputs0)" "uuid_nil \<notin> si_id ` set inputs0"
  shows "triple binding_inv (\<lambda>_. True) (sync_services h n inputs0) (\<lambda>_ _. True)"
proof -
  let ?K = "\<lambda>existing ids. kept any_rows (sync_keys h (service_id ` set existing) ids) UNIV"
  have read: "triple binding_inv (\<lambda>_. True) (service_get_all (on_host h))
      (\<lambda>existing. ?K existing (si_id ` set inputs0))"
    by (rule triple_conseq [OF triple_service_get_all [where P = "\<lambda>_. True"]]) (auto intro: listed_keys)
  have delete: "triple binding_inv (?K existing ids) (service_delete_many xs) (\<lambda>_. ?K existing ids)" for existing ids xs
    by (rule triple_conseq [OF triple_kept_inv [OF triple_delete_rows(3)]]) auto
  have rest: "triple binding_inv (?K existing (si_id ` set inputs0))
      (and_then_do (service_delete_many (removed_ids (map service_id existing) (map si_id inputs))) (\<lambda>_.
       and_then_do (for_each (sync_service h n existing) (ordered_inputs existing inputs)) (\<lambda>_. ret ()))) (\<lambda>_ _. True)"
    if ids: "map si_id inputs = map si_id inputs0" for existing inputs
  proof (rule triple_bind [OF delete], rule triple_bind [OF triple_conseq [OF triple_sync_service_list]])
    show "distinct (map si_id (ordered_inputs existing inputs))" "uuid_nil \<notin> si_id ` set (ordered_inputs existing inputs)"
      using assms ids ordered_inputs_perm by (auto simp flip: set_map)
    show "?K existing (si_id ` set (ordered_inputs existing inputs)) d" if "?K existing (si_id ` set inputs0) d" for d
      using that ids ordered_inputs_perm(2) by (simp flip: set_map)
  qed (auto intro: triple_ret)
  show ?thesis
    unfolding sync_services_def resolve_services_def
    by (rule triple_bind [OF read], rule triple_validated, rule rest, erule resolve_ids)
      (simp add: ServiceInput_set_position_def)
qed

subsection \<open>Updating a host\<close>

lemma triple_host_update: "triple binding_inv (\<lambda>_. True) (host_update h) (\<lambda>_ _. True)"
  unfolding host_update_def
  by (rule triple_bind [where R = "\<lambda>_ _. True"], rule triple_storage_get_by_id, simp, rule triple_option,
      rule triple_bind [where R = "\<lambda>_ _. True"], rule triple_env, simp, rule triple_raise,
      rule triple_bind [OF triple_host_row(1) [where K = "\<lambda>_. True" and S = UNIV and T = UNIV, unfolded kept_UNIV]],
      rule triple_publish_ret)

lemma keeps_core_load_children: "keeps_core (load_children_for_host h)"
  unfolding load_children_for_host_def get_interfaces_for_host_def get_ports_for_host_def
    service_get_all_by_position_def join_bindings_def get_for_parents_def
  by (rule keeps_core_bind, rule keeps_core_reads, rule keeps_core_bind, rule keeps_core_reads,
      rule keeps_core_bind, rule keeps_core_bind, rule keeps_core_reads, rule keeps_core_if, rule keeps_core_simple,
      rule keeps_core_bind, rule keeps_core_if, rule keeps_core_simple, rule keeps_core_bind, rule keeps_core_reads)
    (rule keeps_core_simple)+

lemma triple_update_from_request:
  assumes "distinct (map si_id (uhr_services request))" "uuid_nil \<notin> si_id ` set (uhr_services request)"
  shows "triple binding_inv (\<lambda>_. True) (update_from_request request) (\<lambda>_ _. True)"
proof -
  have lock: "triple binding_inv (\<lambda>_. True)
     (case uhr_expected_updated_at request of
        Some expected \<Rightarrow>
          if timestamp_micros (host_updated_at existing) \<noteq> timestamp_micros expected
          then and_then_do (env io_show_time) (\<lambda>sh.
                 raise (ValidationError (modified_msg sh expected (host_updated_at existing))))
          else ret ()
      | None \<Rightarrow> ret ()) (\<lambda>_ _. True)" for existing
    by (rule triple_option, rule triple_ret, simp, rule triple_if, rule triple_bind [where R = "\<lambda>_ _. True"],
        rule triple_env, simp, rule triple_raise) (rule triple_ret, simp)
  have load: "triple binding_inv (\<lambda>_. True) (load_children_for_host h) (\<lambda>_ _. True)" for h
    by (rule inv_core_read [OF keeps_core_load_children]) (simp add: on_core_def)
  show ?thesis
    unfolding update_from_request_def Let_def
    by (rule triple_bind [where R = "\<lambda>_ _. True"], rule triple_storage_get_by_id, simp, rule triple_option,
        rule triple_bind [where R = "\<lambda>_ _. True"], rule triple_env, simp, rule triple_raise,
        rule triple_bind [OF lock], rule triple_bind [OF triple_host_update],
        rule triple_bind [OF triple_sync_interfaces], rule triple_bind [OF triple_sync_ports],
        rule triple_bind [OF triple_sync_services [OF assms]], rule triple_bind [OF load],
        unfold case_prod_beta, rule triple_ret, simp)
qed



definition sample_update :: UpdateHostRequest where
  "sample_update =
     \<lparr>uhr_id = 2, uhr_name = ''web'', uhr_hostname = None, uhr_description = None, uhr_virtualization = None,
      uhr_hidden = False, uhr_tags = [], uhr_expected_updated_at = Some 5000, uhr_interfaces = [],
      uhr_ports = [\<lparr>pi_id = 21, pi_number = 443, pi_protocol = TransportProtocol_Tcp\<rparr>],
      uhr_services =
        [\<lparr>si_id = 31, si_service_definition = DefaultServiceDefinition, si_name = ''web'',
          si_bindings = [BindingInput_Port 41 21 None], si_virtualization = None, si_tags = [], si_position = None\<rparr>]\<rparr>"


lemma triple_stale_update:
  assumes "find (\<lambda>h. host_id h = uhr_id request) (db_hosts d) = Some existing"
    and "uhr_expected_updated_at request = Some expected"
    and "timestamp_micros (host_updated_at existing) \<noteq> timestamp_micros expected"
  shows "triple (\<lambda>e. e = d) (\<lambda>_. True) (update_from_request request) (\<lambda>_ _. False)"
proof (unfold update_from_request_def, rule triple_bind)
  show "triple (\<lambda>e. e = d) (\<lambda>_. True) (storage_get_by_id host_table (uhr_id request))
      (\<lambda>found _. found = Some existing)"
    by (rule triple_storage_get_by_id) (simp add: assms(1))
qed (rule triple_pre, simp only: option.case assms(2) if_P [OF assms(3)], rule triple_bind, rule triple_bind,
    rule triple_env, rule TrueI, rule triple_raise [where Q = "\<lambda>_ _. False"], rule triple_false, simp)

text \<open>An edit made against an older version of a host is refused and changes no row: the host was
  written after the client read it, so the microseconds of the stored time of update are not the
  expected ones.\<close>

theorem stale_update_refused:
  assumes "find (\<lambda>h. host_id h = uhr_id request) (db_hosts (w_db w)) = Some existing"
    and "uhr_expected_updated_at request = Some expected"
    and "timestamp_micros (host_updated_at existing) \<noteq> timestamp_micros expected"
  shows "w_db (fst (update_from_request request io w)) = w_db w \<and> \<not> is_ok (snd (update_from_request request io w))"
  using tripleD [OF triple_stale_update [OF assms], of w io]
  by (cases "snd (update_from_request request io w)") auto

theorem stale_update_refused_witness:
  "w_db (fst (update_from_request sample_update sample_io (sample_world sample_db))) = sample_db"
  using stale_update_refused [of sample_update "sample_world sample_db" "sample_host 2" 5000 sample_io]
  by (simp add: sample_defs sample_update_def timestamp_micros_def)

end
