(* ===== verification/Topology_Types.thy ===== *)
theory Topology_Types
  imports Host_Types
begin

section \<open>Topology types\<close>

text \<open>
  Nodes, edges and layout geometry of a network map, its options and the stored topology
  (\<^verbatim>\<open>backend/src/server/topology/types/nodes.rs\<close>, \<^verbatim>\<open>edges.rs\<close>, \<^verbatim>\<open>layout.rs\<close>,
  \<^verbatim>\<open>base.rs\<close>). Pixel coordinates are \<open>isize\<close>, modelled as \<open>int\<close>; sizes are \<open>usize\<close>,
  modelled as \<open>nat\<close>. Maps are far smaller than the \<open>2 ^ 63\<close> pixels at which they would wrap.
\<close>

subsection \<open>Layout\<close>

record Uxy =
  ux :: nat
  uy :: nat

record Ixy =
  ix :: int
  iy :: int

definition Ixy_default :: Ixy where
  "Ixy_default = \<lparr>ix = 0, iy = 0\<rparr>"

definition SUBNET_PADDING :: Uxy where
  "SUBNET_PADDING = \<lparr>ux = 125, uy = 125\<rparr>"

definition NODE_PADDING :: Uxy where
  "NODE_PADDING = \<lparr>ux = 50, uy = 50\<rparr>"

definition default_subnet_child_size :: Uxy where
  "default_subnet_child_size = \<lparr>ux = 250, uy = 50 + 25\<rparr>"

definition bindings_with_ports :: "uuid \<Rightarrow> Service \<Rightarrow> nat" where
  "bindings_with_ports i s =
     length (filter (\<lambda>b. (case Binding_interface_id b of Some i' \<Rightarrow> i' = i | None \<Rightarrow> True) \<and>
        Binding_port_id b \<noteq> None) (svb_bindings (service_base s)))"

definition subnet_child_size_from_service_count :: "Service list \<Rightarrow> uuid \<Rightarrow> bool \<Rightarrow> bool \<Rightarrow> Uxy" where
  "subnet_child_size_from_service_count services i has_header hide_ports =
     (let service_area_height =
        sum_list (map (\<lambda>s. 50 + (if hide_ports \<and> 0 < bindings_with_ports i s then 0 else 25)) services)
      in \<lparr>ux = 250, uy = service_area_height + 25 + (if has_header then 25 else 0)\<rparr>)"

record NodeLayout =
  nl_size :: Uxy
  nl_position :: Ixy

record SubnetLayout =
  sl_size :: Uxy
  sl_infra_width :: nat

record NodeBounds =
  bd_x :: int
  bd_y :: int
  bd_width :: nat
  bd_height :: nat

definition NodeBounds_new :: "Ixy \<Rightarrow> Uxy \<Rightarrow> NodeBounds" where
  "NodeBounds_new position size0 =
     \<lparr>bd_x = ix position, bd_y = iy position, bd_width = ux size0, bd_height = uy size0\<rparr>"

definition NodeBounds_right :: "NodeBounds \<Rightarrow> int" where
  "NodeBounds_right b = bd_x b + int (bd_width b)"

definition NodeBounds_bottom :: "NodeBounds \<Rightarrow> int" where
  "NodeBounds_bottom b = bd_y b + int (bd_height b)"

definition NodeBounds_overlaps :: "NodeBounds \<Rightarrow> NodeBounds \<Rightarrow> bool" where
  "NodeBounds_overlaps a b \<longleftrightarrow>
     \<not> (NodeBounds_right a + int (ux NODE_PADDING) \<le> bd_x b \<or>
        bd_x a \<ge> NodeBounds_right b + int (ux NODE_PADDING) \<or>
        NodeBounds_bottom a + int (uy NODE_PADDING) \<le> bd_y b \<or>
        bd_y a \<ge> NodeBounds_bottom b + int (uy NODE_PADDING))"

definition NodeBounds_resolve_overlap :: "NodeBounds \<Rightarrow> NodeBounds \<Rightarrow> int \<times> int" where
  "NodeBounds_resolve_overlap a b =
     (if \<not> NodeBounds_overlaps a b then (0, 0)
      else
        let overlap_left = NodeBounds_right b - bd_x a;
            overlap_right = NodeBounds_right a - bd_x b;
            overlap_top = NodeBounds_bottom b - bd_y a;
            overlap_bottom = NodeBounds_bottom a - bd_y b;
            min_horizontal = min overlap_left overlap_right;
            min_vertical = min overlap_top overlap_bottom
        in if min_horizontal < min_vertical then
             if overlap_left < overlap_right then (- (overlap_left + int (ux NODE_PADDING)), 0)
             else (overlap_right + int (ux NODE_PADDING), 0)
           else if overlap_top < overlap_bottom then (0, - (overlap_top + int (uy NODE_PADDING)))
           else (0, overlap_bottom + int (uy NODE_PADDING)))"

subsection \<open>Edges\<close>

datatype EdgeHandle = EdgeHandle_Top | EdgeHandle_Bottom | EdgeHandle_Left | EdgeHandle_Right

fun EdgeHandle_layout_priority :: "EdgeHandle \<Rightarrow> nat" where
  "EdgeHandle_layout_priority EdgeHandle_Top = 0"
| "EdgeHandle_layout_priority EdgeHandle_Bottom = 1"
| "EdgeHandle_layout_priority EdgeHandle_Left = 2"
| "EdgeHandle_layout_priority EdgeHandle_Right = 3"

fun EdgeHandle_direction :: "EdgeHandle \<Rightarrow> Ixy" where
  "EdgeHandle_direction EdgeHandle_Top = \<lparr>ix = 0, iy = 1\<rparr>"
| "EdgeHandle_direction EdgeHandle_Bottom = \<lparr>ix = 0, iy = - 1\<rparr>"
| "EdgeHandle_direction EdgeHandle_Left = \<lparr>ix = - 1, iy = 0\<rparr>"
| "EdgeHandle_direction EdgeHandle_Right = \<lparr>ix = 1, iy = 0\<rparr>"

definition EdgeHandle_is_horizontal :: "EdgeHandle \<Rightarrow> bool" where
  "EdgeHandle_is_horizontal h \<longleftrightarrow> h = EdgeHandle_Left \<or> h = EdgeHandle_Right"

definition EdgeHandle_is_vertical :: "EdgeHandle \<Rightarrow> bool" where
  "EdgeHandle_is_vertical h \<longleftrightarrow> h = EdgeHandle_Top \<or> h = EdgeHandle_Bottom"

fun SubnetType_vertical_order :: "SubnetType \<Rightarrow> nat" where
  "SubnetType_vertical_order SubnetType_Internet = 0"
| "SubnetType_vertical_order SubnetType_Remote = 0"
| "SubnetType_vertical_order SubnetType_Gateway = 1"
| "SubnetType_vertical_order SubnetType_Dmz = 1"
| "SubnetType_vertical_order SubnetType_VpnTunnel = 1"
| "SubnetType_vertical_order SubnetType_Lan = 2"
| "SubnetType_vertical_order SubnetType_WiFi = 2"
| "SubnetType_vertical_order SubnetType_Guest = 2"
| "SubnetType_vertical_order SubnetType_IoT = 2"
| "SubnetType_vertical_order SubnetType_DockerBridge = 3"
| "SubnetType_vertical_order SubnetType_Management = 3"
| "SubnetType_vertical_order SubnetType_Storage = 3"
| "SubnetType_vertical_order SubnetType_Unknown = 999"
| "SubnetType_vertical_order SubnetType_None = 999"

fun SubnetType_horizontal_order :: "SubnetType \<Rightarrow> nat" where
  "SubnetType_horizontal_order SubnetType_Internet = 0"
| "SubnetType_horizontal_order SubnetType_Remote = 1"
| "SubnetType_horizontal_order SubnetType_Gateway = 0"
| "SubnetType_horizontal_order SubnetType_Dmz = 1"
| "SubnetType_horizontal_order SubnetType_VpnTunnel = 2"
| "SubnetType_horizontal_order SubnetType_Lan = 0"
| "SubnetType_horizontal_order SubnetType_WiFi = 1"
| "SubnetType_horizontal_order SubnetType_IoT = 2"
| "SubnetType_horizontal_order SubnetType_Guest = 3"
| "SubnetType_horizontal_order SubnetType_Storage = 0"
| "SubnetType_horizontal_order SubnetType_Management = 1"
| "SubnetType_horizontal_order SubnetType_DockerBridge = 2"
| "SubnetType_horizontal_order SubnetType_Unknown = 999"
| "SubnetType_horizontal_order SubnetType_None = 999"

definition choose_side_handles_for_multi_hop :: "bool \<Rightarrow> bool \<Rightarrow> EdgeHandle \<times> EdgeHandle" where
  "choose_side_handles_for_multi_hop source_is_infra target_is_infra =
     (let source_can_use_left = \<not> source_is_infra; source_can_use_right = source_is_infra;
          target_can_use_left = \<not> target_is_infra; target_can_use_right = target_is_infra
      in if source_can_use_left \<and> target_can_use_left then (EdgeHandle_Left, EdgeHandle_Left)
         else if source_can_use_right \<and> target_can_use_right then (EdgeHandle_Right, EdgeHandle_Right)
         else (if source_is_infra then EdgeHandle_Bottom else EdgeHandle_Left,
               if target_is_infra then EdgeHandle_Bottom else EdgeHandle_Left))"

definition from_same_subnet :: "bool \<Rightarrow> bool \<Rightarrow> EdgeHandle \<times> EdgeHandle" where
  "from_same_subnet source_is_infra target_is_infra = (EdgeHandle_Top, EdgeHandle_Top)"

definition from_subnet_layers ::
    "Subnet \<Rightarrow> Subnet \<Rightarrow> bool \<Rightarrow> bool \<Rightarrow> bool \<Rightarrow> EdgeHandle \<times> EdgeHandle" where
  "from_subnet_layers source_subnet target_subnet source_is_infra target_is_infra is_multi_hop =
     (if subnet_id source_subnet = subnet_id target_subnet
      then from_same_subnet source_is_infra target_is_infra
      else
        let st = sb_subnet_type (subnet_base source_subnet);
            tt = sb_subnet_type (subnet_base target_subnet)
        in if SubnetType_vertical_order st < SubnetType_vertical_order tt then
             if is_multi_hop then choose_side_handles_for_multi_hop source_is_infra target_is_infra
             else (EdgeHandle_Bottom, EdgeHandle_Top)
           else if SubnetType_vertical_order tt < SubnetType_vertical_order st then
             if is_multi_hop then choose_side_handles_for_multi_hop source_is_infra target_is_infra
             else (EdgeHandle_Top, EdgeHandle_Bottom)
           else if SubnetType_horizontal_order tt < SubnetType_horizontal_order st then
             (if source_is_infra then EdgeHandle_Bottom else EdgeHandle_Left,
              if target_is_infra then EdgeHandle_Bottom else EdgeHandle_Right)
           else
             (if source_is_infra then EdgeHandle_Bottom else EdgeHandle_Right,
              if target_is_infra then EdgeHandle_Bottom else EdgeHandle_Left))"

datatype EdgeType =
    EdgeType_Interface uuid
  | EdgeType_HostVirtualization uuid
  | EdgeType_ServiceVirtualization (et_host_id: uuid) (et_containerizing_service_id: uuid)
  | EdgeType_RequestPath uuid uuid uuid
  | EdgeType_HubAndSpoke uuid uuid uuid

datatype EdgeTypeDiscriminants =
    EdgeTypeDiscriminants_Interface
  | EdgeTypeDiscriminants_HostVirtualization
  | EdgeTypeDiscriminants_ServiceVirtualization
  | EdgeTypeDiscriminants_RequestPath
  | EdgeTypeDiscriminants_HubAndSpoke

fun is_vm_edge :: "EdgeType \<Rightarrow> bool" where
  "is_vm_edge (EdgeType_HostVirtualization _) = True"
| "is_vm_edge _ = False"

record Edge =
  edge_id :: uuid
  edge_source :: uuid
  edge_target :: uuid
  edge_type :: EdgeType
  edge_label :: "string option"
  edge_source_handle :: EdgeHandle
  edge_target_handle :: EdgeHandle
  edge_is_multi_hop :: bool

text \<open>The \<open>metadata\<close> of an edge type, the fields of its JSON object.\<close>

record EdgeTypeMetadata =
  etm_is_dashed :: bool
  etm_has_start_marker :: bool
  etm_has_end_marker :: bool
  etm_edge_style :: EdgeStyle
  etm_is_host_edge :: bool
  etm_is_group_edge :: bool

definition EdgeType_metadata :: "EdgeType \<Rightarrow> EdgeTypeMetadata" where
  "EdgeType_metadata t =
     \<lparr>etm_is_dashed =
        (case t of EdgeType_RequestPath _ _ _ \<Rightarrow> False | EdgeType_HubAndSpoke _ _ _ \<Rightarrow> False
         | EdgeType_Interface _ \<Rightarrow> True | EdgeType_HostVirtualization _ \<Rightarrow> True
         | EdgeType_ServiceVirtualization _ _ \<Rightarrow> True),
      etm_has_start_marker = False,
      etm_has_end_marker =
        (case t of EdgeType_RequestPath _ _ _ \<Rightarrow> True | EdgeType_HubAndSpoke _ _ _ \<Rightarrow> True
         | EdgeType_Interface _ \<Rightarrow> False | EdgeType_HostVirtualization _ \<Rightarrow> False
         | EdgeType_ServiceVirtualization _ _ \<Rightarrow> False),
      etm_edge_style =
        (case t of EdgeType_RequestPath _ _ _ \<Rightarrow> EdgeStyle_SmoothStep
         | EdgeType_HubAndSpoke _ _ _ \<Rightarrow> EdgeStyle_SmoothStep
         | EdgeType_Interface _ \<Rightarrow> EdgeStyle_SmoothStep
         | EdgeType_HostVirtualization _ \<Rightarrow> EdgeStyle_Straight
         | EdgeType_ServiceVirtualization _ _ \<Rightarrow> EdgeStyle_SmoothStep),
      etm_is_host_edge =
        (case t of EdgeType_Interface _ \<Rightarrow> True | EdgeType_ServiceVirtualization _ _ \<Rightarrow> True | _ \<Rightarrow> False),
      etm_is_group_edge =
        (case t of EdgeType_RequestPath _ _ _ \<Rightarrow> True | EdgeType_HubAndSpoke _ _ _ \<Rightarrow> True | _ \<Rightarrow> False)\<rparr>"

subsection \<open>Nodes\<close>

datatype NodeType =
    NodeType_SubnetNode (nt_infra_width: nat)
  | NodeType_InterfaceNode (nt_subnet_id: uuid) (nt_host_id: uuid) (nt_interface_id: "uuid option") (nt_is_infra: bool)

record Node =
  node_type :: NodeType
  node_id :: uuid
  node_position :: Ixy
  node_size :: Uxy
  node_header :: "string option"

definition is_subnet_node :: "Node \<Rightarrow> bool" where
  "is_subnet_node n = (case node_type n of NodeType_SubnetNode _ \<Rightarrow> True | NodeType_InterfaceNode _ _ _ _ \<Rightarrow> False)"

record SubnetChild =
  sc_id :: uuid
  sc_header :: "string option"
  sc_host_id :: uuid
  sc_interface_id :: "uuid option"
  sc_size :: Uxy
  sc_edges :: "Edge list"

subsection \<open>Topologies\<close>

record TopologyLocalOptions =
  lo_left_zone_title :: string
  lo_no_fade_edges :: bool
  lo_hide_resize_handles :: bool
  lo_hide_edge_types :: "EdgeTypeDiscriminants list"

record TopologyRequestOptions =
  ro_group_docker_bridges_by_host :: bool
  ro_hide_vm_title_on_docker_container :: bool
  ro_hide_ports :: bool
  ro_left_zone_service_categories :: "ServiceCategory list"
  ro_hide_service_categories :: "ServiceCategory list"
  ro_show_gateway_in_left_zone :: bool

record TopologyOptions =
  to_local :: TopologyLocalOptions
  to_request :: TopologyRequestOptions

definition TopologyLocalOptions_default :: TopologyLocalOptions where
  "TopologyLocalOptions_default =
     \<lparr>lo_left_zone_title = ''Infrastructure'', lo_no_fade_edges = False, lo_hide_resize_handles = False,
      lo_hide_edge_types = []\<rparr>"

definition TopologyRequestOptions_default :: TopologyRequestOptions where
  "TopologyRequestOptions_default =
     \<lparr>ro_group_docker_bridges_by_host = True, ro_hide_vm_title_on_docker_container = False,
      ro_hide_ports = False,
      ro_left_zone_service_categories = [ServiceCategory_DNS, ServiceCategory_ReverseProxy],
      ro_hide_service_categories = [], ro_show_gateway_in_left_zone = True\<rparr>"

definition TopologyOptions_default :: TopologyOptions where
  "TopologyOptions_default =
     \<lparr>to_local = TopologyLocalOptions_default, to_request = TopologyRequestOptions_default\<rparr>"

record TopologyBase =
  tp_name :: string
  tp_options :: TopologyOptions
  tp_network_id :: uuid
  tp_tags :: "uuid list"
  tp_parent_id :: "uuid option"
  tp_nodes :: "Node list"
  tp_edges :: "Edge list"
  tp_hosts :: "Host list"
  tp_interfaces :: "Interface list"
  tp_ports :: "Port list"
  tp_bindings :: "Binding list"
  tp_subnets :: "Subnet list"
  tp_services :: "Service list"
  tp_groups :: "Group list"
  tp_is_stale :: bool
  tp_last_refreshed :: datetime
  tp_is_locked :: bool
  tp_locked_at :: "datetime option"
  tp_locked_by :: "uuid option"
  tp_removed_hosts :: "uuid list"
  tp_removed_interfaces :: "uuid list"
  tp_removed_subnets :: "uuid list"
  tp_removed_services :: "uuid list"
  tp_removed_groups :: "uuid list"
  tp_removed_ports :: "uuid list"
  tp_removed_bindings :: "uuid list"

record Topology =
  topology_id :: uuid
  topology_created_at :: datetime
  topology_updated_at :: datetime
  topology_base :: TopologyBase

record SetEntitiesParams =
  se_hosts :: "Host list"
  se_services :: "Service list"
  se_subnets :: "Subnet list"
  se_groups :: "Group list"
  se_ports :: "Port list"
  se_bindings :: "Binding list"
  se_interfaces :: "Interface list"

definition TopologyBase_new :: "datetime \<Rightarrow> string \<Rightarrow> uuid \<Rightarrow> TopologyBase" where
  "TopologyBase_new t name network =
     \<lparr>tp_name = name, tp_options = TopologyOptions_default, tp_network_id = network, tp_tags = [],
      tp_parent_id = None, tp_nodes = [], tp_edges = [], tp_hosts = [], tp_interfaces = [], tp_ports = [],
      tp_bindings = [], tp_subnets = [], tp_services = [], tp_groups = [], tp_is_stale = True,
      tp_last_refreshed = t, tp_is_locked = False, tp_locked_at = None, tp_locked_by = None,
      tp_removed_hosts = [], tp_removed_interfaces = [], tp_removed_subnets = [], tp_removed_services = [],
      tp_removed_groups = [], tp_removed_ports = [], tp_removed_bindings = []\<rparr>"

abbreviation on_base :: "(TopologyBase \<Rightarrow> TopologyBase) \<Rightarrow> Topology \<Rightarrow> Topology" where
  "on_base f t \<equiv> t\<lparr>topology_base := f (topology_base t)\<rparr>"

definition Topology_lock :: "datetime \<Rightarrow> uuid \<Rightarrow> Topology \<Rightarrow> Topology" where
  "Topology_lock t locked_by =
     on_base (\<lambda>b. b\<lparr>tp_is_locked := True, tp_locked_at := Some t, tp_locked_by := Some locked_by\<rparr>)"

definition Topology_unlock :: "Topology \<Rightarrow> Topology" where
  "Topology_unlock = on_base (\<lambda>b. b\<lparr>tp_is_locked := False, tp_locked_at := None, tp_locked_by := None\<rparr>)"

definition Topology_clear_stale :: "datetime \<Rightarrow> Topology \<Rightarrow> Topology" where
  "Topology_clear_stale t =
     on_base (\<lambda>b. b\<lparr>tp_removed_groups := [], tp_removed_hosts := [], tp_removed_interfaces := [],
       tp_removed_services := [], tp_removed_subnets := [], tp_removed_bindings := [],
       tp_removed_ports := [], tp_is_stale := False, tp_last_refreshed := t\<rparr>)"

definition Topology_set_entities :: "SetEntitiesParams \<Rightarrow> Topology \<Rightarrow> Topology" where
  "Topology_set_entities params =
     on_base (\<lambda>b. b\<lparr>tp_hosts := se_hosts params, tp_services := se_services params,
       tp_subnets := se_subnets params, tp_groups := se_groups params, tp_ports := se_ports params,
       tp_bindings := se_bindings params, tp_interfaces := se_interfaces params\<rparr>)"

definition Topology_set_graph :: "Node list \<Rightarrow> Edge list \<Rightarrow> Topology \<Rightarrow> Topology" where
  "Topology_set_graph nodes edges = on_base (\<lambda>b. b\<lparr>tp_nodes := nodes, tp_edges := edges\<rparr>)"

definition Topology_triggers_staleness :: "Topology \<Rightarrow> Topology option \<Rightarrow> bool" where
  "Topology_triggers_staleness t other =
     (case other of
        Some other_topology \<Rightarrow>
          to_request (tp_options (topology_base t)) \<noteq> to_request (tp_options (topology_base other_topology))
      | None \<Rightarrow> False)"

subsection \<open>Properties\<close>

definition NodeBounds_move :: "NodeBounds \<Rightarrow> int \<times> int \<Rightarrow> NodeBounds" where
  "NodeBounds_move b d = b\<lparr>bd_x := bd_x b + fst d, bd_y := bd_y b + snd d\<rparr>"

text \<open>The shift that \<open>resolve_overlap\<close> returns does not resolve an overlap: it points the wrong
  way, so the moved node still overlaps the other one, unless the two overlap by the same amount from
  both sides.\<close>

theorem resolve_overlap_keeps_overlap:
  assumes "NodeBounds_overlaps a b"
    and "NodeBounds_right b - bd_x a \<noteq> NodeBounds_right a - bd_x b"
    and "NodeBounds_bottom b - bd_y a \<noteq> NodeBounds_bottom a - bd_y b"
  shows "NodeBounds_overlaps (NodeBounds_move a (NodeBounds_resolve_overlap a b)) b"
  using assms
  by (auto simp: NodeBounds_resolve_overlap_def NodeBounds_overlaps_def NodeBounds_move_def
      NodeBounds_right_def NodeBounds_bottom_def NODE_PADDING_def Let_def min_def split: if_splits)

theorem resolve_overlap_keeps_overlap_witness:
  "NodeBounds_overlaps
     (NodeBounds_move \<lparr>bd_x = 90, bd_y = 0, bd_width = 100, bd_height = 200\<rparr>
        (NodeBounds_resolve_overlap \<lparr>bd_x = 90, bd_y = 0, bd_width = 100, bd_height = 200\<rparr>
           \<lparr>bd_x = 0, bd_y = 10, bd_width = 100, bd_height = 200\<rparr>))
     \<lparr>bd_x = 0, bd_y = 10, bd_width = 100, bd_height = 200\<rparr>"
  by (rule resolve_overlap_keeps_overlap)
    (simp_all add: NodeBounds_overlaps_def NodeBounds_right_def NodeBounds_bottom_def NODE_PADDING_def)

lemma vertical_order_le: "SubnetType_vertical_order t \<le> 3 \<or> SubnetType_vertical_order t = 999"
  by (cases t) simp_all

end
