(* ===== verification/Topology_Context.thy ===== *)
theory Topology_Context
  imports Topology_Types
begin

section \<open>The context of a topology\<close>

text \<open>
  The entities a map is built from and the queries on them
  (\<^verbatim>\<open>backend/src/server/topology/service/context.rs\<close>).
\<close>

record TopologyContext =
  cx_hosts :: "Host list"
  cx_interfaces :: "Interface list"
  cx_subnets :: "Subnet list"
  cx_services :: "Service list"
  cx_groups :: "Group list"
  cx_ports :: "Port list"
  cx_bindings :: "Binding list"
  cx_options :: TopologyOptions

abbreviation cx_request :: "TopologyContext \<Rightarrow> TopologyRequestOptions" where
  "cx_request ctx \<equiv> to_request (cx_options ctx)"

subsection \<open>Data access\<close>

definition get_subnet_by_id :: "TopologyContext \<Rightarrow> uuid \<Rightarrow> Subnet option" where
  "get_subnet_by_id ctx i = find (\<lambda>s. subnet_id s = i) (cx_subnets ctx)"

definition get_host_by_id :: "TopologyContext \<Rightarrow> uuid \<Rightarrow> Host option" where
  "get_host_by_id ctx i = find (\<lambda>h. host_id h = i) (cx_hosts ctx)"

definition get_service_by_id :: "TopologyContext \<Rightarrow> uuid \<Rightarrow> Service option" where
  "get_service_by_id ctx i = find (\<lambda>s. service_id s = i) (cx_services ctx)"

definition get_interface_by_id :: "TopologyContext \<Rightarrow> uuid option \<Rightarrow> Interface option" where
  "get_interface_by_id ctx oi =
     Option.bind oi (\<lambda>i. find (\<lambda>x. interface_id x = i) (cx_interfaces ctx))"

definition ctx_interfaces_for_host :: "TopologyContext \<Rightarrow> uuid \<Rightarrow> Interface list" where
  "ctx_interfaces_for_host ctx h = filter (\<lambda>i. ib_host_id (interface_base i) = h) (cx_interfaces ctx)"

definition ctx_services_for_host :: "TopologyContext \<Rightarrow> uuid \<Rightarrow> Service list" where
  "ctx_services_for_host ctx h = filter (\<lambda>s. svb_host_id (service_base s) = h) (cx_services ctx)"

definition get_first_non_docker_bridge_interface_for_host :: "TopologyContext \<Rightarrow> uuid \<Rightarrow> Interface option" where
  "get_first_non_docker_bridge_interface_for_host ctx h =
     find (\<lambda>i. if ib_host_id (interface_base i) \<noteq> h then False
               else case get_subnet_by_id ctx (ib_subnet_id (interface_base i)) of
                      Some s \<Rightarrow> \<not> SubnetType_is_docker_bridge (sb_subnet_type (subnet_base s))
                    | None \<Rightarrow> False) (cx_interfaces ctx)"

definition get_services_bound_to_interface :: "TopologyContext \<Rightarrow> uuid \<Rightarrow> Service list" where
  "get_services_bound_to_interface ctx i =
     filter (\<lambda>s. list_ex (\<lambda>oi. case oi of Some i' \<Rightarrow> i' = i | None \<Rightarrow> False) (Service_to_bound_interface_ids s))
       (cx_services ctx)"

definition get_subnet_from_interface_id :: "TopologyContext \<Rightarrow> uuid \<Rightarrow> Subnet option" where
  "get_subnet_from_interface_id ctx i =
     Option.bind (find (\<lambda>x. interface_id x = i) (cx_interfaces ctx))
       (\<lambda>x. get_subnet_by_id ctx (ib_subnet_id (interface_base x)))"

definition get_host_from_interface_id :: "TopologyContext \<Rightarrow> uuid \<Rightarrow> Host option" where
  "get_host_from_interface_id ctx i =
     Option.bind (find (\<lambda>x. interface_id x = i) (cx_interfaces ctx))
       (\<lambda>x. find (\<lambda>h. host_id h = ib_host_id (interface_base x)) (cx_hosts ctx))"

subsection \<open>Virtualization\<close>

definition get_host_is_virtualized_by :: "TopologyContext \<Rightarrow> uuid \<Rightarrow> Service option" where
  "get_host_is_virtualized_by ctx h =
     (case get_host_by_id ctx h of
        Some host \<Rightarrow>
          (case hb_virtualization (host_base host) of
             Some (HostVirtualization_Proxmox v) \<Rightarrow> find (\<lambda>s. service_id s = pv_service_id v) (cx_services ctx)
           | None \<Rightarrow> None)
      | None \<Rightarrow> None)"

definition get_service_is_containerized_by :: "TopologyContext \<Rightarrow> uuid \<Rightarrow> Service option" where
  "get_service_is_containerized_by ctx i =
     (case get_service_by_id ctx i of
        Some service \<Rightarrow>
          (case svb_virtualization (service_base service) of
             Some (ServiceVirtualization_Docker v) \<Rightarrow> find (\<lambda>s. service_id s = dv_service_id v) (cx_services ctx)
           | None \<Rightarrow> None)
      | None \<Rightarrow> None)"

definition get_node_subnet :: "uuid \<Rightarrow> Node list \<Rightarrow> uuid option" where
  "get_node_subnet i nodes =
     map_option (\<lambda>node. case node_type node of
         NodeType_InterfaceNode s _ _ _ \<Rightarrow> s
       | NodeType_SubnetNode _ \<Rightarrow> node_id node) (find (\<lambda>n. node_id n = i) nodes)"

subsection \<open>The infrastructure zone\<close>

definition Subnet_has_interface_with_service :: "Subnet \<Rightarrow> Interface list \<Rightarrow> Service \<Rightarrow> bool" where
  "Subnet_has_interface_with_service subnet host_interfaces service =
     list_ex (\<lambda>b. list_ex (\<lambda>i.
         (case Binding_interface_id b of Some i' \<Rightarrow> interface_id i = i' | None \<Rightarrow> True) \<and>
         ib_subnet_id (interface_base i) = subnet_id subnet) host_interfaces)
       (svb_bindings (service_base service))"

definition is_infra_service :: "TopologyContext \<Rightarrow> Subnet \<Rightarrow> Service \<Rightarrow> bool" where
  "is_infra_service ctx subnet s =
     (case find (\<lambda>h. host_id h = svb_host_id (service_base s)) (cx_hosts ctx) of
        Some host \<Rightarrow>
          (sd_category (svb_service_definition (service_base s)) \<in>
             set (ro_left_zone_service_categories (cx_request ctx)) \<or>
           ro_show_gateway_in_left_zone (cx_request ctx) \<and>
             ServiceDefinition_is_gateway (svb_service_definition (service_base s))) \<and>
          Subnet_has_interface_with_service subnet (ctx_interfaces_for_host ctx (host_id host)) s
      | None \<Rightarrow> False)"

definition get_interfaces_with_infra_service :: "TopologyContext \<Rightarrow> Subnet \<Rightarrow> uuid option list" where
  "get_interfaces_with_infra_service ctx subnet =
     concat (map Service_to_bound_interface_ids (filter (is_infra_service ctx subnet) (cx_services ctx)))"

definition is_interface_infra :: "TopologyContext \<Rightarrow> uuid \<Rightarrow> bool" where
  "is_interface_infra ctx i =
     (case get_subnet_from_interface_id ctx i of
        Some subnet \<Rightarrow> Some i \<in> set (get_interfaces_with_infra_service ctx subnet)
      | None \<Rightarrow> False)"

definition subnet_has_mixed_infra :: "TopologyContext \<Rightarrow> Subnet \<Rightarrow> bool" where
  "subnet_has_mixed_infra ctx subnet =
     (let infra_interfaces = get_interfaces_with_infra_service ctx subnet;
          all_interfaces_in_subnet =
            map interface_id (filter (\<lambda>i. ib_subnet_id (interface_base i) = subnet_id subnet) (cx_interfaces ctx))
      in if all_interfaces_in_subnet = [] then False
         else list_ex (\<lambda>i. Some i \<in> set infra_interfaces) all_interfaces_in_subnet \<and>
              list_ex (\<lambda>i. Some i \<notin> set infra_interfaces) all_interfaces_in_subnet)"

subsection \<open>Classes of edges\<close>

definition edge_is_intra_subnet :: "TopologyContext \<Rightarrow> Edge \<Rightarrow> bool" where
  "edge_is_intra_subnet ctx edge =
     (case (get_subnet_from_interface_id ctx (edge_source edge), get_subnet_from_interface_id ctx (edge_target edge)) of
        (Some source_subnet, Some target_subnet) \<Rightarrow> subnet_id source_subnet = subnet_id target_subnet
      | _ \<Rightarrow> False)"

definition context_edge_is_multi_hop :: "TopologyContext \<Rightarrow> uuid \<Rightarrow> uuid \<Rightarrow> bool" where
  "context_edge_is_multi_hop ctx source target =
     (case (get_subnet_from_interface_id ctx source, get_subnet_from_interface_id ctx target) of
        (Some source_subnet, Some target_subnet) \<Rightarrow>
          \<bar>int (SubnetType_vertical_order (sb_subnet_type (subnet_base source_subnet))) -
           int (SubnetType_vertical_order (sb_subnet_type (subnet_base target_subnet)))\<bar> > 1
      | _ \<Rightarrow> False)"

definition interface_will_have_node :: "TopologyContext \<Rightarrow> uuid \<Rightarrow> bool" where
  "interface_will_have_node ctx i \<longleftrightarrow> get_services_bound_to_interface ctx i \<noteq> []"

definition service_will_have_node :: "TopologyContext \<Rightarrow> uuid \<Rightarrow> bool" where
  "service_will_have_node ctx i =
     (case get_service_by_id ctx i of Some s \<Rightarrow> svb_bindings (service_base s) \<noteq> [] | None \<Rightarrow> True)"

subsection \<open>Lemmas\<close>

lemma find_memberD: "find P xs = Some x \<Longrightarrow> x \<in> set xs \<and> P x"
  by (auto simp: find_Some_iff)

lemma find_by_key:
  assumes "distinct (map f xs)" "x \<in> set xs"
  shows "find (\<lambda>y. f y = f x) xs = Some x"
proof (cases "find (\<lambda>y. f y = f x) xs")
  case None
  then show ?thesis using assms(2) by (auto simp: find_None_iff)
next
  case (Some y)
  then have "y \<in> set xs" "f y = f x" by (auto dest: find_memberD)
  with assms Some show ?thesis by (metis distinct_map inj_onD)
qed

lemma find_memI: "x \<in> set xs \<Longrightarrow> P x \<Longrightarrow> \<exists>y. find P xs = Some y"
  using find_None_iff by fastforce

lemma will_have_node_iff:
  "interface_will_have_node ctx i \<longleftrightarrow>
     (\<exists>s \<in> set (cx_services ctx). Some i \<in> set (Service_to_bound_interface_ids s))"
  by (auto simp: interface_will_have_node_def get_services_bound_to_interface_def filter_empty_conv list_ex_iff
      split: option.splits)

end
