(* ===== verification/Edge_Builder.thy ===== *)
theory Edge_Builder
  imports Topology_Context
begin

section \<open>Building edges\<close>

text \<open>
  The edges of a network map (\<^verbatim>\<open>backend/src/server/topology/service/edge_builder.rs\<close>): between the
  interfaces of a host, along the bindings of groups, from a hypervisor to its guests and from a
  container service to its containers. Each edge built draws one new identifier, so the builders give
  functions from the identifier to the edge, and \<open>with_ids\<close> supplies the identifiers in the order in
  which the edges are built. Hash maps that are only looked up are modelled as maps.
\<close>

type_synonym edge_maker = "uuid \<Rightarrow> Edge"

definition with_ids :: "(nat \<Rightarrow> uuid) \<Rightarrow> nat \<Rightarrow> edge_maker list \<Rightarrow> Edge list" where
  "with_ids fresh n makers = map (\<lambda>(k, mk). mk (fresh k)) (enumerate n makers)"

subsection \<open>Handles\<close>

definition determine_interface_handles ::
    "TopologyContext \<Rightarrow> uuid \<Rightarrow> uuid \<Rightarrow> bool \<Rightarrow> (EdgeHandle \<times> EdgeHandle) option" where
  "determine_interface_handles ctx source target is_multi_hop =
     Option.bind (get_subnet_from_interface_id ctx source) (\<lambda>source_subnet.
     Option.bind (get_subnet_from_interface_id ctx target) (\<lambda>target_subnet.
       let source_is_infra = Some source \<in> set (get_interfaces_with_infra_service ctx source_subnet);
           target_is_infra = Some target \<in> set (get_interfaces_with_infra_service ctx target_subnet);
           source_needs_infra_constraint = subnet_has_mixed_infra ctx source_subnet;
           target_needs_infra_constraint = subnet_has_mixed_infra ctx target_subnet
       in Some (from_subnet_layers source_subnet target_subnet
                  (source_is_infra \<and> source_needs_infra_constraint)
                  (target_is_infra \<and> target_needs_infra_constraint) is_multi_hop)))"

definition make_edge ::
    "uuid \<Rightarrow> uuid \<Rightarrow> EdgeType \<Rightarrow> string option \<Rightarrow> EdgeHandle \<times> EdgeHandle \<Rightarrow> bool \<Rightarrow> edge_maker" where
  "make_edge source target t label handles is_multi_hop i =
     \<lparr>edge_id = i, edge_source = source, edge_target = target, edge_type = t, edge_label = label,
      edge_source_handle = fst handles, edge_target_handle = snd handles, edge_is_multi_hop = is_multi_hop\<rparr>"

subsection \<open>Groups\<close>

definition find_binding_interface :: "TopologyContext \<Rightarrow> uuid \<Rightarrow> uuid option option" where
  "find_binding_interface ctx b =
     (case find (\<lambda>s. Service_get_binding s b \<noteq> None) (cx_services ctx) of
        Some s \<Rightarrow> map_option Binding_interface_id (Service_get_binding s b)
      | None \<Rightarrow> None)"

definition edge_from_service_bindings ::
    "TopologyContext \<Rightarrow> uuid \<Rightarrow> uuid \<Rightarrow> Group \<Rightarrow> edge_maker option" where
  "edge_from_service_bindings ctx source_binding_id target_binding_id grp =
     (case (find_binding_interface ctx source_binding_id, find_binding_interface ctx target_binding_id) of
        (Some (Some source), Some (Some target)) \<Rightarrow>
          if \<not> interface_will_have_node ctx source \<or> \<not> interface_will_have_node ctx target then None
          else
            let is_multi_hop = context_edge_is_multi_hop ctx source target
            in Option.bind (determine_interface_handles ctx source target is_multi_hop) (\<lambda>handles.
                 let label =
                   if map_option subnet_id (get_subnet_from_interface_id ctx source) =
                      map_option subnet_id (get_subnet_from_interface_id ctx target)
                   then None else Some (gr_name (group_base grp))
                 in Some (make_edge source target
                      (case gr_group_type (group_base grp) of
                         GroupType_HubAndSpoke \<Rightarrow>
                           EdgeType_HubAndSpoke (group_id grp) source_binding_id target_binding_id
                       | GroupType_RequestPath \<Rightarrow>
                           EdgeType_RequestPath (group_id grp) source_binding_id target_binding_id)
                      label handles is_multi_hop))
      | _ \<Rightarrow> None)"

definition group_binding_pairs :: "Group \<Rightarrow> (uuid \<times> uuid) list" where
  "group_binding_pairs grp =
     (let binding_ids = gr_binding_ids (group_base grp)
      in case gr_group_type (group_base grp) of
           GroupType_RequestPath \<Rightarrow> zip binding_ids (tl binding_ids)
         | GroupType_HubAndSpoke \<Rightarrow>
             (case binding_ids of
                [] \<Rightarrow> []
              | hub # spokes \<Rightarrow> map (\<lambda>spoke. (hub, spoke)) (rev spokes)))"

definition create_group_edges :: "TopologyContext \<Rightarrow> edge_maker list" where
  "create_group_edges ctx =
     concat (map (\<lambda>grp.
       List.map_filter (\<lambda>(source, target). edge_from_service_bindings ctx source target grp)
         (group_binding_pairs grp)) (cx_groups ctx))"

subsection \<open>Interfaces of a host\<close>

definition on_docker_bridge :: "TopologyContext \<Rightarrow> Interface \<Rightarrow> bool" where
  "on_docker_bridge ctx i =
     (case get_subnet_by_id ctx (ib_subnet_id (interface_base i)) of
        Some s \<Rightarrow> sb_subnet_type (subnet_base s) = SubnetType_DockerBridge
      | None \<Rightarrow> False)"

definition interface_edge :: "TopologyContext \<Rightarrow> Host \<Rightarrow> Interface \<Rightarrow> Interface \<Rightarrow> edge_maker option" where
  "interface_edge ctx host origin_interface interface =
     (if on_docker_bridge ctx origin_interface then None
      else if on_docker_bridge ctx interface then None
      else
        let is_multi_hop = context_edge_is_multi_hop ctx (interface_id origin_interface) (interface_id interface)
        in Option.bind (determine_interface_handles ctx (interface_id origin_interface) (interface_id interface)
             is_multi_hop) (\<lambda>handles.
             let label =
               if ib_subnet_id (interface_base origin_interface) = ib_subnet_id (interface_base interface)
               then None else Some (hb_name (host_base host))
             in Some (make_edge (interface_id origin_interface) (interface_id interface)
                  (EdgeType_Interface (host_id host)) label handles is_multi_hop)))"

definition host_interface_edges :: "TopologyContext \<Rightarrow> Host \<Rightarrow> edge_maker list" where
  "host_interface_edges ctx host =
     (let host_interfaces = ctx_interfaces_for_host ctx (host_id host)
      in case get_first_non_docker_bridge_interface_for_host ctx (host_id host) of
           Some origin_interface \<Rightarrow>
             List.map_filter (interface_edge ctx host origin_interface)
               (filter (\<lambda>interface.
                  interface_id interface \<noteq> interface_id origin_interface \<and>
                  interface_will_have_node ctx (interface_id interface) \<and>
                  interface_will_have_node ctx (interface_id origin_interface)) host_interfaces)
         | None \<Rightarrow> [])"

definition create_interface_edges :: "TopologyContext \<Rightarrow> edge_maker list" where
  "create_interface_edges ctx = concat (map (host_interface_edges ctx) (cx_hosts ctx))"

subsection \<open>Virtual machines\<close>

definition proxmox_of :: "Host \<Rightarrow> ProxmoxVirtualization option" where
  "proxmox_of h = map_option (\<lambda>v. case v of HostVirtualization_Proxmox p \<Rightarrow> p) (hb_virtualization (host_base h))"

text \<open>The first interface of a proxmox service on each subnet.\<close>

definition add_proxmox_interface ::
    "TopologyContext \<Rightarrow> uuid \<Rightarrow> (uuid \<times> uuid \<rightharpoonup> uuid) \<Rightarrow> uuid \<Rightarrow> (uuid \<times> uuid \<rightharpoonup> uuid)" where
  "add_proxmox_interface ctx service m i =
     (case get_subnet_from_interface_id ctx i of
        Some subnet \<Rightarrow>
          if m (subnet_id subnet, service) = None then m((subnet_id subnet, service) \<mapsto> i) else m
      | None \<Rightarrow> m)"

definition add_proxmox_host ::
    "TopologyContext \<Rightarrow> (uuid \<times> uuid \<rightharpoonup> uuid) \<times> (uuid \<rightharpoonup> uuid) \<Rightarrow> Host
       \<Rightarrow> (uuid \<times> uuid \<rightharpoonup> uuid) \<times> (uuid \<rightharpoonup> uuid)" where
  "add_proxmox_host ctx st h =
     (case proxmox_of h of
        Some v \<Rightarrow>
          ((case get_service_by_id ctx (pv_service_id v) of
              Some promxox_service \<Rightarrow>
                foldl (add_proxmox_interface ctx (service_id promxox_service)) (fst st)
                  (List.map_filter Binding_interface_id (svb_bindings (service_base promxox_service)))
            | None \<Rightarrow> fst st),
           (snd st)(host_id h \<mapsto> pv_service_id v))
      | None \<Rightarrow> st)"

definition vm_interface_edge ::
    "TopologyContext \<Rightarrow> (uuid \<times> uuid \<rightharpoonup> uuid) \<Rightarrow> uuid \<Rightarrow> Interface \<Rightarrow> edge_maker option" where
  "vm_interface_edge ctx proxmox_interfaces proxmox_service_id i =
     (case proxmox_interfaces (ib_subnet_id (interface_base i), proxmox_service_id) of
        Some proxmox_service_interface_id \<Rightarrow>
          if interface_will_have_node ctx proxmox_service_interface_id then
            let is_multi_hop = context_edge_is_multi_hop ctx proxmox_service_interface_id (interface_id i)
            in Option.bind (determine_interface_handles ctx proxmox_service_interface_id (interface_id i)
                 is_multi_hop) (\<lambda>handles.
                 Some (make_edge proxmox_service_interface_id (interface_id i)
                   (EdgeType_HostVirtualization proxmox_service_id) None handles is_multi_hop))
          else None
      | None \<Rightarrow> None)"

definition create_vm_host_edges :: "TopologyContext \<Rightarrow> edge_maker list" where
  "create_vm_host_edges ctx =
     (let (proxmox_interfaces, vm_host_service) =
        foldl (add_proxmox_host ctx) (Map.empty, Map.empty) (cx_hosts ctx)
      in concat (map (\<lambda>h.
           case vm_host_service (host_id h) of
             Some proxmox_service_id \<Rightarrow>
               List.map_filter (vm_interface_edge ctx proxmox_interfaces proxmox_service_id)
                 (ctx_interfaces_for_host ctx (host_id h))
           | None \<Rightarrow> []) (cx_hosts ctx)))"

subsection \<open>Containers\<close>

definition containerized_ids :: "TopologyContext \<Rightarrow> uuid \<rightharpoonup> uuid list" where
  "containerized_ids ctx =
     foldl (\<lambda>m s.
       case docker_of s of
         Some v \<Rightarrow>
           let entry = (case m (dv_service_id v) of Some ids \<Rightarrow> ids | None \<Rightarrow> [])
           in m(dv_service_id v \<mapsto> if service_id s \<in> set entry then entry else entry @ [service_id s])
       | None \<Rightarrow> m) Map.empty (cx_services ctx)"

definition container_subnets :: "TopologyContext \<Rightarrow> uuid \<Rightarrow> uuid list" where
  "container_subnets ctx h =
     List.map_filter (\<lambda>s. if sb_subnet_type (subnet_base s) = SubnetType_DockerBridge then Some (subnet_id s) else None)
       (List.map_filter (\<lambda>i. get_subnet_by_id ctx (ib_subnet_id (interface_base i))) (ctx_interfaces_for_host ctx h))"

definition container_subnet_interface_ids :: "TopologyContext \<Rightarrow> uuid \<Rightarrow> uuid list" where
  "container_subnet_interface_ids ctx h =
     map interface_id (filter (\<lambda>i. ib_subnet_id (interface_base i) \<in> set (container_subnets ctx h))
       (ctx_interfaces_for_host ctx h))"

text \<open>With bridges grouped: one edge to the subnet the bridges of the host are grouped on, and the
  entry of the host in the map of grouped subnets.\<close>

definition grouped_container_edge ::
    "TopologyContext \<Rightarrow> Service \<Rightarrow> Host \<Rightarrow> Interface \<Rightarrow> (uuid \<rightharpoonup> uuid) \<Rightarrow> edge_maker list \<times> (uuid \<rightharpoonup> uuid)" where
  "grouped_container_edge ctx s host origin_interface grouped =
     (case (container_subnet_interface_ids ctx (host_id host), container_subnets ctx (host_id host)) of
        (first_interface_id # _, first_subnet_id # _) \<Rightarrow>
          let is_multi_hop = context_edge_is_multi_hop ctx (interface_id origin_interface) first_interface_id
          in (case determine_interface_handles ctx (interface_id origin_interface) first_interface_id is_multi_hop of
                Some handles \<Rightarrow>
                  (if interface_will_have_node ctx (interface_id origin_interface)
                   then [make_edge (interface_id origin_interface) first_subnet_id
                           (EdgeType_ServiceVirtualization (host_id host) (service_id s))
                           (Some (svb_name (service_base s) @ '' @ '' @ hb_name (host_base host)))
                           handles is_multi_hop]
                   else [],
                   if grouped (host_id host) = None then grouped(host_id host \<mapsto> first_subnet_id) else grouped)
              | None \<Rightarrow> ([], grouped))
      | _ \<Rightarrow> ([], grouped))"

definition container_edge ::
    "TopologyContext \<Rightarrow> Service \<Rightarrow> Host \<Rightarrow> Interface \<Rightarrow> uuid \<Rightarrow> edge_maker option" where
  "container_edge ctx s host origin_interface cs =
     Option.bind (get_service_by_id ctx cs) (\<lambda>containerized.
     Option.bind (find (\<lambda>i. i \<in> set (container_subnet_interface_ids ctx (host_id host)))
         (List.map_filter Binding_interface_id (svb_bindings (service_base containerized))))
       (\<lambda>container_binding_interface_id.
       let is_multi_hop =
         context_edge_is_multi_hop ctx (interface_id origin_interface) container_binding_interface_id
       in Option.bind (determine_interface_handles ctx (interface_id origin_interface)
            container_binding_interface_id is_multi_hop) (\<lambda>handles.
            if interface_will_have_node ctx (interface_id origin_interface) \<and>
               interface_will_have_node ctx container_binding_interface_id
            then Some (make_edge (interface_id origin_interface) container_binding_interface_id
                   (EdgeType_ServiceVirtualization (host_id host) (service_id s))
                   (Some (svb_name (service_base s) @ '' on '' @ hb_name (host_base host)))
                   handles is_multi_hop)
            else None)))"

definition container_service_step ::
    "TopologyContext \<Rightarrow> bool \<Rightarrow> edge_maker list \<times> (uuid \<rightharpoonup> uuid) \<Rightarrow> Service
       \<Rightarrow> edge_maker list \<times> (uuid \<rightharpoonup> uuid)" where
  "container_service_step ctx group_docker_bridges_by_host st s =
     (case containerized_ids ctx (service_id s) of
        None \<Rightarrow> st
      | Some ids \<Rightarrow>
          (case Option.bind (get_host_by_id ctx (svb_host_id (service_base s))) (\<lambda>host.
                  map_option (\<lambda>origin_interface. (host, origin_interface))
                    (get_first_non_docker_bridge_interface_for_host ctx (host_id host))) of
             None \<Rightarrow> st
           | Some (host, origin_interface) \<Rightarrow>
               if group_docker_bridges_by_host then
                 let (new_edges, grouped) = grouped_container_edge ctx s host origin_interface (snd st)
                 in (fst st @ new_edges, grouped)
               else (fst st @ List.map_filter (container_edge ctx s host origin_interface) ids, snd st)))"

definition create_containerized_service_edges ::
    "TopologyContext \<Rightarrow> bool \<Rightarrow> edge_maker list \<times> (uuid \<rightharpoonup> uuid)" where
  "create_containerized_service_edges ctx group_docker_bridges_by_host =
     foldl (container_service_step ctx group_docker_bridges_by_host) ([], Map.empty) (cx_services ctx)"

subsection \<open>Properties\<close>

lemma make_edge_simps [simp]:
  "edge_source (make_edge s t ty l h m i) = s" "edge_target (make_edge s t ty l h m i) = t"
  "edge_type (make_edge s t ty l h m i) = ty" "edge_is_multi_hop (make_edge s t ty l h m i) = m"
  by (simp_all add: make_edge_def)

lemma map_with_ids:
  assumes "\<And>mk i. mk \<in> set makers \<Longrightarrow> f (mk i) = f (mk uuid_nil)"
  shows "map f (with_ids fresh n makers) = map (\<lambda>mk. f (mk uuid_nil)) makers"
  using assms
proof (induction makers arbitrary: n)
  case (Cons mk makers)
  have "map f (with_ids fresh (Suc n) makers) = map (\<lambda>mk. f (mk uuid_nil)) makers"
    by (rule Cons.IH, rule Cons.prems, rule list.set_intros(2))
  moreover have "f (mk (fresh n)) = f (mk uuid_nil)" by (rule Cons.prems) simp
  ultimately show ?case by (simp add: with_ids_def)
qed (simp add: with_ids_def)

lemma first_interface_on_host:
  "get_first_non_docker_bridge_interface_for_host ctx h = Some x \<Longrightarrow>
     x \<in> set (ctx_interfaces_for_host ctx h) \<and> \<not> on_docker_bridge ctx x \<and>
     get_subnet_by_id ctx (ib_subnet_id (interface_base x)) \<noteq> None"
  by (auto simp: get_first_non_docker_bridge_interface_for_host_def ctx_interfaces_for_host_def on_docker_bridge_def
      SubnetType_is_docker_bridge_def find_Some_iff split: if_splits option.splits)

lemma handles_defined:
  "determine_interface_handles ctx s t m \<noteq> None \<longleftrightarrow>
     get_subnet_from_interface_id ctx s \<noteq> None \<and> get_subnet_from_interface_id ctx t \<noteq> None"
  by (auto simp: determine_interface_handles_def Let_def split: Option.bind_splits)

abbreviation edge_ends :: "Edge \<Rightarrow> uuid \<times> uuid" where
  "edge_ends e \<equiv> (edge_source e, edge_target e)"

lemma interface_edge_some:
  "interface_edge ctx h o' i = Some mk \<Longrightarrow>
     edge_ends (mk u) = (interface_id o', interface_id i) \<and> edge_type (mk u) = EdgeType_Interface (host_id h)"
  by (auto simp: interface_edge_def Let_def split: if_splits Option.bind_splits)

lemma interface_edge_iff:
  "(\<exists>mk. interface_edge ctx h o' i = Some mk) \<longleftrightarrow>
     \<not> on_docker_bridge ctx o' \<and> \<not> on_docker_bridge ctx i \<and>
     get_subnet_from_interface_id ctx (interface_id o') \<noteq> None \<and>
     get_subnet_from_interface_id ctx (interface_id i) \<noteq> None"
proof -
  have "(\<exists>mk. interface_edge ctx h o' i = Some mk) \<longleftrightarrow>
      \<not> on_docker_bridge ctx o' \<and> \<not> on_docker_bridge ctx i \<and>
      determine_interface_handles ctx (interface_id o') (interface_id i)
        (context_edge_is_multi_hop ctx (interface_id o') (interface_id i)) \<noteq> None"
    by (auto simp: interface_edge_def Let_def split: Option.bind_splits)
  then show ?thesis unfolding handles_defined .
qed

definition joined_interfaces :: "TopologyContext \<Rightarrow> Host \<Rightarrow> Interface \<Rightarrow> Interface \<Rightarrow> bool" where
  "joined_interfaces ctx h o' i \<longleftrightarrow>
     get_first_non_docker_bridge_interface_for_host ctx (host_id h) = Some o' \<and>
     i \<in> set (ctx_interfaces_for_host ctx (host_id h)) \<and> interface_id i \<noteq> interface_id o' \<and>
     interface_will_have_node ctx (interface_id o') \<and> interface_will_have_node ctx (interface_id i) \<and>
     \<not> on_docker_bridge ctx i \<and>
     get_subnet_from_interface_id ctx (interface_id o') \<noteq> None \<and>
     get_subnet_from_interface_id ctx (interface_id i) \<noteq> None"

lemma in_host_interface_edges:
  "mk \<in> set (host_interface_edges ctx h) \<longleftrightarrow>
     (\<exists>o' i. joined_interfaces ctx h o' i \<and> interface_edge ctx h o' i = Some mk)"
proof -
  have "mk \<in> set (host_interface_edges ctx h) \<longleftrightarrow>
      (\<exists>o' i. get_first_non_docker_bridge_interface_for_host ctx (host_id h) = Some o' \<and>
         i \<in> set (ctx_interfaces_for_host ctx (host_id h)) \<and> interface_id i \<noteq> interface_id o' \<and>
         interface_will_have_node ctx (interface_id o') \<and> interface_will_have_node ctx (interface_id i) \<and>
         interface_edge ctx h o' i = Some mk)"
    by (cases "get_first_non_docker_bridge_interface_for_host ctx (host_id h)")
      (auto simp: host_interface_edges_def set_map_filter)
  also have "\<dots> \<longleftrightarrow> (\<exists>o' i. joined_interfaces ctx h o' i \<and> interface_edge ctx h o' i = Some mk)"
    unfolding joined_interfaces_def using interface_edge_iff by (metis (no_types, lifting))
  finally show ?thesis .
qed


definition edge_placed :: "TopologyContext \<Rightarrow> bool \<Rightarrow> Edge \<Rightarrow> bool" where
  "edge_placed ctx grouped e \<longleftrightarrow>
     interface_will_have_node ctx (edge_source e) \<and>
     (interface_will_have_node ctx (edge_target e) \<or> is_vm_edge (edge_type e) \<or>
      grouped \<and> edge_target e \<in> set (container_subnets ctx (et_host_id (edge_type e))))"

lemma group_edge_placed: "mk \<in> set (create_group_edges ctx) \<Longrightarrow> edge_placed ctx g (mk u)"
  by (auto simp: create_group_edges_def edge_from_service_bindings_def edge_placed_def set_map_filter Let_def
      split: option.splits if_splits Option.bind_splits)

lemma vm_interface_edge_placed: "vm_interface_edge ctx m p i = Some mk \<Longrightarrow> edge_placed ctx g (mk u)"
  by (auto simp: vm_interface_edge_def edge_placed_def Let_def split: option.splits if_splits Option.bind_splits)

lemma vm_edge_placed: "mk \<in> set (create_vm_host_edges ctx) \<Longrightarrow> edge_placed ctx g (mk u)"
  by (auto simp: create_vm_host_edges_def set_map_filter split: prod.splits option.splits
      intro: vm_interface_edge_placed)

lemma container_edge_placed:
  "container_edge ctx s h x cs = Some mk \<Longrightarrow> edge_placed ctx g (mk u)"
  by (auto simp: container_edge_def edge_placed_def Let_def split: if_splits Option.bind_splits)

lemma grouped_edge_placed:
  "mk \<in> set (fst (grouped_container_edge ctx s h x m)) \<Longrightarrow> edge_placed ctx True (mk u)"
  by (auto simp: grouped_container_edge_def edge_placed_def Let_def split: list.splits option.splits if_splits)

lemma container_step_placed:
  assumes "\<forall>mk \<in> set (fst st). \<forall>u. edge_placed ctx g (mk u)"
  shows "\<forall>mk \<in> set (fst (container_service_step ctx g st s)). \<forall>u. edge_placed ctx g (mk u)"
proof (cases "\<exists>ids h x. containerized_ids ctx (service_id s) = Some ids \<and>
    Option.bind (get_host_by_id ctx (svb_host_id (service_base s))) (\<lambda>host.
      map_option (\<lambda>origin_interface. (host, origin_interface))
        (get_first_non_docker_bridge_interface_for_host ctx (host_id host))) = Some (h, x)")
  case True
  then obtain ids h x where found: "containerized_ids ctx (service_id s) = Some ids"
    "Option.bind (get_host_by_id ctx (svb_host_id (service_base s))) (\<lambda>host.
      map_option (\<lambda>origin_interface. (host, origin_interface))
        (get_first_non_docker_bridge_interface_for_host ctx (host_id host))) = Some (h, x)" by blast
  have step: "container_service_step ctx g st s =
      (if g then (fst st @ fst (grouped_container_edge ctx s h x (snd st)), snd (grouped_container_edge ctx s h x (snd st)))
       else (fst st @ List.map_filter (container_edge ctx s h x) ids, snd st))"
    unfolding container_service_step_def found by (simp add: Let_def case_prod_unfold)
  show ?thesis
  proof (cases g)
    case True
    with assms grouped_edge_placed step show ?thesis by auto
  next
    case False
    with assms step show ?thesis by (auto simp: set_map_filter intro: container_edge_placed)
  qed
next
  case False
  then have "container_service_step ctx g st s = st"
    by (auto simp: container_service_step_def split: option.splits)
  with assms show ?thesis by simp
qed

lemma containerized_edge_placed:
  assumes "mk \<in> set (fst (create_containerized_service_edges ctx g))"
  shows "edge_placed ctx g (mk u)"
proof -
  have "\<forall>mk \<in> set (fst (create_containerized_service_edges ctx g)). \<forall>u. edge_placed ctx g (mk u)"
    unfolding create_containerized_service_edges_def
    by (rule foldl_invariant [where P = "\<lambda>st. \<forall>mk \<in> set (fst st). \<forall>u. edge_placed ctx g (mk u)"])
      (simp_all add: container_step_placed)
  with assms show ?thesis by blast
qed

lemma interface_edges_placed:
  assumes "mk \<in> set (create_interface_edges ctx)"
  shows "edge_placed ctx g (mk u)"
proof -
  obtain h o' i where j: "joined_interfaces ctx h o' i" "interface_edge ctx h o' i = Some mk"
    using assms by (auto simp: create_interface_edges_def in_host_interface_edges)
  then show ?thesis using interface_edge_some [OF j(2), of u] by (simp add: joined_interfaces_def edge_placed_def)
qed

definition all_edge_makers :: "TopologyContext \<Rightarrow> edge_maker list" where
  "all_edge_makers ctx =
     create_interface_edges ctx @ create_group_edges ctx @ create_vm_host_edges ctx @
     fst (create_containerized_service_edges ctx (ro_group_docker_bridges_by_host (cx_request ctx)))"

text \<open>C25. Every edge of a map starts at an interface that some service is bound to. It also ends at one,
  except for the edges from a hypervisor to its guests, whose end is not checked, and for the edges
  to containers when bridges are grouped, which end at the subnet of a Docker bridge of the host.\<close>

theorem edges_start_at_bound_interfaces:
  "list_all (edge_placed ctx (ro_group_docker_bridges_by_host (cx_request ctx)))
     (with_ids fresh n (all_edge_makers ctx))"
  unfolding list_all_iff
proof
  fix e assume "e \<in> set (with_ids fresh n (all_edge_makers ctx))"
  then obtain k mk where "(k, mk) \<in> set (enumerate n (all_edge_makers ctx))" and e: "e = mk (fresh k)"
    by (auto simp: with_ids_def)
  then have "mk \<in> set (map snd (enumerate n (all_edge_makers ctx)))"
    using image_eqI [of mk snd "(k, mk)"] unfolding set_map by simp
  then have "mk \<in> set (all_edge_makers ctx)" by (simp only: map_snd_enumerate)
  then show "edge_placed ctx (ro_group_docker_bridges_by_host (cx_request ctx)) e"
    unfolding e all_edge_makers_def
    by (auto intro: interface_edges_placed group_edge_placed vm_edge_placed containerized_edge_placed)
qed

end
