(* ===== verification/Numbers.thy ===== *)
theory Numbers
  imports Complex_Main
begin

section \<open>Conversions of floating point numbers\<close>

text \<open>
  A finite \<open>f32\<close> or \<open>f64\<close> is modelled as a rational number, and an arithmetic operation on it as the
  exact operation followed by a rounding, which is a parameter of the definitions that use it. What a
  proof needs of the rounding is one of two facts of IEEE 754: the relative error is at most half a
  unit in the last place, and integers that fit the significand are exact.
\<close>

text \<open>\<open>x as i64\<close> of a number that fits, and \<open>x.round()\<close>: half away from zero.\<close>

definition trunc_rat :: "rat \<Rightarrow> int" where
  "trunc_rat q = (if 0 \<le> q then \<lfloor>q\<rfloor> else \<lceil>q\<rceil>)"

definition round_rat :: "rat \<Rightarrow> int" where
  "round_rat q = (if 0 \<le> q then \<lfloor>q + 1 / 2\<rfloor> else \<lceil>q - 1 / 2\<rceil>)"

definition f32_rounding :: "(rat \<Rightarrow> rat) \<Rightarrow> bool" where
  "f32_rounding rnd \<longleftrightarrow>
     (\<forall>x. 1 / 2 ^ 126 \<le> \<bar>x\<bar> \<longrightarrow> \<bar>x\<bar> \<le> 2 ^ 127 \<longrightarrow> \<bar>rnd x - x\<bar> \<le> \<bar>x\<bar> / 2 ^ 24) \<and>
     (\<forall>k. \<bar>k\<bar> \<le> 2 ^ 24 \<longrightarrow> rnd (of_int k) = of_int k)"

lemma f32_rounding_id: "f32_rounding (\<lambda>x. x)"
  by (simp add: f32_rounding_def)

lemma f32_exact: "f32_rounding rnd \<Longrightarrow> \<bar>k\<bar> \<le> 16777216 \<Longrightarrow> rnd (of_int k) = of_int k"
  by (simp add: f32_rounding_def)

lemma f32_bounds:
  assumes "f32_rounding rnd" and "x = 0 \<or> 1 / 1000 \<le> x \<and> x \<le> 2 ^ 127"
  shows "x - x / 16777216 \<le> rnd x" and "rnd x \<le> x + x / 16777216"
proof -
  have "\<bar>rnd x - x\<bar> \<le> \<bar>x\<bar> / 2 ^ 24"
  proof (cases "x = 0")
    case True
    then show ?thesis using f32_exact [OF assms(1), of 0] by simp
  next
    case False
    then have "1 / 2 ^ 126 \<le> \<bar>x\<bar>" "\<bar>x\<bar> \<le> 2 ^ 127"
      using assms(2) by (auto intro: order_trans [of _ "1 / 1000"])
    then show ?thesis using assms(1) unfolding f32_rounding_def by blast
  qed
  moreover have "\<bar>x\<bar> = x" using assms(2) by auto
  ultimately have "\<bar>rnd x - x\<bar> \<le> x / 16777216" by simp
  then show "x - x / 16777216 \<le> rnd x" and "rnd x \<le> x + x / 16777216"
    unfolding abs_le_iff by linarith+
qed

lemma trunc_rat_of_int [simp]: "trunc_rat (of_int k) = k"
  by (simp add: trunc_rat_def)

end
