(* ===== verification/Child_Planner.thy ===== *)
theory Child_Planner
  imports Numbers Topology_Context "HOL-Library.AList"
begin

section \<open>Placing the nodes of a subnet\<close>

text \<open>
  \<open>ChildNodePlanner\<close> (\<^verbatim>\<open>backend/src/server/topology/service/planner/child_planner.rs\<close>): the nodes of
  a subnet are placed on a grid, each in the free cell nearest to where its edges pull it.

  A finite \<open>f32\<close> is modelled as a rational number, and an arithmetic operation on \<open>f32\<close> as the exact
  operation followed by \<open>rnd\<close>, the rounding to the nearest \<open>f32\<close>, which is a parameter; nothing that is
  proved here depends on it. The \<open>f64\<close> computations of the size of the grid are exact for fewer than
  \<open>2 ^ 52\<close> nodes and are modelled on natural numbers. Hash maps that are iterated are association lists
  in the order of insertion; the order of iteration only affects the order of the results.
\<close>

subsection \<open>Numbers\<close>

definition ceil_sqrt :: "nat \<Rightarrow> nat" where
  "ceil_sqrt n = hd (filter (\<lambda>k. n \<le> k * k) [0..<Suc n])"

definition clamp :: "int \<Rightarrow> int \<Rightarrow> int \<Rightarrow> int" where
  "clamp lo hi x = (if x < lo then lo else if hi < x then hi else x)"

definition Ixy_add :: "Ixy \<Rightarrow> int \<Rightarrow> int \<Rightarrow> Ixy" where
  "Ixy_add p dx dy = \<lparr>ix = ix p + dx, iy = iy p + dy\<rparr>"

subsection \<open>Forces on a node\<close>

definition other_end :: "SubnetChild \<Rightarrow> Edge \<Rightarrow> uuid option" where
  "other_end c e =
     (if sc_interface_id c = Some (edge_source e) then Some (edge_target e)
      else if sc_interface_id c = Some (edge_target e) then Some (edge_source e)
      else None)"

definition child_handle :: "SubnetChild \<Rightarrow> Edge \<Rightarrow> EdgeHandle" where
  "child_handle c e =
     (if sc_interface_id c = Some (edge_source e) then edge_source_handle e else edge_target_handle e)"

definition subnet_of_interface :: "TopologyContext \<Rightarrow> uuid \<Rightarrow> Subnet option" where
  "subnet_of_interface ctx i =
     Option.bind (get_interface_by_id ctx (Some i)) (\<lambda>x. get_subnet_by_id ctx (ib_subnet_id (interface_base x)))"

text \<open>The orders of the subnet whose nodes are placed, by its first child.\<close>

definition current_orders :: "TopologyContext \<Rightarrow> SubnetChild list \<Rightarrow> nat \<times> nat" where
  "current_orders ctx children =
     (case Option.bind (case children of c # _ \<Rightarrow> sc_interface_id c | [] \<Rightarrow> None) (subnet_of_interface ctx) of
        Some s \<Rightarrow>
          (SubnetType_vertical_order (sb_subnet_type (subnet_base s)),
           SubnetType_horizontal_order (sb_subnet_type (subnet_base s)))
      | None \<Rightarrow> (999, 999))"

text \<open>The horizontal and the vertical force that the subnet at the other end of an edge exerts.\<close>

definition subnet_force :: "TopologyContext \<Rightarrow> nat \<times> nat \<Rightarrow> uuid \<Rightarrow> (int \<times> int) option" where
  "subnet_force ctx current other =
     map_option (\<lambda>s.
         (int (SubnetType_horizontal_order (sb_subnet_type (subnet_base s))) - int (snd current),
          int (fst current) - int (SubnetType_vertical_order (sb_subnet_type (subnet_base s)))))
       (subnet_of_interface ctx other)"

definition vm_edges :: "SubnetChild list \<Rightarrow> Edge list" where
  "vm_edges children = filter (\<lambda>e. is_vm_edge (edge_type e)) (concat (map sc_edges children))"

definition vm_to_provider :: "SubnetChild list \<Rightarrow> uuid \<rightharpoonup> uuid" where
  "vm_to_provider children =
     foldl (\<lambda>m e. m(edge_target e \<mapsto> edge_source e)) Map.empty (vm_edges children)"

definition vm_clusters :: "SubnetChild list \<Rightarrow> uuid \<rightharpoonup> uuid list" where
  "vm_clusters children =
     foldl (\<lambda>m e.
       let cluster = (case m (edge_source e) of Some vms \<Rightarrow> vms | None \<Rightarrow> [])
       in m(edge_source e \<mapsto>
            if edge_target e \<in> set cluster then cluster else cluster @ [edge_target e]))
       Map.empty (vm_edges children)"

definition cluster_crosses_infra :: "TopologyContext \<Rightarrow> SubnetChild list \<Rightarrow> uuid \<Rightarrow> bool" where
  "cluster_crosses_infra ctx children provider =
     (case vm_clusters children provider of
        Some vms \<Rightarrow> list_ex (\<lambda>vm. is_interface_infra ctx vm \<noteq> is_interface_infra ctx provider) vms
      | None \<Rightarrow> False)"

definition cluster_edge_force ::
    "TopologyContext \<Rightarrow> nat \<times> nat \<Rightarrow> SubnetChild \<Rightarrow> Ixy \<times> nat \<Rightarrow> Edge \<Rightarrow> Ixy \<times> nat" where
  "cluster_edge_force ctx current child st e =
     (if \<not> edge_is_intra_subnet ctx e \<and> \<not> is_vm_edge (edge_type e) then
        case Option.bind (other_end child e) (subnet_force ctx current) of
          Some (horizontal, vertical) \<Rightarrow> (Ixy_add (fst st) horizontal vertical, Suc (snd st))
        | None \<Rightarrow> st
      else st)"

definition cluster_member_force ::
    "TopologyContext \<Rightarrow> nat \<times> nat \<Rightarrow> SubnetChild list \<Rightarrow> Ixy \<times> nat \<Rightarrow> uuid \<Rightarrow> Ixy \<times> nat" where
  "cluster_member_force ctx current children st i =
     (case find (\<lambda>c. sc_interface_id c = Some i) children of
        Some child \<Rightarrow> foldl (cluster_edge_force ctx current child) st (sc_edges child)
      | None \<Rightarrow> st)"

definition average :: "(rat \<Rightarrow> rat) \<Rightarrow> int \<Rightarrow> nat \<Rightarrow> int" where
  "average rnd force_sum n = trunc_rat (rnd (rnd (of_int force_sum) / rnd (of_nat n)))"

definition cluster_target_position ::
    "(rat \<Rightarrow> rat) \<Rightarrow> TopologyContext \<Rightarrow> nat \<times> nat \<Rightarrow> SubnetChild list \<Rightarrow> uuid \<Rightarrow> Ixy option" where
  "cluster_target_position rnd ctx current children provider =
     (case vm_clusters children provider of
        None \<Rightarrow> None
      | Some vms \<Rightarrow>
          let (force_sum, edge_count) =
                foldl (cluster_member_force ctx current children) (Ixy_default, 0) (provider # vms);
              averaged =
                (if 0 < edge_count
                 then \<lparr>ix = average rnd (ix force_sum) edge_count, iy = average rnd (iy force_sum) edge_count\<rparr>
                 else force_sum)
          in Some (if cluster_crosses_infra ctx children provider then averaged\<lparr>ix := 0\<rparr> else averaged))"

definition weighted :: "(rat \<Rightarrow> rat) \<Rightarrow> int \<Rightarrow> int" where
  "weighted rnd force = trunc_rat (rnd (rnd (of_int force) * 1000))"

record inter_force =
  if_force :: Ixy
  if_horizontal :: bool
  if_vertical :: bool

definition inter_edge_force ::
    "(rat \<Rightarrow> rat) \<Rightarrow> TopologyContext \<Rightarrow> nat \<times> nat \<Rightarrow> SubnetChild \<Rightarrow> inter_force \<Rightarrow> Edge \<Rightarrow> inter_force" where
  "inter_edge_force rnd ctx current c st e =
     (if is_vm_edge (edge_type e) \<or> edge_is_intra_subnet ctx e then st
      else case Option.bind (other_end c e) (subnet_force ctx current) of
             Some (horizontal, vertical) \<Rightarrow>
               if EdgeHandle_is_horizontal (child_handle c e)
               then st\<lparr>if_force := Ixy_add (if_force st) (weighted rnd horizontal) 0, if_horizontal := True\<rparr>
               else st\<lparr>if_force := Ixy_add (if_force st) 0 (weighted rnd vertical), if_vertical := True\<rparr>
           | None \<Rightarrow> st)"

definition child_is_infra :: "TopologyContext \<Rightarrow> SubnetChild \<Rightarrow> bool" where
  "child_is_infra ctx c = (case sc_interface_id c of Some i \<Rightarrow> is_interface_infra ctx i | None \<Rightarrow> False)"

definition vm_force ::
    "TopologyContext \<Rightarrow> SubnetChild list \<Rightarrow> SubnetChild \<Rightarrow> inter_force \<Rightarrow> uuid \<Rightarrow> Ixy option \<Rightarrow> Ixy" where
  "vm_force ctx children c st provider cluster =
     (case cluster of
        Some cluster_pos \<Rightarrow>
          let moved = Ixy_add (if_force st)
                (if \<not> if_horizontal st then ix cluster_pos * 500 else 0)
                (if \<not> if_vertical st then iy cluster_pos * 500 else 0)
          in if \<not> if_horizontal st \<and> cluster_crosses_infra ctx children provider
             then Ixy_add moved (if child_is_infra ctx c then 800 else - 800) 0
             else moved
      | None \<Rightarrow> if_force st)"

definition is_vm_provider :: "SubnetChild \<Rightarrow> bool" where
  "is_vm_provider c =
     list_ex (\<lambda>e. is_vm_edge (edge_type e) \<and> sc_interface_id c = Some (edge_source e)) (sc_edges c)"

definition provider_force ::
    "TopologyContext \<Rightarrow> SubnetChild list \<Rightarrow> SubnetChild \<Rightarrow> inter_force \<Rightarrow> uuid \<Rightarrow> Ixy option \<Rightarrow> Ixy" where
  "provider_force ctx children c st i cluster =
     (case cluster of
        Some cluster_pos \<Rightarrow>
          let moved = Ixy_add (if_force st)
                (if \<not> if_horizontal st then ix cluster_pos * 500 else 0)
                (if \<not> if_vertical st then iy cluster_pos * 500 else 0)
          in if \<not> if_horizontal st \<and> cluster_crosses_infra ctx children i
             then moved\<lparr>ix := 0 + (if child_is_infra ctx c then 500 else - 500)\<rparr>
             else moved
      | None \<Rightarrow> if_force st)"

definition remaining_edge_force ::
    "(rat \<Rightarrow> rat) \<Rightarrow> TopologyContext \<Rightarrow> nat \<times> nat \<Rightarrow> SubnetChild \<Rightarrow> inter_force \<Rightarrow> Ixy \<Rightarrow> Edge \<Rightarrow> Ixy" where
  "remaining_edge_force rnd ctx current c st acc e =
     (if is_vm_edge (edge_type e) then acc
      else case other_end c e of
             None \<Rightarrow> acc
           | Some other \<Rightarrow>
               let is_intra_subnet = edge_is_intra_subnet ctx e;
                   crosses_infra_boundary =
                     (is_intra_subnet \<and> child_is_infra ctx c \<noteq> is_interface_infra ctx other)
               in if crosses_infra_boundary \<and> \<not> if_horizontal st
                  then Ixy_add acc (if child_is_infra ctx c then 50 else - 50) 0
                  else if \<not> is_intra_subnet then
                    (case subnet_force ctx current other of
                       Some (horizontal, vertical) \<Rightarrow>
                         Ixy_add acc (if \<not> if_horizontal st then weighted rnd horizontal else 0)
                           (if \<not> if_vertical st then weighted rnd vertical else 0)
                     | None \<Rightarrow> acc)
                  else acc)"

definition child_force :: "(rat \<Rightarrow> rat) \<Rightarrow> TopologyContext \<Rightarrow> SubnetChild list \<Rightarrow> SubnetChild \<Rightarrow> Ixy" where
  "child_force rnd ctx children c =
     (let current = current_orders ctx children;
          st = foldl (inter_edge_force rnd ctx current c)
                 \<lparr>if_force = Ixy_default, if_horizontal = False, if_vertical = False\<rparr> (sc_edges c)
      in case Option.bind (sc_interface_id c) (vm_to_provider children) of
           Some provider \<Rightarrow>
             vm_force ctx children c st provider (cluster_target_position rnd ctx current children provider)
         | None \<Rightarrow>
             if \<not> if_horizontal st \<or> \<not> if_vertical st then
               (case sc_interface_id c of
                  Some i \<Rightarrow>
                    if is_vm_provider c
                    then provider_force ctx children c st i (cluster_target_position rnd ctx current children i)
                    else let r = foldl (remaining_edge_force rnd ctx current c st) Ixy_default (sc_edges c)
                         in Ixy_add (if_force st) (ix r) (iy r)
                | None \<Rightarrow>
                    let r = foldl (remaining_edge_force rnd ctx current c st) Ixy_default (sc_edges c)
                    in Ixy_add (if_force st) (ix r) (iy r))
             else if_force st)"

subsection \<open>The grid\<close>

type_synonym cell = "nat \<times> nat"

definition normalize :: "(rat \<Rightarrow> rat) \<Rightarrow> int \<Rightarrow> rat \<Rightarrow> rat \<Rightarrow> rat" where
  "normalize rnd v lo hi =
     (if \<bar>rnd (hi - lo)\<bar> < 1 / 2 ^ 23 then 1 / 2
      else rnd (rnd (rnd (of_int v) - lo) / rnd (hi - lo)))"

definition ideal_cell :: "(rat \<Rightarrow> rat) \<Rightarrow> nat \<Rightarrow> nat \<Rightarrow> rat \<times> rat \<Rightarrow> rat \<times> rat \<Rightarrow> Ixy \<Rightarrow> cell" where
  "ideal_cell rnd w h xs ys force =
     (let norm_x = normalize rnd (ix force) (fst xs) (snd xs);
          norm_y = normalize rnd (iy force) (fst ys) (snd ys);
          gx = round_rat (rnd (norm_x * rnd (rnd (of_nat w) - 1)));
          gy = round_rat (rnd (rnd (1 - norm_y) * rnd (rnd (of_nat h) - 1)))
      in (nat (clamp 0 (int w - 1) gx), nat (clamp 0 (int h - 1) gy)))"

definition cells_at_radius :: "nat \<Rightarrow> nat \<Rightarrow> cell \<Rightarrow> nat \<Rightarrow> cell list" where
  "cells_at_radius w h ideal radius =
     concat (map (\<lambda>dy. map (\<lambda>dx.
         (nat (clamp 0 (int w - 1) (int (fst ideal) + dx)), nat (clamp 0 (int h - 1) (int (snd ideal) + dy))))
       [- int radius..int radius]) [- int radius..int radius])"

definition find_slot :: "nat \<Rightarrow> nat \<Rightarrow> (cell \<rightharpoonup> SubnetChild) \<Rightarrow> cell \<Rightarrow> cell option" where
  "find_slot w h grid ideal =
     find (\<lambda>c. grid c = None) (concat (map (cells_at_radius w h ideal) [0..<max w h]))"

definition place_child ::
    "nat \<Rightarrow> nat \<Rightarrow> (SubnetChild \<times> Ixy \<Rightarrow> cell) \<Rightarrow> (cell \<rightharpoonup> SubnetChild) \<Rightarrow> SubnetChild \<times> Ixy
       \<Rightarrow> (cell \<rightharpoonup> SubnetChild)" where
  "place_child w h ideal grid cf =
     (case find_slot w h grid (ideal cf) of
        Some c \<Rightarrow> grid(c \<mapsto> fst cf)
      | None \<Rightarrow> grid)"

definition row_height :: "nat \<Rightarrow> (cell \<rightharpoonup> SubnetChild) \<Rightarrow> nat \<Rightarrow> nat" where
  "row_height w grid row =
     fold max (map (\<lambda>col. case grid (col, row) of Some c \<Rightarrow> uy (sc_size c) | None \<Rightarrow> 0) [0..<w]) 0"

definition col_width :: "nat \<Rightarrow> (cell \<rightharpoonup> SubnetChild) \<Rightarrow> nat \<Rightarrow> nat" where
  "col_width h grid col =
     fold max (map (\<lambda>row. case grid (col, row) of Some c \<Rightarrow> ux (sc_size c) | None \<Rightarrow> 0) [0..<h]) 0"

fun cumulative :: "int \<Rightarrow> nat \<Rightarrow> nat list \<Rightarrow> int list" where
  "cumulative cur padding [] = []"
| "cumulative cur padding (w # ws) = cur # cumulative (cur + int w + int padding) padding ws"

definition grid_layout :: "nat \<Rightarrow> nat \<Rightarrow> Uxy \<Rightarrow> (cell \<rightharpoonup> SubnetChild) \<Rightarrow> (uuid \<times> NodeLayout) list" where
  "grid_layout w h padding grid =
     (let ys = cumulative (int (uy padding)) (uy padding) (map (row_height w grid) [0..<h]);
          xs = cumulative (int (ux padding)) (ux padding) (map (col_width h grid) [0..<w])
      in foldl (\<lambda>result (col, row).
           case grid (col, row) of
             Some child \<Rightarrow>
               AList.update (sc_id child)
                 \<lparr>nl_size = sc_size child, nl_position = \<lparr>ix = xs ! col, iy = ys ! row\<rparr>\<rparr> result
           | None \<Rightarrow> result) [] (concat (map (\<lambda>row. map (\<lambda>col. (col, row)) [0..<w]) [0..<h])))"

definition placement_order :: "(SubnetChild \<times> Ixy) list \<Rightarrow> (SubnetChild \<times> Ixy) list" where
  "placement_order cfs =
     sort_key (\<lambda>(c, f). if is_vm_provider c then 0 else 1 :: nat)
       (sort_key (\<lambda>(c, f). - max \<bar>ix f\<bar> \<bar>iy f\<bar>) cfs)"

definition extremes :: "(rat \<Rightarrow> rat) \<Rightarrow> int list \<Rightarrow> rat \<times> rat" where
  "extremes rnd vs =
     (case map (\<lambda>v. rnd (of_int v)) vs of
        [] \<Rightarrow> (0, 0)
      | r # rs \<Rightarrow> (fold min rs r, fold max rs r))"

definition grid_dimensions :: "nat \<Rightarrow> nat \<times> nat" where
  "grid_dimensions n =
     (let w = max (ceil_sqrt n) 1 in (w, max ((n + w - 1) div w) 1))"

definition calculate_anchor_based_positions ::
    "(rat \<Rightarrow> rat) \<Rightarrow> SubnetChild list \<Rightarrow> Uxy \<Rightarrow> TopologyContext \<Rightarrow> (uuid \<times> NodeLayout) list" where
  "calculate_anchor_based_positions rnd children padding ctx =
     (if children = [] then []
      else
        let (grid_w, grid_h) = grid_dimensions (length children);
            force_directed_children = map (\<lambda>c. (c, child_force rnd ctx children c)) children;
            xs = extremes rnd (map (\<lambda>(_, f). ix f) force_directed_children);
            ys = extremes rnd (map (\<lambda>(_, f). iy f) force_directed_children);
            grid = foldl (place_child grid_w grid_h (\<lambda>(_, f). ideal_cell rnd grid_w grid_h xs ys f)) Map.empty
                     (placement_order force_directed_children)
        in grid_layout grid_w grid_h padding grid)"

subsection \<open>Every node gets a cell\<close>

lemma ceil_sqrt_square: "n \<le> ceil_sqrt n * ceil_sqrt n"
proof -
  have "n \<in> set (filter (\<lambda>k. n \<le> k * k) [0..<Suc n])" by simp
  then have "hd (filter (\<lambda>k. n \<le> k * k) [0..<Suc n]) \<in> set (filter (\<lambda>k. n \<le> k * k) [0..<Suc n])"
    by (metis hd_in_set length_pos_if_in_set length_0_conv less_irrefl)
  then show ?thesis unfolding ceil_sqrt_def set_filter by blast
qed

lemma grid_dimensions_fit:
  assumes "grid_dimensions n = (w, h)"
  shows "0 < w" "0 < h" "n \<le> w * h"
proof -
  have w: "w = max (ceil_sqrt n) 1" and h: "h = max ((n + w - 1) div w) 1"
    using assms by (auto simp: grid_dimensions_def Let_def)
  show "0 < w" "0 < h" using w h by auto
  have "n \<le> w * ((n + w - 1) div w)"
  proof -
    have "w * ((n + w - 1) div w) + (n + w - 1) mod w = n + w - 1" by simp
    moreover have "(n + w - 1) mod w < w" using \<open>0 < w\<close> by simp
    ultimately show ?thesis using \<open>0 < w\<close> by linarith
  qed
  also have "\<dots> \<le> w * h" unfolding h by (rule mult_le_mono2) simp
  finally show "n \<le> w * h" .
qed

lemma clamp_id: "0 \<le> x \<Longrightarrow> x \<le> hi \<Longrightarrow> clamp 0 hi x = x"
  by (simp add: clamp_def)

lemma clamp_range: "0 \<le> hi \<Longrightarrow> 0 \<le> clamp 0 hi x \<and> clamp 0 hi x \<le> hi"
  by (simp add: clamp_def)

lemma cells_at_radius_inside:
  "0 < w \<Longrightarrow> 0 < h \<Longrightarrow> set (cells_at_radius w h ideal r) \<subseteq> {..<w} \<times> {..<h}"
  by (auto simp: cells_at_radius_def clamp_def)

lemma cells_at_radius_cover:
  assumes "fst ideal < w" "snd ideal < h" "c \<in> {..<w} \<times> {..<h}"
  shows "\<exists>r < max w h. c \<in> set (cells_at_radius w h ideal r)"
proof -
  obtain x y where c: "c = (x, y)" "x < w" "y < h" using assms(3) by auto
  define dx dy where "dx = int x - int (fst ideal)" and "dy = int y - int (snd ideal)"
  define r where "r = nat (max \<bar>dx\<bar> \<bar>dy\<bar>)"
  have "r < max w h" using assms(1,2) c by (auto simp: r_def dx_def dy_def)
  moreover have "dx \<in> {- int r..int r}" "dy \<in> {- int r..int r}" by (auto simp: r_def)
  moreover have "clamp 0 (int w - 1) (int (fst ideal) + dx) = int x" "clamp 0 (int h - 1) (int (snd ideal) + dy) = int y"
    using c by (simp_all add: dx_def dy_def clamp_def)
  ultimately show ?thesis unfolding c cells_at_radius_def by (intro exI [of _ r]) force
qed

lemma find_slot_free:
  assumes "0 < w" "0 < h" "find_slot w h grid ideal = Some c"
  shows "c \<in> {..<w} \<times> {..<h}" "grid c = None"
  using assms(3) subsetD [OF cells_at_radius_inside [OF assms(1,2), of ideal], of c]
  by (auto simp: find_slot_def simp del: mem_Sigma_iff dest!: find_memberD)

lemma find_slot_found:
  assumes "fst ideal < w" "snd ideal < h" "finite (dom grid)" "card (dom grid) < w * h"
  shows "\<exists>c. find_slot w h grid ideal = Some c"
proof -
  have "\<not> {..<w} \<times> {..<h} \<subseteq> dom grid"
    using card_mono [OF assms(3), of "{..<w} \<times> {..<h}"] assms(4) by (auto simp: card_cartesian_product)
  then obtain c where c: "c \<in> {..<w} \<times> {..<h}" "grid c = None" by auto
  then obtain r where "r < max w h" "c \<in> set (cells_at_radius w h ideal r)"
    using cells_at_radius_cover [OF assms(1,2)] by blast
  then have "c \<in> set (concat (map (cells_at_radius w h ideal) [0..<max w h]))" by auto
  with c(2) show ?thesis unfolding find_slot_def by (intro find_memI)
qed

text \<open>A grid holds the children placed so far, each in one cell.\<close>

definition holds :: "nat \<Rightarrow> nat \<Rightarrow> (cell \<rightharpoonup> SubnetChild) \<Rightarrow> SubnetChild list \<Rightarrow> bool" where
  "holds w h grid cs \<longleftrightarrow>
     dom grid \<subseteq> {..<w} \<times> {..<h} \<and> ran grid = set cs \<and> card (dom grid) = length cs \<and>
     (\<forall>a b c. grid a = Some c \<longrightarrow> grid b = Some c \<longrightarrow> a = b)"

lemma holds_update:
  assumes g: "holds w h g cs" and c: "c \<in> {..<w} \<times> {..<h}" "g c = None" and new: "x \<notin> set cs"
  shows "holds w h (g(c \<mapsto> x)) (cs @ [x])"
proof -
  have ran: "ran g = set cs" using g by (simp add: holds_def)
  have inj: "a = b" if "g a = Some y" "g b = Some y" for a b y
    using g that unfolding holds_def by blast
  have other: "g z \<noteq> Some x" for z
    using new ranI [of g z x] unfolding ran by blast
  have fin: "finite (dom g)"
    using g finite_subset [of "dom g" "{..<w} \<times> {..<h}"] by (simp add: holds_def)
  have "card (dom g) = length cs" using g by (simp add: holds_def)
  then have "card (dom (g(c \<mapsto> x))) = length (cs @ [x])" using fin c(2) by (simp add: domIff)
  moreover have "ran (g(c \<mapsto> x)) = set (cs @ [x])" using c(2) ran by (simp add: ran_map_upd)
  moreover have "a = b" if "(g(c \<mapsto> x)) a = Some y" "(g(c \<mapsto> x)) b = Some y" for a b y
  proof (cases "y = x")
    case True
    with that other [of a] other [of b] show ?thesis by (simp split: if_splits)
  next
    case False
    with that inj [of a y b] show ?thesis by (simp split: if_splits)
  qed
  moreover have "dom (g(c \<mapsto> x)) \<subseteq> {..<w} \<times> {..<h}" using g c(1) by (simp add: holds_def)
  ultimately show ?thesis unfolding holds_def by blast
qed

lemma place_children_hold:
  assumes "0 < w" "0 < h" "\<And>cf. fst (ideal cf) < w \<and> snd (ideal cf) < h"
    and "length cfs \<le> w * h" "distinct (map fst cfs)"
  shows "holds w h (foldl (place_child w h ideal) Map.empty cfs) (map fst cfs)"
  using assms(4,5)
proof (induction cfs rule: rev_induct)
  case Nil
  then show ?case by (simp add: holds_def)
next
  case (snoc cf cfs)
  let ?g = "foldl (place_child w h ideal) Map.empty cfs"
  have g: "holds w h ?g (map fst cfs)" by (rule snoc.IH) (use snoc.prems in auto)
  have "finite (dom ?g)"
    using g finite_subset [of "dom ?g" "{..<w} \<times> {..<h}"] by (simp add: holds_def)
  moreover have "card (dom ?g) < w * h" using g snoc.prems by (simp add: holds_def)
  ultimately obtain c where c: "find_slot w h ?g (ideal cf) = Some c"
    using find_slot_found assms(3) by blast
  have "holds w h (?g(c \<mapsto> fst cf)) (map fst cfs @ [fst cf])"
    by (rule holds_update [OF g find_slot_free [OF assms(1,2) c]]) (use snoc.prems(2) in simp)
  moreover have "place_child w h ideal ?g cf = ?g(c \<mapsto> fst cf)"
    unfolding place_child_def [of w h ideal ?g cf] c by simp
  ultimately show ?case by (simp only: foldl_append foldl.simps map_append list.map)
qed

subsection \<open>Nodes in different cells are apart\<close>

lemma update_new: "k \<notin> fst ` set al \<Longrightarrow> AList.update k v al = al @ [(k, v)]"
  by (induction al) auto

lemma map_filter_snoc:
  "List.map_filter f (xs @ [x]) = List.map_filter f xs @ (case f x of Some y \<Rightarrow> [y] | None \<Rightarrow> [])"
  by (simp add: List.map_filter_def split: option.split)

lemma foldl_update_distinct:
  assumes "distinct (map fst (List.map_filter f cs))"
  shows "foldl (\<lambda>r c. case f c of Some (k, v) \<Rightarrow> AList.update k v r | None \<Rightarrow> r) [] cs = List.map_filter f cs"
  using assms
proof (induction cs rule: rev_induct)
  case (snoc c cs)
  show ?case
  proof (cases "f c")
    case None
    with snoc show ?thesis by (simp add: map_filter_snoc)
  next
    case (Some kv)
    obtain k v where kv: "kv = (k, v)" by (cases kv)
    then have "k \<notin> fst ` set (List.map_filter f cs)" and "distinct (map fst (List.map_filter f cs))"
      using snoc.prems Some by (simp_all add: map_filter_snoc)
    with snoc.IH Some kv show ?thesis by (simp add: map_filter_snoc update_new)
  qed
qed (simp add: List.map_filter_def)

lemma distinct_map_filter_keys:
  assumes "distinct xs"
    and "\<And>x y k. x \<in> set xs \<Longrightarrow> y \<in> set xs \<Longrightarrow> map_option fst (f x) = Some k \<Longrightarrow> map_option fst (f y) = Some k \<Longrightarrow> x = y"
  shows "distinct (map fst (List.map_filter f xs))"
  using assms
proof (induction xs rule: rev_induct)
  case (snoc x xs)
  have IH: "distinct (map fst (List.map_filter f xs))"
    by (rule snoc.IH) (use snoc.prems in auto)
  show ?case
  proof (cases "f x")
    case (Some kv)
    have "fst kv \<notin> fst ` set (List.map_filter f xs)"
    proof
      assume "fst kv \<in> fst ` set (List.map_filter f xs)"
      then obtain y l where "y \<in> set xs" "f y = Some l" "fst l = fst kv" by (auto simp: set_map_filter)
      then have "y = x" using snoc.prems(2) [of y x "fst kv"] Some by simp
      with \<open>y \<in> set xs\<close> snoc.prems(1) show False by simp
    qed
    with IH Some show ?thesis by (simp add: map_filter_snoc)
  qed (simp add: map_filter_snoc IH)
qed (simp add: List.map_filter_def)

lemma distinct_cells: "distinct (concat (map (\<lambda>row. map (\<lambda>col. (col, row)) [0..<w]) [0..<h]))"
  by (induction h) (auto simp: distinct_map inj_on_def)

lemma cumulative_length [simp]: "length (cumulative cur p ws) = length ws"
  by (induction ws arbitrary: cur) auto

lemma cumulative_ge: "i < length ws \<Longrightarrow> cur \<le> cumulative cur p ws ! i"
proof (induction ws arbitrary: cur i)
  case (Cons w ws)
  show ?case
  proof (cases i)
    case (Suc k)
    then show ?thesis using Cons.IH [of k "cur + int w + int p"] Cons.prems by simp
  qed simp
qed simp

lemma cumulative_apart:
  "i < j \<Longrightarrow> j < length ws \<Longrightarrow> cumulative cur p ws ! i + int (ws ! i) + int p \<le> cumulative cur p ws ! j"
proof (induction ws arbitrary: cur i j)
  case (Cons w ws)
  then obtain k where j: "j = Suc k" "k < length ws" by (cases j) auto
  show ?case
  proof (cases i)
    case 0
    with cumulative_ge [OF j(2), of "cur + int w + int p" p] show ?thesis by (simp add: j)
  next
    case (Suc l)
    then show ?thesis using Cons.IH [of l k "cur + int w + int p"] Cons.prems j by simp
  qed
qed simp

lemma fold_max_ge: "(\<forall>x \<in> set xs. x \<le> fold max xs (m :: nat)) \<and> m \<le> fold max xs m"
proof (induction xs arbitrary: m)
  case (Cons x xs)
  from Cons [of "max x m"] show ?case by auto
qed simp

lemma row_height_ge: "grid (col, row) = Some c \<Longrightarrow> col < w \<Longrightarrow> uy (sc_size c) \<le> row_height w grid row"
  using fold_max_ge [of "map (\<lambda>col. case grid (col, row) of Some c \<Rightarrow> uy (sc_size c) | None \<Rightarrow> 0) [0..<w]" 0]
  by (force simp: row_height_def)

lemma col_width_ge: "grid (col, row) = Some c \<Longrightarrow> row < h \<Longrightarrow> ux (sc_size c) \<le> col_width h grid col"
  using fold_max_ge [of "map (\<lambda>row. case grid (col, row) of Some c \<Rightarrow> ux (sc_size c) | None \<Rightarrow> 0) [0..<h]" 0]
  by (force simp: col_width_def)

text \<open>Two nodes are in different columns with at least the padding between them, or in the same column
  with at least the padding between them.\<close>

definition apart_x :: "Uxy \<Rightarrow> NodeLayout \<Rightarrow> NodeLayout \<Rightarrow> bool" where
  "apart_x padding a b \<longleftrightarrow>
     ix (nl_position a) + int (ux (nl_size a)) + int (ux padding) \<le> ix (nl_position b) \<or>
     ix (nl_position b) + int (ux (nl_size b)) + int (ux padding) \<le> ix (nl_position a)"

definition apart_y :: "Uxy \<Rightarrow> NodeLayout \<Rightarrow> NodeLayout \<Rightarrow> bool" where
  "apart_y padding a b \<longleftrightarrow>
     iy (nl_position a) + int (uy (nl_size a)) + int (uy padding) \<le> iy (nl_position b) \<or>
     iy (nl_position b) + int (uy (nl_size b)) + int (uy padding) \<le> iy (nl_position a)"

definition layouts_apart :: "Uxy \<Rightarrow> NodeLayout \<Rightarrow> NodeLayout \<Rightarrow> bool" where
  "layouts_apart padding a b \<longleftrightarrow>
     apart_x padding a b \<or> ix (nl_position a) = ix (nl_position b) \<and> apart_y padding a b"

definition cell_layout :: "nat \<Rightarrow> nat \<Rightarrow> Uxy \<Rightarrow> (cell \<rightharpoonup> SubnetChild) \<Rightarrow> cell \<Rightarrow> SubnetChild \<Rightarrow> NodeLayout" where
  "cell_layout w h padding grid cell c =
     \<lparr>nl_size = sc_size c,
      nl_position =
        \<lparr>ix = cumulative (int (ux padding)) (ux padding) (map (col_width h grid) [0..<w]) ! fst cell,
         iy = cumulative (int (uy padding)) (uy padding) (map (row_height w grid) [0..<h]) ! snd cell\<rparr>\<rparr>"

lemma cell_layouts_apart:
  assumes "grid a = Some c" "grid b = Some d" "a \<noteq> b" "a \<in> {..<w} \<times> {..<h}" "b \<in> {..<w} \<times> {..<h}"
  shows "layouts_apart padding (cell_layout w h padding grid a c) (cell_layout w h padding grid b d)"
proof -
  obtain ax ay bx b_y where ab: "a = (ax, ay)" "b = (bx, b_y)" by (cases a, cases b)
  have widths: "ux (sc_size c) \<le> col_width h grid ax" "ux (sc_size d) \<le> col_width h grid bx"
    and heights: "uy (sc_size c) \<le> row_height w grid ay" "uy (sc_size d) \<le> row_height w grid b_y"
    using assms col_width_ge row_height_ge unfolding ab by auto
  have x: "cumulative p q (map (col_width h grid) [0..<w]) ! i + int (col_width h grid i) + int q \<le>
      cumulative p q (map (col_width h grid) [0..<w]) ! j" if "i < j" "j < w" for i j p q
    using cumulative_apart [of i j "map (col_width h grid) [0..<w]" p q] that by simp
  have y: "cumulative p q (map (row_height w grid) [0..<h]) ! i + int (row_height w grid i) + int q \<le>
      cumulative p q (map (row_height w grid) [0..<h]) ! j" if "i < j" "j < h" for i j p q
    using cumulative_apart [of i j "map (row_height w grid) [0..<h]" p q] that by simp
  consider "ax < bx" "bx < w" | "bx < ax" "ax < w" | "ay < b_y" "b_y < h" "ax = bx" | "b_y < ay" "ay < h" "ax = bx"
    using assms(3-5) ab nat_neq_iff [of ax bx] nat_neq_iff [of ay b_y] by auto
  then show ?thesis
  proof cases
    case 1
    from x [OF 1, of "int (ux padding)" "ux padding"] widths show ?thesis
      by (simp add: layouts_apart_def apart_x_def apart_y_def cell_layout_def ab)
  next
    case 2
    from x [OF 2, of "int (ux padding)" "ux padding"] widths show ?thesis
      by (simp add: layouts_apart_def apart_x_def apart_y_def cell_layout_def ab)
  next
    case 3
    from 3(3) y [OF 3(1,2), of "int (uy padding)" "uy padding"] heights show ?thesis
      by (simp add: layouts_apart_def apart_x_def apart_y_def cell_layout_def ab)
  next
    case 4
    from 4(3) y [OF 4(1,2), of "int (uy padding)" "uy padding"] heights show ?thesis
      by (simp add: layouts_apart_def apart_x_def apart_y_def cell_layout_def ab)
  qed
qed

lemma grid_layout_cells:
  assumes g: "holds w h grid cs" and ids: "distinct (map sc_id cs)"
  shows "distinct (map fst (grid_layout w h padding grid))"
    and "set (grid_layout w h padding grid) = {(sc_id c, cell_layout w h padding grid cell c) | cell c. grid cell = Some c}"
proof -
  let ?f = "\<lambda>cell. map_option (\<lambda>c. (sc_id c, cell_layout w h padding grid cell c)) (grid cell)"
  let ?cells = "concat (map (\<lambda>row. map (\<lambda>col. (col, row)) [0..<w]) [0..<h])"
  have cells: "set ?cells = {..<w} \<times> {..<h}" by auto
  then have dom: "dom grid \<subseteq> set ?cells" and ran: "ran grid = set cs" using g by (simp_all add: holds_def)
  have one: "a = b" if "grid a = Some y" "grid b = Some y" for a b y
    using g that unfolding holds_def by blast
  have keys: "a = b" if ab: "map_option fst (?f a) = Some k" "map_option fst (?f b) = Some k" for a b k
  proof -
    obtain c d where cd: "grid a = Some c" "grid b = Some d" using ab by auto
    then have "sc_id c = sc_id d" "c \<in> set cs" "d \<in> set cs" using ab ran by (auto intro: ranI)
    then have "c = d" using ids by (metis distinct_map inj_onD)
    with one cd show ?thesis by blast
  qed
  have dist: "distinct (map fst (List.map_filter ?f ?cells))"
    by (rule distinct_map_filter_keys [OF distinct_cells]) (rule keys)
  have eq: "grid_layout w h padding grid = List.map_filter ?f ?cells"
  proof -
    have "grid_layout w h padding grid =
        foldl (\<lambda>r c. case ?f c of Some (k, v) \<Rightarrow> AList.update k v r | None \<Rightarrow> r) [] ?cells"
      unfolding grid_layout_def Let_def
      by (rule foldl_cong) (auto simp: cell_layout_def split: option.split)
    then show ?thesis using foldl_update_distinct [OF dist] by simp
  qed
  show "distinct (map fst (grid_layout w h padding grid))" using dist eq by simp
  show "set (grid_layout w h padding grid) = {(sc_id c, cell_layout w h padding grid cell c) | cell c. grid cell = Some c}"
    unfolding eq set_map_filter using dom by (auto simp del: set_concat)
qed


lemma cell_layout_start:
  assumes "cell \<in> {..<w} \<times> {..<h}"
  shows "int (ux padding) \<le> ix (nl_position (cell_layout w h padding grid cell c))"
    and "int (uy padding) \<le> iy (nl_position (cell_layout w h padding grid cell c))"
  using assms
    cumulative_ge [of "fst cell" "map (col_width h grid) [0..<w]" "int (ux padding)" "ux padding"]
    cumulative_ge [of "snd cell" "map (row_height w grid) [0..<h]" "int (uy padding)" "uy padding"]
  by (auto simp: cell_layout_def)

text \<open>The layout of a list of nodes: every node is placed, once, at its own size and at or after the
  padding, and any two nodes are apart.\<close>

definition placed_apart :: "Uxy \<Rightarrow> SubnetChild list \<Rightarrow> (uuid \<times> NodeLayout) list \<Rightarrow> bool" where
  "placed_apart padding children layouts \<longleftrightarrow>
     distinct (map fst layouts) \<and> fst ` set layouts = sc_id ` set children \<and>
     (\<forall>il \<in> set layouts. \<exists>c \<in> set children. sc_id c = fst il \<and> nl_size (snd il) = sc_size c \<and>
        int (ux padding) \<le> ix (nl_position (snd il)) \<and> int (uy padding) \<le> iy (nl_position (snd il))) \<and>
     (\<forall>a \<in> set layouts. \<forall>b \<in> set layouts. fst a \<noteq> fst b \<longrightarrow> layouts_apart padding (snd a) (snd b))"

lemma grid_layout_apart:
  assumes g: "holds w h grid cs" and ids: "distinct (map sc_id cs)"
  shows "placed_apart padding cs (grid_layout w h padding grid)"
proof -
  note cells = grid_layout_cells [OF assms, of padding]
  have dom: "dom grid \<subseteq> {..<w} \<times> {..<h}" and ran: "ran grid = set cs" using g by (simp_all add: holds_def)
  have "fst ` set (grid_layout w h padding grid) = sc_id ` ran grid"
    unfolding cells(2) by (force simp: ran_def image_def)
  moreover have "\<exists>c \<in> set cs. sc_id c = fst il \<and> nl_size (snd il) = sc_size c \<and>
        int (ux padding) \<le> ix (nl_position (snd il)) \<and> int (uy padding) \<le> iy (nl_position (snd il))"
    if il_in: "il \<in> set (grid_layout w h padding grid)" for il
  proof -
    obtain cell c where il: "il = (sc_id c, cell_layout w h padding grid cell c)" "grid cell = Some c"
      using il_in unfolding cells(2) by blast
    then have "c \<in> set cs" "cell \<in> {..<w} \<times> {..<h}" using ran dom by (auto intro: ranI)
    with il cell_layout_start [of cell w h padding grid c] show ?thesis
      by (intro bexI [of _ c]) (simp_all add: cell_layout_def)
  qed
  moreover have "layouts_apart padding (snd a) (snd b)"
    if ab: "a \<in> set (grid_layout w h padding grid)" "b \<in> set (grid_layout w h padding grid)" "fst a \<noteq> fst b" for a b
  proof -
    obtain p c q d where *: "a = (sc_id c, cell_layout w h padding grid p c)" "grid p = Some c"
      "b = (sc_id d, cell_layout w h padding grid q d)" "grid q = Some d"
      using ab(1,2) unfolding cells(2) by blast
    then have "p \<noteq> q" using ab(3) by auto
    moreover have "p \<in> {..<w} \<times> {..<h}" "q \<in> {..<w} \<times> {..<h}" using * dom by auto
    ultimately show ?thesis using cell_layouts_apart [OF *(2,4)] * by simp
  qed
  ultimately show ?thesis using cells(1) ran unfolding placed_apart_def by simp
qed

lemma placed_apart_cong: "set cs = set cs' \<Longrightarrow> placed_apart padding cs ls = placed_apart padding cs' ls"
  by (simp add: placed_apart_def)

lemma ideal_cell_inside:
  "0 < w \<Longrightarrow> 0 < h \<Longrightarrow> fst (ideal_cell rnd w h xs ys f) < w \<and> snd (ideal_cell rnd w h xs ys f) < h"
  by (auto simp: ideal_cell_def Let_def clamp_def)

lemma placement_order_perm: "mset (placement_order cfs) = mset cfs"
  by (simp add: placement_order_def)

text \<open>Every node of a subnet is placed, once, at its own size, and any two nodes are at least the
  padding apart: the search always finds a free cell of the grid, whatever forces the edges exert and
  however they are rounded.\<close>

lemma children_placed_apart:
  assumes "distinct (map sc_id children)"
  shows "placed_apart padding children (calculate_anchor_based_positions rnd children padding ctx)"
proof (cases "children = []")
  case True
  then show ?thesis by (simp add: calculate_anchor_based_positions_def placed_apart_def)
next
  case False
  obtain w h where wh: "grid_dimensions (length children) = (w, h)" by (cases "grid_dimensions (length children)")
  note fit = grid_dimensions_fit [OF wh]
  let ?cfs = "map (\<lambda>c. (c, child_force rnd ctx children c)) children"
  let ?xs = "extremes rnd (map (\<lambda>(_, f). ix f) ?cfs)" and ?ys = "extremes rnd (map (\<lambda>(_, f). iy f) ?cfs)"
  let ?ideal = "\<lambda>(_, f). ideal_cell rnd w h ?xs ?ys f"
  let ?grid = "foldl (place_child w h ?ideal) Map.empty (placement_order ?cfs)"
  have perm: "mset (map fst (placement_order ?cfs)) = mset children"
    by (simp only: mset_map placement_order_perm) (simp flip: mset_map add: comp_def)
  then have same: "set (map fst (placement_order ?cfs)) = set children" by (metis mset_eq_setD)
  have "mset (map sc_id (map fst (placement_order ?cfs))) = mset (map sc_id children)"
    using perm by (metis mset_map)
  with assms have ids: "distinct (map sc_id (map fst (placement_order ?cfs)))"
    using mset_eq_imp_distinct_iff by blast
  have "holds w h ?grid (map fst (placement_order ?cfs))"
  proof (rule place_children_hold)
    show "length (placement_order ?cfs) \<le> w * h" using fit(3) by (simp add: placement_order_def)
    show "distinct (map fst (placement_order ?cfs))" using ids by (simp only: distinct_map [of sc_id])
  qed (use fit ideal_cell_inside in \<open>auto split: prod.split\<close>)
  from grid_layout_apart [OF this ids, of padding] have "placed_apart padding children (grid_layout w h padding ?grid)"
    using placed_apart_cong [OF same] by simp
  then show ?thesis using False by (simp add: calculate_anchor_based_positions_def wh)
qed

end
