(* ===== verification/Subnet_Planner.thy ===== *)
theory Subnet_Planner
  imports Child_Planner "HOL-Library.Char_ord" "HOL-Library.List_Lexorder"
begin

section \<open>Planning subnets\<close>

text \<open>
  \<open>PlannerUtils\<close>, \<open>ChildAnchorPlanner\<close> and \<open>SubnetLayoutPlanner\<close>
  (\<^verbatim>\<open>backend/src/server/topology/service/planner/utils.rs\<close>, \<^verbatim>\<open>anchor_planner.rs\<close>,
  \<^verbatim>\<open>subnet_layout_planner.rs\<close>): the handles of edges between subnets, the nodes of the interfaces,
  grouped by subnet and split into the infrastructure zone and the rest, and the subnets in rows.
\<close>

subsection \<open>Container sizes\<close>

text \<open>The conversions to \<open>usize\<close> are exact: positions are not negative.\<close>

definition calculate_container_size_from_layouts :: "(uuid \<times> NodeLayout) list \<Rightarrow> Uxy \<Rightarrow> Uxy" where
  "calculate_container_size_from_layouts layouts padding =
     (if layouts = [] then \<lparr>ux = ux padding * 2, uy = uy padding * 2\<rparr>
      else
        \<lparr>ux = fold max (map (\<lambda>(_, l). nat (ix (nl_position l) + int (ux (nl_size l)) + int (ux padding))) layouts) 0,
         uy = fold max (map (\<lambda>(_, l). nat (iy (nl_position l) + int (uy (nl_size l)) + int (uy padding))) layouts) 0\<rparr>)"

record row_state =
  rs_positions :: "(uuid \<times> Ixy) list"
  rs_x :: nat
  rs_y :: nat
  rs_height :: nat

definition place_in_row :: "Uxy \<Rightarrow> row_state \<Rightarrow> uuid \<times> NodeLayout \<Rightarrow> row_state" where
  "place_in_row padding st il =
     st\<lparr>rs_positions := AList.update (fst il) \<lparr>ix = int (rs_x st), iy = int (rs_y st)\<rparr> (rs_positions st),
        rs_x := rs_x st + (ux (nl_size (snd il)) + ux padding),
        rs_height := max (rs_height st) (uy (nl_size (snd il)))\<rparr>"

record container_state =
  cs_positions :: "(uuid \<times> Ixy) list"
  cs_y :: nat
  cs_max_x :: nat
  cs_max_y :: nat

definition place_row :: "Uxy \<Rightarrow> container_state \<Rightarrow> (uuid \<times> NodeLayout) list \<Rightarrow> container_state" where
  "place_row padding st row =
     (if row = [] then st
      else
        let r = foldl (place_in_row padding)
                  \<lparr>rs_positions = cs_positions st, rs_x = ux padding, rs_y = cs_y st, rs_height = 0\<rparr> row;
            current_y = cs_y st + (rs_height r + uy padding)
        in \<lparr>cs_positions = rs_positions r, cs_y = current_y, cs_max_x = max (cs_max_x st) (rs_x r),
            cs_max_y = max (cs_max_y st) current_y\<rparr>)"

definition calculate_container_size ::
    "(uuid \<times> NodeLayout) list list \<Rightarrow> Uxy \<Rightarrow> (uuid \<times> Ixy) list \<times> Uxy" where
  "calculate_container_size rows padding =
     (let st = foldl (place_row padding) \<lparr>cs_positions = [], cs_y = uy padding, cs_max_x = 0, cs_max_y = 0\<rparr> rows
      in (cs_positions st, \<lparr>ux = cs_max_x st, uy = cs_max_y st\<rparr>))"

subsection \<open>Anchors\<close>

definition touches :: "uuid \<Rightarrow> Edge \<Rightarrow> bool" where
  "touches i e \<longleftrightarrow> edge_source e = i \<or> edge_target e = i"

definition relevant_handle :: "uuid \<Rightarrow> Edge \<Rightarrow> EdgeHandle" where
  "relevant_handle i e = (if edge_source e = i then edge_source_handle e else edge_target_handle e)"

definition leaves_subnet :: "TopologyContext \<Rightarrow> uuid \<Rightarrow> Edge \<Rightarrow> bool" where
  "leaves_subnet ctx i e \<longleftrightarrow>
     touches i e \<and>
     map_option subnet_id (get_subnet_from_interface_id ctx i) \<noteq>
     map_option subnet_id (get_subnet_from_interface_id ctx
       (if edge_source e = i then edge_target e else edge_source e))"

definition would_vertical_edges_cross_middle :: "uuid \<Rightarrow> Edge list \<Rightarrow> TopologyContext \<Rightarrow> bool" where
  "would_vertical_edges_cross_middle i edges ctx \<longleftrightarrow>
     list_ex (\<lambda>e. leaves_subnet ctx i e \<and> relevant_handle i e = EdgeHandle_Top) edges \<and>
     list_ex (\<lambda>e. leaves_subnet ctx i e \<and> relevant_handle i e = EdgeHandle_Bottom) edges"

definition would_horizontal_edges_cross_middle :: "uuid \<Rightarrow> Edge list \<Rightarrow> TopologyContext \<Rightarrow> bool" where
  "would_horizontal_edges_cross_middle i edges ctx \<longleftrightarrow>
     list_ex (\<lambda>e. leaves_subnet ctx i e \<and> relevant_handle i e = EdgeHandle_Left) edges \<and>
     list_ex (\<lambda>e. leaves_subnet ctx i e \<and> relevant_handle i e = EdgeHandle_Right) edges"

text \<open>\<open>handles\<close> lists the handles of the edges to other subnets, \<open>handle_counts\<close> of the source
  counts them.\<close>

definition determine_override_handle ::
    "EdgeHandle list \<Rightarrow> bool \<Rightarrow> uuid \<Rightarrow> Edge list \<Rightarrow> TopologyContext \<Rightarrow> EdgeHandle option" where
  "determine_override_handle handles is_infra i edges ctx =
     (if handles = [] then None
      else
        let top_count = count_list handles EdgeHandle_Top;
            bottom_count = count_list handles EdgeHandle_Bottom;
            left_count = count_list handles EdgeHandle_Left;
            right_count = count_list handles EdgeHandle_Right;
            has_opposing_vertical = (0 < top_count \<and> 0 < bottom_count);
            has_opposing_horizontal = (0 < left_count \<and> 0 < right_count);
            subnet_node_count =
              (case get_subnet_from_interface_id ctx i of
                 Some subnet \<Rightarrow>
                   length (filter (\<lambda>x. ib_subnet_id (interface_base x) = subnet_id subnet) (cx_interfaces ctx))
               | None \<Rightarrow> 0)
        in if has_opposing_vertical \<and> 3 \<le> subnet_node_count \<and> would_vertical_edges_cross_middle i edges ctx
           then Some (if is_infra then EdgeHandle_Left else EdgeHandle_Right)
           else if has_opposing_horizontal \<and> 3 \<le> subnet_node_count \<and>
                   would_horizontal_edges_cross_middle i edges ctx
           then Some (if top_count \<le> bottom_count then EdgeHandle_Bottom else EdgeHandle_Top)
           else None)"

definition plan_anchors :: "uuid \<Rightarrow> Edge list \<Rightarrow> TopologyContext \<Rightarrow> Edge list \<times> Edge list" where
  "plan_anchors i edges ctx =
     (let inter_subnet_edges = filter (\<lambda>e. touches i e \<and> \<not> edge_is_intra_subnet ctx e) edges;
          edges' =
            (if inter_subnet_edges = [] then edges
             else case determine_override_handle (map (relevant_handle i) inter_subnet_edges)
                         (is_interface_infra ctx i) i edges ctx of
                    Some override_handle \<Rightarrow>
                      map (\<lambda>e. if touches i e \<and> \<not> edge_is_intra_subnet ctx e
                               then e\<lparr>edge_source_handle := override_handle, edge_target_handle := override_handle\<rparr>
                               else e) edges
                  | None \<Rightarrow> edges)
      in (edges', filter (touches i) edges'))"

subsection \<open>Headers\<close>

text \<open>The environment of the planner: rounding to \<open>f32\<close>, the element that a hash set yields first, and
  the printing of address blocks.\<close>

record planner_env =
  pe_round :: "rat \<Rightarrow> rat"
  pe_first :: "uuid set \<Rightarrow> uuid"
  pe_show_cidr :: "IpCidr \<Rightarrow> string"

definition vm_header :: "planner_env \<Rightarrow> TopologyContext \<Rightarrow> Service \<Rightarrow> Interface list \<Rightarrow> string" where
  "vm_header env0 ctx service host_interfaces =
     (let host_subnets = map (\<lambda>i. ib_subnet_id (interface_base i)) host_interfaces;
          service_subnets =
            map (\<lambda>i. ib_subnet_id (interface_base i))
              (List.map_filter (\<lambda>b. get_interface_by_id ctx (Binding_interface_id b)) (svb_bindings (service_base service)));
          common = set host_subnets \<inter> set service_subnets;
          plain = ''VM: '' @ svb_name (service_base service)
      in if common = {} then plain
         else
           let first = pe_first env0 common
           in case find (\<lambda>i. ib_subnet_id (interface_base i) = first) host_interfaces of
                Some interface \<Rightarrow>
                  if length (filter (\<lambda>s. s = first) host_subnets) = 1 \<and>
                     length (filter (\<lambda>s. s = first) service_subnets) = 1
                  then
                    let on = (case get_host_by_id ctx (svb_host_id (service_base service)) of
                                Some h \<Rightarrow> hb_name (host_base h)
                              | None \<Rightarrow> IpAddr_display (ib_ip_address (interface_base interface)))
                    in if on = svb_name (service_base service) then plain else plain @ '' on '' @ on
                  else plain
              | None \<Rightarrow> plain)"

definition docker_header :: "TopologyContext \<Rightarrow> Host \<Rightarrow> string option" where
  "docker_header ctx host =
     (if hb_name (host_base host) \<noteq> ''Unknown Device'' \<and> hb_name (host_base host) \<noteq> []
      then Some (''Docker @ '' @ hb_name (host_base host))
      else map_option (\<lambda>i. ''Docker @ '' @ IpAddr_display (ib_ip_address (interface_base i)))
        (find (\<lambda>i. case get_subnet_from_interface_id ctx (interface_id i) of
                     Some s \<Rightarrow> sb_subnet_type (subnet_base s) \<noteq> SubnetType_DockerBridge
                   | None \<Rightarrow> False) (ctx_interfaces_for_host ctx (host_id host))))"

definition host_header :: "TopologyContext \<Rightarrow> Interface \<Rightarrow> Host \<Rightarrow> string option" where
  "host_header ctx interface host =
     (let host_has_name = (hb_name (host_base host) \<noteq> ''Unknown Device'' \<and> hb_name (host_base host) \<noteq> []);
          first_service_name_matches_host_name =
            (case ctx_services_for_host ctx (host_id host) of
               s # _ \<Rightarrow> svb_name (service_base s) = hb_name (host_base host)
             | [] \<Rightarrow> False);
          host_name_is_interface_ip =
            (IpAddr_display (ib_ip_address (interface_base interface)) = hb_name (host_base host));
          interfaces_with_node =
            filter (\<lambda>i. get_services_bound_to_interface ctx (interface_id i) \<noteq> [])
              (ctx_interfaces_for_host ctx (host_id host))
      in if \<not> host_name_is_interface_ip \<and> \<not> first_service_name_matches_host_name \<and> host_has_name \<and>
            length interfaces_with_node < 2
         then Some (hb_name (host_base host)) else None)"

definition determine_subnet_child_header_text ::
    "planner_env \<Rightarrow> TopologyContext \<Rightarrow> Interface \<Rightarrow> Host \<Rightarrow> SubnetType \<Rightarrow> string option" where
  "determine_subnet_child_header_text env0 ctx interface host subnet_type =
     (let hide_docker_bridge_vm_header =
            (subnet_type = SubnetType_DockerBridge \<and> ro_hide_vm_title_on_docker_container (cx_request ctx));
          others =
            (if subnet_type = SubnetType_DockerBridge \<and>
                \<not> (case get_first_non_docker_bridge_interface_for_host ctx (host_id host) of
                     Some origin_interface \<Rightarrow> interface_will_have_node ctx (interface_id origin_interface)
                   | None \<Rightarrow> False)
             then docker_header ctx host
             else host_header ctx interface host)
      in case get_host_is_virtualized_by ctx (host_id host) of
           Some service \<Rightarrow>
             if \<not> hide_docker_bridge_vm_header
             then Some (vm_header env0 ctx service (ctx_interfaces_for_host ctx (host_id host)))
             else others
         | None \<Rightarrow> others)"

subsection \<open>Grouping nodes by subnet\<close>

text \<open>A service without an interface in a binding counts for every interface of the network.\<close>

definition interface_bound_services :: "TopologyContext \<Rightarrow> Interface \<Rightarrow> Service list" where
  "interface_bound_services ctx interface =
     filter (\<lambda>s. list_ex (\<lambda>b. case Binding_interface_id b of
         Some i \<Rightarrow> i = interface_id interface
       | None \<Rightarrow> True) (svb_bindings (service_base s))) (cx_services ctx)"

record group_state =
  gs_edges :: "Edge list"
  gs_children :: "(uuid \<times> SubnetChild list) list"
  gs_docker :: "((uuid \<times> uuid) \<times> uuid list) list"

definition push_entry :: "'k \<Rightarrow> 'v \<Rightarrow> ('k \<times> 'v list) list \<Rightarrow> ('k \<times> 'v list) list" where
  "push_entry k v al =
     AList.update k ((case map_of al k of Some vs \<Rightarrow> vs | None \<Rightarrow> []) @ [v]) al"

definition interface_child ::
    "planner_env \<Rightarrow> TopologyContext \<Rightarrow> Host \<Rightarrow> SubnetType \<Rightarrow> Interface \<Rightarrow> Edge list \<Rightarrow> SubnetChild" where
  "interface_child env0 ctx host subnet_type interface edges =
     (let header_text = determine_subnet_child_header_text env0 ctx interface host subnet_type
      in \<lparr>sc_id = interface_id interface, sc_header = header_text, sc_host_id = host_id host,
          sc_interface_id = Some (interface_id interface),
          sc_size = subnet_child_size_from_service_count (interface_bound_services ctx interface)
            (interface_id interface) (header_text \<noteq> None) (ro_hide_ports (cx_request ctx)),
          sc_edges = edges\<rparr>)"

definition group_interface ::
    "planner_env \<Rightarrow> TopologyContext \<Rightarrow> bool \<Rightarrow> (uuid \<rightharpoonup> uuid) \<Rightarrow> group_state \<Rightarrow> Interface \<Rightarrow> group_state" where
  "group_interface env0 ctx group_docker_bridges_by_host grouped st interface =
     (case get_host_by_id ctx (ib_host_id (interface_base interface)) of
        None \<Rightarrow> st
      | Some host \<Rightarrow>
          let subnet_type =
                (case get_subnet_by_id ctx (ib_subnet_id (interface_base interface)) of
                   Some s \<Rightarrow> sb_subnet_type (subnet_base s)
                 | None \<Rightarrow> SubnetType_None)
          in if interface_bound_services ctx interface = [] then st
             else
               let (all_edges, edges) = plan_anchors (interface_id interface) (gs_edges st) ctx;
                   child = interface_child env0 ctx host subnet_type interface edges;
                   st1 = st\<lparr>gs_edges := all_edges\<rparr>
               in if group_docker_bridges_by_host \<and> subnet_type = SubnetType_DockerBridge then
                    (case grouped (host_id host) of
                       Some subnet_grouping_id \<Rightarrow>
                         st1\<lparr>gs_docker := push_entry (host_id host, subnet_grouping_id)
                               (ib_subnet_id (interface_base interface)) (gs_docker st1),
                             gs_children := push_entry subnet_grouping_id child (gs_children st1)\<rparr>
                     | None \<Rightarrow> st1)
                  else st1\<lparr>gs_children :=
                         push_entry (ib_subnet_id (interface_base interface)) child (gs_children st1)\<rparr>)"

text \<open>The children by subnet, the changed edges, and the Docker subnets shown as one.\<close>

definition group_children_by_subnet ::
    "planner_env \<Rightarrow> TopologyContext \<Rightarrow> Edge list \<Rightarrow> bool \<Rightarrow> (uuid \<rightharpoonup> uuid)
       \<Rightarrow> (uuid \<times> SubnetChild list) list \<times> Edge list \<times> (uuid \<rightharpoonup> uuid list)" where
  "group_children_by_subnet env0 ctx all_edges group_docker_bridges_by_host grouped =
     (let st = foldl (group_interface env0 ctx group_docker_bridges_by_host grouped)
                 \<lparr>gs_edges = all_edges, gs_children = [], gs_docker = []\<rparr> (cx_interfaces ctx);
          consolidated =
            (if group_docker_bridges_by_host
             then foldl (\<lambda>m ((_, grouping_id), ids). m(grouping_id \<mapsto> dedup_by (=) (sort ids)))
                    Map.empty (gs_docker st)
             else Map.empty)
      in (gs_children st, gs_edges st, consolidated))"

subsection \<open>The size of a subnet\<close>

definition split_children ::
    "TopologyContext \<Rightarrow> uuid \<Rightarrow> SubnetChild list \<Rightarrow> SubnetChild list \<times> SubnetChild list" where
  "split_children ctx subnet children =
     (case get_subnet_by_id ctx subnet of
        Some s \<Rightarrow>
          let infra = get_interfaces_with_infra_service ctx s;
              ordered = sort_key (\<lambda>c. uy (sc_size c)) children
          in (filter (\<lambda>c. sc_interface_id c \<in> set infra) ordered,
              filter (\<lambda>c. sc_interface_id c \<notin> set infra) ordered)
      | None \<Rightarrow> ([], children))"

definition child_node :: "uuid \<Rightarrow> bool \<Rightarrow> int \<Rightarrow> (uuid \<times> NodeLayout) list \<Rightarrow> SubnetChild \<Rightarrow> Node option" where
  "child_node subnet is_infra offset layouts child =
     map_option (\<lambda>layout.
       \<lparr>node_type = NodeType_InterfaceNode subnet (sc_host_id child) (sc_interface_id child) is_infra,
        node_id = sc_id child,
        node_position = \<lparr>ix = ix (nl_position layout) + offset, iy = iy (nl_position layout)\<rparr>,
        node_size = sc_size child, node_header = sc_header child\<rparr>) (map_of layouts (sc_id child))"

text \<open>The size of the subnet, the width of its infrastructure zone and its nodes.\<close>

definition calculate_subnet_size ::
    "planner_env \<Rightarrow> TopologyContext \<Rightarrow> uuid \<Rightarrow> SubnetChild list \<Rightarrow> Uxy \<times> nat \<times> Node list" where
  "calculate_subnet_size env0 ctx subnet children =
     (let (infrastructure_children, regular_children) = split_children ctx subnet children;
          layout = (\<lambda>cs. if cs \<noteq> []
            then let positions = calculate_anchor_based_positions (pe_round env0) cs NODE_PADDING ctx
                 in (positions, calculate_container_size_from_layouts positions NODE_PADDING)
            else ([], \<lparr>ux = 0, uy = 0\<rparr>));
          (regular_child_positions, regular_grid_size) = layout regular_children;
          (infra_child_positions, infra_grid_size) = layout infrastructure_children;
          infra_cols = length (remdups (map (\<lambda>(_, l). ix (nl_position l)) infra_child_positions));
          nodes =
            List.map_filter (child_node subnet True 0 infra_child_positions) infrastructure_children @
            List.map_filter (child_node subnet False (if 0 < infra_cols then int (ux infra_grid_size) else 0)
              regular_child_positions) regular_children
      in (\<lparr>ux = ux regular_grid_size + ux infra_grid_size, uy = max (uy regular_grid_size) (uy infra_grid_size)\<rparr>,
          ux infra_grid_size, nodes))"

definition plan_subnets ::
    "planner_env \<Rightarrow> TopologyContext \<Rightarrow> (uuid \<times> SubnetChild list) list
       \<Rightarrow> (uuid \<times> SubnetLayout) list \<times> Node list" where
  "plan_subnets env0 ctx children_by_subnet =
     (let sized = map (\<lambda>(subnet, children). (subnet, calculate_subnet_size env0 ctx subnet children)) children_by_subnet
      in (map (\<lambda>(subnet, sz, infra_width, _). (subnet, \<lparr>sl_size = sz, sl_infra_width = infra_width\<rparr>)) sized,
          concat (map (\<lambda>(_, _, _, nodes). nodes) sized)))"

definition create_subnet_child_nodes ::
    "planner_env \<Rightarrow> TopologyContext \<Rightarrow> Edge list \<Rightarrow> bool \<Rightarrow> (uuid \<rightharpoonup> uuid)
       \<Rightarrow> ((uuid \<times> SubnetLayout) list \<times> Node list) \<times> Edge list \<times> (uuid \<rightharpoonup> uuid list)" where
  "create_subnet_child_nodes env0 ctx all_edges group_docker_bridges_by_host grouped =
     (let (children_by_subnet, edges, consolidated) =
        group_children_by_subnet env0 ctx all_edges group_docker_bridges_by_host grouped
      in (plan_subnets env0 ctx children_by_subnet, edges, consolidated))"

subsection \<open>Rows of subnets\<close>

definition calculate_subnet_grid_positions_by_layer ::
    "TopologyContext \<Rightarrow> (uuid \<times> SubnetLayout) list \<Rightarrow> (uuid \<times> NodeLayout) list list" where
  "calculate_subnet_grid_positions_by_layer ctx layouts =
     (let vertical = (\<lambda>s. SubnetType_vertical_order (sb_subnet_type (subnet_base s)));
          sorted_subnets =
            sort_key vertical (sort_key (\<lambda>s. SubnetType_horizontal_order (sb_subnet_type (subnet_base s)))
              (sort_key (\<lambda>s. sb_name (subnet_base s)) (cx_subnets ctx)));
          with_layouts =
            List.map_filter (\<lambda>s. map_option (\<lambda>l. (s, l)) (map_of layouts (subnet_id s))) sorted_subnets;
          layers = sort (remdups (map (\<lambda>(s, _). vertical s) with_layouts))
      in map (\<lambda>v. map (\<lambda>(s, l). (subnet_id s, \<lparr>nl_size = sl_size l, nl_position = Ixy_default\<rparr>))
           (filter (\<lambda>(s, _). vertical s = v) with_layouts)) layers)"

definition subnet_header :: "planner_env \<Rightarrow> TopologyContext \<Rightarrow> uuid list \<Rightarrow> string" where
  "subnet_header env0 ctx ids =
     ''Docker Bridge: ('' @
     join '', '' (map (\<lambda>s. pe_show_cidr env0 (sb_cidr (subnet_base s)))
       (filter (\<lambda>s. subnet_id s \<in> set ids) (cx_subnets ctx))) @ '')''"

definition create_subnet_nodes ::
    "planner_env \<Rightarrow> TopologyContext \<Rightarrow> (uuid \<rightharpoonup> uuid list) \<Rightarrow> (uuid \<times> SubnetLayout) list \<Rightarrow> Node list" where
  "create_subnet_nodes env0 ctx consolidated layouts =
     (let (positions, _) =
        calculate_container_size (calculate_subnet_grid_positions_by_layer ctx layouts) SUBNET_PADDING
      in List.map_filter (\<lambda>(subnet, layout).
           map_option (\<lambda>position.
             \<lparr>node_type = NodeType_SubnetNode (sl_infra_width layout), node_id = subnet,
              node_position = position, node_size = sl_size layout,
              node_header = map_option (subnet_header env0 ctx) (consolidated subnet)\<rparr>)
             (map_of positions subnet)) layouts)"

subsection \<open>The nodes of a subnet\<close>

abbreviation node_layout :: "Node \<Rightarrow> NodeLayout" where
  "node_layout n \<equiv> \<lparr>nl_size = node_size n, nl_position = node_position n\<rparr>"

text \<open>A node lies between two vertical lines and above a horizontal one, with the padding to spare.\<close>

definition in_zone :: "int \<Rightarrow> int \<Rightarrow> int \<Rightarrow> Node \<Rightarrow> bool" where
  "in_zone left right bottom n \<longleftrightarrow>
     left + 50 \<le> ix (node_position n) \<and> ix (node_position n) + int (ux (node_size n)) + 50 \<le> right \<and>
     50 \<le> iy (node_position n) \<and> iy (node_position n) + int (uy (node_size n)) + 50 \<le> bottom"

definition nodes_apart :: "Node list \<Rightarrow> bool" where
  "nodes_apart nodes \<longleftrightarrow>
     (\<forall>a \<in> set nodes. \<forall>b \<in> set nodes. node_id a \<noteq> node_id b \<longrightarrow> layouts_apart NODE_PADDING (node_layout a) (node_layout b))"

lemma NODE_PADDING_simps [simp]: "ux NODE_PADDING = 50" "uy NODE_PADDING = 50"
  by (simp_all add: NODE_PADDING_def)

lemma container_contains:
  assumes "il \<in> set layouts"
  shows "ix (nl_position (snd il)) + int (ux (nl_size (snd il))) + int (ux padding) \<le>
      int (ux (calculate_container_size_from_layouts layouts padding))"
    and "iy (nl_position (snd il)) + int (uy (nl_size (snd il))) + int (uy padding) \<le>
      int (uy (calculate_container_size_from_layouts layouts padding))"
proof -
  let ?x = "\<lambda>(_, l). nat (ix (nl_position l) + int (ux (nl_size l)) + int (ux padding))"
  let ?y = "\<lambda>(_, l). nat (iy (nl_position l) + int (uy (nl_size l)) + int (uy padding))"
  have "?x il \<le> fold max (map ?x layouts) 0" "?y il \<le> fold max (map ?y layouts) 0"
    using fold_max_ge [of "map ?x layouts" 0] fold_max_ge [of "map ?y layouts" 0] assms by auto
  then show "ix (nl_position (snd il)) + int (ux (nl_size (snd il))) + int (ux padding) \<le>
      int (ux (calculate_container_size_from_layouts layouts padding))"
    "iy (nl_position (snd il)) + int (uy (nl_size (snd il))) + int (uy padding) \<le>
      int (uy (calculate_container_size_from_layouts layouts padding))"
    using assms by (auto simp: calculate_container_size_from_layouts_def split: prod.splits)
qed

lemma placed_apartD:
  assumes "placed_apart p cs ls" "(i, a) \<in> set ls" "(j, b) \<in> set ls" "i \<noteq> j"
  shows "layouts_apart p a b"
  using assms(1) [unfolded placed_apart_def, THEN conjunct2, THEN conjunct2, THEN conjunct2, THEN bspec,
      OF assms(2), THEN bspec, OF assms(3)] assms(4) by simp

lemma layouts_apart_shift:
  "layouts_apart p a b \<Longrightarrow>
     layouts_apart p
       \<lparr>nl_size = nl_size a, nl_position = \<lparr>ix = ix (nl_position a) + off, iy = iy (nl_position a)\<rparr>\<rparr>
       \<lparr>nl_size = nl_size b, nl_position = \<lparr>ix = ix (nl_position b) + off, iy = iy (nl_position b)\<rparr>\<rparr>"
  by (auto simp: layouts_apart_def apart_x_def apart_y_def)

lemma placed_layout:
  assumes "placed_apart NODE_PADDING cs layouts" "c \<in> set cs" "distinct (map sc_id cs)"
  shows "\<exists>l. map_of layouts (sc_id c) = Some l \<and> (sc_id c, l) \<in> set layouts \<and> nl_size l = sc_size c \<and>
      50 \<le> ix (nl_position l) \<and> 50 \<le> iy (nl_position l)"
proof -
  have "sc_id c \<in> fst ` set layouts" and dist: "distinct (map fst layouts)"
    using assms by (simp_all add: placed_apart_def)
  then obtain l where l: "(sc_id c, l) \<in> set layouts" by force
  have "\<exists>d \<in> set cs. sc_id d = sc_id c \<and> nl_size l = sc_size d \<and> 50 \<le> ix (nl_position l) \<and> 50 \<le> iy (nl_position l)"
    using assms(1) l unfolding placed_apart_def by fastforce
  then obtain d where d: "d \<in> set cs" "sc_id d = sc_id c" "nl_size l = sc_size d"
      "50 \<le> ix (nl_position l)" "50 \<le> iy (nl_position l)"
    by blast
  moreover have "d = c" using d assms(2,3) by (metis distinct_map inj_onD)
  ultimately show ?thesis using l dist by (intro exI [of _ l]) simp
qed

lemma child_nodes_placed:
  assumes placed: "placed_apart NODE_PADDING cs layouts" and ids: "distinct (map sc_id cs)"
    and ns_def: "ns = List.map_filter (child_node subnet infra off layouts) cs"
  shows "map node_id ns = map sc_id cs"
    and "\<forall>n \<in> set ns. in_zone off (off + int (ux (calculate_container_size_from_layouts layouts NODE_PADDING)))
           (int (uy (calculate_container_size_from_layouts layouts NODE_PADDING))) n \<and>
           nt_subnet_id (node_type n) = subnet \<and> \<not> is_subnet_node n"
    and "nodes_apart ns"
proof -
  let ?l = "\<lambda>c. the (map_of layouts (sc_id c))"
  let ?n = "\<lambda>c. the (child_node subnet infra off layouts c)"
  have some: "child_node subnet infra off layouts c = Some (?n c)" if "c \<in> set cs" for c
    using placed_layout [OF placed that ids] by (auto simp: child_node_def)
  have ns: "ns = map ?n cs"
    using some unfolding ns_def List.map_filter_def by (metis (mono_tags, lifting) comp_apply filter_True map_eq_conv option.distinct(1))
  have node: "node_id (?n c) = sc_id c \<and> node_size (?n c) = nl_size (?l c) \<and>
      node_position (?n c) = \<lparr>ix = ix (nl_position (?l c)) + off, iy = iy (nl_position (?l c))\<rparr> \<and>
      (sc_id c, ?l c) \<in> set layouts \<and> 50 \<le> ix (nl_position (?l c)) \<and> 50 \<le> iy (nl_position (?l c)) \<and>
      nt_subnet_id (node_type (?n c)) = subnet \<and> \<not> is_subnet_node (?n c)"
    if "c \<in> set cs" for c
    using placed_layout [OF placed that ids] by (auto simp: child_node_def is_subnet_node_def)
  show "map node_id ns = map sc_id cs" using node by (simp add: ns)
  show "\<forall>n \<in> set ns. in_zone off (off + int (ux (calculate_container_size_from_layouts layouts NODE_PADDING)))
           (int (uy (calculate_container_size_from_layouts layouts NODE_PADDING))) n \<and>
           nt_subnet_id (node_type n) = subnet \<and> \<not> is_subnet_node n"
  proof
    fix n assume "n \<in> set ns"
    then obtain c where c: "c \<in> set cs" "n = ?n c" by (auto simp: ns)
    note nc = node [OF c(1)]
    from nc container_contains [of "(sc_id c, ?l c)" layouts NODE_PADDING] show "in_zone off
        (off + int (ux (calculate_container_size_from_layouts layouts NODE_PADDING)))
        (int (uy (calculate_container_size_from_layouts layouts NODE_PADDING))) n \<and>
        nt_subnet_id (node_type n) = subnet \<and> \<not> is_subnet_node n"
      by (simp add: in_zone_def c(2))
  qed
  show "nodes_apart ns"
    unfolding nodes_apart_def
  proof (intro ballI impI)
    fix a b assume ab: "a \<in> set ns" "b \<in> set ns" "node_id a \<noteq> node_id b"
    then obtain c d where cd: "c \<in> set cs" "a = ?n c" "d \<in> set cs" "b = ?n d" by (auto simp: ns)
    note nc = node [OF cd(1)] and nd = node [OF cd(3)]
    have "sc_id c \<noteq> sc_id d" using ab(3) nc nd cd by simp
    then have "layouts_apart NODE_PADDING (?l c) (?l d)"
      using placed_apartD [OF placed] nc nd by blast
    then show "layouts_apart NODE_PADDING (node_layout a) (node_layout b)"
      using layouts_apart_shift [of NODE_PADDING "?l c" "?l d" off] nc nd cd by simp
  qed
qed


text \<open>The nodes of a subnet: a node for each child, all inside the subnet, the infrastructure zone on the
  left, and any two at least the padding apart.\<close>

definition subnet_arranged :: "uuid \<Rightarrow> SubnetChild list \<Rightarrow> Uxy \<times> nat \<times> Node list \<Rightarrow> bool" where
  "subnet_arranged subnet children result \<longleftrightarrow>
     (case result of (sz, infra_width, nodes) \<Rightarrow>
        mset (map node_id nodes) = mset (map sc_id children) \<and> nodes_apart nodes \<and> infra_width \<le> ux sz \<and>
        (\<forall>n \<in> set nodes. nt_subnet_id (node_type n) = subnet \<and> \<not> is_subnet_node n \<and>
           in_zone (if nt_is_infra (node_type n) then 0 else int infra_width)
             (if nt_is_infra (node_type n) then int infra_width else int (ux sz)) (int (uy sz)) n))"

lemma child_node_infra:
  "n \<in> set (List.map_filter (child_node subnet infra off ls) cs) \<Longrightarrow> nt_is_infra (node_type n) = infra"
  by (auto simp: set_map_filter child_node_def)

lemma split_children_perm:
  assumes "split_children ctx subnet children = (infra, regular)"
  shows "mset infra + mset regular = mset children"
proof -
  have "mset (filter P xs) + mset (filter (\<lambda>x. \<not> P x) xs) = mset xs" for P and xs :: "SubnetChild list"
    by (simp add: union_commute multiset_partition [symmetric])
  then show ?thesis using assms by (auto simp: split_children_def Let_def split: option.splits)
qed

lemma in_zone_mono:
  "in_zone l r b n \<Longrightarrow> l' \<le> l \<Longrightarrow> r \<le> r' \<Longrightarrow> b \<le> b' \<Longrightarrow> in_zone l' r' b' n"
  by (auto simp: in_zone_def)

lemma zones_apart:
  "in_zone l r b m \<Longrightarrow> in_zone r r' b' n \<Longrightarrow> layouts_apart NODE_PADDING (node_layout m) (node_layout n) \<and>
     layouts_apart NODE_PADDING (node_layout n) (node_layout m)"
  by (auto simp: in_zone_def layouts_apart_def apart_x_def)

definition zone_layout :: "planner_env \<Rightarrow> TopologyContext \<Rightarrow> SubnetChild list \<Rightarrow> (uuid \<times> NodeLayout) list \<times> Uxy" where
  "zone_layout env0 ctx cs =
     (if cs \<noteq> []
      then let positions = calculate_anchor_based_positions (pe_round env0) cs NODE_PADDING ctx
           in (positions, calculate_container_size_from_layouts positions NODE_PADDING)
      else ([], \<lparr>ux = 0, uy = 0\<rparr>))"

lemma zone_nodes:
  assumes ids: "distinct (map sc_id cs)"
    and ns: "ns = List.map_filter (child_node subnet infra off (fst (zone_layout env0 ctx cs))) cs"
  shows "map node_id ns = map sc_id cs" "nodes_apart ns"
    and "n \<in> set ns \<Longrightarrow> in_zone off (off + int (ux (snd (zone_layout env0 ctx cs)))) (int (uy (snd (zone_layout env0 ctx cs)))) n \<and>
      nt_subnet_id (node_type n) = subnet \<and> \<not> is_subnet_node n \<and> nt_is_infra (node_type n) = infra"
proof -
  let ?pos = "calculate_anchor_based_positions (pe_round env0) cs NODE_PADDING ctx"
  note placed = child_nodes_placed [OF children_placed_apart [OF ids, of NODE_PADDING "pe_round env0" ctx] ids refl]
  have ns': "ns = List.map_filter (child_node subnet infra off ?pos) cs"
    by (cases "cs = []") (simp_all add: ns zone_layout_def List.map_filter_def Let_def)
  show "map node_id ns = map sc_id cs" "nodes_apart ns" unfolding ns' by (rule placed(1), rule placed(3))
  show "in_zone off (off + int (ux (snd (zone_layout env0 ctx cs)))) (int (uy (snd (zone_layout env0 ctx cs)))) n \<and>
      nt_subnet_id (node_type n) = subnet \<and> \<not> is_subnet_node n \<and> nt_is_infra (node_type n) = infra" if n: "n \<in> set ns"
  proof -
    have "cs \<noteq> []" using n ns by (auto simp: List.map_filter_def)
    then have "snd (zone_layout env0 ctx cs) = calculate_container_size_from_layouts ?pos NODE_PADDING"
      by (simp add: zone_layout_def Let_def)
    with n placed(2) [THEN bspec, of n] child_node_infra [of n] show ?thesis unfolding ns' by simp
  qed
qed

lemma infra_offset:
  assumes "distinct (map sc_id cs)"
  shows "(if 0 < length (remdups (map (\<lambda>(_, l). ix (nl_position l)) (fst (zone_layout env0 ctx cs))))
      then int (ux (snd (zone_layout env0 ctx cs))) else 0) = int (ux (snd (zone_layout env0 ctx cs)))"
proof (cases "cs = []")
  case False
  have "fst ` set (fst (zone_layout env0 ctx cs)) = sc_id ` set cs"
    using children_placed_apart [OF assms, of NODE_PADDING "pe_round env0" ctx] False
    by (simp add: zone_layout_def placed_apart_def Let_def)
  with False have "fst (zone_layout env0 ctx cs) \<noteq> []" by auto
  then show ?thesis by simp
qed (simp add: zone_layout_def)

lemma calculate_subnet_size_zones:
  assumes "split_children ctx subnet children = (infra, regular)" "distinct (map sc_id infra)"
  shows "calculate_subnet_size env0 ctx subnet children =
    (\<lparr>ux = ux (snd (zone_layout env0 ctx regular)) + ux (snd (zone_layout env0 ctx infra)),
      uy = max (uy (snd (zone_layout env0 ctx regular))) (uy (snd (zone_layout env0 ctx infra)))\<rparr>,
     ux (snd (zone_layout env0 ctx infra)),
     List.map_filter (child_node subnet True 0 (fst (zone_layout env0 ctx infra))) infra @
     List.map_filter (child_node subnet False (int (ux (snd (zone_layout env0 ctx infra))))
       (fst (zone_layout env0 ctx regular))) regular)"
  unfolding calculate_subnet_size_def assms(1) zone_layout_def [of env0 ctx, symmetric]
  by (simp only: Let_def case_prod_unfold prod.sel infra_offset [OF assms(2), unfolded case_prod_unfold])

text \<open>A subnet is as large as its nodes need: there is one node for each interface, all lie inside the
  subnet with the padding to spare, those with an infrastructure service in the zone on the left and
  the others to the right of it, and no two nodes come closer than the padding.\<close>

lemma subnet_nodes_arranged:
  assumes "distinct (map sc_id children)"
  shows "subnet_arranged subnet children (calculate_subnet_size env0 ctx subnet children)"
proof -
  obtain infra regular where sp: "split_children ctx subnet children = (infra, regular)" by fastforce
  have perm: "mset (map sc_id infra) + mset (map sc_id regular) = mset (map sc_id children)"
    using split_children_perm [OF sp] by (metis image_mset_union mset_map)
  have "distinct (map sc_id infra @ map sc_id regular)"
    using assms perm by (metis mset_append mset_eq_imp_distinct_iff)
  then have ids: "distinct (map sc_id infra)" "distinct (map sc_id regular)" by simp_all
  let ?I = "snd (zone_layout env0 ctx infra)" and ?R = "snd (zone_layout env0 ctx regular)"
  define ns where "ns = List.map_filter (child_node subnet True 0 (fst (zone_layout env0 ctx infra))) infra"
  define ms where "ms = List.map_filter (child_node subnet False (int (ux ?I)) (fst (zone_layout env0 ctx regular))) regular"
  note n = zone_nodes [OF ids(1) ns_def] and m = zone_nodes [OF ids(2) ms_def]
  have between: "layouts_apart NODE_PADDING (node_layout a) (node_layout b) \<and>
      layouts_apart NODE_PADDING (node_layout b) (node_layout a)" if "a \<in> set ns" "b \<in> set ms" for a b
  proof (rule zones_apart)
    show "in_zone 0 (int (ux ?I)) (int (uy ?I)) a" using n(3) [OF that(1)] by simp
    show "in_zone (int (ux ?I)) (int (ux ?I) + int (ux ?R)) (int (uy ?R)) b" using m(3) [OF that(2)] by simp
  qed
  have "nodes_apart (ns @ ms)"
    using n(2) m(2) between unfolding nodes_apart_def by (metis Un_iff set_append)
  moreover have "in_zone (if nt_is_infra (node_type x) then 0 else int (ux ?I))
      (if nt_is_infra (node_type x) then int (ux ?I) else int (ux ?R + ux ?I)) (int (max (uy ?R) (uy ?I))) x \<and>
      nt_subnet_id (node_type x) = subnet \<and> \<not> is_subnet_node x" if "x \<in> set (ns @ ms)" for x
    using that n(3) [of x] m(3) [of x] by (auto elim!: in_zone_mono)
  moreover have "mset (map node_id (ns @ ms)) = mset (map sc_id children)" using perm by (simp add: n(1) m(1))
  ultimately show ?thesis
    unfolding calculate_subnet_size_zones [OF sp ids(1)] ns_def [symmetric] ms_def [symmetric] subnet_arranged_def
    by (simp only: prod.case Uxy.select_convs) (use le_add2 in blast)
qed

subsection \<open>Rows of subnets do not overlap\<close>

fun row_positions :: "nat \<Rightarrow> nat \<Rightarrow> nat \<Rightarrow> (uuid \<times> NodeLayout) list \<Rightarrow> (uuid \<times> Ixy) list" where
  "row_positions padding y x [] = []"
| "row_positions padding y x (il # row) =
     (fst il, \<lparr>ix = int x, iy = int y\<rparr>) # row_positions padding y (x + (ux (nl_size (snd il)) + padding)) row"

lemma fst_row_positions [simp]: "map fst (row_positions p y x row) = map fst row"
  by (induction row arbitrary: x) auto

lemma place_in_row_positions:
  assumes "distinct (map fst row)" "fst ` set row \<inter> fst ` set (rs_positions st) = {}"
  shows "rs_positions (foldl (place_in_row padding) st row) =
      rs_positions st @ row_positions (ux padding) (rs_y st) (rs_x st) row \<and>
    rs_height st \<le> rs_height (foldl (place_in_row padding) st row) \<and>
    (\<forall>il \<in> set row. uy (nl_size (snd il)) \<le> rs_height (foldl (place_in_row padding) st row))"
  using assms
proof (induction row arbitrary: st)
  case (Cons il row)
  let ?st = "place_in_row padding st il"
  have new: "fst il \<notin> fst ` set (rs_positions st)" using Cons.prems by auto
  have st: "rs_positions ?st = rs_positions st @ [(fst il, \<lparr>ix = int (rs_x st), iy = int (rs_y st)\<rparr>)]"
    "rs_y ?st = rs_y st" "rs_x ?st = rs_x st + (ux (nl_size (snd il)) + ux padding)"
    "rs_height ?st = max (rs_height st) (uy (nl_size (snd il)))"
    by (simp_all add: place_in_row_def update_new [OF new])
  have "rs_positions (foldl (place_in_row padding) ?st row) =
      rs_positions ?st @ row_positions (ux padding) (rs_y ?st) (rs_x ?st) row \<and>
    rs_height ?st \<le> rs_height (foldl (place_in_row padding) ?st row) \<and>
    (\<forall>il \<in> set row. uy (nl_size (snd il)) \<le> rs_height (foldl (place_in_row padding) ?st row))"
    by (rule Cons.IH) (use Cons.prems st(1) in auto)
  then show ?case by (auto simp: st)
qed simp

text \<open>Rectangles at given positions, with sizes by identifier: two of them are side by side in one row, or
  in different rows.\<close>

definition rows_apart :: "(uuid \<Rightarrow> Uxy) \<Rightarrow> nat \<times> nat \<Rightarrow> (uuid \<times> Ixy) \<Rightarrow> (uuid \<times> Ixy) \<Rightarrow> bool" where
  "rows_apart sz padding a b \<longleftrightarrow>
     (iy (snd a) = iy (snd b) \<and>
       (ix (snd a) + int (ux (sz (fst a))) + int (fst padding) \<le> ix (snd b) \<or>
        ix (snd b) + int (ux (sz (fst b))) + int (fst padding) \<le> ix (snd a))) \<or>
     iy (snd a) + int (uy (sz (fst a))) + int (snd padding) \<le> iy (snd b) \<or>
     iy (snd b) + int (uy (sz (fst b))) + int (snd padding) \<le> iy (snd a)"

lemma row_positions_y: "a \<in> set (row_positions p y x row) \<Longrightarrow> iy (snd a) = int y \<and> int x \<le> ix (snd a)"
  by (induction row arbitrary: x) fastforce+

lemma row_positions_apart:
  assumes "\<forall>il \<in> set row. nl_size (snd il) = sz (fst il)"
    and "a \<in> set (row_positions p y x row)" "b \<in> set (row_positions p y x row)" "fst a \<noteq> fst b"
  shows "rows_apart sz (p, q) a b"
  using assms
proof (induction row arbitrary: x)
  case (Cons il row)
  let ?first = "(fst il, \<lparr>ix = int x, iy = int y\<rparr>)" and ?rest = "row_positions p y (x + (ux (nl_size (snd il)) + p)) row"
  have first: "rows_apart sz (p, q) ?first c \<and> rows_apart sz (p, q) c ?first" if "c \<in> set ?rest" for c
    using row_positions_y [OF that] Cons.prems(1) by (auto simp: rows_apart_def)
  consider "a \<in> set ?rest" "b \<in> set ?rest" | "a = ?first" "b \<in> set ?rest" | "a \<in> set ?rest" "b = ?first" | "a = b"
    using Cons.prems by auto
  then show ?case
  proof cases
    case 1
    then show ?thesis using Cons.IH Cons.prems(1,4) by auto
  qed (use first Cons.prems(4) in auto)
qed simp

definition rows_placed :: "(uuid \<Rightarrow> Uxy) \<Rightarrow> nat \<times> nat \<Rightarrow> container_state \<Rightarrow> bool" where
  "rows_placed sz padding st \<longleftrightarrow>
     distinct (map fst (cs_positions st)) \<and>
     (\<forall>a \<in> set (cs_positions st). iy (snd a) + int (uy (sz (fst a))) + int (snd padding) \<le> int (cs_y st)) \<and>
     (\<forall>a \<in> set (cs_positions st). \<forall>b \<in> set (cs_positions st). fst a \<noteq> fst b \<longrightarrow> rows_apart sz padding a b)"

lemma rows_apart_sym: "rows_apart sz p a b \<Longrightarrow> rows_apart sz p b a"
  by (auto simp: rows_apart_def)

lemma place_row_placed:
  assumes st: "rows_placed sz (ux padding, uy padding) st"
    and row: "distinct (map fst row)" "fst ` set row \<inter> fst ` set (cs_positions st) = {}"
    and sz: "\<forall>il \<in> set row. nl_size (snd il) = sz (fst il)"
  shows "rows_placed sz (ux padding, uy padding) (place_row padding st row)"
    and "map fst (cs_positions (place_row padding st row)) = map fst (cs_positions st) @ map fst row"
proof -
  let ?pd = "(ux padding, uy padding)"
  let ?r = "foldl (place_in_row padding)
    \<lparr>rs_positions = cs_positions st, rs_x = ux padding, rs_y = cs_y st, rs_height = 0\<rparr> row"
  let ?new = "row_positions (ux padding) (cs_y st) (ux padding) row"
  have r: "rs_positions ?r = cs_positions st @ ?new" "\<forall>il \<in> set row. uy (nl_size (snd il)) \<le> rs_height ?r"
    using place_in_row_positions [OF row(1), of "\<lparr>rs_positions = cs_positions st, rs_x = ux padding, rs_y = cs_y st, rs_height = 0\<rparr>" padding]
      row(2) by auto
  have pos: "cs_positions (place_row padding st row) = cs_positions st @ ?new"
    using r(1) by (cases "row = []") (simp_all add: place_row_def Let_def)
  then show keys: "map fst (cs_positions (place_row padding st row)) = map fst (cs_positions st) @ map fst row" by simp
  have new_row: "iy (snd b) = int (cs_y st) \<and> uy (sz (fst b)) \<le> rs_height ?r" if "b \<in> set ?new" for b
  proof -
    have "fst b \<in> fst ` set row" using that by (metis fst_row_positions image_eqI image_set)
    then obtain l where "(fst b, l) \<in> set row" by force
    with r(2) sz row_positions_y [OF that] show ?thesis by fastforce
  qed
  have y: "row \<noteq> [] \<Longrightarrow> cs_y (place_row padding st row) = cs_y st + (rs_height ?r + uy padding)"
    "row = [] \<Longrightarrow> place_row padding st row = st"
    by (simp_all add: place_row_def Let_def)
  have apart: "rows_apart sz ?pd a b" if "a \<in> set (cs_positions st)" "b \<in> set ?new" for a b
    using st that new_row [OF that(2)] by (auto simp: rows_placed_def rows_apart_def)
  show "rows_placed sz ?pd (place_row padding st row)"
    unfolding rows_placed_def pos
  proof (intro conjI ballI impI)
    show "distinct (map fst (cs_positions st @ ?new))"
      using st row by (auto simp: rows_placed_def simp flip: set_map)
    show "iy (snd a) + int (uy (sz (fst a))) + int (snd ?pd) \<le> int (cs_y (place_row padding st row))"
      if "a \<in> set (cs_positions st @ ?new)" for a
      using that st new_row [of a] y by (cases "row = []") (auto simp: rows_placed_def)
    show "rows_apart sz ?pd a b" if "a \<in> set (cs_positions st @ ?new)" "b \<in> set (cs_positions st @ ?new)" "fst a \<noteq> fst b" for a b
    proof -
      have "rows_apart sz ?pd a b" if "a \<in> set ?new" "b \<in> set ?new"
        using row_positions_apart [OF sz that \<open>fst a \<noteq> fst b\<close>] .
      moreover have "rows_apart sz ?pd a b" if "a \<in> set (cs_positions st)" "b \<in> set (cs_positions st)"
        using st that \<open>fst a \<noteq> fst b\<close> unfolding rows_placed_def by blast
      ultimately show ?thesis
        using that(1,2) apart [of a b] apart [of b a, THEN rows_apart_sym] by auto
    qed
  qed
qed

lemma container_rows_placed:
  assumes "distinct (map fst (concat rows))" "\<forall>il \<in> set (concat rows). nl_size (snd il) = sz (fst il)"
    and st: "st = foldl (place_row padding) \<lparr>cs_positions = [], cs_y = uy padding, cs_max_x = 0, cs_max_y = 0\<rparr> rows"
  shows "rows_placed sz (ux padding, uy padding) st \<and> map fst (cs_positions st) = map fst (concat rows)"
  using assms(1,2) unfolding st
proof (induction rows rule: rev_induct)
  case Nil
  then show ?case by (simp add: rows_placed_def)
next
  case (snoc row rows)
  let ?st = "foldl (place_row padding) \<lparr>cs_positions = [], cs_y = uy padding, cs_max_x = 0, cs_max_y = 0\<rparr> rows"
  have IH: "rows_placed sz (ux padding, uy padding) ?st" "map fst (cs_positions ?st) = map fst (concat rows)"
    using snoc by auto
  have "fst ` set (cs_positions ?st) = fst ` set (concat rows)" using IH(2) by (metis set_map)
  then have "fst ` set row \<inter> fst ` set (cs_positions ?st) = {}" using snoc.prems(1) by auto
  from place_row_placed [OF IH(1) _ this] show ?case
    using snoc.prems IH(2) by simp
qed

lemma distinct_groups:
  assumes "distinct vs" "distinct (map g xs)"
  shows "distinct (map g (concat (map (\<lambda>v. filter (\<lambda>x. f x = v) xs) vs)))"
  using assms(1)
proof (induction vs)
  case (Cons v vs)
  have same: "f x = f y" if "g x = g y" "x \<in> set xs" "y \<in> set xs" for x y
    using assms(2) that by (metis distinct_map inj_onD)
  show ?case using Cons assms(2) by (auto simp: distinct_map_filter dest: same)
qed simp

lemma distinct_map_filter_key:
  assumes "distinct (map k xs)" "\<And>x y. f x = Some y \<Longrightarrow> g y = k x"
  shows "distinct (map g (List.map_filter f xs))"
  using assms(1)
proof (induction xs rule: rev_induct)
  case (snoc x xs)
  show ?case
  proof (cases "f x")
    case (Some y)
    have "g z \<noteq> g y" if z: "z \<in> set (List.map_filter f xs)" for z
    proof -
      obtain w where w: "w \<in> set xs" "f w = Some z" using z by (auto simp: set_map_filter)
      moreover have "k x \<notin> k ` set xs" using snoc.prems by simp
      ultimately have "k w \<noteq> k x" by (metis imageI)
      with assms(2) [OF w(2)] assms(2) [OF Some] show ?thesis by simp
    qed
    then have "g y \<notin> g ` set (List.map_filter f xs)" by (metis imageE)
    with snoc Some show ?thesis by (simp add: map_filter_snoc)
  qed (use snoc in \<open>simp add: map_filter_snoc\<close>)
qed (simp add: List.map_filter_def)

lemma grid_rows:
  assumes "distinct (map subnet_id (cx_subnets ctx))"
  shows "distinct (map fst (concat (calculate_subnet_grid_positions_by_layer ctx layouts)))"
    and "\<forall>il \<in> set (concat (calculate_subnet_grid_positions_by_layer ctx layouts)).
      map_of layouts (fst il) \<noteq> None \<and> nl_size (snd il) = sl_size (the (map_of layouts (fst il)))"
    and "fst ` set (concat (calculate_subnet_grid_positions_by_layer ctx layouts)) =
      {subnet_id s | s. s \<in> set (cx_subnets ctx) \<and> map_of layouts (subnet_id s) \<noteq> None}"
proof -
  define v where "v = (\<lambda>s :: Subnet. SubnetType_vertical_order (sb_subnet_type (subnet_base s)))"
  define ss where "ss = sort_key v (sort_key (\<lambda>s. SubnetType_horizontal_order (sb_subnet_type (subnet_base s)))
              (sort_key (\<lambda>s. sb_name (subnet_base s)) (cx_subnets ctx)))"
  define ls where "ls = List.map_filter (\<lambda>s. map_option (\<lambda>l. (s, l)) (map_of layouts (subnet_id s))) ss"
  define out where "out = (\<lambda>(s :: Subnet, l :: SubnetLayout). (subnet_id s, \<lparr>nl_size = sl_size l, nl_position = Ixy_default\<rparr>))"
  define rows where "rows = map (\<lambda>k. filter (\<lambda>x. v (fst x) = k) ls) (sort (remdups (map (v \<circ> fst) ls)))"
  have eq: "calculate_subnet_grid_positions_by_layer ctx layouts = map (map out) rows"
    unfolding calculate_subnet_grid_positions_by_layer_def v_def [symmetric] ss_def [symmetric] Let_def
      ls_def [symmetric] out_def [symmetric] rows_def
    by (simp add: comp_def case_prod_unfold)
  have fst_out: "fst (out x) = subnet_id (fst x)" for x by (simp add: out_def case_prod_unfold)
  have perm: "mset ss = mset (cx_subnets ctx)" by (simp add: ss_def)
  then have "distinct (map subnet_id ss)" using assms by (metis mset_eq_imp_distinct_iff mset_map)
  then have "distinct (map (\<lambda>x. subnet_id (fst x)) ls)"
    unfolding ls_def by (rule distinct_map_filter_key) auto
  then have "distinct (map (\<lambda>x. subnet_id (fst x)) (concat rows))"
    unfolding rows_def by (rule distinct_groups [rotated]) simp
  moreover have "map fst (concat (map (map out) rows)) = map (\<lambda>x. subnet_id (fst x)) (concat rows)"
    by (simp only: map_concat [symmetric] map_map comp_def fst_out)
  ultimately show "distinct (map fst (concat (calculate_subnet_grid_positions_by_layer ctx layouts)))"
    unfolding eq by (simp only:)
  have set_rows: "set (concat rows) = set ls" by (auto simp: rows_def)
  have set_ls: "set ls = {(s, l). s \<in> set (cx_subnets ctx) \<and> map_of layouts (subnet_id s) = Some l}"
    using mset_eq_setD [OF perm] by (auto simp: ls_def set_map_filter)
  have out_set: "set (concat (map (map out) rows)) = out ` set ls"
    using set_rows by (metis map_concat set_map)
  show "\<forall>il \<in> set (concat (calculate_subnet_grid_positions_by_layer ctx layouts)).
      map_of layouts (fst il) \<noteq> None \<and> nl_size (snd il) = sl_size (the (map_of layouts (fst il)))"
    unfolding eq out_set set_ls by (auto simp: out_def)
  show "fst ` set (concat (calculate_subnet_grid_positions_by_layer ctx layouts)) =
      {subnet_id s | s. s \<in> set (cx_subnets ctx) \<and> map_of layouts (subnet_id s) \<noteq> None}"
    unfolding eq out_set set_ls by (force simp: out_def image_def)
qed

text \<open>Subnets in one row are side by side with the padding between them, others are above each other.\<close>

definition subnets_apart :: "Node list \<Rightarrow> bool" where
  "subnets_apart nodes \<longleftrightarrow>
     (\<forall>a \<in> set nodes. \<forall>b \<in> set nodes. is_subnet_node a \<longrightarrow> is_subnet_node b \<longrightarrow> node_id a \<noteq> node_id b \<longrightarrow>
        iy (node_position a) = iy (node_position b) \<and> apart_x SUBNET_PADDING (node_layout a) (node_layout b) \<or>
        apart_y SUBNET_PADDING (node_layout a) (node_layout b))"

lemma subnet_nodes_apart:
  assumes ids: "distinct (map subnet_id (cx_subnets ctx))" and keys: "distinct (map fst layouts)"
  shows "subnets_apart (create_subnet_nodes env0 ctx consolidated layouts)"
    and "\<forall>n \<in> set (create_subnet_nodes env0 ctx consolidated layouts). is_subnet_node n \<and>
      map_option sl_size (map_of layouts (node_id n)) = Some (node_size n)"
    and "distinct (map node_id (create_subnet_nodes env0 ctx consolidated layouts))"
    and "node_id ` set (create_subnet_nodes env0 ctx consolidated layouts) =
      subnet_id ` set (cx_subnets ctx) \<inter> fst ` set layouts"
proof -
  define sz where "sz = (\<lambda>i. sl_size (the (map_of layouts i)))"
  define st where "st = foldl (place_row SUBNET_PADDING)
    \<lparr>cs_positions = [], cs_y = uy SUBNET_PADDING, cs_max_x = 0, cs_max_y = 0\<rparr>
    (calculate_subnet_grid_positions_by_layer ctx layouts)"
  let ?ps = "cs_positions st"
  let ?node = "\<lambda>(subnet, layout). map_option (\<lambda>position.
             \<lparr>node_type = NodeType_SubnetNode (sl_infra_width layout), node_id = subnet,
              node_position = position, node_size = sl_size layout,
              node_header = map_option (subnet_header env0 ctx) (consolidated subnet)\<rparr>) (map_of ?ps subnet)"
  have ns: "create_subnet_nodes env0 ctx consolidated layouts = List.map_filter ?node layouts"
    by (simp add: create_subnet_nodes_def calculate_container_size_def st_def Let_def)
  have placed: "rows_placed sz (125, 125) st"
    and pkeys: "map fst ?ps = map fst (concat (calculate_subnet_grid_positions_by_layer ctx layouts))"
    using container_rows_placed [OF grid_rows(1) [OF ids], of layouts sz st SUBNET_PADDING] grid_rows(2) [OF ids, of layouts]
    by (auto simp: st_def sz_def SUBNET_PADDING_def)
  have node: "map_of layouts (node_id n) \<noteq> None \<and> is_subnet_node n \<and> node_size n = sz (node_id n) \<and>
      (node_id n, node_position n) \<in> set ?ps"
    if "n \<in> set (List.map_filter ?node layouts)" for n
    using that keys by (auto simp: set_map_filter sz_def is_subnet_node_def dest: map_of_SomeD)
  show "\<forall>n \<in> set (create_subnet_nodes env0 ctx consolidated layouts). is_subnet_node n \<and>
      map_option sl_size (map_of layouts (node_id n)) = Some (node_size n)"
    unfolding ns using node by (fastforce simp: sz_def)
  show "distinct (map node_id (create_subnet_nodes env0 ctx consolidated layouts))"
    unfolding ns by (rule distinct_map_filter_key [OF keys]) auto
  show "subnets_apart (create_subnet_nodes env0 ctx consolidated layouts)"
    unfolding ns subnets_apart_def
  proof (intro ballI impI)
    fix a b assume ab: "a \<in> set (List.map_filter ?node layouts)" "b \<in> set (List.map_filter ?node layouts)"
      "node_id a \<noteq> node_id b"
    then have "rows_apart sz (125, 125) (node_id a, node_position a) (node_id b, node_position b)"
      using placed node unfolding rows_placed_def by fastforce
    then show "iy (node_position a) = iy (node_position b) \<and> apart_x SUBNET_PADDING (node_layout a) (node_layout b) \<or>
        apart_y SUBNET_PADDING (node_layout a) (node_layout b)"
      using node [OF ab(1)] node [OF ab(2)] by (auto simp: rows_apart_def apart_x_def apart_y_def SUBNET_PADDING_def)
  qed
  have pset: "fst ` set ?ps = subnet_id ` set (cx_subnets ctx) \<inter> fst ` set layouts"
  proof -
    have "fst ` set ?ps = fst ` set (concat (calculate_subnet_grid_positions_by_layer ctx layouts))"
      using pkeys by (metis set_map)
    also have "\<dots> = subnet_id ` set (cx_subnets ctx) \<inter> fst ` set layouts"
      unfolding grid_rows(3) [OF ids] by (auto simp: map_of_eq_None_iff)
    finally show ?thesis .
  qed
  have "node_id ` set (List.map_filter ?node layouts) = fst ` set layouts \<inter> fst ` set ?ps"
  proof (intro equalityI subsetI)
    fix i assume "i \<in> node_id ` set (List.map_filter ?node layouts)"
    then obtain n where "n \<in> set (List.map_filter ?node layouts)" "i = node_id n" by blast
    with node [of n] show "i \<in> fst ` set layouts \<inter> fst ` set ?ps"
      by (force simp: map_of_eq_None_iff)
  next
    fix i assume "i \<in> fst ` set layouts \<inter> fst ` set ?ps"
    then obtain l where "(i, l) \<in> set layouts" "map_of ?ps i \<noteq> None" by (auto simp: map_of_eq_None_iff)
    then show "i \<in> node_id ` set (List.map_filter ?node layouts)"
      by (force simp: set_map_filter image_iff)
  qed
  then show "node_id ` set (create_subnet_nodes env0 ctx consolidated layouts) =
      subnet_id ` set (cx_subnets ctx) \<inter> fst ` set layouts"
    unfolding ns pset by blast
qed

subsection \<open>The planned map\<close>

lemma push_entry_keys: "distinct (map fst al) \<Longrightarrow> distinct (map fst (push_entry k v al))"
  by (simp add: push_entry_def distinct_update)

lemma mset_update_list:
  assumes "distinct (map fst al)"
  shows "mset (concat (map snd (AList.update k (vs @ [v]) al))) + mset (case map_of al k of Some us \<Rightarrow> us | None \<Rightarrow> []) =
    mset (concat (map snd al)) + mset (vs @ [v])"
  using assms
proof (induction al)
  case (Cons kv al)
  then show ?case by (cases "fst kv = k") (auto simp: case_prod_unfold)
qed simp

lemma push_entry_values:
  assumes "distinct (map fst al)"
  shows "mset (concat (map snd (push_entry k v al))) = add_mset v (mset (concat (map snd al)))"
  using mset_update_list [OF assms, of k "case map_of al k of Some us \<Rightarrow> us | None \<Rightarrow> []" v]
  by (simp add: push_entry_def)

definition grouped_ok :: "Interface list \<Rightarrow> group_state \<Rightarrow> bool" where
  "grouped_ok is st \<longleftrightarrow>
     distinct (map fst (gs_children st)) \<and> distinct (map sc_id (concat (map snd (gs_children st)))) \<and>
     sc_id ` set (concat (map snd (gs_children st))) \<subseteq> interface_id ` set is \<and>
     (\<forall>c \<in> set (concat (map snd (gs_children st))). ux (sc_size c) = 250)"

lemma group_interface_ok:
  assumes st: "grouped_ok is st" and new: "interface_id i \<notin> interface_id ` set is"
  shows "grouped_ok (is @ [i]) (group_interface env0 ctx g m st i)"
proof -
  have push: "grouped_ok (is @ [i]) st'"
    if st': "gs_children st' = push_entry k c (gs_children st)" and c: "sc_id c = interface_id i" "ux (sc_size c) = 250"
    for st' k c
  proof -
    let ?new = "concat (map snd (push_entry k c (gs_children st)))"
    have keys: "distinct (map fst (gs_children st))" using st by (simp add: grouped_ok_def)
    have vals: "mset ?new = add_mset c (mset (concat (map snd (gs_children st))))" by (rule push_entry_values [OF keys])
    then have "mset (map sc_id ?new) = mset (sc_id c # map sc_id (concat (map snd (gs_children st))))"
      by (simp add: mset_map)
    moreover have "sc_id c \<notin> sc_id ` set (concat (map snd (gs_children st)))" using st new c by (auto simp: grouped_ok_def)
    ultimately have "distinct (map sc_id ?new)"
      using st by (metis distinct.simps(2) grouped_ok_def mset_eq_imp_distinct_iff set_map)
    moreover have "set ?new = insert c (set (concat (map snd (gs_children st))))"
      using vals by (metis set_mset_add_mset_insert set_mset_mset)
    ultimately show ?thesis
      using st c push_entry_keys [OF keys] unfolding grouped_ok_def st' by (auto simp del: set_concat)
  qed
  have same: "grouped_ok (is @ [i]) st'" if "gs_children st' = gs_children st" for st'
    using st that by (auto simp: grouped_ok_def)
  have child: "sc_id (interface_child env0 ctx h t i es) = interface_id i"
    "ux (sc_size (interface_child env0 ctx h t i es)) = 250" for h t es
    by (simp_all add: interface_child_def subnet_child_size_from_service_count_def Let_def)
  have "gs_children (group_interface env0 ctx g m st i) = gs_children st \<or>
      (\<exists>k h t es. gs_children (group_interface env0 ctx g m st i) =
         push_entry k (interface_child env0 ctx h t i es) (gs_children st))"
    unfolding group_interface_def Let_def case_prod_unfold by (auto split: option.split)
  then show ?thesis using same push [OF _ child] by blast
qed

lemma grouped_all:
  assumes "distinct (map interface_id is)"
  shows "grouped_ok is (foldl (group_interface env0 ctx g m) \<lparr>gs_edges = es, gs_children = [], gs_docker = []\<rparr> is)"
  using assms
proof (induction "is" rule: rev_induct)
  case (snoc i "is")
  then show ?case using group_interface_ok [of "is" _ i] by simp
qed (simp add: grouped_ok_def)

text \<open>An arranged map: every node once, subnets apart from each other, and the nodes of each subnet apart
  from each other and inside the subnet, with the padding to spare.\<close>

definition map_arranged :: "Node list \<Rightarrow> bool" where
  "map_arranged nodes \<longleftrightarrow>
     distinct (map node_id nodes) \<and> subnets_apart nodes \<and>
     (\<forall>s. nodes_apart (filter (\<lambda>n. \<not> is_subnet_node n \<and> nt_subnet_id (node_type n) = s) nodes)) \<and>
     (\<forall>n \<in> set nodes. \<forall>s \<in> set nodes. \<not> is_subnet_node n \<longrightarrow> is_subnet_node s \<longrightarrow>
        nt_subnet_id (node_type n) = node_id s \<longrightarrow> in_zone 0 (int (ux (node_size s))) (int (uy (node_size s))) n)"

lemma subnet_sized:
  assumes "distinct (map sc_id children)" "calculate_subnet_size env0 ctx subnet children = (sz, w, nodes)"
  shows "mset (map node_id nodes) = mset (map sc_id children)" "nodes_apart nodes"
    and "n \<in> set nodes \<Longrightarrow> nt_subnet_id (node_type n) = subnet \<and> \<not> is_subnet_node n \<and>
      in_zone 0 (int (ux sz)) (int (uy sz)) n"
proof -
  have *: "mset (map node_id nodes) = mset (map sc_id children) \<and> nodes_apart nodes \<and>
        (\<forall>n \<in> set nodes. nt_subnet_id (node_type n) = subnet \<and> \<not> is_subnet_node n \<and>
           in_zone (if nt_is_infra (node_type n) then 0 else int w)
             (if nt_is_infra (node_type n) then int w else int (ux sz)) (int (uy sz)) n)" and "w \<le> ux sz"
    using subnet_nodes_arranged [OF assms(1), of subnet env0 ctx] unfolding subnet_arranged_def assms(2) prod.case
    by simp_all
  show "mset (map node_id nodes) = mset (map sc_id children)" "nodes_apart nodes" using * by simp_all
  show "nt_subnet_id (node_type n) = subnet \<and> \<not> is_subnet_node n \<and> in_zone 0 (int (ux sz)) (int (uy sz)) n"
    if "n \<in> set nodes"
    using * that \<open>w \<le> ux sz\<close> by (auto elim!: in_zone_mono)
qed

lemma planned_children:
  assumes "distinct (map fst cs)" "distinct (map sc_id (concat (map snd cs)))"
    and "plan_subnets env0 ctx cs = (layouts, nodes)"
  shows "map fst layouts = map fst cs"
    and "mset (map node_id nodes) = mset (map sc_id (concat (map snd cs)))"
    and "nodes_apart (filter (\<lambda>n. nt_subnet_id (node_type n) = s) nodes)"
    and "n \<in> set nodes \<Longrightarrow> \<not> is_subnet_node n \<and>
      (\<exists>l. map_of layouts (nt_subnet_id (node_type n)) = Some l \<and>
         in_zone 0 (int (ux (sl_size l))) (int (uy (sl_size l))) n)"
proof -
  let ?size = "\<lambda>k c. calculate_subnet_size env0 ctx k c"
  have layouts: "layouts = map (\<lambda>(k, c). (k, \<lparr>sl_size = fst (?size k c), sl_infra_width = fst (snd (?size k c))\<rparr>)) cs"
    and nodes: "nodes = concat (map (\<lambda>(k, c). snd (snd (?size k c))) cs)"
    using assms(3) by (auto simp: plan_subnets_def Let_def case_prod_unfold comp_def)
  show keys: "map fst layouts = map fst cs" by (simp add: layouts case_prod_unfold comp_def)
  have each: "mset (map node_id (snd (snd (?size k c)))) = mset (map sc_id c) \<and> nodes_apart (snd (snd (?size k c))) \<and>
      (\<forall>n \<in> set (snd (snd (?size k c))). nt_subnet_id (node_type n) = k \<and> \<not> is_subnet_node n \<and>
         in_zone 0 (int (ux (fst (?size k c)))) (int (uy (fst (?size k c)))) n)" if kc: "(k, c) \<in> set cs" for k c
  proof -
    have "distinct (map sc_id c)" using assms(2) kc by (auto simp: map_concat distinct_concat_iff)
    from subnet_sized [OF this, of env0 ctx k "fst (?size k c)" "fst (snd (?size k c))" "snd (snd (?size k c))"]
    show ?thesis by simp
  qed
  show "mset (map node_id nodes) = mset (map sc_id (concat (map snd cs)))"
    unfolding nodes using each by (induction cs) (auto simp: case_prod_unfold)
  have node: "\<exists>c. (nt_subnet_id (node_type n), c) \<in> set cs \<and> n \<in> set (snd (snd (?size (nt_subnet_id (node_type n)) c)))"
    if "n \<in> set nodes" for n
    using that each unfolding nodes by fastforce
  show "\<not> is_subnet_node n \<and> (\<exists>l. map_of layouts (nt_subnet_id (node_type n)) = Some l \<and>
         in_zone 0 (int (ux (sl_size l))) (int (uy (sl_size l))) n)" if n: "n \<in> set nodes"
  proof -
    obtain c where c: "(nt_subnet_id (node_type n), c) \<in> set cs" "n \<in> set (snd (snd (?size (nt_subnet_id (node_type n)) c)))"
      using node [OF n] by blast
    let ?l = "\<lparr>sl_size = fst (?size (nt_subnet_id (node_type n)) c), sl_infra_width = fst (snd (?size (nt_subnet_id (node_type n)) c))\<rparr>"
    have "(nt_subnet_id (node_type n), ?l) \<in> set layouts" using c(1) unfolding layouts by force
    then have "map_of layouts (nt_subnet_id (node_type n)) = Some ?l" using assms(1) keys by simp
    moreover have "\<not> is_subnet_node n" "in_zone 0 (int (ux (sl_size ?l))) (int (uy (sl_size ?l))) n"
      using each [OF c(1), THEN conjunct2, THEN conjunct2, THEN bspec, OF c(2)] by simp_all
    ultimately show ?thesis by blast
  qed
  show "nodes_apart (filter (\<lambda>n. nt_subnet_id (node_type n) = s) nodes)"
    unfolding nodes_apart_def
  proof (intro ballI impI)
    fix a b assume a: "a \<in> set (filter (\<lambda>n. nt_subnet_id (node_type n) = s) nodes)"
      and b: "b \<in> set (filter (\<lambda>n. nt_subnet_id (node_type n) = s) nodes)" and ne: "node_id a \<noteq> node_id b"
    obtain c d where cd: "(s, c) \<in> set cs" "a \<in> set (snd (snd (?size s c)))" "(s, d) \<in> set cs" "b \<in> set (snd (snd (?size s d)))"
      using node [of a] node [of b] a b by auto
    then have "d = c" using assms(1) by (metis eq_key_imp_eq_value)
    with each [OF cd(1)] cd ne show "layouts_apart NODE_PADDING (node_layout a) (node_layout b)"
      unfolding nodes_apart_def by blast
  qed
qed


lemma planned_map_arranged:
  assumes ids: "distinct (map subnet_id (cx_subnets ctx))" "distinct (map interface_id (cx_interfaces ctx))"
      "subnet_id ` set (cx_subnets ctx) \<inter> interface_id ` set (cx_interfaces ctx) = {}"
    and plan: "create_subnet_child_nodes env0 ctx edges g m = ((layouts, nodes), edges', consolidated)"
  shows "map_arranged (create_subnet_nodes env0 ctx consolidated layouts @ nodes)"
proof -
  let ?st = "foldl (group_interface env0 ctx g m) \<lparr>gs_edges = edges, gs_children = [], gs_docker = []\<rparr> (cx_interfaces ctx)"
  let ?cs = "gs_children ?st" and ?ss = "create_subnet_nodes env0 ctx consolidated layouts"
  have ok: "grouped_ok (cx_interfaces ctx) ?st" by (rule grouped_all [OF ids(2)])
  then have cs: "distinct (map fst ?cs)" "distinct (map sc_id (concat (map snd ?cs)))"
    by (simp_all add: grouped_ok_def)
  have "plan_subnets env0 ctx ?cs = (layouts, nodes)"
    using plan by (simp add: create_subnet_child_nodes_def group_children_by_subnet_def Let_def)
  note children = planned_children [OF cs this]
  have keys: "distinct (map fst layouts)" using children(1) cs(1) by simp
  note subnets = subnet_nodes_apart [OF ids(1) keys, of env0 consolidated]
  have node_ids: "distinct (map node_id nodes)"
    using children(2) cs(2) by (metis mset_eq_imp_distinct_iff)
  have child_ids: "node_id ` set nodes \<subseteq> interface_id ` set (cx_interfaces ctx)"
    using mset_eq_setD [OF children(2)] ok unfolding grouped_ok_def by (metis set_map)
  have "distinct (map node_id (?ss @ nodes))"
    using subnets(3,4) node_ids child_ids ids(3) by auto
  moreover have "subnets_apart (?ss @ nodes)"
    using subnets(1) children(4) by (auto simp: subnets_apart_def)
  moreover have "nodes_apart (filter (\<lambda>n. \<not> is_subnet_node n \<and> nt_subnet_id (node_type n) = s) (?ss @ nodes))" for s
  proof -
    have "filter (\<lambda>n. \<not> is_subnet_node n \<and> nt_subnet_id (node_type n) = s) (?ss @ nodes) =
        filter (\<lambda>n. nt_subnet_id (node_type n) = s) nodes"
      using subnets(2) children(4) by (auto simp: filter_empty_conv intro!: filter_cong)
    with children(3) show ?thesis by simp
  qed
  moreover have "in_zone 0 (int (ux (node_size s))) (int (uy (node_size s))) n"
    if "n \<in> set (?ss @ nodes)" "s \<in> set (?ss @ nodes)" "\<not> is_subnet_node n" "is_subnet_node s"
      "nt_subnet_id (node_type n) = node_id s" for n s
  proof -
    have n: "n \<in> set nodes" and s: "s \<in> set ?ss" using that subnets(2) children(4) by auto
    from subnets(2) s have "map_option sl_size (map_of layouts (node_id s)) = Some (node_size s)" by blast
    with children(4) [OF n] that(5) show ?thesis by auto
  qed
  ultimately show ?thesis unfolding map_arranged_def by blast
qed

text \<open>A service with a binding to all interfaces of its host is counted among the services of every
  interface of the network, whichever host the interface is on: from that list the planner decides
  whether the interface gets a node, and how large the node is.\<close>

theorem foreign_services_counted:
  assumes "s \<in> set (cx_services ctx)" and "b \<in> set (svb_bindings (service_base s))" and "Binding_interface_id b = None"
  shows "list_all (\<lambda>i. s \<in> set (interface_bound_services ctx i)) (cx_interfaces ctx)"
  using assms by (force simp: interface_bound_services_def list_all_iff list_ex_iff)

text \<open>A network with one subnet and two hosts; the service runs on the first host and is bound to a port
  on all its interfaces.\<close>

definition sample_map_service :: Service where
  "sample_map_service =
     Service_new 9 0 (ServiceBase_default\<lparr>svb_host_id := 4, svb_network_id := 2, svb_name := ''web'',
       svb_bindings := [Binding_new 11 0 \<lparr>bb_service_id = 9, bb_network_id = 2, bb_binding_type = BindingType_Port 10 None\<rparr>]\<rparr>)"

definition sample_map_host :: "uuid \<Rightarrow> Host" where
  "sample_map_host i =
     Host_new i 0 \<lparr>hb_name = ''host'', hb_network_id = 2, hb_hostname = None, hb_description = None,
       hb_source = EntitySource_Manual, hb_virtualization = None, hb_hidden = False, hb_tags = []\<rparr>"

definition sample_map :: TopologyContext where
  "sample_map =
     \<lparr>cx_hosts = [sample_map_host 4, sample_map_host 8],
      cx_interfaces = [sample_interface, sample_interface\<lparr>interface_id := 7,
        interface_base := (interface_base sample_interface)\<lparr>ib_host_id := 8\<rparr>\<rparr>],
      cx_subnets = [sample_subnet], cx_services = [sample_map_service], cx_groups = [], cx_ports = [], cx_bindings = [],
      cx_options = TopologyOptions_default\<rparr>"

lemmas sample_map_defs = sample_map_def sample_map_service_def sample_map_host_def sample_interface_def sample_subnet_def
  Service_new_def Binding_new_def Host_new_def Interface_new_def Subnet_new_def

theorem foreign_services_counted_witness:
  "sample_map_service \<in> set (interface_bound_services sample_map (cx_interfaces sample_map ! 1)) \<and>
     svb_host_id (service_base sample_map_service) \<noteq> ib_host_id (interface_base (cx_interfaces sample_map ! 1))"
  using foreign_services_counted [of sample_map_service sample_map
      "Binding_new 11 0 \<lparr>bb_service_id = 9, bb_network_id = 2, bb_binding_type = BindingType_Port 10 None\<rparr>"]
  by (simp add: sample_map_defs Binding_interface_id_def)

end
