(* ===== verification/Optimizer.thy ===== *)
theory Optimizer
  imports Subnet_Planner
begin

section \<open>Optimising a map\<close>

text \<open>
  \<open>TopologyOptimizer\<close> with \<open>OptimizerUtils\<close>, \<open>SubnetPositioner\<close> and \<open>ChildPositioner\<close>
  (\<^verbatim>\<open>backend/src/server/topology/service/optimizer/main.rs\<close>, \<^verbatim>\<open>utils.rs\<close>, \<^verbatim>\<open>subnet_positioner.rs\<close>,
  \<^verbatim>\<open>child_positioner.rs\<close>): subnets are moved within their rows to straighten edges, then closed up,
  nodes are closed up within their columns, and the handles of edges within a subnet are chosen.

  A finite \<open>f64\<close> is modelled as a rational number and an operation on \<open>f64\<close> as the exact operation
  followed by \<open>oe_round\<close>; \<open>oe_sqrt\<close> is the rounded square root. Where a computation on \<open>f64\<close> only
  handles small integers it is exact, and is modelled on integers: the median of desired positions
  with weights 1 and 100, and the snapping to the grid (lemma \<open>snap_to_grid_f64\<close>).
\<close>

record optimizer_env =
  oe_round :: "rat \<Rightarrow> rat"
  oe_sqrt :: "rat \<Rightarrow> rat"

subsection \<open>Quality of a layout\<close>

record LayoutQuality =
  lq_total_edge_length :: rat
  lq_edge_crossings :: nat
  lq_weighted_score :: rat

definition LayoutQuality_new :: "optimizer_env \<Rightarrow> rat \<Rightarrow> nat \<Rightarrow> LayoutQuality" where
  "LayoutQuality_new env0 total_edge_length edge_crossings =
     \<lparr>lq_total_edge_length = total_edge_length, lq_edge_crossings = edge_crossings,
      lq_weighted_score =
        oe_round env0 (oe_round env0 (oe_round env0 (of_nat edge_crossings) * 10000) + total_edge_length)\<rparr>"

definition is_better_than :: "LayoutQuality \<Rightarrow> LayoutQuality \<Rightarrow> bool" where
  "is_better_than a b \<longleftrightarrow> lq_weighted_score a < lq_weighted_score b"

definition improvement_percentage :: "optimizer_env \<Rightarrow> LayoutQuality \<Rightarrow> LayoutQuality \<Rightarrow> rat" where
  "improvement_percentage env0 a previous =
     (if lq_weighted_score previous = 0 then 0
      else oe_round env0 (oe_round env0
        (oe_round env0 (lq_weighted_score previous - lq_weighted_score a) / lq_weighted_score previous) * 100))"

definition build_subnet_positions_map :: "Node list \<Rightarrow> uuid \<rightharpoonup> Ixy" where
  "build_subnet_positions_map nodes =
     map_of (rev (map (\<lambda>n. (node_id n, node_position n)) (filter is_subnet_node nodes)))"

definition get_absolute_node_center :: "Node \<Rightarrow> (uuid \<rightharpoonup> Ixy) \<Rightarrow> Ixy" where
  "get_absolute_node_center node subnet_positions =
     (let abs_pos = \<lparr>ix = ix (node_position node) + int (ux (node_size node) div 2),
                     iy = iy (node_position node) + int (uy (node_size node) div 2)\<rparr>
      in case node_type node of
           NodeType_InterfaceNode subnet _ _ _ \<Rightarrow>
             (case subnet_positions subnet of
                Some p \<Rightarrow> Ixy_add abs_pos (ix p) (iy p)
              | None \<Rightarrow> abs_pos)
         | NodeType_SubnetNode _ \<Rightarrow> abs_pos)"

definition node_map :: "Node list \<Rightarrow> uuid \<rightharpoonup> Node" where
  "node_map nodes = map_of (rev (map (\<lambda>n. (node_id n, n)) nodes))"

definition distance :: "optimizer_env \<Rightarrow> Ixy \<Rightarrow> Ixy \<Rightarrow> rat" where
  "distance env0 p q =
     (let r = oe_round env0;
          dx = r (r (of_int (ix q)) - r (of_int (ix p)));
          dy = r (r (of_int (iy q)) - r (of_int (iy p)))
      in oe_sqrt env0 (r (r (dx * dx) + r (dy * dy))))"

definition edge_weight :: "Edge \<Rightarrow> nat" where
  "edge_weight edge =
     (let source_is_horizontal = EdgeHandle_is_horizontal (edge_source_handle edge);
          target_is_horizontal = EdgeHandle_is_horizontal (edge_target_handle edge)
      in if source_is_horizontal \<and> target_is_horizontal then 0
         else if edge_is_multi_hop edge then 0
         else if source_is_horizontal \<or> target_is_horizontal then 1
         else 100)"

definition calculate_total_edge_length :: "optimizer_env \<Rightarrow> Node list \<Rightarrow> Edge list \<Rightarrow> rat" where
  "calculate_total_edge_length env0 nodes edges =
     (let subnet_positions = build_subnet_positions_map nodes
      in foldl (\<lambda>total_weighted_length edge.
           case (node_map nodes (edge_source edge), node_map nodes (edge_target edge)) of
             (Some src_node, Some tgt_node) \<Rightarrow>
               if edge_weight edge = 0 then total_weighted_length
               else oe_round env0 (total_weighted_length + oe_round env0
                 (distance env0 (get_absolute_node_center src_node subnet_positions)
                    (get_absolute_node_center tgt_node subnet_positions) * of_nat (edge_weight edge)))
           | _ \<Rightarrow> total_weighted_length) 0 edges)"

definition direction :: "optimizer_env \<Rightarrow> Ixy \<Rightarrow> Ixy \<Rightarrow> Ixy \<Rightarrow> rat" where
  "direction env0 p1 p2 p3 =
     (let r = oe_round env0; f = (\<lambda>z. r (of_int z))
      in r (r (r (f (ix p3) - f (ix p1)) * r (f (iy p2) - f (iy p1))) -
            r (r (f (iy p3) - f (iy p1)) * r (f (ix p2) - f (ix p1)))))"

definition on_segment :: "optimizer_env \<Rightarrow> Ixy \<Rightarrow> Ixy \<Rightarrow> Ixy \<Rightarrow> bool" where
  "on_segment env0 p1 p2 p \<longleftrightarrow>
     (let f = (\<lambda>z. oe_round env0 (of_int z))
      in f (ix p) \<le> max (f (ix p1)) (f (ix p2)) \<and> f (ix p) \<ge> min (f (ix p1)) (f (ix p2)) \<and>
         f (iy p) \<le> max (f (iy p1)) (f (iy p2)) \<and> f (iy p) \<ge> min (f (iy p1)) (f (iy p2)))"

definition segments_intersect :: "optimizer_env \<Rightarrow> Ixy \<Rightarrow> Ixy \<Rightarrow> Ixy \<Rightarrow> Ixy \<Rightarrow> bool" where
  "segments_intersect env0 p1 p2 p3 p4 \<longleftrightarrow>
     (let d1 = direction env0 p3 p4 p1; d2 = direction env0 p3 p4 p2;
          d3 = direction env0 p1 p2 p3; d4 = direction env0 p1 p2 p4;
          epsilon = 1 / 2 ^ 52
      in ((d1 > 0 \<and> d2 < 0) \<or> (d1 < 0 \<and> d2 > 0)) \<and> ((d3 > 0 \<and> d4 < 0) \<or> (d3 < 0 \<and> d4 > 0)) \<or>
         \<bar>d1\<bar> < epsilon \<and> on_segment env0 p3 p4 p1 \<or>
         \<bar>d2\<bar> < epsilon \<and> on_segment env0 p3 p4 p2 \<or>
         \<bar>d3\<bar> < epsilon \<and> on_segment env0 p1 p2 p3 \<or>
         \<bar>d4\<bar> < epsilon \<and> on_segment env0 p1 p2 p4)"

definition edges_cross :: "optimizer_env \<Rightarrow> Edge \<Rightarrow> Edge \<Rightarrow> (uuid \<rightharpoonup> Node) \<Rightarrow> (uuid \<rightharpoonup> Ixy) \<Rightarrow> bool" where
  "edges_cross env0 edge1 edge2 nodes subnet_positions =
     (if edge_source edge1 = edge_source edge2 \<or> edge_source edge1 = edge_target edge2 \<or>
         edge_target edge1 = edge_source edge2 \<or> edge_target edge1 = edge_target edge2 \<or>
         edge_is_multi_hop edge1 \<or> edge_is_multi_hop edge2 then False
      else
        case (nodes (edge_source edge1), nodes (edge_target edge1), nodes (edge_source edge2), nodes (edge_target edge2)) of
          (Some n1, Some n2, Some n3, Some n4) \<Rightarrow>
            segments_intersect env0 (get_absolute_node_center n1 subnet_positions)
              (get_absolute_node_center n2 subnet_positions) (get_absolute_node_center n3 subnet_positions)
              (get_absolute_node_center n4 subnet_positions)
        | _ \<Rightarrow> False)"

fun count_pairs :: "('a \<Rightarrow> 'a \<Rightarrow> bool) \<Rightarrow> 'a list \<Rightarrow> nat" where
  "count_pairs P [] = 0"
| "count_pairs P (x # xs) = length (filter (P x) xs) + count_pairs P xs"

definition count_edge_crossings :: "optimizer_env \<Rightarrow> Node list \<Rightarrow> Edge list \<Rightarrow> nat" where
  "count_edge_crossings env0 nodes edges =
     count_pairs (\<lambda>e1 e2. edges_cross env0 e1 e2 (node_map nodes) (build_subnet_positions_map nodes)) edges"

definition calculate_layout_quality :: "optimizer_env \<Rightarrow> Node list \<Rightarrow> Edge list \<Rightarrow> LayoutQuality" where
  "calculate_layout_quality env0 nodes edges =
     LayoutQuality_new env0 (calculate_total_edge_length env0 nodes edges) (count_edge_crossings env0 nodes edges)"

subsection \<open>Rows of subnets\<close>

text \<open>\<open>iter_mut().find(..)\<close>: the first node with the identifier is moved.\<close>

fun set_x :: "uuid \<Rightarrow> int \<Rightarrow> Node list \<Rightarrow> Node list" where
  "set_x i x [] = []"
| "set_x i x (n # ns) =
     (if node_id n = i then n\<lparr>node_position := (node_position n)\<lparr>ix := x\<rparr>\<rparr> # ns else n # set_x i x ns)"

definition snap_to_grid :: "int \<Rightarrow> int" where
  "snap_to_grid x = ((2 * x + 25) div 50) * 25"

definition subnet_ids_of :: "Node list \<Rightarrow> uuid list" where
  "subnet_ids_of nodes = map node_id (filter is_subnet_node nodes)"

definition find_node :: "uuid \<Rightarrow> Node list \<Rightarrow> Node option" where
  "find_node i nodes = find (\<lambda>n. node_id n = i) nodes"

definition group_subnets_by_layer :: "Node list \<Rightarrow> uuid list \<Rightarrow> uuid list list" where
  "group_subnets_by_layer nodes ids =
     (let keyed = List.map_filter (\<lambda>i. map_option (\<lambda>n. (iy (node_position n), i)) (find_node i nodes)) ids
      in map (\<lambda>y. map snd (filter (\<lambda>(y', _). y' = y) keyed)) (sort (remdups (map fst keyed))))"

definition handle_x :: "int \<Rightarrow> nat \<Rightarrow> EdgeHandle \<Rightarrow> int" where
  "handle_x x w handle =
     (case handle of
        EdgeHandle_Left \<Rightarrow> x
      | EdgeHandle_Right \<Rightarrow> x + int w
      | _ \<Rightarrow> x + int (w div 2))"

definition other_handle_absolute_x :: "Node \<Rightarrow> Node \<Rightarrow> EdgeHandle \<Rightarrow> int" where
  "other_handle_absolute_x other_node other_subnet other_handle =
     (case node_type other_node of
        NodeType_SubnetNode _ \<Rightarrow> handle_x (ix (node_position other_node)) (ux (node_size other_node)) other_handle
      | NodeType_InterfaceNode _ _ _ _ \<Rightarrow>
          handle_x (ix (node_position other_subnet) + ix (node_position other_node))
            (ux (node_size other_node)) other_handle)"

definition desired_subnet_x :: "Node \<Rightarrow> EdgeHandle \<Rightarrow> int \<Rightarrow> int" where
  "desired_subnet_x my_node my_handle other_x =
     (case node_type my_node of
        NodeType_SubnetNode _ \<Rightarrow> other_x - handle_x 0 (ux (node_size my_node)) my_handle
      | NodeType_InterfaceNode _ _ _ _ \<Rightarrow>
          other_x - ix (node_position my_node) - handle_x 0 (ux (node_size my_node)) my_handle)"

definition neighbor_position ::
    "Node list \<Rightarrow> uuid \<Rightarrow> uuid list list \<Rightarrow> nat \<Rightarrow> bool \<Rightarrow> Edge \<Rightarrow> (int \<times> nat) option" where
  "neighbor_position nodes subnet layers layer_idx down_sweep edge =
     (let source_subnet = get_node_subnet (edge_source edge) nodes;
          target_subnet = get_node_subnet (edge_target edge) nodes
      in case (if source_subnet = Some subnet then Some (edge_source edge, edge_target edge, target_subnet, True)
               else if target_subnet = Some subnet then Some (edge_target edge, edge_source edge, source_subnet, False)
               else None) of
           Some (my_node_id, other_node_id, Some other_subnet_id, i_am_source) \<Rightarrow>
             (case find (\<lambda>idx. other_subnet_id \<in> set (layers ! idx)) [0..<length layers] of
                Some other_idx \<Rightarrow>
                  if \<not> (if down_sweep then other_idx < layer_idx else layer_idx < other_idx) then None
                  else if edge_weight edge = 0 then None
                  else (case (find_node my_node_id nodes, find_node other_node_id nodes, find_node other_subnet_id nodes) of
                          (Some my_node, Some other_node, Some other_subnet) \<Rightarrow>
                            let other_handle = (if i_am_source then edge_target_handle edge else edge_source_handle edge);
                                my_handle = (if i_am_source then edge_source_handle edge else edge_target_handle edge)
                            in Some (desired_subnet_x my_node my_handle
                                       (other_handle_absolute_x other_node other_subnet other_handle),
                                     edge_weight edge)
                        | _ \<Rightarrow> None)
              | None \<Rightarrow> None)
         | _ \<Rightarrow> None)"

text \<open>The first value at which the weights add up to half of the whole.\<close>

fun median_from :: "nat \<Rightarrow> nat \<Rightarrow> (int \<times> nat) list \<Rightarrow> int option" where
  "median_from total_weight cumulative_weight [] = None"
| "median_from total_weight cumulative_weight ((value, weight) # values) =
     (if 2 * (cumulative_weight + weight) \<ge> total_weight then Some value
      else median_from total_weight (cumulative_weight + weight) values)"

definition calculate_weighted_median :: "(int \<times> nat) list \<Rightarrow> int" where
  "calculate_weighted_median values =
     (case values of
        [] \<Rightarrow> 0
      | [(v, _)] \<Rightarrow> v
      | _ \<Rightarrow>
          let ordered = sort_key fst values; total_weight = sum_list (map snd ordered)
          in case median_from total_weight 0 ordered of
               Some v \<Rightarrow> v
             | None \<Rightarrow> fst (last ordered))"

definition calculate_barycenter_position ::
    "Node list \<Rightarrow> Edge list \<Rightarrow> uuid \<Rightarrow> uuid list list \<Rightarrow> nat \<Rightarrow> bool \<Rightarrow> int" where
  "calculate_barycenter_position nodes edges subnet layers layer_idx down_sweep =
     (case find_node subnet nodes of
        None \<Rightarrow> 0
      | Some current_subnet \<Rightarrow>
          let neighbor_positions = List.map_filter (neighbor_position nodes subnet layers layer_idx down_sweep) edges
          in if neighbor_positions = [] then ix (node_position current_subnet)
             else calculate_weighted_median neighbor_positions)"

definition has_overlap :: "(int \<times> int) list \<Rightarrow> int \<Rightarrow> int \<Rightarrow> bool" where
  "has_overlap others width x =
     list_ex (\<lambda>(other_x, other_width).
       x < other_x + other_width + 125 \<and> x + width + 125 > other_x) others"

text \<open>The candidate closest to the proposed position; the distance \<open>isize::MAX\<close> of the source stands for
  no candidate so far.\<close>

definition closest :: "int \<Rightarrow> int list \<Rightarrow> int" where
  "closest proposed_x candidates =
     fst (foldl (\<lambda>(best_x, best_distance) candidate.
       let d = \<bar>proposed_x - candidate\<bar>
       in if (case best_distance of None \<Rightarrow> True | Some b \<Rightarrow> d < b) then (candidate, Some d)
          else (best_x, best_distance)) (proposed_x, None) candidates)"

definition apply_non_overlap_constraint :: "Node list \<Rightarrow> uuid \<Rightarrow> int \<Rightarrow> (uuid \<rightharpoonup> int) \<Rightarrow> int" where
  "apply_non_overlap_constraint nodes subnet proposed_x already_positioned =
     (case find_node subnet nodes of
        None \<Rightarrow> proposed_x
      | Some current_subnet \<Rightarrow>
          let width = int (ux (node_size current_subnet));
              other_subnets =
                sort_key fst (map (\<lambda>other.
                    (case already_positioned (node_id other) of Some x \<Rightarrow> x | None \<Rightarrow> ix (node_position other),
                     int (ux (node_size other))))
                  (filter (\<lambda>other. is_subnet_node other \<and> node_id other \<noteq> subnet \<and>
                     iy (node_position other) = iy (node_position current_subnet)) nodes))
          in if \<not> has_overlap other_subnets width proposed_x then proposed_x
             else closest proposed_x
               (filter (\<lambda>x. \<not> has_overlap other_subnets width x)
                 (map (\<lambda>(other_x, _). other_x - width - 125) other_subnets @
                  map (\<lambda>(other_x, other_width). other_x + other_width + 125) other_subnets)))"

definition optimize_layer :: "Edge list \<Rightarrow> uuid list list \<Rightarrow> bool \<Rightarrow> Node list \<Rightarrow> nat \<Rightarrow> Node list" where
  "optimize_layer edges layers down_sweep nodes layer_idx =
     fst (foldl (\<lambda>(nodes, positioned_in_layer) subnet.
       let optimal_x = calculate_barycenter_position nodes edges subnet layers layer_idx down_sweep;
           constrained_x = apply_non_overlap_constraint nodes subnet optimal_x positioned_in_layer
       in (set_x subnet constrained_x nodes, positioned_in_layer(subnet \<mapsto> constrained_x)))
       (nodes, Map.empty) (layers ! layer_idx))"

definition sweep :: "Edge list \<Rightarrow> uuid list list \<Rightarrow> Node list \<Rightarrow> Node list" where
  "sweep edges layers nodes =
     (let down = foldl (optimize_layer edges layers True) nodes [1..<length layers]
      in foldl (optimize_layer edges layers False) down (rev [0..<length layers - 1]))"

fun sweeps :: "optimizer_env \<Rightarrow> Edge list \<Rightarrow> uuid list list \<Rightarrow> nat \<Rightarrow> Node list \<Rightarrow> Node list" where
  "sweeps env0 edges layers 0 nodes = nodes"
| "sweeps env0 edges layers (Suc k) nodes =
     (let prev_length = calculate_total_edge_length env0 nodes edges;
          swept = sweep edges layers nodes;
          new_length = calculate_total_edge_length env0 swept edges
      in if oe_round env0 (prev_length - new_length) < 1 then swept
         else sweeps env0 edges layers k swept)"

definition snap_subnet :: "Node list \<Rightarrow> uuid \<Rightarrow> Node list" where
  "snap_subnet nodes i =
     (case find_node i nodes of
        Some n \<Rightarrow> set_x i (snap_to_grid (ix (node_position n))) nodes
      | None \<Rightarrow> nodes)"

definition optimize_subnet_positions ::
    "optimizer_env \<Rightarrow> TopologyContext \<Rightarrow> Edge list \<Rightarrow> Node list \<Rightarrow> Node list" where
  "optimize_subnet_positions env0 ctx edges nodes =
     (let ids = subnet_ids_of nodes
      in if ids = [] then nodes
         else
           let inter_subnet_edges = filter (\<lambda>e. \<not> edge_is_intra_subnet ctx e) edges;
               layers = group_subnets_by_layer nodes ids
           in foldl snap_subnet (sweeps env0 inter_subnet_edges layers 10 nodes) ids)"

subsection \<open>Closing up the rows\<close>

text \<open>\<open>compress_layer\<close> works on the subnets of a row in the order of their positions: identifier,
  position, width and whether the subnet is locked.\<close>

record subnet_info =
  si_id :: uuid
  si_x :: int
  si_width :: int
  si_locked :: bool

definition find_locked_subnets :: "TopologyContext \<Rightarrow> Node list \<Rightarrow> Edge list \<Rightarrow> uuid set" where
  "find_locked_subnets ctx nodes edges =
     foldl (\<lambda>locked edge.
       if edge_is_intra_subnet ctx edge \<or> edge_is_multi_hop edge then locked
       else if EdgeHandle_is_horizontal (edge_source_handle edge) \<and> EdgeHandle_is_horizontal (edge_target_handle edge)
       then locked
       else locked \<union> set_option (get_node_subnet (edge_source edge) nodes)
              \<union> set_option (get_node_subnet (edge_target edge) nodes)) {} edges"

fun compress_toward_left_from :: "int \<Rightarrow> int \<Rightarrow> subnet_info list \<Rightarrow> Node list \<Rightarrow> Node list" where
  "compress_toward_left_from padding current_x [] nodes = nodes"
| "compress_toward_left_from padding current_x (s # infos) nodes =
     (case find_node (si_id s) nodes of
        Some _ \<Rightarrow> compress_toward_left_from padding (current_x + (si_width s + padding)) infos
                   (set_x (si_id s) current_x nodes)
      | None \<Rightarrow> compress_toward_left_from padding current_x infos nodes)"

definition compress_toward_left :: "int \<Rightarrow> subnet_info list \<Rightarrow> Node list \<Rightarrow> Node list" where
  "compress_toward_left padding infos nodes =
     (case infos of
        [] \<Rightarrow> nodes
      | s # _ \<Rightarrow> compress_toward_left_from padding (si_x s) infos nodes)"

text \<open>The unlocked subnets between two locked ones: the locked subnet before them, the one after them.\<close>

type_synonym segment = "subnet_info option \<times> subnet_info option \<times> subnet_info list"

fun segments_from :: "subnet_info option \<Rightarrow> subnet_info list \<Rightarrow> subnet_info list \<Rightarrow> segment list" where
  "segments_from segment_start current [] =
     (if current \<noteq> [] then [(segment_start, None, current)] else [])"
| "segments_from segment_start current (s # infos) =
     (if si_locked s then
        (if current \<noteq> [] then [(segment_start, Some s, current)] else []) @ segments_from (Some s) [] infos
      else segments_from segment_start (current @ [s]) infos)"

fun pack_min :: "int \<Rightarrow> int \<Rightarrow> subnet_info list \<Rightarrow> (uuid \<times> int) list" where
  "pack_min padding current_x [] = []"
| "pack_min padding current_x (s # infos) =
     (let new_x = min current_x (si_x s) in (si_id s, new_x) # pack_min padding (new_x + si_width s + padding) infos)"

fun pack :: "int \<Rightarrow> int \<Rightarrow> subnet_info list \<Rightarrow> (uuid \<times> int) list" where
  "pack padding current_x [] = []"
| "pack padding current_x (s # infos) = (si_id s, current_x) # pack padding (current_x + (si_width s + padding)) infos"

definition original_positions :: "subnet_info list \<Rightarrow> (uuid \<times> int) list" where
  "original_positions infos = map (\<lambda>s. (si_id s, si_x s)) infos"

text \<open>The check against the locked subnet on the right reads the new position of the last unlocked one.\<close>

definition unless_overlapping :: "int \<Rightarrow> int \<Rightarrow> subnet_info list \<Rightarrow> (uuid \<times> int) list \<Rightarrow> (uuid \<times> int) list" where
  "unless_overlapping padding right_anchor_x infos positions =
     (case map_of (rev positions) (si_id (last infos)) of
        Some last_x \<Rightarrow>
          if last_x + si_width (last infos) + padding > right_anchor_x then original_positions infos else positions
      | None \<Rightarrow> positions)"

fun segment_positions :: "int \<Rightarrow> segment \<Rightarrow> (uuid \<times> int) list" where
  "segment_positions padding (Some left, Some right, infos) =
     unless_overlapping padding (si_x right) infos (pack_min padding (si_x left + si_width left + padding) infos)"
| "segment_positions padding (Some left, None, infos) = pack_min padding (si_x left + si_width left + padding) infos"
| "segment_positions padding (None, Some right, infos) =
     (case infos of
        [] \<Rightarrow> []
      | s # _ \<Rightarrow> unless_overlapping padding (si_x right) infos (pack padding (si_x s) infos))"
| "segment_positions padding (None, None, infos) = []"

definition apply_positions :: "(uuid \<times> int) list \<Rightarrow> Node list \<Rightarrow> Node list" where
  "apply_positions positions nodes = foldl (\<lambda>nodes (i, x). set_x i x nodes) nodes positions"

text \<open>A segment without a locked neighbour occurs only when nothing is locked; it ends the function at
  once. The new positions are a \<open>HashMap\<close>: every identifier has one, so the order in which they are
  written does not matter (lemma \<open>apply_positions_perm\<close>).\<close>

definition compress_toward_locked :: "int \<Rightarrow> subnet_info list \<Rightarrow> Node list \<Rightarrow> Node list" where
  "compress_toward_locked padding infos nodes =
     (let segments = segments_from None [] infos
      in case find (\<lambda>(l, r, _). l = None \<and> r = None) segments of
           Some (_, _, unlocked) \<Rightarrow> compress_toward_left padding unlocked nodes
         | None \<Rightarrow>
             apply_positions (original_positions (filter si_locked infos) @ concat (map (segment_positions padding) segments)) nodes)"

definition layer_infos :: "uuid set \<Rightarrow> Node list \<Rightarrow> uuid list \<Rightarrow> subnet_info list" where
  "layer_infos locked nodes layer =
     sort_key si_x (List.map_filter (\<lambda>i. map_option (\<lambda>n.
       \<lparr>si_id = i, si_x = ix (node_position n), si_width = int (ux (node_size n)), si_locked = i \<in> locked\<rparr>)
       (find_node i nodes)) layer)"

definition compress_layer :: "uuid set \<Rightarrow> Node list \<Rightarrow> uuid list \<Rightarrow> Node list" where
  "compress_layer locked nodes layer =
     (if length layer < 2 then nodes
      else
        let infos = layer_infos locked nodes layer
        in if filter si_locked infos = [] then compress_toward_left 125 infos nodes
           else compress_toward_locked 125 infos nodes)"

definition snap_node :: "Node \<Rightarrow> Node" where
  "snap_node n =
     (if is_subnet_node n
      then n\<lparr>node_position := (node_position n)\<lparr>ix := snap_to_grid (ix (node_position n))\<rparr>\<rparr> else n)"

definition compress_horizontal_spacing :: "TopologyContext \<Rightarrow> Edge list \<Rightarrow> Node list \<Rightarrow> Node list" where
  "compress_horizontal_spacing ctx edges nodes =
     (let locked = find_locked_subnets ctx nodes edges;
          layers = group_subnets_by_layer nodes (subnet_ids_of nodes)
      in map snap_node (foldl (compress_layer locked) nodes layers))"

subsection \<open>Closing up the columns\<close>

definition column_key :: "Node \<Rightarrow> (uuid \<times> int) option" where
  "column_key n =
     (case node_type n of
        NodeType_InterfaceNode subnet _ _ _ \<Rightarrow> Some (subnet, ix (node_position n))
      | NodeType_SubnetNode _ \<Rightarrow> None)"

definition column_indices :: "Node list \<Rightarrow> uuid \<times> int \<Rightarrow> nat list" where
  "column_indices nodes k = filter (\<lambda>i. column_key (nodes ! i) = Some k) [0..<length nodes]"

definition subnet_min_y :: "Node list \<Rightarrow> uuid \<Rightarrow> int" where
  "subnet_min_y nodes subnet =
     (case map (\<lambda>n. iy (node_position n)) (filter (\<lambda>n. map_option fst (column_key n) = Some subnet) nodes) of
        [] \<Rightarrow> 0
      | y # ys \<Rightarrow> fold min ys y)"

fun stack_column :: "int \<Rightarrow> nat list \<Rightarrow> Node list \<Rightarrow> Node list" where
  "stack_column y [] nodes = nodes"
| "stack_column y (i # indices) nodes =
     (let n = nodes ! i
      in stack_column (y + int (uy (node_size n)) + int (uy NODE_PADDING)) indices
           (nodes[i := n\<lparr>node_position := (node_position n)\<lparr>iy := y\<rparr>\<rparr>]))"

definition compress_column :: "(uuid \<Rightarrow> int) \<Rightarrow> (uuid \<times> int \<Rightarrow> nat list) \<Rightarrow> Node list \<Rightarrow> uuid \<times> int \<Rightarrow> Node list" where
  "compress_column min_y indices nodes k =
     stack_column (min_y (fst k)) (sort_key (\<lambda>i. iy (node_position (nodes ! i))) (indices k)) nodes"

text \<open>The columns are the keys of a \<open>HashMap\<close> and disjoint: the order in which they are closed up does
  not matter.\<close>

definition compress_vertical_spacing :: "Node list \<Rightarrow> Node list" where
  "compress_vertical_spacing nodes =
     foldl (compress_column (subnet_min_y nodes) (column_indices nodes)) nodes
       (remdups (List.map_filter column_key nodes))"

subsection \<open>Handles within a subnet\<close>

definition all_handles :: "rat \<Rightarrow> (EdgeHandle \<times> rat \<times> rat) list" where
  "all_handles scale =
     [(EdgeHandle_Top, 0, - scale), (EdgeHandle_Bottom, 0, scale), (EdgeHandle_Left, - scale, 0),
      (EdgeHandle_Right, scale, 0)]"

definition handle_score ::
    "optimizer_env \<Rightarrow> rat \<Rightarrow> rat \<Rightarrow> EdgeHandle \<times> rat \<times> rat \<Rightarrow> EdgeHandle \<times> rat \<times> rat \<Rightarrow> rat" where
  "handle_score env0 relative_x relative_y s t =
     (case (s, t) of ((src_handle, src_dx, src_dy), (tgt_handle, tgt_dx, tgt_dy)) \<Rightarrow>
        let r = oe_round env0;
            path_x = r (r (relative_x + tgt_dx) - r (0 + src_dx));
            path_y = r (r (relative_y + tgt_dy) - r (0 + src_dy));
            dist = r (\<bar>path_x\<bar> + \<bar>path_y\<bar>);
            is_aligned = (if \<bar>relative_x\<bar> > \<bar>relative_y\<bar>
                          then EdgeHandle_is_horizontal src_handle \<and> EdgeHandle_is_horizontal tgt_handle
                          else EdgeHandle_is_vertical src_handle \<and> EdgeHandle_is_vertical tgt_handle)
        in r (dist + (if is_aligned then 0 else r (1 / 10))))"

definition center :: "Node \<Rightarrow> int \<times> int" where
  "center n = (ix (node_position n) + int (ux (node_size n) div 2), iy (node_position n) + int (uy (node_size n) div 2))"

text \<open>The first of the sixteen combinations with the least score; \<open>f64::MAX\<close> stands for none so far.\<close>

definition calculate_optimal_handles :: "optimizer_env \<Rightarrow> Node \<Rightarrow> Node \<Rightarrow> EdgeHandle \<times> EdgeHandle" where
  "calculate_optimal_handles env0 source target =
     (let r = oe_round env0;
          relative_x = r (of_int (fst (center target) - fst (center source)));
          relative_y = r (of_int (snd (center target) - snd (center source)));
          avg_dimension = r (of_nat ((ux (node_size source) + uy (node_size source) +
                               ux (node_size target) + uy (node_size target)) div 4));
          scale = r (avg_dimension * r (1 / 10))
      in fst (foldl (\<lambda>(best_combination, best_distance) (s, t).
           let total_score = handle_score env0 relative_x relative_y s t
           in if (case best_distance of None \<Rightarrow> True | Some b \<Rightarrow> total_score < b)
              then ((fst s, fst t), Some total_score) else (best_combination, best_distance))
           ((EdgeHandle_Top, EdgeHandle_Bottom), None)
           (List.product (all_handles scale) (all_handles scale))))"

definition fix_intra_subnet_handles :: "optimizer_env \<Rightarrow> TopologyContext \<Rightarrow> Node list \<Rightarrow> Edge list \<Rightarrow> Edge list" where
  "fix_intra_subnet_handles env0 ctx nodes edges =
     map (\<lambda>edge.
       if \<not> edge_is_intra_subnet ctx edge then edge
       else case (find_node (edge_source edge) nodes, find_node (edge_target edge) nodes) of
              (Some src, Some tgt) \<Rightarrow>
                let (src_handle, tgt_handle) = calculate_optimal_handles env0 src tgt
                in edge\<lparr>edge_source_handle := src_handle, edge_target_handle := tgt_handle\<rparr>
            | _ \<Rightarrow> edge) edges"

subsection \<open>The optimiser\<close>

text \<open>The loop of \<open>optimize_graph\<close> with the iterations that are left.\<close>

fun optimize_passes ::
    "optimizer_env \<Rightarrow> TopologyContext \<Rightarrow> Edge list \<Rightarrow> nat \<Rightarrow> LayoutQuality \<Rightarrow> Node list \<Rightarrow> Node list" where
  "optimize_passes env0 ctx edges 0 prev_quality nodes = nodes"
| "optimize_passes env0 ctx edges (Suc k) prev_quality nodes =
     (let nodes' = optimize_subnet_positions env0 ctx edges nodes;
          current_quality = calculate_layout_quality env0 nodes' edges;
          improvement_pct = improvement_percentage env0 current_quality prev_quality
      in if \<not> is_better_than current_quality prev_quality then nodes'
         else if improvement_pct > 0 \<and> improvement_pct < oe_round env0 (1 / 10) then nodes'
         else optimize_passes env0 ctx edges k current_quality nodes')"

definition optimize_graph ::
    "optimizer_env \<Rightarrow> TopologyContext \<Rightarrow> Edge list \<Rightarrow> Node list \<Rightarrow> Node list \<times> Edge list" where
  "optimize_graph env0 ctx edges nodes =
     (let passed = optimize_passes env0 ctx edges 20 (calculate_layout_quality env0 nodes edges) nodes;
          compressed = compress_vertical_spacing (compress_horizontal_spacing ctx edges passed)
      in (compressed, fix_intra_subnet_handles env0 ctx compressed edges))"

end
