(* ===== verification/Optimizer_Safety.thy ===== *)
theory Optimizer_Safety
  imports Optimizer
begin

section \<open>An optimised map stays arranged\<close>

text \<open>
  The optimiser moves subnets within their rows and nodes within their columns. Every step keeps the
  map arranged: no two subnets and no two nodes of a subnet come closer than the padding, and every
  node stays inside its subnet. Closing up a row is shown equivalent to a scan from left to right.
\<close>

subsection \<open>Moving subnets within their rows\<close>

definition at_x :: "int \<Rightarrow> Node \<Rightarrow> Node" where
  "at_x x n = n\<lparr>node_position := (node_position n)\<lparr>ix := x\<rparr>\<rparr>"

definition at_y :: "int \<Rightarrow> Node \<Rightarrow> Node" where
  "at_y y n = n\<lparr>node_position := (node_position n)\<lparr>iy := y\<rparr>\<rparr>"

lemma at_x_simps [simp]:
  "node_id (at_x x n) = node_id n" "node_type (at_x x n) = node_type n" "node_size (at_x x n) = node_size n"
  "ix (node_position (at_x x n)) = x" "iy (node_position (at_x x n)) = iy (node_position n)"
  "is_subnet_node (at_x x n) = is_subnet_node n"
  by (simp_all add: at_x_def is_subnet_node_def)

lemma at_y_simps [simp]:
  "node_id (at_y y n) = node_id n" "node_type (at_y y n) = node_type n" "node_size (at_y y n) = node_size n"
  "ix (node_position (at_y y n)) = ix (node_position n)" "iy (node_position (at_y y n)) = y"
  "is_subnet_node (at_y y n) = is_subnet_node n"
  by (simp_all add: at_y_def is_subnet_node_def)

definition shape :: "Node \<Rightarrow> uuid \<times> NodeType \<times> Uxy \<times> int" where
  "shape n = (node_id n, node_type n, node_size n, iy (node_position n))"

lemma shape_at_x [simp]: "shape (at_x x n) = shape n"
  by (simp add: shape_def)

text \<open>The invariant: an arranged map in which the widths of subnets are multiples of the grid.\<close>

definition map_good :: "Node list \<Rightarrow> bool" where
  "map_good nodes \<longleftrightarrow>
     map_arranged nodes \<and> (\<forall>n \<in> set nodes. is_subnet_node n \<longrightarrow> 25 dvd ux (node_size n))"

definition beside :: "Node \<Rightarrow> Node \<Rightarrow> bool" where
  "beside a b \<longleftrightarrow> apart_x SUBNET_PADDING (node_layout a) (node_layout b)"

lemma beside_iff:
  "beside a b \<longleftrightarrow>
     ix (node_position a) + int (ux (node_size a)) + 125 \<le> ix (node_position b) \<or>
     ix (node_position b) + int (ux (node_size b)) + 125 \<le> ix (node_position a)"
  by (simp add: beside_def apart_x_def SUBNET_PADDING_def)

lemma map_good_rows:
  assumes "map_good nodes" "a \<in> set nodes" "b \<in> set nodes" "is_subnet_node a" "is_subnet_node b"
    "node_id a \<noteq> node_id b" "iy (node_position a) = iy (node_position b)"
  shows "beside a b"
  using assms unfolding map_good_def map_arranged_def subnets_apart_def apart_y_def beside_def
  by (fastforce simp: SUBNET_PADDING_def)

lemma map_good_distinct: "map_good nodes \<Longrightarrow> distinct (map node_id nodes)"
  by (simp add: map_good_def map_arranged_def)

lemma map_good_moved:
  assumes good: "map_good nodes"
    and f: "\<And>n. n \<in> set nodes \<Longrightarrow> f n = n \<or> is_subnet_node n \<and> (\<exists>x. f n = at_x x n)"
    and rows: "\<And>a b. a \<in> set nodes \<Longrightarrow> b \<in> set nodes \<Longrightarrow> is_subnet_node a \<Longrightarrow> is_subnet_node b \<Longrightarrow>
      node_id a \<noteq> node_id b \<Longrightarrow> iy (node_position a) = iy (node_position b) \<Longrightarrow> beside (f a) (f b)"
  shows "map_good (map f nodes)"
proof -
  have keep: "node_id (f n) = node_id n" "node_size (f n) = node_size n" "node_type (f n) = node_type n"
      "iy (node_position (f n)) = iy (node_position n)" "is_subnet_node (f n) = is_subnet_node n"
    if "n \<in> set nodes" for n
    using f [OF that] by auto
  have child: "f n = n" if "n \<in> set nodes" "\<not> is_subnet_node n" for n
    using f [OF that(1)] that(2) by auto
  have ids: "map node_id (map f nodes) = map node_id nodes" using keep(1) by simp
  have "subnets_apart (map f nodes)"
    unfolding subnets_apart_def
  proof (intro ballI impI)
    fix fa fb assume "fa \<in> set (map f nodes)" "fb \<in> set (map f nodes)"
    then obtain a b where ab: "a \<in> set nodes" "b \<in> set nodes" "fa = f a" "fb = f b" by auto
    assume "is_subnet_node fa" "is_subnet_node fb" and ne: "node_id fa \<noteq> node_id fb"
    then have sub: "is_subnet_node a" "is_subnet_node b" "node_id a \<noteq> node_id b" using keep ab by auto
    show "iy (node_position fa) = iy (node_position fb) \<and> apart_x SUBNET_PADDING (node_layout fa) (node_layout fb) \<or>
        apart_y SUBNET_PADDING (node_layout fa) (node_layout fb)"
    proof (cases "iy (node_position a) = iy (node_position b)")
      case True
      then show ?thesis using rows [OF ab(1,2) sub] keep ab by (simp add: beside_def)
    next
      case False
      then have "apart_y SUBNET_PADDING (node_layout a) (node_layout b)"
        using good ab(1,2) sub unfolding map_good_def map_arranged_def subnets_apart_def by blast
      then show ?thesis using keep ab by (simp add: apart_y_def)
    qed
  qed
  moreover have "filter (\<lambda>n. \<not> is_subnet_node n \<and> nt_subnet_id (node_type n) = s) (map f nodes) =
      filter (\<lambda>n. \<not> is_subnet_node n \<and> nt_subnet_id (node_type n) = s) nodes" for s
  proof -
    have "filter (\<lambda>n. \<not> is_subnet_node n \<and> nt_subnet_id (node_type n) = s) (map f ns) =
        filter (\<lambda>n. \<not> is_subnet_node n \<and> nt_subnet_id (node_type n) = s) ns" if "set ns \<subseteq> set nodes" for ns
      using that keep child by (induction ns) auto
    then show ?thesis by simp
  qed
  ultimately show ?thesis
    using good keep child ids unfolding map_good_def map_arranged_def by (auto simp del: map_map)
qed

lemma set_x_map:
  "distinct (map node_id nodes) \<Longrightarrow> set_x i x nodes = map (\<lambda>n. if node_id n = i then at_x x n else n) nodes"
proof (induction nodes)
  case (Cons n ns)
  moreover have "map (\<lambda>n. if node_id n = i then at_x x n else n) ns = ns" if "i \<notin> node_id ` set ns"
    using that by (intro map_idI) auto
  ultimately show ?case by (auto simp: at_x_def)
qed simp

lemma find_node_eq:
  "distinct (map node_id nodes) \<Longrightarrow> find_node i nodes = Some n \<longleftrightarrow> n \<in> set nodes \<and> node_id n = i"
  unfolding find_node_def by (induction nodes) (auto simp: rev_image_eqI)

lemma find_node_shape:
  assumes "find_node i nodes = Some n" "map shape nodes = map shape nodes'"
  shows "\<exists>n'. find_node i nodes' = Some n' \<and> shape n' = shape n"
  using assms unfolding find_node_def
proof (induction nodes arbitrary: nodes')
  case (Cons m ns)
  then obtain m' ns' where "nodes' = m' # ns'" "shape m = shape m'" "map shape ns = map shape ns'" by (cases nodes') auto
  with Cons show ?case by (auto simp: shape_def split: if_splits)
qed simp

lemma set_x_good:
  assumes good: "map_good nodes" and n: "find_node i nodes = Some n" "is_subnet_node n"
    and rows: "\<And>b. b \<in> set nodes \<Longrightarrow> is_subnet_node b \<Longrightarrow> node_id b \<noteq> i \<Longrightarrow>
      iy (node_position b) = iy (node_position n) \<Longrightarrow> beside (at_x x n) b"
  shows "map_good (set_x i x nodes) \<and> map shape (set_x i x nodes) = map shape nodes"
proof -
  have dist: "distinct (map node_id nodes)" by (rule map_good_distinct [OF good])
  then have mem: "n \<in> set nodes" "node_id n = i" and same: "\<And>m. m \<in> set nodes \<Longrightarrow> node_id m = i \<Longrightarrow> m = n"
    using n find_node_eq by (auto, metis option.inject)
  let ?f = "\<lambda>n. if node_id n = i then at_x x n else n"
  have sym: "beside a b \<Longrightarrow> beside b a" for a b by (auto simp: beside_iff)
  have "map_good (map ?f nodes)"
  proof (rule map_good_moved [OF good])
    show "?f m = m \<or> is_subnet_node m \<and> (\<exists>y. ?f m = at_x y m)" if "m \<in> set nodes" for m
      using same [OF that] n(2) by auto
    show "beside (?f a) (?f b)" if "a \<in> set nodes" "b \<in> set nodes" "is_subnet_node a" "is_subnet_node b"
      "node_id a \<noteq> node_id b" "iy (node_position a) = iy (node_position b)" for a b
      using that same rows [of a] rows [of b] sym map_good_rows [OF good that] by auto
  qed
  moreover have "map shape (map ?f nodes) = map shape nodes" by simp
  ultimately show ?thesis using set_x_map [OF dist] by simp
qed

lemma closest_member:
  assumes "cs \<noteq> []"
  shows "closest p cs \<in> set cs"
proof -
  define step where "step = (\<lambda>(best_x, best_distance) candidate.
       let d = \<bar>p - candidate\<bar>
       in if (case best_distance of None \<Rightarrow> True | Some b \<Rightarrow> d < b) then (candidate, Some d)
          else (best_x, best_distance))"
  have started: "fst (foldl step (x, Some d) xs) \<in> insert x (set xs)" for x d xs
    by (induction xs arbitrary: x d) (auto simp: step_def Let_def)
  obtain c cs' where "cs = c # cs'" using assms by (cases cs) auto
  then show ?thesis using started [of c "\<bar>p - c\<bar>" cs'] by (simp add: closest_def step_def)
qed

text \<open>There is always a free place: to the right of the rightmost subnet of the row.\<close>

lemma right_of_all_free:
  assumes "others \<noteq> []" "\<And>o'. o' \<in> set others \<Longrightarrow> fst o' + snd o' + 125 \<le> x"
  shows "\<not> has_overlap others w x"
  using assms(2) by (fastforce simp: has_overlap_def list_ex_iff)

lemma candidate_exists:
  assumes "others \<noteq> []"
  shows "filter (\<lambda>x. \<not> has_overlap others w x)
     (map (\<lambda>(other_x, _). other_x - w - 125) others @ map (\<lambda>(other_x, other_width). other_x + other_width + 125) others) \<noteq> []"
proof -
  let ?right = "\<lambda>o'. fst o' + snd o' + (125 :: int)"
  have "Max (?right ` set others) \<in> ?right ` set others" using assms by (intro Max_in) auto
  then obtain r where "r \<in> set others" and max: "?right r = Max (?right ` set others)" by auto
  then have r: "r \<in> set others" "\<And>o'. o' \<in> set others \<Longrightarrow> ?right o' \<le> ?right r" unfolding max by auto
  then have "\<not> has_overlap others w (?right r)" using right_of_all_free [OF assms] by blast
  moreover have "?right r \<in> set (map (\<lambda>(other_x, other_width). other_x + other_width + 125) others)"
    using r(1) by (force simp: case_prod_unfold)
  ultimately show ?thesis by (fastforce simp: filter_empty_conv)
qed

lemma constrained_free:
  assumes "find_node i nodes = Some n"
    and "\<And>o'. placed (node_id o') \<noteq> None \<Longrightarrow> o' \<in> set nodes \<Longrightarrow> placed (node_id o') = Some (ix (node_position o'))"
    and b: "b \<in> set nodes" "is_subnet_node b" "node_id b \<noteq> i" "iy (node_position b) = iy (node_position n)"
  shows "beside (at_x (apply_non_overlap_constraint nodes i p placed) n) b"
proof -
  define others where "others =
    sort_key fst (map (\<lambda>other.
        (case placed (node_id other) of Some x \<Rightarrow> x | None \<Rightarrow> ix (node_position other), int (ux (node_size other))))
      (filter (\<lambda>other. is_subnet_node other \<and> node_id other \<noteq> i \<and>
         iy (node_position other) = iy (node_position n)) nodes))"
  let ?w = "int (ux (node_size n))"
  let ?candidates = "filter (\<lambda>x. \<not> has_overlap others ?w x)
     (map (\<lambda>(other_x, _). other_x - ?w - 125) others @ map (\<lambda>(other_x, other_width). other_x + other_width + 125) others)"
  let ?x = "apply_non_overlap_constraint nodes i p placed"
  have x: "?x = (if \<not> has_overlap others ?w p then p else closest p ?candidates)"
    using assms(1) by (simp add: apply_non_overlap_constraint_def others_def Let_def)
  have "\<not> has_overlap others ?w ?x"
  proof (cases "has_overlap others ?w p")
    case True
    then have "others \<noteq> []" by (auto simp: has_overlap_def)
    from closest_member [OF candidate_exists [OF this]] x True show ?thesis by auto
  qed (simp add: x)
  moreover have "(ix (node_position b), int (ux (node_size b))) \<in> set others"
    using b assms(2) [of b] unfolding others_def by (force split: option.split)
  ultimately show ?thesis by (fastforce simp: has_overlap_def list_ex_iff beside_iff)
qed

subsection \<open>Sweeps\<close>

definition layer_ok :: "Node list \<Rightarrow> uuid list \<Rightarrow> bool" where
  "layer_ok nodes layer \<longleftrightarrow>
     distinct layer \<and>
     (\<exists>y. \<forall>i \<in> set layer. \<exists>n. find_node i nodes = Some n \<and> is_subnet_node n \<and> iy (node_position n) = y)"

lemma layer_ok_shape:
  assumes "layer_ok nodes layer" "map shape nodes' = map shape nodes"
  shows "layer_ok nodes' layer"
proof -
  obtain y where y: "\<forall>i \<in> set layer. \<exists>n. find_node i nodes = Some n \<and> is_subnet_node n \<and> iy (node_position n) = y"
    using assms(1) by (auto simp: layer_ok_def)
  have "\<exists>n. find_node i nodes' = Some n \<and> is_subnet_node n \<and> iy (node_position n) = y" if "i \<in> set layer" for i
    using y that find_node_shape [OF _ assms(2) [symmetric], of i] by (fastforce simp: shape_def is_subnet_node_def)
  then show ?thesis using assms(1) by (auto simp: layer_ok_def)
qed

lemma subnet_ids_of_found:
  assumes "distinct (map node_id nodes)" "i \<in> set (subnet_ids_of nodes)"
  shows "\<exists>n. find_node i nodes = Some n \<and> is_subnet_node n"
  using assms find_node_eq [OF assms(1)] by (auto simp: subnet_ids_of_def)

lemma group_layers_ok:
  assumes dist: "distinct (map node_id nodes)" and "layer \<in> set (group_subnets_by_layer nodes (subnet_ids_of nodes))"
  shows "layer_ok nodes layer"
proof -
  let ?ids = "subnet_ids_of nodes"
  let ?keyed = "List.map_filter (\<lambda>i. map_option (\<lambda>n. (iy (node_position n), i)) (find_node i nodes)) ?ids"
  obtain y where layer: "layer = map snd (filter (\<lambda>(y', _). y' = y) ?keyed)"
    using assms(2) by (auto simp: group_subnets_by_layer_def Let_def)
  have "map snd ?keyed = ?ids"
  proof -
    have "map snd (List.map_filter (\<lambda>i. map_option (\<lambda>n. (iy (node_position n), i)) (find_node i nodes)) is) = is"
      if "\<forall>i \<in> set is. find_node i nodes \<noteq> None" for "is"
      using that by (induction "is") (auto simp: map_filter_simps)
    from this [of ?ids] show ?thesis using subnet_ids_of_found [OF dist] by blast
  qed
  moreover have "distinct ?ids" using dist by (simp add: subnet_ids_of_def distinct_map inj_on_def)
  ultimately have "distinct (map snd ?keyed)" by (simp only:)
  then have "distinct layer" unfolding layer by (rule distinct_map_filter)
  moreover have "\<exists>n. find_node i nodes = Some n \<and> is_subnet_node n \<and> iy (node_position n) = y" if "i \<in> set layer" for i
  proof -
    have "i \<in> set ?ids" "map_option (\<lambda>n. iy (node_position n)) (find_node i nodes) = Some y"
      using that unfolding layer by (auto simp: set_map_filter)
    with subnet_ids_of_found [OF dist, of i] show ?thesis by auto
  qed
  ultimately show ?thesis by (auto simp: layer_ok_def)
qed

abbreviation good_as :: "Node list \<Rightarrow> Node list \<Rightarrow> bool" where
  "good_as nodes0 nodes \<equiv> map_good nodes \<and> map shape nodes = map shape nodes0"

lemma optimize_layer_good:
  assumes good: "good_as nodes0 nodes" and layer: "layer_ok nodes0 (layers ! idx)"
  shows "good_as nodes0 (optimize_layer edges layers down nodes idx)"
proof -
  define step where "step = (\<lambda>(nodes, positioned_in_layer) subnet.
       let optimal_x = calculate_barycenter_position nodes edges subnet layers idx down;
           constrained_x = apply_non_overlap_constraint nodes subnet optimal_x positioned_in_layer
       in (set_x subnet constrained_x nodes, positioned_in_layer(subnet \<mapsto> constrained_x)))"
  define I where "I = (\<lambda>(nodes, placed). good_as nodes0 nodes \<and>
       (\<forall>n \<in> set nodes. placed (node_id n) \<noteq> None \<longrightarrow> placed (node_id n) = Some (ix (node_position n))))"
  have "I (foldl step (nodes, Map.empty) (layers ! idx))"
  proof (rule foldl_invariant)
    show "I (nodes, Map.empty)" using good by (simp add: I_def)
    show "I (step st i)" if i: "i \<in> set (layers ! idx)" and I: "I st" for st i
    proof -
      obtain ns placed where st: "st = (ns, placed)" by (cases st)
      have ns: "good_as nodes0 ns" and pl: "\<And>n. placed (node_id n) \<noteq> None \<Longrightarrow> n \<in> set ns \<Longrightarrow> placed (node_id n) = Some (ix (node_position n))"
        using I by (auto simp: I_def st)
      obtain n where n: "find_node i ns = Some n" "is_subnet_node n"
        using layer_ok_shape [OF layer, of ns] ns i by (auto simp: layer_ok_def)
      let ?x = "apply_non_overlap_constraint ns i (calculate_barycenter_position ns edges i layers idx down) placed"
      have "good_as ns (set_x i ?x ns)"
        using ns n constrained_free [OF n(1) pl] by (intro set_x_good) auto
      moreover have "(placed(i \<mapsto> ?x)) (node_id m) = Some (ix (node_position m))"
        if m: "m \<in> set (set_x i ?x ns)" "(placed(i \<mapsto> ?x)) (node_id m) \<noteq> None" for m
      proof -
        obtain m' where m': "m' \<in> set ns" "m = (if node_id m' = i then at_x ?x m' else m')"
          using m(1) set_x_map [OF map_good_distinct, of ns i ?x] ns by auto
        show ?thesis using m(2) m' pl [of m'] by (cases "node_id m' = i") auto
      qed
      ultimately show ?thesis using ns by (simp add: I_def step_def st Let_def)
    qed
  qed
  moreover have "optimize_layer edges layers down nodes idx = fst (foldl step (nodes, Map.empty) (layers ! idx))"
    by (simp add: optimize_layer_def step_def)
  ultimately show ?thesis by (auto simp: I_def case_prod_unfold)
qed

lemma sweep_good:
  assumes good: "good_as nodes0 nodes" and layers: "\<And>l. l \<in> set layers \<Longrightarrow> layer_ok nodes0 l"
  shows "good_as nodes0 (sweep edges layers nodes)"
proof -
  have step: "good_as nodes0 (optimize_layer edges layers d ns idx)" if "idx < length layers" "good_as nodes0 ns" for d ns idx
    using optimize_layer_good [OF that(2)] layers that(1) by simp
  have fold: "good_as nodes0 (foldl (optimize_layer edges layers d) ns is)" if "\<forall>i \<in> set is. i < length layers" "good_as nodes0 ns" for d ns "is"
    by (rule foldl_invariant [where P = "good_as nodes0"]) (use that step in auto)
  show ?thesis unfolding sweep_def Let_def by (intro fold good) auto
qed

lemma sweeps_good:
  assumes "good_as nodes0 nodes" "\<And>l. l \<in> set layers \<Longrightarrow> layer_ok nodes0 l"
  shows "good_as nodes0 (sweeps env0 edges layers k nodes)"
  using assms(1)
proof (induction k arbitrary: nodes)
  case (Suc k)
  have "good_as nodes0 (sweep edges layers nodes)" by (rule sweep_good [OF Suc.prems assms(2)])
  with Suc.IH show ?case by (simp add: Let_def)
qed simp

subsection \<open>Snapping to the grid\<close>

lemma snap_to_grid_shift: "25 dvd d \<Longrightarrow> snap_to_grid (x + d) = snap_to_grid x + d"
proof -
  assume "25 dvd d"
  then obtain k where d: "d = 25 * k" by (auto simp: dvd_def)
  have "(2 * (x + d) + 25) div 50 = (2 * x + 25) div 50 + k" unfolding d by (simp add: algebra_simps)
  then show ?thesis by (simp add: snap_to_grid_def d)
qed

lemma snap_to_grid_mono: "x \<le> y \<Longrightarrow> snap_to_grid x \<le> snap_to_grid y"
  by (simp add: snap_to_grid_def zdiv_mono1)

lemma snap_beside:
  assumes "beside a b" "25 dvd ux (node_size a)" "25 dvd ux (node_size b)"
  shows "beside (at_x (snap_to_grid (ix (node_position a))) a) (at_x (snap_to_grid (ix (node_position b))) b)"
proof -
  have *: "snap_to_grid x + int w + 125 \<le> snap_to_grid y" if "x + int w + 125 \<le> y" "25 dvd w" for x w y
  proof -
    have "25 dvd int w + 125" using that(2) by presburger
    from snap_to_grid_shift [OF this, of x] snap_to_grid_mono [OF that(1)] show ?thesis by (simp add: add.assoc)
  qed
  show ?thesis using assms * by (auto simp: beside_iff)
qed

lemma snap_node_at_x: "snap_node n = (if is_subnet_node n then at_x (snap_to_grid (ix (node_position n))) n else n)"
  by (simp add: snap_node_def at_x_def)

lemma snap_node_keeps [simp]: "node_id (snap_node n) = node_id n" "is_subnet_node (snap_node n) = is_subnet_node n"
  by (simp_all add: snap_node_at_x)

lemma snap_shape [simp]: "shape (snap_node n) = shape n"
  by (simp add: snap_node_at_x)

lemma snapped_good: "map_good nodes \<Longrightarrow> map_good (map snap_node nodes)"
proof (rule map_good_moved)
  assume good: "map_good nodes"
  show "beside (snap_node a) (snap_node b)" if "a \<in> set nodes" "b \<in> set nodes" "is_subnet_node a" "is_subnet_node b"
      "node_id a \<noteq> node_id b" "iy (node_position a) = iy (node_position b)" for a b
    using snap_beside [OF map_good_rows [OF good that]] that good by (simp add: snap_node_at_x map_good_def)
qed (auto simp: snap_node_at_x)

lemma snap_subnets:
  assumes "distinct (map node_id nodes)" "distinct ids" "\<And>n. n \<in> set nodes \<Longrightarrow> node_id n \<in> set ids \<Longrightarrow> is_subnet_node n"
  shows "foldl snap_subnet nodes ids = map (\<lambda>n. if node_id n \<in> set ids then snap_node n else n) nodes"
  using assms
proof (induction ids arbitrary: nodes)
  case (Cons i ids)
  let ?f = "\<lambda>n. if node_id n = i then snap_node n else n"
  have first: "snap_subnet nodes i = map ?f nodes"
  proof (cases "find_node i nodes")
    case None
    then have "map ?f nodes = nodes" by (intro map_idI) (auto simp: find_node_def find_None_iff)
    then show ?thesis using None by (simp add: snap_subnet_def)
  next
    case (Some n)
    then have n: "n \<in> set nodes" "node_id n = i" and only: "\<And>m. m \<in> set nodes \<Longrightarrow> node_id m = i \<Longrightarrow> m = n"
      using find_node_eq [OF Cons.prems(1)] by (auto, metis option.inject)
    have sub: "is_subnet_node n" using Cons.prems(3) [OF n(1)] n(2) by simp
    have "(if node_id m = i then at_x (snap_to_grid (ix (node_position n))) m else m) = ?f m"
      if m: "m \<in> set nodes" for m
    proof (cases "node_id m = i")
      case True
      then show ?thesis using only [OF m True] sub by (simp add: snap_node_at_x)
    qed simp
    then show ?thesis using Some by (simp add: snap_subnet_def set_x_map [OF Cons.prems(1)])
  qed
  have same: "node_id (?f n) = node_id n" "is_subnet_node (?f n) = is_subnet_node n" for n by (simp_all add: snap_node_at_x)
  have "foldl snap_subnet (map ?f nodes) ids = map (\<lambda>n. if node_id n \<in> set ids then snap_node n else n) (map ?f nodes)"
  proof (rule Cons.IH)
    show "distinct (map node_id (map ?f nodes))" using Cons.prems(1) by (simp add: comp_def same)
  qed (use Cons.prems same in auto)
  also have "\<dots> = map (\<lambda>n. if node_id n \<in> set (i # ids) then snap_node n else n) nodes"
    using Cons.prems(2) by (auto simp: snap_node_at_x)
  finally show ?case by (simp add: first)
qed simp

lemma shape_ids: "map shape ns = map shape ns' \<Longrightarrow> subnet_ids_of ns = subnet_ids_of ns'"
proof (induction ns arbitrary: ns')
  case (Cons m ns)
  then obtain m' ns'' where "ns' = m' # ns''" "shape m = shape m'" "map shape ns = map shape ns''" by (cases ns') auto
  moreover have "subnet_ids_of ns = subnet_ids_of ns''" using Cons.IH calculation by blast
  moreover have "node_id m = node_id m'" "is_subnet_node m = is_subnet_node m'"
    using calculation by (simp_all add: shape_def is_subnet_node_def)
  ultimately show ?case by (simp add: subnet_ids_of_def)
qed (simp add: subnet_ids_of_def)

lemma subnet_id_iff:
  "distinct (map node_id nodes) \<Longrightarrow> n \<in> set nodes \<Longrightarrow> node_id n \<in> set (subnet_ids_of nodes) \<longleftrightarrow> is_subnet_node n"
  by (auto simp: subnet_ids_of_def distinct_map inj_on_def)

lemma optimize_subnet_positions_good:
  assumes good: "map_good nodes"
  shows "good_as nodes (optimize_subnet_positions env0 ctx edges nodes)"
proof (cases "subnet_ids_of nodes = []")
  case False
  let ?ids = "subnet_ids_of nodes" and ?layers = "group_subnets_by_layer nodes (subnet_ids_of nodes)"
  let ?swept = "sweeps env0 (filter (\<lambda>e. \<not> edge_is_intra_subnet ctx e) edges) ?layers 10 nodes"
  have dist: "distinct (map node_id nodes)" by (rule map_good_distinct [OF good])
  have swept: "good_as nodes ?swept" using good group_layers_ok [OF dist] by (intro sweeps_good) auto
  then have ids: "subnet_ids_of ?swept = ?ids" using shape_ids by blast
  have dist': "distinct (map node_id ?swept)" using swept map_good_distinct by blast
  have "node_id n \<in> set ?ids \<longleftrightarrow> is_subnet_node n" if "n \<in> set ?swept" for n
    using that subnet_id_iff [OF dist' that] by (simp add: ids)
  moreover have "distinct ?ids" using dist by (simp add: subnet_ids_of_def distinct_map inj_on_def)
  ultimately have "foldl snap_subnet ?swept ?ids = map snap_node ?swept"
    using snap_subnets [OF dist', of ?ids] by (auto simp: snap_node_at_x)
  moreover have "map shape (map snap_node ?swept) = map shape nodes"
    using swept by (simp add: comp_def snap_shape)
  ultimately show ?thesis
    using False snapped_good [of ?swept] swept by (simp add: optimize_subnet_positions_def Let_def)
qed (use good in \<open>simp add: optimize_subnet_positions_def\<close>)

subsection \<open>Closing up a row\<close>

text \<open>The subnets of a row from left to right, at least the padding apart.\<close>

definition spaced :: "subnet_info list \<Rightarrow> bool" where
  "spaced infos \<longleftrightarrow> sorted_wrt (\<lambda>a b. si_x a + si_width a + 125 \<le> si_x b) infos \<and> (\<forall>s \<in> set infos. 0 \<le> si_width s)"

text \<open>The reference: a scan from left to right in which locked subnets keep their place and every other
  one moves up to the subnet on its left.\<close>

fun scan_row :: "int \<Rightarrow> subnet_info list \<Rightarrow> (uuid \<times> int) list" where
  "scan_row current_x [] = []"
| "scan_row current_x (s # infos) =
     (let x = (if si_locked s then si_x s else current_x)
      in (si_id s, x) # scan_row (x + si_width s + 125) infos)"

fun scan_end :: "int \<Rightarrow> subnet_info list \<Rightarrow> int" where
  "scan_end current_x [] = current_x"
| "scan_end current_x (s # infos) =
     scan_end ((if si_locked s then si_x s else current_x) + si_width s + 125) infos"

lemma scan_row_append: "scan_row c (xs @ ys) = scan_row c xs @ scan_row (scan_end c xs) ys"
  by (induction xs arbitrary: c) (simp_all add: Let_def)

lemma fst_scan_row [simp]: "map fst (scan_row c infos) = map si_id infos"
  by (induction infos arbitrary: c) (simp_all add: Let_def)

lemma spaced_Cons:
  "spaced (s # infos) \<longleftrightarrow> (\<forall>t \<in> set infos. si_x s + si_width s + 125 \<le> si_x t) \<and> 0 \<le> si_width s \<and> spaced infos"
  by (auto simp: spaced_def)

lemma spaced_append:
  "spaced (xs @ ys) \<longleftrightarrow> spaced xs \<and> spaced ys \<and> (\<forall>s \<in> set xs. \<forall>t \<in> set ys. si_x s + si_width s + 125 \<le> si_x t)"
  by (auto simp: spaced_def sorted_wrt_append)

lemma pack_scan: "\<forall>s \<in> set infos. \<not> si_locked s \<Longrightarrow> pack 125 c infos = scan_row c infos"
  by (induction infos arbitrary: c) (simp_all add: Let_def add.assoc)

lemma pack_min_scan:
  assumes "\<forall>s \<in> set infos. \<not> si_locked s" "spaced infos" "\<forall>s \<in> set infos. c \<le> si_x s"
  shows "pack_min 125 c infos = scan_row c infos"
  using assms
proof (induction infos arbitrary: c)
  case (Cons s infos)
  have "\<forall>t \<in> set infos. c + si_width s + 125 \<le> si_x t" using Cons.prems by (fastforce simp: spaced_Cons)
  with Cons show ?case by (simp add: spaced_Cons Let_def)
qed simp

text \<open>No subnet moves to the right, so the scan ends before anything to the right of the row.\<close>

lemma scan_row_le:
  assumes "spaced infos" "\<forall>s \<in> set infos. c \<le> si_x s" "(i, x) \<in> set (scan_row c infos)"
  shows "c \<le> x \<and> (\<exists>s \<in> set infos. si_id s = i \<and> x \<le> si_x s)"
  using assms
proof (induction infos arbitrary: c)
  case (Cons s infos)
  let ?y = "if si_locked s then si_x s else c"
  have y: "c \<le> ?y" "?y \<le> si_x s" using Cons.prems(2) by auto
  show ?case
  proof (cases "(i, x) = (si_id s, ?y)")
    case False
    have "\<forall>t \<in> set infos. ?y + si_width s + 125 \<le> si_x t" using Cons.prems(1) y by (fastforce simp: spaced_Cons)
    moreover have "(i, x) \<in> set (scan_row (?y + si_width s + 125) infos)" using Cons.prems(3) False by (auto simp: Let_def)
    ultimately have "?y + si_width s + 125 \<le> x \<and> (\<exists>s \<in> set infos. si_id s = i \<and> x \<le> si_x s)"
      using Cons.IH Cons.prems(1) by (simp add: spaced_Cons)
    then show ?thesis using y Cons.prems(1) by (auto simp: spaced_Cons)
  qed (use y in auto)
qed simp

lemma last_scanned:
  assumes "spaced infos" "distinct (map si_id infos)" "infos \<noteq> []" "\<forall>s \<in> set infos. c \<le> si_x s" "\<forall>s \<in> set infos. \<not> si_locked s"
    and "\<forall>s \<in> set infos. si_x s + si_width s + 125 \<le> r"
  shows "unless_overlapping 125 r infos (scan_row c infos) = scan_row c infos"
proof (cases "map_of (rev (scan_row c infos)) (si_id (last infos))")
  case (Some x)
  then have "(si_id (last infos), x) \<in> set (scan_row c infos)" by (metis map_of_SomeD set_rev)
  from scan_row_le [OF assms(1,4) this] obtain s where "s \<in> set infos" "si_id s = si_id (last infos)" "x \<le> si_x s" by blast
  moreover from this have "s = last infos" using assms(2,3) by (metis distinct_map inj_onD last_in_set)
  ultimately have "x + si_width (last infos) + 125 \<le> r" using assms(6) by fastforce
  with Some show ?thesis by (simp add: unless_overlapping_def)
qed (simp add: unless_overlapping_def)

definition scan_start :: "subnet_info option \<Rightarrow> subnet_info list \<Rightarrow> int" where
  "scan_start anchor row =
     (case anchor of
        Some left \<Rightarrow> si_x left + si_width left + 125
      | None \<Rightarrow> (case row of [] \<Rightarrow> 0 | s # _ \<Rightarrow> si_x s))"

abbreviation opt_list :: "'a option \<Rightarrow> 'a list" where
  "opt_list o' \<equiv> (case o' of None \<Rightarrow> [] | Some x \<Rightarrow> [x])"

lemma scan_start_le:
  assumes "spaced (opt_list anchor @ row)" "s \<in> set row"
  shows "scan_start anchor row \<le> si_x s"
  using assms by (cases anchor; cases row) (force simp: scan_start_def spaced_Cons)+

lemma scan_start_append: "row \<noteq> [] \<Longrightarrow> scan_start anchor (row @ rest) = scan_start anchor row"
  by (cases row) (simp_all add: scan_start_def split: option.split)

lemma segment_scan:
  assumes "current \<noteq> []" "\<forall>s \<in> set current. \<not> si_locked s" "distinct (map si_id current)"
    and sp: "spaced (opt_list left @ current @ opt_list right)" and "left \<noteq> None \<or> right \<noteq> None"
  shows "segment_positions 125 (left, right, current) = scan_row (scan_start left current) current"
proof -
  have cur: "spaced current" and left: "spaced (opt_list left @ current)" using sp by (auto simp: spaced_append)
  note start = ballI [OF scan_start_le [OF left]]
  have right: "\<forall>s \<in> set current. si_x s + si_width s + 125 \<le> si_x r" if "right = Some r" for r
    using sp that by (auto simp: spaced_append)
  note fits = last_scanned [OF cur assms(3,1) start assms(2) right]
  show ?thesis
  proof (cases left)
    case None
    then obtain r s ss where "right = Some r" "current = s # ss" using assms(1,5) by (cases current) auto
    then show ?thesis using None fits [of r] pack_scan [OF assms(2)] by (simp add: scan_start_def)
  next
    case (Some l)
    have "pack_min 125 (si_x l + si_width l + 125) current = scan_row (scan_start left current) current"
      using pack_min_scan [OF assms(2) cur start] Some by (simp add: scan_start_def)
    then show ?thesis using Some fits by (cases right) auto
  qed
qed

lemma segments_scan:
  assumes "\<forall>s \<in> set current. \<not> si_locked s" "distinct (map si_id (current @ infos))" "spaced (opt_list left @ current @ infos)"
    and "left \<noteq> None \<or> (\<exists>s \<in> set infos. si_locked s)"
  shows "mset (original_positions (filter si_locked infos) @ concat (map (segment_positions 125) (segments_from left current infos))) =
      mset (scan_row (scan_start left (current @ infos)) (current @ infos)) \<and>
    (\<forall>g \<in> set (segments_from left current infos). fst g \<noteq> None \<or> fst (snd g) \<noteq> None)"
  using assms
proof (induction infos arbitrary: left current)
  case Nil
  then show ?case
    using segment_scan [of current left None] by (auto simp: original_positions_def)
next
  case (Cons s infos)
  show ?case
  proof (cases "si_locked s")
    case False
    then have "mset (original_positions (filter si_locked infos) @ concat (map (segment_positions 125) (segments_from left (current @ [s]) infos))) =
        mset (scan_row (scan_start left ((current @ [s]) @ infos)) ((current @ [s]) @ infos)) \<and>
      (\<forall>g \<in> set (segments_from left (current @ [s]) infos). fst g \<noteq> None \<or> fst (snd g) \<noteq> None)"
      using Cons.prems by (intro Cons.IH) auto
    then show ?thesis using False by simp
  next
    case True
    have sp: "spaced (opt_list (Some s) @ [] @ infos)" and cur: "spaced (opt_list left @ current @ opt_list (Some s))"
      using Cons.prems(3) by (auto simp: spaced_append spaced_Cons split: option.splits)
    have IH: "mset (original_positions (filter si_locked infos) @ concat (map (segment_positions 125) (segments_from (Some s) [] infos))) =
        mset (scan_row (scan_start (Some s) ([] @ infos)) ([] @ infos)) \<and>
      (\<forall>g \<in> set (segments_from (Some s) [] infos). fst g \<noteq> None \<or> fst (snd g) \<noteq> None)"
      using Cons.prems(2) by (intro Cons.IH sp) auto
    let ?c = "scan_start left (current @ s # infos)"
    have "(if current \<noteq> [] then segment_positions 125 (left, Some s, current) else []) = scan_row ?c current"
      using segment_scan [OF _ Cons.prems(1) _ cur] Cons.prems(2) scan_start_append [of current left "s # infos"] by simp
    moreover have "scan_row ?c (current @ s # infos) = scan_row ?c current @ (si_id s, si_x s) # scan_row (scan_start (Some s) infos) infos"
      using True by (simp add: scan_row_append scan_start_def Let_def)
    ultimately show ?thesis using True IH by (auto simp: original_positions_def)
  qed
qed

lemma apply_positions_map:
  assumes "distinct (map node_id nodes)" "distinct (map fst ps)"
  shows "apply_positions ps nodes = map (\<lambda>n. case map_of ps (node_id n) of Some x \<Rightarrow> at_x x n | None \<Rightarrow> n) nodes"
  using assms
proof (induction ps arbitrary: nodes)
  case (Cons p ps)
  obtain i x where p: "p = (i, x)" by (cases p)
  let ?f = "\<lambda>n. if node_id n = i then at_x x n else n"
  have same: "node_id (?f n) = node_id n" for n by simp
  have "apply_positions (p # ps) nodes = apply_positions ps (map ?f nodes)"
    by (simp add: apply_positions_def p set_x_map [OF Cons.prems(1)])
  also have "\<dots> = map (\<lambda>n. case map_of ps (node_id n) of Some x \<Rightarrow> at_x x n | None \<Rightarrow> n) (map ?f nodes)"
    using Cons.prems by (intro Cons.IH) (simp_all add: comp_def same)
  also have "\<dots> = map (\<lambda>n. case map_of (p # ps) (node_id n) of Some x \<Rightarrow> at_x x n | None \<Rightarrow> n) nodes"
  proof -
    have "map_of ps i = None" using Cons.prems(2) p by (simp add: map_of_eq_None_iff)
    then show ?thesis by (simp add: p)
  qed
  finally show ?case .
qed (simp add: apply_positions_def)

lemma apply_positions_perm:
  assumes "mset ps = mset qs" "distinct (map fst ps)" "distinct (map node_id nodes)"
  shows "apply_positions ps nodes = apply_positions qs nodes"
proof -
  have "mset (map fst ps) = mset (map fst qs)" using assms(1) by (simp add: mset_map)
  then have qs: "distinct (map fst qs)" using assms(2) mset_eq_imp_distinct_iff by blast
  have "map_of ps = map_of qs"
    using map_of_inject_set [OF assms(2) qs] mset_eq_setD [OF assms(1)] by simp
  then show ?thesis using apply_positions_map [OF assms(3)] assms(2) qs by simp
qed

lemma compress_toward_left_pack:
  assumes "distinct (map node_id nodes)" "\<forall>s \<in> set infos. find_node (si_id s) nodes \<noteq> None"
  shows "compress_toward_left_from 125 c infos nodes = apply_positions (pack 125 c infos) nodes"
  using assms
proof (induction infos arbitrary: c nodes)
  case (Cons s infos)
  let ?nodes = "set_x (si_id s) c nodes"
  have ids: "map node_id ?nodes = map node_id nodes" using set_x_map [OF Cons.prems(1)] by (simp add: comp_def)
  have "find_node i ?nodes \<noteq> None" if "find_node i nodes \<noteq> None" for i
  proof -
    have "i \<in> set (map node_id nodes)" using that by (auto simp: find_node_def find_None_iff)
    then show ?thesis unfolding ids [symmetric] by (auto simp: find_node_def find_None_iff)
  qed
  with Cons ids show ?case by (auto simp: apply_positions_def)
qed (simp add: apply_positions_def)

lemma layer_infos_props:
  assumes good: "map_good nodes" and layer: "layer_ok nodes layer" and infos_def: "infos = layer_infos locked nodes layer"
  shows "spaced infos" "mset (map si_id infos) = mset layer"
    and "\<And>s. s \<in> set infos \<Longrightarrow> \<exists>n \<in> set nodes. is_subnet_node n \<and> node_id n = si_id s \<and>
      ix (node_position n) = si_x s \<and> int (ux (node_size n)) = si_width s"
proof -
  let ?info = "\<lambda>i. map_option (\<lambda>n. \<lparr>si_id = i, si_x = ix (node_position n), si_width = int (ux (node_size n)),
       si_locked = i \<in> locked\<rparr>) (find_node i nodes)"
  note dist = map_good_distinct [OF good]
  obtain y where y: "\<And>i. i \<in> set layer \<Longrightarrow> \<exists>n. find_node i nodes = Some n \<and> is_subnet_node n \<and> iy (node_position n) = y"
    using layer by (auto simp: layer_ok_def)
  have info: "\<exists>n \<in> set nodes. is_subnet_node n \<and> iy (node_position n) = y \<and> node_id n = si_id s \<and>
      ix (node_position n) = si_x s \<and> int (ux (node_size n)) = si_width s" if "s \<in> set infos" for s
  proof -
    have "\<exists>i \<in> set layer. ?info i = Some s"
      using that by (auto simp: infos_def layer_infos_def set_map_filter)
    then obtain i where i: "i \<in> set layer" "?info i = Some s" by blast
    from y [OF i(1)] obtain n where n: "find_node i nodes = Some n" "is_subnet_node n" "iy (node_position n) = y" by blast
    with find_node_eq [OF dist] have "n \<in> set nodes" "node_id n = i" by blast+
    then show ?thesis using n i(2) by auto
  qed
  then show "\<exists>n \<in> set nodes. is_subnet_node n \<and> node_id n = si_id s \<and>
      ix (node_position n) = si_x s \<and> int (ux (node_size n)) = si_width s" if "s \<in> set infos" for s
    using that by blast
  have "map si_id (List.map_filter ?info is) = is" if "set is \<subseteq> set layer" for "is"
    using that
  proof (induction "is")
    case (Cons i "is")
    then obtain n where "find_node i nodes = Some n" using y [of i] by auto
    with Cons show ?case by (simp add: map_filter_simps)
  qed (simp add: map_filter_simps)
  then have "map si_id (List.map_filter ?info layer) = layer" by simp
  then have "mset (map si_id (List.map_filter ?info layer)) = mset layer" by (rule arg_cong)
  then show ids: "mset (map si_id infos) = mset layer"
    unfolding infos_def layer_infos_def by (simp only: mset_map mset_sort)
  then have distinct_ids: "distinct (map si_id infos)" using layer by (metis layer_ok_def mset_eq_imp_distinct_iff)
  have "sorted (map si_x infos)" by (simp add: infos_def layer_infos_def)
  have "si_x a + si_width a + 125 \<le> si_x b" if ij: "i < j" "j < length infos" "a = infos ! i" "b = infos ! j" for i j a b
  proof -
    have ab: "a \<in> set infos" "b \<in> set infos" using ij by auto
    have le: "si_x a \<le> si_x b" using \<open>sorted (map si_x infos)\<close> ij by (auto dest: sorted_nth_mono [of _ i j])
    have ne: "si_id a \<noteq> si_id b" using distinct_ids ij by (auto simp: distinct_conv_nth)
    obtain m n where mn: "m \<in> set nodes" "is_subnet_node m" "iy (node_position m) = y" "node_id m = si_id a"
        "ix (node_position m) = si_x a" "int (ux (node_size m)) = si_width a"
        "n \<in> set nodes" "is_subnet_node n" "iy (node_position n) = y" "node_id n = si_id b"
        "ix (node_position n) = si_x b" "int (ux (node_size n)) = si_width b"
      using info [OF ab(1)] info [OF ab(2)] by blast
    have "beside m n" using mn ne by (intro map_good_rows [OF good]) auto
    then show ?thesis using le mn unfolding beside_iff by linarith
  qed
  moreover have "0 \<le> si_width s" if "s \<in> set infos" for s using info [OF that] by auto
  ultimately show "spaced infos" by (auto simp: spaced_def sorted_wrt_iff_nth_less)
qed

lemma compress_layer_scan:
  assumes good: "map_good nodes" and layer: "layer_ok nodes layer" and infos: "infos = layer_infos locked nodes layer"
  shows "compress_layer locked nodes layer = apply_positions (scan_row (scan_start None infos) infos) nodes"
proof -
  note props = layer_infos_props [OF good layer infos] and dist = map_good_distinct [OF good]
  have ids: "distinct (map si_id infos)" using props(2) layer by (metis layer_ok_def mset_eq_imp_distinct_iff)
  have len: "length infos = length layer" using props(2) by (metis length_map mset_eq_length)
  have found: "\<forall>s \<in> set infos. find_node (si_id s) nodes \<noteq> None"
    using props(3) find_node_eq [OF dist] by fastforce
  consider "infos = []" | s where "infos = [s]" | "\<not> length layer < 2"
    using len by (cases infos rule: remdups_adj.cases) auto
  then show ?thesis
  proof cases
    case 1
    then show ?thesis using len by (simp add: compress_layer_def apply_positions_def)
  next
    case 2
    then obtain n where n: "n \<in> set nodes" "node_id n = si_id s" "ix (node_position n) = si_x s" using props(3) by auto
    have "set_x (si_id s) (si_x s) nodes = nodes"
      unfolding set_x_map [OF dist]
    proof (rule map_idI)
      show "(if node_id m = si_id s then at_x (si_x s) m else m) = m" if "m \<in> set nodes" for m
      proof (cases "node_id m = si_id s")
        case True
        then have "m = n" using that n dist by (metis distinct_map inj_onD)
        then show ?thesis using n by (simp add: at_x_def)
      qed simp
    qed
    then show ?thesis using 2 len by (simp add: compress_layer_def apply_positions_def scan_start_def)
  next
    case 3
    show ?thesis
    proof (cases "filter si_locked infos = []")
      case True
      then have free: "\<forall>s \<in> set infos. \<not> si_locked s" by (simp add: filter_empty_conv)
      obtain s ss where "infos = s # ss" using 3 len by (cases infos) auto
      moreover have "compress_toward_left_from 125 (si_x s) infos nodes = apply_positions (scan_row (si_x s) infos) nodes"
        using compress_toward_left_pack [OF dist found] pack_scan [OF free] by simp
      ultimately show ?thesis using 3 True by (simp add: compress_layer_def infos [symmetric] compress_toward_left_def scan_start_def)
    next
      case False
      then have locked: "\<exists>s \<in> set infos. si_locked s" by (auto simp: filter_empty_conv)
      have scan: "mset (original_positions (filter si_locked infos) @ concat (map (segment_positions 125) (segments_from None [] infos))) =
          mset (scan_row (scan_start None infos) infos)"
        and nos: "\<forall>g \<in> set (segments_from None [] infos). fst g \<noteq> None \<or> fst (snd g) \<noteq> None"
        using segments_scan [of "[]" infos None] ids props(1) locked by simp_all
      have "find (\<lambda>(l, r, _). l = None \<and> r = None) (segments_from None [] infos) = None"
        using nos by (auto simp: find_None_iff)
      moreover have "distinct (map fst (original_positions (filter si_locked infos) @ concat (map (segment_positions 125) (segments_from None [] infos))))"
        using scan ids fst_scan_row by (metis mset_eq_imp_distinct_iff mset_map)
      ultimately show ?thesis
        using 3 False apply_positions_perm [OF scan _ dist]
        by (simp add: compress_layer_def infos [symmetric] compress_toward_locked_def Let_def)
    qed
  qed
qed

lemma scan_row_spaced:
  assumes "spaced infos" "\<forall>s \<in> set infos. c \<le> si_x s" "distinct (map si_id infos)"
    and "a \<in> set infos" "b \<in> set infos" "a \<noteq> b"
    and "map_of (scan_row c infos) (si_id a) = Some x" "map_of (scan_row c infos) (si_id b) = Some y"
  shows "x + si_width a + 125 \<le> y \<or> y + si_width b + 125 \<le> x"
  using assms
proof (induction infos arbitrary: c)
  case (Cons s infos)
  let ?y = "if si_locked s then si_x s else c"
  have le: "\<forall>t \<in> set infos. ?y + si_width s + 125 \<le> si_x t" using Cons.prems(1,2) by (fastforce simp: spaced_Cons)
  have sp: "spaced infos" using Cons.prems(1) by (simp add: spaced_Cons)
  have right: "?y + si_width s + 125 \<le> z" if "map_of (scan_row (?y + si_width s + 125) infos) i = Some z" for i z
    using scan_row_le [OF sp le map_of_SomeD [OF that]] by simp
  have new: "si_id t \<noteq> si_id s" if "t \<in> set infos" for t using Cons.prems(3) that by (auto simp: rev_image_eqI)
  consider "a = s" "b \<in> set infos" | "b = s" "a \<in> set infos" | "a \<in> set infos" "b \<in> set infos" using Cons.prems(4-6) by auto
  then show ?case
  proof cases
    case 1
    then show ?thesis using Cons.prems(7,8) new right by (auto simp: Let_def split: if_splits)
  next
    case 2
    then show ?thesis using Cons.prems(7,8) new right by (auto simp: Let_def split: if_splits)
  next
    case 3
    then show ?thesis
      using Cons.IH [OF sp le _ 3 Cons.prems(6)] Cons.prems(3,7,8) new by (simp add: Let_def)
  qed
qed simp

lemma scan_row_some: "s \<in> set infos \<Longrightarrow> \<exists>x. map_of (scan_row c infos) (si_id s) = Some x"
  by (metis fst_scan_row image_eqI list.set_map map_of_eq_None_iff option.exhaust)

lemma compress_layer_good:
  assumes good: "good_as nodes0 nodes" and layer0: "layer_ok nodes0 layer"
    and rows: "\<And>n i. find_node i nodes0 = Some n \<Longrightarrow> is_subnet_node n \<Longrightarrow> i \<notin> set layer \<Longrightarrow>
      \<forall>j \<in> set layer. \<forall>m. find_node j nodes0 = Some m \<longrightarrow> iy (node_position m) \<noteq> iy (node_position n)"
  shows "good_as nodes0 (compress_layer locked nodes layer)"
proof -
  have layer: "layer_ok nodes layer" using layer_ok_shape [OF layer0] good by simp
  define infos where "infos = layer_infos locked nodes layer"
  note g = conjunct1 [OF good]
  note props = layer_infos_props [OF g layer infos_def] and dist = map_good_distinct [OF g]
  let ?ps = "scan_row (scan_start None infos) infos"
  have ids: "distinct (map si_id infos)" using props(2) layer by (metis layer_ok_def mset_eq_imp_distinct_iff)
  have keys: "set layer = si_id ` set infos" using mset_eq_setD [OF props(2)] by simp
  have start: "\<forall>s \<in> set infos. scan_start None infos \<le> si_x s"
    using scan_start_le [of None infos] props(1) by simp
  let ?f = "\<lambda>n. case map_of ?ps (node_id n) of Some x \<Rightarrow> at_x x n | None \<Rightarrow> n"
  have moved: "compress_layer locked nodes layer = map ?f nodes"
    using compress_layer_scan [OF g layer infos_def] apply_positions_map [OF dist] ids by simp
  have info: "\<exists>s \<in> set infos. si_id s = node_id n \<and> si_x s = ix (node_position n) \<and> si_width s = int (ux (node_size n)) \<and> is_subnet_node n"
    if n: "n \<in> set nodes" "node_id n \<in> set layer" for n
  proof -
    obtain s where s: "s \<in> set infos" "si_id s = node_id n" using n(2) keys by auto
    from props(3) [OF s(1)] obtain m where m: "m \<in> set nodes" "is_subnet_node m" "node_id m = si_id s"
        "ix (node_position m) = si_x s" "int (ux (node_size m)) = si_width s" by blast
    then have "m = n" using n(1) s(2) dist by (metis distinct_map inj_onD)
    with m s show ?thesis by auto
  qed
  have outside: "?f n = n" if "node_id n \<notin> set layer" for n
  proof -
    have "map_of ?ps (node_id n) = None"
      using that keys by (simp add: map_of_eq_None_iff flip: set_map)
    then show ?thesis by simp
  qed
  have inside: "iy (node_position a) \<noteq> iy (node_position b)"
    if ab: "a \<in> set nodes" "b \<in> set nodes" "is_subnet_node b" "node_id a \<in> set layer" "node_id b \<notin> set layer" for a b
  proof -
    have "find_node (node_id a) nodes = Some a" "find_node (node_id b) nodes = Some b"
      using ab find_node_eq [OF dist] by blast+
    then obtain a' b' where "find_node (node_id a) nodes0 = Some a'" "shape a' = shape a"
        "find_node (node_id b) nodes0 = Some b'" "shape b' = shape b"
      using find_node_shape good by metis
    with rows [of "node_id b" b'] ab show ?thesis by (auto simp: shape_def is_subnet_node_def)
  qed
  have "map_good (map ?f nodes)"
  proof (rule map_good_moved [OF g])
    show "?f n = n \<or> is_subnet_node n \<and> (\<exists>x. ?f n = at_x x n)" if "n \<in> set nodes" for n
      using outside [of n] info [OF that] by (cases "node_id n \<in> set layer") (auto split: option.split)
    fix a b assume ab: "a \<in> set nodes" "b \<in> set nodes" "is_subnet_node a" "is_subnet_node b"
      "node_id a \<noteq> node_id b" "iy (node_position a) = iy (node_position b)"
    show "beside (?f a) (?f b)"
    proof (cases "node_id a \<in> set layer \<and> node_id b \<in> set layer")
      case True
      obtain s t where st: "s \<in> set infos" "si_id s = node_id a" "si_width s = int (ux (node_size a))"
          "t \<in> set infos" "si_id t = node_id b" "si_width t = int (ux (node_size b))"
        using info [OF ab(1)] info [OF ab(2)] True by blast
      obtain x y where xy: "map_of ?ps (si_id s) = Some x" "map_of ?ps (si_id t) = Some y" using scan_row_some st by metis
      have "s \<noteq> t" using st ab(5) by auto
      from scan_row_spaced [OF props(1) start ids st(1,4) this xy] show ?thesis
        using st xy by (auto simp: beside_iff)
    next
      case False
      then have "node_id a \<notin> set layer" "node_id b \<notin> set layer" using inside [OF ab(1,2)] inside [OF ab(2,1)] ab by auto
      with outside map_good_rows [OF g ab] show ?thesis by simp
    qed
  qed
  moreover have "map shape (map ?f nodes) = map shape nodes" by (simp split: option.split)
  ultimately show ?thesis using moved good by simp
qed

lemma group_layers_complete:
  assumes dist: "distinct (map node_id nodes)" and layer: "layer \<in> set (group_subnets_by_layer nodes (subnet_ids_of nodes))"
    and n: "find_node i nodes = Some n" "is_subnet_node n" "i \<notin> set layer"
    and m: "j \<in> set layer" "find_node j nodes = Some m"
  shows "iy (node_position m) \<noteq> iy (node_position n)"
proof
  assume same: "iy (node_position m) = iy (node_position n)"
  let ?key = "\<lambda>i. map_option (\<lambda>n. (iy (node_position n), i)) (find_node i nodes)"
  obtain y where y: "layer = map snd (filter (\<lambda>(y', _). y' = y) (List.map_filter ?key (subnet_ids_of nodes)))"
    using layer by (auto simp: group_subnets_by_layer_def Let_def)
  have "iy (node_position m) = y" using m unfolding y by (auto simp: set_map_filter)
  moreover have "i \<in> set (subnet_ids_of nodes)"
    using n(1,2) find_node_eq [OF dist] by (auto simp: subnet_ids_of_def)
  moreover from this have "(iy (node_position n), i) \<in> set (List.map_filter ?key (subnet_ids_of nodes))"
    using n(1) by (auto simp: set_map_filter intro!: bexI [of _ i])
  ultimately have "i \<in> set layer" unfolding y using same by force
  with n(3) show False by simp
qed

lemma compress_horizontal_good:
  assumes good: "map_good nodes"
  shows "good_as nodes (compress_horizontal_spacing ctx edges nodes)"
proof -
  let ?layers = "group_subnets_by_layer nodes (subnet_ids_of nodes)"
  note dist = map_good_distinct [OF good]
  let ?rows = "foldl (compress_layer (find_locked_subnets ctx nodes edges)) nodes ?layers"
  have "good_as nodes ?rows"
  proof (rule foldl_invariant [where P = "good_as nodes"])
    show "good_as nodes (compress_layer locked ns layer)" if "layer \<in> set ?layers" "good_as nodes ns" for locked ns layer
      using that group_layers_ok [OF dist that(1)] group_layers_complete [OF dist that(1)]
      by (intro compress_layer_good) auto
  qed (use good in simp)
  then show ?thesis
    using snapped_good [of ?rows] by (simp add: compress_horizontal_spacing_def Let_def comp_def)
qed

subsection \<open>Closing up the columns\<close>

lemma stack_column_spec:
  assumes "distinct is" "\<forall>i \<in> set is. i < length nodes"
    and "sorted_wrt (\<lambda>i j. iy (node_position (nodes ! i)) + int (uy (node_size (nodes ! i))) + 50 \<le> iy (node_position (nodes ! j))) is"
    and "\<forall>i \<in> set is. y \<le> iy (node_position (nodes ! i))"
  shows "length (stack_column y is nodes) = length nodes"
    and "\<forall>i. i \<notin> set is \<longrightarrow> stack_column y is nodes ! i = nodes ! i"
    and "\<forall>i \<in> set is. \<exists>z. stack_column y is nodes ! i = at_y z (nodes ! i) \<and> y \<le> z \<and> z \<le> iy (node_position (nodes ! i))"
    and "sorted_wrt (\<lambda>i j. iy (node_position (stack_column y is nodes ! i)) + int (uy (node_size (nodes ! i))) + 50
           \<le> iy (node_position (stack_column y is nodes ! j))) is"
proof -
  have "length (stack_column y is nodes) = length nodes \<and>
    (\<forall>i. i \<notin> set is \<longrightarrow> stack_column y is nodes ! i = nodes ! i) \<and>
    (\<forall>i \<in> set is. \<exists>z. stack_column y is nodes ! i = at_y z (nodes ! i) \<and> y \<le> z \<and> z \<le> iy (node_position (nodes ! i))) \<and>
    sorted_wrt (\<lambda>i j. iy (node_position (stack_column y is nodes ! i)) + int (uy (node_size (nodes ! i))) + 50
           \<le> iy (node_position (stack_column y is nodes ! j))) is"
    using assms
  proof (induction "is" arbitrary: y nodes)
    case (Cons k "is")
    let ?n = "nodes ! k" and ?h = "int (uy (node_size (nodes ! k)))"
    let ?nodes = "nodes[k := at_y y ?n]" and ?y = "y + int (uy (node_size (nodes ! k))) + 50"
    have step: "stack_column y (k # is) nodes = stack_column ?y is ?nodes" by (simp add: at_y_def Let_def)
    have k: "k \<notin> set is" "k < length nodes" using Cons.prems by auto
    then have same: "\<And>i. i \<in> set is \<Longrightarrow> ?nodes ! i = nodes ! i" by (metis nth_list_update_neq)
    have below: "\<forall>i \<in> set is. ?y \<le> iy (node_position (nodes ! i))"
      using Cons.prems(3,4) by fastforce
    have sorted: "sorted_wrt (\<lambda>i j. iy (node_position (?nodes ! i)) + int (uy (node_size (?nodes ! i))) + 50 \<le> iy (node_position (?nodes ! j))) is"
      using Cons.prems(3) same by (auto elim!: sorted_wrt_mono_rel [rotated])
    have IH: "length (stack_column ?y is ?nodes) = length ?nodes"
      "\<And>i. i \<notin> set is \<Longrightarrow> stack_column ?y is ?nodes ! i = ?nodes ! i"
      "\<And>i. i \<in> set is \<Longrightarrow> \<exists>z. stack_column ?y is ?nodes ! i = at_y z (nodes ! i) \<and> ?y \<le> z \<and> z \<le> iy (node_position (nodes ! i))"
      "sorted_wrt (\<lambda>i j. iy (node_position (stack_column ?y is ?nodes ! i)) + int (uy (node_size (?nodes ! i))) + 50
           \<le> iy (node_position (stack_column ?y is ?nodes ! j))) is"
      using Cons.IH [of ?nodes ?y] Cons.prems(1,2) sorted below same by auto
    have first: "stack_column ?y is ?nodes ! k = at_y y ?n" using IH(2) [OF k(1)] k(2) by simp
    have sorted': "sorted_wrt (\<lambda>i j. iy (node_position (stack_column ?y is ?nodes ! i)) + int (uy (node_size (nodes ! i))) + 50
           \<le> iy (node_position (stack_column ?y is ?nodes ! j))) is"
      using IH(4) by (rule sorted_wrt_mono_rel [rotated]) (simp add: same)
    show ?case unfolding step
    proof (intro conjI allI impI ballI)
      show "\<exists>z. stack_column ?y is ?nodes ! i = at_y z (nodes ! i) \<and> y \<le> z \<and> z \<le> iy (node_position (nodes ! i))"
        if "i \<in> set (k # is)" for i
        using that first IH(3) [of i] Cons.prems(4) by (cases "i = k") force+
      show "sorted_wrt (\<lambda>i j. iy (node_position (stack_column ?y is ?nodes ! i)) + int (uy (node_size (nodes ! i))) + 50
           \<le> iy (node_position (stack_column ?y is ?nodes ! j))) (k # is)"
        using sorted' first IH(3) by fastforce
    qed (use IH(1,2) in auto)
  qed simp
  then show "length (stack_column y is nodes) = length nodes"
    "\<forall>i. i \<notin> set is \<longrightarrow> stack_column y is nodes ! i = nodes ! i"
    "\<forall>i \<in> set is. \<exists>z. stack_column y is nodes ! i = at_y z (nodes ! i) \<and> y \<le> z \<and> z \<le> iy (node_position (nodes ! i))"
    "sorted_wrt (\<lambda>i j. iy (node_position (stack_column y is nodes ! i)) + int (uy (node_size (nodes ! i))) + 50
           \<le> iy (node_position (stack_column y is nodes ! j))) is"
    by simp_all
qed

lemma column_key_Some:
  "column_key n = Some k \<longleftrightarrow> \<not> is_subnet_node n \<and> nt_subnet_id (node_type n) = fst k \<and> ix (node_position n) = snd k"
  by (cases k; cases "node_type n") (auto simp: column_key_def is_subnet_node_def)

lemma column_key_at_y [simp]: "column_key (at_y y n) = column_key n"
  by (simp add: column_key_def split: NodeType.split)

definition columns_bounded :: "(uuid \<Rightarrow> int) \<Rightarrow> Node list \<Rightarrow> bool" where
  "columns_bounded min_y nodes \<longleftrightarrow>
     (\<forall>n \<in> set nodes. \<not> is_subnet_node n \<longrightarrow> min_y (nt_subnet_id (node_type n)) \<le> iy (node_position n) \<and>
        (\<forall>m \<in> set nodes. is_subnet_node m \<longrightarrow> node_id m = nt_subnet_id (node_type n) \<longrightarrow> 50 \<le> min_y (node_id m)))"

lemma same_column_apart:
  assumes "map_arranged nodes" "i < length nodes" "j < length nodes" "i \<noteq> j"
    "column_key (nodes ! i) = Some k" "column_key (nodes ! j) = Some k"
  shows "apart_y NODE_PADDING (node_layout (nodes ! i)) (node_layout (nodes ! j))"
proof -
  have "distinct (map node_id nodes)" using assms(1) by (simp add: map_arranged_def)
  then have "node_id (nodes ! i) \<noteq> node_id (nodes ! j)" using assms(2-4) by (auto simp: distinct_conv_nth)
  moreover have "nodes_apart (filter (\<lambda>n. \<not> is_subnet_node n \<and> nt_subnet_id (node_type n) = fst k) nodes)"
    using assms(1) by (simp add: map_arranged_def)
  ultimately have "layouts_apart NODE_PADDING (node_layout (nodes ! i)) (node_layout (nodes ! j))"
    using assms(2,3,5,6) by (auto simp: nodes_apart_def column_key_Some)
  then show ?thesis using assms(5,6) by (auto simp: layouts_apart_def apart_x_def column_key_Some)
qed

lemma column_sorted:
  assumes arr: "map_arranged nodes" and "is": "is = sort_key (\<lambda>i. iy (node_position (nodes ! i))) (column_indices nodes k)"
  shows "distinct is" "set is = {i. i < length nodes \<and> column_key (nodes ! i) = Some k}"
    "sorted_wrt (\<lambda>i j. iy (node_position (nodes ! i)) + int (uy (node_size (nodes ! i))) + 50 \<le> iy (node_position (nodes ! j))) is"
proof -
  show dist: "distinct is" and set: "set is = {i. i < length nodes \<and> column_key (nodes ! i) = Some k}"
    by (auto simp: "is" column_indices_def)
  have "sorted (map (\<lambda>i. iy (node_position (nodes ! i))) is)" by (simp add: "is")
  then have le: "iy (node_position (nodes ! (is ! a))) \<le> iy (node_position (nodes ! (is ! b)))" if "a < b" "b < length is" for a b
    using that sorted_nth_mono [of "map (\<lambda>i. iy (node_position (nodes ! i))) is" a b] by simp
  show "sorted_wrt (\<lambda>i j. iy (node_position (nodes ! i)) + int (uy (node_size (nodes ! i))) + 50 \<le> iy (node_position (nodes ! j))) is"
    unfolding sorted_wrt_iff_nth_less
  proof (intro allI impI)
    fix a b assume ab: "a < b" "b < length is"
    then have "is ! a \<in> set is" "is ! b \<in> set is" by auto
    moreover have "is ! a \<noteq> is ! b" using ab dist by (simp add: nth_eq_iff_index_eq)
    ultimately have "apart_y NODE_PADDING (node_layout (nodes ! (is ! a))) (node_layout (nodes ! (is ! b)))"
      unfolding set by (auto intro!: same_column_apart [OF arr])
    with le [OF ab] show "iy (node_position (nodes ! (is ! a))) + int (uy (node_size (nodes ! (is ! a)))) + 50 \<le> iy (node_position (nodes ! (is ! b)))"
      by (auto simp: apart_y_def)
  qed
qed

text \<open>A node moved up within its column, not above the top of its subnet's nodes.\<close>

definition lifted :: "(uuid \<Rightarrow> int) \<Rightarrow> Node \<Rightarrow> Node \<Rightarrow> bool" where
  "lifted min_y n n' \<longleftrightarrow>
     (\<exists>y. n' = at_y y n \<and> y \<le> iy (node_position n) \<and>
        (y = iy (node_position n) \<or> \<not> is_subnet_node n \<and> min_y (nt_subnet_id (node_type n)) \<le> y))"

lemma lifted_refl [simp]: "lifted min_y n n"
  unfolding lifted_def by (rule exI [of _ "iy (node_position n)"]) (simp add: at_y_def)

lemma lifted_keeps:
  "lifted min_y n n' \<Longrightarrow> node_id n' = node_id n \<and> node_type n' = node_type n \<and> node_size n' = node_size n \<and>
     is_subnet_node n' = is_subnet_node n \<and> ix (node_position n') = ix (node_position n) \<and> column_key n' = column_key n"
  by (auto simp: lifted_def)

lemma lifted_subnet: "lifted min_y n n' \<Longrightarrow> is_subnet_node n \<Longrightarrow> n' = n"
  by (auto simp: lifted_def at_y_def)

lemma list_all2_member: "list_all2 P xs ys \<Longrightarrow> y \<in> set ys \<Longrightarrow> \<exists>x \<in> set xs. P x y"
  by (metis list_all2_conv_all_nth in_set_conv_nth)

lemma lifted_map:
  assumes "list_all2 (lifted min_y) nodes nodes'" "\<And>n n'. lifted min_y n n' \<Longrightarrow> f n' = f n"
  shows "map f nodes' = map f nodes"
  using assms by (induction rule: list_all2_induct) auto

lemma lifted_bounded:
  assumes l: "list_all2 (lifted min_y) nodes nodes'" and bounded: "columns_bounded min_y nodes"
  shows "columns_bounded min_y nodes'"
  unfolding columns_bounded_def
proof (intro ballI impI conjI)
  fix n assume n: "n \<in> set nodes'" "\<not> is_subnet_node n"
  obtain m where m: "m \<in> set nodes" "lifted min_y m n" using list_all2_member [OF l n(1)] by blast
  have m': "\<not> is_subnet_node m" "node_type n = node_type m" using lifted_keeps [OF m(2)] n(2) by auto
  have *: "min_y (nt_subnet_id (node_type m)) \<le> iy (node_position m)"
    "\<And>s. s \<in> set nodes \<Longrightarrow> is_subnet_node s \<Longrightarrow> node_id s = nt_subnet_id (node_type m) \<Longrightarrow> 50 \<le> min_y (node_id s)"
    using bounded m(1) m'(1) by (auto simp: columns_bounded_def)
  then show "min_y (nt_subnet_id (node_type n)) \<le> iy (node_position n)" using m(2) by (auto simp: lifted_def)
  fix s assume s: "s \<in> set nodes'" "is_subnet_node s" "node_id s = nt_subnet_id (node_type n)"
  obtain t where t: "t \<in> set nodes" "lifted min_y t s" using list_all2_member [OF l s(1)] by blast
  then have "s = t" using lifted_subnet lifted_keeps s(2) by blast
  then show "50 \<le> min_y (node_id s)" using *(2) t(1) s m'(2) by simp
qed

lemma lifted_arranged:
  assumes l: "list_all2 (lifted min_y) nodes nodes'" and bounded: "columns_bounded min_y nodes" and arr: "map_arranged nodes"
    and apart: "\<And>s. nodes_apart (filter (\<lambda>n. \<not> is_subnet_node n \<and> nt_subnet_id (node_type n) = s) nodes')"
  shows "map_arranged nodes'"
proof -
  have ids: "map node_id nodes' = map node_id nodes" using l lifted_keeps by (intro lifted_map) auto
  have subnet: "s \<in> set nodes" if "s \<in> set nodes'" "is_subnet_node s" for s
    using list_all2_member [OF l that(1)] lifted_subnet lifted_keeps that(2) by metis
  have "subnets_apart nodes'" using arr subnet unfolding map_arranged_def subnets_apart_def by blast
  moreover have "in_zone 0 (int (ux (node_size s))) (int (uy (node_size s))) n"
    if ns: "n \<in> set nodes'" "s \<in> set nodes'" "\<not> is_subnet_node n" "is_subnet_node s" "nt_subnet_id (node_type n) = node_id s" for n s
  proof -
    obtain m where m: "m \<in> set nodes" "lifted min_y m n" using list_all2_member [OF l ns(1)] by blast
    note m' = lifted_keeps [OF m(2)]
    have "in_zone 0 (int (ux (node_size s))) (int (uy (node_size s))) m"
      using arr m(1) m' subnet [OF ns(2,4)] ns(3-5) by (simp add: map_arranged_def)
    moreover have "50 \<le> iy (node_position n)"
      using lifted_bounded [OF l bounded] ns by (force simp: columns_bounded_def)
    ultimately show ?thesis using m(2) m' by (auto simp: in_zone_def lifted_def)
  qed
  ultimately show ?thesis using arr apart ids unfolding map_arranged_def by auto
qed

lemma stacked_lifted:
  assumes arr: "map_arranged nodes" and bounded: "columns_bounded min_y nodes"
    and "is": "is = sort_key (\<lambda>i. iy (node_position (nodes ! i))) (column_indices nodes k)"
    and ns': "nodes' = stack_column (min_y (fst k)) is nodes"
  shows "list_all2 (lifted min_y) nodes nodes'"
    and "\<And>i. i < length nodes \<Longrightarrow> column_key (nodes ! i) \<noteq> Some k \<Longrightarrow> nodes' ! i = nodes ! i"
    and "\<And>i j. i < length nodes \<Longrightarrow> j < length nodes \<Longrightarrow> i \<noteq> j \<Longrightarrow> column_key (nodes ! i) = Some k \<Longrightarrow>
      column_key (nodes ! j) = Some k \<Longrightarrow> apart_y NODE_PADDING (node_layout (nodes' ! i)) (node_layout (nodes' ! j))"
proof -
  note col = column_sorted [OF arr "is"]
  have start: "\<forall>i \<in> set is. min_y (fst k) \<le> iy (node_position (nodes ! i))"
    unfolding col(2) using bounded by (auto simp: columns_bounded_def column_key_Some)
  have range: "\<forall>i \<in> set is. i < length nodes" unfolding col(2) by auto
  note spec = stack_column_spec [OF col(1) range col(3) start, folded ns']
  have moved: "lifted min_y (nodes ! i) (nodes' ! i)" if "i < length nodes" for i
  proof (cases "i \<in> set is")
    case True
    moreover from this have "column_key (nodes ! i) = Some k" unfolding col(2) by simp
    ultimately show ?thesis using spec(3) by (auto simp: column_key_Some lifted_def)
  qed (simp add: spec(2))
  then show l: "list_all2 (lifted min_y) nodes nodes'" using spec(1) by (simp add: list_all2_conv_all_nth)
  show "nodes' ! i = nodes ! i" if "i < length nodes" "column_key (nodes ! i) \<noteq> Some k" for i
    using spec(2) that unfolding col(2) by simp
  show "apart_y NODE_PADDING (node_layout (nodes' ! i)) (node_layout (nodes' ! j))"
    if ij: "i < length nodes" "j < length nodes" "i \<noteq> j" "column_key (nodes ! i) = Some k" "column_key (nodes ! j) = Some k" for i j
  proof -
    have "i \<in> set is" "j \<in> set is" unfolding col(2) using ij by auto
    then obtain a b where "a < length is" "i = is ! a" "b < length is" "j = is ! b" by (metis in_set_conv_nth)
    moreover from this have "a < b \<or> b < a" using ij(3) by (metis linorder_neqE_nat)
    ultimately show ?thesis
      using spec(4) lifted_keeps [OF moved [OF ij(1)]] lifted_keeps [OF moved [OF ij(2)]]
      unfolding sorted_wrt_iff_nth_less by (auto simp: apart_y_def)
  qed
qed

lemma stacked_arranged:
  assumes arr: "map_arranged nodes" and bounded: "columns_bounded min_y nodes"
    and ns': "nodes' = stack_column (min_y (fst k)) (sort_key (\<lambda>i. iy (node_position (nodes ! i))) (column_indices nodes k)) nodes"
  shows "map_arranged nodes'"
proof (rule lifted_arranged [OF _ bounded arr])
  note st = stacked_lifted [OF arr bounded refl ns']
  show l: "list_all2 (lifted min_y) nodes nodes'" by (rule st(1))
  fix s
  show "nodes_apart (filter (\<lambda>n. \<not> is_subnet_node n \<and> nt_subnet_id (node_type n) = s) nodes')"
    unfolding nodes_apart_def
  proof (intro ballI impI)
    fix a b assume a: "a \<in> set (filter (\<lambda>n. \<not> is_subnet_node n \<and> nt_subnet_id (node_type n) = s) nodes')"
      and b: "b \<in> set (filter (\<lambda>n. \<not> is_subnet_node n \<and> nt_subnet_id (node_type n) = s) nodes')" and ne: "node_id a \<noteq> node_id b"
    have len: "length nodes' = length nodes" using l by (simp add: list_all2_lengthD)
    obtain i j where ij: "i < length nodes" "a = nodes' ! i" "j < length nodes" "b = nodes' ! j"
      using a b by (auto simp: in_set_conv_nth len)
    have keys: "lifted min_y (nodes ! i) a" "lifted min_y (nodes ! j) b" using l ij by (auto simp: list_all2_conv_all_nth)
    have "nodes_apart (filter (\<lambda>n. \<not> is_subnet_node n \<and> nt_subnet_id (node_type n) = s) nodes)"
      using arr by (simp add: map_arranged_def)
    then have apart: "layouts_apart NODE_PADDING (node_layout (nodes ! i)) (node_layout (nodes ! j))"
      using a b ij ne keys [THEN lifted_keeps] by (simp add: nodes_apart_def)
    show "layouts_apart NODE_PADDING (node_layout a) (node_layout b)"
    proof (cases "ix (node_position a) = ix (node_position b)")
      case True
      have key: "column_key (nodes ! i) = Some (s, ix (node_position a))" "column_key (nodes ! j) = Some (s, ix (node_position a))"
        using a b True keys [THEN lifted_keeps] by (simp_all add: column_key_Some)
      have "i \<noteq> j" using ne ij by auto
      then have "apart_y NODE_PADDING (node_layout a) (node_layout b)"
        using st(2) [of i] st(2) [of j] st(3) [of i j] same_column_apart [OF arr ij(1,3)] key ij
        by (cases "k = (s, ix (node_position a))") auto
      then show ?thesis using True by (simp add: layouts_apart_def)
    qed (use apart keys [THEN lifted_keeps] in \<open>simp add: layouts_apart_def apart_x_def\<close>)
  qed
qed

lemma fold_min_le: "(\<forall>x \<in> set xs. fold min xs (m :: int) \<le> x) \<and> fold min xs m \<le> m \<and> fold min xs m \<in> insert m (set xs)"
  by (induction xs arbitrary: m) (force simp: min_def)+

lemma initially_bounded:
  assumes arr: "map_arranged nodes"
  shows "columns_bounded (subnet_min_y nodes) nodes"
  unfolding columns_bounded_def
proof (intro ballI impI conjI)
  fix n assume n: "n \<in> set nodes" "\<not> is_subnet_node n"
  let ?s = "nt_subnet_id (node_type n)"
  let ?ns = "filter (\<lambda>m. map_option fst (column_key m) = Some ?s) nodes"
  have mem: "n \<in> set ?ns" using n column_key_Some [of n "(?s, ix (node_position n))"] by simp
  obtain y ys where ys: "map (\<lambda>n. iy (node_position n)) ?ns = y # ys"
  proof (cases "map (\<lambda>n. iy (node_position n)) ?ns")
    case Nil
    then have "?ns = []" by (simp only: map_is_Nil_conv)
    with mem have "n \<in> set []" by (simp only:)
    then show ?thesis by simp
  qed
  have min: "subnet_min_y nodes ?s = fold min ys y" unfolding subnet_min_y_def ys by simp
  have "iy (node_position n) \<in> set (y # ys)" using mem unfolding ys [symmetric] by simp
  then show "subnet_min_y nodes ?s \<le> iy (node_position n)" using fold_min_le [of ys y] min by auto
  fix m assume m: "m \<in> set nodes" "is_subnet_node m" "node_id m = ?s"
  have "fold min ys y \<in> set (y # ys)" using fold_min_le [of ys y] by simp
  then obtain l where l: "l \<in> set ?ns" "subnet_min_y nodes ?s = iy (node_position l)" unfolding ys [symmetric] min by auto
  then have "\<not> is_subnet_node l" "nt_subnet_id (node_type l) = ?s" by (auto simp: column_key_Some)
  then show "50 \<le> subnet_min_y nodes (node_id m)"
    using arr l m by (auto simp: map_arranged_def in_zone_def)
qed

lemma column_indices_cong: "map column_key ns = map column_key ns' \<Longrightarrow> column_indices ns = column_indices ns'"
proof -
  assume keys: "map column_key ns = map column_key ns'"
  then have len: "length ns = length ns'" by (rule map_eq_imp_length_eq)
  then have "column_key (ns ! i) = column_key (ns' ! i)" if "i < length ns'" for i
    using keys that by (metis nth_map)
  then show ?thesis by (intro ext) (auto simp: column_indices_def len intro!: filter_cong)
qed

lemma compress_vertical_lifted:
  assumes arr: "map_arranged nodes"
  shows "map_arranged (compress_vertical_spacing nodes)"
    and "map (\<lambda>n. (node_id n, node_type n, node_size n, ix (node_position n))) (compress_vertical_spacing nodes) =
      map (\<lambda>n. (node_id n, node_type n, node_size n, ix (node_position n))) nodes"
proof -
  let ?min = "subnet_min_y nodes" and ?key = "\<lambda>n. (node_id n, node_type n, node_size n, ix (node_position n))"
  define I where "I = (\<lambda>ns. map_arranged ns \<and> columns_bounded ?min ns \<and> map column_key ns = map column_key nodes \<and>
    map ?key ns = map ?key nodes)"
  have "I (foldl (compress_column ?min (column_indices nodes)) nodes (remdups (List.map_filter column_key nodes)))"
  proof (rule foldl_invariant)
    show "I nodes" using arr initially_bounded by (simp add: I_def)
    show "I (compress_column ?min (column_indices nodes) ns k)" if "I ns" for ns k
    proof -
      let ?ns = "compress_column ?min (column_indices nodes) ns k"
      have ns: "map_arranged ns" "columns_bounded ?min ns" "map column_key ns = map column_key nodes" "map ?key ns = map ?key nodes"
        using that by (simp_all add: I_def)
      have "?ns = stack_column (?min (fst k)) (sort_key (\<lambda>i. iy (node_position (ns ! i))) (column_indices ns k)) ns"
        using column_indices_cong [OF ns(3)] by (simp add: compress_column_def)
      note l = stacked_lifted(1) [OF ns(1,2) refl this] and ok = stacked_arranged [OF ns(1,2) this]
      have "map column_key ?ns = map column_key ns" "map ?key ?ns = map ?key ns"
        using lifted_keeps by (auto intro!: lifted_map [OF l])
      then show ?thesis using ok lifted_bounded [OF l ns(2)] ns(3,4) by (simp add: I_def)
    qed
  qed
  then show "map_arranged (compress_vertical_spacing nodes)" "map ?key (compress_vertical_spacing nodes) = map ?key nodes"
    by (simp_all add: I_def compress_vertical_spacing_def)
qed

subsection \<open>Widths on the grid\<close>

lemma fold_max_dvd: "(\<forall>x \<in> set xs. d dvd x) \<Longrightarrow> d dvd m \<Longrightarrow> d dvd fold max xs (m :: nat)"
  by (induction xs arbitrary: m) (auto simp: max_def)

lemma cumulative_dvd:
  assumes "(d :: int) dvd cur" "d dvd int p" "\<forall>w \<in> set ws. d dvd int w" "i < length ws"
  shows "d dvd cumulative cur p ws ! i"
  using assms
proof (induction ws arbitrary: cur i)
  case (Cons w ws)
  then show ?case by (cases i) auto
qed simp

lemma grid_layout_dvd:
  assumes "\<forall>c \<in> ran grid. 25 dvd ux (sc_size c)" "(i, l) \<in> set (grid_layout w h NODE_PADDING grid)"
  shows "25 dvd ix (nl_position l) \<and> 25 dvd ux (nl_size l)"
proof -
  let ?xs = "cumulative 50 50 (map (col_width h grid) [0..<w])"
  have "25 dvd (case grid (col, row) of Some c \<Rightarrow> ux (sc_size c) | None \<Rightarrow> 0)" for col row
    using assms(1) by (auto simp: ran_def split: option.split)
  then have "25 dvd col_width h grid col" for col unfolding col_width_def by (intro fold_max_dvd) auto
  then have "int 25 dvd int (col_width h grid col)" for col unfolding of_nat_dvd_iff .
  then have xs: "25 dvd ?xs ! col" if "col < w" for col using that by (intro cumulative_dvd) auto
  define P where "P = (\<lambda>(i :: uuid, l :: NodeLayout). 25 dvd ix (nl_position l) \<and> 25 dvd ux (nl_size l))"
  have up: "\<forall>p \<in> set (AList.update k v al). P p" if "\<forall>p \<in> set al. P p" "P (k, v)" for k v al
    using that by (induction al) (auto split: if_splits)
  have new: "P (sc_id c, \<lparr>nl_size = sc_size c, nl_position = \<lparr>ix = ?xs ! col, iy = y\<rparr>\<rparr>)"
    if "col < w" "grid (col, row) = Some c" for c col row y
  proof -
    have "c \<in> ran grid" using that(2) by (rule ranI)
    then show ?thesis using xs [OF that(1)] assms(1) by (simp add: P_def)
  qed
  have "\<forall>p \<in> set (grid_layout w h NODE_PADDING grid). P p"
    unfolding grid_layout_def Let_def NODE_PADDING_simps of_nat_numeral
  proof (rule foldl_invariant [where P = "\<lambda>r. \<forall>p \<in> set r. P p"])
    fix r cr assume "cr \<in> set (concat (map (\<lambda>row. map (\<lambda>col. (col, row)) [0..<w]) [0..<h]))" and r: "\<forall>p \<in> set r. P p"
    then obtain col row where cr: "cr = (col, row)" "col < w" by auto
    show "\<forall>p \<in> set (case cr of (col, row) \<Rightarrow> case grid (col, row) of
        Some child \<Rightarrow> AList.update (sc_id child) \<lparr>nl_size = sc_size child, nl_position =
          \<lparr>ix = ?xs ! col, iy = cumulative 50 50 (map (row_height w grid) [0..<h]) ! row\<rparr>\<rparr> r
      | None \<Rightarrow> r). P p"
      using up [OF r new [OF cr(2)]] r by (simp add: cr split: option.split)
  qed simp
  then show ?thesis using assms(2) by (auto simp: P_def)
qed

lemma placed_ran:
  "ran (foldl (place_child w h ideal) Map.empty cfs) \<subseteq> fst ` set cfs"
proof (rule foldl_invariant [where P = "\<lambda>g. ran g \<subseteq> fst ` set cfs"])
  show "ran (place_child w h ideal g cf) \<subseteq> fst ` set cfs" if "cf \<in> set cfs" "ran g \<subseteq> fst ` set cfs" for g cf
    using that by (auto simp: place_child_def ran_def split: option.split if_splits)
qed simp

lemma zone_width_dvd:
  assumes "\<forall>c \<in> set cs. 25 dvd ux (sc_size c)"
  shows "25 dvd ux (snd (zone_layout env0 ctx cs))"
proof (cases "cs = []")
  case False
  let ?ls = "calculate_anchor_based_positions (pe_round env0) cs NODE_PADDING ctx"
  have "25 dvd ix (nl_position l) \<and> 25 dvd ux (nl_size l)" if l: "(i, l) \<in> set ?ls" for i l
  proof -
    obtain w h ideal where "(i, l) \<in> set (grid_layout w h NODE_PADDING
        (foldl (place_child w h ideal) Map.empty (placement_order (map (\<lambda>c. (c, child_force (pe_round env0) ctx cs c)) cs))))"
      using l False unfolding calculate_anchor_based_positions_def Let_def by (auto split: prod.splits)
    moreover have "fst ` set (placement_order (map (\<lambda>c. (c, child_force (pe_round env0) ctx cs c)) cs)) = set cs"
      by (force simp: placement_order_def)
    moreover from this have "\<forall>c \<in> ran (foldl (place_child w h ideal) Map.empty
        (placement_order (map (\<lambda>c. (c, child_force (pe_round env0) ctx cs c)) cs))). 25 dvd ux (sc_size c)"
      using placed_ran [of w h ideal "placement_order (map (\<lambda>c. (c, child_force (pe_round env0) ctx cs c)) cs)"] assms
      by blast
    ultimately show ?thesis by (intro grid_layout_dvd)
  qed
  then have "25 dvd nat (ix (nl_position l) + int (ux (nl_size l)) + int (ux NODE_PADDING))" if l: "(i, l) \<in> set ?ls" for i l
  proof -
    have l': "25 dvd ix (nl_position l)" "25 dvd ux (nl_size l)"
      using \<open>\<And>l i. (i, l) \<in> set ?ls \<Longrightarrow> 25 dvd ix (nl_position l) \<and> 25 dvd ux (nl_size l)\<close> [OF l] by simp_all
    obtain k m where km: "ix (nl_position l) = 25 * k" "ux (nl_size l) = 25 * m" using l' by (auto simp: dvd_def)
    have "nat (25 * k + int (25 * m) + 50) = nat (25 * (k + int m + 2))" by (simp add: algebra_simps)
    also have "\<dots> = 25 * nat (k + int m + 2)" by (subst nat_mult_distrib) simp_all
    finally show ?thesis by (simp add: km)
  qed
  then have "25 dvd ux (calculate_container_size_from_layouts ?ls NODE_PADDING)"
    unfolding calculate_container_size_from_layouts_def by (auto intro!: fold_max_dvd)
  then show ?thesis using False by (simp add: zone_layout_def Let_def)
qed (simp add: zone_layout_def)

subsection \<open>The optimised map\<close>

lemma planned_map_good:
  assumes ids: "distinct (map subnet_id (cx_subnets ctx))" "distinct (map interface_id (cx_interfaces ctx))"
      "subnet_id ` set (cx_subnets ctx) \<inter> interface_id ` set (cx_interfaces ctx) = {}"
    and plan: "create_subnet_child_nodes env0 ctx edges g m = ((layouts, nodes), edges', consolidated)"
  shows "map_good (create_subnet_nodes env0 ctx consolidated layouts @ nodes)"
proof -
  let ?st = "foldl (group_interface env0 ctx g m) \<lparr>gs_edges = edges, gs_children = [], gs_docker = []\<rparr> (cx_interfaces ctx)"
  let ?cs = "gs_children ?st" and ?size = "\<lambda>k c. calculate_subnet_size env0 ctx k c"
  have ok: "grouped_ok (cx_interfaces ctx) ?st" by (rule grouped_all [OF ids(2)])
  then have keys: "distinct (map fst ?cs)" and kids: "distinct (map sc_id (concat (map snd ?cs)))"
    and wide: "\<forall>c \<in> set (concat (map snd ?cs)). ux (sc_size c) = 250" unfolding grouped_ok_def by blast+
  have plan': "plan_subnets env0 ctx ?cs = (layouts, nodes)"
    using plan by (simp add: create_subnet_child_nodes_def group_children_by_subnet_def Let_def)
  then have layouts: "layouts = map (\<lambda>(k, c). (k, \<lparr>sl_size = fst (?size k c), sl_infra_width = fst (snd (?size k c))\<rparr>)) ?cs"
    by (auto simp: plan_subnets_def Let_def case_prod_unfold comp_def)
  have width: "25 dvd ux (fst (?size k c))" if kc: "(k, c) \<in> set ?cs" for k c
  proof -
    obtain infra regular where sp: "split_children ctx k c = (infra, regular)" by (cases "split_children ctx k c")
    have perm: "mset infra + mset regular = mset c" by (rule split_children_perm [OF sp])
    then have parts: "set c = set infra \<union> set regular" by (metis set_mset_mset set_mset_union)
    have "distinct (map sc_id c)" using kids kc by (auto simp: map_concat distinct_concat_iff)
    moreover have "mset (map sc_id infra) + mset (map sc_id regular) = mset (map sc_id c)"
      using perm by (metis image_mset_union mset_map)
    ultimately have "distinct (map sc_id infra)"
      by (metis distinct_append mset_append mset_eq_imp_distinct_iff)
    moreover have "25 dvd ux (sc_size x)" if "x \<in> set c" for x
    proof -
      have "ux (sc_size x) = 250" using kc that by (intro bspec [OF wide]) force
      then show ?thesis by simp
    qed
    ultimately show ?thesis
      using zone_width_dvd [of infra env0 ctx] zone_width_dvd [of regular env0 ctx] parts
      by (simp add: calculate_subnet_size_zones [OF sp])
  qed
  have sized: "25 dvd ux (sl_size l)" if "map_of layouts k = Some l" for k l
    using map_of_SomeD [OF that] width unfolding layouts by auto
  note children = planned_children [OF keys kids plan']
  have "distinct (map fst layouts)" using children(1) keys by simp
  note subnets = subnet_nodes_apart(2) [OF ids(1) this, of env0 consolidated]
  have "25 dvd ux (node_size n)" if "n \<in> set (create_subnet_nodes env0 ctx consolidated layouts @ nodes)" "is_subnet_node n" for n
    using that subnets sized children(4) by fastforce
  then show ?thesis using planned_map_arranged [OF ids plan] by (simp add: map_good_def)
qed

lemma optimize_passes_good:
  assumes "map_good nodes"
  shows "good_as nodes (optimize_passes env0 ctx edges k q nodes)"
  using assms
proof (induction k arbitrary: q nodes)
  case (Suc k)
  let ?nodes = "optimize_subnet_positions env0 ctx edges nodes"
  have one: "good_as nodes ?nodes" by (rule optimize_subnet_positions_good [OF Suc.prems])
  then have "good_as ?nodes (optimize_passes env0 ctx edges k q' ?nodes)" for q' using Suc.IH by blast
  with one show ?case by (simp add: Let_def)
qed simp

lemma optimize_graph_good:
  assumes "map_good nodes"
  shows "map_arranged (fst (optimize_graph env0 ctx edges nodes))"
    and "map (\<lambda>n. (node_id n, node_type n, node_size n)) (fst (optimize_graph env0 ctx edges nodes)) =
      map (\<lambda>n. (node_id n, node_type n, node_size n)) nodes"
proof -
  let ?passed = "optimize_passes env0 ctx edges 20 (calculate_layout_quality env0 nodes edges) nodes"
  let ?rows = "compress_horizontal_spacing ctx edges ?passed"
  have passed: "good_as nodes ?passed" by (rule optimize_passes_good [OF assms])
  have rows: "good_as ?passed ?rows" using passed by (intro compress_horizontal_good) simp
  then have arr: "map_arranged ?rows" by (simp add: map_good_def)
  have fst: "fst (optimize_graph env0 ctx edges nodes) = compress_vertical_spacing ?rows"
    by (simp add: optimize_graph_def Let_def)
  show "map_arranged (fst (optimize_graph env0 ctx edges nodes))"
    unfolding fst by (rule compress_vertical_lifted(1) [OF arr])
  let ?key = "\<lambda>n. (node_id n, node_type n, node_size n)"
  have "map ?key (compress_vertical_spacing ?rows) = map ?key ?rows"
    using compress_vertical_lifted(2) [OF arr, THEN arg_cong, of "map (\<lambda>(a, b, c, d). (a, b, c))"] by (simp add: comp_def)
  also have "\<dots> = map ?key nodes"
  proof -
    have "map shape ?rows = map shape nodes" using passed rows by simp
    from this [THEN arg_cong, of "map (\<lambda>(a, b, c, d). (a, b, c))"] show ?thesis by (simp add: comp_def shape_def)
  qed
  finally show "map ?key (fst (optimize_graph env0 ctx edges nodes)) = map ?key nodes" unfolding fst .
qed

text \<open>On \<open>f64\<close> with any rounding of relative error at most \<open>2^-53\<close>, the division by the grid size followed
  by rounding to the nearest integer is the integer computation, for positions up to \<open>2^40\<close>.\<close>

lemma snap_to_grid_f64:
  fixes rnd :: "rat \<Rightarrow> rat"
  assumes rnd: "\<And>q. \<bar>rnd q - q\<bar> \<le> \<bar>q\<bar> / 2 ^ 53" and exact: "rnd (of_int x) = of_int x" and x: "\<bar>x\<bar> \<le> 2 ^ 40"
  shows "round_rat (rnd (rnd (of_int x) / 25)) * 25 = snap_to_grid x"
proof -
  define k where "k = (2 * x + 25) div 50"
  have "50 * k \<le> 2 * x + 25" "2 * x + 25 < 50 * (k + 1)" unfolding k_def by presburger+
  then have near: "25 * k - 12 \<le> x" "x \<le> 25 * k + 12" by presburger+
  define q where "q = (of_int x :: rat) / 25"
  have "of_int (25 * k - 12) \<le> (of_int x :: rat)" "(of_int x :: rat) \<le> of_int (25 * k + 12)"
    using near by (simp_all only: of_int_le_iff)
  then have q: "of_int k - 12 / 25 \<le> q" "q \<le> of_int k + 12 / 25" unfolding q_def by (simp_all add: field_simps)
  have "\<bar>of_int x :: rat\<bar> \<le> of_int (2 ^ 40)" using x by (metis of_int_abs of_int_le_iff)
  then have "\<bar>q\<bar> / 2 ^ 53 \<le> 1 / 100" unfolding q_def by (simp add: abs_divide)
  with rnd [of q] have "\<bar>rnd q - q\<bar> \<le> 1 / 100" by linarith
  with q have r: "of_int k - 1 / 2 < rnd q" "rnd q < of_int k + 1 / 2" by linarith+
  have "round_rat (rnd q) = k"
    unfolding round_rat_def using r by (auto simp: floor_eq_iff ceiling_eq_iff)
  then show ?thesis using exact by (simp add: q_def snap_to_grid_def k_def)
qed

subsection \<open>The loops end\<close>

text \<open>The two loops in the shape of the source: they end by \<open>break\<close>, or when the counter reaches its bound.\<close>

partial_function (option) optimize_loop ::
    "optimizer_env \<Rightarrow> TopologyContext \<Rightarrow> Edge list \<Rightarrow> nat \<Rightarrow> LayoutQuality \<Rightarrow> Node list \<Rightarrow> Node list option" where
  "optimize_loop env0 ctx edges iterations prev_quality nodes =
     (let iterations' = iterations + 1;
          nodes' = optimize_subnet_positions env0 ctx edges nodes;
          current_quality = calculate_layout_quality env0 nodes' edges;
          improvement_pct = improvement_percentage env0 current_quality prev_quality
      in if \<not> is_better_than current_quality prev_quality then Some nodes'
         else if improvement_pct > 0 \<and> improvement_pct < oe_round env0 (1 / 10) then Some nodes'
         else if iterations' \<ge> 20 then Some nodes'
         else optimize_loop env0 ctx edges iterations' current_quality nodes')"

lemma optimize_loop_passes:
  "k < 20 \<Longrightarrow> optimize_loop env0 ctx edges k q nodes = Some (optimize_passes env0 ctx edges (20 - k) q nodes)"
proof (induction "20 - k" arbitrary: k q nodes)
  case (Suc n)
  then have n: "20 - k = Suc n" "n = 20 - (k + 1)" by simp_all
  show ?case
  proof (cases n)
    case 0
    then show ?thesis using n by (subst optimize_loop.simps) (simp add: Let_def)
  next
    case (Suc m)
    then have "k + 1 < 20" using n by simp
    with Suc.hyps(1) [OF n(2) this] n show ?thesis
      by (subst optimize_loop.simps) (simp add: Let_def)
  qed
qed simp


subsection \<open>Properties of the optimiser\<close>

text \<open>The row of a sample map: three subnets, the one in the middle locked.\<close>

definition sample_subnet_node :: "uuid \<Rightarrow> int \<Rightarrow> Node" where
  "sample_subnet_node i x =
     \<lparr>node_type = NodeType_SubnetNode 0, node_id = i, node_position = \<lparr>ix = x, iy = 0\<rparr>,
      node_size = \<lparr>ux = 350, uy = 200\<rparr>, node_header = None\<rparr>"

definition sample_row :: "Node list" where
  "sample_row = [sample_subnet_node 1 0, sample_subnet_node 2 1000, sample_subnet_node 3 3000]"

lemma sample_row_good: "map_good sample_row"
  by (simp add: map_good_def map_arranged_def subnets_apart_def nodes_apart_def sample_row_def sample_subnet_node_def
      is_subnet_node_def apart_x_def SUBNET_PADDING_def)

lemma sample_row_ok: "layer_ok sample_row [1, 2, 3]"
  by (simp add: layer_ok_def find_node_def sample_row_def sample_subnet_node_def is_subnet_node_def)

text \<open>C23. Closing up a row, which the code does segment by segment between the locked subnets with a
  check for overlaps at the end of each, is the scan from left to right in which locked subnets keep
  their place and every other subnet moves up to its left neighbour.\<close>

theorem compress_layer_is_scan:
  assumes "map_good nodes" and "layer_ok nodes layer"
  shows "compress_layer locked nodes layer =
    apply_positions (scan_row (scan_start None (layer_infos locked nodes layer)) (layer_infos locked nodes layer)) nodes"
  by (rule compress_layer_scan [OF assms refl])

theorem compress_layer_is_scan_witness:
  "compress_layer {2} sample_row [1, 2, 3] = [sample_subnet_node 1 0, sample_subnet_node 2 1000, sample_subnet_node 3 1475]"
  using compress_layer_is_scan [OF sample_row_good sample_row_ok, of "{2}"]
  by (simp add: layer_infos_def find_node_def sample_row_def sample_subnet_node_def apply_positions_def scan_start_def
      map_filter_simps)

text \<open>The optimiser keeps the map well formed: it returns the same nodes in the same order, with their
  identifiers, types and sizes, and edges that differ from the given ones in nothing but their handles.\<close>

theorem optimize_graph_keeps_nodes:
  assumes "map_good nodes"
  shows "map (\<lambda>n. (node_id n, node_type n, node_size n)) (fst (optimize_graph env0 ctx edges nodes)) =
      map (\<lambda>n. (node_id n, node_type n, node_size n)) nodes \<and>
    map (\<lambda>e. (edge_id e, edge_source e, edge_target e, edge_type e, edge_label e, edge_is_multi_hop e))
        (snd (optimize_graph env0 ctx edges nodes)) =
      map (\<lambda>e. (edge_id e, edge_source e, edge_target e, edge_type e, edge_label e, edge_is_multi_hop e)) edges"
proof
  show "map (\<lambda>n. (node_id n, node_type n, node_size n)) (fst (optimize_graph env0 ctx edges nodes)) =
      map (\<lambda>n. (node_id n, node_type n, node_size n)) nodes"
    by (rule optimize_graph_good(2) [OF assms])
  have "map (\<lambda>e. (edge_id e, edge_source e, edge_target e, edge_type e, edge_label e, edge_is_multi_hop e))
      (fix_intra_subnet_handles env0 ctx ns es) =
    map (\<lambda>e. (edge_id e, edge_source e, edge_target e, edge_type e, edge_label e, edge_is_multi_hop e)) es" for ns es
    by (simp add: fix_intra_subnet_handles_def Let_def case_prod_unfold split: option.split)
  then show "map (\<lambda>e. (edge_id e, edge_source e, edge_target e, edge_type e, edge_label e, edge_is_multi_hop e))
        (snd (optimize_graph env0 ctx edges nodes)) =
      map (\<lambda>e. (edge_id e, edge_source e, edge_target e, edge_type e, edge_label e, edge_is_multi_hop e)) edges"
    by (simp add: optimize_graph_def Let_def)
qed

definition sample_optimizer :: optimizer_env where
  "sample_optimizer = \<lparr>oe_round = (\<lambda>q. q), oe_sqrt = (\<lambda>q. q)\<rparr>"

theorem optimize_graph_keeps_nodes_witness:
  "map node_id (fst (optimize_graph sample_optimizer sample_map [] sample_row)) = [1, 2, 3]"
  using optimize_graph_keeps_nodes [OF sample_row_good, of sample_optimizer sample_map "[]", THEN conjunct1, THEN arg_cong, of "map fst"]
  by (simp add: comp_def sample_row_def sample_subnet_node_def)

end
