(* ===== verification/Topology_Graph.thy ===== *)
theory Topology_Graph
  imports Edge_Builder Optimizer_Safety
begin

section \<open>Building a map\<close>

text \<open>
  \<open>TopologyService::build_graph\<close> with \<open>EdgeBuilder::add_edges_to_graph\<close>
  (\<^verbatim>\<open>backend/src/server/topology/service/main.rs\<close>, \<^verbatim>\<open>edge_builder.rs\<close>): the edges, the nodes and their
  layout are put into a graph, and the handles of edges that a user changed on the previous map are
  carried over where the node at the start of the edge has as many edges as before.

  The graph is a \<open>petgraph::Graph\<close>, a library of its own. Its operations are the fields of
  \<open>petgraph_ops\<close>, and the locale \<open>petgraph\<close> states what its documentation promises of them: nodes and
  edges are numbered in the order in which they are added, and \<open>edges\<close> of a directed graph yields the
  outgoing edges of a node. The locale is interpreted on adjacency kept as two lists.
\<close>

subsection \<open>The graph library\<close>

record 'g petgraph_ops =
  pg_new :: 'g
  pg_add_node :: "Node \<Rightarrow> 'g \<Rightarrow> nat \<times> 'g"
  pg_add_edge :: "nat \<Rightarrow> nat \<Rightarrow> Edge \<Rightarrow> 'g \<Rightarrow> 'g"
  pg_node_weights :: "'g \<Rightarrow> Node list"
  pg_edge_weights :: "'g \<Rightarrow> Edge list"
  pg_edge_references :: "'g \<Rightarrow> (nat \<times> Edge) list"
  pg_edges :: "'g \<Rightarrow> nat \<Rightarrow> (nat \<times> Edge) list"
  pg_edge_weight_mut :: "nat \<Rightarrow> (Edge \<Rightarrow> Edge) \<Rightarrow> 'g \<Rightarrow> 'g"

definition outgoing :: "nat \<Rightarrow> (nat \<times> nat \<times> Edge) list \<Rightarrow> (nat \<times> Edge) list" where
  "outgoing i links = map (\<lambda>(k, _, _, e). (k, e)) (filter (\<lambda>(_, s, _, _). s = i) (enumerate 0 links))"

locale petgraph =
  fixes ops :: "'g petgraph_ops" and nodes_of :: "'g \<Rightarrow> Node list" and links_of :: "'g \<Rightarrow> (nat \<times> nat \<times> Edge) list"
  assumes new_nodes: "nodes_of (pg_new ops) = []"
    and new_links: "links_of (pg_new ops) = []"
    and add_node_index: "fst (pg_add_node ops n g) = length (nodes_of g)"
    and add_node_nodes: "nodes_of (snd (pg_add_node ops n g)) = nodes_of g @ [n]"
    and add_node_links: "links_of (snd (pg_add_node ops n g)) = links_of g"
    and add_edge_nodes: "i < length (nodes_of g) \<Longrightarrow> j < length (nodes_of g) \<Longrightarrow> nodes_of (pg_add_edge ops i j e g) = nodes_of g"
    and add_edge_links: "i < length (nodes_of g) \<Longrightarrow> j < length (nodes_of g) \<Longrightarrow> links_of (pg_add_edge ops i j e g) = links_of g @ [(i, j, e)]"
    and node_weights: "pg_node_weights ops g = nodes_of g"
    and edge_weights: "pg_edge_weights ops g = map (\<lambda>(_, _, e). e) (links_of g)"
    and edge_references: "pg_edge_references ops g = enumerate 0 (map (\<lambda>(_, _, e). e) (links_of g))"
    and edges: "mset (pg_edges ops g i) = mset (outgoing i (links_of g))"
    and edge_weight_mut_nodes: "nodes_of (pg_edge_weight_mut ops k f g) = nodes_of g"
    and edge_weight_mut_links: "k < length (links_of g) \<Longrightarrow>
      links_of (pg_edge_weight_mut ops k f g) = (links_of g)[k := (case links_of g ! k of (i, j, e) \<Rightarrow> (i, j, f e))]"

subsection \<open>The graph of a map\<close>

definition add_nodes :: "'g petgraph_ops \<Rightarrow> Node list \<Rightarrow> 'g \<times> (uuid \<rightharpoonup> nat)" where
  "add_nodes ops nodes =
     foldl (\<lambda>(g, node_indices) node.
       let (node_idx, g') = pg_add_node ops node g in (g', node_indices(node_id node \<mapsto> node_idx)))
       (pg_new ops, Map.empty) nodes"

definition add_edges_to_graph :: "'g petgraph_ops \<Rightarrow> (uuid \<rightharpoonup> nat) \<Rightarrow> Edge list \<Rightarrow> 'g \<Rightarrow> 'g" where
  "add_edges_to_graph ops node_indices edges g =
     foldl (\<lambda>g edge.
       case (node_indices (edge_source edge), node_indices (edge_target edge)) of
         (Some src_idx, Some tgt_idx) \<Rightarrow> pg_add_edge ops src_idx tgt_idx edge g
       | _ \<Rightarrow> g) g edges"

definition with_handles :: "EdgeHandle \<Rightarrow> EdgeHandle \<Rightarrow> Edge \<Rightarrow> Edge" where
  "with_handles source_handle target_handle edge =
     edge\<lparr>edge_source_handle := source_handle, edge_target_handle := target_handle\<rparr>"

definition edges_to_update ::
    "'g petgraph_ops \<Rightarrow> 'g \<Rightarrow> (uuid \<rightharpoonup> nat) \<Rightarrow> 'g \<Rightarrow> (uuid \<rightharpoonup> nat) \<Rightarrow> (nat \<times> EdgeHandle \<times> EdgeHandle) list" where
  "edges_to_update ops graph node_indices old_graph old_node_indices =
     (let old_edges_map = map_of (rev (map (\<lambda>(_, e). ((edge_source e, edge_target e), e)) (pg_edge_references ops old_graph)))
      in concat (map (\<lambda>node.
           case (old_node_indices (node_id node), node_indices (node_id node)) of
             (Some old_idx, Some new_idx) \<Rightarrow>
               if length (pg_edges ops old_graph old_idx) = length (pg_edges ops graph new_idx)
               then List.map_filter (\<lambda>(k, new_edge).
                      map_option (\<lambda>old_edge. (k, edge_source_handle old_edge, edge_target_handle old_edge))
                        (old_edges_map (edge_source new_edge, edge_target new_edge)))
                      (pg_edges ops graph new_idx)
               else []
           | _ \<Rightarrow> []) (pg_node_weights ops graph)))"

definition preserve_handles ::
    "'g petgraph_ops \<Rightarrow> Node list \<Rightarrow> Edge list \<Rightarrow> Node list \<Rightarrow> Edge list \<Rightarrow> Node list \<times> Edge list" where
  "preserve_handles ops all_nodes optimized_edges old_nodes old_edges =
     (let (g0, node_indices) = add_nodes ops all_nodes;
          graph = add_edges_to_graph ops node_indices optimized_edges g0;
          (h0, old_node_indices) = add_nodes ops old_nodes;
          old_graph = add_edges_to_graph ops old_node_indices old_edges h0;
          updated = foldl (\<lambda>g (k, source_handle, target_handle).
              pg_edge_weight_mut ops k (with_handles source_handle target_handle) g)
            graph (edges_to_update ops graph node_indices old_graph old_node_indices)
      in (pg_node_weights ops updated, pg_edge_weights ops updated))"

text \<open>The environment of a build: the graph library, the planner's and the optimiser's environment, and
  the identifiers drawn for the edges.\<close>

record 'g build_env =
  be_ops :: "'g petgraph_ops"
  be_planner :: planner_env
  be_optimizer :: optimizer_env
  be_fresh :: "nat \<Rightarrow> uuid"

definition planned_map :: "'g build_env \<Rightarrow> TopologyContext \<Rightarrow> Node list \<times> Edge list" where
  "planned_map env0 ctx =
     (let group_bridges = ro_group_docker_bridges_by_host (cx_request ctx);
          (container_edges, grouped) = create_containerized_service_edges ctx group_bridges;
          all_edges = with_ids (be_fresh env0) 0
            (create_interface_edges ctx @ create_group_edges ctx @ create_vm_host_edges ctx @ container_edges);
          ((subnet_layouts, child_nodes), edges, consolidated) =
            create_subnet_child_nodes (be_planner env0) ctx all_edges group_bridges grouped
      in (create_subnet_nodes (be_planner env0) ctx consolidated subnet_layouts @ child_nodes, edges))"

definition build_graph :: "'g build_env \<Rightarrow> TopologyContext \<Rightarrow> Node list \<Rightarrow> Edge list \<Rightarrow> Node list \<times> Edge list" where
  "build_graph env0 ctx old_nodes old_edges =
     (let (all_nodes, all_edges) = planned_map env0 ctx;
          (optimized_nodes, optimized_edges) = optimize_graph (be_optimizer env0) ctx all_edges all_nodes
      in preserve_handles (be_ops env0) optimized_nodes optimized_edges old_nodes old_edges)"

subsection \<open>Adjacency as lists\<close>

record list_graph =
  lg_nodes :: "Node list"
  lg_links :: "(nat \<times> nat \<times> Edge) list"

definition list_graph_ops :: "list_graph petgraph_ops" where
  "list_graph_ops =
     \<lparr>pg_new = \<lparr>lg_nodes = [], lg_links = []\<rparr>,
      pg_add_node = (\<lambda>n g. (length (lg_nodes g), g\<lparr>lg_nodes := lg_nodes g @ [n]\<rparr>)),
      pg_add_edge = (\<lambda>i j e g. g\<lparr>lg_links := lg_links g @ [(i, j, e)]\<rparr>),
      pg_node_weights = lg_nodes,
      pg_edge_weights = (\<lambda>g. map (\<lambda>(_, _, e). e) (lg_links g)),
      pg_edge_references = (\<lambda>g. enumerate 0 (map (\<lambda>(_, _, e). e) (lg_links g))),
      pg_edges = (\<lambda>g i. rev (outgoing i (lg_links g))),
      pg_edge_weight_mut = (\<lambda>k f g. g\<lparr>lg_links := (lg_links g)[k := (case lg_links g ! k of (i, j, e) \<Rightarrow> (i, j, f e))]\<rparr>)\<rparr>"

interpretation list_graph: petgraph list_graph_ops lg_nodes lg_links
  by unfold_locales (simp_all add: list_graph_ops_def)

subsection \<open>The handles that are carried over\<close>

definition placed_edges :: "Node list \<Rightarrow> Edge list \<Rightarrow> Edge list" where
  "placed_edges nodes edges =
     filter (\<lambda>e. edge_source e \<in> node_id ` set nodes \<and> edge_target e \<in> node_id ` set nodes) edges"

definition edges_from :: "uuid \<Rightarrow> Edge list \<Rightarrow> Edge list" where
  "edges_from i edges = filter (\<lambda>e. edge_source e = i) edges"

text \<open>The reference, on lists of edges: an edge takes the handles of the last edge between the same nodes
  on the previous map, if the node it starts at was there and has as many outgoing edges as before.\<close>

definition carried_over :: "Node list \<Rightarrow> Edge list \<Rightarrow> Node list \<Rightarrow> Edge list \<Rightarrow> Edge list" where
  "carried_over nodes edges old_nodes old_edges =
     (let new = placed_edges nodes edges; old = placed_edges old_nodes old_edges
      in map (\<lambda>e.
           if edge_source e \<in> node_id ` set old_nodes \<and>
              length (edges_from (edge_source e) old) = length (edges_from (edge_source e) new)
           then (case find (\<lambda>old_edge. edge_ends old_edge = edge_ends e) (rev old) of
                   Some old_edge \<Rightarrow> with_handles (edge_source_handle old_edge) (edge_target_handle old_edge) e
                 | None \<Rightarrow> e)
           else e) new)"

definition indices_ok :: "Node list \<Rightarrow> (uuid \<rightharpoonup> nat) \<Rightarrow> bool" where
  "indices_ok nodes indices \<longleftrightarrow>
     dom indices = node_id ` set nodes \<and> (\<forall>i k. indices i = Some k \<longrightarrow> k < length nodes \<and> node_id (nodes ! k) = i)"

lemma indices_ok_snoc:
  assumes "indices_ok nodes indices"
  shows "indices_ok (nodes @ [n]) (indices(node_id n \<mapsto> length nodes))"
proof -
  have "k < length nodes \<and> node_id (nodes ! k) = i" if "indices i = Some k" for i k
    using assms that by (simp add: indices_ok_def)
  then show ?thesis
    using assms by (auto simp: indices_ok_def nth_append less_Suc_eq)
qed

lemma map_of_rev_keyed: "map_of (rev (map (\<lambda>x. (f x, x)) xs)) k = find (\<lambda>x. f x = k) (rev xs)"
proof -
  have "map_of (map (\<lambda>x. (f x, x)) ys) k = find (\<lambda>x. f x = k) ys" for ys by (induction ys) auto
  from this [of "rev xs"] show ?thesis by (simp add: rev_map)
qed

lemma outgoing_edges:
  "length (outgoing n (map (\<lambda>e. (f e, g e, e)) es)) = length (filter (\<lambda>e. f e = n) es)"
  "set (outgoing n (map (\<lambda>e. (f e, g e, e)) es)) = {(k, es ! k) | k. k < length es \<and> f (es ! k) = n}"
proof -
  have "length (filter (\<lambda>(_, s, _, _). s = n) (enumerate m (map (\<lambda>e. (f e, g e, e)) es))) = length (filter (\<lambda>e. f e = n) es)" for m
    by (induction es arbitrary: m) auto
  then show "length (outgoing n (map (\<lambda>e. (f e, g e, e)) es)) = length (filter (\<lambda>e. f e = n) es)" by (simp add: outgoing_def)
  show "set (outgoing n (map (\<lambda>e. (f e, g e, e)) es)) = {(k, es ! k) | k. k < length es \<and> f (es ! k) = n}"
    by (force simp: outgoing_def in_set_enumerate_eq)
qed

lemma indices_inj:
  assumes "indices_ok nodes indices" "i \<in> node_id ` set nodes" "indices j = Some n"
  shows "the (indices i) = n \<longleftrightarrow> i = j"
proof
  assume "the (indices i) = n"
  moreover have "i \<in> dom indices" using assms(1,2) by (simp add: indices_ok_def)
  then obtain m where "indices i = Some m" by blast
  ultimately have "indices i = Some n" by simp
  then have "node_id (nodes ! n) = i" "node_id (nodes ! n) = j" using assms(1,3) unfolding indices_ok_def by blast+
  then show "i = j" by simp
qed (use assms(3) in simp)

definition graph_of :: "'g petgraph_ops \<Rightarrow> Node list \<Rightarrow> Edge list \<Rightarrow> 'g" where
  "graph_of ops nodes edges = add_edges_to_graph ops (snd (add_nodes ops nodes)) edges (fst (add_nodes ops nodes))"

context petgraph
begin

lemma add_nodes_spec:
  "nodes_of (fst (add_nodes ops nodes)) = nodes \<and> links_of (fst (add_nodes ops nodes)) = [] \<and>
     indices_ok nodes (snd (add_nodes ops nodes))"
proof (induction nodes rule: rev_induct)
  case Nil
  show ?case by (simp add: add_nodes_def new_nodes new_links indices_ok_def)
next
  case (snoc n ns)
  obtain g indices where ns: "add_nodes ops ns = (g, indices)" by (cases "add_nodes ops ns")
  have "add_nodes ops (ns @ [n]) = (snd (pg_add_node ops n g), indices(node_id n \<mapsto> fst (pg_add_node ops n g)))"
    using ns by (simp add: add_nodes_def case_prod_unfold Let_def)
  then have "snd (add_nodes ops (ns @ [n])) = indices(node_id n \<mapsto> length ns)"
      "fst (add_nodes ops (ns @ [n])) = snd (pg_add_node ops n g)"
    using snoc ns by (simp_all add: add_node_index)
  moreover have "nodes_of (snd (pg_add_node ops n g)) = ns @ [n]" "links_of (snd (pg_add_node ops n g)) = []"
    using snoc ns by (simp_all add: add_node_nodes add_node_links)
  moreover have "indices_ok ns indices" using snoc ns by simp
  ultimately show ?case using indices_ok_snoc [of ns indices n] by (simp only: simp_thms)
qed

lemma add_edges_spec:
  assumes "indices_ok (nodes_of g) indices"
  shows "nodes_of (add_edges_to_graph ops indices edges g) = nodes_of g"
    and "links_of (add_edges_to_graph ops indices edges g) =
      links_of g @ map (\<lambda>e. (the (indices (edge_source e)), the (indices (edge_target e)), e)) (placed_edges (nodes_of g) edges)"
proof -
  have dom: "indices i \<noteq> None \<longleftrightarrow> i \<in> node_id ` set (nodes_of g)" for i
    using assms by (auto simp: indices_ok_def)
  have less: "indices i = Some k \<Longrightarrow> k < length (nodes_of g)" for i k using assms by (simp add: indices_ok_def)
  have "nodes_of (add_edges_to_graph ops indices edges g) = nodes_of g \<and>
      links_of (add_edges_to_graph ops indices edges g) =
      links_of g @ map (\<lambda>e. (the (indices (edge_source e)), the (indices (edge_target e)), e)) (placed_edges (nodes_of g) edges)"
  proof (induction edges rule: rev_induct)
    case (snoc e es)
    let ?g = "add_edges_to_graph ops indices es g"
    show ?case
    proof (cases "indices (edge_source e) \<noteq> None \<and> indices (edge_target e) \<noteq> None")
      case True
      then obtain i j where ij: "indices (edge_source e) = Some i" "indices (edge_target e) = Some j" by auto
      then have "add_edges_to_graph ops indices (es @ [e]) g = pg_add_edge ops i j e ?g" by (simp add: add_edges_to_graph_def)
      moreover have "i < length (nodes_of ?g)" "j < length (nodes_of ?g)" using snoc less ij by auto
      moreover have "edge_source e \<in> node_id ` set (nodes_of g)" "edge_target e \<in> node_id ` set (nodes_of g)"
        using True dom by blast+
      ultimately show ?thesis
        using snoc ij by (simp add: add_edge_nodes add_edge_links placed_edges_def)
    next
      case False
      then have "add_edges_to_graph ops indices (es @ [e]) g = ?g" by (auto simp: add_edges_to_graph_def split: option.split)
      moreover have "\<not> (edge_source e \<in> node_id ` set (nodes_of g) \<and> edge_target e \<in> node_id ` set (nodes_of g))"
        using False dom by blast
      ultimately show ?thesis using snoc by (simp add: placed_edges_def)
    qed
  qed (simp add: add_edges_to_graph_def placed_edges_def)
  then show "nodes_of (add_edges_to_graph ops indices edges g) = nodes_of g"
    "links_of (add_edges_to_graph ops indices edges g) =
      links_of g @ map (\<lambda>e. (the (indices (edge_source e)), the (indices (edge_target e)), e)) (placed_edges (nodes_of g) edges)"
    by simp_all
qed

lemma updated_weights:
  assumes "\<forall>u \<in> set updates. fst u < length (links_of g) \<and> snd u = h (fst u)"
  shows "nodes_of (foldl (\<lambda>g (k, s, t). pg_edge_weight_mut ops k (with_handles s t) g) g updates) = nodes_of g"
    and "map (\<lambda>(_, _, e). e) (links_of (foldl (\<lambda>g (k, s, t). pg_edge_weight_mut ops k (with_handles s t) g) g updates)) =
      map (\<lambda>(k, _, _, e). if k \<in> fst ` set updates then with_handles (fst (h k)) (snd (h k)) e else e) (enumerate 0 (links_of g))"
proof -
  let ?step = "\<lambda>g (k, s, t). pg_edge_weight_mut ops k (with_handles s t) g"
  let ?upd = "\<lambda>ks (k, i, j, e). (i, j, if k \<in> ks then with_handles (fst (h k)) (snd (h k)) e else e)"
  have "nodes_of (foldl ?step g updates) = nodes_of g \<and>
      links_of (foldl ?step g updates) = map (?upd (fst ` set updates)) (enumerate 0 (links_of g))"
    using assms
  proof (induction updates rule: rev_induct)
    case Nil
    have "map (?upd {}) (enumerate 0 xs) = xs" for xs :: "(nat \<times> nat \<times> Edge) list"
      by (intro nth_equalityI) (auto simp: nth_enumerate_eq split: prod.split)
    from this [of "links_of g"] show ?case by (simp only: foldl.simps list.set image_empty simp_thms)
  next
    case (snoc u us)
    obtain k s t where u: "u = (k, s, t)" by (cases u)
    have k: "k < length (links_of g)" "h k = (s, t)" using snoc.prems u by auto
    let ?g = "foldl ?step g us"
    have IH: "nodes_of ?g = nodes_of g" "links_of ?g = map (?upd (fst ` set us)) (enumerate 0 (links_of g))"
      using snoc by simp_all
    then have "k < length (links_of ?g)" using k(1) by simp
    then have "links_of (foldl ?step g (us @ [u])) =
        (links_of ?g)[k := (case links_of ?g ! k of (i, j, e) \<Rightarrow> (i, j, with_handles s t e))]"
      by (simp add: u edge_weight_mut_links)
    also have "\<dots> = map (?upd (fst ` set (us @ [u]))) (enumerate 0 (links_of g))"
      unfolding IH(2)
      by (rule nth_equalityI)
        (auto simp: nth_list_update nth_enumerate_eq u k with_handles_def split: prod.split)
    finally show ?case using IH(1) by (simp add: u edge_weight_mut_nodes)
  qed
  then show "nodes_of (foldl ?step g updates) = nodes_of g"
    "map (\<lambda>(_, _, e). e) (links_of (foldl ?step g updates)) =
      map (\<lambda>(k, _, _, e). if k \<in> fst ` set updates then with_handles (fst (h k)) (snd (h k)) e else e) (enumerate 0 (links_of g))"
    by (simp_all add: case_prod_unfold comp_def)
qed

lemma graph_of_spec:
  shows "nodes_of (graph_of ops nodes edges) = nodes"
    and "links_of (graph_of ops nodes edges) = map (\<lambda>e. (the (snd (add_nodes ops nodes) (edge_source e)),
      the (snd (add_nodes ops nodes) (edge_target e)), e)) (placed_edges nodes edges)"
  using add_nodes_spec [of nodes] add_edges_spec [of "fst (add_nodes ops nodes)" "snd (add_nodes ops nodes)" edges]
  by (simp_all add: graph_of_def)

lemma graph_of_edges:
  assumes "snd (add_nodes ops nodes) i = Some n"
  shows "length (pg_edges ops (graph_of ops nodes edges) n) = length (edges_from i (placed_edges nodes edges))"
    and "set (pg_edges ops (graph_of ops nodes edges) n) =
      {(k, placed_edges nodes edges ! k) | k. k < length (placed_edges nodes edges) \<and> edge_source (placed_edges nodes edges ! k) = i}"
proof -
  let ?indices = "snd (add_nodes ops nodes)" and ?es = "placed_edges nodes edges"
  have ok: "indices_ok nodes ?indices" using add_nodes_spec by simp
  have src: "the (?indices (edge_source e)) = n \<longleftrightarrow> edge_source e = i" if "e \<in> set ?es" for e
    using indices_inj [OF ok _ assms] that by (simp add: placed_edges_def)
  have ms: "mset (pg_edges ops (graph_of ops nodes edges) n) = mset (outgoing n (links_of (graph_of ops nodes edges)))" by (rule edges)
  have "length (filter (\<lambda>e. the (?indices (edge_source e)) = n) ?es) = length (edges_from i ?es)"
    unfolding edges_from_def by (intro arg_cong [where f = length] filter_cong refl src)
  then show "length (pg_edges ops (graph_of ops nodes edges) n) = length (edges_from i ?es)"
    using mset_eq_length [OF ms] by (simp add: graph_of_spec outgoing_edges)
  show "set (pg_edges ops (graph_of ops nodes edges) n) = {(k, ?es ! k) | k. k < length ?es \<and> edge_source (?es ! k) = i}"
  proof -
    have "the (?indices (edge_source (?es ! k))) = n \<longleftrightarrow> edge_source (?es ! k) = i" if "k < length ?es" for k
      using src nth_mem [OF that] by blast
    then have "{(k, ?es ! k) | k. k < length ?es \<and> the (?indices (edge_source (?es ! k))) = n} =
        {(k, ?es ! k) | k. k < length ?es \<and> edge_source (?es ! k) = i}" by blast
    then show ?thesis using mset_eq_setD [OF ms] by (simp only: graph_of_spec outgoing_edges)
  qed
qed

text \<open>The updates: one for each edge that takes its handles from the previous map.\<close>

lemma update_iff:
  fixes nodes old_nodes :: "Node list" and edges0 old_edges :: "Edge list"
  assumes new: "new = placed_edges nodes edges0" and old: "old = placed_edges old_nodes old_edges"
  shows "(k, s, t) \<in> set (edges_to_update ops (graph_of ops nodes edges0) (snd (add_nodes ops nodes))
      (graph_of ops old_nodes old_edges) (snd (add_nodes ops old_nodes))) \<longleftrightarrow>
    k < length new \<and> edge_source (new ! k) \<in> node_id ` set old_nodes \<and>
    length (edges_from (edge_source (new ! k)) old) = length (edges_from (edge_source (new ! k)) new) \<and>
    (\<exists>e. find (\<lambda>old_edge. edge_ends old_edge = edge_ends (new ! k)) (rev old) = Some e \<and>
       s = edge_source_handle e \<and> t = edge_target_handle e)"
proof -
  let ?idx = "snd (add_nodes ops nodes)" and ?old_idx = "snd (add_nodes ops old_nodes)"
  let ?g = "graph_of ops nodes edges0" and ?h = "graph_of ops old_nodes old_edges"
  let ?find = "\<lambda>e. find (\<lambda>old_edge. edge_ends old_edge = edge_ends e) (rev old)"
  let ?old_map = "map_of (rev (map (\<lambda>(_, e). ((edge_source e, edge_target e), e)) (pg_edge_references ops ?h)))"
  have "map (\<lambda>(_, _, e). e) (links_of ?h) = old" by (simp add: graph_of_spec old comp_def)
  then have "map (\<lambda>(_, e). ((edge_source e, edge_target e), e)) (pg_edge_references ops ?h) = map (\<lambda>e. (edge_ends e, e)) old"
    by (simp add: edge_references case_prod_unfold comp_def flip: map_map [of "\<lambda>e. (edge_ends e, e)" snd, unfolded comp_def])
  then have old_map: "?old_map (edge_source e, edge_target e) = ?find e" for e
    using map_of_rev_keyed [of edge_ends old "edge_ends e"] by simp
  have dom: "?idx i \<noteq> None \<longleftrightarrow> i \<in> node_id ` set nodes" "?old_idx i \<noteq> None \<longleftrightarrow> i \<in> node_id ` set old_nodes" for i
    using add_nodes_spec [of nodes] add_nodes_spec [of old_nodes] unfolding indices_ok_def by blast+
  define u where "u = (\<lambda>i. case (?old_idx i, ?idx i) of
        (Some old_idx, Some new_idx) \<Rightarrow>
          if length (pg_edges ops ?h old_idx) = length (pg_edges ops ?g new_idx)
          then List.map_filter (\<lambda>(k, e). map_option (\<lambda>old_edge. (k, edge_source_handle old_edge, edge_target_handle old_edge))
                 (?old_map (edge_source e, edge_target e))) (pg_edges ops ?g new_idx)
          else []
      | _ \<Rightarrow> [])"
  have one: "(k, s, t) \<in> set (u i) \<longleftrightarrow>
      i \<in> node_id ` set old_nodes \<and> length (edges_from i old) = length (edges_from i new) \<and>
      k < length new \<and> edge_source (new ! k) = i \<and>
      (\<exists>e. ?find (new ! k) = Some e \<and> s = edge_source_handle e \<and> t = edge_target_handle e)"
    if i: "i \<in> node_id ` set nodes" for i
  proof (cases "?old_idx i")
    case None
    then show ?thesis using dom(2) [of i] by (simp add: u_def)
  next
    case (Some m)
    obtain n where n: "?idx i = Some n" using dom(1) i by blast
    have mem: "(k, s, t) \<in> set (List.map_filter (\<lambda>(k, e). map_option (\<lambda>old_edge. (k, edge_source_handle old_edge, edge_target_handle old_edge))
                 (?old_map (edge_source e, edge_target e))) (pg_edges ops ?g n)) \<longleftrightarrow>
        k < length new \<and> edge_source (new ! k) = i \<and>
        (\<exists>e. ?find (new ! k) = Some e \<and> s = edge_source_handle e \<and> t = edge_target_handle e)"
      unfolding old_map set_map_filter graph_of_edges(2) [OF n] new [symmetric] by auto
    have "i \<in> node_id ` set old_nodes" using dom(2) Some by blast
    then show ?thesis
      using Some n mem graph_of_edges(1) [OF n, of edges0] graph_of_edges(1) [OF Some, of old_edges] by (simp add: new old u_def)
  qed
  have nodes: "pg_node_weights ops ?g = nodes" by (simp add: node_weights graph_of_spec)
  have src: "edge_source (new ! k) \<in> node_id ` set nodes" if "k < length new"
    using nth_mem [OF that] by (simp add: new placed_edges_def)
  have "edges_to_update ops ?g ?idx ?h ?old_idx = concat (map (\<lambda>n. u (node_id n)) nodes)"
    by (simp add: edges_to_update_def Let_def nodes u_def)
  then have in_u: "(k, s, t) \<in> set (edges_to_update ops ?g ?idx ?h ?old_idx) \<longleftrightarrow>
      (\<exists>i \<in> node_id ` set nodes. (k, s, t) \<in> set (u i))" by auto
  show ?thesis
  proof (cases "k < length new")
    case True
    have only: "i = edge_source (new ! k)" if "i \<in> node_id ` set nodes" "(k, s, t) \<in> set (u i)" for i
      using one [OF that(1)] that(2) by simp
    have "(k, s, t) \<in> set (edges_to_update ops ?g ?idx ?h ?old_idx) \<longleftrightarrow> (k, s, t) \<in> set (u (edge_source (new ! k)))"
      unfolding in_u
    proof
      assume "\<exists>i \<in> node_id ` set nodes. (k, s, t) \<in> set (u i)"
      then obtain i where i: "i \<in> node_id ` set nodes" "(k, s, t) \<in> set (u i)" by (rule bexE)
      then show "(k, s, t) \<in> set (u (edge_source (new ! k)))" using only [OF i] by simp
    qed (rule bexI [OF _ src [OF True]])
    then show ?thesis using one [OF src [OF True]] True by (simp only: simp_thms)
  qed (use one in_u in simp)
qed

lemma preserve_handles_carried:
  "preserve_handles ops nodes edges0 old_nodes old_edges = (nodes, carried_over nodes edges0 old_nodes old_edges)"
proof -
  define new old where new: "new = placed_edges nodes edges0" and old: "old = placed_edges old_nodes old_edges"
  define look where "look = (\<lambda>e :: Edge. find (\<lambda>old_edge. edge_ends old_edge = edge_ends e) (rev old))"
  define settled where "settled = (\<lambda>e :: Edge. edge_source e \<in> node_id ` set old_nodes \<and>
     length (edges_from (edge_source e) old) = length (edges_from (edge_source e) new))"
  define g where "g = graph_of ops nodes edges0"
  define ups where "ups = edges_to_update ops g (snd (add_nodes ops nodes)) (graph_of ops old_nodes old_edges) (snd (add_nodes ops old_nodes))"
  define h where "h = (\<lambda>k. (edge_source_handle (the (look (new ! k))), edge_target_handle (the (look (new ! k)))))"
  have iff: "(k, s, t) \<in> set ups \<longleftrightarrow> k < length new \<and> settled (new ! k) \<and>
      (\<exists>e. look (new ! k) = Some e \<and> s = edge_source_handle e \<and> t = edge_target_handle e)" for k s t
    unfolding ups_def g_def look_def settled_def using update_iff [OF new old] by simp
  have links: "length (links_of g) = length new" "\<And>k. k < length new \<Longrightarrow> snd (snd (links_of g ! k)) = new ! k"
    by (simp_all add: g_def graph_of_spec new)
  have ok: "\<forall>u \<in> set ups. fst u < length (links_of g) \<and> snd u = h (fst u)"
  proof
    fix u assume u: "u \<in> set ups"
    obtain k s t where kst: "u = (k, s, t)" by (cases u)
    from u iff [of k s t] show "fst u < length (links_of g) \<and> snd u = h (fst u)" by (auto simp: kst links h_def)
  qed
  have keys: "k \<in> fst ` set ups \<longleftrightarrow> settled (new ! k) \<and> look (new ! k) \<noteq> None" if k: "k < length new" for k
  proof -
    have "k \<in> fst ` set ups \<longleftrightarrow> (\<exists>s t. (k, s, t) \<in> set ups)" by force
    then show ?thesis using iff [of k] k by auto
  qed
  have carried: "map (\<lambda>(k, _, _, e). if k \<in> fst ` set ups then with_handles (fst (h k)) (snd (h k)) e else e)
      (enumerate 0 (links_of g)) =
    map (\<lambda>e. if settled e then (case look e of
        Some old_edge \<Rightarrow> with_handles (edge_source_handle old_edge) (edge_target_handle old_edge) e | None \<Rightarrow> e) else e) new"
    (is "?l = ?r")
  proof (rule nth_equalityI)
    show "length ?l = length ?r" by (simp add: links)
    fix k assume "k < length ?l"
    then have k: "k < length new" by (simp add: links)
    have "?l ! k = (if k \<in> fst ` set ups then with_handles (fst (h k)) (snd (h k)) (new ! k) else new ! k)"
      using links k by (simp add: nth_enumerate_eq case_prod_unfold)
    also have "\<dots> = ?r ! k" unfolding keys [OF k] using k by (auto simp: h_def split: option.split)
    finally show "?l ! k = ?r ! k" .
  qed
  have "preserve_handles ops nodes edges0 old_nodes old_edges =
      (let updated = foldl (\<lambda>g (k, s, t). pg_edge_weight_mut ops k (with_handles s t) g) g ups
       in (pg_node_weights ops updated, pg_edge_weights ops updated))"
    by (simp add: preserve_handles_def graph_of_def case_prod_unfold Let_def ups_def g_def)
  moreover have "nodes_of g = nodes" by (simp add: g_def graph_of_spec)
  moreover have "?r = carried_over nodes edges0 old_nodes old_edges"
    unfolding carried_over_def Let_def new [symmetric] old [symmetric] settled_def look_def ..
  ultimately show ?thesis
    using updated_weights [OF ok] carried by (simp only: Let_def node_weights edge_weights)
qed

end

subsection \<open>Properties\<close>

text \<open>Whatever graph library is used, as long as it behaves as documented: the built map has exactly the
  optimised nodes and the edges between them, in order, and each edge has its new handles or those of
  the previous map, which it takes exactly when the node it starts at was there before and has the same
  number of outgoing edges.\<close>

theorem build_graph_refines:
  assumes "petgraph (be_ops env0) nodes_of links_of"
    and "optimize_graph (be_optimizer env0) ctx (snd (planned_map env0 ctx)) (fst (planned_map env0 ctx)) = (nodes, edges)"
  shows "build_graph env0 ctx old_nodes old_edges = (nodes, carried_over nodes edges old_nodes old_edges)"
  using assms petgraph.preserve_handles_carried [OF assms(1)]
  by (simp add: build_graph_def case_prod_unfold Let_def)

lemma planned_map_is_good:
  assumes ids: "distinct (map subnet_id (cx_subnets ctx))" "distinct (map interface_id (cx_interfaces ctx))"
      "subnet_id ` set (cx_subnets ctx) \<inter> interface_id ` set (cx_interfaces ctx) = {}"
  shows "map_good (fst (planned_map env0 ctx))"
proof -
  let ?b = "ro_group_docker_bridges_by_host (cx_request ctx)"
  let ?es = "with_ids (be_fresh env0) 0 (create_interface_edges ctx @ create_group_edges ctx @ create_vm_host_edges ctx @
    fst (create_containerized_service_edges ctx ?b))"
  obtain layouts nodes edges consolidated where plan:
      "create_subnet_child_nodes (be_planner env0) ctx ?es ?b (snd (create_containerized_service_edges ctx ?b)) =
       ((layouts, nodes), edges, consolidated)"
    by (metis prod.exhaust)
  then have "fst (planned_map env0 ctx) = create_subnet_nodes (be_planner env0) ctx consolidated layouts @ nodes"
    by (simp add: planned_map_def case_prod_unfold Let_def)
  with planned_map_good [OF ids plan] show ?thesis by simp
qed

text \<open>C4. On a built map no two boxes overlap, whatever the edges are and however the optimiser moved things:
  every node appears once, subnets are at least the padding apart, and the nodes of a subnet lie inside
  it, at least the padding from its border and from each other. The identifiers of subnets and
  interfaces are assumed to be distinct.\<close>

theorem built_map_arranged:
  assumes "petgraph (be_ops env0) nodes_of links_of"
    and "distinct (map subnet_id (cx_subnets ctx))" and "distinct (map interface_id (cx_interfaces ctx))"
    and "subnet_id ` set (cx_subnets ctx) \<inter> interface_id ` set (cx_interfaces ctx) = {}"
  shows "map_arranged (fst (build_graph env0 ctx old_nodes old_edges))"
proof -
  let ?p = "planned_map env0 ctx"
  have "fst (build_graph env0 ctx old_nodes old_edges) = fst (optimize_graph (be_optimizer env0) ctx (snd ?p) (fst ?p))"
    using petgraph.preserve_handles_carried [OF assms(1)] by (simp add: build_graph_def case_prod_unfold Let_def)
  then show ?thesis using optimize_graph_good(1) [OF planned_map_is_good [OF assms(2-4)]] by simp
qed

definition sample_build :: "list_graph build_env" where
  "sample_build =
     \<lparr>be_ops = list_graph_ops,
      be_planner = \<lparr>pe_round = (\<lambda>q. q), pe_first = (\<lambda>_. 0), pe_show_cidr = (\<lambda>_. ''cidr'')\<rparr>,
      be_optimizer = sample_optimizer, be_fresh = of_nat\<rparr>"

lemma sample_build_library: "petgraph (be_ops sample_build) lg_nodes lg_links"
  using list_graph.petgraph_axioms by (simp add: sample_build_def)

theorem build_graph_refines_witness:
  "snd (build_graph sample_build sample_map [] []) =
     carried_over (fst (build_graph sample_build sample_map [] []))
       (snd (optimize_graph sample_optimizer sample_map (snd (planned_map sample_build sample_map))
          (fst (planned_map sample_build sample_map)))) [] []"
  using build_graph_refines [OF sample_build_library prod.collapse [symmetric], of sample_map "[]" "[]"]
  by (simp add: sample_build_def)

theorem built_map_arranged_witness:
  "map_arranged (fst (build_graph sample_build sample_map [] []))"
  by (rule built_map_arranged [OF sample_build_library]) (simp_all add: sample_map_defs)

end
