(* ===== verification/Billing.thy ===== *)
theory Billing
  imports Prelude Numbers
begin

section \<open>Billing plans\<close>

text \<open>
  The plans, their prices and their features
  (\<^verbatim>\<open>backend/src/server/billing/types/base.rs\<close>, \<^verbatim>\<open>features.rs\<close> and
  \<^verbatim>\<open>backend/src/server/billing/plans.rs\<close>). Prices are whole cents; the yearly price is computed in
  \<open>f32\<close>, with the rounding \<open>rnd\<close> as a parameter (theory Numbers). Icons and colours are not modelled.
\<close>

subsection \<open>Plans\<close>

datatype BillingRate = BillingRate_Month | BillingRate_Year

datatype Hosting = Hosting_SelfHosted | Hosting_Managed | Hosting_Cloud

record PlanConfig =
  pc_base_cents :: int
  pc_rate :: BillingRate
  pc_trial_days :: nat
  pc_seat_cents :: "int option"
  pc_network_cents :: "int option"
  pc_included_seats :: "nat option"
  pc_included_networks :: "nat option"

datatype BillingPlan =
    BillingPlan_Community PlanConfig
  | BillingPlan_Starter PlanConfig
  | BillingPlan_Pro PlanConfig
  | BillingPlan_Team PlanConfig
  | BillingPlan_Business PlanConfig
  | BillingPlan_Enterprise PlanConfig
  | BillingPlan_Demo PlanConfig
  | BillingPlan_CommercialSelfHosted PlanConfig

fun BillingPlan_config :: "BillingPlan \<Rightarrow> PlanConfig" where
  "BillingPlan_config (BillingPlan_Community c) = c"
| "BillingPlan_config (BillingPlan_Starter c) = c"
| "BillingPlan_config (BillingPlan_Pro c) = c"
| "BillingPlan_config (BillingPlan_Team c) = c"
| "BillingPlan_config (BillingPlan_Business c) = c"
| "BillingPlan_config (BillingPlan_Enterprise c) = c"
| "BillingPlan_config (BillingPlan_Demo c) = c"
| "BillingPlan_config (BillingPlan_CommercialSelfHosted c) = c"

fun BillingPlan_set_config :: "PlanConfig \<Rightarrow> BillingPlan \<Rightarrow> BillingPlan" where
  "BillingPlan_set_config c (BillingPlan_Community _) = BillingPlan_Community c"
| "BillingPlan_set_config c (BillingPlan_Starter _) = BillingPlan_Starter c"
| "BillingPlan_set_config c (BillingPlan_Pro _) = BillingPlan_Pro c"
| "BillingPlan_set_config c (BillingPlan_Team _) = BillingPlan_Team c"
| "BillingPlan_set_config c (BillingPlan_Business _) = BillingPlan_Business c"
| "BillingPlan_set_config c (BillingPlan_Enterprise _) = BillingPlan_Enterprise c"
| "BillingPlan_set_config c (BillingPlan_Demo _) = BillingPlan_Demo c"
| "BillingPlan_set_config c (BillingPlan_CommercialSelfHosted _) = BillingPlan_CommercialSelfHosted c"

text \<open>\<open>PartialEq\<close>: the kind of the plan is not compared.\<close>

definition BillingPlan_eq :: "BillingPlan \<Rightarrow> BillingPlan \<Rightarrow> bool" where
  "BillingPlan_eq p q \<longleftrightarrow> BillingPlan_config p = BillingPlan_config q"

definition free_config :: PlanConfig where
  "free_config =
     \<lparr>pc_base_cents = 0, pc_rate = BillingRate_Month, pc_trial_days = 0, pc_seat_cents = None,
      pc_network_cents = None, pc_included_seats = None, pc_included_networks = None\<rparr>"

text \<open>The default plan depends on the \<open>commercial\<close> feature of the build.\<close>

definition BillingPlan_default :: "bool \<Rightarrow> BillingPlan" where
  "BillingPlan_default commercial =
     (if commercial then BillingPlan_CommercialSelfHosted free_config
      else BillingPlan_Community free_config)"

fun BillingPlan_is_commercial :: "BillingPlan \<Rightarrow> bool" where
  "BillingPlan_is_commercial (BillingPlan_Team _) = True"
| "BillingPlan_is_commercial (BillingPlan_Business _) = True"
| "BillingPlan_is_commercial (BillingPlan_Enterprise _) = True"
| "BillingPlan_is_commercial (BillingPlan_CommercialSelfHosted _) = True"
| "BillingPlan_is_commercial (BillingPlan_Demo _) = True"
| "BillingPlan_is_commercial _ = False"

fun BillingPlan_is_demo :: "BillingPlan \<Rightarrow> bool" where
  "BillingPlan_is_demo (BillingPlan_Demo _) = True"
| "BillingPlan_is_demo _ = False"

definition can_invite_users :: "BillingPlan \<Rightarrow> bool" where
  "can_invite_users p =
     (if pc_included_seats (BillingPlan_config p) \<noteq> None
      then pc_seat_cents (BillingPlan_config p) \<noteq> None
      else True)"

fun BillingPlan_hosting :: "BillingPlan \<Rightarrow> Hosting" where
  "BillingPlan_hosting (BillingPlan_Community _) = Hosting_SelfHosted"
| "BillingPlan_hosting (BillingPlan_CommercialSelfHosted _) = Hosting_SelfHosted"
| "BillingPlan_hosting (BillingPlan_Enterprise _) = Hosting_Managed"
| "BillingPlan_hosting _ = Hosting_Cloud"

fun custom_price :: "BillingPlan \<Rightarrow> string option" where
  "custom_price (BillingPlan_Enterprise _) = Some ''Custom''"
| "custom_price (BillingPlan_Community _) = Some ''Free''"
| "custom_price (BillingPlan_CommercialSelfHosted _) = Some ''Custom''"
| "custom_price _ = None"

text \<open>The derived \<open>Display\<close> implementations print the name of the constructor.\<close>

fun BillingPlan_display :: "BillingPlan \<Rightarrow> string" where
  "BillingPlan_display (BillingPlan_Community _) = ''Community''"
| "BillingPlan_display (BillingPlan_Starter _) = ''Starter''"
| "BillingPlan_display (BillingPlan_Pro _) = ''Pro''"
| "BillingPlan_display (BillingPlan_Team _) = ''Team''"
| "BillingPlan_display (BillingPlan_Business _) = ''Business''"
| "BillingPlan_display (BillingPlan_Enterprise _) = ''Enterprise''"
| "BillingPlan_display (BillingPlan_Demo _) = ''Demo''"
| "BillingPlan_display (BillingPlan_CommercialSelfHosted _) = ''CommercialSelfHosted''"

fun BillingRate_display :: "BillingRate \<Rightarrow> string" where
  "BillingRate_display BillingRate_Month = ''Month''"
| "BillingRate_display BillingRate_Year = ''Year''"

fun BillingPlan_name :: "BillingPlan \<Rightarrow> string" where
  "BillingPlan_name (BillingPlan_CommercialSelfHosted _) = ''On-Premise''"
| "BillingPlan_name p = BillingPlan_display p"

definition stripe_product_id :: "BillingPlan \<Rightarrow> string" where
  "stripe_product_id p = to_lowercase (BillingPlan_display p)"

definition stripe_base_price_lookup_key :: "BillingPlan \<Rightarrow> string" where
  "stripe_base_price_lookup_key p =
     join ''_'' [stripe_product_id p, show_int (pc_base_cents (BillingPlan_config p)),
       BillingRate_display (pc_rate (BillingPlan_config p))]"

definition stripe_seat_addon_price_lookup_key :: "BillingPlan \<Rightarrow> string option" where
  "stripe_seat_addon_price_lookup_key p =
     map_option (\<lambda>c. join ''_'' [stripe_product_id p, ''seats'', show_int c,
       BillingRate_display (pc_rate (BillingPlan_config p))]) (pc_seat_cents (BillingPlan_config p))"

definition stripe_network_addon_price_lookup_key :: "BillingPlan \<Rightarrow> string option" where
  "stripe_network_addon_price_lookup_key p =
     map_option (\<lambda>c. join ''_'' [stripe_product_id p, ''networks'', show_int c,
       BillingRate_display (pc_rate (BillingPlan_config p))]) (pc_network_cents (BillingPlan_config p))"

subsection \<open>Yearly prices\<close>

definition round_to_dollar :: "(rat \<Rightarrow> rat) \<Rightarrow> rat \<Rightarrow> int" where
  "round_to_dollar rnd cents = trunc_rat (rnd (of_int (round_rat (rnd (cents / 100))) * 100))"

definition yearly_cents :: "(rat \<Rightarrow> rat) \<Rightarrow> rat \<Rightarrow> int \<Rightarrow> int" where
  "yearly_cents rnd discount c =
     round_to_dollar rnd (rnd (rnd (rnd (of_int c) * 12) * rnd (1 - discount)))"

definition to_yearly :: "(rat \<Rightarrow> rat) \<Rightarrow> rat \<Rightarrow> BillingPlan \<Rightarrow> BillingPlan" where
  "to_yearly rnd discount p =
     (let c = BillingPlan_config p
      in BillingPlan_set_config
           (c\<lparr>pc_rate := BillingRate_Year,
              pc_base_cents := yearly_cents rnd discount (pc_base_cents c),
              pc_seat_cents := map_option (yearly_cents rnd discount) (pc_seat_cents c),
              pc_network_cents := map_option (yearly_cents rnd discount) (pc_network_cents c)\<rparr>) p)"

definition YEARLY_DISCOUNT :: "(rat \<Rightarrow> rat) \<Rightarrow> rat" where
  "YEARLY_DISCOUNT rnd = rnd (1 / 5)"

subsection \<open>The plans on offer\<close>

definition get_default_plans :: "BillingPlan list" where
  "get_default_plans =
     [BillingPlan_Starter
        \<lparr>pc_base_cents = 999, pc_rate = BillingRate_Month, pc_trial_days = 7, pc_seat_cents = None,
         pc_network_cents = None, pc_included_seats = Some 1, pc_included_networks = Some 1\<rparr>,
      BillingPlan_Pro
        \<lparr>pc_base_cents = 1999, pc_rate = BillingRate_Month, pc_trial_days = 7, pc_seat_cents = None,
         pc_network_cents = None, pc_included_seats = Some 1, pc_included_networks = Some 3\<rparr>,
      BillingPlan_Team
        \<lparr>pc_base_cents = 3999, pc_rate = BillingRate_Month, pc_trial_days = 7,
         pc_seat_cents = Some 1000, pc_network_cents = Some 800, pc_included_seats = Some 5,
         pc_included_networks = Some 5\<rparr>,
      BillingPlan_Business
        \<lparr>pc_base_cents = 5999, pc_rate = BillingRate_Month, pc_trial_days = 14,
         pc_seat_cents = Some 800, pc_network_cents = Some 500, pc_included_seats = Some 10,
         pc_included_networks = Some 25\<rparr>]"

definition get_enterprise_plan :: BillingPlan where
  "get_enterprise_plan = BillingPlan_Enterprise free_config"

definition get_community_plan :: BillingPlan where
  "get_community_plan = BillingPlan_Community free_config"

definition get_commercial_self_hosted_plan :: BillingPlan where
  "get_commercial_self_hosted_plan = BillingPlan_CommercialSelfHosted free_config"

definition get_purchasable_plans :: "(rat \<Rightarrow> rat) \<Rightarrow> BillingPlan list" where
  "get_purchasable_plans rnd =
     get_default_plans @ map (to_yearly rnd (YEARLY_DISCOUNT rnd)) get_default_plans"

definition get_website_fixture_plans :: "(rat \<Rightarrow> rat) \<Rightarrow> BillingPlan list" where
  "get_website_fixture_plans rnd =
     (let non_saas = [get_enterprise_plan, get_community_plan, get_commercial_self_hosted_plan]
      in get_purchasable_plans rnd @ non_saas @ map (to_yearly rnd (YEARLY_DISCOUNT rnd)) non_saas)"

subsection \<open>Features\<close>

record BillingPlanFeatures =
  ft_share_views :: bool
  ft_remove_created_with :: bool
  ft_audit_logs :: bool
  ft_webhooks :: bool
  ft_api_access :: bool
  ft_onboarding_call :: bool
  ft_commercial_license :: bool
  ft_custom_sso :: bool
  ft_managed_deployment :: bool
  ft_whitelabeling :: bool
  ft_live_chat_support :: bool
  ft_embeds :: bool
  ft_email_support :: bool
  ft_community_support :: bool
  ft_priority_support :: bool

fun BillingPlan_features :: "BillingPlan \<Rightarrow> BillingPlanFeatures" where
  "BillingPlan_features (BillingPlan_Community _) =
     \<lparr>ft_share_views = True, ft_remove_created_with = False, ft_audit_logs = False, ft_webhooks = False,
      ft_api_access = True, ft_onboarding_call = False, ft_commercial_license = False, ft_custom_sso = False,
      ft_managed_deployment = False, ft_whitelabeling = False, ft_live_chat_support = False, ft_embeds = True,
      ft_email_support = False, ft_community_support = True, ft_priority_support = False\<rparr>"
| "BillingPlan_features (BillingPlan_Starter _) =
     \<lparr>ft_share_views = True, ft_remove_created_with = True, ft_audit_logs = False, ft_webhooks = False,
      ft_api_access = False, ft_onboarding_call = False, ft_commercial_license = False, ft_custom_sso = False,
      ft_managed_deployment = False, ft_whitelabeling = False, ft_live_chat_support = False, ft_embeds = False,
      ft_email_support = True, ft_community_support = False, ft_priority_support = False\<rparr>"
| "BillingPlan_features (BillingPlan_Pro _) =
     \<lparr>ft_share_views = True, ft_remove_created_with = True, ft_audit_logs = False, ft_webhooks = False,
      ft_api_access = True, ft_onboarding_call = False, ft_commercial_license = False, ft_custom_sso = False,
      ft_managed_deployment = False, ft_whitelabeling = False, ft_live_chat_support = False, ft_embeds = True,
      ft_email_support = True, ft_community_support = False, ft_priority_support = False\<rparr>"
| "BillingPlan_features (BillingPlan_Team _) =
     \<lparr>ft_share_views = True, ft_remove_created_with = True, ft_audit_logs = False, ft_webhooks = False,
      ft_api_access = True, ft_onboarding_call = True, ft_commercial_license = True, ft_custom_sso = False,
      ft_managed_deployment = False, ft_whitelabeling = False, ft_live_chat_support = False, ft_embeds = True,
      ft_email_support = True, ft_community_support = False, ft_priority_support = True\<rparr>"
| "BillingPlan_features (BillingPlan_Business _) =
     \<lparr>ft_share_views = True, ft_remove_created_with = True, ft_audit_logs = True, ft_webhooks = True,
      ft_api_access = True, ft_onboarding_call = True, ft_commercial_license = True, ft_custom_sso = False,
      ft_managed_deployment = False, ft_whitelabeling = False, ft_live_chat_support = False, ft_embeds = True,
      ft_email_support = True, ft_community_support = False, ft_priority_support = True\<rparr>"
| "BillingPlan_features (BillingPlan_Enterprise _) =
     \<lparr>ft_share_views = True, ft_remove_created_with = True, ft_audit_logs = True, ft_webhooks = True,
      ft_api_access = True, ft_onboarding_call = True, ft_commercial_license = True, ft_custom_sso = True,
      ft_managed_deployment = True, ft_whitelabeling = True, ft_live_chat_support = True, ft_embeds = True,
      ft_email_support = True, ft_community_support = False, ft_priority_support = True\<rparr>"
| "BillingPlan_features (BillingPlan_Demo _) =
     \<lparr>ft_share_views = True, ft_remove_created_with = True, ft_audit_logs = True, ft_webhooks = True,
      ft_api_access = True, ft_onboarding_call = True, ft_commercial_license = True, ft_custom_sso = True,
      ft_managed_deployment = True, ft_whitelabeling = True, ft_live_chat_support = True, ft_embeds = True,
      ft_email_support = True, ft_community_support = True, ft_priority_support = True\<rparr>"
| "BillingPlan_features (BillingPlan_CommercialSelfHosted _) =
     \<lparr>ft_share_views = True, ft_remove_created_with = True, ft_audit_logs = True, ft_webhooks = True,
      ft_api_access = True, ft_onboarding_call = True, ft_commercial_license = True, ft_custom_sso = True,
      ft_managed_deployment = False, ft_whitelabeling = False, ft_live_chat_support = False, ft_embeds = True,
      ft_email_support = True, ft_community_support = False, ft_priority_support = True\<rparr>"

datatype Feature =
    Feature_ShareViews
  | Feature_OnboardingCall
  | Feature_CommercialLicense
  | Feature_AuditLogs
  | Feature_Webhooks
  | Feature_RemoveCreatedWith
  | Feature_ApiAccess
  | Feature_CustomSso
  | Feature_ManagedDeployment
  | Feature_Whitelabeling
  | Feature_CommunitySupport
  | Feature_EmailSupport
  | Feature_LiveChatSupport
  | Feature_PrioritySupport
  | Feature_Embeds

fun Feature_id :: "Feature \<Rightarrow> string" where
  "Feature_id Feature_Webhooks = ''webhooks''"
| "Feature_id Feature_AuditLogs = ''audit_logs''"
| "Feature_id Feature_ShareViews = ''share_views''"
| "Feature_id Feature_OnboardingCall = ''onboarding_call''"
| "Feature_id Feature_CommercialLicense = ''commercial_license''"
| "Feature_id Feature_RemoveCreatedWith = ''remove_created_with''"
| "Feature_id Feature_CustomSso = ''custom_sso''"
| "Feature_id Feature_ManagedDeployment = ''managed_deployment''"
| "Feature_id Feature_Whitelabeling = ''whitelabeling''"
| "Feature_id Feature_LiveChatSupport = ''live_chat_support''"
| "Feature_id Feature_Embeds = ''embeds''"
| "Feature_id Feature_EmailSupport = ''email_support''"
| "Feature_id Feature_CommunitySupport = ''community_support''"
| "Feature_id Feature_PrioritySupport = ''priority_support''"
| "Feature_id Feature_ApiAccess = ''api_access''"

definition Feature_is_coming_soon :: "Feature \<Rightarrow> bool" where
  "Feature_is_coming_soon f \<longleftrightarrow> f \<in> {Feature_Webhooks, Feature_AuditLogs, Feature_ApiAccess}"

fun Feature_category :: "Feature \<Rightarrow> string" where
  "Feature_category Feature_CommunitySupport = ''Support''"
| "Feature_category Feature_EmailSupport = ''Support''"
| "Feature_category Feature_LiveChatSupport = ''Support''"
| "Feature_category Feature_PrioritySupport = ''Support''"
| "Feature_category Feature_OnboardingCall = ''Support''"
| "Feature_category Feature_CommercialLicense = ''Licensing''"
| "Feature_category Feature_CustomSso = ''Enterprise''"
| "Feature_category Feature_ManagedDeployment = ''Enterprise''"
| "Feature_category Feature_Whitelabeling = ''Enterprise''"
| "Feature_category Feature_AuditLogs = ''Enterprise''"
| "Feature_category Feature_Webhooks = ''Integrations''"
| "Feature_category Feature_ApiAccess = ''Integrations''"
| "Feature_category Feature_Embeds = ''Sharing''"
| "Feature_category Feature_ShareViews = ''Sharing''"
| "Feature_category Feature_RemoveCreatedWith = ''Sharing''"

fun Feature_name :: "Feature \<Rightarrow> string" where
  "Feature_name Feature_AuditLogs = ''Audit Logs''"
| "Feature_name Feature_Webhooks = ''Webhooks''"
| "Feature_name Feature_ShareViews = ''Share Views''"
| "Feature_name Feature_OnboardingCall = ''Onboarding Call''"
| "Feature_name Feature_CommercialLicense = ''Commercial License''"
| "Feature_name Feature_RemoveCreatedWith = ''Remove Watermark''"
| "Feature_name Feature_CustomSso = ''Custom SSO''"
| "Feature_name Feature_ManagedDeployment = ''Managed Deployment''"
| "Feature_name Feature_Whitelabeling = ''Whitelabeling''"
| "Feature_name Feature_LiveChatSupport = ''Live Chat Support''"
| "Feature_name Feature_Embeds = ''Embeds''"
| "Feature_name Feature_ApiAccess = ''Api Access''"
| "Feature_name Feature_EmailSupport = ''Email Support''"
| "Feature_name Feature_CommunitySupport = ''Community Support''"
| "Feature_name Feature_PrioritySupport = ''Priority Support''"

text \<open>The conversion of the flags into the features that are shown for a plan, branch by branch.\<close>

definition features_into :: "BillingPlanFeatures \<Rightarrow> Feature list" where
  "features_into f =
     (if ft_share_views f then [Feature_ShareViews] else []) @
     (if ft_custom_sso f then [Feature_CustomSso] else []) @
     (if ft_api_access f then [Feature_CustomSso] else []) @
     (if ft_managed_deployment f then [Feature_ManagedDeployment] else []) @
     (if ft_embeds f then [Feature_Embeds] else []) @
     (if ft_whitelabeling f then [Feature_Whitelabeling] else []) @
     (if ft_live_chat_support f then [Feature_LiveChatSupport] else []) @
     (if ft_priority_support f then [Feature_PrioritySupport] else []) @
     (if ft_community_support f then [Feature_CommunitySupport] else []) @
     (if ft_email_support f then [Feature_EmailSupport] else []) @
     (if ft_onboarding_call f then [Feature_OnboardingCall] else []) @
     (if ft_commercial_license f then [Feature_CommercialLicense] else []) @
     (if ft_webhooks f then [Feature_Webhooks] else []) @
     (if ft_audit_logs f then [Feature_AuditLogs] else []) @
     (if ft_remove_created_with f then [Feature_RemoveCreatedWith] else [])"

subsection \<open>Properties of the prices\<close>

text \<open>The nearest dollar to twelve months at four fifths of the price; it is never a tie.\<close>

definition discounted_year :: "int \<Rightarrow> int" where
  "discounted_year c = 100 * ((24 * c + 125) div 250)"

lemma discounted_year_margin:
  fixes c :: int
  defines "k \<equiv> (24 * c + 125) div 250"
  shows "250 * k + 1 \<le> 24 * c + 125" and "24 * c + 125 \<le> 250 * k + 249"
proof -
  define r where "r = (24 * c + 125) mod 250"
  have dm: "24 * c + 125 = 250 * k + r" by (simp add: k_def r_def)
  then have "odd r" by presburger
  moreover have "0 \<le> r" "r < 250" by (simp_all add: r_def)
  ultimately have "1 \<le> r" "r \<le> 249" by presburger+
  then show "250 * k + 1 \<le> 24 * c + 125" "24 * c + 125 \<le> 250 * k + 249" using dm by auto
qed

lemma round_near:
  fixes c :: int and g :: rat
  assumes "0 \<le> g" and "12 * of_int c / 125 - 1 / 250 < g" and "g < 12 * of_int c / 125 + 1 / 250"
  shows "100 * round_rat g = discounted_year c"
proof -
  define k where "k = (24 * c + 125) div 250"
  have "of_int (250 * k + 1) \<le> (of_int (24 * c + 125) :: rat)" "of_int (24 * c + 125) \<le> (of_int (250 * k + 249) :: rat)"
    unfolding of_int_le_iff k_def using discounted_year_margin [of c] by auto
  then have "250 * of_int k + 1 \<le> (24 * of_int c + 125 :: rat)" "24 * of_int c + 125 \<le> (250 * of_int k + 249 :: rat)"
    by simp_all
  then have "of_int k \<le> g + 1 / 2" "g + 1 / 2 < of_int k + 1" using assms(2,3) by linarith+
  then have "\<lfloor>g + 1 / 2\<rfloor> = k" by (simp add: floor_eq_iff)
  then show ?thesis using assms(1) by (simp add: round_rat_def discounted_year_def k_def)
qed

lemma discount_factor_near:
  assumes "f32_rounding rnd"
  shows "4 / 5 - 2 / 16777216 \<le> rnd (1 - rnd (1 / 5))" and "rnd (1 - rnd (1 / 5)) \<le> 4 / 5 + 2 / 16777216"
proof -
  define r where "r = rnd (1 / 5)"
  have r: "1 / 5 - 1 / 5 / 16777216 \<le> r" "r \<le> 1 / 5 + 1 / 5 / 16777216"
    using f32_bounds [OF assms, of "1 / 5"] by (simp_all add: r_def)
  define s where "s = 1 - r"
  have s: "1 / 1000 \<le> s" "s \<le> 1" "4 / 5 - 1 / 16777216 \<le> s" "s \<le> 4 / 5 + 1 / 16777216" using r by (simp_all add: s_def)
  then have "s - s / 16777216 \<le> rnd s" "rnd s \<le> s + s / 16777216"
    using f32_bounds [OF assms, of s] by auto
  then have "4 / 5 - 2 / 16777216 \<le> rnd s" "rnd s \<le> 4 / 5 + 2 / 16777216" using s by linarith+
  then show "4 / 5 - 2 / 16777216 \<le> rnd (1 - rnd (1 / 5))" "rnd (1 - rnd (1 / 5)) \<le> 4 / 5 + 2 / 16777216"
    by (simp_all add: s_def r_def)
qed

lemma discounted_near:
  assumes rnd: "f32_rounding rnd" and x: "x = 0 \<or> 12 \<le> x" "x \<le> 1200000"
  shows "0 \<le> rnd (rnd (x * rnd (1 - rnd (1 / 5))) / 100)"
    and "x / 125 - 1 / 250 < rnd (rnd (x * rnd (1 - rnd (1 / 5))) / 100)"
    and "rnd (rnd (x * rnd (1 - rnd (1 / 5))) / 100) < x / 125 + 1 / 250"
proof -
  define d where "d = rnd (1 - rnd (1 / 5))"
  define p where "p = x * d"
  define e where "e = rnd p"
  have x0: "0 \<le> x" using x by auto
  have p: "x * (4 / 5 - 2 / 16777216) \<le> p" "p \<le> x * (4 / 5 + 2 / 16777216)"
    unfolding p_def d_def by (rule mult_left_mono [OF discount_factor_near(1) [OF rnd] x0],
      rule mult_left_mono [OF discount_factor_near(2) [OF rnd] x0])
  then have p1: "x * (3 / 5) \<le> p" "p \<le> x" using x0 by simp_all
  have "p = 0 \<or> 1 / 1000 \<le> p \<and> p \<le> 2 ^ 127" using p1 x by auto
  note e = f32_bounds [OF rnd this, folded e_def]
  have e1: "x * (1 / 2) \<le> e" "e \<le> 2 * x" using e p1 x0 by simp_all
  have "e / 100 = 0 \<or> 1 / 1000 \<le> e / 100 \<and> e / 100 \<le> 2 ^ 127" using e1 x by auto
  note g = f32_bounds [OF rnd this]
  have "0 \<le> rnd (e / 100)" using g e1 x0 by simp
  moreover have "x / 125 - 1 / 250 < rnd (e / 100)" "rnd (e / 100) < x / 125 + 1 / 250" using g e p e1 p1 x by simp_all
  ultimately show "0 \<le> rnd (rnd (x * rnd (1 - rnd (1 / 5))) / 100)"
    and "x / 125 - 1 / 250 < rnd (rnd (x * rnd (1 - rnd (1 / 5))) / 100)"
    and "rnd (rnd (x * rnd (1 - rnd (1 / 5))) / 100) < x / 125 + 1 / 250"
    by (simp_all add: e_def p_def d_def)
qed

lemma yearly_cents_exact:
  assumes rnd: "f32_rounding rnd" and c: "0 \<le> c" "c \<le> 100000"
  shows "yearly_cents rnd (YEARLY_DISCOUNT rnd) c = discounted_year c"
proof -
  define x :: rat where "x = 12 * of_int c"
  define g where "g = rnd (rnd (x * rnd (1 - rnd (1 / 5))) / 100)"
  have "of_int c \<le> (of_int 100000 :: rat)" "c = 0 \<or> of_int 1 \<le> (of_int c :: rat)"
    unfolding of_int_le_iff using c by auto
  then have "x = 0 \<or> 12 \<le> x" "x \<le> 1200000" by (auto simp: x_def)
  note near = discounted_near [OF rnd this, folded g_def]
  have k: "100 * round_rat g = discounted_year c"
    using near by (intro round_near) (simp_all add: x_def)
  have "\<bar>round_rat g * 100\<bar> \<le> 16777216"
    using k c by (simp add: discounted_year_def mult.commute)
  then have "trunc_rat (rnd (of_int (round_rat g) * 100)) = round_rat g * 100"
    using f32_exact [OF rnd, of "round_rat g * 100"] trunc_rat_of_int [of "round_rat g * 100"] by simp
  moreover have "rnd (rnd (of_int c) * 12) = x"
    using c f32_exact [OF rnd, of c] f32_exact [OF rnd, of "c * 12"] by (simp add: x_def)
  ultimately show ?thesis
    using k by (simp add: yearly_cents_def YEARLY_DISCOUNT_def round_to_dollar_def g_def mult.commute)
qed

lemma config_set_config [simp]: "BillingPlan_config (BillingPlan_set_config c p) = c"
  by (cases p) simp_all

lemma discounted_year_near: "\<bar>discounted_year c * 5 - 48 * c\<bar> \<le> 248"
  using discounted_year_margin [of c] unfolding discounted_year_def by linarith

text \<open>C40. The price of a year. For every rounding of \<open>f32\<close> and every plan whose prices are between nothing
  and a thousand dollars a month, the yearly plan is of the same kind, costs the whole number of dollars
  nearest to twelve months less a fifth (never more than fifty cents away), for the base price and for the
  seats and networks that can be bought, and keeps the trial and what is included.\<close>

theorem to_yearly_prices:
  assumes "f32_rounding rnd"
    and "\<forall>c \<in> insert (pc_base_cents (BillingPlan_config p))
           (set_option (pc_seat_cents (BillingPlan_config p)) \<union> set_option (pc_network_cents (BillingPlan_config p))).
           0 \<le> c \<and> c \<le> 100000"
  shows "BillingPlan_config (to_yearly rnd (YEARLY_DISCOUNT rnd) p) =
      (BillingPlan_config p)
        \<lparr>pc_rate := BillingRate_Year,
         pc_base_cents := discounted_year (pc_base_cents (BillingPlan_config p)),
         pc_seat_cents := map_option discounted_year (pc_seat_cents (BillingPlan_config p)),
         pc_network_cents := map_option discounted_year (pc_network_cents (BillingPlan_config p))\<rparr> \<and>
    BillingPlan_display (to_yearly rnd (YEARLY_DISCOUNT rnd) p) = BillingPlan_display p \<and>
    (\<forall>c. 100 dvd discounted_year c \<and> \<bar>of_int (discounted_year c) - 12 * (4 / 5) * (of_int c :: rat)\<bar> \<le> 50)"
proof -
  have "map_option (yearly_cents rnd (YEARLY_DISCOUNT rnd)) o' = map_option discounted_year o'"
    if "\<forall>c \<in> set_option o'. 0 \<le> c \<and> c \<le> 100000" for o'
    using that yearly_cents_exact [OF assms(1)] by (cases o') auto
  then have "BillingPlan_config (to_yearly rnd (YEARLY_DISCOUNT rnd) p) = (BillingPlan_config p)
        \<lparr>pc_rate := BillingRate_Year,
         pc_base_cents := discounted_year (pc_base_cents (BillingPlan_config p)),
         pc_seat_cents := map_option discounted_year (pc_seat_cents (BillingPlan_config p)),
         pc_network_cents := map_option discounted_year (pc_network_cents (BillingPlan_config p))\<rparr>"
    using assms(2) yearly_cents_exact [OF assms(1)] by (simp add: to_yearly_def Let_def)
  moreover have "BillingPlan_display (to_yearly rnd (YEARLY_DISCOUNT rnd) p) = BillingPlan_display p"
    by (cases p) (simp_all add: to_yearly_def Let_def)
  moreover have "\<bar>of_int (discounted_year c) - 12 * (4 / 5) * (of_int c :: rat)\<bar> \<le> 50" for c
  proof -
    have "of_int \<bar>discounted_year c * 5 - 48 * c\<bar> \<le> (of_int 248 :: rat)"
      unfolding of_int_le_iff by (rule discounted_year_near)
    then show ?thesis by (simp add: abs_le_iff)
  qed
  ultimately show ?thesis by (simp add: discounted_year_def)
qed

theorem to_yearly_prices_witness:
  "map (\<lambda>p. (pc_base_cents (BillingPlan_config p), pc_seat_cents (BillingPlan_config p), pc_network_cents (BillingPlan_config p)))
     (map (to_yearly (\<lambda>x. x) (YEARLY_DISCOUNT (\<lambda>x. x))) get_default_plans) =
   [(9600, None, None), (19200, None, None), (38400, Some 9600, Some 7700), (57600, Some 7700, Some 4800)]"
proof -
  have "\<forall>p \<in> set get_default_plans. \<forall>c \<in> insert (pc_base_cents (BillingPlan_config p))
           (set_option (pc_seat_cents (BillingPlan_config p)) \<union> set_option (pc_network_cents (BillingPlan_config p))).
           0 \<le> c \<and> c \<le> 100000"
    by (simp add: get_default_plans_def)
  then have "BillingPlan_config (to_yearly (\<lambda>x. x) (YEARLY_DISCOUNT (\<lambda>x. x)) p) = (BillingPlan_config p)
        \<lparr>pc_rate := BillingRate_Year,
         pc_base_cents := discounted_year (pc_base_cents (BillingPlan_config p)),
         pc_seat_cents := map_option discounted_year (pc_seat_cents (BillingPlan_config p)),
         pc_network_cents := map_option discounted_year (pc_network_cents (BillingPlan_config p))\<rparr>"
    if "p \<in> set get_default_plans" for p
    using to_yearly_prices [OF f32_rounding_id, of p] that by blast
  then show ?thesis by (simp add: get_default_plans_def discounted_year_def)
qed

subsection \<open>Features shown for a plan\<close>

fun flag_of :: "Feature \<Rightarrow> BillingPlanFeatures \<Rightarrow> bool" where
  "flag_of Feature_ShareViews f = ft_share_views f"
| "flag_of Feature_OnboardingCall f = ft_onboarding_call f"
| "flag_of Feature_CommercialLicense f = ft_commercial_license f"
| "flag_of Feature_AuditLogs f = ft_audit_logs f"
| "flag_of Feature_Webhooks f = ft_webhooks f"
| "flag_of Feature_RemoveCreatedWith f = ft_remove_created_with f"
| "flag_of Feature_ApiAccess f = ft_api_access f"
| "flag_of Feature_CustomSso f = ft_custom_sso f"
| "flag_of Feature_ManagedDeployment f = ft_managed_deployment f"
| "flag_of Feature_Whitelabeling f = ft_whitelabeling f"
| "flag_of Feature_CommunitySupport f = ft_community_support f"
| "flag_of Feature_EmailSupport f = ft_email_support f"
| "flag_of Feature_LiveChatSupport f = ft_live_chat_support f"
| "flag_of Feature_PrioritySupport f = ft_priority_support f"
| "flag_of Feature_Embeds f = ft_embeds f"

text \<open>Every feature is shown exactly when its flag is set, except two: access to the
  API is never shown, and custom single sign-on is shown for every plan with access to the API.\<close>

theorem features_into_shown:
  "g \<in> set (features_into f) \<longleftrightarrow>
     (case g of
        Feature_ApiAccess \<Rightarrow> False
      | Feature_CustomSso \<Rightarrow> flag_of Feature_CustomSso f \<or> flag_of Feature_ApiAccess f
      | _ \<Rightarrow> flag_of g f)"
  by (cases g) (simp_all add: features_into_def)

end
