(* ===== verification/Authentication.thy ===== *)
theory Authentication
  imports Permissions Api Billing
begin

section \<open>Authentication and authorisation of requests\<close>

text \<open>
  Who sends a request and what it may do
  (\<^verbatim>\<open>backend/src/server/auth/middleware/auth.rs\<close>, \<^verbatim>\<open>permissions.rs\<close>, \<^verbatim>\<open>billing.rs\<close>, \<^verbatim>\<open>features.rs\<close>,
  \<^verbatim>\<open>cache.rs\<close> and \<^verbatim>\<open>backend/src/server/shared/api_key_common.rs\<close>).

  \<^item> A requirement of a handler is a type in the source (\<open>Authorized<Or<Member, IsDaemon>>\<close>); here it is a
    value of \<open>PermissionRequirement\<close>, with one constructor for each of those types.
  \<^item> The tables that are read are lists of rows; every read may fail (\<open>av_fault\<close>). SHA-256, the parser of
    identifiers and the clock are fields of the environment.
  \<^item> What a request sets off in the background (a failed attempt that is published, a key that is updated)
    is a list of effects beside the result.
\<close>

subsection \<open>The sender of a request\<close>

datatype AuthenticatedEntity =
    AuthenticatedEntity_User (au_user_id: uuid) (au_organization_id: uuid)
      (au_permissions: UserOrgPermissions) (au_network_ids: "uuid list") (au_email: string)
  | AuthenticatedEntity_Daemon (au_network_id: uuid) (au_daemon_key_id: uuid) (au_daemon_id: uuid)
  | AuthenticatedEntity_ApiKey (au_api_key_id: uuid) (au_key_user_id: uuid)
      (au_key_organization_id: uuid) (au_key_permissions: UserOrgPermissions)
      (au_key_network_ids: "uuid list")
  | AuthenticatedEntity_System
  | AuthenticatedEntity_Anonymous

fun auth_user_id :: "AuthenticatedEntity \<Rightarrow> uuid option" where
  "auth_user_id (AuthenticatedEntity_User u _ _ _ _) = Some u"
| "auth_user_id (AuthenticatedEntity_ApiKey _ u _ _ _) = Some u"
| "auth_user_id _ = None"

fun auth_organization_id :: "AuthenticatedEntity \<Rightarrow> uuid option" where
  "auth_organization_id (AuthenticatedEntity_User _ org _ _ _) = Some org"
| "auth_organization_id (AuthenticatedEntity_ApiKey _ _ org _ _) = Some org"
| "auth_organization_id _ = None"

fun auth_permissions :: "AuthenticatedEntity \<Rightarrow> UserOrgPermissions option" where
  "auth_permissions (AuthenticatedEntity_User _ _ p _ _) = Some p"
| "auth_permissions (AuthenticatedEntity_ApiKey _ _ _ p _) = Some p"
| "auth_permissions _ = None"

fun auth_entity_id :: "(uuid \<Rightarrow> string) \<Rightarrow> AuthenticatedEntity \<Rightarrow> string" where
  "auth_entity_id sh (AuthenticatedEntity_User u _ _ _ _) = sh u"
| "auth_entity_id sh (AuthenticatedEntity_Daemon _ _ d) = sh d"
| "auth_entity_id sh (AuthenticatedEntity_ApiKey k _ _ _ _) = sh k"
| "auth_entity_id sh AuthenticatedEntity_System = ''System''"
| "auth_entity_id sh AuthenticatedEntity_Anonymous = ''Anonymous''"

fun auth_network_ids :: "AuthenticatedEntity \<Rightarrow> uuid list" where
  "auth_network_ids (AuthenticatedEntity_Daemon n _ _) = [n]"
| "auth_network_ids (AuthenticatedEntity_User _ _ _ ns _) = ns"
| "auth_network_ids (AuthenticatedEntity_ApiKey _ _ _ _ ns) = ns"
| "auth_network_ids AuthenticatedEntity_System = []"
| "auth_network_ids AuthenticatedEntity_Anonymous = []"

fun auth_is_user :: "AuthenticatedEntity \<Rightarrow> bool" where
  "auth_is_user (AuthenticatedEntity_User _ _ _ _ _) = True"
| "auth_is_user _ = False"

fun auth_is_daemon :: "AuthenticatedEntity \<Rightarrow> bool" where
  "auth_is_daemon (AuthenticatedEntity_Daemon _ _ _) = True"
| "auth_is_daemon _ = False"

fun auth_is_api_key :: "AuthenticatedEntity \<Rightarrow> bool" where
  "auth_is_api_key (AuthenticatedEntity_ApiKey _ _ _ _ _) = True"
| "auth_is_api_key _ = False"

definition is_user_or_api_key :: "AuthenticatedEntity \<Rightarrow> bool" where
  "is_user_or_api_key e \<longleftrightarrow> auth_is_user e \<or> auth_is_api_key e"

definition has_network_access :: "AuthenticatedEntity \<Rightarrow> uuid \<Rightarrow> bool" where
  "has_network_access e n \<longleftrightarrow> n \<in> set (auth_network_ids e)"

fun auth_email :: "AuthenticatedEntity \<Rightarrow> string option" where
  "auth_email (AuthenticatedEntity_User _ _ _ _ m) = Some m"
| "auth_email _ = None"

fun auth_daemon_id :: "AuthenticatedEntity \<Rightarrow> uuid option" where
  "auth_daemon_id (AuthenticatedEntity_Daemon _ _ d) = Some d"
| "auth_daemon_id _ = None"

subsection \<open>Requirements\<close>

datatype PermissionRequirement =
    Require_Viewer | Require_Member | Require_Admin | Require_Owner
  | IsUser | IsApiKey | IsDaemon | IsSystem
  | Or_Requirement PermissionRequirement PermissionRequirement
  | And_Requirement PermissionRequirement PermissionRequirement

fun requirement_description :: "PermissionRequirement \<Rightarrow> string" where
  "requirement_description Require_Viewer = ''Viewer permission required''"
| "requirement_description Require_Member = ''Member permission required''"
| "requirement_description Require_Admin = ''Admin permission required''"
| "requirement_description Require_Owner = ''Owner permission required''"
| "requirement_description IsUser = ''User session required''"
| "requirement_description IsApiKey = ''API key required''"
| "requirement_description IsDaemon = ''Daemon authentication required''"
| "requirement_description IsSystem = ''System authentication required''"
| "requirement_description (Or_Requirement a b) = ''Insufficient permissions''"
| "requirement_description (And_Requirement a b) = ''Insufficient permissions''"

text \<open>The four checks of a role have the same body.\<close>

definition check_role ::
    "UserOrgPermissions \<Rightarrow> string \<Rightarrow> AuthenticatedEntity \<Rightarrow> (unit, ApiError) result" where
  "check_role least description e =
     (case e of
        AuthenticatedEntity_User _ _ p _ _ \<Rightarrow>
          if least \<le> p then Ok () else Err (ApiError_forbidden description)
      | AuthenticatedEntity_ApiKey _ _ _ p _ \<Rightarrow>
          if least \<le> p then Ok () else Err (ApiError_forbidden description)
      | _ \<Rightarrow> Err (ApiError_forbidden description))"

fun requirement_check ::
    "PermissionRequirement \<Rightarrow> AuthenticatedEntity \<Rightarrow> (unit, ApiError) result" where
  "requirement_check Require_Viewer e = check_role Viewer (requirement_description Require_Viewer) e"
| "requirement_check Require_Member e = check_role Member (requirement_description Require_Member) e"
| "requirement_check Require_Admin e = check_role Admin (requirement_description Require_Admin) e"
| "requirement_check Require_Owner e = check_role Owner (requirement_description Require_Owner) e"
| "requirement_check IsUser e =
     (if auth_is_user e then Ok () else Err (ApiError_forbidden (requirement_description IsUser)))"
| "requirement_check IsApiKey e =
     (if auth_is_api_key e then Ok () else Err (ApiError_forbidden (requirement_description IsApiKey)))"
| "requirement_check IsDaemon e =
     (if auth_is_daemon e then Ok () else Err (ApiError_forbidden (requirement_description IsDaemon)))"
| "requirement_check IsSystem e =
     (if e = AuthenticatedEntity_System then Ok ()
      else Err (ApiError_forbidden (requirement_description IsSystem)))"
| "requirement_check (Or_Requirement a b) e =
     (if is_ok (requirement_check a e) \<or> is_ok (requirement_check b e) then Ok ()
      else Err (ApiError_forbidden (requirement_description a @ '' or '' @ requirement_description b)))"
| "requirement_check (And_Requirement a b) e =
     (case requirement_check a e of
        Inl x \<Rightarrow> Err x
      | Inr _ \<Rightarrow> (case requirement_check b e of Inl x \<Rightarrow> Err x | Inr _ \<Rightarrow> Ok ()))"

definition require_user_id :: "AuthenticatedEntity \<Rightarrow> (uuid, ApiError) result" where
  "require_user_id e =
     (case auth_user_id e of Some u \<Rightarrow> Ok u | None \<Rightarrow> Err (ApiError_internal_error ''User ID required''))"

definition require_organization_id :: "AuthenticatedEntity \<Rightarrow> (uuid, ApiError) result" where
  "require_organization_id e =
     (case auth_organization_id e of
        Some org \<Rightarrow> Ok org
      | None \<Rightarrow> Err (ApiError_internal_error ''Organization ID required''))"

definition require_permissions :: "AuthenticatedEntity \<Rightarrow> (UserOrgPermissions, ApiError) result" where
  "require_permissions e =
     (case auth_permissions e of
        Some p \<Rightarrow> Ok p
      | None \<Rightarrow> Err (ApiError_internal_error ''Permissions required''))"

subsection \<open>API keys\<close>

datatype ApiKeyType = ApiKeyType_Daemon | ApiKeyType_User

fun ApiKeyType_prefix :: "ApiKeyType \<Rightarrow> string" where
  "ApiKeyType_prefix ApiKeyType_Daemon = ''scp_d_''"
| "ApiKeyType_prefix ApiKeyType_User = ''scp_u_''"

definition starts_with :: "string \<Rightarrow> string \<Rightarrow> bool" where
  "starts_with pre s \<longleftrightarrow> take (length pre) s = pre"

definition ApiKeyType_from_key :: "string \<Rightarrow> ApiKeyType \<times> bool" where
  "ApiKeyType_from_key key =
     (if starts_with ''scp_u_'' key then (ApiKeyType_User, True)
      else if starts_with ''scp_d_'' key then (ApiKeyType_Daemon, True)
      else (ApiKeyType_Daemon, False))"

definition BASE62_ALPHABET :: string where
  "BASE62_ALPHABET = ''0123456789ABCDEFGHIJKLMNOPQRSTUVWXYZabcdefghijklmnopqrstuvwxyz''"

text \<open>\<open>rng i\<close> is the \<open>i\<close>-th index that the random number generator draws below the length of the alphabet.\<close>

definition generate_base62_string :: "(nat \<Rightarrow> nat) \<Rightarrow> nat \<Rightarrow> string" where
  "generate_base62_string rng n = map (\<lambda>i. BASE62_ALPHABET ! rng i) [0..<n]"

definition generate_prefixed_api_key :: "(nat \<Rightarrow> nat) \<Rightarrow> ApiKeyType \<Rightarrow> string" where
  "generate_prefixed_api_key rng t = ApiKeyType_prefix t @ generate_base62_string rng 32"

definition generate_api_key_for_storage ::
    "(string \<Rightarrow> string) \<Rightarrow> (nat \<Rightarrow> nat) \<Rightarrow> ApiKeyType \<Rightarrow> string \<times> string" where
  "generate_api_key_for_storage hash_api_key rng t =
     (let plaintext = generate_prefixed_api_key rng t in (plaintext, hash_api_key plaintext))"

record UserApiKeyBase =
  uk_key :: string
  uk_name :: string
  uk_user_id :: uuid
  uk_organization_id :: uuid
  uk_permissions :: UserOrgPermissions
  uk_last_used :: "datetime option"
  uk_expires_at :: "datetime option"
  uk_is_enabled :: bool
  uk_tags :: "uuid list"
  uk_network_ids :: "uuid list"

record UserApiKey =
  user_key_id :: uuid
  user_key_updated_at :: datetime
  user_key_created_at :: datetime
  user_key_base :: UserApiKeyBase

record DaemonApiKeyBase =
  dk_key :: string
  dk_name :: string
  dk_last_used :: "datetime option"
  dk_expires_at :: "datetime option"
  dk_network_id :: uuid
  dk_is_enabled :: bool
  dk_tags :: "uuid list"

record DaemonApiKey =
  daemon_key_id :: uuid
  daemon_key_updated_at :: datetime
  daemon_key_created_at :: datetime
  daemon_key_base :: DaemonApiKeyBase

text \<open>\<open>ApiKeyCommon\<close>: the checks depend on two fields of the key.\<close>

definition key_is_expired :: "datetime \<Rightarrow> datetime option \<Rightarrow> bool" where
  "key_is_expired now expires_at = (case expires_at of Some e \<Rightarrow> now > e | None \<Rightarrow> False)"

definition check_key_validity ::
    "datetime \<Rightarrow> datetime option \<Rightarrow> bool \<Rightarrow> (unit, ApiError) result" where
  "check_key_validity now expires_at is_enabled =
     (if key_is_expired now expires_at then Err (ApiError_unauthorized ''API key has expired'')
      else if \<not> is_enabled then Err (ApiError_unauthorized ''API key is not enabled'')
      else Ok ())"

definition UserApiKey_validate_permissions ::
    "UserOrgPermissions \<Rightarrow> UserOrgPermissions \<Rightarrow> (unit, string) result" where
  "UserApiKey_validate_permissions key_permissions user_permissions =
     (if key_permissions > user_permissions
      then Err (''API key permissions ('' @ UserOrgPermissions_as_str key_permissions
                @ '') cannot exceed your permissions ('' @ UserOrgPermissions_as_str user_permissions @ '')'')
      else Ok ())"

definition UserApiKey_validate_network_access ::
    "(uuid \<Rightarrow> string) \<Rightarrow> uuid list \<Rightarrow> uuid list \<Rightarrow> (unit, string) result" where
  "UserApiKey_validate_network_access sh key_network_ids user_network_ids =
     (case find (\<lambda>n. n \<notin> set user_network_ids) key_network_ids of
        Some n \<Rightarrow> Err (''You don''@[CHR 0x27]@''t have access to network '' @ sh n)
      | None \<Rightarrow> Ok ())"

subsection \<open>Organisations, networks and users\<close>

datatype TelemetryOperation =
    TelemetryOperation_OrgCreated | TelemetryOperation_OnboardingModalCompleted
  | TelemetryOperation_PlanSelected | TelemetryOperation_PersonalPlanSelected
  | TelemetryOperation_CommercialPlanSelected | TelemetryOperation_FirstApiKeyCreated
  | TelemetryOperation_FirstDaemonRegistered | TelemetryOperation_FirstTopologyRebuild

record OrganizationBase =
  orb_stripe_customer_id :: "string option"
  orb_name :: string
  orb_plan :: "BillingPlan option"
  orb_plan_status :: "string option"
  orb_onboarding :: "TelemetryOperation list"

record Organization =
  organization_id :: uuid
  organization_created_at :: datetime
  organization_updated_at :: datetime
  organization_base :: OrganizationBase

definition not_onboarded :: "Organization \<Rightarrow> TelemetryOperation \<Rightarrow> bool" where
  "not_onboarded org step \<longleftrightarrow> step \<notin> set (orb_onboarding (organization_base org))"

record NetworkBase =
  nwb_name :: string
  nwb_organization_id :: uuid
  nwb_tags :: "uuid list"

record Network =
  network_id :: uuid
  network_created_at :: datetime
  network_updated_at :: datetime
  network_base :: NetworkBase

record UserBase =
  ub_email :: string
  ub_organization_id :: uuid
  ub_permissions :: UserOrgPermissions
  ub_password_hash :: "string option"
  ub_oidc_provider :: "string option"
  ub_oidc_subject :: "string option"
  ub_oidc_linked_at :: "datetime option"
  ub_network_ids :: "uuid list"
  ub_terms_accepted_at :: "datetime option"

record User =
  user_id :: uuid
  user_created_at :: datetime
  user_updated_at :: datetime
  user_base :: UserBase

definition AuthenticatedEntity_from_User :: "User \<Rightarrow> AuthenticatedEntity" where
  "AuthenticatedEntity_from_User u =
     AuthenticatedEntity_User (user_id u) (ub_organization_id (user_base u))
       (ub_permissions (user_base u)) [] (ub_email (user_base u))"

subsection \<open>Extracting the sender\<close>

record auth_db =
  ad_user_keys :: "UserApiKey list"
  ad_key_networks :: "(uuid \<times> uuid) list"
  ad_daemon_keys :: "DaemonApiKey list"
  ad_organizations :: "Organization list"
  ad_networks :: "Network list"
  ad_users :: "User list"
  ad_user_networks :: "(uuid \<times> uuid) list"

datatype auth_read =
    Read_user_key | Read_key_networks_hydrate | Read_key_networks | Read_daemon_key
  | Read_organization | Read_networks | Read_network | Read_user | Read_user_networks

record auth_env =
  av_hash_api_key :: "string \<Rightarrow> string"
  av_now :: datetime
  av_parse_uuid :: "string \<Rightarrow> uuid option"
  av_fault :: "auth_read \<Rightarrow> string option"
  av_db :: auth_db

definition read_db :: "auth_env \<Rightarrow> auth_read \<Rightarrow> (auth_db \<Rightarrow> 'a) \<Rightarrow> ('a, string) result" where
  "read_db v r f = (case av_fault v r of Some e \<Rightarrow> Err e | None \<Rightarrow> Ok (f (av_db v)))"

definition ids_for :: "uuid \<Rightarrow> (uuid \<times> uuid) list \<Rightarrow> uuid list" where
  "ids_for i rows = map snd (filter (\<lambda>r. fst r = i) rows)"

text \<open>\<open>UserApiKeyService::get_by_key\<close>: the row, with its networks from the junction table.\<close>

definition get_by_key :: "auth_env \<Rightarrow> string \<Rightarrow> (UserApiKey option, string) result" where
  "get_by_key v hashed =
     (case read_db v Read_user_key (\<lambda>d. find (\<lambda>k. uk_key (user_key_base k) = hashed) (ad_user_keys d)) of
        Inl e \<Rightarrow> Err e
      | Inr None \<Rightarrow> Ok None
      | Inr (Some k) \<Rightarrow>
          (case read_db v Read_key_networks_hydrate (\<lambda>d. ids_for (user_key_id k) (ad_key_networks d)) of
             Inl e \<Rightarrow> Err e
           | Inr ns \<Rightarrow> Ok (Some (k\<lparr>user_key_base := (user_key_base k)\<lparr>uk_network_ids := ns\<rparr>\<rparr>))))"

record auth_request =
  rq_authorization :: "string option"
  rq_daemon_id :: "string option"
  rq_session :: "(uuid option, unit) result"

text \<open>A failed attempt is published with the kind of the key, the reason and the start of the key.\<close>

datatype auth_effect =
    ApiKeyAuthFailed ApiKeyType string "string option"
  | Update_user_key UserApiKey
  | Update_daemon_key DaemonApiKey

type_synonym auth_outcome = "auth_effect list \<times> (AuthenticatedEntity, ApiError) result"

definition key_prefix :: "string \<Rightarrow> string option" where
  "key_prefix key = (if 8 \<le> length key then Some (take 8 key) else None)"

definition organization_has_api_access :: "auth_env \<Rightarrow> uuid \<Rightarrow> bool" where
  "organization_has_api_access v org =
     (case read_db v Read_organization (\<lambda>d. find (\<lambda>x. organization_id x = org) (ad_organizations d)) of
        Inl _ \<Rightarrow> False
      | Inr None \<Rightarrow> False
      | Inr (Some x) \<Rightarrow>
          (case orb_plan (organization_base x) of
             Some p \<Rightarrow> ft_api_access (BillingPlan_features p)
           | None \<Rightarrow> False))"

definition invalid_key :: "ApiKeyType \<Rightarrow> string \<Rightarrow> auth_outcome" where
  "invalid_key t key =
     ([ApiKeyAuthFailed t ''invalid_key'' (key_prefix key)], Err (ApiError_unauthorized ''Invalid API key''))"

definition extract_user_key :: "auth_env \<Rightarrow> string \<Rightarrow> auth_outcome" where
  "extract_user_key v key =
     (case get_by_key v (av_hash_api_key v key) of
        Inr (Some k) \<Rightarrow>
          let b = user_key_base k; expired = key_is_expired (av_now v) (uk_expires_at b)
          in (case check_key_validity (av_now v) (uk_expires_at b) (uk_is_enabled b) of
                Inl e \<Rightarrow>
                  (ApiKeyAuthFailed ApiKeyType_User (if expired then ''expired'' else ''disabled'') (key_prefix key)
                     # (if expired then [Update_user_key (k\<lparr>user_key_base := b\<lparr>uk_is_enabled := False\<rparr>\<rparr>)] else []),
                   Err e)
              | Inr _ \<Rightarrow>
                  if \<not> organization_has_api_access v (uk_organization_id b)
                  then ([], Err (ApiError_payment_required ''Your plan does not include api access''))
                  else
                    let ns = (case read_db v Read_key_networks
                                      (\<lambda>d. ids_for (user_key_id k) (ad_key_networks d)) of
                                Inl _ \<Rightarrow> [] | Inr ns \<Rightarrow> ns)
                    in ([Update_user_key (k\<lparr>user_key_base := b\<lparr>uk_last_used := Some (av_now v)\<rparr>\<rparr>)],
                        Ok (AuthenticatedEntity_ApiKey (user_key_id k) (uk_user_id b)
                              (uk_organization_id b) (uk_permissions b) ns)))
      | _ \<Rightarrow> invalid_key ApiKeyType_User key)"

definition extract_daemon_key :: "auth_env \<Rightarrow> string \<Rightarrow> uuid \<Rightarrow> auth_outcome" where
  "extract_daemon_key v key daemon =
     (case read_db v Read_daemon_key
             (\<lambda>d. find (\<lambda>k. dk_key (daemon_key_base k) = av_hash_api_key v key) (ad_daemon_keys d)) of
        Inr (Some k) \<Rightarrow>
          let b = daemon_key_base k; expired = key_is_expired (av_now v) (dk_expires_at b)
          in (case check_key_validity (av_now v) (dk_expires_at b) (dk_is_enabled b) of
                Inl e \<Rightarrow>
                  (ApiKeyAuthFailed ApiKeyType_Daemon (if expired then ''expired'' else ''disabled'') (key_prefix key)
                     # (if expired then [Update_daemon_key (k\<lparr>daemon_key_base := b\<lparr>dk_is_enabled := False\<rparr>\<rparr>)] else []),
                   Err e)
              | Inr _ \<Rightarrow>
                  ([Update_daemon_key (k\<lparr>daemon_key_base := b\<lparr>dk_last_used := Some (av_now v)\<rparr>\<rparr>)],
                   Ok (AuthenticatedEntity_Daemon (dk_network_id b) (daemon_key_id k) daemon)))
      | _ \<Rightarrow> invalid_key ApiKeyType_Daemon key)"

definition not_authenticated :: ApiError where
  "not_authenticated = ApiError_unauthorized ''Not authenticated''"

definition user_networks :: "auth_env \<Rightarrow> User \<Rightarrow> (uuid list, ApiError) result" where
  "user_networks v u =
     (if ub_permissions (user_base u) \<in> {Owner, Admin}
      then case read_db v Read_networks
                  (\<lambda>d. sort_key network_created_at
                         (filter (\<lambda>n. nwb_organization_id (network_base n) = ub_organization_id (user_base u))
                            (ad_networks d))) of
             Inl _ \<Rightarrow> Err (ApiError_internal_error ''Failed to load networks'')
           | Inr ns \<Rightarrow> Ok (map network_id ns)
      else case read_db v Read_user_networks (\<lambda>d. ids_for (user_id u) (ad_user_networks d)) of
             Inl _ \<Rightarrow> Err (ApiError_internal_error ''Failed to load user networks'')
           | Inr ns \<Rightarrow> Ok ns)"

definition extract_session :: "auth_env \<Rightarrow> auth_request \<Rightarrow> (AuthenticatedEntity, ApiError) result" where
  "extract_session v rq =
     (case rq_session rq of
        Inr (Some uid) \<Rightarrow>
          (case read_db v Read_user (\<lambda>d. find (\<lambda>u. user_id u = uid) (ad_users d)) of
             Inr (Some u) \<Rightarrow>
               (case user_networks v u of
                  Inl e \<Rightarrow> Err e
                | Inr ns \<Rightarrow>
                    Ok (AuthenticatedEntity_User (user_id u) (ub_organization_id (user_base u))
                          (ub_permissions (user_base u)) ns (ub_email (user_base u))))
           | _ \<Rightarrow> Err (ApiError_unauthorized ''User not found''))
      | _ \<Rightarrow> Err not_authenticated)"

text \<open>\<open>strip_prefix("Bearer ")\<close>.\<close>

definition bearer_token :: "auth_request \<Rightarrow> string option" where
  "bearer_token rq =
     (case rq_authorization rq of
        Some s \<Rightarrow> if starts_with ''Bearer '' s then Some (drop 7 s) else None
      | None \<Rightarrow> None)"

definition extract_auth :: "auth_env \<Rightarrow> auth_request \<Rightarrow> auth_outcome" where
  "extract_auth v rq =
     (case bearer_token rq of
        Some key \<Rightarrow>
          (case fst (ApiKeyType_from_key key) of
             ApiKeyType_User \<Rightarrow> extract_user_key v key
           | ApiKeyType_Daemon \<Rightarrow>
               (case Option.bind (rq_daemon_id rq) (av_parse_uuid v) of
                  Some daemon \<Rightarrow> extract_daemon_key v key daemon
                | None \<Rightarrow> ([], Err (ApiError_unauthorized ''X-Daemon-ID header required for daemon API keys''))))
      | None \<Rightarrow> ([], extract_session v rq))"

text \<open>\<open>from_request_parts\<close>: the first outcome is kept in the extensions of the request.\<close>

record extensions =
  ext_entity :: "AuthenticatedEntity option"
  ext_failed :: "ApiError option"

definition auth_from_request_parts :: "auth_env \<Rightarrow> auth_request \<Rightarrow> extensions \<Rightarrow> extensions \<times> auth_outcome" where
  "auth_from_request_parts v rq x =
     (case ext_entity x of
        Some e \<Rightarrow> (x, [], Ok e)
      | None \<Rightarrow>
          (case ext_failed x of
             Some e \<Rightarrow> (x, [], Err e)
           | None \<Rightarrow>
               (case extract_auth v rq of
                  (fx, Inr e) \<Rightarrow> (x\<lparr>ext_entity := Some e\<rparr>, fx, Ok e)
                | (fx, Inl e) \<Rightarrow> (x\<lparr>ext_failed := Some e\<rparr>, fx, Err e))))"

definition Authorized_from_request_parts ::
    "auth_env \<Rightarrow> PermissionRequirement \<Rightarrow> auth_request \<Rightarrow> extensions \<Rightarrow> extensions \<times> auth_outcome" where
  "Authorized_from_request_parts v p rq x =
     (case auth_from_request_parts v rq x of
        (x1, fx, Inl e) \<Rightarrow> (x1, fx, Err e)
      | (x1, fx, Inr e) \<Rightarrow>
          (x1, fx, (case requirement_check p e of Inl err \<Rightarrow> Err err | Inr _ \<Rightarrow> Ok e)))"

subsection \<open>An example\<close>

text \<open>An organisation on the team plan with a key of an admin for two of its networks.\<close>

definition sample_team :: Organization where
  "sample_team = \<lparr>organization_id = 1, organization_created_at = 0, organization_updated_at = 0,
     organization_base = \<lparr>orb_stripe_customer_id = Some ''cus'', orb_name = ''Acme'',
       orb_plan = Some (get_default_plans ! 2), orb_plan_status = Some ''active'', orb_onboarding = []\<rparr>\<rparr>"

definition sample_key :: UserApiKey where
  "sample_key = \<lparr>user_key_id = 7, user_key_updated_at = 0, user_key_created_at = 0,
     user_key_base = \<lparr>uk_key = ''#scp_u_1'', uk_name = ''ci'', uk_user_id = 5, uk_organization_id = 1,
       uk_permissions = Admin, uk_last_used = None, uk_expires_at = Some 100, uk_is_enabled = True,
       uk_tags = [], uk_network_ids = []\<rparr>\<rparr>"

definition sample_auth_env :: auth_env where
  "sample_auth_env = \<lparr>av_hash_api_key = (\<lambda>s. CHR ''#'' # s), av_now = 50, av_parse_uuid = (\<lambda>_. None),
     av_fault = (\<lambda>_. None),
     av_db = \<lparr>ad_user_keys = [sample_key], ad_key_networks = [(7, 21), (8, 22), (7, 23)], ad_daemon_keys = [],
       ad_organizations = [sample_team], ad_networks = [], ad_users = [], ad_user_networks = []\<rparr>\<rparr>"

definition sample_request :: auth_request where
  "sample_request = \<lparr>rq_authorization = Some ''Bearer scp_u_1'', rq_daemon_id = None, rq_session = Ok None\<rparr>"

definition fresh_request :: extensions where
  "fresh_request = \<lparr>ext_entity = None, ext_failed = None\<rparr>"

subsection \<open>What a sender must have\<close>

text \<open>The contract of a requirement, without its error messages.\<close>

definition role_at_least :: "UserOrgPermissions \<Rightarrow> AuthenticatedEntity \<Rightarrow> bool" where
  "role_at_least least e \<longleftrightarrow> (case auth_permissions e of Some p \<Rightarrow> least \<le> p | None \<Rightarrow> False)"

fun meets :: "PermissionRequirement \<Rightarrow> AuthenticatedEntity \<Rightarrow> bool" where
  "meets Require_Viewer e = role_at_least Viewer e"
| "meets Require_Member e = role_at_least Member e"
| "meets Require_Admin e = role_at_least Admin e"
| "meets Require_Owner e = role_at_least Owner e"
| "meets IsUser e = auth_is_user e"
| "meets IsApiKey e = auth_is_api_key e"
| "meets IsDaemon e = auth_is_daemon e"
| "meets IsSystem e = (e = AuthenticatedEntity_System)"
| "meets (Or_Requirement a b) e = (meets a e \<or> meets b e)"
| "meets (And_Requirement a b) e = (meets a e \<and> meets b e)"

definition holds_user_key :: "auth_env \<Rightarrow> string \<Rightarrow> UserApiKey \<Rightarrow> bool" where
  "holds_user_key v key k \<longleftrightarrow>
     k \<in> set (ad_user_keys (av_db v)) \<and> uk_key (user_key_base k) = av_hash_api_key v key \<and>
     uk_is_enabled (user_key_base k) \<and> \<not> key_is_expired (av_now v) (uk_expires_at (user_key_base k)) \<and>
     starts_with ''scp_u_'' key"

definition holds_daemon_key :: "auth_env \<Rightarrow> string \<Rightarrow> DaemonApiKey \<Rightarrow> bool" where
  "holds_daemon_key v key k \<longleftrightarrow>
     k \<in> set (ad_daemon_keys (av_db v)) \<and> dk_key (daemon_key_base k) = av_hash_api_key v key \<and>
     dk_is_enabled (daemon_key_base k) \<and> \<not> key_is_expired (av_now v) (dk_expires_at (daemon_key_base k)) \<and>
     \<not> starts_with ''scp_u_'' key"

definition networks_of_user :: "auth_db \<Rightarrow> User \<Rightarrow> uuid set" where
  "networks_of_user d u =
     (if ub_permissions (user_base u) \<in> {Owner, Admin}
      then {network_id n |n. n \<in> set (ad_networks d) \<and>
              nwb_organization_id (network_base n) = ub_organization_id (user_base u)}
      else {n. (user_id u, n) \<in> set (ad_user_networks d)})"

definition genuine :: "auth_env \<Rightarrow> auth_request \<Rightarrow> AuthenticatedEntity \<Rightarrow> bool" where
  "genuine v rq e \<longleftrightarrow>
     (case e of
        AuthenticatedEntity_User uid org p ns m \<Rightarrow>
          bearer_token rq = None \<and> rq_session rq = Ok (Some uid) \<and>
          (\<exists>u \<in> set (ad_users (av_db v)). user_id u = uid \<and> ub_organization_id (user_base u) = org \<and>
             ub_permissions (user_base u) = p \<and> ub_email (user_base u) = m \<and> set ns = networks_of_user (av_db v) u)
      | AuthenticatedEntity_ApiKey i uid org p ns \<Rightarrow>
          (\<exists>key k. bearer_token rq = Some key \<and> holds_user_key v key k \<and> user_key_id k = i \<and>
             uk_user_id (user_key_base k) = uid \<and> uk_organization_id (user_key_base k) = org \<and>
             uk_permissions (user_key_base k) = p \<and> organization_has_api_access v org \<and>
             (\<forall>n \<in> set ns. (i, n) \<in> set (ad_key_networks (av_db v))))
      | AuthenticatedEntity_Daemon n i d \<Rightarrow>
          (\<exists>key k. bearer_token rq = Some key \<and> holds_daemon_key v key k \<and> daemon_key_id k = i \<and>
             dk_network_id (daemon_key_base k) = n \<and> Option.bind (rq_daemon_id rq) (av_parse_uuid v) = Some d)
      | _ \<Rightarrow> False)"

lemma check_role_cases:
  "check_role least m e = Ok () \<and> role_at_least least e \<or>
   check_role least m e = Err (ApiError_forbidden m) \<and> \<not> role_at_least least e"
  by (cases e) (simp_all add: check_role_def role_at_least_def)

lemma requirement_check_cases:
  "requirement_check p e = Ok () \<and> meets p e \<or>
   (\<exists>m. requirement_check p e = Err (ApiError_forbidden m)) \<and> \<not> meets p e"
proof (induction p)
  case Require_Viewer
  show ?case unfolding requirement_check.simps meets.simps using check_role_cases by blast
next
  case Require_Member
  show ?case unfolding requirement_check.simps meets.simps using check_role_cases by blast
next
  case Require_Admin
  show ?case unfolding requirement_check.simps meets.simps using check_role_cases by blast
next
  case Require_Owner
  show ?case unfolding requirement_check.simps meets.simps using check_role_cases by blast
next
  case (Or_Requirement a b)
  then show ?case unfolding requirement_check.simps meets.simps by (auto simp: is_ok_def)
next
  case (And_Requirement a b)
  then show ?case unfolding requirement_check.simps meets.simps by (auto split: sum.split)
qed (unfold requirement_check.simps meets.simps, metis+)

lemma set_ids_for: "set (ids_for i rows) = {n. (i, n) \<in> set rows}"
  by (force simp: ids_for_def)

lemma read_db_Ok: "read_db v r f = Inr x \<longleftrightarrow> av_fault v r = None \<and> f (av_db v) = x"
  by (simp add: read_db_def split: option.split)

lemma extract_session_genuine:
  assumes "extract_session v rq = Inr e" and "bearer_token rq = None"
  shows "genuine v rq e"
proof -
  obtain uid u ns where s: "rq_session rq = Inr (Some uid)" "read_db v Read_user (\<lambda>d. find (\<lambda>u. user_id u = uid) (ad_users d)) = Inr (Some u)"
      "user_networks v u = Inr ns"
    and e: "e = AuthenticatedEntity_User (user_id u) (ub_organization_id (user_base u)) (ub_permissions (user_base u)) ns (ub_email (user_base u))"
    using assms(1) by (auto simp: extract_session_def split: sum.splits option.splits)
  have "u \<in> set (ad_users (av_db v))" "user_id u = uid"
    using s(2) by (auto simp: read_db_Ok find_Some_iff)
  moreover have "set ns = networks_of_user (av_db v) u"
    using s(3) unfolding user_networks_def networks_of_user_def
    by (auto simp: read_db_Ok set_ids_for split: if_splits sum.splits)
  ultimately show ?thesis using s(1) assms(2) e by (auto simp: genuine_def)
qed

lemma check_key_validity_Ok:
  "check_key_validity t x b = Inr () \<longleftrightarrow> \<not> key_is_expired t x \<and> b"
  by (simp add: check_key_validity_def)

lemma get_by_key_Some:
  assumes "get_by_key v h = Inr (Some k)"
  obtains k0 where "k0 \<in> set (ad_user_keys (av_db v))" "uk_key (user_key_base k0) = h" "user_key_id k0 = user_key_id k"
    "user_key_base k = (user_key_base k0)\<lparr>uk_network_ids := uk_network_ids (user_key_base k)\<rparr>"
proof -
  obtain k0 where k0: "read_db v Read_user_key (\<lambda>d. find (\<lambda>k. uk_key (user_key_base k) = h) (ad_user_keys d)) = Inr (Some k0)"
    using assms by (auto simp: get_by_key_def split: sum.splits option.splits)
  then have "k0 \<in> set (ad_user_keys (av_db v))" "uk_key (user_key_base k0) = h" by (auto simp: read_db_Ok find_Some_iff)
  moreover have "user_key_id k0 = user_key_id k" "user_key_base k = (user_key_base k0)\<lparr>uk_network_ids := uk_network_ids (user_key_base k)\<rparr>"
    using assms k0 by (auto simp: get_by_key_def split: sum.splits)
  ultimately show thesis by (rule that)
qed

lemma extract_user_key_genuine:
  assumes "extract_user_key v key = (fx, Inr e)" and "bearer_token rq = Some key" and "starts_with ''scp_u_'' key"
  shows "genuine v rq e"
proof -
  obtain k where k: "get_by_key v (av_hash_api_key v key) = Inr (Some k)"
    using assms(1) by (auto simp: extract_user_key_def invalid_key_def split: sum.splits option.splits)
  let ?b = "user_key_base k"
  have ok: "check_key_validity (av_now v) (uk_expires_at ?b) (uk_is_enabled ?b) = Inr ()"
    "organization_has_api_access v (uk_organization_id ?b)"
    using assms(1) k by (auto simp: extract_user_key_def Let_def split: sum.splits if_splits)
  obtain ns where e: "e = AuthenticatedEntity_ApiKey (user_key_id k) (uk_user_id ?b) (uk_organization_id ?b) (uk_permissions ?b) ns"
    and ns: "\<forall>n \<in> set ns. (user_key_id k, n) \<in> set (ad_key_networks (av_db v))"
    using assms(1) k ok by (auto simp: extract_user_key_def Let_def read_db_Ok set_ids_for split: sum.splits if_splits)
  obtain k0 where "k0 \<in> set (ad_user_keys (av_db v))" "uk_key (user_key_base k0) = av_hash_api_key v key"
    "user_key_id k0 = user_key_id k" "?b = (user_key_base k0)\<lparr>uk_network_ids := uk_network_ids ?b\<rparr>"
    using get_by_key_Some [OF k] by blast
  moreover from this(4) have "uk_is_enabled ?b = uk_is_enabled (user_key_base k0)" "uk_expires_at ?b = uk_expires_at (user_key_base k0)"
    "uk_user_id ?b = uk_user_id (user_key_base k0)" "uk_organization_id ?b = uk_organization_id (user_key_base k0)"
    "uk_permissions ?b = uk_permissions (user_key_base k0)"
    by (metis UserApiKeyBase.select_convs UserApiKeyBase.update_convs(10) UserApiKeyBase.surjective)+
  ultimately show ?thesis
    using ok ns assms(2,3) e unfolding genuine_def holds_user_key_def check_key_validity_Ok by auto
qed

lemma extract_daemon_key_genuine:
  assumes "extract_daemon_key v key d = (fx, Inr e)" and "bearer_token rq = Some key"
    and "\<not> starts_with ''scp_u_'' key" and "Option.bind (rq_daemon_id rq) (av_parse_uuid v) = Some d"
  shows "genuine v rq e"
proof -
  obtain k where k: "read_db v Read_daemon_key (\<lambda>d. find (\<lambda>k. dk_key (daemon_key_base k) = av_hash_api_key v key) (ad_daemon_keys d)) = Inr (Some k)"
    using assms(1) by (auto simp: extract_daemon_key_def invalid_key_def split: sum.splits option.splits)
  let ?b = "daemon_key_base k"
  have ok: "check_key_validity (av_now v) (dk_expires_at ?b) (dk_is_enabled ?b) = Inr ()"
    and e: "e = AuthenticatedEntity_Daemon (dk_network_id ?b) (daemon_key_id k) d"
    using assms(1) k by (auto simp: extract_daemon_key_def Let_def split: sum.splits if_splits)
  have "k \<in> set (ad_daemon_keys (av_db v))" "dk_key ?b = av_hash_api_key v key"
    using k by (auto simp: read_db_Ok find_Some_iff)
  then show ?thesis using ok e assms(2-4) by (auto simp: genuine_def holds_daemon_key_def check_key_validity_Ok)
qed

lemma from_key_User: "fst (ApiKeyType_from_key key) = ApiKeyType_User \<longleftrightarrow> starts_with ''scp_u_'' key"
  unfolding ApiKeyType_from_key_def by (cases "starts_with ''scp_u_'' key"; cases "starts_with ''scp_d_'' key") simp_all

lemma extract_auth_genuine:
  assumes "extract_auth v rq = (fx, Inr e)"
  shows "genuine v rq e"
proof (cases "bearer_token rq")
  case None
  then show ?thesis using assms extract_session_genuine by (simp add: extract_auth_def)
next
  case (Some key)
  show ?thesis
  proof (cases "fst (ApiKeyType_from_key key)")
    case ApiKeyType_User
    then show ?thesis
      using assms Some extract_user_key_genuine [OF _ Some] from_key_User [of key] by (simp add: extract_auth_def)
  next
    case ApiKeyType_Daemon
    then have "\<not> starts_with ''scp_u_'' key" using from_key_User [of key] by simp
    moreover obtain d where d: "Option.bind (rq_daemon_id rq) (av_parse_uuid v) = Some d" "extract_daemon_key v key d = (fx, Inr e)"
      using assms Some ApiKeyType_Daemon by (auto simp: extract_auth_def split: option.splits)
    ultimately show ?thesis using extract_daemon_key_genuine [OF d(2) Some _ d(1)] by simp
  qed
qed

subsection \<open>Properties\<close>

text \<open>C6. A handler that asks for a permission runs only for a sender who has it and who proved who it is: a
  user with a session, with exactly the networks of its organisation (owners and admins) or the ones it was
  given; an API key of a user that is stored, enabled, not expired and whose organisation has access to the
  API, with no network beyond those of the key; or a daemon with such a key of its network. The system and
  anonymous senders never pass. Every refusal of a permission has status 403.\<close>

theorem authorized_sender:
  assumes "Authorized_from_request_parts v p rq fresh_request = (x, fx, r)"
  shows "case r of
           Inr e \<Rightarrow> meets p e \<and> genuine v rq e \<and> extract_auth v rq = (fx, Ok e)
         | Inl err \<Rightarrow> extract_auth v rq = (fx, Err err) \<or>
             (\<exists>e. extract_auth v rq = (fx, Ok e) \<and> \<not> meets p e \<and> ae_status err = 403)"
proof (cases "extract_auth v rq")
  case (Pair fx' r')
  show ?thesis
  proof (cases r')
    case (Inl err)
    then show ?thesis using assms Pair by (simp add: Authorized_from_request_parts_def auth_from_request_parts_def fresh_request_def) auto
  next
    case (Inr e)
    have "genuine v rq e" using extract_auth_genuine Pair Inr by simp
    then show ?thesis
      using assms Pair Inr requirement_check_cases [of p e]
      by (auto simp: Authorized_from_request_parts_def auth_from_request_parts_def fresh_request_def ApiError_defs)
  qed
qed

theorem authorized_sender_witness:
  "(\<exists>x fx e. Authorized_from_request_parts sample_auth_env (Or_Requirement Require_Member IsDaemon) sample_request fresh_request =
       (x, fx, Ok e) \<and> meets (Or_Requirement Require_Member IsDaemon) e \<and> genuine sample_auth_env sample_request e \<and>
       auth_network_ids e = [21, 23]) \<and>
   (\<exists>x fx err. Authorized_from_request_parts sample_auth_env IsUser sample_request fresh_request = (x, fx, Err err) \<and>
       ae_status err = 403)"
proof -
  define e where "e = AuthenticatedEntity_ApiKey 7 5 1 Admin [21, 23]"
  define k where "k = sample_key\<lparr>user_key_base := (user_key_base sample_key)\<lparr>uk_network_ids := [21, 23], uk_last_used := Some 50\<rparr>\<rparr>"
  have ex: "extract_auth sample_auth_env sample_request = ([Update_user_key k], Ok e)"
    unfolding e_def k_def by code_simp
  have "Authorized_from_request_parts sample_auth_env (Or_Requirement Require_Member IsDaemon) sample_request fresh_request =
      (\<lparr>ext_entity = Some e, ext_failed = None\<rparr>, [Update_user_key k], Ok e)"
    unfolding Authorized_from_request_parts_def auth_from_request_parts_def ex fresh_request_def
    by (simp add: e_def check_role_def role_order_defs is_ok_def)
  moreover have "Authorized_from_request_parts sample_auth_env IsUser sample_request fresh_request =
      (\<lparr>ext_entity = Some e, ext_failed = None\<rparr>, [Update_user_key k], Err (ApiError_forbidden ''User session required''))"
    unfolding Authorized_from_request_parts_def auth_from_request_parts_def ex fresh_request_def
    by (simp add: e_def)
  ultimately show ?thesis
    using authorized_sender [of sample_auth_env "Or_Requirement Require_Member IsDaemon" sample_request]
      authorized_sender [of sample_auth_env IsUser sample_request] ex
    by (fastforce simp: e_def ApiError_defs)
qed

lemma auth_cached:
  assumes "auth_from_request_parts v rq x = (x1, fx, r)"
  shows "auth_from_request_parts v' rq' x1 = (x1, [], r)"
  using assms by (auto simp: auth_from_request_parts_def split: option.splits prod.splits sum.splits)

text \<open>A request is authenticated once: whatever extractors and middleware ask afterwards get the same
  answer, publish no second failed attempt and update no key again.\<close>

theorem authenticated_once:
  assumes "auth_from_request_parts v rq x = (x1, fx, r)"
  shows "Authorized_from_request_parts v' p rq' x1 =
     (x1, [], case r of Inl e \<Rightarrow> Err e
                | Inr e \<Rightarrow> (case requirement_check p e of Inl err \<Rightarrow> Err err | Inr _ \<Rightarrow> Ok e))"
  using auth_cached [OF assms] by (simp add: Authorized_from_request_parts_def split: sum.split)

theorem authenticated_once_witness:
  "\<exists>x1 fx r. auth_from_request_parts sample_auth_env sample_request fresh_request = (x1, fx, r) \<and>
     Authorized_from_request_parts sample_auth_env Require_Member sample_request x1 = (x1, [], Ok (AuthenticatedEntity_ApiKey 7 5 1 Admin [21, 23]))"
proof -
  define e where "e = AuthenticatedEntity_ApiKey 7 5 1 Admin [21, 23]"
  have "snd (extract_auth sample_auth_env sample_request) = Ok e" unfolding e_def by code_simp
  then obtain fx where ex: "extract_auth sample_auth_env sample_request = (fx, Ok e)" by (cases "extract_auth sample_auth_env sample_request") simp
  have "auth_from_request_parts sample_auth_env sample_request fresh_request =
      (\<lparr>ext_entity = Some e, ext_failed = None\<rparr>, fx, Ok e)"
    by (simp add: auth_from_request_parts_def fresh_request_def ex)
  note p = authenticated_once [OF this, of sample_auth_env Require_Member sample_request] and this
  moreover have "requirement_check Require_Member e = Ok ()" by (simp add: e_def check_role_def role_order_defs)
  ultimately show ?thesis by (auto simp: e_def)
qed

text \<open>A key that is generated is recognised by its prefix, for daemons and for users.\<close>

theorem generated_key_recognised:
  "ApiKeyType_from_key (fst (generate_api_key_for_storage h rng t)) = (t, True)"
  by (cases t) (simp_all add: generate_api_key_for_storage_def generate_prefixed_api_key_def ApiKeyType_from_key_def starts_with_def Let_def)

end
