(* ===== verification/Steps.thy ===== *)
theory Steps
  imports Api
begin

section \<open>Operations with effects\<close>

text \<open>
  An asynchronous operation of a service as a function on a state: it returns the new state and a value or
  an error, and what it did before an error stays. A state extends \<open>step_state\<close>, which counts the
  statements that were sent to other systems (the database, the payment provider); the \<open>n\<close>-th of them
  fails with \<open>fault n\<close>, if that is a message. The services of hosts and discoveries have their own
  sequencing (theories Store and Discovery), as their states are fixed there.
\<close>

record step_state =
  sx_calls :: nat

type_synonym ('s, 'a) step = "'s \<Rightarrow> 's \<times> ('a, anyhow_error) result"

definition return_step :: "'a \<Rightarrow> ('s, 'a) step" where
  "return_step x s = (s, Ok x)"

definition fail_step :: "anyhow_error \<Rightarrow> ('s, 'a) step" where
  "fail_step e s = (s, Err e)"

definition bind_step :: "('s, 'a) step \<Rightarrow> ('a \<Rightarrow> ('s, 'b) step) \<Rightarrow> ('s, 'b) step" where
  "bind_step m f s = (case m s of (s1, Inl e) \<Rightarrow> (s1, Err e) | (s1, Inr x) \<Rightarrow> f x s1)"

definition effect_step :: "('s \<Rightarrow> 's) \<Rightarrow> ('s, unit) step" where
  "effect_step f s = (f s, Ok ())"

primrec fold_steps :: "('v \<Rightarrow> 'a \<Rightarrow> ('s, 'v) step) \<Rightarrow> 'v \<Rightarrow> 'a list \<Rightarrow> ('s, 'v) step" where
  "fold_steps f v [] = return_step v"
| "fold_steps f v (x # xs) = bind_step (f v x) (\<lambda>v1. fold_steps f v1 xs)"

definition for_steps :: "('a \<Rightarrow> ('s, unit) step) \<Rightarrow> 'a list \<Rightarrow> ('s, unit) step" where
  "for_steps f = fold_steps (\<lambda>_. f) ()"

definition statement ::
    "(nat \<Rightarrow> string option) \<Rightarrow> ('z step_state_scheme, 'a) step \<Rightarrow> ('z step_state_scheme, 'a) step" where
  "statement fault f s =
     (let s1 = s\<lparr>sx_calls := Suc (sx_calls s)\<rparr>
      in case fault (sx_calls s) of Some e \<Rightarrow> (s1, Err (OtherError e)) | None \<Rightarrow> f s1)"

definition query_step ::
    "(nat \<Rightarrow> string option) \<Rightarrow> ('z step_state_scheme \<Rightarrow> 'a) \<Rightarrow> ('z step_state_scheme, 'a) step" where
  "query_step fault f = statement fault (\<lambda>s. (s, Ok (f s)))"

definition require_step :: "anyhow_error \<Rightarrow> 'a option \<Rightarrow> ('s, 'a) step" where
  "require_step e o' = (case o' of Some x \<Rightarrow> return_step x | None \<Rightarrow> fail_step e)"

subsection \<open>Rules\<close>

text \<open>From a state with \<open>P\<close> the operation succeeds into \<open>Q\<close> or fails into \<open>E\<close>.\<close>

definition step_triple ::
    "('s \<Rightarrow> bool) \<Rightarrow> ('s, 'a) step \<Rightarrow> ('a \<Rightarrow> 's \<Rightarrow> bool) \<Rightarrow> ('s \<Rightarrow> bool) \<Rightarrow> bool" where
  "step_triple P m Q E \<longleftrightarrow>
     (\<forall>s. P s \<longrightarrow> (case m s of (s1, Inr x) \<Rightarrow> Q x s1 | (s1, Inl e) \<Rightarrow> E s1))"

lemma step_return: "(\<And>s. P s \<Longrightarrow> Q x s) \<Longrightarrow> step_triple P (return_step x) Q E"
  by (simp add: step_triple_def return_step_def)

lemma step_fail: "(\<And>s. P s \<Longrightarrow> E s) \<Longrightarrow> step_triple P (fail_step e) Q E"
  by (simp add: step_triple_def fail_step_def)

lemma step_bind:
  assumes "step_triple P m R E" and "\<And>x. step_triple (R x) (f x) Q E"
  shows "step_triple P (bind_step m f) Q E"
  unfolding step_triple_def
proof (intro allI impI)
  fix s assume "P s"
  then have m: "case m s of (s1, Inr x) \<Rightarrow> R x s1 | (s1, Inl e) \<Rightarrow> E s1"
    using assms(1) by (simp add: step_triple_def)
  show "case bind_step m f s of (s1, Inr x) \<Rightarrow> Q x s1 | (s1, Inl e) \<Rightarrow> E s1"
  proof (cases "m s")
    case (Pair s1 r)
    show ?thesis
    proof (cases r)
      case (Inl e)
      then show ?thesis using m Pair by (simp add: bind_step_def)
    next
      case (Inr x)
      then have "R x s1" using m Pair by simp
      then show ?thesis
        using assms(2) [of x] Pair Inr by (simp add: step_triple_def bind_step_def)
    qed
  qed
qed

lemma step_effect: "(\<And>s. P s \<Longrightarrow> Q () (f s)) \<Longrightarrow> step_triple P (effect_step f) Q E"
  by (simp add: step_triple_def effect_step_def)

lemma step_statement:
  assumes "step_triple P f Q E" and "\<And>s n. P s \<Longrightarrow> P (s\<lparr>sx_calls := n\<rparr>)" and "\<And>s. P s \<Longrightarrow> E s"
  shows "step_triple P (statement fault f) Q E"
  using assms unfolding step_triple_def statement_def Let_def by (auto split: option.split)

lemma step_query:
  assumes "\<And>s. P s \<Longrightarrow> Q (f s) s" and "\<And>s n. P s \<Longrightarrow> P (s\<lparr>sx_calls := n\<rparr>)" and "\<And>s. P s \<Longrightarrow> E s"
  shows "step_triple P (query_step fault f) Q E"
  unfolding query_step_def using assms by (intro step_statement) (simp_all add: step_triple_def)

lemma step_require:
  "(\<And>s x. P s \<Longrightarrow> o' = Some x \<Longrightarrow> Q x s) \<Longrightarrow> (\<And>s. P s \<Longrightarrow> E s) \<Longrightarrow> step_triple P (require_step e o') Q E"
  by (cases o') (simp_all add: require_step_def step_triple_def return_step_def fail_step_def)

lemma step_fold:
  assumes "\<And>pre x post v. xs = pre @ x # post \<Longrightarrow> step_triple (I pre v) (f v x) (I (pre @ [x])) E"
  shows "step_triple (I [] v) (fold_steps f v xs) (I xs) E"
proof -
  have "step_triple (I pre v) (fold_steps f v post) (I xs) E" if "xs = pre @ post" for pre post v
    using that
  proof (induction post arbitrary: pre v)
    case Nil
    then show ?case by (simp add: step_triple_def return_step_def)
  next
    case (Cons x post)
    then have rest: "step_triple (I (pre @ [x]) v') (fold_steps f v' post) (I xs) E" for v' by simp
    show ?case unfolding fold_steps.simps by (rule step_bind [OF assms [OF Cons.prems] rest])
  qed
  from this [of "[]" xs v] show ?thesis by simp
qed

lemma step_for:
  assumes "\<And>pre x post. xs = pre @ x # post \<Longrightarrow> step_triple (I pre) (f x) (\<lambda>_. I (pre @ [x])) E"
  shows "step_triple (I []) (for_steps f xs) (\<lambda>_. I xs) E"
  unfolding for_steps_def using assms by (intro step_fold [where I = "\<lambda>p _. I p"]) simp

lemma step_weaken:
  assumes "step_triple P m Q E" and "\<And>s. P' s \<Longrightarrow> P s" and "\<And>x s. Q x s \<Longrightarrow> Q' x s" and "\<And>s. E s \<Longrightarrow> E' s"
  shows "step_triple P' m Q' E'"
  using assms unfolding step_triple_def by (fastforce split: prod.splits sum.splits)

lemma step_conj:
  assumes "step_triple P m Q E" and "step_triple P' m Q' E'"
  shows "step_triple (\<lambda>s. P s \<and> P' s) m (\<lambda>x s. Q x s \<and> Q' x s) (\<lambda>s. E s \<and> E' s)"
  using assms unfolding step_triple_def by (fastforce split: prod.splits sum.splits)

lemma step_apply:
  assumes "step_triple P m Q E" and "P s" and "m s = (s1, r)"
  shows "(\<exists>x. r = Inr x \<and> Q x s1) \<or> (\<exists>e. r = Inl e \<and> E s1)"
  using assms unfolding step_triple_def by (cases r) fastforce+

lemmas step_rules = step_return step_fail step_effect step_query step_require

end
