(* ===== verification/Billing_Service.thy ===== *)
theory Billing_Service
  imports Authentication Steps
begin

section \<open>Billing of organisations\<close>

text \<open>
  The subscriptions of organisations (\<^verbatim>\<open>backend/src/server/billing/service.rs\<close>, \<^verbatim>\<open>subscriber.rs\<close>), the
  invitations that a cancellation revokes (\<^verbatim>\<open>backend/src/server/invites/service.rs\<close>), and the two gates
  that a plan puts before a request: the billing middleware and the checks of features
  (\<^verbatim>\<open>backend/src/server/auth/middleware/billing.rs\<close>, \<^verbatim>\<open>features.rs\<close>, with the lookups of \<^verbatim>\<open>cache.rs\<close>).

  The payment provider is a part of the environment: its prices by lookup key and the active
  subscriptions of a customer. Parsing of identifiers and of the plan in the metadata of a
  subscription is a parameter.
\<close>

subsection \<open>State\<close>

record InviteBase =
  inb_organization_id :: uuid
  inb_permissions :: UserOrgPermissions
  inb_network_ids :: "uuid list"
  inb_url :: string
  inb_created_by :: uuid
  inb_expires_at :: datetime
  inb_send_to :: "string option"

record Invite =
  invite_id :: uuid
  invite_created_at :: datetime
  invite_updated_at :: datetime
  invite_base :: InviteBase

datatype bill_event =
    Network_deleted Network
  | Organization_updated Organization
  | Invite_deleted Invite
  | Telemetry uuid TelemetryOperation string bool

record UpdateSubscriptionItems =
  usi_id :: "string option"
  usi_price :: string
  usi_quantity :: nat
  usi_deleted :: "bool option"

record bill_state = step_state +
  bs_organizations :: "Organization list"
  bs_networks :: "Network list"
  bs_users :: "User list"
  bs_invites :: "Invite list"
  bs_events :: "bill_event list"
  bs_stripe_updates :: "(string \<times> UpdateSubscriptionItems list) list"

record stripe_subscription =
  ssb_id :: string
  ssb_items :: "(string \<times> string) list"

record bill_env =
  be_fault :: "nat \<Rightarrow> string option"
  be_now :: "nat \<Rightarrow> datetime"
  be_show_uuid :: "uuid \<Rightarrow> string"
  be_parse_uuid :: "string \<Rightarrow> (uuid, anyhow_error) result"
  be_parse_plan :: "string \<Rightarrow> (BillingPlan, anyhow_error) result"
  be_price :: "string \<Rightarrow> string option"
  be_subscriptions :: "string \<Rightarrow> stripe_subscription list"

type_synonym 'a bill = "(bill_state, 'a) step"

definition of_result_step :: "('a, anyhow_error) result \<Rightarrow> 'a bill" where
  "of_result_step r = (case r of Inl e \<Rightarrow> fail_step e | Inr x \<Rightarrow> return_step x)"

definition bill_publish :: "bill_event \<Rightarrow> unit bill" where
  "bill_publish e = effect_step (\<lambda>s. s\<lparr>bs_events := bs_events s @ [e]\<rparr>)"

subsection \<open>Rows\<close>

definition get_organization :: "bill_env \<Rightarrow> uuid \<Rightarrow> Organization option bill" where
  "get_organization v i = query_step (be_fault v) (\<lambda>s. find (\<lambda>x. organization_id x = i) (bs_organizations s))"

definition org_networks :: "uuid \<Rightarrow> Network list \<Rightarrow> Network list" where
  "org_networks org ns =
     sort_key network_created_at (filter (\<lambda>n. nwb_organization_id (network_base n) = org) ns)"

definition get_organization_owners :: "bill_env \<Rightarrow> uuid \<Rightarrow> User list bill" where
  "get_organization_owners v org =
     query_step (be_fault v) (\<lambda>s. sort_key user_created_at
       (filter (\<lambda>u. ub_organization_id (user_base u) = org \<and> ub_permissions (user_base u) = Owner) (bs_users s)))"

text \<open>The default \<open>update\<close> and \<open>delete\<close> of \<open>CrudService\<close> for organisations and networks.\<close>

definition update_organization :: "bill_env \<Rightarrow> Organization \<Rightarrow> unit bill" where
  "update_organization v org =
     bind_step (get_organization v (organization_id org)) (\<lambda>found.
     bind_step (require_step (OtherError (''Could not find '' @ [CHR 0x22] @ orb_name (organization_base org) @ [CHR 0x22]
                  @ '': '' @ be_show_uuid v (organization_id org))) found) (\<lambda>_.
     bind_step (statement (be_fault v) (\<lambda>s.
         let org' = org\<lparr>organization_updated_at := be_now v (sx_calls s)\<rparr>
         in (s\<lparr>bs_organizations :=
                 map (\<lambda>x. if organization_id x = organization_id org then org' else x) (bs_organizations s)\<rparr>, Ok org'))) (\<lambda>org'.
       bill_publish (Organization_updated org'))))"

definition delete_network :: "bill_env \<Rightarrow> uuid \<Rightarrow> unit bill" where
  "delete_network v i =
     bind_step (query_step (be_fault v) (\<lambda>s. find (\<lambda>n. network_id n = i) (bs_networks s))) (\<lambda>found.
     bind_step (require_step (OtherError (''networks with id '' @ be_show_uuid v i @ '' not found'')) found) (\<lambda>n.
     bind_step (statement (be_fault v) (\<lambda>s.
         (s\<lparr>bs_networks := filter (\<lambda>x. network_id x \<noteq> i) (bs_networks s)\<rparr>, Ok ()))) (\<lambda>_.
       bill_publish (Network_deleted n))))"

subsection \<open>Invitations\<close>

definition Invite_is_valid :: "datetime \<Rightarrow> Invite \<Rightarrow> bool" where
  "Invite_is_valid now i \<longleftrightarrow> now < inb_expires_at (invite_base i)"

definition find_invite :: "bill_env \<Rightarrow> uuid \<Rightarrow> Invite bill" where
  "find_invite v i =
     bind_step (query_step (be_fault v) (\<lambda>s. find (\<lambda>x. invite_id x = i) (bs_invites s)))
       (require_step (OtherError ''Invalid or expired invite link''))"

definition get_valid_invite :: "bill_env \<Rightarrow> datetime \<Rightarrow> uuid \<Rightarrow> Invite bill" where
  "get_valid_invite v now i =
     bind_step (find_invite v i) (\<lambda>invite.
       if \<not> Invite_is_valid now invite
       then fail_step (OtherError ''Invite link has expired or reached maximum uses'')
       else return_step invite)"

definition use_invite :: "bill_env \<Rightarrow> datetime \<Rightarrow> uuid \<Rightarrow> Invite bill" where
  "use_invite v now i =
     bind_step (find_invite v i) (\<lambda>invite.
       if \<not> Invite_is_valid now invite then fail_step (OtherError ''Invite link has expired'')
       else
         bind_step (statement (be_fault v) (\<lambda>s. (s\<lparr>bs_invites := filter (\<lambda>x. invite_id x \<noteq> i) (bs_invites s)\<rparr>, Ok ()))) (\<lambda>_.
         bind_step (bill_publish (Invite_deleted invite)) (\<lambda>_. return_step invite)))"

definition delete_invites :: "bill_env \<Rightarrow> (Invite \<Rightarrow> bool) \<Rightarrow> unit bill" where
  "delete_invites v P =
     bind_step (query_step (be_fault v) (\<lambda>s. sort_key invite_created_at (filter P (bs_invites s)))) (\<lambda>found.
       if found = [] then return_step ()
       else statement (be_fault v) (\<lambda>s.
              (s\<lparr>bs_invites := filter (\<lambda>x. invite_id x \<notin> set (map invite_id found)) (bs_invites s)\<rparr>, Ok ())))"

definition revoke_org_invites :: "bill_env \<Rightarrow> uuid \<Rightarrow> unit bill" where
  "revoke_org_invites v org = delete_invites v (\<lambda>i. inb_organization_id (invite_base i) = org)"

text \<open>Errors of the clean-up are only logged.\<close>

definition cleanup_expired :: "bill_env \<Rightarrow> datetime \<Rightarrow> bill_state \<Rightarrow> bill_state" where
  "cleanup_expired v now s = fst (delete_invites v (\<lambda>i. inb_expires_at (invite_base i) < now) s)"

definition list_active_invites :: "bill_env \<Rightarrow> datetime \<Rightarrow> uuid \<Rightarrow> bill_state \<Rightarrow> bill_state \<times> Invite list" where
  "list_active_invites v now org s =
     (case query_step (be_fault v) (\<lambda>s. sort_key invite_created_at
             (filter (\<lambda>i. inb_organization_id (invite_base i) = org) (bs_invites s))) s of
        (s1, Inr is) \<Rightarrow> (s1, filter (Invite_is_valid now) is)
      | (s1, Inl _) \<Rightarrow> (s1, []))"

subsection \<open>Subscriptions\<close>

record Subscription =
  sub_status :: string
  sub_metadata :: "string \<rightharpoonup> string"

text \<open>The networks beyond those that the plan includes, in the order in which they were created.\<close>

definition remove_networks :: "bill_env \<Rightarrow> uuid \<Rightarrow> BillingPlan \<Rightarrow> unit bill" where
  "remove_networks v org plan =
     (case (pc_included_networks (BillingPlan_config plan), pc_network_cents (BillingPlan_config plan)) of
        (Some included, None) \<Rightarrow>
          bind_step (query_step (be_fault v) (\<lambda>s. org_networks org (bs_networks s))) (\<lambda>networks.
            let keep_ids = map network_id (take included networks)
            in for_steps (\<lambda>n. if network_id n \<notin> set keep_ids then delete_network v (network_id n) else return_step ())
                 networks)
      | _ \<Rightarrow> return_step ())"

definition announce_plan :: "User list \<Rightarrow> Organization \<Rightarrow> BillingPlan \<Rightarrow> unit bill" where
  "announce_plan owners org plan =
     (if owners \<noteq> [] \<and> orb_plan (organization_base org) = None \<and>
         not_onboarded org TelemetryOperation_CommercialPlanSelected \<and>
         not_onboarded org TelemetryOperation_PersonalPlanSelected
      then bill_publish (Telemetry (organization_id org) TelemetryOperation_PlanSelected
                           (BillingPlan_display plan) (BillingPlan_is_commercial plan))
      else return_step ())"

definition with_plan :: "string option \<Rightarrow> BillingPlan option \<Rightarrow> Organization \<Rightarrow> Organization" where
  "with_plan status plan org =
     org\<lparr>organization_base := (organization_base org)\<lparr>orb_plan_status := status, orb_plan := plan\<rparr>\<rparr>"

definition handle_subscription_update :: "bill_env \<Rightarrow> Subscription \<Rightarrow> unit bill" where
  "handle_subscription_update v sub =
     bind_step (require_step (OtherError ''No organization_id in subscription metadata'') (sub_metadata sub ''organization_id'')) (\<lambda>org_str.
     bind_step (require_step (OtherError ''No plan in subscription metadata'') (sub_metadata sub ''plan'')) (\<lambda>plan_str.
     bind_step (of_result_step (be_parse_plan v plan_str)) (\<lambda>plan.
     bind_step (of_result_step (be_parse_uuid v org_str)) (\<lambda>org_id.
     bind_step (get_organization v org_id) (\<lambda>found.
       case found of
         None \<Rightarrow> return_step ()
       | Some org \<Rightarrow>
           bind_step (get_organization_owners v (organization_id org)) (\<lambda>owners.
           bind_step (announce_plan owners org plan) (\<lambda>_.
           bind_step (remove_networks v org_id plan) (\<lambda>_.
             update_organization v (with_plan (Some (sub_status sub)) (Some plan) org)))))))))"

definition handle_subscription_deleted :: "bill_env \<Rightarrow> Subscription \<Rightarrow> unit bill" where
  "handle_subscription_deleted v sub =
     bind_step (require_step (OtherError ''No organization_id in subscription metadata'') (sub_metadata sub ''organization_id'')) (\<lambda>org_str.
     bind_step (of_result_step (be_parse_uuid v org_str)) (\<lambda>org_id.
     bind_step (get_organization v org_id) (\<lambda>found.
     bind_step (require_step (OtherError ''Could not find organization to update subscriptions status'') found) (\<lambda>org.
     bind_step (revoke_org_invites v (organization_id org)) (\<lambda>_.
       update_organization v (with_plan (Some ''canceled'') None org))))))"

text \<open>The signature of a webhook is checked by the payment library; \<open>construct_event\<close> stands for it.\<close>

datatype StripeEvent =
    CustomerSubscriptionCreated Subscription
  | CustomerSubscriptionUpdated Subscription
  | CustomerSubscriptionPaused Subscription
  | CustomerSubscriptionDeleted Subscription
  | UnhandledEvent

definition billing_handle_webhook ::
    "bill_env \<Rightarrow> (string \<Rightarrow> string \<Rightarrow> (StripeEvent, anyhow_error) result) \<Rightarrow> string \<Rightarrow> string \<Rightarrow> unit bill" where
  "billing_handle_webhook v construct_event payload signature =
     bind_step (of_result_step (construct_event payload signature)) (\<lambda>event.
       case event of
         CustomerSubscriptionCreated sub \<Rightarrow> handle_subscription_update v sub
       | CustomerSubscriptionUpdated sub \<Rightarrow> handle_subscription_update v sub
       | CustomerSubscriptionDeleted sub \<Rightarrow> handle_subscription_deleted v sub
       | CustomerSubscriptionPaused sub \<Rightarrow> return_step ()
       | UnhandledEvent \<Rightarrow> return_step ())"

subsection \<open>Seats and networks beyond the plan\<close>

definition extra :: "nat option \<Rightarrow> nat \<Rightarrow> nat" where
  "extra included n = (case included of Some i \<Rightarrow> n - i | None \<Rightarrow> 0)"

definition get_price :: "bill_env \<Rightarrow> string option \<Rightarrow> string option bill" where
  "get_price v key =
     (case key of None \<Rightarrow> return_step None | Some k \<Rightarrow> query_step (be_fault v) (\<lambda>_. be_price v k))"

definition item_update :: "string \<Rightarrow> string \<Rightarrow> nat \<Rightarrow> UpdateSubscriptionItems" where
  "item_update item price n =
     \<lparr>usi_id = Some item, usi_price = price, usi_quantity = n, usi_deleted = (if n = 0 then Some True else None)\<rparr>"

definition item_new :: "string \<Rightarrow> nat \<Rightarrow> UpdateSubscriptionItems" where
  "item_new price n = \<lparr>usi_id = None, usi_price = price, usi_quantity = n, usi_deleted = None\<rparr>"

definition addon_item ::
    "bill_env \<Rightarrow> BillingPlan \<Rightarrow> nat \<Rightarrow> nat \<Rightarrow> UpdateSubscriptionItems list \<times> bool \<times> bool \<Rightarrow> string \<times> string
      \<Rightarrow> (UpdateSubscriptionItems list \<times> bool \<times> bool) bill" where
  "addon_item v plan seats networks acc it =
     (case (acc, it) of ((items, found_seat, found_network), (item, price)) \<Rightarrow>
       bind_step (get_price v (stripe_seat_addon_price_lookup_key plan)) (\<lambda>seat_price.
         if seat_price = Some price
         then return_step (items @ [item_update item price seats], True, found_network)
         else bind_step (get_price v (stripe_network_addon_price_lookup_key plan)) (\<lambda>network_price.
           if network_price = Some price
           then return_step (items @ [item_update item price networks], found_seat, True)
           else return_step (items, found_seat, found_network))))"

definition add_item :: "bill_env \<Rightarrow> bool \<Rightarrow> nat \<Rightarrow> string option \<Rightarrow> UpdateSubscriptionItems list \<Rightarrow> UpdateSubscriptionItems list bill" where
  "add_item v found n key items =
     (if \<not> found \<and> n > 0
      then bind_step (get_price v key) (\<lambda>price.
             return_step (case price of Some p \<Rightarrow> items @ [item_new p n] | None \<Rightarrow> items))
      else return_step items)"

definition update_addon_prices :: "bill_env \<Rightarrow> Organization \<Rightarrow> nat \<Rightarrow> nat \<Rightarrow> unit bill" where
  "update_addon_prices v org network_count seat_count =
     (let b = organization_base org; no_plan = ''Organization '' @ orb_name b @ '' doesn'' @ [CHR 0x27] @ ''t have a ''
      in bind_step (require_step (OtherError (no_plan @ ''billing plan'')) (orb_plan b)) (\<lambda>plan.
         bind_step (require_step (OtherError (no_plan @ ''Stripe customer ID'')) (orb_stripe_customer_id b)) (\<lambda>customer.
           let networks = extra (pc_included_networks (BillingPlan_config plan)) network_count;
               seats = extra (pc_included_seats (BillingPlan_config plan)) seat_count
           in bind_step (query_step (be_fault v) (\<lambda>_. be_subscriptions v customer)) (\<lambda>subs.
              bind_step (require_step (OtherError ''No active subscription found'') (case subs of s # _ \<Rightarrow> Some s | [] \<Rightarrow> None)) (\<lambda>sub.
              bind_step (fold_steps (addon_item v plan seats networks) ([], False, False) (ssb_items sub)) (\<lambda>(items, found_seat, found_network).
              bind_step (add_item v found_seat seats (stripe_seat_addon_price_lookup_key plan) items) (\<lambda>items1.
              bind_step (add_item v found_network networks (stripe_network_addon_price_lookup_key plan) items1) (\<lambda>items2.
                if items2 = [] then return_step ()
                else statement (be_fault v) (\<lambda>s.
                       (s\<lparr>bs_stripe_updates := bs_stripe_updates s @ [(ssb_id sub, items2)]\<rparr>, Ok ()))))))))))"

subsection \<open>Gates before a request\<close>

text \<open>\<open>require_billing_for_users\<close>: \<open>None\<close> lets the request through, otherwise the error is the response. An
  organisation is looked up once per request and then comes from the extensions.\<close>

definition get_or_load_organization :: "auth_env \<Rightarrow> uuid \<Rightarrow> (Organization, ApiError) result" where
  "get_or_load_organization v i =
     (case read_db v Read_organization (\<lambda>d. find (\<lambda>x. organization_id x = i) (ad_organizations d)) of
        Inl _ \<Rightarrow> Err (ApiError_internal_error ''Failed to load organization'')
      | Inr None \<Rightarrow> Err (ApiError_forbidden ''Organization not found'')
      | Inr (Some x) \<Rightarrow> Ok x)"

definition get_or_load_network :: "auth_env \<Rightarrow> uuid \<Rightarrow> (Network, ApiError) result" where
  "get_or_load_network v i =
     (case read_db v Read_network (\<lambda>d. find (\<lambda>x. network_id x = i) (ad_networks d)) of
        Inl _ \<Rightarrow> Err (ApiError_internal_error ''Failed to load network'')
      | Inr None \<Rightarrow> Err (ApiError_forbidden ''Network not found'')
      | Inr (Some x) \<Rightarrow> Ok x)"

definition organization_of_sender :: "auth_env \<Rightarrow> AuthenticatedEntity option \<Rightarrow> uuid option" where
  "organization_of_sender v e =
     (case e of
        Some (AuthenticatedEntity_User _ org _ _ _) \<Rightarrow> Some org
      | Some (AuthenticatedEntity_ApiKey _ _ org _ _) \<Rightarrow> Some org
      | Some (AuthenticatedEntity_Daemon n _ _) \<Rightarrow>
          (case get_or_load_network v n of Inr x \<Rightarrow> Some (nwb_organization_id (network_base x)) | Inl _ \<Rightarrow> None)
      | _ \<Rightarrow> None)"

fun plan_exempt :: "BillingPlan \<Rightarrow> bool" where
  "plan_exempt (BillingPlan_Community _) = True"
| "plan_exempt (BillingPlan_CommercialSelfHosted _) = True"
| "plan_exempt (BillingPlan_Demo _) = True"
| "plan_exempt _ = False"

definition plan_or_default :: "bool \<Rightarrow> Organization \<Rightarrow> BillingPlan" where
  "plan_or_default commercial org =
     (case orb_plan (organization_base org) of Some p \<Rightarrow> p | None \<Rightarrow> BillingPlan_default commercial)"

definition check_subscription :: "bool \<Rightarrow> Organization \<Rightarrow> ApiError option" where
  "check_subscription commercial org =
     (if plan_exempt (plan_or_default commercial org) then None
      else case orb_plan_status (organization_base org) of
             Some st \<Rightarrow>
               if st = ''active'' \<or> st = ''trialing'' then None
               else if st = ''past_due''
               then Some (ApiError_payment_required ''Your subscription is past due. Please update your payment method.'')
               else if st = ''canceled''
               then Some (ApiError_payment_required ''Your subscription has been canceled. Please renew to continue.'')
               else Some (ApiError_payment_required ''Active billing plan required. Please select a plan.'')
           | None \<Rightarrow> Some (ApiError_payment_required ''Active billing plan required. Please select a plan.''))"

definition require_billing_for_users ::
    "bool \<Rightarrow> bool \<Rightarrow> auth_env \<Rightarrow> AuthenticatedEntity option \<Rightarrow> ApiError option" where
  "require_billing_for_users billing_enabled commercial v e =
     (if \<not> billing_enabled then None
      else case organization_of_sender v e of
             None \<Rightarrow> None
           | Some i \<Rightarrow>
               (case get_or_load_organization v i of
                  Inl err \<Rightarrow> Some err
                | Inr org \<Rightarrow> check_subscription commercial org))"

subsection \<open>Checks of features\<close>

datatype FeatureCheckResult =
    FeatureCheckResult_Allowed
  | FeatureCheckResult_Denied string
  | FeatureCheckResult_PaymentRequired string

datatype FeatureCheck = InviteUsersFeature | ApiKeyFeature | CreateNetworkFeature | BlockedInDemoMode

definition create_network_check :: "auth_env \<Rightarrow> Organization \<Rightarrow> BillingPlan \<Rightarrow> FeatureCheckResult" where
  "create_network_check v org plan =
     (case (pc_included_networks (BillingPlan_config plan), pc_network_cents (BillingPlan_config plan)) of
        (Some max_networks, None) \<Rightarrow>
          let current = (case read_db v Read_networks
                (\<lambda>d. filter (\<lambda>n. nwb_organization_id (network_base n) = organization_id org) (ad_networks d)) of
              Inr ns \<Rightarrow> length ns | Inl _ \<Rightarrow> 0)
          in if max_networks \<le> current
             then FeatureCheckResult_Denied (''Network limit reached ('' @ show_nat current @ ''/'' @ show_nat max_networks
                    @ ''). Upgrade your plan for more networks.'')
             else FeatureCheckResult_Allowed
      | _ \<Rightarrow> FeatureCheckResult_Allowed)"

fun feature_check :: "auth_env \<Rightarrow> FeatureCheck \<Rightarrow> Organization \<Rightarrow> BillingPlan \<Rightarrow> UserOrgPermissions \<Rightarrow> FeatureCheckResult" where
  "feature_check v InviteUsersFeature org plan p =
     (if \<not> can_invite_users plan then FeatureCheckResult_Denied ''Your plan does not include inviting users''
      else FeatureCheckResult_Allowed)"
| "feature_check v ApiKeyFeature org plan p =
     (if \<not> ft_api_access (BillingPlan_features plan)
      then FeatureCheckResult_PaymentRequired ''Your plan does not include api access''
      else FeatureCheckResult_Allowed)"
| "feature_check v CreateNetworkFeature org plan p = create_network_check v org plan"
| "feature_check v BlockedInDemoMode org plan p =
     (if \<not> BillingPlan_is_demo plan then FeatureCheckResult_Allowed
      else if p = Owner then FeatureCheckResult_Allowed
      else FeatureCheckResult_Denied ''This action is disabled in demo mode'')"

text \<open>\<open>RequireFeature::from_request_parts\<close> for a sender that was authenticated.\<close>

definition require_feature :: "bool \<Rightarrow> auth_env \<Rightarrow> FeatureCheck \<Rightarrow> AuthenticatedEntity
    \<Rightarrow> (UserOrgPermissions \<times> BillingPlan \<times> Organization, ApiError) result" where
  "require_feature commercial v c e =
     (case requirement_check IsUser e of
        Inl err \<Rightarrow> Err err
      | Inr _ \<Rightarrow>
          (case (auth_permissions e, auth_organization_id e) of
             (None, _) \<Rightarrow> Err (ApiError_internal_error ''No permissions'')
           | (_, None) \<Rightarrow> Err (ApiError_internal_error ''No organization'')
           | (Some p, Some i) \<Rightarrow>
               (case get_or_load_organization v i of
                  Inl err \<Rightarrow> Err err
                | Inr org \<Rightarrow>
                    let plan = plan_or_default commercial org
                    in (case feature_check v c org plan p of
                          FeatureCheckResult_Allowed \<Rightarrow> Ok (p, plan, org)
                        | FeatureCheckResult_Denied m \<Rightarrow> Err (ApiError_forbidden m)
                        | FeatureCheckResult_PaymentRequired m \<Rightarrow> Err (ApiError_payment_required m)))))"

subsection \<open>Removing networks\<close>

definition kept_networks :: "uuid \<Rightarrow> nat \<Rightarrow> Network list \<Rightarrow> Network list" where
  "kept_networks org k ns =
     filter (\<lambda>n. nwb_organization_id (network_base n) = org \<longrightarrow> n \<in> set (take k (org_networks org ns))) ns"

definition kept_ids :: "uuid \<Rightarrow> nat \<Rightarrow> Network list \<Rightarrow> uuid list" where
  "kept_ids org k ns = map network_id (take k (org_networks org ns))"

lemma distinct_id_eq:
  "distinct (map network_id ns) \<Longrightarrow> m \<in> set ns \<Longrightarrow> n \<in> set ns \<Longrightarrow> network_id m = network_id n \<Longrightarrow> m = n"
  by (meson distinct_map inj_onD)

lemma set_org_networks:
  "set (org_networks org ns) = {n \<in> set ns. nwb_organization_id (network_base n) = org}"
  by (auto simp: org_networks_def)

lemma distinct_org_networks:
  assumes "distinct (map network_id ns)"
  shows "distinct (map network_id (org_networks org ns))"
proof -
  have "inj_on network_id (set (org_networks org ns))"
    using assms by (auto simp: distinct_map set_org_networks inj_on_def)
  moreover have "distinct (org_networks org ns)"
    using assms by (simp add: org_networks_def distinct_map)
  ultimately show ?thesis by (simp add: distinct_map)
qed

lemma kept_ids_iff:
  assumes "distinct (map network_id ns)" and "n \<in> set (org_networks org ns)"
  shows "network_id n \<in> set (kept_ids org k ns) \<longleftrightarrow> n \<in> set (take k (org_networks org ns))"
proof
  assume "network_id n \<in> set (kept_ids org k ns)"
  then obtain m where m: "m \<in> set (take k (org_networks org ns))" "network_id m = network_id n" by (auto simp: kept_ids_def)
  then have "m \<in> set ns" "n \<in> set ns" using assms(2) set_take_subset by (fastforce simp: set_org_networks)+
  then show "n \<in> set (take k (org_networks org ns))" using distinct_id_eq [OF assms(1)] m by blast
qed (simp add: kept_ids_def)

text \<open>What is left after the networks of a prefix were looked at.\<close>

definition removed_so_far :: "uuid list \<Rightarrow> Network list \<Rightarrow> Network list \<Rightarrow> Network list" where
  "removed_so_far keep pre ns = filter (\<lambda>x. \<not> (\<exists>n \<in> set pre. network_id n \<notin> set keep \<and> network_id x = network_id n)) ns"

lemma removed_so_far_Nil [simp]: "removed_so_far keep [] ns = ns"
  by (simp add: removed_so_far_def)

lemma removed_so_far_step:
  "removed_so_far keep (pre @ [n]) ns =
     (if network_id n \<notin> set keep then filter (\<lambda>x. network_id x \<noteq> network_id n) (removed_so_far keep pre ns)
      else removed_so_far keep pre ns)"
  by (auto simp: removed_so_far_def intro!: filter_cong)

lemma removed_all:
  assumes "distinct (map network_id ns)"
  shows "removed_so_far (kept_ids org k ns) (org_networks org ns) ns = kept_networks org k ns"
  unfolding removed_so_far_def kept_networks_def
proof (rule filter_cong [OF refl])
  fix x assume x: "x \<in> set ns"
  have "(\<exists>n \<in> set (org_networks org ns). network_id n \<notin> set (kept_ids org k ns) \<and> network_id x = network_id n) \<longleftrightarrow>
      x \<in> set (org_networks org ns) \<and> x \<notin> set (take k (org_networks org ns))"
    using distinct_id_eq [OF assms x] kept_ids_iff [OF assms] by (auto simp: set_org_networks)
  then show "(\<not> (\<exists>n \<in> set (org_networks org ns). network_id n \<notin> set (kept_ids org k ns) \<and> network_id x = network_id n)) =
      (nwb_organization_id (network_base x) = org \<longrightarrow> x \<in> set (take k (org_networks org ns)))"
    using x by (auto simp: set_org_networks)
qed

text \<open>Between the networks before and the networks that are kept.\<close>

definition not_over_removed :: "Network list \<Rightarrow> Network list \<Rightarrow> bill_state \<Rightarrow> bool" where
  "not_over_removed kept ns s \<longleftrightarrow> set kept \<subseteq> set (bs_networks s) \<and> set (bs_networks s) \<subseteq> set ns"

definition rows_are :: "Network list \<Rightarrow> Organization list \<Rightarrow> bill_state \<Rightarrow> bool" where
  "rows_are ns orgs s \<longleftrightarrow> bs_networks s = ns \<and> bs_organizations s = orgs"

lemma rows_are_calls [simp]: "rows_are ns orgs (s\<lparr>sx_calls := n\<rparr>) \<longleftrightarrow> rows_are ns orgs s"
  by (simp add: rows_are_def)

lemma rows_are_publish:
  "step_triple (rows_are ns orgs) (bill_publish e) (\<lambda>_. rows_are ns orgs) E"
  unfolding bill_publish_def by (rule step_effect) (simp add: rows_are_def)

lemma delete_network_triple:
  "step_triple (rows_are ns orgs) (delete_network v i)
     (\<lambda>_. rows_are (filter (\<lambda>x. network_id x \<noteq> i) ns) orgs) (rows_are ns orgs)"
  unfolding delete_network_def
proof (rule step_bind [where R = "\<lambda>_. rows_are ns orgs"])
  show "step_triple (rows_are ns orgs) (query_step (be_fault v) (\<lambda>s. find (\<lambda>n. network_id n = i) (bs_networks s)))
     (\<lambda>_. rows_are ns orgs) (rows_are ns orgs)" by (rule step_query) simp_all
  show "step_triple (rows_are ns orgs)
      (bind_step (require_step (OtherError (''networks with id '' @ be_show_uuid v i @ '' not found'')) found) (\<lambda>n.
       bind_step (statement (be_fault v) (\<lambda>s. (s\<lparr>bs_networks := filter (\<lambda>x. network_id x \<noteq> i) (bs_networks s)\<rparr>, Ok ())))
         (\<lambda>_. bill_publish (Network_deleted n))))
      (\<lambda>_. rows_are (filter (\<lambda>x. network_id x \<noteq> i) ns) orgs) (rows_are ns orgs)" for found
  proof (rule step_bind [where R = "\<lambda>_. rows_are ns orgs"])
    show "step_triple (rows_are ns orgs) (require_step e found) (\<lambda>_. rows_are ns orgs) (rows_are ns orgs)" for e
      by (rule step_require) simp_all
    show "step_triple (rows_are ns orgs)
       (bind_step (statement (be_fault v) (\<lambda>s. (s\<lparr>bs_networks := filter (\<lambda>x. network_id x \<noteq> i) (bs_networks s)\<rparr>, Ok ())))
         (\<lambda>_. bill_publish (Network_deleted n)))
      (\<lambda>_. rows_are (filter (\<lambda>x. network_id x \<noteq> i) ns) orgs) (rows_are ns orgs)" for n
      by (rule step_bind [OF step_statement rows_are_publish]) (simp_all add: step_triple_def rows_are_def)
  qed
qed

lemma removed_so_far_between:
  assumes "set pre \<subseteq> set (org_networks org ns)" and "distinct (map network_id ns)"
  shows "rows_are (removed_so_far (kept_ids org k ns) pre ns) orgs s \<Longrightarrow> not_over_removed (kept_networks org k ns) ns s"
  using assms(1) removed_all [OF assms(2), of org k, symmetric]
  by (auto simp: rows_are_def not_over_removed_def removed_so_far_def)

lemma remove_networks_triple:
  assumes dist: "distinct (map network_id ns)"
    and plan: "pc_included_networks (BillingPlan_config plan) = Some k" "pc_network_cents (BillingPlan_config plan) = None"
  shows "step_triple (rows_are ns orgs) (remove_networks v org plan) (\<lambda>_. rows_are (kept_networks org k ns) orgs)
    (not_over_removed (kept_networks org k ns) ns)"
proof -
  let ?keep = "kept_ids org k ns" and ?nets = "org_networks org ns"
  let ?del = "\<lambda>n. if network_id n \<notin> set ?keep then delete_network v (network_id n) else return_step ()"
  have body: "step_triple (rows_are (removed_so_far ?keep pre ns) orgs) (?del n) (\<lambda>_. rows_are (removed_so_far ?keep (pre @ [n]) ns) orgs)
      (not_over_removed (kept_networks org k ns) ns)" if "?nets = pre @ n # post" for pre n post
  proof (cases "network_id n \<in> set ?keep")
    case True
    then show ?thesis unfolding removed_so_far_step by (simp add: step_return)
  next
    case False
    have "set pre \<subseteq> set ?nets" using that by auto
    note E = removed_so_far_between [OF this dist]
    show ?thesis unfolding removed_so_far_step using False
      by (simp only: if_True if_False simp_thms) (rule step_weaken [OF delete_network_triple], auto intro: E)
  qed
  have "step_triple (rows_are (removed_so_far ?keep [] ns) orgs) (for_steps ?del ?nets) (\<lambda>_. rows_are (removed_so_far ?keep ?nets ns) orgs)
      (not_over_removed (kept_networks org k ns) ns)"
    by (rule step_for) (rule body)
  then have loop: "step_triple (rows_are ns orgs) (for_steps ?del ?nets) (\<lambda>_. rows_are (kept_networks org k ns) orgs)
      (not_over_removed (kept_networks org k ns) ns)"
    by (simp add: removed_all [OF dist])
  have E: "rows_are ns orgs s \<Longrightarrow> not_over_removed (kept_networks org k ns) ns s" for s
    by (auto simp: rows_are_def not_over_removed_def kept_networks_def)
  have "step_triple (rows_are ns orgs)
     (bind_step (query_step (be_fault v) (\<lambda>s. org_networks org (bs_networks s))) (\<lambda>networks.
        for_steps (\<lambda>n. if network_id n \<notin> set (map network_id (take k networks)) then delete_network v (network_id n) else return_step ()) networks))
     (\<lambda>_. rows_are (kept_networks org k ns) orgs) (not_over_removed (kept_networks org k ns) ns)"
  proof (rule step_bind [where R = "\<lambda>nets s. nets = ?nets \<and> rows_are ns orgs s"])
    show "step_triple (rows_are ns orgs) (query_step (be_fault v) (\<lambda>s. org_networks org (bs_networks s)))
       (\<lambda>nets s. nets = ?nets \<and> rows_are ns orgs s) (not_over_removed (kept_networks org k ns) ns)"
      by (rule step_query) (simp_all add: E, simp add: rows_are_def)
    show "step_triple (\<lambda>s. nets = ?nets \<and> rows_are ns orgs s)
      (for_steps (\<lambda>n. if network_id n \<notin> set (map network_id (take k nets)) then delete_network v (network_id n) else return_step ()) nets)
      (\<lambda>_. rows_are (kept_networks org k ns) orgs) (not_over_removed (kept_networks org k ns) ns)" for nets
      using loop unfolding step_triple_def kept_ids_def by auto
  qed
  then show ?thesis by (simp add: remove_networks_def plan Let_def)
qed

subsection \<open>Changing the subscription of an organisation\<close>

definition put_organization :: "datetime \<Rightarrow> Organization \<Rightarrow> Organization list \<Rightarrow> Organization list" where
  "put_organization t org orgs =
     map (\<lambda>x. if organization_id x = organization_id org then org\<lparr>organization_updated_at := t\<rparr> else x) orgs"

lemma get_organization_triple:
  assumes "\<And>s. rows_are ns orgs s \<Longrightarrow> E s"
  shows "step_triple (rows_are ns orgs) (get_organization v i)
    (\<lambda>found s. found = find (\<lambda>x. organization_id x = i) orgs \<and> rows_are ns orgs s) E"
  unfolding get_organization_def by (rule step_query) (simp_all add: assms, simp add: rows_are_def)

lemma update_organization_triple:
  assumes E: "\<And>s. rows_are ns orgs s \<Longrightarrow> E s"
  shows "step_triple (rows_are ns orgs) (update_organization v org)
    (\<lambda>_ s. \<exists>t. rows_are ns (put_organization t org orgs) s) E"
  unfolding update_organization_def
proof (rule step_bind [OF get_organization_triple [OF E]])
  fix found
  let ?put = "\<lambda>s. let org' = org\<lparr>organization_updated_at := be_now v (sx_calls s)\<rparr>
         in (s\<lparr>bs_organizations :=
                 map (\<lambda>x. if organization_id x = organization_id org then org' else x) (bs_organizations s)\<rparr>, Ok org')"
  have put: "step_triple (rows_are ns orgs) (statement (be_fault v) ?put) (\<lambda>_ s. \<exists>t. rows_are ns (put_organization t org orgs) s) E"
    by (rule step_statement) (auto simp: step_triple_def rows_are_def put_organization_def Let_def E)
  have pub: "step_triple (\<lambda>s. \<exists>t. rows_are ns (put_organization t org orgs) s) (bill_publish e)
      (\<lambda>_ s. \<exists>t. rows_are ns (put_organization t org orgs) s) E" for e
    unfolding bill_publish_def by (rule step_effect) (auto simp: rows_are_def)
  show "step_triple (\<lambda>s. found = find (\<lambda>x. organization_id x = organization_id org) orgs \<and> rows_are ns orgs s)
     (bind_step (require_step (OtherError (''Could not find '' @ [CHR 0x22] @ orb_name (organization_base org) @ [CHR 0x22]
                  @ '': '' @ be_show_uuid v (organization_id org))) found) (\<lambda>_.
      bind_step (statement (be_fault v) ?put) (\<lambda>org'. bill_publish (Organization_updated org'))))
     (\<lambda>_ s. \<exists>t. rows_are ns (put_organization t org orgs) s) E"
    by (rule step_bind [OF step_require step_bind [OF put pub]]) (auto intro: E)
qed

lemma announce_plan_triple:
  "step_triple (rows_are ns orgs) (announce_plan owners org plan) (\<lambda>_. rows_are ns orgs) E"
  unfolding announce_plan_def by (auto intro: rows_are_publish step_return)

text \<open>The first steps of a webhook only read.\<close>

lemma of_result_step_Ok [simp]: "of_result_step (Inr x) = return_step x"
  by (simp add: of_result_step_def)

lemma require_step_Some [simp]: "require_step e (Some x) = return_step x"
  by (simp add: require_step_def)

lemma bind_return_step [simp]: "bind_step (return_step x) f = f x"
  by (rule ext) (simp add: bind_step_def return_step_def)

lemma handle_subscription_update_triple:
  assumes meta: "sub_metadata sub ''organization_id'' = Some os" "be_parse_uuid v os = Ok i"
      "sub_metadata sub ''plan'' = Some ps" "be_parse_plan v ps = Ok plan"
    and found: "find (\<lambda>x. organization_id x = i) orgs = Some org"
    and remove: "step_triple (rows_are ns orgs) (remove_networks v i plan) (\<lambda>_. rows_are kept orgs) E"
    and E: "\<And>s. rows_are ns orgs s \<Longrightarrow> E s" "\<And>s. rows_are kept orgs s \<Longrightarrow> E s"
  shows "step_triple (rows_are ns orgs) (handle_subscription_update v sub)
    (\<lambda>_ s. \<exists>t. rows_are kept (put_organization t (with_plan (Some (sub_status sub)) (Some plan) org) orgs) s) E"
proof -
  have owners: "step_triple (rows_are ns orgs) (get_organization_owners v j) (\<lambda>_. rows_are ns orgs) E" for j
    unfolding get_organization_owners_def by (rule step_query) (simp_all add: E)
  have rest: "step_triple (rows_are ns orgs)
      (bind_step (get_organization_owners v (organization_id org)) (\<lambda>owners.
       bind_step (announce_plan owners org plan) (\<lambda>_.
       bind_step (remove_networks v i plan) (\<lambda>_.
         update_organization v (with_plan (Some (sub_status sub)) (Some plan) org)))))
      (\<lambda>_ s. \<exists>t. rows_are kept (put_organization t (with_plan (Some (sub_status sub)) (Some plan) org) orgs) s) E"
    by (rule step_bind [OF owners step_bind [OF announce_plan_triple step_bind [OF remove update_organization_triple [OF E(2)]]]])
  show ?thesis
    unfolding handle_subscription_update_def meta require_step_Some of_result_step_Ok bind_return_step
  proof (rule step_bind [OF get_organization_triple [OF E(1)]])
    show "step_triple (\<lambda>s. x = find (\<lambda>x. organization_id x = i) orgs \<and> rows_are ns orgs s)
      (case x of None \<Rightarrow> return_step ()
       | Some org \<Rightarrow>
           bind_step (get_organization_owners v (organization_id org)) (\<lambda>owners.
           bind_step (announce_plan owners org plan) (\<lambda>_.
           bind_step (remove_networks v i plan) (\<lambda>_.
             update_organization v (with_plan (Some (sub_status sub)) (Some plan) org)))))
      (\<lambda>_ s. \<exists>t. rows_are kept (put_organization t (with_plan (Some (sub_status sub)) (Some plan) org) orgs) s) E" for x
    proof (cases "x = Some org")
      case True
      then show ?thesis using rest found by (simp add: step_triple_def)
    next
      case False
      then show ?thesis using found by (simp add: step_triple_def)
    qed
  qed
qed

lemma kept_org_networks:
  assumes "distinct (map network_id ns)"
  shows "org_networks org (kept_networks org k ns) = take k (org_networks org ns)"
proof -
  let ?xs = "org_networks org ns"
  have "distinct ?xs" using distinct_org_networks [OF assms, of org] by (simp add: distinct_map)
  then have "filter (\<lambda>n. n \<in> set (take k ?xs)) ?xs = take k ?xs"
    using append_take_drop_id [of k ?xs] filter_append [of "\<lambda>n. n \<in> set (take k ?xs)" "take k ?xs" "drop k ?xs"]
    by (metis (no_types, lifting) disjoint_iff distinct_append filter_False filter_True append.right_neutral)
  moreover have "org_networks org (kept_networks org k ns) = filter (\<lambda>n. n \<in> set (take k ?xs)) ?xs"
    unfolding kept_networks_def org_networks_def [of org "filter _ _"] filter_sort [symmetric]
    by (simp add: org_networks_def filter_sort [symmetric]) (rule filter_cong; auto)
  ultimately show ?thesis by simp
qed

lemma kept_others:
  "filter (\<lambda>n. nwb_organization_id (network_base n) \<noteq> org) (kept_networks org k ns) =
   filter (\<lambda>n. nwb_organization_id (network_base n) \<noteq> org) ns"
  by (auto simp: kept_networks_def intro!: filter_cong)

text \<open>C15. Changing to a plan with a fixed number of networks. The organisation keeps that many networks,
  those that were created first, and loses the others; it gets the plan and the status of its
  subscription; the networks of other organisations and the other organisations stay as they are.
  When the webhook fails half-way, no network that should be kept is gone, whatever failed.\<close>

theorem downgrade_keeps_oldest_networks:
  assumes "sub_metadata sub ''organization_id'' = Some os" "be_parse_uuid v os = Ok i"
    "sub_metadata sub ''plan'' = Some ps" "be_parse_plan v ps = Ok plan"
    and "find (\<lambda>x. organization_id x = i) (bs_organizations s) = Some org"
    and "pc_included_networks (BillingPlan_config plan) = Some k" "pc_network_cents (BillingPlan_config plan) = None"
    and dist: "distinct (map network_id (bs_networks s))"
    and "handle_subscription_update v sub s = (s1, r)"
  shows "(r = Ok () \<longrightarrow>
       org_networks i (bs_networks s1) = take k (org_networks i (bs_networks s)) \<and>
       (\<exists>t. bs_organizations s1 = put_organization t (with_plan (Some (sub_status sub)) (Some plan) org) (bs_organizations s)) \<and>
       filter (\<lambda>n. nwb_organization_id (network_base n) \<noteq> i) (bs_networks s1) =
       filter (\<lambda>n. nwb_organization_id (network_base n) \<noteq> i) (bs_networks s)) \<and>
    set (take k (org_networks i (bs_networks s))) \<subseteq> set (bs_networks s1) \<and>
    set (bs_networks s1) \<subseteq> set (bs_networks s) \<and>
    (\<forall>n \<in> set (bs_networks s). nwb_organization_id (network_base n) \<noteq> i \<longrightarrow> n \<in> set (bs_networks s1))"
proof -
  let ?ns = "bs_networks s" and ?orgs = "bs_organizations s"
  let ?kept = "kept_networks i k ?ns"
  have sub: "set (take k (org_networks i ?ns)) \<subseteq> set ?kept" "set ?kept \<subseteq> set ?ns"
      "\<forall>n \<in> set ?ns. nwb_organization_id (network_base n) \<noteq> i \<longrightarrow> n \<in> set ?kept"
    using set_take_subset [of k "org_networks i ?ns"] by (auto simp: kept_networks_def set_org_networks)
  have E: "rows_are ?ns ?orgs s' \<Longrightarrow> not_over_removed ?kept ?ns s'" "rows_are ?kept ?orgs s' \<Longrightarrow> not_over_removed ?kept ?ns s'" for s'
    using sub by (auto simp: rows_are_def not_over_removed_def)
  note triple = handle_subscription_update_triple [OF assms(1-5) remove_networks_triple [OF dist assms(6,7)] E]
  have "rows_are ?ns ?orgs s" by (simp add: rows_are_def)
  from step_apply [OF triple this assms(9)]
  consider (ok) t where "r = Inr ()" "rows_are ?kept (put_organization t (with_plan (Some (sub_status sub)) (Some plan) org) ?orgs) s1"
    | (err) e where "r = Inl e" "not_over_removed ?kept ?ns s1" by auto
  then show ?thesis
  proof cases
    case ok
    then show ?thesis
      using sub kept_org_networks [OF dist] kept_others by (auto simp: rows_are_def)
  next
    case err
    then show ?thesis using sub unfolding not_over_removed_def by blast
  qed
qed

subsection \<open>Cancelling a subscription\<close>

definition invites_sat :: "(Invite list \<Rightarrow> bool) \<Rightarrow> bill_state \<Rightarrow> bool" where
  "invites_sat J s \<longleftrightarrow> J (bs_invites s)"

lemma update_organization_invites:
  "step_triple (invites_sat J) (update_organization v org) (\<lambda>_. invites_sat J) (\<lambda>_. True)"
  unfolding update_organization_def get_organization_def bill_publish_def
  by (rule step_bind [where R = "\<lambda>_. invites_sat J", OF step_query step_bind [where R = "\<lambda>_. invites_sat J",
        OF step_require step_bind [where R = "\<lambda>_. invites_sat J", OF step_statement step_effect]]])
    (auto simp: invites_sat_def step_triple_def Let_def)

lemma revoke_org_invites_triple:
  "step_triple (rows_are ns orgs) (revoke_org_invites v i)
     (\<lambda>_ s. rows_are ns orgs s \<and> (\<forall>x \<in> set (bs_invites s). inb_organization_id (invite_base x) \<noteq> i)) (\<lambda>_. True)"
  unfolding revoke_org_invites_def delete_invites_def
proof (rule step_bind)
  show "step_triple (rows_are ns orgs)
     (query_step (be_fault v) (\<lambda>s. sort_key invite_created_at (filter (\<lambda>x. inb_organization_id (invite_base x) = i) (bs_invites s))))
     (\<lambda>found s. set found = {x \<in> set (bs_invites s). inb_organization_id (invite_base x) = i} \<and> rows_are ns orgs s) (\<lambda>_. True)"
    by (rule step_query) auto
  show "step_triple (\<lambda>s. set found = {x \<in> set (bs_invites s). inb_organization_id (invite_base x) = i} \<and> rows_are ns orgs s)
      (if found = [] then return_step ()
       else statement (be_fault v) (\<lambda>s. (s\<lparr>bs_invites := filter (\<lambda>x. invite_id x \<notin> set (map invite_id found)) (bs_invites s)\<rparr>, Ok ())))
      (\<lambda>_ s. rows_are ns orgs s \<and> (\<forall>x \<in> set (bs_invites s). inb_organization_id (invite_base x) \<noteq> i)) (\<lambda>_. True)" for found
  proof (cases "found = []")
    case True
    then show ?thesis by (auto intro: step_return)
  next
    case False
    have "step_triple (\<lambda>s. set found = {x \<in> set (bs_invites s). inb_organization_id (invite_base x) = i} \<and> rows_are ns orgs s)
       (statement (be_fault v) (\<lambda>s. (s\<lparr>bs_invites := filter (\<lambda>x. invite_id x \<notin> set (map invite_id found)) (bs_invites s)\<rparr>, Ok ())))
       (\<lambda>_ s. rows_are ns orgs s \<and> (\<forall>x \<in> set (bs_invites s). inb_organization_id (invite_base x) \<noteq> i)) (\<lambda>_. True)"
      by (rule step_statement) (auto simp: step_triple_def rows_are_def)
    then show ?thesis using False by simp
  qed
qed

lemma cancelled_rows_triple:
  assumes found: "find (\<lambda>x. organization_id x = i) orgs = Some org"
  shows "step_triple (rows_are ns orgs)
      (bind_step (revoke_org_invites v (organization_id org)) (\<lambda>_. update_organization v (with_plan (Some ''canceled'') None org)))
    (\<lambda>_ s. (\<exists>t. rows_are ns (put_organization t (with_plan (Some ''canceled'') None org) orgs) s) \<and>
           (\<forall>x \<in> set (bs_invites s). inb_organization_id (invite_base x) \<noteq> i)) (\<lambda>_. True)"
proof (rule step_bind [OF revoke_org_invites_triple])
  have i: "organization_id org = i" using found by (auto simp: find_Some_iff)
  let ?J = "\<lambda>is. \<forall>x \<in> set is. inb_organization_id (invite_base x) \<noteq> i"
  have "step_triple (\<lambda>s. rows_are ns orgs s \<and> invites_sat ?J s) (update_organization v (with_plan (Some ''canceled'') None org))
      (\<lambda>_ s. (\<exists>t. rows_are ns (put_organization t (with_plan (Some ''canceled'') None org) orgs) s) \<and> invites_sat ?J s) (\<lambda>s. True \<and> True)"
    by (rule step_conj [OF update_organization_triple update_organization_invites]) simp
  then show "step_triple (\<lambda>s. rows_are ns orgs s \<and> (\<forall>x \<in> set (bs_invites s). inb_organization_id (invite_base x) \<noteq> organization_id org))
      (update_organization v (with_plan (Some ''canceled'') None org))
      (\<lambda>_ s. (\<exists>t. rows_are ns (put_organization t (with_plan (Some ''canceled'') None org) orgs) s) \<and>
           (\<forall>x \<in> set (bs_invites s). inb_organization_id (invite_base x) \<noteq> i)) (\<lambda>_. True)"
    by (simp add: invites_sat_def i)
qed

lemma handle_subscription_deleted_rows:
  assumes meta: "sub_metadata sub ''organization_id'' = Some os" "be_parse_uuid v os = Ok i"
    and run: "handle_subscription_deleted v sub s = (s1, Ok ())"
  obtains org t where "organization_id org = i" "org \<in> set (bs_organizations s)"
    "bs_organizations s1 = put_organization t (with_plan (Some ''canceled'') None org) (bs_organizations s)"
    "\<forall>x \<in> set (bs_invites s1). inb_organization_id (invite_base x) \<noteq> i"
proof -
  define rest where "rest = (\<lambda>org. bind_step (revoke_org_invites v (organization_id org)) (\<lambda>_. update_organization v (with_plan (Some ''canceled'') None org)))"
  obtain s0 where s0: "get_organization v i s = (s0, Ok (find (\<lambda>x. organization_id x = i) (bs_organizations s)))"
    "rows_are (bs_networks s) (bs_organizations s) s0"
    using run by (auto simp: handle_subscription_deleted_def meta get_organization_def query_step_def statement_def bind_step_def Let_def rows_are_def split: option.splits)
  then have "(case find (\<lambda>x. organization_id x = i) (bs_organizations s) of None \<Rightarrow> (s0, Err (OtherError ''Could not find organization to update subscriptions status'')) | Some org \<Rightarrow> rest org s0) = (s1, Ok ())"
    using run by (auto simp: handle_subscription_deleted_def meta rest_def bind_step_def [of "get_organization v i"] require_step_def bind_step_def [of "fail_step _"] fail_step_def split: option.splits)
  then obtain org where org: "find (\<lambda>x. organization_id x = i) (bs_organizations s) = Some org" "rest org s0 = (s1, Ok ())"
    by (auto split: option.splits)
  from step_apply [OF cancelled_rows_triple [OF org(1)] s0(2) org(2) [unfolded rest_def]]
  obtain t where "rows_are (bs_networks s) (put_organization t (with_plan (Some ''canceled'') None org) (bs_organizations s)) s1"
    "\<forall>x \<in> set (bs_invites s1). inb_organization_id (invite_base x) \<noteq> i" by auto
  moreover have "organization_id org = i" "org \<in> set (bs_organizations s)" using org(1) by (auto simp: find_Some_iff)
  ultimately show thesis using that by (auto simp: rows_are_def)
qed

lemma put_organization_with_plan:
  assumes "x \<in> set (put_organization t (with_plan st p org) orgs)" and "organization_id x = organization_id org"
  shows "orb_plan (organization_base x) = p" and "orb_plan_status (organization_base x) = st"
  using assms by (auto simp: put_organization_def with_plan_def split: if_splits)

text \<open>C18. The gate of billing. With billing on, a request of a user or of an API key is refused with status 402
  exactly when the organisation has a plan that is paid for and its subscription is neither active nor on
  trial; a request of a daemon is judged by the organisation of its network. An organisation without a plan
  passes: it counts as being on the default plan, which is exempt.\<close>

theorem billing_gate:
  assumes "av_fault v Read_organization = None" "av_fault v Read_network = None"
    and "organization_of_sender v (Some e) = Some i"
    and "find (\<lambda>x. organization_id x = i) (ad_organizations (av_db v)) = Some org"
  shows "(case require_billing_for_users True commercial v (Some e) of
            Some err \<Rightarrow> ae_status err = 402 \<and>
              (\<exists>p. orb_plan (organization_base org) = Some p \<and> \<not> plan_exempt p) \<and>
              orb_plan_status (organization_base org) \<notin> {Some ''active'', Some ''trialing''}
          | None \<Rightarrow>
              (case orb_plan (organization_base org) of Some p \<Rightarrow> plan_exempt p | None \<Rightarrow> True) \<or>
              orb_plan_status (organization_base org) \<in> {Some ''active'', Some ''trialing''}) \<and>
    (\<forall>n k d. e = AuthenticatedEntity_Daemon n k d \<longrightarrow>
       (\<exists>x \<in> set (ad_networks (av_db v)). network_id x = n \<and> nwb_organization_id (network_base x) = i)) \<and>
    (is_user_or_api_key e \<longrightarrow> auth_organization_id e = Some i)"
proof (intro conjI)
  have org: "get_or_load_organization v i = Inr org"
    using assms(1,4) by (simp add: get_or_load_organization_def read_db_def)
  have "plan_exempt (BillingPlan_default commercial)" by (simp add: BillingPlan_default_def)
  then show "case require_billing_for_users True commercial v (Some e) of
            Some err \<Rightarrow> ae_status err = 402 \<and>
              (\<exists>p. orb_plan (organization_base org) = Some p \<and> \<not> plan_exempt p) \<and>
              orb_plan_status (organization_base org) \<notin> {Some ''active'', Some ''trialing''}
          | None \<Rightarrow>
              (case orb_plan (organization_base org) of Some p \<Rightarrow> plan_exempt p | None \<Rightarrow> True) \<or>
              orb_plan_status (organization_base org) \<in> {Some ''active'', Some ''trialing''}"
    using assms(3) org
    by (cases "orb_plan (organization_base org)"; cases "orb_plan_status (organization_base org)")
      (auto simp: require_billing_for_users_def check_subscription_def plan_or_default_def ApiError_defs)
  show "\<forall>n k d. e = AuthenticatedEntity_Daemon n k d \<longrightarrow>
       (\<exists>x \<in> set (ad_networks (av_db v)). network_id x = n \<and> nwb_organization_id (network_base x) = i)"
    using assms(2,3) by (auto simp: organization_of_sender_def get_or_load_network_def read_db_def find_Some_iff split: option.splits) (use nth_mem in blast)
  show "is_user_or_api_key e \<longrightarrow> auth_organization_id e = Some i"
    using assms(3) by (cases e) (auto simp: organization_of_sender_def is_user_or_api_key_def)
qed

text \<open>C39. Cancelling a subscription. When the webhook of a cancellation succeeds, the status of the organisation
  is \<open>canceled\<close>, it has no plan and no invitation is left; from then on the gate of billing lets every request of
  its users and daemons through, as for the free plan, and only its API keys are refused.\<close>

theorem cancellation_lifts_billing:
  assumes "sub_metadata sub ''organization_id'' = Some os" "be_parse_uuid v os = Ok i"
    and "handle_subscription_deleted v sub s = (s1, Ok ())"
    and "ad_organizations (av_db v') = bs_organizations s1" "av_fault v' Read_organization = None"
  shows "(\<exists>org \<in> set (bs_organizations s1). organization_id org = i) \<and>
    (\<forall>org \<in> set (bs_organizations s1). organization_id org = i \<longrightarrow>
       orb_plan_status (organization_base org) = Some ''canceled'' \<and> orb_plan (organization_base org) = None) \<and>
    (\<forall>x \<in> set (bs_invites s1). inb_organization_id (invite_base x) \<noteq> i) \<and>
    (\<forall>e. organization_of_sender v' (Some e) = Some i \<longrightarrow> require_billing_for_users True commercial v' (Some e) = None) \<and>
    \<not> organization_has_api_access v' i"
proof -
  obtain org t where org: "organization_id org = i" "org \<in> set (bs_organizations s)"
      "bs_organizations s1 = put_organization t (with_plan (Some ''canceled'') None org) (bs_organizations s)"
    and inv: "\<forall>x \<in> set (bs_invites s1). inb_organization_id (invite_base x) \<noteq> i"
    by (rule handle_subscription_deleted_rows [OF assms(1-3)])
  have rows: "orb_plan (organization_base x) = None" "orb_plan_status (organization_base x) = Some ''canceled''"
    if "x \<in> set (bs_organizations s1)" "organization_id x = i" for x
    using put_organization_with_plan that org(1,3) by metis+
  have ex: "\<exists>x \<in> set (bs_organizations s1). organization_id x = i"
  proof -
    have "map organization_id (bs_organizations s1) = map organization_id (bs_organizations s)"
      unfolding org(3) by (simp add: put_organization_def with_plan_def)
    then have "i \<in> set (map organization_id (bs_organizations s1))" using org(1,2) by auto
    then show ?thesis by auto
  qed
  then obtain y where y: "find (\<lambda>x. organization_id x = i) (bs_organizations s1) = Some y"
    by (cases "find (\<lambda>x. organization_id x = i) (bs_organizations s1)") (auto simp: find_None_iff)
  then have "y \<in> set (bs_organizations s1)" "organization_id y = i" by (auto simp: find_Some_iff)
  note y1 = rows [OF this]
  have "get_or_load_organization v' i = Inr y" "\<not> organization_has_api_access v' i"
    using y y1 assms(4,5) by (simp_all add: get_or_load_organization_def organization_has_api_access_def read_db_def)
  moreover have "check_subscription commercial y = None"
    using y1 by (simp add: check_subscription_def plan_or_default_def BillingPlan_default_def)
  ultimately show ?thesis using ex inv rows by (simp add: require_billing_for_users_def)
qed


subsection \<open>An example\<close>

text \<open>Two organisations; the first has three networks and changes to the starter plan, which includes one.\<close>

definition sample_network :: "uuid \<Rightarrow> datetime \<Rightarrow> uuid \<Rightarrow> Network" where
  "sample_network i t org = \<lparr>network_id = i, network_created_at = t, network_updated_at = t,
     network_base = \<lparr>nwb_name = ''lan'', nwb_organization_id = org, nwb_tags = []\<rparr>\<rparr>"

definition sample_bill :: bill_state where
  "sample_bill = \<lparr>sx_calls = 0, bs_organizations = [sample_team, sample_team\<lparr>organization_id := 2\<rparr>],
     bs_networks = [sample_network 10 7 1, sample_network 11 3 1, sample_network 20 1 2, sample_network 12 5 1],
     bs_users = [],
     bs_invites = [\<lparr>invite_id = 30, invite_created_at = 0, invite_updated_at = 0,
        invite_base = \<lparr>inb_organization_id = 1, inb_permissions = Viewer, inb_network_ids = [10], inb_url = [],
          inb_created_by = 5, inb_expires_at = 9, inb_send_to = None\<rparr>\<rparr>],
     bs_events = [], bs_stripe_updates = []\<rparr>"

definition sample_bill_env :: bill_env where
  "sample_bill_env = \<lparr>be_fault = (\<lambda>_. None), be_now = (\<lambda>n. int n), be_show_uuid = (\<lambda>_. []),
     be_parse_uuid = (\<lambda>_. Ok 1), be_parse_plan = (\<lambda>_. Ok (hd get_default_plans)),
     be_price = (\<lambda>_. None), be_subscriptions = (\<lambda>_. [])\<rparr>"

definition sample_sub :: Subscription where
  "sample_sub = \<lparr>sub_status = ''active'', sub_metadata = [''organization_id'' \<mapsto> ''1'', ''plan'' \<mapsto> ''starter'']\<rparr>"

theorem downgrade_keeps_oldest_networks_witness:
  "snd (handle_subscription_update sample_bill_env sample_sub sample_bill) = Ok () \<and>
   map network_id (org_networks 1 (bs_networks (fst (handle_subscription_update sample_bill_env sample_sub sample_bill)))) = [11] \<and>
   map network_id (org_networks 1 (bs_networks sample_bill)) = [11, 12, 10]"
proof -
  obtain s1 where s1: "handle_subscription_update sample_bill_env sample_sub sample_bill = (s1, Ok ())"
  proof -
    have "snd (handle_subscription_update sample_bill_env sample_sub sample_bill) = Ok ()" by code_simp
    then show thesis using that by (cases "handle_subscription_update sample_bill_env sample_sub sample_bill") simp
  qed
  have "org_networks 1 (bs_networks s1) = take 1 (org_networks 1 (bs_networks sample_bill))"
    by (rule downgrade_keeps_oldest_networks [of sample_sub "''1''" sample_bill_env 1 "''starter''" "hd get_default_plans" sample_bill sample_team 1,
          OF _ _ _ _ _ _ _ _ s1, THEN conjunct1, rule_format, THEN conjunct1])
      (simp_all add: sample_sub_def sample_bill_env_def sample_bill_def sample_team_def sample_network_def get_default_plans_def)
  moreover have "map network_id (org_networks 1 (bs_networks sample_bill)) = [11, 12, 10]" by code_simp
  ultimately show ?thesis using s1 by (simp add: take_map [symmetric])
qed

theorem cancellation_lifts_billing_witness:
  "let s1 = fst (handle_subscription_deleted sample_bill_env sample_sub sample_bill);
       v = sample_auth_env\<lparr>av_db := (av_db sample_auth_env)\<lparr>ad_organizations := bs_organizations s1\<rparr>\<rparr>
   in bs_invites s1 = [] \<and>
      require_billing_for_users True False v (Some (AuthenticatedEntity_User 5 1 Member [] [])) = None"
proof -
  obtain s1 where s1: "handle_subscription_deleted sample_bill_env sample_sub sample_bill = (s1, Ok ())" "bs_invites s1 = []"
  proof -
    have "snd (handle_subscription_deleted sample_bill_env sample_sub sample_bill) = Ok ()"
      "bs_invites (fst (handle_subscription_deleted sample_bill_env sample_sub sample_bill)) = []" by code_simp+
    then show thesis using that by (cases "handle_subscription_deleted sample_bill_env sample_sub sample_bill") simp
  qed
  let ?v = "sample_auth_env\<lparr>av_db := (av_db sample_auth_env)\<lparr>ad_organizations := bs_organizations s1\<rparr>\<rparr>"
  have "sub_metadata sample_sub ''organization_id'' = Some ''1''" "be_parse_uuid sample_bill_env ''1'' = Ok 1"
    by (simp_all add: sample_sub_def sample_bill_env_def)
  then have "\<forall>e. organization_of_sender ?v (Some e) = Some 1 \<longrightarrow> require_billing_for_users True False ?v (Some e) = None"
    using cancellation_lifts_billing [OF _ _ s1(1), of "''1''" 1 ?v False] by (simp add: sample_auth_env_def)
  then show ?thesis using s1 by (simp add: Let_def organization_of_sender_def)
qed

theorem billing_gate_witness:
  "require_billing_for_users True False
     (sample_auth_env\<lparr>av_db := (av_db sample_auth_env)\<lparr>ad_organizations := [with_plan (Some ''past_due'') (Some (hd get_default_plans)) sample_team]\<rparr>\<rparr>)
     (Some (AuthenticatedEntity_User 5 1 Owner [] [])) \<noteq> None \<and>
   require_billing_for_users True False sample_auth_env (Some (AuthenticatedEntity_User 5 1 Owner [] [])) = None"
proof -
  let ?e = "AuthenticatedEntity_User 5 1 Owner [] []"
  let ?org = "with_plan (Some ''past_due'') (Some (hd get_default_plans)) sample_team"
  let ?v = "sample_auth_env\<lparr>av_db := (av_db sample_auth_env)\<lparr>ad_organizations := [?org]\<rparr>\<rparr>"
  have v: "av_fault ?v Read_organization = None" "av_fault ?v Read_network = None" "organization_of_sender ?v (Some ?e) = Some 1"
      "find (\<lambda>x. organization_id x = 1) (ad_organizations (av_db ?v)) = Some ?org"
    by (simp_all add: sample_auth_env_def organization_of_sender_def with_plan_def sample_team_def)
  have w: "av_fault sample_auth_env Read_organization = None" "av_fault sample_auth_env Read_network = None"
      "organization_of_sender sample_auth_env (Some ?e) = Some 1"
      "find (\<lambda>x. organization_id x = 1) (ad_organizations (av_db sample_auth_env)) = Some sample_team"
    by (simp_all add: sample_auth_env_def organization_of_sender_def sample_team_def)
  have "orb_plan (organization_base ?org) = Some (hd get_default_plans)" "\<not> plan_exempt (hd get_default_plans)"
      "orb_plan_status (organization_base ?org) = Some ''past_due''" "orb_plan_status (organization_base sample_team) = Some ''active''"
    by (simp_all add: with_plan_def sample_team_def get_default_plans_def)
  then show ?thesis
    using billing_gate [OF v, of False, THEN conjunct1] billing_gate [OF w, of False, THEN conjunct1]
    by (cases "require_billing_for_users True False ?v (Some ?e)"; cases "require_billing_for_users True False sample_auth_env (Some ?e)") simp_all
qed

end
