(* ===== verification/Event_Bus.thy ===== *)
theory Event_Bus
  imports Billing_Service Topology_Types
begin

section \<open>The event bus\<close>

text \<open>
  Events, filters and the delivery of events to subscribers
  (\<^verbatim>\<open>backend/src/server/shared/events/types.rs\<close> and \<^verbatim>\<open>bus.rs\<close>), and the subscriber that records the
  onboarding of an organisation (\<^verbatim>\<open>backend/src/server/organizations/subscriber.rs\<close>).

  \<^item> The payload of an entity event is read for topologies only; another entity is its discriminant.
    Metadata is an association list of JSON values.
  \<^item> A subscriber is its filter, its window and its handler, a function on the state it works on. The
    broadcast channel for raw events has no reader among the modelled parts.
  \<^item> The background task of a subscriber with a window runs \<open>flush_batch\<close> at every tick.
\<close>

subsection \<open>Events\<close>

datatype EntityDiscriminants =
    ED_Organization | ED_Invite | ED_Share | ED_Network | ED_DaemonApiKey | ED_UserApiKey | ED_User | ED_Tag
  | ED_Discovery | ED_Daemon | ED_Host | ED_Service | ED_Port | ED_Binding | ED_Interface | ED_Subnet
  | ED_Group | ED_Topology

datatype EventEntity = EventEntity_Topology Topology | EventEntity_Other EntityDiscriminants

fun EventEntity_discriminant :: "EventEntity \<Rightarrow> EntityDiscriminants" where
  "EventEntity_discriminant (EventEntity_Topology _) = ED_Topology"
| "EventEntity_discriminant (EventEntity_Other d) = d"

datatype JsonValue = JsonNull | JsonBool bool | JsonString string

type_synonym metadata = "(string \<times> JsonValue) list"

text \<open>\<open>metadata.get(k).and_then(from_value::<bool>.ok()).unwrap_or(false)\<close>.\<close>

definition metadata_flag :: "string \<Rightarrow> metadata \<Rightarrow> bool" where
  "metadata_flag k m = (case map_of m k of Some (JsonBool b) \<Rightarrow> b | _ \<Rightarrow> False)"

datatype AuthOperation =
    AuthOperation_Register | AuthOperation_LoginSuccess | AuthOperation_LoginFailed
  | AuthOperation_PasswordResetRequested | AuthOperation_PasswordResetCompleted
  | AuthOperation_PasswordChanged | AuthOperation_EmailVerified | AuthOperation_SessionExpired
  | AuthOperation_OidcLinked | AuthOperation_OidcUnlinked | AuthOperation_LoggedOut
  | AuthOperation_RotateKey | AuthOperation_ApiKeyAuthFailed

record EntityEvent =
  ee_id :: uuid
  ee_entity_type :: EventEntity
  ee_entity_id :: uuid
  ee_network_id :: "uuid option"
  ee_organization_id :: "uuid option"
  ee_operation :: EntityOperation
  ee_timestamp :: datetime
  ee_authentication :: AuthenticatedEntity
  ee_metadata :: metadata

record AuthEvent =
  ave_id :: uuid
  ave_user_id :: "uuid option"
  ave_organization_id :: "uuid option"
  ave_operation :: AuthOperation
  ave_timestamp :: datetime
  ave_ip_address :: string
  ave_user_agent :: "string option"
  ave_metadata :: metadata
  ave_authentication :: AuthenticatedEntity

record TelemetryEvent =
  tle_id :: uuid
  tle_organization_id :: uuid
  tle_operation :: TelemetryOperation
  tle_timestamp :: datetime
  tle_authentication :: AuthenticatedEntity
  tle_metadata :: metadata

datatype Event = Event_Entity EntityEvent | Event_Auth AuthEvent | Event_Telemetry TelemetryEvent

fun Event_org_id :: "Event \<Rightarrow> uuid option" where
  "Event_org_id (Event_Auth a) = ave_organization_id a"
| "Event_org_id (Event_Entity e) = ee_organization_id e"
| "Event_org_id (Event_Telemetry t) = Some (tle_organization_id t)"

fun Event_network_id :: "Event \<Rightarrow> uuid option" where
  "Event_network_id (Event_Entity e) = ee_network_id e"
| "Event_network_id _ = None"

text \<open>The \<open>PartialEq\<close> implementations: identifiers, times and, for entities, the payload are not compared;
  two telemetry events are never equal.\<close>

definition EntityEvent_eq :: "EntityEvent \<Rightarrow> EntityEvent \<Rightarrow> bool" where
  "EntityEvent_eq a b \<longleftrightarrow>
     ee_entity_id a = ee_entity_id b \<and> ee_network_id a = ee_network_id b \<and>
     ee_organization_id a = ee_organization_id b \<and> ee_operation a = ee_operation b \<and>
     ee_authentication a = ee_authentication b \<and> ee_metadata a = ee_metadata b"

definition AuthEvent_eq :: "AuthEvent \<Rightarrow> AuthEvent \<Rightarrow> bool" where
  "AuthEvent_eq a b \<longleftrightarrow>
     ave_user_id a = ave_user_id b \<and> ave_organization_id a = ave_organization_id b \<and>
     ave_operation a = ave_operation b \<and> ave_ip_address a = ave_ip_address b \<and>
     ave_user_agent a = ave_user_agent b \<and> ave_metadata a = ave_metadata b \<and>
     ave_authentication a = ave_authentication b"

fun Event_eq :: "Event \<Rightarrow> Event \<Rightarrow> bool" where
  "Event_eq (Event_Auth a) (Event_Auth b) = AuthEvent_eq a b"
| "Event_eq (Event_Entity a) (Event_Entity b) = EntityEvent_eq a b"
| "Event_eq _ _ = False"

subsection \<open>Filters\<close>

record EventFilter =
  ef_entity_operations :: "(EntityDiscriminants \<times> EntityOperation list option) list option"
  ef_auth_operations :: "AuthOperation list option"
  ef_telemetry_operations :: "TelemetryOperation list option"
  ef_network_ids :: "uuid list option"

definition EventFilter_all :: EventFilter where
  "EventFilter_all =
     \<lparr>ef_entity_operations = None, ef_auth_operations = None, ef_telemetry_operations = None, ef_network_ids = None\<rparr>"

definition EventFilter_entity_only :: "(EntityDiscriminants \<times> EntityOperation list option) list \<Rightarrow> EventFilter" where
  "EventFilter_entity_only ops =
     \<lparr>ef_entity_operations = Some ops, ef_auth_operations = Some [], ef_telemetry_operations = Some [], ef_network_ids = None\<rparr>"

definition EventFilter_auth_only :: "AuthOperation list option \<Rightarrow> EventFilter" where
  "EventFilter_auth_only ops =
     \<lparr>ef_entity_operations = Some [], ef_auth_operations = ops, ef_telemetry_operations = Some [], ef_network_ids = Some []\<rparr>"

definition EventFilter_telemetry_only :: "TelemetryOperation list option \<Rightarrow> EventFilter" where
  "EventFilter_telemetry_only ops =
     \<lparr>ef_entity_operations = Some [], ef_auth_operations = Some [], ef_telemetry_operations = ops, ef_network_ids = Some []\<rparr>"

definition matches_entity :: "EventFilter \<Rightarrow> EntityEvent \<Rightarrow> bool" where
  "matches_entity f e =
     (if (case (ef_network_ids f, ee_network_id e) of (Some ns, Some n) \<Rightarrow> n \<notin> set ns | _ \<Rightarrow> False) then False
      else case ef_entity_operations f of
             Some ops \<Rightarrow>
               (case map_of ops (EventEntity_discriminant (ee_entity_type e)) of
                  Some None \<Rightarrow> True
                | Some (Some os) \<Rightarrow> ee_operation e \<in> set os
                | None \<Rightarrow> False)
           | None \<Rightarrow> True)"

definition matches_auth :: "EventFilter \<Rightarrow> AuthEvent \<Rightarrow> bool" where
  "matches_auth f e = (case ef_auth_operations f of Some os \<Rightarrow> ave_operation e \<in> set os | None \<Rightarrow> True)"

definition matches_telemetry :: "EventFilter \<Rightarrow> TelemetryEvent \<Rightarrow> bool" where
  "matches_telemetry f e = (case ef_telemetry_operations f of Some os \<Rightarrow> tle_operation e \<in> set os | None \<Rightarrow> True)"

fun EventFilter_matches :: "EventFilter \<Rightarrow> Event \<Rightarrow> bool" where
  "EventFilter_matches f (Event_Entity e) = matches_entity f e"
| "EventFilter_matches f (Event_Auth e) = matches_auth f e"
| "EventFilter_matches f (Event_Telemetry e) = matches_telemetry f e"

subsection \<open>Subscribers\<close>

record 's subscriber =
  evs_name :: string
  evs_event_filter :: EventFilter
  evs_debounce_window_ms :: nat
  evs_handle_events :: "Event list \<Rightarrow> ('s, unit) step"

text \<open>The state of a subscriber: its pending events.\<close>

record 's SubscriberState =
  ss_subscriber :: "'s subscriber"
  ss_pending_events :: "Event list"

definition unique_events :: "Event list \<Rightarrow> Event list" where
  "unique_events p = foldl (\<lambda>u e. if (\<exists>x \<in> set u. Event_eq x e) then u else u @ [e]) [] p"

text \<open>The batch is handled once for its duration and result, which are logged, and then once more; an
  error of either is only logged.\<close>

definition flush_batch :: "'s SubscriberState \<Rightarrow> 's \<Rightarrow> 's SubscriberState \<times> 's" where
  "flush_batch b s =
     (if ss_pending_events b = [] then (b, s)
      else
        let events = unique_events (ss_pending_events b); handle = evs_handle_events (ss_subscriber b) events;
            s1 = fst (handle s); s2 = fst (handle s1)
        in (b\<lparr>ss_pending_events := []\<rparr>, s2))"

definition add_event :: "Event \<Rightarrow> 's SubscriberState \<Rightarrow> 's \<Rightarrow> 's SubscriberState \<times> 's" where
  "add_event e b s =
     (if evs_debounce_window_ms (ss_subscriber b) = 0
      then (b, fst (evs_handle_events (ss_subscriber b) [e] s))
      else (b\<lparr>ss_pending_events := ss_pending_events b @ [e]\<rparr>, s))"

fun publish_to :: "Event \<Rightarrow> 's SubscriberState list \<Rightarrow> 's \<Rightarrow> 's SubscriberState list \<times> 's" where
  "publish_to e [] s = ([], s)"
| "publish_to e (b # bs) s =
     (let (b1, s1) = (if EventFilter_matches (evs_event_filter (ss_subscriber b)) e then add_event e b s else (b, s));
          (bs1, s2) = publish_to e bs s1
      in (b1 # bs1, s2))"

definition register_subscriber :: "'s subscriber \<Rightarrow> 's SubscriberState list \<Rightarrow> 's SubscriberState list" where
  "register_subscriber b bs = bs @ [\<lparr>ss_subscriber = b, ss_pending_events = []\<rparr>]"

subsection \<open>Onboarding\<close>

definition push_onboarding :: "TelemetryOperation \<Rightarrow> Organization \<Rightarrow> Organization" where
  "push_onboarding step org =
     org\<lparr>organization_base := (organization_base org)\<lparr>orb_onboarding := orb_onboarding (organization_base org) @ [step]\<rparr>\<rparr>"

definition onboarding_event :: "bill_env \<Rightarrow> Event \<Rightarrow> unit bill" where
  "onboarding_event v event =
     (case event of
        Event_Telemetry t \<Rightarrow>
          bind_step (get_organization v (tle_organization_id t)) (\<lambda>found.
            case found of
              Some org \<Rightarrow>
                if metadata_flag ''is_onboarding_step'' (tle_metadata t) \<and> not_onboarded org (tle_operation t)
                then update_organization v (push_onboarding (tle_operation t) org)
                else return_step ()
            | None \<Rightarrow> return_step ())
      | _ \<Rightarrow> return_step ())"

definition onboarding_handle_events :: "bill_env \<Rightarrow> Event list \<Rightarrow> unit bill" where
  "onboarding_handle_events v events =
     (if events = [] then return_step () else for_steps (onboarding_event v) events)"

definition onboarding_subscriber :: "bill_env \<Rightarrow> bill_state subscriber" where
  "onboarding_subscriber v =
     \<lparr>evs_name = ''organization_onboarding'', evs_event_filter = EventFilter_telemetry_only None,
      evs_debounce_window_ms = 0, evs_handle_events = onboarding_handle_events v\<rparr>"

text \<open>The subscriber that keeps the quantities of seats and networks in step with the plan
  (\<^verbatim>\<open>backend/src/server/billing/subscriber.rs\<close>).\<close>

definition event_organization :: "bill_env \<Rightarrow> EntityEvent \<Rightarrow> uuid option bill" where
  "event_organization v e =
     (case ee_organization_id e of
        Some org \<Rightarrow> return_step (Some org)
      | None \<Rightarrow>
          (case ee_network_id e of
             Some n \<Rightarrow>
               bind_step (query_step (be_fault v) (\<lambda>s. find (\<lambda>x. network_id x = n) (bs_networks s))) (\<lambda>found.
                 return_step (map_option (\<lambda>x. nwb_organization_id (network_base x)) found))
           | None \<Rightarrow> return_step None))"

definition quota_event :: "bill_env \<Rightarrow> Event \<Rightarrow> unit bill" where
  "quota_event v event =
     (case event of
        Event_Entity e \<Rightarrow>
          bind_step (event_organization v e) (\<lambda>org_id.
            case org_id of
              None \<Rightarrow> return_step ()
            | Some i \<Rightarrow>
                bind_step (get_organization v i) (\<lambda>found.
                  case found of
                    None \<Rightarrow> return_step ()
                  | Some org \<Rightarrow>
                      if EventEntity_discriminant (ee_entity_type e) \<in> {ED_Network, ED_User}
                      then bind_step (query_step (be_fault v) (\<lambda>s. length (org_networks i (bs_networks s)))) (\<lambda>network_count.
                           bind_step (query_step (be_fault v) (\<lambda>s. length (filter (\<lambda>u. ub_organization_id (user_base u) = i) (bs_users s)))) (\<lambda>seat_count.
                             if orb_plan (organization_base org) = None then return_step ()
                             else update_addon_prices v org network_count seat_count))
                      else return_step ()))
      | _ \<Rightarrow> return_step ())"

definition quota_handle_events :: "bill_env \<Rightarrow> Event list \<Rightarrow> unit bill" where
  "quota_handle_events v events = (if events = [] then return_step () else for_steps (quota_event v) events)"

definition quota_subscriber :: "bill_env \<Rightarrow> bill_state subscriber" where
  "quota_subscriber v =
     \<lparr>evs_name = ''billing_quota_update'',
      evs_event_filter = EventFilter_entity_only
        [(ED_Network, Some [EntityOperation_Created, EntityOperation_Deleted]),
         (ED_User, Some [EntityOperation_Created, EntityOperation_Deleted])],
      evs_debounce_window_ms = 0, evs_handle_events = quota_handle_events v\<rparr>"

subsection \<open>Batches\<close>

lemma unique_events_snoc:
  "unique_events (p @ [e]) =
     (if (\<exists>x \<in> set (unique_events p). Event_eq x e) then unique_events p else unique_events p @ [e])"
  by (simp add: unique_events_def)

lemma unique_events_subset: "set (unique_events p) \<subseteq> set p"
  by (induction p rule: rev_induct) (auto simp: unique_events_snoc, simp add: unique_events_def)

lemma unique_events_Nil [simp]: "unique_events [] = []"
  by (simp add: unique_events_def)

text \<open>An event that is dropped has an equal event before it in the batch.\<close>

lemma unique_events_covers:
  "e \<in> set p \<Longrightarrow> e \<in> set (unique_events p) \<or> (\<exists>x \<in> set (unique_events p). Event_eq x e)"
  by (induction p rule: rev_induct) (auto simp: unique_events_snoc)

lemma unique_events_distinct:
  "i < j \<Longrightarrow> j < length (unique_events p) \<Longrightarrow> \<not> Event_eq (unique_events p ! i) (unique_events p ! j)"
proof (induction p rule: rev_induct)
  case (snoc e p)
  then show ?case
    by (auto simp: unique_events_snoc nth_append less_Suc_eq split: if_splits)
qed simp

text \<open>
  A handler may be asked to handle a batch again. The contract of a handler for which that makes no
  difference to what is observed of its state, and what it gives for the delivery of a batch.
\<close>

locale repeatable_handler =
  fixes handle :: "Event list \<Rightarrow> ('s, unit) step"
    and observed :: "'s \<Rightarrow> 'o"
    and admissible :: "'s \<Rightarrow> bool"
  assumes repeated: "admissible s \<Longrightarrow>
      observed (fst (handle es (fst (handle es s)))) = observed (fst (handle es s))"
begin

lemma flush_as_once:
  assumes "evs_handle_events (ss_subscriber b) = handle" and "admissible s" and "ss_pending_events b \<noteq> []"
  shows "ss_pending_events (fst (flush_batch b s)) = []"
    and "observed (snd (flush_batch b s)) = observed (fst (handle (unique_events (ss_pending_events b)) s))"
  using assms repeated by (simp_all add: flush_batch_def Let_def)

end

end
