(* ===== verification/Crud_Handlers.thy ===== *)
theory Crud_Handlers
  imports Authentication Steps
begin

section \<open>Generic request handlers\<close>

text \<open>
  The handlers that every entity shares (\<^verbatim>\<open>backend/src/server/shared/handlers/traits.rs\<close>). The trait
  \<open>CrudHandlers\<close> of an entity is a record \<open>'a entity_ops\<close>, the service behind it a record
  \<open>('s, 'a) crud_service\<close> of operations on the state of the service. The sender has passed the permission
  that the handler asks for (theory Authentication). Filters of a query are a predicate.

  What a handler relies on is the locale \<open>row_service\<close>: an operation of the service on one entity changes no
  row of another. From that alone follows that the handlers stay within the reach of the sender.
\<close>

type_synonym ('s, 'a) handler = "'s \<Rightarrow> 's \<times> ('a, ApiError) result"

definition bind_handler :: "('s, 'a) handler \<Rightarrow> ('a \<Rightarrow> ('s, 'b) handler) \<Rightarrow> ('s, 'b) handler" where
  "bind_handler m f s = (case m s of (s1, Inl e) \<Rightarrow> (s1, Err e) | (s1, Inr x) \<Rightarrow> f x s1)"

definition guard_handler :: "('a, ApiError) result \<Rightarrow> ('s, 'a) handler" where
  "guard_handler r s = (s, r)"

fun anyhow_message :: "anyhow_error \<Rightarrow> string" where
  "anyhow_message (ValidationError m) = m"
| "anyhow_message (OtherError m) = m"

text \<open>The operator \<open>?\<close> on an \<open>anyhow\<close> error, and \<open>map_err\<close> to an internal error.\<close>

definition call_service :: "('s, 'a) step \<Rightarrow> ('s, 'a) handler" where
  "call_service m s = (case m s of (s1, Inl e) \<Rightarrow> (s1, Err (ApiError_from_anyhow e)) | (s1, Inr x) \<Rightarrow> (s1, Ok x))"

definition call_internal :: "('s, 'a) step \<Rightarrow> ('s, 'a) handler" where
  "call_internal m s = (case m s of (s1, Inl e) \<Rightarrow> (s1, Err (ApiError_internal_error (anyhow_message e))) | (s1, Inr x) \<Rightarrow> (s1, Ok x))"

record 'a entity_ops =
  eo_table_name :: string
  eo_entity_name :: string
  eo_network_keyed :: bool
  eo_id :: "'a \<Rightarrow> uuid"
  eo_set_id :: "uuid \<Rightarrow> 'a \<Rightarrow> 'a"
  eo_created_at :: "'a \<Rightarrow> datetime"
  eo_set_created_at :: "datetime \<Rightarrow> 'a \<Rightarrow> 'a"
  eo_preserve_immutable_fields :: "'a \<Rightarrow> 'a \<Rightarrow> 'a"
  eo_set_source_manual :: "'a \<Rightarrow> 'a"
  eo_validate :: "'a \<Rightarrow> (unit, string) result"
  eo_network_id :: "'a \<Rightarrow> uuid option"
  eo_organization_id :: "'a \<Rightarrow> uuid option"
  eo_get_tags :: "'a \<Rightarrow> uuid list option"
  eo_set_tags :: "uuid list \<Rightarrow> 'a \<Rightarrow> 'a"

record ('s, 'a) crud_service =
  cr_get_by_id :: "uuid \<Rightarrow> ('s, 'a option) step"
  cr_get_all :: "('a \<Rightarrow> bool) \<Rightarrow> ('s, 'a list) step"
  cr_create :: "'a \<Rightarrow> AuthenticatedEntity \<Rightarrow> ('s, 'a) step"
  cr_update :: "'a \<Rightarrow> AuthenticatedEntity \<Rightarrow> ('s, 'a) step"
  cr_delete :: "uuid \<Rightarrow> AuthenticatedEntity \<Rightarrow> ('s, unit) step"
  cr_delete_many :: "uuid list \<Rightarrow> AuthenticatedEntity \<Rightarrow> ('s, nat) step"

text \<open>The check of tags (theory Api) reads the tags of the organisation; \<open>tags\<close> stands for it.\<close>

type_synonym tag_check = "uuid list \<Rightarrow> uuid \<Rightarrow> (uuid list, ApiError) result"

definition sender_organization :: "AuthenticatedEntity \<Rightarrow> (uuid, ApiError) result" where
  "sender_organization e =
     (case auth_organization_id e of
        Some org \<Rightarrow> Ok org
      | None \<Rightarrow> Err (ApiError_forbidden ''Organization context required''))"

definition checked_tags :: "'a entity_ops \<Rightarrow> tag_check \<Rightarrow> uuid \<Rightarrow> 'a \<Rightarrow> ('a, ApiError) result" where
  "checked_tags E tags org x =
     (case eo_get_tags E x of
        None \<Rightarrow> Ok x
      | Some ts \<Rightarrow> (case tags ts org of Inl e \<Rightarrow> Err e | Inr ts' \<Rightarrow> Ok (eo_set_tags E ts' x)))"

definition find_or_404 :: "'a entity_ops \<Rightarrow> ('s, 'a) crud_service \<Rightarrow> (uuid \<Rightarrow> string) \<Rightarrow> uuid \<Rightarrow> ('s, 'a) handler" where
  "find_or_404 E S sh i =
     bind_handler (call_internal (cr_get_by_id S i)) (\<lambda>found.
       guard_handler (case found of
         Some x \<Rightarrow> Ok x
       | None \<Rightarrow> Err (ApiError_not_found (eo_entity_name E @ '' '' @ [CHR 0x27] @ sh i @ [CHR 0x27] @ '' not found''))))"

definition create_handler :: "'a entity_ops \<Rightarrow> ('s, 'a) crud_service \<Rightarrow> tag_check \<Rightarrow> AuthenticatedEntity \<Rightarrow> 'a \<Rightarrow> ('s, 'a) handler" where
  "create_handler E S tags auth entity0 =
     (let entity = eo_set_source_manual E entity0 in
      bind_handler (guard_handler (validate_entity (eo_validate E entity) (eo_entity_name E))) (\<lambda>_.
      bind_handler (guard_handler (sender_organization auth)) (\<lambda>org.
      bind_handler (guard_handler (validate_create_access (eo_network_id E entity) (eo_organization_id E entity)
                      (auth_network_ids auth) org)) (\<lambda>_.
      bind_handler (guard_handler (checked_tags E tags org entity)) (\<lambda>tagged.
        call_service (cr_create S tagged auth))))))"

text \<open>\<open>query\<close> is the filter of the request on top of the base filter.\<close>

definition get_all_handler :: "'a entity_ops \<Rightarrow> ('s, 'a) crud_service \<Rightarrow> ('a \<Rightarrow> bool) \<Rightarrow> AuthenticatedEntity \<Rightarrow> ('s, 'a list) handler" where
  "get_all_handler E S query auth =
     bind_handler (guard_handler (sender_organization auth)) (\<lambda>org.
       let base = (if eo_network_keyed E
                   then (\<lambda>x. case eo_network_id E x of Some n \<Rightarrow> n \<in> set (auth_network_ids auth) | None \<Rightarrow> False)
                   else if eo_table_name E = ''networks'' then (\<lambda>x. eo_id E x \<in> set (auth_network_ids auth))
                   else (\<lambda>x. eo_organization_id E x = Some org))
       in call_internal (cr_get_all S (\<lambda>x. base x \<and> query x)))"

definition get_by_id_handler ::
    "'a entity_ops \<Rightarrow> ('s, 'a) crud_service \<Rightarrow> (uuid \<Rightarrow> string) \<Rightarrow> AuthenticatedEntity \<Rightarrow> uuid \<Rightarrow> ('s, 'a) handler" where
  "get_by_id_handler E S sh auth i =
     bind_handler (guard_handler (sender_organization auth)) (\<lambda>org.
     bind_handler (find_or_404 E S sh i) (\<lambda>entity.
     bind_handler (guard_handler (validate_read_access (eo_network_id E entity) (eo_organization_id E entity)
                     (auth_network_ids auth) org)) (\<lambda>_.
       guard_handler (Ok entity))))"

definition immutable_from :: "'a entity_ops \<Rightarrow> 'a \<Rightarrow> 'a \<Rightarrow> 'a" where
  "immutable_from E existing entity =
     eo_preserve_immutable_fields E existing
       (eo_set_created_at E (eo_created_at E existing) (eo_set_id E (eo_id E existing) entity))"

definition update_handler ::
    "'a entity_ops \<Rightarrow> ('s, 'a) crud_service \<Rightarrow> (uuid \<Rightarrow> string) \<Rightarrow> tag_check \<Rightarrow> AuthenticatedEntity \<Rightarrow> uuid \<Rightarrow> 'a \<Rightarrow> ('s, 'a) handler" where
  "update_handler E S sh tags auth i entity0 =
     bind_handler (guard_handler (sender_organization auth)) (\<lambda>org.
     bind_handler (find_or_404 E S sh i) (\<lambda>existing.
       let entity = immutable_from E existing entity0 in
       bind_handler (guard_handler (validate_entity (eo_validate E entity) (eo_entity_name E))) (\<lambda>_.
       bind_handler (guard_handler (validate_update_access (eo_network_id E existing) (eo_organization_id E existing)
                       (eo_network_id E entity) (eo_organization_id E entity) (auth_network_ids auth) org)) (\<lambda>_.
       bind_handler (guard_handler (checked_tags E tags org entity)) (\<lambda>tagged.
         call_service (cr_update S tagged auth))))))"

definition delete_handler ::
    "'a entity_ops \<Rightarrow> ('s, 'a) crud_service \<Rightarrow> (uuid \<Rightarrow> string) \<Rightarrow> AuthenticatedEntity \<Rightarrow> uuid \<Rightarrow> ('s, unit) handler" where
  "delete_handler E S sh auth i =
     bind_handler (guard_handler (sender_organization auth)) (\<lambda>org.
     bind_handler (find_or_404 E S sh i) (\<lambda>entity.
     bind_handler (guard_handler (validate_delete_access (eo_network_id E entity) (eo_organization_id E entity)
                     (auth_network_ids auth) org)) (\<lambda>_.
       call_service (cr_delete S i auth))))"

fun check_all :: "('a \<Rightarrow> (unit, ApiError) result) \<Rightarrow> 'a list \<Rightarrow> (unit, ApiError) result" where
  "check_all c [] = Ok ()"
| "check_all c (x # xs) = (case c x of Inl e \<Rightarrow> Err e | Inr _ \<Rightarrow> check_all c xs)"

record BulkDeleteResponse =
  bdr_deleted_count :: nat
  bdr_requested_count :: nat

definition bulk_delete_handler ::
    "'a entity_ops \<Rightarrow> ('s, 'a) crud_service \<Rightarrow> AuthenticatedEntity \<Rightarrow> uuid list \<Rightarrow> ('s, BulkDeleteResponse) handler" where
  "bulk_delete_handler E S auth ids =
     (if ids = [] then guard_handler (Err (ApiError_bad_request ''No IDs provided for bulk delete''))
      else
        bind_handler (guard_handler (sender_organization auth)) (\<lambda>org.
        bind_handler (call_service (cr_get_all S (\<lambda>x. eo_id E x \<in> set ids))) (\<lambda>entities.
        bind_handler (guard_handler (check_all (\<lambda>x. validate_bulk_delete_access (eo_network_id E x) (eo_organization_id E x)
                        (auth_network_ids auth) org) entities)) (\<lambda>_.
        bind_handler (call_service (cr_delete_many S (map (eo_id E) entities) auth)) (\<lambda>n.
          guard_handler (Ok \<lparr>bdr_deleted_count = n, bdr_requested_count = length ids\<rparr>))))))"

subsection \<open>The contract of a service\<close>

definition in_reach :: "'a entity_ops \<Rightarrow> AuthenticatedEntity \<Rightarrow> 'a \<Rightarrow> bool" where
  "in_reach E auth x \<longleftrightarrow>
     (\<exists>org. auth_organization_id auth = Some org \<and>
        may_access (auth_network_ids auth) org (eo_network_id E x) (eo_organization_id E x))"

locale row_service =
  fixes E :: "'a entity_ops"
    and S :: "('s, 'a) crud_service"
    and rows :: "'s \<Rightarrow> 'a list"
  assumes get_by_id_rows: "cr_get_by_id S i s = (s1, r) \<Longrightarrow>
      rows s1 = rows s \<and> (\<forall>x. r = Inr (Some x) \<longrightarrow> x \<in> set (rows s) \<and> eo_id E x = i)"
    and get_all_rows: "cr_get_all S P s = (s1, ra) \<Longrightarrow>
      rows s1 = rows s \<and> (\<forall>xs. ra = Inr xs \<longrightarrow> set xs = {x \<in> set (rows s). P x})"
    and update_rows: "cr_update S x auth s = (s1, ru) \<Longrightarrow>
      filter (\<lambda>y. eo_id E y \<noteq> eo_id E x) (rows s1) = filter (\<lambda>y. eo_id E y \<noteq> eo_id E x) (rows s)"
    and delete_rows: "cr_delete S i auth s = (s1, rd) \<Longrightarrow>
      filter (\<lambda>y. eo_id E y \<noteq> i) (rows s1) = filter (\<lambda>y. eo_id E y \<noteq> i) (rows s)"
    and delete_many_rows: "cr_delete_many S ids auth s = (s1, rm) \<Longrightarrow>
      filter (\<lambda>y. eo_id E y \<notin> set ids) (rows s1) = filter (\<lambda>y. eo_id E y \<notin> set ids) (rows s)"
    and ids_fixed: "eo_id E (immutable_from E existing x) = eo_id E existing"
      "eo_id E (eo_set_tags E ts x) = eo_id E x"
begin

text \<open>A row with the identifier of a row in reach is in reach: identifiers are unique.\<close>

definition unreached :: "AuthenticatedEntity \<Rightarrow> 's \<Rightarrow> 'a list" where
  "unreached auth s = filter (\<lambda>y. \<not> in_reach E auth y) (rows s)"

lemma unreached_by_id:
  assumes "distinct (map (eo_id E) (rows s))" and "\<forall>x \<in> set (rows s). eo_id E x \<in> I \<longrightarrow> in_reach E auth x"
    and "filter (\<lambda>y. eo_id E y \<notin> I) (rows s1) = filter (\<lambda>y. eo_id E y \<notin> I) (rows s)"
  shows "set (unreached auth s) \<subseteq> set (rows s1)"
proof
  fix y assume "y \<in> set (unreached auth s)"
  then have "y \<in> set (rows s)" "eo_id E y \<notin> I" using assms(2) by (auto simp: unreached_def)
  then have "y \<in> set (filter (\<lambda>y. eo_id E y \<notin> I) (rows s1))" unfolding assms(3) by simp
  then show "y \<in> set (rows s1)" by simp
qed

lemma find_or_404_rows:
  assumes "find_or_404 E S sh i s = (s1, r)"
  shows "rows s1 = rows s" and "r = Inr x \<Longrightarrow> x \<in> set (rows s) \<and> eo_id E x = i"
  using assms get_by_id_rows [of i s]
  by (auto simp: find_or_404_def bind_handler_def call_internal_def guard_handler_def split: prod.splits sum.splits option.splits)

lemma in_reach_check:
  "auth_organization_id auth = Some org \<Longrightarrow> validate_read_access (eo_network_id E x) (eo_organization_id E x) (auth_network_ids auth) org = Ok () \<Longrightarrow> in_reach E auth x"
  "auth_organization_id auth = Some org \<Longrightarrow> validate_delete_access (eo_network_id E x) (eo_organization_id E x) (auth_network_ids auth) org = Ok () \<Longrightarrow> in_reach E auth x"
  "auth_organization_id auth = Some org \<Longrightarrow> validate_bulk_delete_access (eo_network_id E x) (eo_organization_id E x) (auth_network_ids auth) org = Ok () \<Longrightarrow> in_reach E auth x"
  "auth_organization_id auth = Some org \<Longrightarrow> validate_update_access (eo_network_id E x) (eo_organization_id E x) n g (auth_network_ids auth) org = Ok () \<Longrightarrow> in_reach E auth x"
  using read_access.check_ok delete_access.check_ok bulk_delete_access.check_ok
  by (auto simp: in_reach_def validate_update_access_def may_access_def split: option.splits if_splits)

lemma same_id_in_reach:
  assumes "distinct (map (eo_id E) (rows s))" and "x \<in> set (rows s)" "in_reach E auth x"
  shows "\<forall>y \<in> set (rows s). eo_id E y \<in> {eo_id E x} \<longrightarrow> in_reach E auth y"
  using assms by (metis distinct_map inj_onD singletonD)

lemma get_by_id_in_reach:
  assumes "get_by_id_handler E S sh auth i s = (s1, r)"
  shows "rows s1 = rows s" and "r = Inr x \<Longrightarrow> x \<in> set (rows s) \<and> eo_id E x = i \<and> in_reach E auth x"
  using assms find_or_404_rows [of sh i s] in_reach_check(1)
  by (auto simp: get_by_id_handler_def sender_organization_def bind_handler_def guard_handler_def split: prod.splits sum.splits option.splits)

lemma update_isolated:
  assumes dist: "distinct (map (eo_id E) (rows s))" and run: "update_handler E S sh tags auth i entity s = (s1, r)"
  shows "set (unreached auth s) \<subseteq> set (rows s1)"
proof (cases "\<exists>org s0 existing tagged. auth_organization_id auth = Some org \<and> find_or_404 E S sh i s = (s0, Inr existing) \<and>
     validate_update_access (eo_network_id E existing) (eo_organization_id E existing)
       (eo_network_id E (immutable_from E existing entity)) (eo_organization_id E (immutable_from E existing entity)) (auth_network_ids auth) org = Ok () \<and>
     checked_tags E tags org (immutable_from E existing entity) = Inr tagged \<and> call_service (cr_update S tagged auth) s0 = (s1, r)")
  case True
  then obtain org s0 existing tagged where c: "auth_organization_id auth = Some org" "find_or_404 E S sh i s = (s0, Inr existing)"
     "validate_update_access (eo_network_id E existing) (eo_organization_id E existing)
       (eo_network_id E (immutable_from E existing entity)) (eo_organization_id E (immutable_from E existing entity)) (auth_network_ids auth) org = Ok ()"
     "checked_tags E tags org (immutable_from E existing entity) = Inr tagged" "call_service (cr_update S tagged auth) s0 = (s1, r)"
    by blast
  have "eo_id E tagged = eo_id E existing"
    using c(4) ids_fixed by (auto simp: checked_tags_def split: option.splits sum.splits)
  moreover obtain r' where "cr_update S tagged auth s0 = (s1, r')"
    using c(5) by (auto simp: call_service_def split: prod.splits sum.splits)
  ultimately have "filter (\<lambda>y. eo_id E y \<notin> {eo_id E existing}) (rows s1) = filter (\<lambda>y. eo_id E y \<notin> {eo_id E existing}) (rows s)"
    using update_rows find_or_404_rows(1) [OF c(2)] by fastforce
  then show ?thesis
    using same_id_in_reach [OF dist, of existing auth] find_or_404_rows(2) [OF c(2) refl] in_reach_check(4) [OF c(1,3)]
    by (intro unreached_by_id [OF dist, where I = "{eo_id E existing}"]) auto
next
  case False
  then have "rows s1 = rows s"
    using run find_or_404_rows(1) [of sh i s]
    by (auto simp: update_handler_def sender_organization_def Let_def bind_handler_def guard_handler_def split: prod.splits sum.splits option.splits)
  then show ?thesis by (auto simp: unreached_def)
qed

lemma delete_isolated:
  assumes dist: "distinct (map (eo_id E) (rows s))" and run: "delete_handler E S sh auth i s = (s1, r)"
  shows "set (unreached auth s) \<subseteq> set (rows s1)"
proof (cases "\<exists>org s0 x. auth_organization_id auth = Some org \<and> find_or_404 E S sh i s = (s0, Inr x) \<and>
     validate_delete_access (eo_network_id E x) (eo_organization_id E x) (auth_network_ids auth) org = Ok () \<and>
     call_service (cr_delete S i auth) s0 = (s1, r)")
  case True
  then obtain org s0 x where c: "auth_organization_id auth = Some org" "find_or_404 E S sh i s = (s0, Inr x)"
     "validate_delete_access (eo_network_id E x) (eo_organization_id E x) (auth_network_ids auth) org = Ok ()"
     "call_service (cr_delete S i auth) s0 = (s1, r)"
    by blast
  obtain r' where "cr_delete S i auth s0 = (s1, r')"
    using c(4) by (auto simp: call_service_def split: prod.splits sum.splits)
  then have "filter (\<lambda>y. eo_id E y \<notin> {eo_id E x}) (rows s1) = filter (\<lambda>y. eo_id E y \<notin> {eo_id E x}) (rows s)"
    using delete_rows find_or_404_rows [OF c(2)] by fastforce
  then show ?thesis
    using same_id_in_reach [OF dist, of x auth] find_or_404_rows(2) [OF c(2) refl] in_reach_check(2) [OF c(1,3)]
    by (intro unreached_by_id [OF dist, where I = "{eo_id E x}"]) auto
next
  case False
  then have "rows s1 = rows s"
    using run find_or_404_rows(1) [of sh i s]
    by (auto simp: delete_handler_def sender_organization_def bind_handler_def guard_handler_def split: prod.splits sum.splits option.splits)
  then show ?thesis by (auto simp: unreached_def)
qed

lemma check_all_Ok: "check_all c xs = Ok () \<longleftrightarrow> (\<forall>x \<in> set xs. c x = Ok ())"
  by (induction xs) (auto split: sum.split)

lemma bulk_delete_isolated:
  assumes dist: "distinct (map (eo_id E) (rows s))" and run: "bulk_delete_handler E S auth ids s = (s1, r)"
  shows "set (unreached auth s) \<subseteq> set (rows s1)"
proof (cases "\<exists>org s0 xs r'. auth_organization_id auth = Some org \<and> cr_get_all S (\<lambda>x. eo_id E x \<in> set ids) s = (s0, Inr xs) \<and>
     check_all (\<lambda>x. validate_bulk_delete_access (eo_network_id E x) (eo_organization_id E x) (auth_network_ids auth) org) xs = Ok () \<and>
     cr_delete_many S (map (eo_id E) xs) auth s0 = (s1, r')")
  case True
  then obtain org s0 xs r' where c: "auth_organization_id auth = Some org" "cr_get_all S (\<lambda>x. eo_id E x \<in> set ids) s = (s0, Inr xs)"
     "check_all (\<lambda>x. validate_bulk_delete_access (eo_network_id E x) (eo_organization_id E x) (auth_network_ids auth) org) xs = Ok ()"
     "cr_delete_many S (map (eo_id E) xs) auth s0 = (s1, r')"
    by blast
  have "rows s0 = rows s" "set xs = {x \<in> set (rows s). eo_id E x \<in> set ids}" using get_all_rows [OF c(2)] by auto
  moreover have "\<forall>x \<in> set xs. in_reach E auth x" using c(3) in_reach_check(3) [OF c(1)] by (simp add: check_all_Ok)
  moreover have "filter (\<lambda>y. eo_id E y \<notin> set (map (eo_id E) xs)) (rows s1) = filter (\<lambda>y. eo_id E y \<notin> set (map (eo_id E) xs)) (rows s0)"
    by (rule delete_many_rows [OF c(4)])
  ultimately show ?thesis by (intro unreached_by_id [OF dist, where I = "set (map (eo_id E) xs)"]) auto
next
  case False
  then have "rows s1 = rows s"
    using run get_all_rows [of "\<lambda>x. eo_id E x \<in> set ids" s]
    by (auto simp: bulk_delete_handler_def sender_organization_def bind_handler_def guard_handler_def call_service_def
        split: prod.splits sum.splits option.splits if_splits)
  then show ?thesis by (auto simp: unreached_def)
qed

end

end
