(* ===== verification/Topology_Service.thy ===== *)
theory Topology_Service
  imports Topology_Graph Event_Bus Crud_Handlers Service_Service
begin

section \<open>The service of topologies\<close>

text \<open>
  Stored maps of a network: reading the entities of a network, creating, refreshing, rebuilding and locking
  a map (\<^verbatim>\<open>backend/src/server/topology/service/main.rs\<close> and \<^verbatim>\<open>backend/src/server/topology/handlers.rs\<close>), and
  the subscriber that keeps the stored maps in step with the entities
  (\<^verbatim>\<open>backend/src/server/topology/service/subscriber.rs\<close>).

  \<^item> Hosts, interfaces, ports, services, bindings and groups are read through the services of theory
    Store and Service_Service, which run on their own world inside the state; the rows of topologies and
    subnets are fields of the state. Both kinds of statement may fail.
  \<^item> \<open>ts_sent\<close> is what was sent on the channel of staleness; sending without receivers is ignored.
  \<^item> Hash sets and maps that are iterated are lists in the order of insertion.
\<close>

subsection \<open>State\<close>

record topo_state = step_state +
  ts_topologies :: "Topology list"
  ts_subnets :: "Subnet list"
  ts_organizations :: "Organization list"
  ts_world :: world
  ts_events :: "Event list"
  ts_sent :: "Topology list"

record 'g topo_env =
  te_fault :: "nat \<Rightarrow> string option"
  te_now :: "nat \<Rightarrow> datetime"
  te_fresh :: "nat \<Rightarrow> uuid"
  te_show_uuid :: "uuid \<Rightarrow> string"
  te_io :: io
  te_build :: "'g build_env"

type_synonym 'a topo = "(topo_state, 'a) step"

abbreviation tp_net :: "Topology \<Rightarrow> uuid" where
  "tp_net t \<equiv> tp_network_id (topology_base t)"

definition store_step :: "'g topo_env \<Rightarrow> 'a action \<Rightarrow> 'a topo" where
  "store_step v a s = (case a (te_io v) (ts_world s) of (w, r) \<Rightarrow> (s\<lparr>ts_world := w\<rparr>, r))"

definition now_step :: "'g topo_env \<Rightarrow> datetime topo" where
  "now_step v s = (s, Ok (te_now v (sx_calls s)))"

definition topo_publish :: "'g topo_env \<Rightarrow> EntityOperation \<Rightarrow> Topology \<Rightarrow> metadata \<Rightarrow> AuthenticatedEntity \<Rightarrow> unit topo" where
  "topo_publish v operation t metadata auth =
     effect_step (\<lambda>s. s\<lparr>ts_events := ts_events s @
       [Event_Entity \<lparr>ee_id = te_fresh v (sx_calls s), ee_entity_type = EventEntity_Topology t, ee_entity_id = topology_id t,
          ee_network_id = Some (tp_net t), ee_organization_id = None, ee_operation = operation,
          ee_timestamp = te_now v (sx_calls s), ee_authentication = auth, ee_metadata = metadata\<rparr>]\<rparr>)"

definition topo_send :: "Topology \<Rightarrow> unit topo" where
  "topo_send t = effect_step (\<lambda>s. s\<lparr>ts_sent := ts_sent s @ [t]\<rparr>)"

subsection \<open>Rows\<close>

definition topology_get_by_id :: "'g topo_env \<Rightarrow> uuid \<Rightarrow> Topology option topo" where
  "topology_get_by_id v i = query_step (te_fault v) (\<lambda>s. find (\<lambda>t. topology_id t = i) (ts_topologies s))"

definition topology_get_all :: "'g topo_env \<Rightarrow> (Topology \<Rightarrow> bool) \<Rightarrow> Topology list topo" where
  "topology_get_all v P = query_step (te_fault v) (\<lambda>s. sort_key topology_created_at (filter P (ts_topologies s)))"

definition Topology_display :: "(uuid \<Rightarrow> string) \<Rightarrow> Topology \<Rightarrow> string" where
  "Topology_display sh t = ''Topology { id: '' @ sh (topology_id t) @ '', name: '' @ tp_name (topology_base t) @ '' }''"

definition storage_update_topology :: "'g topo_env \<Rightarrow> Topology \<Rightarrow> Topology topo" where
  "storage_update_topology v t =
     bind_step (now_step v) (\<lambda>n.
       let t' = t\<lparr>topology_updated_at := n\<rparr>
       in statement (te_fault v) (\<lambda>s.
            (s\<lparr>ts_topologies := map (\<lambda>r. if topology_id r = topology_id t then t' else r) (ts_topologies s)\<rparr>, Ok t')))"

text \<open>The default \<open>update\<close>, \<open>delete\<close> and \<open>delete_many\<close> of \<open>CrudService\<close>.\<close>

definition topology_update :: "'g topo_env \<Rightarrow> Topology \<Rightarrow> AuthenticatedEntity \<Rightarrow> Topology topo" where
  "topology_update v t auth =
     bind_step (topology_get_by_id v (topology_id t)) (\<lambda>found.
     bind_step (require_step (OtherError (''Could not find '' @ Topology_display (te_show_uuid v) t)) found) (\<lambda>current.
     bind_step (storage_update_topology v t) (\<lambda>updated.
     bind_step (topo_publish v EntityOperation_Updated updated
         [(''trigger_stale'', JsonBool (Topology_triggers_staleness updated (Some current))), (''suppress_logs'', JsonBool False)] auth) (\<lambda>_.
       return_step updated))))"

definition deleted_metadata :: "Topology \<Rightarrow> metadata" where
  "deleted_metadata t =
     [(''trigger_stale'', JsonBool (Topology_triggers_staleness t None)), (''suppress_logs'', JsonBool False)]"

definition topology_delete :: "'g topo_env \<Rightarrow> uuid \<Rightarrow> AuthenticatedEntity \<Rightarrow> unit topo" where
  "topology_delete v i auth =
     bind_step (topology_get_by_id v i) (\<lambda>found.
     bind_step (require_step (OtherError (''topologies with id '' @ te_show_uuid v i @ '' not found'')) found) (\<lambda>t.
     bind_step (statement (te_fault v) (\<lambda>s. (s\<lparr>ts_topologies := filter (\<lambda>r. topology_id r \<noteq> i) (ts_topologies s)\<rparr>, Ok ()))) (\<lambda>_.
       topo_publish v EntityOperation_Deleted t (deleted_metadata t) auth)))"

definition announce_deleted :: "'g topo_env \<Rightarrow> AuthenticatedEntity \<Rightarrow> uuid \<Rightarrow> unit topo" where
  "announce_deleted v auth i =
     bind_step (topology_get_by_id v i) (\<lambda>found.
       case found of
         Some t \<Rightarrow> topo_publish v EntityOperation_Deleted t (deleted_metadata t) auth
       | None \<Rightarrow> return_step ())"

definition topology_delete_many :: "'g topo_env \<Rightarrow> uuid list \<Rightarrow> AuthenticatedEntity \<Rightarrow> nat topo" where
  "topology_delete_many v ids auth =
     (if ids = [] then return_step 0
      else bind_step (for_steps (announce_deleted v auth) ids) (\<lambda>_.
        statement (te_fault v) (\<lambda>s.
          (s\<lparr>ts_topologies := filter (\<lambda>r. topology_id r \<notin> set ids) (ts_topologies s)\<rparr>,
           Ok (length (filter (\<lambda>r. topology_id r \<in> set ids) (ts_topologies s)))))))"

subsection \<open>Entities of a network\<close>

record entity_data =
  nd_hosts :: "Host list"
  nd_interfaces :: "Interface list"
  nd_subnets :: "Subnet list"
  nd_groups :: "Group list"
  nd_ports :: "Port list"
  nd_bindings :: "Binding list"

definition get_entity_data :: "'g topo_env \<Rightarrow> uuid \<Rightarrow> entity_data topo" where
  "get_entity_data v n =
     bind_step (store_step v (storage_get_all host_table (\<lambda>h. hb_network_id (host_base h) = n \<and> \<not> hb_hidden (host_base h)))) (\<lambda>hosts.
     bind_step (store_step v (storage_get_all interface_table (\<lambda>i. ib_network_id (interface_base i) = n))) (\<lambda>interfaces.
     bind_step (query_step (te_fault v) (\<lambda>s. sort_key subnet_created_at (filter (\<lambda>x. sb_network_id (subnet_base x) = n) (ts_subnets s)))) (\<lambda>subnets.
     bind_step (store_step v (group_get_all (\<lambda>g. gr_network_id (group_base g) = n))) (\<lambda>groups.
     bind_step (store_step v (storage_get_all port_table (\<lambda>p. pb_network_id (port_base p) = n))) (\<lambda>ports.
     bind_step (store_step v (storage_get_all binding_table (\<lambda>b. bb_network_id (binding_base b) = n))) (\<lambda>bindings.
       return_step \<lparr>nd_hosts = hosts, nd_interfaces = interfaces, nd_subnets = subnets, nd_groups = groups,
                     nd_ports = ports, nd_bindings = bindings\<rparr>))))))"

definition visible_services :: "TopologyOptions \<Rightarrow> Service list \<Rightarrow> Service list" where
  "visible_services options =
     filter (\<lambda>x. sd_category (svb_service_definition (service_base x)) \<notin> set (ro_hide_service_categories (to_request options)))"

definition get_service_data :: "'g topo_env \<Rightarrow> uuid \<Rightarrow> TopologyOptions \<Rightarrow> Service list topo" where
  "get_service_data v n options =
     bind_step (store_step v (service_get_all (\<lambda>x. svb_network_id (service_base x) = n))) (\<lambda>services.
       return_step (visible_services options services))"

definition context_of :: "entity_data \<Rightarrow> Service list \<Rightarrow> TopologyOptions \<Rightarrow> TopologyContext" where
  "context_of d services options =
     \<lparr>cx_hosts = nd_hosts d, cx_interfaces = nd_interfaces d, cx_subnets = nd_subnets d, cx_services = services,
      cx_groups = nd_groups d, cx_ports = nd_ports d, cx_bindings = nd_bindings d, cx_options = options\<rparr>"

definition entities_of :: "entity_data \<Rightarrow> Service list \<Rightarrow> SetEntitiesParams" where
  "entities_of d services =
     \<lparr>se_hosts = nd_hosts d, se_services = services, se_subnets = nd_subnets d, se_groups = nd_groups d,
      se_ports = nd_ports d, se_bindings = nd_bindings d, se_interfaces = nd_interfaces d\<rparr>"

subsection \<open>Creating a topology\<close>

text \<open>\<open>TopologyService::create\<close>: the ports and bindings of the network are used for the map and not stored
  with it.\<close>

definition store_new_topology :: "'g topo_env \<Rightarrow> Topology \<Rightarrow> Topology topo" where
  "store_new_topology v t =
     statement (te_fault v) (\<lambda>s.
       if topology_id t \<in> topology_id ` set (ts_topologies s)
       then (s, Err (ValidationError (friendly_unique_violation_message (Some ''topologies_pkey''))))
       else (s\<lparr>ts_topologies := ts_topologies s @ [t]\<rparr>, Ok t))"

definition renew_topology :: "'g topo_env \<Rightarrow> Topology \<Rightarrow> Topology topo" where
  "renew_topology v entity s =
     (if topology_id entity = uuid_nil
      then (s, Ok \<lparr>topology_id = te_fresh v (sx_calls s), topology_created_at = te_now v (sx_calls s),
                    topology_updated_at = te_now v (sx_calls s), topology_base = topology_base entity\<rparr>)
      else (s, Ok entity))"

definition topology_create :: "'g topo_env \<Rightarrow> Topology \<Rightarrow> AuthenticatedEntity \<Rightarrow> Topology topo" where
  "topology_create v entity auth =
     bind_step (renew_topology v entity) (\<lambda>t.
     bind_step (get_entity_data v (tp_net t)) (\<lambda>d.
     bind_step (get_service_data v (tp_net t) (tp_options (topology_base t))) (\<lambda>services.
       let (nodes, edges) = build_graph (te_build v) (context_of d services (tp_options (topology_base t))) [] []
       in bind_step (now_step v) (\<lambda>n.
          let t1 = Topology_clear_stale n (on_base (\<lambda>b. b\<lparr>tp_edges := edges, tp_nodes := nodes, tp_hosts := nd_hosts d,
                     tp_interfaces := nd_interfaces d, tp_services := services, tp_subnets := nd_subnets d,
                     tp_groups := nd_groups d\<rparr>) t)
          in bind_step (store_new_topology v t1) (\<lambda>created.
             bind_step (topo_publish v EntityOperation_Created created [(''clear_stale'', JsonBool True)] auth) (\<lambda>_.
               return_step created))))))"

subsection \<open>Handlers\<close>

definition Topology_preserve_immutable_fields :: "Topology \<Rightarrow> Topology \<Rightarrow> Topology" where
  "Topology_preserve_immutable_fields existing t =
     t\<lparr>topology_id := topology_id existing, topology_base := (topology_base t)\<lparr>tp_parent_id := tp_parent_id (topology_base existing)\<rparr>,
       topology_created_at := topology_created_at existing, topology_updated_at := topology_updated_at existing\<rparr>"

definition Topology_validate :: "Topology \<Rightarrow> (unit, string) result" where
  "Topology_validate t = Ok ()"

definition topology_ops :: "Topology entity_ops" where
  "topology_ops =
     \<lparr>eo_table_name = ''topologies'', eo_entity_name = ''topologies'', eo_network_keyed = True,
      eo_id = topology_id, eo_set_id = (\<lambda>i t. t\<lparr>topology_id := i\<rparr>),
      eo_created_at = topology_created_at, eo_set_created_at = (\<lambda>c t. t\<lparr>topology_created_at := c\<rparr>),
      eo_preserve_immutable_fields = Topology_preserve_immutable_fields, eo_set_source_manual = (\<lambda>t. t),
      eo_validate = Topology_validate, eo_network_id = (\<lambda>t. Some (tp_net t)), eo_organization_id = (\<lambda>_. None),
      eo_get_tags = (\<lambda>t. Some (tp_tags (topology_base t))),
      eo_set_tags = (\<lambda>ts. on_base (\<lambda>b. b\<lparr>tp_tags := ts\<rparr>))\<rparr>"

definition topology_service :: "'g topo_env \<Rightarrow> (topo_state, Topology) crud_service" where
  "topology_service v =
     \<lparr>cr_get_by_id = topology_get_by_id v, cr_get_all = topology_get_all v, cr_create = topology_create v,
      cr_update = topology_update v, cr_delete = topology_delete v, cr_delete_many = topology_delete_many v\<rparr>"

definition get_all_topologies :: "'g topo_env \<Rightarrow> AuthenticatedEntity \<Rightarrow> (topo_state, Topology list) handler" where
  "get_all_topologies v auth = call_internal (topology_get_all v (\<lambda>t. tp_net t \<in> set (auth_network_ids auth)))"

definition network_guard :: "AuthenticatedEntity \<Rightarrow> string \<Rightarrow> Topology \<Rightarrow> (topo_state, unit) handler" where
  "network_guard auth what t =
     guard_handler (if tp_net t \<in> set (auth_network_ids auth) then Ok ()
       else Err (ApiError_forbidden (''You don'' @ [CHR 0x27] @ ''t have access to '' @ what)))"

definition load_entities :: "'g topo_env \<Rightarrow> Topology \<Rightarrow> (topo_state, entity_data \<times> Service list) handler" where
  "load_entities v t =
     bind_handler (call_service (get_entity_data v (tp_net t))) (\<lambda>d.
     bind_handler (call_service (get_service_data v (tp_net t) (tp_options (topology_base t)))) (\<lambda>services.
       guard_handler (Ok (d, services))))"

definition create_topology :: "'g topo_env \<Rightarrow> AuthenticatedEntity \<Rightarrow> Topology \<Rightarrow> (topo_state, Topology) handler" where
  "create_topology v auth t =
     bind_handler (network_guard auth ''this network'' t) (\<lambda>_.
     bind_handler (guard_handler (validate_entity (Topology_validate t) (eo_entity_name topology_ops))) (\<lambda>_.
     bind_handler (load_entities v t) (\<lambda>(d, services).
       let (nodes, edges) = build_graph (te_build v) (context_of d services (tp_options (topology_base t))) [] []
       in bind_handler (call_service (now_step v)) (\<lambda>n.
            call_internal (topology_create v
              (Topology_clear_stale n (Topology_set_graph nodes edges (Topology_set_entities (entities_of d services) t))) auth)))))"

definition topology_refresh :: "'g topo_env \<Rightarrow> AuthenticatedEntity \<Rightarrow> Topology \<Rightarrow> (topo_state, unit) handler" where
  "topology_refresh v auth t =
     bind_handler (network_guard auth (''this topology'' @ [CHR 0x27] @ ''s network'') t) (\<lambda>_.
     bind_handler (load_entities v t) (\<lambda>(d, services).
     bind_handler (call_service (topology_update v (Topology_set_entities (entities_of d services) t) auth)) (\<lambda>_.
       guard_handler (Ok ()))))"

definition first_rebuild :: "'g topo_env \<Rightarrow> AuthenticatedEntity \<Rightarrow> (topo_state, unit) handler" where
  "first_rebuild v auth =
     (case auth_organization_id auth of
        None \<Rightarrow> guard_handler (Ok ())
      | Some org \<Rightarrow>
          bind_handler (call_service (query_step (te_fault v) (\<lambda>s. find (\<lambda>x. organization_id x = org) (ts_organizations s)))) (\<lambda>found.
            case found of
              Some x \<Rightarrow>
                if not_onboarded x TelemetryOperation_FirstTopologyRebuild
                then call_service (effect_step (\<lambda>s. s\<lparr>ts_events := ts_events s @
                       [Event_Telemetry \<lparr>tle_id = te_fresh v (sx_calls s), tle_organization_id = org,
                          tle_operation = TelemetryOperation_FirstTopologyRebuild, tle_timestamp = te_now v (sx_calls s),
                          tle_authentication = auth, tle_metadata = [(''is_onboarding_step'', JsonBool True)]\<rparr>]\<rparr>))
                else guard_handler (Ok ())
            | None \<Rightarrow> guard_handler (Ok ())))"

definition topology_rebuild :: "'g topo_env \<Rightarrow> AuthenticatedEntity \<Rightarrow> Topology \<Rightarrow> (topo_state, unit) handler" where
  "topology_rebuild v auth t =
     bind_handler (network_guard auth (''this topology'' @ [CHR 0x27] @ ''s network'') t) (\<lambda>_.
     bind_handler (load_entities v t) (\<lambda>(d, services).
       let (nodes, edges) = build_graph (te_build v) (context_of d services (tp_options (topology_base t)))
                              (tp_nodes (topology_base t)) (tp_edges (topology_base t))
       in bind_handler (call_service (now_step v)) (\<lambda>n.
          bind_handler (call_service (topology_update v
              (Topology_clear_stale n (Topology_set_graph nodes edges (Topology_set_entities (entities_of d services) t))) auth)) (\<lambda>_.
            first_rebuild v auth))))"

definition stored_topology :: "'g topo_env \<Rightarrow> AuthenticatedEntity \<Rightarrow> uuid \<Rightarrow> (topo_state, Topology) handler" where
  "stored_topology v auth i =
     bind_handler (call_service (topology_get_by_id v i)) (\<lambda>found.
       case found of
         Some t \<Rightarrow> bind_handler (network_guard auth ''this topology'' t) (\<lambda>_. guard_handler (Ok t))
       | None \<Rightarrow> guard_handler (Err (ApiError_not_found (''Could not find topology '' @ te_show_uuid v i))))"

definition topology_lock_handler :: "'g topo_env \<Rightarrow> AuthenticatedEntity \<Rightarrow> uuid \<Rightarrow> (topo_state, Topology) handler" where
  "topology_lock_handler v auth i =
     bind_handler (guard_handler (case auth_user_id auth of Some u \<Rightarrow> Ok u | None \<Rightarrow> Err (ApiError_forbidden ''User context required''))) (\<lambda>u.
     bind_handler (stored_topology v auth i) (\<lambda>t.
     bind_handler (call_service (now_step v)) (\<lambda>n.
       call_service (topology_update v (Topology_lock n u t) auth))))"

definition topology_unlock_handler :: "'g topo_env \<Rightarrow> AuthenticatedEntity \<Rightarrow> uuid \<Rightarrow> (topo_state, Topology) handler" where
  "topology_unlock_handler v auth i =
     bind_handler (stored_topology v auth i) (\<lambda>t. call_service (topology_update v (Topology_unlock t) auth))"

text \<open>What a user who is connected to the stream gets of the channel.\<close>

definition staleness_stream :: "AuthenticatedEntity \<Rightarrow> Topology list \<Rightarrow> Topology list" where
  "staleness_stream auth sent = filter (\<lambda>t. tp_net t \<in> set (auth_network_ids auth)) sent"

subsection \<open>Following the entities\<close>

record TopologyChanges =
  tc_updated_hosts :: bool
  tc_updated_interfaces :: bool
  tc_updated_services :: bool
  tc_updated_subnets :: bool
  tc_updated_groups :: bool
  tc_updated_ports :: bool
  tc_updated_bindings :: bool
  tc_removed_hosts :: "uuid list"
  tc_removed_interfaces :: "uuid list"
  tc_removed_services :: "uuid list"
  tc_removed_subnets :: "uuid list"
  tc_removed_groups :: "uuid list"
  tc_removed_ports :: "uuid list"
  tc_removed_bindings :: "uuid list"
  tc_should_mark_stale :: bool
  tc_clear_stale :: bool

definition TopologyChanges_default :: TopologyChanges where
  "TopologyChanges_default =
     \<lparr>tc_updated_hosts = False, tc_updated_interfaces = False, tc_updated_services = False,
      tc_updated_subnets = False, tc_updated_groups = False, tc_updated_ports = False,
      tc_updated_bindings = False, tc_removed_hosts = [], tc_removed_interfaces = [], tc_removed_services = [],
      tc_removed_subnets = [], tc_removed_groups = [], tc_removed_ports = [], tc_removed_bindings = [],
      tc_should_mark_stale = False, tc_clear_stale = False\<rparr>"

text \<open>\<open>HashSet::insert\<close>, and pushing an identifier that is not there yet.\<close>

definition push_new :: "uuid list \<Rightarrow> uuid \<Rightarrow> uuid list" where
  "push_new xs i = (if i \<in> set xs then xs else xs @ [i])"

definition track_removed :: "EntityEvent \<Rightarrow> TopologyChanges \<Rightarrow> TopologyChanges" where
  "track_removed e c =
     (let i = ee_entity_id e in
      if ee_operation e \<noteq> EntityOperation_Deleted then c
      else case EventEntity_discriminant (ee_entity_type e) of
        ED_Host \<Rightarrow> c\<lparr>tc_removed_hosts := push_new (tc_removed_hosts c) i\<rparr>
      | ED_Interface \<Rightarrow> c\<lparr>tc_removed_interfaces := push_new (tc_removed_interfaces c) i\<rparr>
      | ED_Service \<Rightarrow> c\<lparr>tc_removed_services := push_new (tc_removed_services c) i\<rparr>
      | ED_Subnet \<Rightarrow> c\<lparr>tc_removed_subnets := push_new (tc_removed_subnets c) i\<rparr>
      | ED_Group \<Rightarrow> c\<lparr>tc_removed_groups := push_new (tc_removed_groups c) i\<rparr>
      | ED_Port \<Rightarrow> c\<lparr>tc_removed_ports := push_new (tc_removed_ports c) i\<rparr>
      | ED_Binding \<Rightarrow> c\<lparr>tc_removed_bindings := push_new (tc_removed_bindings c) i\<rparr>
      | _ \<Rightarrow> c)"

definition track_updated :: "EntityEvent \<Rightarrow> TopologyChanges \<Rightarrow> TopologyChanges" where
  "track_updated e c =
     (if metadata_flag ''trigger_stale'' (ee_metadata e) then c\<lparr>tc_should_mark_stale := True\<rparr>
      else if metadata_flag ''clear_stale'' (ee_metadata e) then c\<lparr>tc_clear_stale := True\<rparr>
      else case EventEntity_discriminant (ee_entity_type e) of
        ED_Host \<Rightarrow> c\<lparr>tc_updated_hosts := True\<rparr>
      | ED_Interface \<Rightarrow> c\<lparr>tc_updated_interfaces := True\<rparr>
      | ED_Service \<Rightarrow> c\<lparr>tc_updated_services := True\<rparr>
      | ED_Subnet \<Rightarrow> c\<lparr>tc_updated_subnets := True\<rparr>
      | ED_Group \<Rightarrow> c\<lparr>tc_updated_groups := True\<rparr>
      | ED_Port \<Rightarrow> c\<lparr>tc_updated_ports := True\<rparr>
      | ED_Binding \<Rightarrow> c\<lparr>tc_updated_bindings := True\<rparr>
      | _ \<Rightarrow> c)"

text \<open>The map from networks to changes, with the networks in the order of their first event.\<close>

type_synonym changes_map = "(uuid \<times> TopologyChanges) list"

definition changes_for :: "uuid \<Rightarrow> changes_map \<Rightarrow> TopologyChanges" where
  "changes_for n m = (case map_of m n of Some c \<Rightarrow> c | None \<Rightarrow> TopologyChanges_default)"

definition record_event :: "uuid \<Rightarrow> EntityEvent \<Rightarrow> changes_map \<Rightarrow> changes_map" where
  "record_event n e m = AList.update n (track_updated e (track_removed e (changes_for n m))) m"

definition with_stale_if :: "bool \<Rightarrow> Topology \<Rightarrow> Topology" where
  "with_stale_if b t = (if b then on_base (\<lambda>x. x\<lparr>tp_is_stale := True\<rparr>) t else t)"

definition notify_updated :: "'g topo_env \<Rightarrow> uuid \<Rightarrow> bool \<Rightarrow> Topology \<Rightarrow> unit topo" where
  "notify_updated v n trigger_stale t0 =
     (let t = with_stale_if trigger_stale t0 in
      bind_step (get_service_data v n (tp_options (topology_base t))) (\<lambda>services.
        topo_send (on_base (\<lambda>b. b\<lparr>tp_services := services\<rparr>) t)))"

definition collect_event :: "'g topo_env \<Rightarrow> changes_map \<Rightarrow> Event \<Rightarrow> changes_map topo" where
  "collect_event v m event =
     (case event of
        Event_Entity e \<Rightarrow>
          (case ee_network_id e of
             None \<Rightarrow> return_step m
           | Some n \<Rightarrow>
               (case ee_entity_type e of
                  EventEntity_Topology t \<Rightarrow>
                    if ee_operation e = EntityOperation_Updated
                    then bind_step (notify_updated v n (metadata_flag ''trigger_stale'' (ee_metadata e)) t) (\<lambda>_. return_step m)
                    else return_step (record_event n e m)
                | EventEntity_Other _ \<Rightarrow> return_step (record_event n e m)))
      | _ \<Rightarrow> return_step m)"

definition apply_removed :: "TopologyChanges \<Rightarrow> TopologyBase \<Rightarrow> TopologyBase" where
  "apply_removed c b =
     b\<lparr>tp_removed_hosts := foldl push_new (tp_removed_hosts b) (tc_removed_hosts c),
       tp_removed_interfaces := foldl push_new (tp_removed_interfaces b) (tc_removed_interfaces c),
       tp_removed_services := foldl push_new (tp_removed_services b) (tc_removed_services c),
       tp_removed_subnets := foldl push_new (tp_removed_subnets b) (tc_removed_subnets c),
       tp_removed_groups := foldl push_new (tp_removed_groups b) (tc_removed_groups c),
       tp_removed_ports := foldl push_new (tp_removed_ports b) (tc_removed_ports c),
       tp_removed_bindings := foldl push_new (tp_removed_bindings b) (tc_removed_bindings c)\<rparr>"

definition apply_stale :: "TopologyChanges \<Rightarrow> TopologyBase \<Rightarrow> TopologyBase" where
  "apply_stale c b =
     (let b1 = (if tc_should_mark_stale c \<and> \<not> tc_clear_stale c then b\<lparr>tp_is_stale := True\<rparr> else b)
      in if tc_clear_stale c then b1\<lparr>tp_is_stale := False\<rparr> else b1)"

definition apply_updated :: "TopologyChanges \<Rightarrow> entity_data \<Rightarrow> Service list \<Rightarrow> TopologyBase \<Rightarrow> TopologyBase" where
  "apply_updated c d services b =
     b\<lparr>tp_hosts := (if tc_updated_hosts c then nd_hosts d else tp_hosts b),
       tp_interfaces := (if tc_updated_interfaces c then nd_interfaces d else tp_interfaces b),
       tp_services := (if tc_updated_services c then services else tp_services b),
       tp_subnets := (if tc_updated_subnets c then nd_subnets d else tp_subnets b),
       tp_groups := (if tc_updated_groups c then nd_groups d else tp_groups b),
       tp_ports := (if tc_updated_ports c then nd_ports d else tp_ports b),
       tp_bindings := (if tc_updated_bindings c then nd_bindings d else tp_bindings b)\<rparr>"

definition apply_changes :: "TopologyChanges \<Rightarrow> entity_data \<Rightarrow> Service list \<Rightarrow> Topology \<Rightarrow> Topology" where
  "apply_changes c d services = on_base (\<lambda>b. apply_updated c d services (apply_stale c (apply_removed c b)))"

definition update_one :: "'g topo_env \<Rightarrow> uuid \<Rightarrow> TopologyChanges \<Rightarrow> entity_data \<Rightarrow> Topology \<Rightarrow> unit topo" where
  "update_one v n c d t =
     bind_step (get_service_data v n (tp_options (topology_base t))) (\<lambda>services.
     bind_step (topology_update v (apply_changes c d services t) AuthenticatedEntity_System) (\<lambda>updated.
       topo_send updated))"

definition update_network :: "'g topo_env \<Rightarrow> uuid \<times> TopologyChanges \<Rightarrow> unit topo" where
  "update_network v nc =
     (case nc of (n, c) \<Rightarrow>
       bind_step (topology_get_all v (\<lambda>t. tp_net t = n)) (\<lambda>topologies.
       bind_step (get_entity_data v n) (\<lambda>d.
         for_steps (update_one v n c d) topologies)))"

definition topology_handle_events :: "'g topo_env \<Rightarrow> Event list \<Rightarrow> unit topo" where
  "topology_handle_events v events =
     (if events = [] then return_step ()
      else bind_step (fold_steps (collect_event v) [] events) (\<lambda>m. for_steps (update_network v) m))"

definition topology_subscriber :: "'g topo_env \<Rightarrow> topo_state subscriber" where
  "topology_subscriber v =
     \<lparr>evs_name = ''topology_stale'',
      evs_event_filter = EventFilter_entity_only
        [(ED_Host, None), (ED_Interface, None), (ED_Service, None), (ED_Subnet, None), (ED_Group, None),
         (ED_Port, None), (ED_Binding, None),
         (ED_Topology, Some [EntityOperation_Created, EntityOperation_Updated])],
      evs_debounce_window_ms = 200, evs_handle_events = topology_handle_events v\<rparr>"

end
