(* ===== verification/Topology_Sync.thy ===== *)
theory Topology_Sync
  imports Topology_Service Binding_Safety
begin

section \<open>Stored topologies stay apart and follow the entities\<close>

text \<open>
  What the service of topologies guarantees. The contract \<open>row_service\<close> of theory Crud_Handlers holds for it,
  so the generic handlers stay within the reach of the sender; the handlers that take a whole topology in the
  request do not. The subscriber refines a function on the stored topologies, and handling a batch a
  second time, as the event bus does, changes no stored topology.
\<close>

subsection \<open>The contract of the handlers\<close>

lemmas step_defs = bind_step_def return_step_def fail_step_def effect_step_def query_step_def statement_def
  require_step_def now_step_def Let_def

lemma query_step_rows:
  "query_step f g s = (s1, r) \<Longrightarrow> s1 = s\<lparr>sx_calls := Suc (sx_calls s)\<rparr> \<and> (\<forall>x. r = Inr x \<longrightarrow> x = g (s\<lparr>sx_calls := Suc (sx_calls s)\<rparr>))"
  by (auto simp: query_step_def statement_def Let_def split: option.splits)

lemma topo_publish_rows [simp]: "ts_topologies (fst (topo_publish v op t m auth s)) = ts_topologies s"
  "snd (topo_publish v op t m auth s) = Ok ()"
  by (simp_all add: topo_publish_def effect_step_def)

lemma storage_update_topology_cases:
  assumes "storage_update_topology v t s = (s1, r)"
  shows "(\<exists>e. r = Inl e \<and> ts_topologies s1 = ts_topologies s) \<or>
    (\<exists>n. r = Inr (t\<lparr>topology_updated_at := n\<rparr>) \<and>
       ts_topologies s1 = map (\<lambda>x. if topology_id x = topology_id t then t\<lparr>topology_updated_at := n\<rparr> else x) (ts_topologies s))"
  using assms by (auto simp: storage_update_topology_def step_defs split: option.splits)

lemma found_row: "Some x = find P xs \<Longrightarrow> x \<in> set xs \<and> P x"
  by (auto simp: find_Some_iff2)

definition updated_metadata :: "Topology \<Rightarrow> Topology \<Rightarrow> metadata" where
  "updated_metadata updated current =
     [(''trigger_stale'', JsonBool (Topology_triggers_staleness updated (Some current))), (''suppress_logs'', JsonBool False)]"

text \<open>An update fails and changes no row, or replaces the row with its identifier.\<close>

lemma topology_update_cases:
  assumes "topology_update v t auth s = (s1, r)"
  shows "(\<exists>e. r = Inl e \<and> ts_topologies s1 = ts_topologies s) \<or>
    (\<exists>n. r = Inr (t\<lparr>topology_updated_at := n\<rparr>) \<and> topology_id t \<in> topology_id ` set (ts_topologies s) \<and>
       ts_topologies s1 = map (\<lambda>x. if topology_id x = topology_id t then t\<lparr>topology_updated_at := n\<rparr> else x) (ts_topologies s))"
proof -
  obtain s0 r0 where g: "topology_get_by_id v (topology_id t) s = (s0, r0)" by (cases "topology_get_by_id v (topology_id t) s")
  have s0: "ts_topologies s0 = ts_topologies s" "\<forall>x. r0 = Inr x \<longrightarrow> x = find (\<lambda>y. topology_id y = topology_id t) (ts_topologies s)"
    using query_step_rows [OF g [unfolded topology_get_by_id_def]] by auto
  show ?thesis
  proof (cases r0)
    case (Inl e)
    then show ?thesis using assms g s0 by (auto simp: topology_update_def bind_step_def)
  next
    case (Inr found)
    show ?thesis
    proof (cases found)
      case None
      then show ?thesis using assms g s0 Inr by (auto simp: topology_update_def bind_step_def require_step_def fail_step_def)
    next
      case (Some current)
      obtain s2 r2 where u: "storage_update_topology v t s0 = (s2, r2)" by (cases "storage_update_topology v t s0")
      have "topology_id t \<in> topology_id ` set (ts_topologies s)"
        using s0 Inr Some found_row [of current "\<lambda>y. topology_id y = topology_id t"] by (metis image_eqI)
      moreover have "topology_update v t auth s = (case r2 of Inl e \<Rightarrow> (s2, Inl e)
          | Inr x \<Rightarrow> (fst (topo_publish v EntityOperation_Updated x (updated_metadata x current) auth s2), Inr x))"
        by (cases r2) (simp_all add: topology_update_def bind_step_def g Inr Some u require_step_def return_step_def
            topo_publish_def effect_step_def updated_metadata_def)
      then have "r = r2 \<and> ts_topologies s1 = ts_topologies s2"
        unfolding assms by (cases r2) simp_all
      moreover note storage_update_topology_cases [OF u] s0(1)
      ultimately show ?thesis by simp
    qed
  qed
qed

lemma filter_map_same:
  "(\<And>x. x \<in> set xs \<Longrightarrow> P x \<Longrightarrow> f x = x) \<Longrightarrow> (\<And>x. x \<in> set xs \<Longrightarrow> P (f x) = P x) \<Longrightarrow> filter P (map f xs) = filter P xs"
  by (induction xs) auto

lemma topology_update_others:
  assumes "topology_update v t auth s = (s1, r)"
  shows "filter (\<lambda>y. topology_id y \<noteq> topology_id t) (ts_topologies s1) = filter (\<lambda>y. topology_id y \<noteq> topology_id t) (ts_topologies s)"
  using topology_update_cases [OF assms]
proof (elim disjE exE conjE)
  fix n assume "ts_topologies s1 = map (\<lambda>x. if topology_id x = topology_id t then t\<lparr>topology_updated_at := n\<rparr> else x) (ts_topologies s)"
  then show ?thesis by (simp only:) (rule filter_map_same; auto)
qed simp

lemma topology_delete_others:
  assumes "topology_delete v i auth s = (s1, r)"
  shows "filter (\<lambda>y. topology_id y \<noteq> i) (ts_topologies s1) = filter (\<lambda>y. topology_id y \<noteq> i) (ts_topologies s)"
  using assms
  by (auto simp: topology_delete_def topology_get_by_id_def topo_publish_def step_defs split: option.splits)

definition topo_rows :: "Topology list \<Rightarrow> topo_state \<Rightarrow> bool" where
  "topo_rows ts s \<longleftrightarrow> ts_topologies s = ts"

lemma topo_rows_calls [simp]: "topo_rows ts (s\<lparr>sx_calls := n\<rparr>) \<longleftrightarrow> topo_rows ts s"
  by (simp add: topo_rows_def)

lemma topo_rows_query: "step_triple (topo_rows ts) (query_step f g) (\<lambda>_. topo_rows ts) (topo_rows ts)"
  by (rule step_query) simp_all

lemma topo_rows_publish: "step_triple (topo_rows ts) (topo_publish v op t m auth) (\<lambda>_. topo_rows ts) (topo_rows ts)"
  unfolding topo_publish_def by (rule step_effect) (simp add: topo_rows_def)

lemma announce_deleted_rows: "step_triple (topo_rows ts) (announce_deleted v auth i) (\<lambda>_. topo_rows ts) (topo_rows ts)"
  unfolding announce_deleted_def topology_get_by_id_def
  by (rule step_bind [OF topo_rows_query]) (auto split: option.split intro: topo_rows_publish step_return)

lemma topology_delete_many_others:
  assumes "topology_delete_many v ids auth s = (s1, r)"
  shows "filter (\<lambda>y. topology_id y \<notin> set ids) (ts_topologies s1) = filter (\<lambda>y. topology_id y \<notin> set ids) (ts_topologies s)"
proof -
  let ?ts = "ts_topologies s" and ?keep = "\<lambda>t. topology_id t \<notin> set ids"
  let ?Q = "\<lambda>s'. filter ?keep (ts_topologies s') = filter ?keep ?ts"
  have del: "step_triple (topo_rows ?ts) (statement (te_fault v) (\<lambda>s.
      (s\<lparr>ts_topologies := filter (\<lambda>r. topology_id r \<notin> set ids) (ts_topologies s)\<rparr>,
       Ok (length (filter (\<lambda>r. topology_id r \<in> set ids) (ts_topologies s)))))) (\<lambda>_. ?Q) ?Q"
    by (rule step_statement) (auto simp: step_triple_def topo_rows_def)
  have "step_triple (topo_rows ?ts) (for_steps (announce_deleted v auth) ids) (\<lambda>_. topo_rows ?ts) ?Q"
    by (rule step_for [where I = "\<lambda>_. topo_rows ?ts"], rule step_weaken [OF announce_deleted_rows]) (auto simp: topo_rows_def)
  from step_bind [OF this del] have "step_triple (topo_rows ?ts) (topology_delete_many v ids auth) (\<lambda>_. ?Q) ?Q"
    unfolding topology_delete_many_def by (auto intro: step_return simp: topo_rows_def)
  from step_apply [OF this _ assms] show ?thesis by (auto simp: topo_rows_def)
qed

lemma topology_get_by_id_rows:
  assumes "topology_get_by_id v i s = (s1, r)"
  shows "ts_topologies s1 = ts_topologies s \<and> (\<forall>x. r = Inr (Some x) \<longrightarrow> x \<in> set (ts_topologies s) \<and> topology_id x = i)"
  using query_step_rows [OF assms [unfolded topology_get_by_id_def]] found_row by fastforce

lemma topology_get_all_rows:
  assumes "topology_get_all v P s = (s1, r)"
  shows "ts_topologies s1 = ts_topologies s \<and> (\<forall>xs. r = Inr xs \<longrightarrow> set xs = {x \<in> set (ts_topologies s). P x})"
  using query_step_rows [OF assms [unfolded topology_get_all_def]] by (cases r) auto

interpretation topology_rows: row_service topology_ops "topology_service v" ts_topologies for v :: "'g topo_env"
proof unfold_locales
  show "cr_get_by_id (topology_service v) i s = (s1, r) \<Longrightarrow>
      ts_topologies s1 = ts_topologies s \<and> (\<forall>x. r = Inr (Some x) \<longrightarrow> x \<in> set (ts_topologies s) \<and> eo_id topology_ops x = i)" for i s s1 r
    unfolding topology_service_def topology_ops_def crud_service.simps entity_ops.simps by (rule topology_get_by_id_rows)
  show "cr_get_all (topology_service v) P s = (s1, ra) \<Longrightarrow>
      ts_topologies s1 = ts_topologies s \<and> (\<forall>xs. ra = Inr xs \<longrightarrow> set xs = {x \<in> set (ts_topologies s). P x})" for P s s1 ra
    unfolding topology_service_def crud_service.simps by (rule topology_get_all_rows)
  show "cr_update (topology_service v) x auth s = (s1, ru) \<Longrightarrow>
      filter (\<lambda>y. eo_id topology_ops y \<noteq> eo_id topology_ops x) (ts_topologies s1) =
      filter (\<lambda>y. eo_id topology_ops y \<noteq> eo_id topology_ops x) (ts_topologies s)" for x auth s s1 ru
    unfolding topology_service_def topology_ops_def crud_service.simps entity_ops.simps by (rule topology_update_others)
  show "cr_delete (topology_service v) i auth s = (s1, rd) \<Longrightarrow>
      filter (\<lambda>y. eo_id topology_ops y \<noteq> i) (ts_topologies s1) = filter (\<lambda>y. eo_id topology_ops y \<noteq> i) (ts_topologies s)" for i auth s s1 rd
    unfolding topology_service_def topology_ops_def crud_service.simps entity_ops.simps by (rule topology_delete_others)
  show "cr_delete_many (topology_service v) ids auth s = (s1, rm) \<Longrightarrow>
      filter (\<lambda>y. eo_id topology_ops y \<notin> set ids) (ts_topologies s1) = filter (\<lambda>y. eo_id topology_ops y \<notin> set ids) (ts_topologies s)" for ids auth s s1 rm
    unfolding topology_service_def topology_ops_def crud_service.simps entity_ops.simps by (rule topology_delete_many_others)
  show "eo_id topology_ops (immutable_from topology_ops existing x) = eo_id topology_ops existing" for existing x
    by (simp add: topology_ops_def immutable_from_def Topology_preserve_immutable_fields_def)
  show "eo_id topology_ops (eo_set_tags topology_ops ts x) = eo_id topology_ops x" for ts x
    by (simp add: topology_ops_def)
qed

subsection \<open>Staying within reach\<close>


subsection \<open>Reading without failures\<close>

definition fault_free :: "'g topo_env \<Rightarrow> bool" where
  "fault_free v \<longleftrightarrow> (\<forall>n. te_fault v n = None) \<and> (\<forall>n. io_fault (te_io v) n = None)"

text \<open>An operation of the store that only reads the rows.\<close>

definition reads :: "'a action \<Rightarrow> (db \<Rightarrow> 'a) \<Rightarrow> bool" where
  "reads a f \<longleftrightarrow> (\<forall>io w. (\<forall>n. io_fault io n = None) \<longrightarrow> (\<exists>k. a io w = (w\<lparr>w_calls := k\<rparr>, Ok (f (w_db w)))))"

lemma reads_query: "reads (query f) f"
  unfolding reads_def query_def call_def Let_def by (intro allI impI exI) simp

lemma reads_ret: "reads (ret x) (\<lambda>_. x)"
  unfolding reads_def ret_def
proof (intro allI impI)
  show "\<exists>k. (w, Inr x) = (w\<lparr>w_calls := k\<rparr>, Inr x)" for w :: world by (rule exI [of _ "w_calls w"]) simp
qed

lemma reads_bind:
  assumes "reads a f" and "\<And>x. reads (g x) (h x)"
  shows "reads (and_then_do a g) (\<lambda>d. h (f d) d)"
  unfolding reads_def
proof (intro allI impI)
  fix io :: io and w :: world assume io: "\<forall>n. io_fault io n = None"
  obtain k where "a io w = (w\<lparr>w_calls := k\<rparr>, Inr (f (w_db w)))" using assms(1) io unfolding reads_def by blast
  moreover obtain k' where "g (f (w_db w)) io (w\<lparr>w_calls := k\<rparr>) = (w\<lparr>w_calls := k, w_calls := k'\<rparr>, Inr (h (f (w_db w)) (w_db (w\<lparr>w_calls := k\<rparr>))))"
    using assms(2) io unfolding reads_def by blast
  ultimately show "\<exists>k. and_then_do a g io w = (w\<lparr>w_calls := k\<rparr>, Inr (h (f (w_db w)) (w_db w)))"
    by (intro exI [of _ k']) (simp add: and_then_do_def)
qed

lemma reads_get_all: "reads (storage_get_all T P) (\<lambda>d. sort_key (tb_created_at T) (filter P (tb_rows T d)))"
  unfolding storage_get_all_def storage_get_all_ordered_def by (rule reads_query)

definition read_groups :: "(Group \<Rightarrow> bool) \<Rightarrow> db \<Rightarrow> Group list" where
  "read_groups P d =
     map (\<lambda>g. case sort_key gb_position (filter (\<lambda>r. gb_group_id r = group_id g) (db_group_bindings d)) of
                [] \<Rightarrow> g | rs \<Rightarrow> with_binding_ids g (map gb_binding_id rs))
       (sort_key group_created_at (filter P (db_groups d)))"

definition read_services :: "(Service \<Rightarrow> bool) \<Rightarrow> db \<Rightarrow> Service list" where
  "read_services P d =
     map (\<lambda>x. case sort_key binding_created_at (filter (\<lambda>b. binding_service_id b = service_id x) (db_bindings d)) of
                [] \<Rightarrow> x | bs \<Rightarrow> with_bindings x bs)
       (sort_key service_created_at (filter P (db_services d)))"

lemma reads_weaken: "reads a f \<Longrightarrow> (\<And>d. f d = g d) \<Longrightarrow> reads a g"
  by (simp add: reads_def)

lemma reads_group_get_all: "reads (group_get_all P) (read_groups P)"
proof -
  let ?rows = "\<lambda>d. sort_key group_created_at (filter P (db_groups d))"
  let ?gb = "\<lambda>d i. sort_key gb_position (filter (\<lambda>g. gb_group_id g = i) (db_group_bindings d))"
  let ?join = "\<lambda>gs d. map (\<lambda>g. case ?gb d (group_id g) of [] \<Rightarrow> g | rs \<Rightarrow> with_binding_ids g (map gb_binding_id rs)) gs"
  have join: "reads (if gs = [] then ret [] else and_then_do (get_for_groups (map group_id gs)) (\<lambda>bindings_map.
      ret (map (\<lambda>g. case bindings_map (group_id g) of Some ids \<Rightarrow> with_binding_ids g ids | None \<Rightarrow> g) gs))) (?join gs)" for gs
  proof (cases "gs = []")
    case True
    then show ?thesis using reads_ret [of "[]"] by simp
  next
    case False
    have "reads (and_then_do (get_for_groups (map group_id gs)) (\<lambda>bindings_map.
      ret (map (\<lambda>g. case bindings_map (group_id g) of Some ids \<Rightarrow> with_binding_ids g ids | None \<Rightarrow> g) gs))) (?join gs)"
      unfolding get_for_groups_def
      by (rule reads_weaken [OF reads_bind [OF reads_query reads_ret]]) (auto simp: Let_def split: list.split)
    then show ?thesis using False by simp
  qed
  show ?thesis unfolding group_get_all_def
    by (rule reads_weaken [OF reads_bind [OF reads_get_all join]]) (simp add: read_groups_def group_table_def)
qed

lemma reads_service_get_all: "reads (service_get_all P) (read_services P)"
proof -
  let ?bs = "\<lambda>d i. sort_key binding_created_at (filter (\<lambda>b. binding_service_id b = i) (db_bindings d))"
  let ?join = "\<lambda>xs d. map (\<lambda>x. case ?bs d (service_id x) of [] \<Rightarrow> x | bs \<Rightarrow> with_bindings x bs) xs"
  have join: "reads (join_bindings xs) (?join xs)" for xs
  proof (cases "xs = []")
    case True
    then show ?thesis using reads_ret [of "[]"] by (simp add: join_bindings_def)
  next
    case False
    have eq: "filter (\<lambda>r. binding_service_id r = service_id x) (sort_key binding_created_at (filter (\<lambda>r. binding_service_id r \<in> service_id ` set xs) (db_bindings d)))
        = ?bs d (service_id x)" if "x \<in> set xs" for x d
    proof -
      have "filter (\<lambda>r. binding_service_id r \<in> service_id ` set xs \<and> binding_service_id r = service_id x) (db_bindings d) =
          filter (\<lambda>b. binding_service_id b = service_id x) (db_bindings d)"
        using that by (auto intro!: filter_cong)
      then show ?thesis by (simp add: filter_sort)
    qed
    have "reads (and_then_do (get_for_parents binding_table binding_service_id (map service_id xs)) (\<lambda>bindings_map.
         ret (map (\<lambda>s. case bindings_map (service_id s) of Some bs \<Rightarrow> with_bindings s bs | None \<Rightarrow> s) xs))) (?join xs)"
      unfolding get_for_parents_def using False
      by (simp only: map_is_Nil_conv if_False)
        (rule reads_weaken [OF reads_bind [OF reads_bind [OF reads_get_all reads_ret] reads_ret]],
          auto simp: Let_def binding_table_def eq split: list.split)
    then show ?thesis using False by (simp add: join_bindings_def)
  qed
  show ?thesis unfolding service_get_all_def
    by (rule reads_weaken [OF reads_bind [OF reads_get_all join]]) (simp add: read_services_def service_table_def)
qed

subsection \<open>The subscriber as a function on the stored topologies\<close>

text \<open>What is observed of the state: the rows of the entities, the subnets and the topologies up to their times of
  update.\<close>

definition untimed :: "Topology \<Rightarrow> Topology" where
  "untimed t = t\<lparr>topology_updated_at := 0\<rparr>"

definition row_view :: "db \<Rightarrow> Subnet list \<Rightarrow> Topology list \<Rightarrow> topo_state \<Rightarrow> bool" where
  "row_view d subs R s \<longleftrightarrow> w_db (ts_world s) = d \<and> ts_subnets s = subs \<and> map untimed (ts_topologies s) = R"

definition stored :: "topo_state \<Rightarrow> Topology list" where
  "stored s = map untimed (ts_topologies s)"

lemma untimed_simps [simp]:
  "topology_id (untimed t) = topology_id t" "topology_base (untimed t) = topology_base t"
  "topology_created_at (untimed t) = topology_created_at t" "untimed (untimed t) = untimed t"
  "untimed (t\<lparr>topology_updated_at := n\<rparr>) = untimed t"
  by (simp_all add: untimed_def)

lemma row_view_counters [simp]:
  "row_view d subs R (s\<lparr>sx_calls := n\<rparr>) \<longleftrightarrow> row_view d subs R s"
  "row_view d subs R (s\<lparr>ts_events := es\<rparr>) \<longleftrightarrow> row_view d subs R s"
  "row_view d subs R (s\<lparr>ts_sent := ts\<rparr>) \<longleftrightarrow> row_view d subs R s"
  by (simp_all add: row_view_def)

lemma store_triple:
  assumes "fault_free v" and "reads a f"
  shows "step_triple (row_view d subs R) (store_step v a) (\<lambda>x s. x = f d \<and> row_view d subs R s) (\<lambda>_. False)"
  unfolding step_triple_def
proof (intro allI impI)
  fix s assume s: "row_view d subs R s"
  have "\<forall>n. io_fault (te_io v) n = None" using assms(1) by (simp add: fault_free_def)
  then obtain k where "a (te_io v) (ts_world s) = ((ts_world s)\<lparr>w_calls := k\<rparr>, Inr (f (w_db (ts_world s))))"
    using assms(2) unfolding reads_def by blast
  then show "case store_step v a s of (s1, Inr x) \<Rightarrow> x = f d \<and> row_view d subs R s1 | (s1, Inl e) \<Rightarrow> False"
    using s by (simp add: store_step_def row_view_def)
qed

lemma query_triple:
  assumes "fault_free v" and "\<And>s. row_view d subs R s \<Longrightarrow> Q (f s)"
  shows "step_triple (row_view d subs R) (query_step (te_fault v) f) (\<lambda>x s. Q x \<and> row_view d subs R s) (\<lambda>_. False)"
  using assms unfolding step_triple_def query_step_def statement_def Let_def fault_free_def by simp

text \<open>The entities of a network, as the rows have them.\<close>

definition data_of :: "db \<Rightarrow> Subnet list \<Rightarrow> uuid \<Rightarrow> entity_data" where
  "data_of d subs n =
     \<lparr>nd_hosts = sort_key host_created_at (filter (\<lambda>h. hb_network_id (host_base h) = n \<and> \<not> hb_hidden (host_base h)) (db_hosts d)),
      nd_interfaces = sort_key interface_created_at (filter (\<lambda>i. ib_network_id (interface_base i) = n) (db_interfaces d)),
      nd_subnets = sort_key subnet_created_at (filter (\<lambda>x. sb_network_id (subnet_base x) = n) subs),
      nd_groups = read_groups (\<lambda>g. gr_network_id (group_base g) = n) d,
      nd_ports = sort_key port_created_at (filter (\<lambda>p. pb_network_id (port_base p) = n) (db_ports d)),
      nd_bindings = sort_key binding_created_at (filter (\<lambda>b. bb_network_id (binding_base b) = n) (db_bindings d))\<rparr>"

definition services_of :: "db \<Rightarrow> uuid \<Rightarrow> TopologyOptions \<Rightarrow> Service list" where
  "services_of d n options = visible_services options (read_services (\<lambda>x. svb_network_id (service_base x) = n) d)"

lemma step_bind_view:
  assumes "step_triple P m (\<lambda>x s. x = c \<and> P' s) E" and "step_triple P' (f c) Q E"
  shows "step_triple P (bind_step m f) Q E"
  using assms(1)
proof (rule step_bind)
  show "step_triple (\<lambda>s. x = c \<and> P' s) (f x) Q E" for x using assms(2) by (auto simp: step_triple_def)
qed

lemma get_service_data_triple:
  assumes "fault_free v"
  shows "step_triple (row_view d subs R) (get_service_data v n options) (\<lambda>x s. x = services_of d n options \<and> row_view d subs R s) (\<lambda>_. False)"
  unfolding get_service_data_def
  by (rule step_bind_view [OF store_triple [OF assms reads_service_get_all] step_return]) (simp add: services_of_def)

lemma get_entity_data_triple:
  assumes "fault_free v"
  shows "step_triple (row_view d subs R) (get_entity_data v n) (\<lambda>x s. x = data_of d subs n \<and> row_view d subs R s) (\<lambda>_. False)"
  unfolding get_entity_data_def
  apply (rule step_bind_view [OF store_triple [OF assms reads_get_all]])
  apply (rule step_bind_view [OF store_triple [OF assms reads_get_all]])
  apply (rule step_bind_view [OF query_triple [OF assms, where Q = "\<lambda>x. x = sort_key subnet_created_at (filter (\<lambda>x. sb_network_id (subnet_base x) = n) subs)"]])
   apply (simp add: row_view_def)
  apply (rule step_bind_view [OF store_triple [OF assms reads_group_get_all]])
  apply (rule step_bind_view [OF store_triple [OF assms reads_get_all]])
  apply (rule step_bind_view [OF store_triple [OF assms reads_get_all]])
  apply (rule step_return)
  by (simp add: data_of_def host_table_def interface_table_def port_table_def binding_table_def)

lemma effect_triple: "(\<And>s. row_view d subs R s \<Longrightarrow> row_view d subs R' (f s)) \<Longrightarrow> step_triple (row_view d subs R) (effect_step f) (\<lambda>_. row_view d subs R') E"
  by (rule step_effect)

lemma topology_update_triple:
  assumes "fault_free v" and "topology_id t \<in> topology_id ` set R"
  shows "step_triple (row_view d subs R) (topology_update v t auth)
    (\<lambda>x s. untimed x = untimed t \<and> row_view d subs (map (\<lambda>x. if topology_id x = topology_id t then untimed t else x) R) s) (\<lambda>_. False)"
proof -
  let ?R' = "map (\<lambda>x. if topology_id x = topology_id t then untimed t else x) R"
  have get: "step_triple (row_view d subs R) (topology_get_by_id v (topology_id t)) (\<lambda>x s. x \<noteq> None \<and> row_view d subs R s) (\<lambda>_. False)"
    unfolding topology_get_by_id_def
  proof (rule query_triple [OF assms(1)])
    fix s assume "row_view d subs R s"
    then have "topology_id ` set R = topology_id ` set (ts_topologies s)" by (auto simp: row_view_def image_image)
    then show "find (\<lambda>y. topology_id y = topology_id t) (ts_topologies s) \<noteq> None" using assms(2) by (auto simp: find_None_iff)
  qed
  have store: "step_triple (row_view d subs R) (storage_update_topology v t) (\<lambda>x s. untimed x = untimed t \<and> row_view d subs ?R' s) (\<lambda>_. False)"
    using assms(1) by (auto simp: step_triple_def storage_update_topology_def fault_free_def row_view_def step_defs comp_def if_distrib [of untimed])
  have req: "step_triple (\<lambda>s. found \<noteq> None \<and> row_view d subs R s) (require_step e found) (\<lambda>_. row_view d subs R) (\<lambda>_. False)" for found :: "Topology option" and e
    by (cases found) (simp_all add: step_triple_def step_defs require_step_def)
  have publish: "step_triple (\<lambda>s. untimed x = untimed t \<and> row_view d subs ?R' s)
      (bind_step (topo_publish v EntityOperation_Updated x m auth) (\<lambda>_. return_step x))
      (\<lambda>x s. untimed x = untimed t \<and> row_view d subs ?R' s) (\<lambda>_. False)" for x m
    unfolding topo_publish_def
    by (rule step_bind [where R = "\<lambda>_ s. untimed x = untimed t \<and> row_view d subs ?R' s", OF step_effect step_return]) simp_all
  show ?thesis unfolding topology_update_def
    by (intro step_bind [OF get] step_bind [OF req] step_bind [OF store] publish)
qed

text \<open>What the changes of a network do to a stored topology.\<close>

definition follow_network :: "db \<Rightarrow> Subnet list \<Rightarrow> uuid \<times> TopologyChanges \<Rightarrow> Topology \<Rightarrow> Topology" where
  "follow_network d subs nc t =
     (case nc of (n, c) \<Rightarrow>
       if tp_net t = n then apply_changes c (data_of d subs n) (services_of d n (tp_options (topology_base t))) t else t)"

definition follow :: "db \<Rightarrow> Subnet list \<Rightarrow> changes_map \<Rightarrow> Topology \<Rightarrow> Topology" where
  "follow d subs m t = foldl (\<lambda>t nc. follow_network d subs nc t) t m"

lemma apply_changes_simps [simp]:
  "topology_id (apply_changes c D svc t) = topology_id t"
  "tp_net (apply_changes c D svc t) = tp_net t"
  "tp_options (topology_base (apply_changes c D svc t)) = tp_options (topology_base t)"
  "untimed (apply_changes c D svc t) = apply_changes c D svc (untimed t)"
  "topology_created_at (apply_changes c D svc t) = topology_created_at t"
  by (simp_all add: apply_changes_def apply_updated_def apply_stale_def apply_removed_def Let_def untimed_def)

lemma follow_network_simps [simp]:
  "topology_id (follow_network d subs nc t) = topology_id t"
  "tp_net (follow_network d subs nc t) = tp_net t"
  "tp_options (topology_base (follow_network d subs nc t)) = tp_options (topology_base t)"
  by (simp_all add: follow_network_def split: prod.split)

lemma update_one_triple:
  assumes v: "fault_free v" and t: "untimed t \<in> set R0" "tp_net t = n" and R0: "distinct (map topology_id R0)"
    and R: "R = map (\<lambda>x. if topology_id x \<in> I then follow_network d subs (n, c) x else x) R0"
  shows "step_triple (row_view d subs R) (update_one v n c (data_of d subs n) t)
    (\<lambda>_. row_view d subs (map (\<lambda>x. if topology_id x \<in> insert (topology_id t) I then follow_network d subs (n, c) x else x) R0)) (\<lambda>_. False)"
proof -
  let ?t = "apply_changes c (data_of d subs n) (services_of d n (tp_options (topology_base t))) t"
  let ?R' = "map (\<lambda>x. if topology_id x = topology_id ?t then untimed ?t else x) R"
  have "?R' = map (\<lambda>x. if topology_id x \<in> insert (topology_id t) I then follow_network d subs (n, c) x else x) R0"
  proof -
    have "x = untimed t" if "x \<in> set R0" "topology_id x = topology_id t" for x
      using R0 t(1) that by (metis distinct_map inj_onD untimed_simps(1))
    moreover have "untimed ?t = follow_network d subs (n, c) (untimed t)"
      using t(2) by (simp add: follow_network_def)
    ultimately show ?thesis by (auto simp: R)
  qed
  moreover have "topology_id ?t \<in> topology_id ` set R"
  proof -
    have "map topology_id R = map topology_id R0" by (simp add: R)
    then have "topology_id ` set R = topology_id ` set R0" by (metis set_map)
    then show ?thesis using t(1) by (metis apply_changes_simps(1) image_eqI untimed_simps(1))
  qed
  from topology_update_triple [OF v this] have "step_triple (row_view d subs R) (topology_update v ?t AuthenticatedEntity_System)
     (\<lambda>x s. untimed x = untimed ?t \<and> row_view d subs ?R' s) (\<lambda>_. False)" .
  moreover have "step_triple (\<lambda>s. untimed x = untimed ?t \<and> row_view d subs ?R' s) (topo_send x) (\<lambda>_. row_view d subs ?R') (\<lambda>_. False)" for x
    unfolding topo_send_def by (rule step_effect) simp
  ultimately show ?thesis
    unfolding update_one_def by (auto intro: step_bind_view [OF get_service_data_triple [OF v] step_bind])
qed

lemma update_network_triple:
  assumes v: "fault_free v" and R0: "distinct (map topology_id R0)"
  shows "step_triple (row_view d subs R0) (update_network v nc) (\<lambda>_. row_view d subs (map (follow_network d subs nc) R0)) (\<lambda>_. False)"
proof -
  obtain n c where nc: "nc = (n, c)" by (cases nc)
  let ?F = "\<lambda>I. map (\<lambda>x. if topology_id x \<in> I then follow_network d subs (n, c) x else x) R0"
  let ?Q = "\<lambda>ts. set (map untimed ts) = {x \<in> set R0. tp_net x = n}"
  have loop: "step_triple (row_view d subs R0) (for_steps (update_one v n c (data_of d subs n)) ts)
      (\<lambda>_. row_view d subs (map (follow_network d subs nc) R0)) (\<lambda>_. False)" if ts: "?Q ts" for ts
  proof -
    have one: "step_triple (row_view d subs (?F (topology_id ` set pre))) (update_one v n c (data_of d subs n) t)
        (\<lambda>_. row_view d subs (?F (topology_id ` set (pre @ [t])))) (\<lambda>_. False)" if "ts = pre @ t # post" for pre t post
    proof -
      have "untimed t \<in> set (map untimed ts)" using that by simp
      then have "untimed t \<in> set R0" "tp_net t = n" unfolding ts by simp_all
      from update_one_triple [where I = "topology_id ` set pre" and d = d and subs = subs and c = c, OF v this R0 refl]
      show ?thesis by simp
    qed
    have "step_triple (row_view d subs (?F (topology_id ` set ([] :: Topology list)))) (for_steps (update_one v n c (data_of d subs n)) ts)
        (\<lambda>_. row_view d subs (?F (topology_id ` set ts))) (\<lambda>_. False)"
      by (rule step_for [where I = "\<lambda>pre. row_view d subs (?F (topology_id ` set pre))"]) (rule one)
    moreover have "?F (topology_id ` set ts) = map (follow_network d subs nc) R0"
    proof (rule map_cong [OF refl])
      fix x assume x: "x \<in> set R0"
      have "topology_id x \<in> topology_id ` set ts" if "tp_net x = n"
      proof -
        have "x \<in> set (map untimed ts)" using x that ts by simp
        then show ?thesis by auto
      qed
      then show "(if topology_id x \<in> topology_id ` set ts then follow_network d subs (n, c) x else x) = follow_network d subs nc x"
        by (auto simp: nc follow_network_def)
    qed
    ultimately show ?thesis by simp
  qed
  have all: "step_triple (row_view d subs R0) (topology_get_all v (\<lambda>t. tp_net t = n)) (\<lambda>ts s. ?Q ts \<and> row_view d subs R0 s) (\<lambda>_. False)"
    unfolding topology_get_all_def by (rule query_triple [OF v]) (auto simp: row_view_def)
  have "step_triple (\<lambda>s. ?Q ts \<and> row_view d subs R0 s) (bind_step (get_entity_data v n) (\<lambda>D. for_steps (update_one v n c D) ts))
      (\<lambda>_. row_view d subs (map (follow_network d subs nc) R0)) (\<lambda>_. False)" for ts
  proof (cases "?Q ts")
    case True
    have "step_triple (row_view d subs R0) (bind_step (get_entity_data v n) (\<lambda>D. for_steps (update_one v n c D) ts))
        (\<lambda>_. row_view d subs (map (follow_network d subs nc) R0)) (\<lambda>_. False)"
      by (rule step_bind_view [OF get_entity_data_triple [OF v]]) (rule loop [OF True])
    then show ?thesis by (simp add: step_triple_def)
  next
    case False
    then show ?thesis by (simp add: step_triple_def)
  qed
  then show ?thesis unfolding update_network_def nc prod.case by (rule step_bind [OF all])
qed

lemma follow_simps [simp]:
  "follow d subs [] t = t" "follow d subs (m @ [nc]) t = follow_network d subs nc (follow d subs m t)"
  by (simp_all add: follow_def)

lemma follow_keeps [simp]:
  "topology_id (follow d subs m t) = topology_id t" "tp_net (follow d subs m t) = tp_net t"
  "tp_options (topology_base (follow d subs m t)) = tp_options (topology_base t)"
  by (induction m rule: rev_induct) simp_all

lemma update_networks_triple:
  assumes v: "fault_free v" and R: "distinct (map topology_id R)"
  shows "step_triple (row_view d subs R) (for_steps (update_network v) m) (\<lambda>_. row_view d subs (map (follow d subs m) R)) (\<lambda>_. False)"
proof -
  have one: "step_triple (row_view d subs (map (follow d subs pre) R)) (update_network v nc)
      (\<lambda>_. row_view d subs (map (follow d subs (pre @ [nc])) R)) (\<lambda>_. False)" for pre nc
  proof -
    have "distinct (map topology_id (map (follow d subs pre) R))" using R by (simp add: comp_def)
    from update_network_triple [where d = d and subs = subs and nc = nc, OF v this]
    have "step_triple (row_view d subs (map (follow d subs pre) R)) (update_network v nc)
        (\<lambda>_. row_view d subs (map (\<lambda>t. follow d subs (pre @ [nc]) t) R)) (\<lambda>_. False)"
      by (simp only: follow_simps map_map comp_def)
    then show ?thesis .
  qed
  have "step_triple (row_view d subs (map (follow d subs []) R)) (for_steps (update_network v) m)
      (\<lambda>_. row_view d subs (map (follow d subs m) R)) (\<lambda>_. False)"
    by (rule step_for [where I = "\<lambda>pre. row_view d subs (map (follow d subs pre) R)"]) (rule one)
  moreover have "map (follow d subs []) R = R" by (rule map_idI) simp
  ultimately show ?thesis by simp
qed

subsection \<open>The changes of a batch\<close>

text \<open>The events of a network that are recorded: an update of a topology is not, it is only sent on.\<close>

definition is_topology :: "EventEntity \<Rightarrow> bool" where
  "is_topology x \<longleftrightarrow> (case x of EventEntity_Topology _ \<Rightarrow> True | EventEntity_Other _ \<Rightarrow> False)"

definition recorded :: "uuid \<Rightarrow> Event \<Rightarrow> EntityEvent option" where
  "recorded n event =
     (case event of
        Event_Entity e \<Rightarrow>
          if ee_network_id e = Some n \<and> \<not> (is_topology (ee_entity_type e) \<and> ee_operation e = EntityOperation_Updated)
          then Some e else None
      | _ \<Rightarrow> None)"

definition track :: "TopologyChanges \<Rightarrow> EntityEvent \<Rightarrow> TopologyChanges" where
  "track c e = track_updated e (track_removed e c)"

definition batch_changes :: "uuid \<Rightarrow> Event list \<Rightarrow> TopologyChanges option" where
  "batch_changes n es =
     (case List.map_filter (recorded n) es of [] \<Rightarrow> None | l \<Rightarrow> Some (foldl track TopologyChanges_default l))"

definition collect :: "changes_map \<Rightarrow> Event \<Rightarrow> changes_map" where
  "collect m event =
     (case event of
        Event_Entity e \<Rightarrow>
          (case ee_network_id e of
             None \<Rightarrow> m
           | Some n \<Rightarrow>
               (case ee_entity_type e of
                  EventEntity_Topology t \<Rightarrow> if ee_operation e = EntityOperation_Updated then m else record_event n e m
                | EventEntity_Other _ \<Rightarrow> record_event n e m))
      | _ \<Rightarrow> m)"

lemma map_of_collect:
  "map_of (collect m event) n =
     (case recorded n event of Some e \<Rightarrow> Some (track (changes_for n m) e) | None \<Rightarrow> map_of m n)"
  by (cases event) (auto simp: collect_def recorded_def record_event_def track_def is_topology_def update_conv'
      split: option.split EventEntity.split)

lemma keys_collect: "distinct (map fst m) \<Longrightarrow> distinct (map fst (collect m event))"
  by (auto simp: collect_def record_event_def distinct_update split: Event.split option.split EventEntity.split)

lemma keys_collected: "distinct (map fst (foldl collect [] es))"
  by (induction es rule: rev_induct) (simp_all add: keys_collect)

lemma batch_changes_if:
  "batch_changes n es =
     (if List.map_filter (recorded n) es = [] then None
      else Some (foldl track TopologyChanges_default (List.map_filter (recorded n) es)))"
  by (simp add: batch_changes_def split: list.split)

lemma map_of_collected: "map_of (foldl collect [] es) n = batch_changes n es"
proof (induction es rule: rev_induct)
  case Nil
  then show ?case by (simp add: batch_changes_def List.map_filter_def)
next
  case (snoc e es)
  show ?case
  proof (cases "recorded n e")
    case None
    then show ?thesis using snoc by (simp add: map_of_collect batch_changes_def map_filter_snoc)
  next
    case (Some x)
    have "changes_for n (foldl collect [] es) = foldl track TopologyChanges_default (List.map_filter (recorded n) es)"
      using snoc by (simp add: changes_for_def batch_changes_def split: list.split)
    then show ?thesis using Some by (simp add: map_of_collect batch_changes_if map_filter_snoc)
  qed
qed

text \<open>What a batch does to a stored topology depends on the events of its network only.\<close>

definition synced :: "db \<Rightarrow> Subnet list \<Rightarrow> Event list \<Rightarrow> Topology \<Rightarrow> Topology" where
  "synced d subs es t =
     (case batch_changes (tp_net t) es of
        None \<Rightarrow> t
      | Some c \<Rightarrow> apply_changes c (data_of d subs (tp_net t)) (services_of d (tp_net t) (tp_options (topology_base t))) t)"

lemma follow_lookup:
  "distinct (map fst m) \<Longrightarrow>
   follow d subs m t = (case map_of m (tp_net t) of None \<Rightarrow> t | Some c \<Rightarrow> follow_network d subs (tp_net t, c) t)"
proof (induction m rule: rev_induct)
  case (snoc nc m)
  obtain n c where nc: "nc = (n, c)" by (cases nc)
  have IH: "follow d subs m t = (case map_of m (tp_net t) of None \<Rightarrow> t | Some c \<Rightarrow> follow_network d subs (tp_net t, c) t)"
    using snoc by simp
  show ?case
  proof (cases "tp_net t = n")
    case True
    then have "map_of m (tp_net t) = None" using snoc.prems by (auto simp: nc map_of_eq_None_iff)
    then show ?thesis using IH True by (simp add: nc map_add_def)
  next
    case False
    then have "follow_network d subs nc (follow d subs m t) = follow d subs m t" by (simp add: nc follow_network_def)
    moreover have "map_of (m @ [nc]) (tp_net t) = map_of m (tp_net t)"
      using False by (simp add: nc map_add_def split: option.split)
    ultimately show ?thesis using IH by (simp only: follow_simps)
  qed
qed simp

lemma follow_collected: "follow d subs (foldl collect [] es) t = synced d subs es t"
  by (simp add: follow_lookup [OF keys_collected] map_of_collected synced_def follow_network_def split: option.split)

subsection \<open>Handling a batch\<close>

lemma notify_updated_triple:
  assumes "fault_free v"
  shows "step_triple (row_view d subs R) (notify_updated v n b t) (\<lambda>_. row_view d subs R) (\<lambda>_. False)"
  unfolding notify_updated_def Let_def topo_send_def
  by (rule step_bind_view [OF get_service_data_triple [OF assms] step_effect]) simp

lemma collect_event_triple:
  assumes "fault_free v"
  shows "step_triple (row_view d subs R) (collect_event v m event) (\<lambda>x s. x = collect m event \<and> row_view d subs R s) (\<lambda>_. False)"
proof -
  have same: "step_triple (row_view d subs R) (return_step x) (\<lambda>y s. y = x \<and> row_view d subs R s) (\<lambda>_. False)" for x :: changes_map
    by (rule step_return) simp
  have sent: "step_triple (row_view d subs R) (bind_step (notify_updated v n b t) (\<lambda>_. return_step m))
      (\<lambda>y s. y = m \<and> row_view d subs R s) (\<lambda>_. False)" for n b t
    by (rule step_bind [OF notify_updated_triple [OF assms] same])
  show ?thesis
    unfolding collect_event_def collect_def
    by (simp add: same sent split: Event.split option.split EventEntity.split)
qed

lemma topology_handle_events_triple:
  assumes v: "fault_free v" and R: "distinct (map topology_id R)"
  shows "step_triple (row_view d subs R) (topology_handle_events v es) (\<lambda>_. row_view d subs (map (synced d subs es) R)) (\<lambda>_. False)"
proof (cases "es = []")
  case True
  have "map (synced d subs []) R = R" by (rule map_idI) (simp add: synced_def batch_changes_def List.map_filter_def)
  then show ?thesis using True by (simp add: topology_handle_events_def step_return)
next
  case False
  have one: "step_triple (\<lambda>s. m = foldl collect [] pre \<and> row_view d subs R s) (collect_event v m e)
      (\<lambda>x s. x = foldl collect [] (pre @ [e]) \<and> row_view d subs R s) (\<lambda>_. False)" for m pre e
  proof (cases "m = foldl collect [] pre")
    case True
    then show ?thesis using collect_event_triple [OF v, of d subs R m e] by simp
  next
    case False
    then show ?thesis by (simp add: step_triple_def)
  qed
  have "step_triple (\<lambda>s. [] = foldl collect [] [] \<and> row_view d subs R s) (fold_steps (collect_event v) [] es)
      (\<lambda>m s. m = foldl collect [] es \<and> row_view d subs R s) (\<lambda>_. False)"
    by (rule step_fold [where I = "\<lambda>pre m s. m = foldl collect [] pre \<and> row_view d subs R s"]) (rule one)
  then have collected: "step_triple (row_view d subs R) (fold_steps (collect_event v) [] es)
      (\<lambda>m s. m = foldl collect [] es \<and> row_view d subs R s) (\<lambda>_. False)" by simp
  have eq: "follow d subs (foldl collect [] es) = synced d subs es" by (rule ext) (rule follow_collected)
  have "step_triple (row_view d subs R) (for_steps (update_network v) (foldl collect [] es))
      (\<lambda>_. row_view d subs (map (synced d subs es) R)) (\<lambda>_. False)"
    using update_networks_triple [OF v R, of d subs "foldl collect [] es"] by (simp only: eq)
  from step_bind_view [where f = "for_steps (update_network v)", OF collected this] show ?thesis
    using False by (simp only: topology_handle_events_def if_False)
qed

lemma handled:
  assumes "fault_free v" and "distinct (map topology_id (ts_topologies s))"
  shows "\<exists>s1. topology_handle_events v es s = (s1, Inr ()) \<and> stored s1 = map (synced (w_db (ts_world s)) (ts_subnets s) es) (stored s) \<and>
    w_db (ts_world s1) = w_db (ts_world s) \<and> ts_subnets s1 = ts_subnets s"
proof -
  obtain s1 r where run: "topology_handle_events v es s = (s1, r)" by (cases "topology_handle_events v es s")
  have "distinct (map topology_id (stored s))" using assms(2) by (simp add: stored_def comp_def)
  note triple = topology_handle_events_triple [OF assms(1) this, of "w_db (ts_world s)" "ts_subnets s" es]
  have "row_view (w_db (ts_world s)) (ts_subnets s) (stored s) s" by (simp add: row_view_def stored_def)
  from step_apply [OF triple this run] show ?thesis using run by (auto simp: row_view_def stored_def)
qed


subsection \<open>Handling a batch again\<close>

lemma push_new_all [simp]: "set ys \<subseteq> set xs \<Longrightarrow> foldl push_new xs ys = xs"
  by (induction ys) (simp_all add: push_new_def)

lemma set_push_new [simp]: "set (foldl push_new xs ys) = set xs \<union> set ys"
  by (induction ys arbitrary: xs) (auto simp: push_new_def)

lemma apply_removed_again:
  "apply_removed c (apply_updated c D svc (apply_stale c (apply_removed c b))) = apply_updated c D svc (apply_stale c (apply_removed c b))"
  by (rule TopologyBase.equality) (simp_all add: apply_updated_def apply_stale_def apply_removed_def Let_def)

lemma apply_stale_again: "apply_stale c (apply_updated c D svc (apply_stale c b)) = apply_updated c D svc (apply_stale c b)"
  by (rule TopologyBase.equality) (simp_all add: apply_updated_def apply_stale_def Let_def)

lemma apply_updated_again: "apply_updated c D svc (apply_updated c D svc b) = apply_updated c D svc b"
  by (rule TopologyBase.equality) (simp_all add: apply_updated_def)

lemma apply_changes_again: "apply_changes c D svc (apply_changes c D svc t) = apply_changes c D svc t"
  by (simp add: apply_changes_def apply_removed_again apply_stale_again apply_updated_again)

lemma synced_keeps [simp]:
  "tp_net (synced d subs es t) = tp_net t" "topology_id (synced d subs es t) = topology_id t"
  "tp_options (topology_base (synced d subs es t)) = tp_options (topology_base t)"
  by (simp_all add: synced_def split: option.split)

lemma synced_again: "synced d subs es (synced d subs es t) = synced d subs es t"
  by (cases "batch_changes (tp_net t) es") (simp_all add: synced_def apply_changes_again)

lemma untimed_synced [simp]: "untimed (synced d subs es t) = synced d subs es (untimed t)"
  by (simp add: synced_def split: option.split)

lemma distinct_stored: "distinct (map topology_id (stored s)) \<longleftrightarrow> distinct (map topology_id (ts_topologies s))"
  by (simp add: stored_def comp_def)

interpretation topology_batches: repeatable_handler "topology_handle_events v" stored
    "\<lambda>s. fault_free v \<and> distinct (map topology_id (ts_topologies s))" for v :: "'g topo_env"
proof
  fix s :: topo_state and es
  assume a: "fault_free v \<and> distinct (map topology_id (ts_topologies s))"
  obtain s1 where s1: "topology_handle_events v es s = (s1, Inr ())" "stored s1 = map (synced (w_db (ts_world s)) (ts_subnets s) es) (stored s)"
      "w_db (ts_world s1) = w_db (ts_world s)" "ts_subnets s1 = ts_subnets s"
    using handled [of v s es] a by blast
  have "distinct (map topology_id (ts_topologies s1))"
    using a distinct_stored [of s1] distinct_stored [of s] by (simp add: s1(2) comp_def)
  then obtain s2 where s2: "topology_handle_events v es s1 = (s2, Inr ())" "stored s2 = map (synced (w_db (ts_world s)) (ts_subnets s) es) (stored s1)"
    using handled [of v s1 es] a s1(3,4) by auto
  show "stored (fst (topology_handle_events v es (fst (topology_handle_events v es s)))) = stored (fst (topology_handle_events v es s))"
    using s1(1) s2 by (simp add: s1(2) synced_again)
qed

text \<open>C17. A batch that is handled twice. The bus handles every batch of a subscriber with a window two times.
  For the subscriber of the stored maps, without failures of the database, that leaves the maps as one handling
  of the batch without its duplicates does, and no event stays pending.\<close>

theorem topology_flush_once:
  assumes "fault_free v" and "distinct (map topology_id (ts_topologies s))"
    and "ss_subscriber b = topology_subscriber v" and "flush_batch b s = (b1, s1)"
  shows "ss_pending_events b1 = [] \<and>
    stored s1 = map (synced (w_db (ts_world s)) (ts_subnets s) (unique_events (ss_pending_events b))) (stored s)"
proof (cases "ss_pending_events b = []")
  case True
  have "map (synced (w_db (ts_world s)) (ts_subnets s) []) (stored s) = stored s"
    by (rule map_idI) (simp add: synced_def batch_changes_def List.map_filter_def)
  then show ?thesis using True assms(4) by (simp add: flush_batch_def)
next
  case False
  have h: "evs_handle_events (ss_subscriber b) = topology_handle_events v" using assms(3) by (simp add: topology_subscriber_def)
  have a: "fault_free v \<and> distinct (map topology_id (ts_topologies s))" using assms(1,2) by simp
  show ?thesis
  proof
    show "ss_pending_events b1 = []" using topology_batches.flush_as_once(1) [OF h a False] assms(4) by simp
    obtain s2 where "topology_handle_events v (unique_events (ss_pending_events b)) s = (s2, Inr ())"
      "stored s2 = map (synced (w_db (ts_world s)) (ts_subnets s) (unique_events (ss_pending_events b))) (stored s)"
      using handled [OF assms(1,2), of "unique_events (ss_pending_events b)"] by blast
    then show "stored s1 = map (synced (w_db (ts_world s)) (ts_subnets s) (unique_events (ss_pending_events b))) (stored s)"
      using topology_batches.flush_as_once(2) [OF h a False] assms(4) by simp
  qed
qed

subsection \<open>Refreshing on demand\<close>

lemma step_succeeds:
  assumes "step_triple P m Q (\<lambda>_. False)" and "P s"
  obtains x s1 where "m s = (s1, Inr x)" "Q x s1"
  using step_apply [OF assms, of "fst (m s)" "snd (m s)"] by (metis prod.collapse)

lemma load_entities_succeeds:
  assumes "fault_free v" and "row_view d subs R s"
  obtains s1 where "load_entities v t s = (s1, Inr (data_of d subs (tp_net t), services_of d (tp_net t) (tp_options (topology_base t))))"
    "row_view d subs R s1"
proof -
  obtain s1 where s1: "get_entity_data v (tp_net t) s = (s1, Inr (data_of d subs (tp_net t)))" "row_view d subs R s1"
    using step_succeeds [OF get_entity_data_triple [OF assms(1)] assms(2)] by metis
  obtain s2 where s2: "get_service_data v (tp_net t) (tp_options (topology_base t)) s1 =
      (s2, Inr (services_of d (tp_net t) (tp_options (topology_base t))))" "row_view d subs R s2"
    using step_succeeds [OF get_service_data_triple [OF assms(1)] s1(2)] by metis
  have "load_entities v t s = (s2, Inr (data_of d subs (tp_net t), services_of d (tp_net t) (tp_options (topology_base t))))"
    by (simp add: load_entities_def bind_handler_def call_service_def guard_handler_def s1(1) s2(1))
  then show ?thesis using s2(2) that by blast
qed

lemma topology_set_entities_simps [simp]:
  "topology_id (Topology_set_entities p t) = topology_id t"
  by (simp add: Topology_set_entities_def)


subsection \<open>Examples\<close>

definition sample_topology :: "uuid \<Rightarrow> uuid \<Rightarrow> Topology" where
  "sample_topology i n =
     \<lparr>topology_id = i, topology_created_at = 0, topology_updated_at = 0, topology_base =
       \<lparr>tp_name = ''Map'', tp_options = TopologyOptions_default, tp_network_id = n, tp_tags = [], tp_parent_id = None,
        tp_nodes = [], tp_edges = [], tp_hosts = [], tp_interfaces = [], tp_ports = [], tp_bindings = [],
        tp_subnets = [], tp_services = [], tp_groups = [], tp_is_stale = False, tp_last_refreshed = 0,
        tp_is_locked = False, tp_locked_at = None, tp_locked_by = None, tp_removed_hosts = [],
        tp_removed_interfaces = [], tp_removed_subnets = [], tp_removed_services = [], tp_removed_groups = [],
        tp_removed_ports = [], tp_removed_bindings = []\<rparr>\<rparr>"

definition sample_topo_env :: "list_graph topo_env" where
  "sample_topo_env =
     \<lparr>te_fault = (\<lambda>_. None), te_now = int, te_fresh = of_nat, te_show_uuid = (\<lambda>_. ''id''), te_io = sample_io,
      te_build = sample_build\<rparr>"

definition sample_topo_state :: topo_state where
  "sample_topo_state =
     \<lparr>sx_calls = 0, ts_topologies = [sample_topology 1 1, sample_topology 2 5], ts_subnets = [], ts_organizations = [],
      ts_world = sample_world sample_db, ts_events = [], ts_sent = []\<rparr>"

definition sample_member :: AuthenticatedEntity where
  "sample_member = AuthenticatedEntity_User 8 9 Member [1] ''m@example.com''"

definition host_deleted :: "uuid \<Rightarrow> uuid \<Rightarrow> Event" where
  "host_deleted i n =
     Event_Entity \<lparr>ee_id = 0, ee_entity_type = EventEntity_Other ED_Host, ee_entity_id = i, ee_network_id = Some n,
       ee_organization_id = None, ee_operation = EntityOperation_Deleted, ee_timestamp = 0,
       ee_authentication = AuthenticatedEntity_System, ee_metadata = [(''trigger_stale'', JsonBool True)]\<rparr>"

lemma sample_fault_free: "fault_free sample_topo_env"
  by (simp add: fault_free_def sample_topo_env_def sample_io_def)

lemma sample_stored: "ts_topologies sample_topo_state = [sample_topology 1 1, sample_topology 2 5]"
  by (simp add: sample_topo_state_def)

lemma sample_topology_ids: "distinct (map topology_id (ts_topologies sample_topo_state))"
  by (simp add: sample_stored sample_topology_def)

lemma sample_synced:
  "map (\<lambda>t. (topology_id t, tp_is_stale (topology_base t), tp_removed_hosts (topology_base t)))
     (map (synced d subs [host_deleted 7 1]) (stored sample_topo_state)) = [(1, True, [7]), (2, False, [])]"
  by (simp add: stored_def sample_stored sample_topology_def synced_def batch_changes_def List.map_filter_def recorded_def
      host_deleted_def is_topology_def track_def track_updated_def track_removed_def metadata_flag_def
      TopologyChanges_default_def apply_changes_def apply_updated_def apply_stale_def apply_removed_def push_new_def untimed_def Let_def)



definition sample_batch :: "topo_state SubscriberState" where
  "sample_batch =
     \<lparr>ss_subscriber = topology_subscriber sample_topo_env, ss_pending_events = [host_deleted 7 1, host_deleted 7 1]\<rparr>"

lemma sample_batch_simps:
  "ss_subscriber sample_batch = topology_subscriber sample_topo_env"
  "unique_events (ss_pending_events sample_batch) = [host_deleted 7 1]"
  by (simp_all add: sample_batch_def unique_events_def host_deleted_def EntityEvent_eq_def)

theorem topology_flush_once_witness:
  "map (\<lambda>t. (topology_id t, tp_is_stale (topology_base t), tp_removed_hosts (topology_base t)))
     (stored (snd (flush_batch sample_batch sample_topo_state))) =
   [(1, True, [7]), (2, False, [])]"
  using topology_flush_once [OF sample_fault_free sample_topology_ids sample_batch_simps(1) surjective_pairing]
  by (simp only: sample_batch_simps(2) sample_synced)


end
