(* ===== verification/Spec2Isabelle.thy ===== *)
theory Spec2Isabelle
  imports Ports Positions Permissions Daemon_Version Subnets Patterns Services Registry Discovery
    Host_Update Topology_Sync
begin

text \<open>
  Verification of the VantageNet backend (Rust, \<^verbatim>\<open>backend/src\<close>), a network scanner and inventory.

  \<^bold>\<open>The program.\<close> A daemon scans a network: it probes hosts for open ports and HTTP endpoints, matches
  the answers against the patterns of a registry of service definitions, and reports hosts, interfaces,
  ports and services to the server. The server starts, queues and supervises the scans (discovery
  sessions), stores what they find, and offers an API to edit it. Services are bound to ports and
  interfaces of their host; the central rule of the stored data is that a port is claimed by one
  service only.

  \<^bold>\<open>Theories and what they model.\<close> Paths are below \<^verbatim>\<open>backend/src\<close>.

  \<^item> \<^verbatim>\<open>Prelude\<close>: result type, machine integers, string functions and list lemmas that the others share.
  \<^item> \<^verbatim>\<open>Api\<close>: errors of the API and the tenant checks (\<^verbatim>\<open>server/shared/types/api.rs\<close>,
    \<^verbatim>\<open>server/shared/validation.rs\<close>); the locale \<open>access_check\<close> is interpreted for each of the checks.
  \<^item> \<^verbatim>\<open>Ports\<close>, \<^verbatim>\<open>Entities\<close>, \<^verbatim>\<open>Subnets\<close>, \<^verbatim>\<open>Positions\<close>, \<^verbatim>\<open>Permissions\<close>, \<^verbatim>\<open>Daemon_Version\<close>: the data of
    the domain and its rules (\<^verbatim>\<open>server/ports/impl\<close>, \<^verbatim>\<open>server/bindings/impl\<close>, \<^verbatim>\<open>server/interfaces/impl\<close>,
    \<^verbatim>\<open>server/subnets/impl\<close>, \<^verbatim>\<open>server/shared/position.rs\<close>, \<^verbatim>\<open>server/users/impl/permissions.rs\<close>,
    \<^verbatim>\<open>server/daemons/impl/version.rs\<close>). Shown: round trips of serialised and stored ports, validation
    of positions is equivalent to being a permutation of \<open>0..n-1\<close>, reordering refines the move of a
    list element, no permission can be granted above one's own.
  \<^item> \<^verbatim>\<open>Service_Types\<close>, \<^verbatim>\<open>Patterns\<close>, \<^verbatim>\<open>Services\<close>, \<^verbatim>\<open>Definitions_*\<close>, \<^verbatim>\<open>Registry\<close>: service definitions, the
    pattern matcher, the identification of services on a scanned host and the registered definitions
    (\<^verbatim>\<open>server/services/impl\<close>, \<^verbatim>\<open>server/services/definitions\<close>, \<^verbatim>\<open>daemon/discovery/service/base.rs\<close>,
    \<^verbatim>\<open>daemon/utils/scanner.rs\<close>). Shown: the matcher decides a declarative meaning of patterns, every
    open port is reported and bound exactly once, which definitions can never be found.
  \<^item> \<^verbatim>\<open>Discovery\<close>: the discovery sessions of the server (\<^verbatim>\<open>server/discovery\<close>), a record of the session
    map, the queue per daemon, the cancellation flags and the scheduler, with one function per operation
    and a step relation over all of them. Shown: an invariant of every reachable state, what each
    operation does, and where the code falls short of it.
  \<^item> \<^verbatim>\<open>Binding_Rules\<close>: the rules on bindings that need no database (\<^verbatim>\<open>server/services/service.rs\<close>):
    conflicts, deduplication, merging, claims, reassignment to another host. Each is shown equivalent to
    a declarative specification.
  \<^item> \<^verbatim>\<open>Host_Types\<close>: hosts, groups, requests and responses (\<^verbatim>\<open>server/hosts/impl\<close>, \<^verbatim>\<open>server/groups/impl\<close>).
  \<^item> \<^verbatim>\<open>Store\<close>: the database, the generic storage and the default methods of the CRUD services
    (\<^verbatim>\<open>server/shared/storage/generic.rs\<close>, \<^verbatim>\<open>server/shared/services/traits.rs\<close>), and a Hoare calculus
    (\<open>triple\<close>) for operations that may fail at every statement. The locale \<open>stored_table\<close> states what a
    table implementation promises and is interpreted for the six tables.
  \<^item> \<^verbatim>\<open>Service_Service\<close>, \<^verbatim>\<open>Binding_Safety\<close>: the service of services (\<^verbatim>\<open>server/services/service.rs\<close>), the
    invariant \<open>binding_inv\<close> on stored bindings, and that creating, updating and deleting services keep it.
  \<^item> \<^verbatim>\<open>Host_Service\<close>, \<^verbatim>\<open>Host_Safety\<close>: the host service (\<^verbatim>\<open>server/hosts/service.rs\<close>), and that storing a
    scan result and deleting a host keep the invariant.
  \<^item> \<^verbatim>\<open>Host_Update\<close>: editing a host with its children through one request keeps the invariant too, and a
    request made against an older version of the host changes nothing.
  \<^item> \<^verbatim>\<open>Topology_Types\<close>, \<^verbatim>\<open>Topology_Context\<close>, \<^verbatim>\<open>Edge_Builder\<close>: the data of a map, the queries on the entities
    it is built from, and its edges (\<^verbatim>\<open>server/topology/types\<close>, \<^verbatim>\<open>server/topology/service/context.rs\<close>,
    \<^verbatim>\<open>edge_builder.rs\<close>). Shown: which pairs of interfaces are joined, and where edges start and end.
  \<^item> \<^verbatim>\<open>Child_Planner\<close>, \<^verbatim>\<open>Subnet_Planner\<close>: the placement of interfaces in their subnets and of subnets in
    rows (\<^verbatim>\<open>server/topology/service/planner\<close>). \<^verbatim>\<open>Optimizer\<close>: the optimiser that moves them
    (\<^verbatim>\<open>server/topology/service/optimizer\<close>). \<^verbatim>\<open>Optimizer_Safety\<close>: every step of the optimiser keeps the map
    arranged, its loops end, and closing up a row is a scan from left to right.
  \<^item> \<^verbatim>\<open>Topology_Graph\<close>: \<open>build_graph\<close> (\<^verbatim>\<open>server/topology/service/main.rs\<close>) over the graph library, whose
    documented behaviour is the locale \<open>petgraph\<close>. Shown: no two boxes of a built map overlap, and which
    handles are carried over from the previous map.
  \<^item> \<^verbatim>\<open>Numbers\<close>: conversions of the standard library between integers and floating-point numbers. \<^verbatim>\<open>Steps\<close>:
    sequencing of operations on a state that may fail, and the rules (\<open>step_triple\<close>) by which the theories
    below are proved.
  \<^item> \<^verbatim>\<open>Billing\<close>: plans, their prices and features (\<^verbatim>\<open>server/billing/types\<close>, \<^verbatim>\<open>server/billing/plans.rs\<close>). Shown: the
    price of a year is exact for every rounding of \<open>f32\<close>, and which features are shown for a plan.
  \<^item> \<^verbatim>\<open>Authentication\<close>: the sender of a request, API keys, and the permissions a handler asks for
    (\<^verbatim>\<open>server/auth/middleware\<close>, \<^verbatim>\<open>server/shared/api_key_common.rs\<close>). Shown: a handler runs only for a sender
    who proved who it is and has what the handler asks for; the entity is extracted once per request.
  \<^item> \<^verbatim>\<open>Billing_Service\<close>: invitations, the webhook of the payment provider, the quantities of seats and networks,
    and the gates before a request (\<^verbatim>\<open>server/billing/service.rs\<close>, \<^verbatim>\<open>server/invites/service.rs\<close>,
    \<^verbatim>\<open>server/auth/middleware/billing.rs\<close> and \<^verbatim>\<open>features.rs\<close>). Shown: a change to a smaller plan removes the
    networks created last and no other, whatever fails; when a request is refused for want of payment.
  \<^item> \<^verbatim>\<open>Event_Bus\<close>: events, filters, subscribers and batches (\<^verbatim>\<open>server/shared/events\<close>), and two subscribers. The
    locale \<open>repeatable_handler\<close> is the contract of a handler for which handling a batch twice, as the bus
    does, makes no difference. \<^verbatim>\<open>Crud_Handlers\<close>: the generic handlers (\<^verbatim>\<open>server/shared/handlers/traits.rs\<close>) over
    an entity and its service; the locale \<open>row_service\<close> states what they rely on.
  \<^item> \<^verbatim>\<open>Topology_Service\<close>, \<^verbatim>\<open>Topology_Sync\<close>: the stored maps, their handlers and the subscriber that follows the
    entities (\<^verbatim>\<open>server/topology/service\<close>, \<^verbatim>\<open>server/topology/handlers.rs\<close>). Both locales are interpreted here. Shown:
    the generic handlers never touch a map of a network that the sender has no access to; the subscriber
    refines a function on the stored maps, \<open>synced\<close>, that reads for each map the events of its own network only.

  \<^bold>\<open>State and failures.\<close> An operation on the database is a function of an environment (which calls fail,
  the clock, fresh identifiers) and the \<open>world\<close> (rows, published events, numbers of calls and drawn
  identifiers). Every call may fail, with no effect; the code has no transactions, so what was written
  before stays. Theorems about invariants hold for every environment, so at every point where an
  operation can stop. Errors are values of \<open>anyhow_error\<close> or \<open>ApiError\<close>; every early return of the code is
  a branch of the model. All functions are total: loops are recursion over lists; the two loops of the
  optimiser recurse over the iterations that the code allows (10 and 20), and \<open>optimize_loop\<close>, a partial
  function in the shape of the source, is shown to return the same.

  \<^bold>\<open>Code that is not in the repository\<close> is a parameter: version comparison (semver), MAC vendors and IP
  classification, the HTTP client, the cron scheduler, the graph library, formatting of identifiers and
  times. Floating-point numbers are rationals with rounding as a parameter. What is
  assumed of it is a hypothesis of the theorem that needs it. Iteration over hash maps and sets has an
  arbitrary order given as an argument where it matters, and the order of the rows otherwise. Times are
  integers: milliseconds in \<^verbatim>\<open>Discovery\<close>, nanoseconds in \<^verbatim>\<open>Store\<close> and the theories above it.

  \<^bold>\<open>Not modelled.\<close> Locks between concurrent operations on one host or service (each operation runs
  alone; the interleaving of session starts is modelled in \<^verbatim>\<open>Discovery\<close>). SQL text and filters;
  serialisation of hosts, services and groups to rows, which are stored as they are, except that a port
  type is normalised and bindings have a table of their own. Login, sessions and passwords; the calls that only
  forward to the payment provider; the timers of the event bus, whose effect is the handling of a batch; the
  remaining CRUD services and HTTP handlers; the daemon's sockets and Docker access, e-mail, logging, and the
  web interface.
\<close>

section \<open>Properties that span components\<close>



end
